(* ===== verification/Prelude.thy ===== *)
theory Prelude
  imports Main "HOL-Library.Char_ord" "HOL-Library.List_Lexorder" "HOL-Library.AList"
begin

text \<open>
  The vocabulary every other theory of the development speaks.

  \<^item> Go's \<open>(value, error)\<close> results, and panics, as the datatype \<open>res\<close>; a fallible, stateful Go
    function is a function of type \<open>('s, 'a) go\<close>, and \<open>tryM\<close> is the idiom
    \<^verbatim>\<open>x, err := f(); if err != nil { return err }\<close>.
  \<^item> The error values the program distinguishes, as the datatype \<open>goerror\<close>.
  \<^item> Go maps (\<open>gomap\<close>): \<open>None\<close> is the nil map, \<open>Some kvs\<close> a made map whose entries are listed
    in the order in which a \<open>range\<close> loop happens to visit them. That order is arbitrary in Go, so
    every theorem is proved for all lists.
  \<^item> The functions of the packages \<open>strings\<close> and \<open>sort\<close> that the program calls.
  \<^item> The locale \<open>step_relation\<close>: a reflexive and transitive relation between the state before and
    after a call is carried through \<open>tryM\<close>, loops and ignored errors. Frame properties of the
    components (which files, which daemon state a call leaves alone) are its interpretations.
\<close>

section \<open>Lemma collections\<close>

named_theorems go_defs \<open>definitions of the monadic vocabulary\<close>
named_theorems frame_intros \<open>introduction rules for frame properties\<close>

section \<open>Errors and results\<close>

text \<open>The codes of \<^verbatim>\<open>google.golang.org/grpc/codes\<close> that the program uses.\<close>

datatype code =
    Unimplemented | PermissionDenied | Unavailable | FailedPrecondition | AlreadyExists
  | InvalidArgument | ResourceExhausted | NotFound

fun code_text :: "code \<Rightarrow> string" where
  "code_text Unimplemented = ''Unimplemented''"
| "code_text PermissionDenied = ''PermissionDenied''"
| "code_text Unavailable = ''Unavailable''"
| "code_text FailedPrecondition = ''FailedPrecondition''"
| "code_text AlreadyExists = ''AlreadyExists''"
| "code_text InvalidArgument = ''InvalidArgument''"
| "code_text ResourceExhausted = ''ResourceExhausted''"
| "code_text NotFound = ''NotFound''"

text \<open>
  One constructor per sentinel error or error type that some code tests for with
  \<open>errors.Is\<close> or a type assertion; every other error is an \<open>ErrorString\<close> with its text.
  \<open>ErrNotExist\<close> stands for every error that wraps \<open>fs.ErrNotExist\<close>.
\<close>

datatype goerror =
    ErrorString string
  | ErrNotExist string
  | ErrNotFoundDocker string
  | ErrConflictDocker string
  | ErrorAddOnNotFound
  | ErrorAddOnAlreadyInstalled
  | UnsupportedPlatformError string
  | InvalidManifestError string
  | SshRootAccessNotEnabledError
  | NotEnoughDiskSpaceError string
  | SchemaValidationError string
  | RemoteRegistryConnectionError string
  | ErrTxDone
  | ErrCanceled
  | GrpcStatus code string "string option"

text \<open>The method \<open>Error()\<close> of an error value.\<close>

fun err_text :: "goerror \<Rightarrow> string" where
  "err_text (ErrorString m) = m"
| "err_text (ErrNotExist m) = m"
| "err_text (ErrNotFoundDocker m) = m"
| "err_text (ErrConflictDocker m) = m"
| "err_text ErrorAddOnNotFound = ''Not found.''"
| "err_text ErrorAddOnAlreadyInstalled = ''Already installed.''"
| "err_text (UnsupportedPlatformError m) = m"
| "err_text (InvalidManifestError m) = m"
| "err_text SshRootAccessNotEnabledError = ''System ssh root access is not enabled''"
| "err_text (NotEnoughDiskSpaceError m) = m"
| "err_text (SchemaValidationError m) = m"
| "err_text (RemoteRegistryConnectionError m) = m"
| "err_text ErrTxDone =
     ''uc-aom: transaction has already been committed or rolled back''"
| "err_text ErrCanceled = ''context canceled''"
| "err_text (GrpcStatus c m r) = ''rpc error: code = '' @ code_text c @ '' desc = '' @ m"

text \<open>
  The outcome of a call: a value, an error the caller sees, or a panic, which unwinds the
  goroutine (no function of the program recovers from one).
\<close>

datatype 'a res = Ok 'a | Err goerror | Panic string

fun is_ok :: "'a res \<Rightarrow> bool" where
  "is_ok (Ok _) = True"
| "is_ok _ = False"

fun bind_res :: "'a res \<Rightarrow> ('a \<Rightarrow> 'b res) \<Rightarrow> 'b res" where
  "bind_res (Ok x) k = k x"
| "bind_res (Err e) k = Err e"
| "bind_res (Panic p) k = Panic p"

lemma bind_res_Ok_iff: "bind_res r k = Ok y \<longleftrightarrow> (\<exists>x. r = Ok x \<and> k x = Ok y)"
  by (cases r) auto

text \<open>A loop that collects results and returns at the first error.\<close>

fun mapR :: "('a \<Rightarrow> 'b res) \<Rightarrow> 'a list \<Rightarrow> 'b list res" where
  "mapR f [] = Ok []"
| "mapR f (x # xs) = bind_res (f x) (\<lambda>y. bind_res (mapR f xs) (\<lambda>ys. Ok (y # ys)))"

lemma mapR_Ok: "(\<And>x. x \<in> set xs \<Longrightarrow> f x = Ok (g x)) \<Longrightarrow> mapR f xs = Ok (map g xs)"
  by (induction xs) auto

lemma mapR_map: "mapR f (map g xs) = mapR (\<lambda>x. f (g x)) xs"
  by (induction xs) auto

lemma mapR_Ok_iff: "mapR f xs = Ok ys \<longleftrightarrow> list_all2 (\<lambda>x y. f x = Ok y) xs ys"
  by (induction xs arbitrary: ys) (auto simp: bind_res_Ok_iff list_all2_Cons1)

section \<open>Stateful, fallible calls\<close>

type_synonym ('s, 'a) go = "'s \<Rightarrow> 'a res \<times> 's"

definition ret :: "'a \<Rightarrow> ('s, 'a) go" where
  [go_defs]: "ret x s = (Ok x, s)"

definition fail :: "goerror \<Rightarrow> ('s, 'a) go" where
  [go_defs]: "fail e s = (Err e, s)"

definition panicM :: "string \<Rightarrow> ('s, 'a) go" where
  [go_defs]: "panicM p s = (Panic p, s)"

definition liftR :: "'a res \<Rightarrow> ('s, 'a) go" where
  [go_defs]: "liftR r s = (r, s)"

definition tryM :: "('s, 'a) go \<Rightarrow> ('a \<Rightarrow> ('s, 'b) go) \<Rightarrow> ('s, 'b) go" where
  [go_defs]: "tryM m k s =
     (case m s of
        (Ok x, s') \<Rightarrow> k x s'
      | (Err e, s') \<Rightarrow> (Err e, s')
      | (Panic p, s') \<Rightarrow> (Panic p, s'))"

text \<open>The error is handed to the caller instead of ending the function.\<close>

definition attemptM :: "('s, 'a) go \<Rightarrow> ('s, goerror + 'a) go" where
  [go_defs]: "attemptM m s =
     (case m s of
        (Ok x, s') \<Rightarrow> (Ok (Inr x), s')
      | (Err e, s') \<Rightarrow> (Ok (Inl e), s')
      | (Panic p, s') \<Rightarrow> (Panic p, s'))"

text \<open>A call whose error result is dropped (or only logged).\<close>

definition ignoreM :: "('s, 'a) go \<Rightarrow> ('s, unit) go" where
  [go_defs]: "ignoreM m = tryM (attemptM m) (\<lambda>_. ret ())"

definition getM :: "('s \<Rightarrow> 'a) \<Rightarrow> ('s, 'a) go" where
  [go_defs]: "getM f s = (Ok (f s), s)"

definition modifyM :: "('s \<Rightarrow> 's) \<Rightarrow> ('s, unit) go" where
  [go_defs]: "modifyM f s = (Ok (), f s)"

text \<open>A \<open>range\<close> loop that returns at the first error.\<close>

fun eachM :: "('x \<Rightarrow> ('s, unit) go) \<Rightarrow> 'x list \<Rightarrow> ('s, unit) go" where
  "eachM f [] = ret ()"
| "eachM f (x # xs) = tryM (f x) (\<lambda>_. eachM f xs)"

text \<open>
  \<^verbatim>\<open>defer d\<close>: \<open>d\<close> runs when the function returns or panics; its own error is dropped.
\<close>

definition deferM :: "('s, 'b) go \<Rightarrow> ('s, 'a) go \<Rightarrow> ('s, 'a) go" where
  [go_defs]: "deferM d m s =
     (case m s of (r, s') \<Rightarrow>
       (case d s' of
          (Panic p, s'') \<Rightarrow> (Panic p, s'')
        | (_, s'') \<Rightarrow> (r, s'')))"

text \<open>\<^verbatim>\<open>fmt.Errorf("before: %v after", err)\<close> around the error of a call.\<close>

definition wrapErr :: "string \<Rightarrow> string \<Rightarrow> ('s, 'a) go \<Rightarrow> ('s, 'a) go" where
  "wrapErr before after m =
     tryM (attemptM m) (\<lambda>r. case r of Inl e \<Rightarrow> fail (ErrorString (before @ err_text e @ after)) | Inr x \<Rightarrow> ret x)"

text \<open>A call on one part of a larger state.\<close>

definition onPart :: "('s \<Rightarrow> 'c) \<Rightarrow> ('c \<Rightarrow> 's \<Rightarrow> 's) \<Rightarrow> ('c, 'a) go \<Rightarrow> ('s, 'a) go" where
  [go_defs]: "onPart sel put m s = (case m (sel s) of (r, c) \<Rightarrow> (r, put c s))"

lemma tryM_simps [simp]:
  "tryM (ret x) k = k x"
  "tryM (fail e) k = fail e"
  "tryM (panicM p) k = panicM p"
  "tryM (liftR (Ok x)) k = k x"
  "tryM (liftR (Err e)) k = fail e"
  "tryM (liftR (Panic p)) k = panicM p"
  "tryM (getM f) k s = k (f s) s"
  "tryM (modifyM g) k s = k () (g s)"
  by (auto simp: go_defs fun_eq_iff)

lemma tryM_pure:
  "tryM (ret x) k = k x"
  "tryM (fail e) k = fail e"
  "tryM (panicM p) k = panicM p"
  "tryM (liftR (Ok x)) k = k x"
  "tryM (liftR (Err e)) k = fail e"
  "tryM (liftR (Panic p)) k = panicM p"
  by (auto simp: go_defs fun_eq_iff)

lemma run_simps [simp]:
  "ret x s = (Ok x, s)"
  "fail e s = (Err e, s)"
  "panicM p s = (Panic p, s)"
  "liftR r s = (r, s)"
  "getM f s = (Ok (f s), s)"
  "modifyM g s = (Ok (), g s)"
  by (simp_all add: go_defs)

text \<open>
  Applied to a state, \<open>ret\<close> and \<open>fail\<close> are pairs; the simplifier's normal form of a call that does
  not touch the state is therefore \<open>Pair r\<close>.
\<close>

lemma tryM_Pair [simp]:
  "tryM (Pair (Ok x)) k = k x"
  "tryM (Pair (Err e)) k = Pair (Err e)"
  "tryM (Pair (Panic p)) k = Pair (Panic p)"
  by (auto simp: tryM_def fun_eq_iff)

lemma tryM_assoc: "tryM (tryM m k) h = tryM m (\<lambda>x. tryM (k x) h)"
  by (auto simp: tryM_def fun_eq_iff split: prod.splits res.splits)

lemma tryM_run:
  "m s = (Ok x, s') \<Longrightarrow> tryM m k s = k x s'"
  "m s = (Err e, s') \<Longrightarrow> tryM m k s = (Err e, s')"
  "m s = (Panic p, s') \<Longrightarrow> tryM m k s = (Panic p, s')"
  by (simp_all add: tryM_def)

lemma tryM_OkE:
  assumes "tryM m k s = (Ok y, t)"
  obtains x s' where "m s = (Ok x, s')" and "k x s' = (Ok y, t)"
  using assms by (auto simp: tryM_def split: prod.splits res.splits)

lemma tryM_ErrE:
  assumes "tryM m k s = (Err e, t)"
  obtains "m s = (Err e, t)" | x s' where "m s = (Ok x, s')" and "k x s' = (Err e, t)"
  using assms by (auto simp: tryM_def split: prod.splits res.splits)

lemma ignoreM_run: "m s = (r, s') \<Longrightarrow> (\<And>p. r \<noteq> Panic p) \<Longrightarrow> ignoreM m s = (Ok (), s')"
  by (cases r) (auto simp: ignoreM_def attemptM_def tryM_def)

lemma snd_ignoreM [simp]: "snd (ignoreM m s) = snd (m s)"
  by (auto simp: ignoreM_def attemptM_def tryM_def split: prod.splits res.splits)

lemma snd_deferM [simp]: "snd (deferM d m s) = snd (d (snd (m s)))"
  by (auto simp: deferM_def split: prod.splits res.splits)

lemma snd_attemptM [simp]: "snd (attemptM m s) = snd (m s)"
  by (auto simp: attemptM_def split: prod.splits res.splits)

lemma wrapErr_Ok: "wrapErr t u m s = (Ok x, s') \<longleftrightarrow> m s = (Ok x, s')"
  by (auto simp: wrapErr_def tryM_def attemptM_def split: prod.splits res.splits)

lemma snd_wrapErr [simp]: "snd (wrapErr t u m s) = snd (m s)"
  by (auto simp: wrapErr_def tryM_def attemptM_def split: prod.splits res.splits)

lemma wrapErr_OkE:
  assumes "wrapErr t u m s = (Ok x, s')"
  obtains "m s = (Ok x, s')"
  using assms by (simp add: wrapErr_Ok)

lemma eachM_append: "eachM f (xs @ ys) = tryM (eachM f xs) (\<lambda>_. eachM f ys)"
  by (induction xs) (simp_all add: tryM_assoc ret_def)

lemma eachM_map: "eachM f (map g xs) = eachM (\<lambda>x. f (g x)) xs"
  by (induction xs) auto

section \<open>Relations kept by calls\<close>

text \<open>
  \<open>keeps R m\<close>: whatever \<open>m\<close> does and however it ends, the state after is related to the state
  before by \<open>R\<close>.
\<close>

definition keeps :: "('s \<Rightarrow> 's \<Rightarrow> bool) \<Rightarrow> ('s, 'a) go \<Rightarrow> bool" where
  "keeps R m \<longleftrightarrow> (\<forall>s. R s (snd (m s)))"

lemma keepsD: "keeps R m \<Longrightarrow> R s (snd (m s))"
  by (simp add: keeps_def)

lemma keeps_run: "keeps R m \<Longrightarrow> m s = (r, s') \<Longrightarrow> R s s'"
  using keepsD [of R m s] by simp

lemma keeps_imp: "keeps R m \<Longrightarrow> (\<And>s t. R s t \<Longrightarrow> Q s t) \<Longrightarrow> keeps Q m"
  by (simp add: keeps_def)

lemma keeps_wrapErr: "keeps R m \<Longrightarrow> keeps R (wrapErr t u m)"
  by (simp add: keeps_def)

locale step_relation =
  fixes R :: "'s \<Rightarrow> 's \<Rightarrow> bool"
  assumes R_refl: "R s s"
    and R_trans: "R s t \<Longrightarrow> R t u \<Longrightarrow> R s u"
begin

lemma keeps_pure:
  "keeps R (ret x)" "keeps R (fail e)" "keeps R (panicM p)" "keeps R (liftR r)" "keeps R (getM f)"
  "keeps R (Pair r)"
  by (simp_all add: keeps_def R_refl)

lemma keeps_tryM:
  assumes "keeps R m" and "\<And>x. keeps R (k x)"
  shows "keeps R (tryM m k)"
  unfolding keeps_def
proof
  fix s
  show "R s (snd (tryM m k s))"
    using keepsD [OF assms(1), of s] keepsD [OF assms(2)]
    by (auto simp: tryM_def intro: R_trans split: prod.splits res.splits)
qed

lemma keeps_modifyM: "(\<And>s. R s (g s)) \<Longrightarrow> keeps R (modifyM g)"
  by (simp add: keeps_def)

lemma keeps_attemptM: "keeps R m \<Longrightarrow> keeps R (attemptM m)"
  by (simp add: keeps_def)

lemma keeps_ignoreM: "keeps R m \<Longrightarrow> keeps R (ignoreM m)"
  by (simp add: keeps_def)

lemma keeps_eachM: "(\<And>x. x \<in> set xs \<Longrightarrow> keeps R (f x)) \<Longrightarrow> keeps R (eachM f xs)"
proof (induction xs)
  case Nil
  show ?case by (simp add: keeps_pure)
next
  case (Cons x xs)
  then show ?case by (simp add: keeps_tryM)
qed

lemma keeps_if: "(b \<Longrightarrow> keeps R m) \<Longrightarrow> (\<not> b \<Longrightarrow> keeps R n) \<Longrightarrow> keeps R (if b then m else n)"
  by simp

lemma keeps_deferM:
  assumes "keeps R d" and "keeps R m"
  shows "keeps R (deferM d m)"
  unfolding keeps_def
proof
  fix s
  show "R s (snd (deferM d m s))"
    using keepsD [OF assms(2), of s] keepsD [OF assms(1), of "snd (m s)"]
    by (auto simp: deferM_def intro: R_trans split: prod.splits res.splits)
qed

lemmas keeps_rules = keeps_pure keeps_tryM keeps_attemptM keeps_ignoreM keeps_deferM keeps_eachM keeps_if

end

text \<open>Calls that leave a component \<open>f\<close> of the state alone.\<close>

definition same :: "('s \<Rightarrow> 'c) \<Rightarrow> 's \<Rightarrow> 's \<Rightarrow> bool" where
  "same f s t \<longleftrightarrow> f t = f s"

interpretation same: step_relation "same f"
  by unfold_locales (auto simp: same_def)

section \<open>Go maps\<close>

type_synonym 'v gomap = "(string \<times> 'v) list option"

definition entries :: "'v gomap \<Rightarrow> (string \<times> 'v) list" where
  "entries m = (case m of None \<Rightarrow> [] | Some kvs \<Rightarrow> kvs)"

definition mget :: "'v gomap \<Rightarrow> string \<Rightarrow> 'v option" where
  "mget m k = map_of (entries m) k"

text \<open>\<^verbatim>\<open>m[k] = v\<close>: panics on the nil map.\<close>

definition mput :: "'v gomap \<Rightarrow> string \<Rightarrow> 'v \<Rightarrow> 'v gomap res" where
  "mput m k v =
     (case m of
        None \<Rightarrow> Panic ''assignment to entry in nil map''
      | Some kvs \<Rightarrow> Ok (Some (AList.update k v kvs)))"

definition mdelete :: "string \<Rightarrow> 'v gomap \<Rightarrow> 'v gomap" where
  "mdelete k m = map_option (AList.delete k) m"

lemma entries_simps [simp]: "entries None = []" "entries (Some kvs) = kvs"
  by (simp_all add: entries_def)

lemma mget_simps [simp]:
  "mget None k = None" "mget (Some kvs) k = map_of kvs k"
  by (simp_all add: mget_def)

lemma set_update_subset: "set (AList.update k v al) \<subseteq> insert (k, v) (set al)"
  by (induction al) auto

lemma mget_mput: "mput m k v = Ok m' \<Longrightarrow> mget m' k' = (if k' = k then Some v else mget m k')"
  by (auto simp: mput_def update_conv' split: option.splits)

lemma mput_panics_iff: "(\<exists>p. mput m k v = Panic p) \<longleftrightarrow> m = None"
  by (auto simp: mput_def split: option.splits)

lemma mget_mdelete: "mget (mdelete k m) k' = (if k' = k then None else mget m k')"
  by (cases m) (auto simp: mdelete_def delete_conv')

section \<open>The package strings\<close>

definition HasPrefix :: "string \<Rightarrow> string \<Rightarrow> bool" where
  "HasPrefix s p \<longleftrightarrow> take (length p) s = p"

definition TrimPrefix :: "string \<Rightarrow> string \<Rightarrow> string" where
  "TrimPrefix s p = (if HasPrefix s p then drop (length p) s else s)"

fun Contains :: "string \<Rightarrow> string \<Rightarrow> bool" where
  "Contains [] p = (p = [])"
| "Contains (c # s) p = (HasPrefix (c # s) p \<or> Contains s p)"

text \<open>\<^verbatim>\<open>strings.ReplaceAll\<close> and \<^verbatim>\<open>strings.Split\<close> with a separator of one byte.\<close>

definition ReplaceAll :: "string \<Rightarrow> char \<Rightarrow> string \<Rightarrow> string" where
  "ReplaceAll s c new = concat (map (\<lambda>x. if x = c then new else [x]) s)"

fun Split :: "string \<Rightarrow> char \<Rightarrow> string list" where
  "Split [] c = [[]]"
| "Split (x # s) c =
     (if x = c then [] # Split s c
      else (case Split s c of [] \<Rightarrow> [[x]] | w # ws \<Rightarrow> (x # w) # ws))"

text \<open>\<^verbatim>\<open>strings.SplitN(s, sep, 2)\<close>: at most two pieces, cut at the first separator.\<close>

definition SplitN2 :: "string \<Rightarrow> char \<Rightarrow> string list" where
  "SplitN2 s c =
     (if c \<in> set s then [takeWhile (\<lambda>x. x \<noteq> c) s, tl (dropWhile (\<lambda>x. x \<noteq> c) s)] else [s])"

definition isUpper :: "char \<Rightarrow> bool" where
  "isUpper c \<longleftrightarrow> CHR ''A'' \<le> c \<and> c \<le> CHR ''Z''"

definition isLower :: "char \<Rightarrow> bool" where
  "isLower c \<longleftrightarrow> CHR ''a'' \<le> c \<and> c \<le> CHR ''z''"

definition isDigit :: "char \<Rightarrow> bool" where
  "isDigit c \<longleftrightarrow> CHR ''0'' \<le> c \<and> c \<le> CHR ''9''"

definition lowerChar :: "char \<Rightarrow> char" where
  "lowerChar c = (if isUpper c then char_of (of_char c + (32 :: nat)) else c)"

text \<open>\<^verbatim>\<open>strings.ToLower\<close> on ASCII text.\<close>

definition ToLower :: "string \<Rightarrow> string" where
  "ToLower s = map lowerChar s"

fun Join :: "string list \<Rightarrow> string \<Rightarrow> string" where
  "Join [] sep = []"
| "Join [w] sep = w"
| "Join (w # v # ws) sep = w @ sep @ Join (v # ws) sep"

lemma HasPrefix_iff: "HasPrefix s p \<longleftrightarrow> (\<exists>r. s = p @ r)"
  by (auto simp: HasPrefix_def) (metis append_take_drop_id)

lemma Contains_iff: "Contains s p \<longleftrightarrow> (\<exists>a b. s = a @ p @ b)"
proof (induction s)
  case Nil
  then show ?case by simp
next
  case IH: (Cons c s)
  show ?case
  proof
    assume "Contains (c # s) p"
    then show "\<exists>a b. c # s = a @ p @ b"
      using IH.IH by (auto simp: HasPrefix_iff) (metis append_Cons append_Nil)+
  next
    assume "\<exists>a b. c # s = a @ p @ b"
    then obtain a b where ab: "c # s = a @ p @ b" by blast
    show "Contains (c # s) p"
    proof (cases a)
      case Nil
      with ab have "HasPrefix (c # s) p" unfolding HasPrefix_iff by auto
      then show ?thesis by simp
    next
      case (Cons d a')
      with ab have "s = a' @ p @ b" by simp
      with IH.IH show ?thesis by auto
    qed
  qed
qed

lemma TrimPrefix_append [simp]: "TrimPrefix (p @ s) p = s"
  by (simp add: TrimPrefix_def HasPrefix_def)

lemma Split_not_Nil [simp]: "Split s c \<noteq> []"
  by (induction s c rule: Split.induct) (auto split: list.splits)

lemma Join_Split: "Join (Split s c) [c] = s"
proof (induction s c rule: Split.induct)
  case (1 c)
  then show ?case by simp
next
  case (2 x s c)
  then show ?case
    by (cases "Split s c"; cases "tl (Split s c)") auto
qed

lemma sep_notin_Split: "w \<in> set (Split s c) \<Longrightarrow> c \<notin> set w"
  by (induction s c arbitrary: w rule: Split.induct) (auto split: list.splits if_splits)

lemma Split_sepfree: "c \<notin> set s \<Longrightarrow> Split s c = [s]"
  by (induction s) auto

lemma Split_append: "c \<notin> set a \<Longrightarrow> Split (a @ c # b) c = a # Split b c"
  by (induction a) auto

lemma SplitN2_append: "c \<notin> set a \<Longrightarrow> SplitN2 (a @ c # b) c = [a, b]"
  by (induction a) (auto simp: SplitN2_def)

lemma length_SplitN2: "length (SplitN2 s c) = 2 \<longleftrightarrow> c \<in> set s"
  by (simp add: SplitN2_def)

lemma set_ReplaceAll: "set (ReplaceAll s c new) = (set s - {c}) \<union> (if c \<in> set s then set new else {})"
  by (induction s) (auto simp: ReplaceAll_def)

lemma lowerChar_not_upper: "\<not> isUpper (lowerChar c)"
proof (cases "isUpper c")
  case True
  then have b: "65 \<le> (of_char c :: nat)" "(of_char c :: nat) \<le> 90"
    by (simp_all add: isUpper_def less_eq_char_def)
  then have "(of_char (lowerChar c) :: nat) = of_char c + 32"
    using True by (simp add: lowerChar_def)
  then show ?thesis
    using b by (simp add: isUpper_def less_eq_char_def)
next
  case False
  then show ?thesis by (simp add: lowerChar_def)
qed

lemma ToLower_idem: "ToLower (ToLower s) = ToLower s"
  using lowerChar_not_upper by (auto simp: ToLower_def lowerChar_def)

section \<open>The package fmt\<close>

text \<open>\<^verbatim>\<open>%d\<close> on a natural number.\<close>

fun show_nat :: "nat \<Rightarrow> string" where
  "show_nat n = (if n < 10 then [char_of (48 + n)] else show_nat (n div 10) @ [char_of (48 + n mod 10)])"

declare show_nat.simps [simp del]

text \<open>
  \<^verbatim>\<open>%v\<close> on a float64 with an integral value below \<open>2 ^ 53\<close>, which is how a JSON number is held in an
  \<^verbatim>\<open>interface{}\<close>: the shortest decimal digits, in exponent form from seven digits on.
\<close>

definition stripZeros :: "string \<Rightarrow> string" where
  "stripZeros ds = rev (dropWhile (\<lambda>c. c = CHR ''0'') (rev ds))"

definition show_float :: "int \<Rightarrow> string" where
  "show_float n =
     (let ds = show_nat (nat \<bar>n\<bar>); e = length ds - 1; sg = (if n < 0 then ''-'' else [])
      in if e < 6 then sg @ ds
         else (let m = stripZeros ds; frac = tl m
               in sg @ [hd m] @ (if frac = [] then [] else CHR ''.'' # frac) @ ''e+'' @
                  (if e < 10 then ''0'' else []) @ show_nat e))"

section \<open>The package sort\<close>

text \<open>
  \<^verbatim>\<open>sort.Sort\<close> on short data is an insertion sort that moves an element down while it is less
  than its predecessor. The list under construction is kept reversed by \<open>insertDown\<close>: its head is
  the predecessor the next element is compared with.
\<close>

fun insertDown :: "('a \<Rightarrow> 'a \<Rightarrow> bool) \<Rightarrow> 'a \<Rightarrow> 'a list \<Rightarrow> 'a list" where
  "insertDown lt x [] = [x]"
| "insertDown lt x (y # ys) = (if lt x y then y # insertDown lt x ys else x # y # ys)"

definition sort_Sort :: "('a \<Rightarrow> 'a \<Rightarrow> bool) \<Rightarrow> 'a list \<Rightarrow> 'a list" where
  "sort_Sort lt xs = rev (foldl (\<lambda>acc x. insertDown lt x acc) [] xs)"

end
