(* ===== verification/Manifest.thy ===== *)
theory Manifest
  imports Prelude
begin

text \<open>
  \<^verbatim>\<open>internal/pkg/manifest\<close>: the manifest of an add-on (\<^verbatim>\<open>models.go\<close>, \<^verbatim>\<open>v0_1/models.go\<close>), the questions
  the program asks about it (\<^verbatim>\<open>helpers.go\<close>), and
  \<^verbatim>\<open>internal/aom/manifest/settings.go\<close>.

  A value of Go's type \<^verbatim>\<open>interface{}\<close> that came out of \<^verbatim>\<open>encoding/json\<close> is a \<open>json\<close> value; its
  numbers are integral. Pointers inside the manifest (\<^verbatim>\<open>*Service\<close>, \<^verbatim>\<open>*Setting\<close>, \<dots>) are taken to be
  non-nil, as they are in every manifest that passes the schema. \<^verbatim>\<open>CombineManifestSettings\<dots>\<close> copies the
  slice of pointers and then writes through them, so it also changes the settings of the manifest it
  was given; the model returns the changed settings, and no caller reads the old ones again.
\<close>

section \<open>Data\<close>

datatype json =
  JNull | JBool bool | JNum int | JStr string | JArr "json list" | JObj "(string \<times> json) list"

record Service =
  svc_Type :: string
  svc_Config :: "json gomap"

record EnvironmentConfig =
  Volumes :: "json gomap gomap"
  Networks :: "json gomap gomap"

record Environment =
  env_Type :: string
  env_Config :: EnvironmentConfig

record Item =
  item_Label :: string
  item_Value :: string
  item_Selected :: bool

record Setting =
  set_Name :: string
  set_Label :: string
  set_Value :: string
  set_Required :: bool
  set_Pattern :: string
  set_Select :: "Item list option"

record ProxyRoute =
  From :: string
  To :: string

record Vendor =
  vnd_Name :: string
  vnd_Url :: string
  vnd_Email :: string
  vnd_Street :: string
  vnd_Zip :: string
  vnd_City :: string
  vnd_Country :: string

record Feature =
  ft_Name :: string
  ft_Required :: "bool option"

record Root =
  ManifestVersion :: string
  root_Version :: string
  Title :: string
  Description :: string
  Logo :: string
  Services :: "Service gomap"
  Environments :: "Environment gomap"
  Settings :: "Setting list gomap"
  Publish :: "ProxyRoute gomap"
  root_Vendor :: "Vendor option"
  Features :: "Feature list"
  Platform :: "string list option"

definition ValidManifestVersion :: string where
  "ValidManifestVersion = ''0.2''"

definition LocalPublicVolumeDriverName :: string where
  "LocalPublicVolumeDriverName = ''local-public''"

definition LocalPublicVolumeAccessDriverName :: string where
  "LocalPublicVolumeAccessDriverName = ''local-public-access''"

definition InternalAddOnNetworkName :: string where
  "InternalAddOnNetworkName = ''internal-bridge''"

definition NewEnvironment :: "string \<Rightarrow> Environment" where
  "NewEnvironment envType = \<lparr>env_Type = envType, env_Config = \<lparr>Volumes = None, Networks = None\<rparr>\<rparr>"

definition WithVolumes :: "json gomap gomap \<Rightarrow> Environment \<Rightarrow> Environment" where
  "WithVolumes volumes e = e\<lparr>env_Config := (env_Config e)\<lparr>Volumes := volumes\<rparr>\<rparr>"

definition WithNetworks :: "json gomap gomap \<Rightarrow> Environment \<Rightarrow> Environment" where
  "WithNetworks networks e = e\<lparr>env_Config := (env_Config e)\<lparr>Networks := networks\<rparr>\<rparr>"

definition NewSettings :: "string \<Rightarrow> string \<Rightarrow> bool \<Rightarrow> Setting" where
  "NewSettings name label required =
     \<lparr>set_Name = name, set_Label = label, set_Value = [], set_Required = required,
      set_Pattern = [], set_Select = None\<rparr>"

definition WithTextBoxValue :: "string \<Rightarrow> Setting \<Rightarrow> Setting" where
  "WithTextBoxValue v s = s\<lparr>set_Value := v\<rparr>"

definition WithSelectItems :: "Item list \<Rightarrow> Setting \<Rightarrow> Setting" where
  "WithSelectItems items s = s\<lparr>set_Select := Some items\<rparr>"

definition selectItems :: "Setting \<Rightarrow> Item list" where
  "selectItems s = (case set_Select s of None \<Rightarrow> [] | Some xs \<Rightarrow> xs)"

text \<open>Select the item with the same value, deselect the others.\<close>

definition SelectValue :: "string \<Rightarrow> Setting \<Rightarrow> Setting" where
  "SelectValue v s =
     s\<lparr>set_Select := map_option (map (\<lambda>i. i\<lparr>item_Selected := (item_Value i = v)\<rparr>)) (set_Select s)\<rparr>"

definition IsTextBox :: "Setting \<Rightarrow> bool" where
  "IsTextBox s \<longleftrightarrow> set_Value s \<noteq> [] \<and> selectItems s = []"

section \<open>Helpers\<close>

text \<open>\<^verbatim>\<open>fmt.Sprintf("%v", val)\<close>.\<close>

fun fmt_v :: "json \<Rightarrow> string" where
  "fmt_v JNull = ''<nil>''"
| "fmt_v (JBool b) = (if b then ''true'' else ''false'')"
| "fmt_v (JNum n) = show_float n"
| "fmt_v (JStr s) = s"
| "fmt_v (JArr xs) = ''['' @ Join (map fmt_v xs) '' '' @ '']''"
| "fmt_v (JObj kvs) =
     ''map['' @
     Join (map (\<lambda>(k, t). k @ '':'' @ t) (sort_key fst (map (\<lambda>(k, v). (k, fmt_v v)) kvs))) '' '' @
     '']''"

definition GetDockerImageReferences :: "Service gomap \<Rightarrow> string list" where
  "GetDockerImageReferences services =
     List.map_filter (\<lambda>(_, service). map_option fmt_v (mget (svc_Config service) ''image''))
       (entries services)"

definition returnTopLevelNameOrFromSettings :: "string \<Rightarrow> json gomap \<Rightarrow> string" where
  "returnTopLevelNameOrFromSettings topLevelName settings =
     (case mget settings ''name'' of Some (JStr name) \<Rightarrow> name | _ \<Rightarrow> topLevelName)"

definition isLocalPublicVolume :: "json gomap \<Rightarrow> bool" where
  "isLocalPublicVolume volumeSettings =
     (case mget volumeSettings ''driver'' of
        Some (JStr value) \<Rightarrow> Contains value LocalPublicVolumeDriverName
      | _ \<Rightarrow> False)"

definition environmentVolumes :: "Environment gomap \<Rightarrow> (string \<times> json gomap) list" where
  "environmentVolumes environments =
     concat (map (\<lambda>(_, e). entries (Volumes (env_Config e))) (entries environments))"

definition GetVolumeNames :: "Environment gomap \<Rightarrow> string list" where
  "GetVolumeNames environments =
     map (\<lambda>(volumeName, volumeSettings). returnTopLevelNameOrFromSettings volumeName volumeSettings)
       (environmentVolumes environments)"

definition HasLocalPublicVolumes :: "Environment gomap \<Rightarrow> bool" where
  "HasLocalPublicVolumes environments =
     list_ex (\<lambda>(_, volumeSettings). isLocalPublicVolume volumeSettings) (environmentVolumes environments)"

text \<open>The filtered volumes of all environments, a later one replacing an earlier one of its name.\<close>

definition filterVolumes :: "Environment gomap \<Rightarrow> (json gomap \<Rightarrow> bool) \<Rightarrow> json gomap gomap" where
  "filterVolumes environments p =
     Some (foldl (\<lambda>acc (name, settings). if p settings then AList.update name settings acc else acc) []
       (environmentVolumes environments))"

fun isStringContaining :: "string \<Rightarrow> json \<Rightarrow> bool" where
  "isStringContaining name (JStr s) = Contains s name"
| "isStringContaining name _ = False"

definition UsesLocalPublicVolume :: "Service \<Rightarrow> Environment gomap \<Rightarrow> bool" where
  "UsesLocalPublicVolume service environments =
     (let localPublicVolumes = filterVolumes environments isLocalPublicVolume
      in case mget (svc_Config service) ''volumes'' of
           Some (JArr serviceVolumes) \<Rightarrow>
             list_ex
               (\<lambda>(topLevelName, volumesSettings).
                  list_ex (isStringContaining (returnTopLevelNameOrFromSettings topLevelName volumesSettings))
                    serviceVolumes)
               (entries localPublicVolumes)
         | _ \<Rightarrow> False)"

section \<open>Settings\<close>

definition combineSetting :: "(string \<times> string) list \<Rightarrow> Setting \<Rightarrow> Setting" where
  "combineSetting settingsMap s =
     (case map_of settingsMap (set_Name s) of
        None \<Rightarrow> s
      | Some currentValue \<Rightarrow>
          if IsTextBox s then s\<lparr>set_Value := currentValue\<rparr> else SelectValue currentValue s)"

definition CombineManifestSettingsWithSettingsMap ::
  "Setting list \<Rightarrow> (string \<times> string) list \<Rightarrow> Setting list" where
  "CombineManifestSettingsWithSettingsMap manifestSettings settingsMap =
     map (combineSetting settingsMap) manifestSettings"

section \<open>Lemmas\<close>

lemma set_map_filter: "set (List.map_filter f xs) = {y. \<exists>x\<in>set xs. f x = Some y}"
  by (induction xs) (auto simp: map_filter_simps split: option.splits)

lemma map_of_filterVolumes_fold:
  "map_of (foldl (\<lambda>acc (name, settings). if p settings then AList.update name settings acc else acc) acc vs) n
     = (case map_of (rev (filter (\<lambda>(_, v). p v) vs)) n of Some v \<Rightarrow> Some v | None \<Rightarrow> map_of acc n)"
proof (induction vs arbitrary: acc)
  case Nil
  then show ?case by simp
next
  case (Cons v vs)
  then show ?case
    by (cases v) (auto simp: update_conv' map_add_def split: option.splits)
qed

lemma set_filterVolumes_fold:
  "(n, v) \<in> set (foldl (\<lambda>acc (name, settings). if p settings then AList.update name settings acc else acc) acc vs)
     \<Longrightarrow> (n, v) \<in> set acc \<or> (n, v) \<in> set vs \<and> p v"
proof (induction vs arbitrary: acc)
  case Nil
  then show ?case by simp
next
  case (Cons w vs)
  obtain m u where w: "w = (m, u)" by (cases w)
  show ?case
    using Cons.IH [of "if p u then AList.update m u acc else acc"] Cons.prems set_update_subset [of m u acc] w
    by (auto split: if_splits)
qed

text \<open>A service that uses a local public volume presupposes that some environment declares one.\<close>

lemma UsesLocalPublicVolume_imp_Has:
  assumes "UsesLocalPublicVolume service environments"
  shows "HasLocalPublicVolumes environments"
proof -
  from assms obtain n v where "(n, v) \<in> set (entries (filterVolumes environments isLocalPublicVolume))"
    by (auto simp: UsesLocalPublicVolume_def list_ex_iff split: option.splits json.splits)
  then have "(n, v) \<in> set (environmentVolumes environments) \<and> isLocalPublicVolume v"
    using set_filterVolumes_fold [of n v isLocalPublicVolume "[]"] by (simp add: filterVolumes_def)
  then show ?thesis by (auto simp: HasLocalPublicVolumes_def list_ex_iff)
qed

lemma UsesLocalPublicVolume_volumes:
  "UsesLocalPublicVolume service environments \<Longrightarrow> svc_Config service \<noteq> None"
  by (cases "svc_Config service") (auto simp: UsesLocalPublicVolume_def)

lemma combineSetting_fields:
  "set_Name (combineSetting m s) = set_Name s"
  "set_Label (combineSetting m s) = set_Label s"
  "set_Required (combineSetting m s) = set_Required s"
  "map item_Value (selectItems (combineSetting m s)) = map item_Value (selectItems s)"
  by (auto simp: combineSetting_def SelectValue_def selectItems_def IsTextBox_def split: option.splits)

lemma SelectValue_selected:
  "item \<in> set (selectItems (SelectValue v s)) \<Longrightarrow> item_Selected item \<longleftrightarrow> item_Value item = v"
  by (auto simp: SelectValue_def selectItems_def split: option.splits)

lemma SelectValue_Value [simp]: "set_Value (SelectValue v s) = set_Value s"
  by (simp add: SelectValue_def)

section \<open>Properties\<close>

text \<open>
  Applying the stored values to the settings of a manifest: every setting keeps its place, name,
  label, required flag and choices; a text box shows the stored value, a choice list has exactly the
  items of the stored value selected, and a setting without a stored value is unchanged.
\<close>

theorem CombineManifestSettings_spec:
  assumes "i < length settings" and "s = settings ! i"
    and "t = CombineManifestSettingsWithSettingsMap settings m ! i"
  shows "length (CombineManifestSettingsWithSettingsMap settings m) = length settings
    \<and> set_Name t = set_Name s \<and> set_Label t = set_Label s \<and> set_Required t = set_Required s
    \<and> map item_Value (selectItems t) = map item_Value (selectItems s)
    \<and> (map_of m (set_Name s) = None \<longrightarrow> t = s)
    \<and> (\<forall>v. map_of m (set_Name s) = Some v \<longrightarrow>
         (if IsTextBox s then set_Value t = v
          else set_Value t = set_Value s \<and>
               (\<forall>item\<in>set (selectItems t). item_Selected item \<longleftrightarrow> item_Value item = v)))"
proof -
  have "t = combineSetting m s"
    using assms by (simp add: CombineManifestSettingsWithSettingsMap_def)
  then show ?thesis
    by (auto simp: CombineManifestSettingsWithSettingsMap_def combineSetting_fields)
      (auto simp: combineSetting_def SelectValue_selected)
qed

theorem CombineManifestSettings_spec_witness:
  "set_Value (CombineManifestSettingsWithSettingsMap
     [WithTextBoxValue ''8080'' (NewSettings ''PORT'' ''Port'' True)] [(''PORT'', ''9090'')] ! 0) = ''9090''"
proof -
  let ?s = "WithTextBoxValue ''8080'' (NewSettings ''PORT'' ''Port'' True)"
  have tb: "IsTextBox ?s" and n: "set_Name ?s = ''PORT''"
    by (simp_all add: IsTextBox_def WithTextBoxValue_def NewSettings_def selectItems_def)
  show ?thesis
    using CombineManifestSettings_spec [of 0 "[?s]" ?s _ "[(''PORT'', ''9090'')]", OF _ _ refl] tb n
    by simp
qed

text \<open>
  A service mounts a local public volume only when some environment of the manifest declares a
  volume whose driver is one of the local public drivers; so the volume check of the installation,
  which asks about the environments, never misses a service that uses one.
\<close>

theorem local_public_usage_is_declared:
  assumes "UsesLocalPublicVolume service environments"
  shows "HasLocalPublicVolumes environments"
  using assms by (rule UsesLocalPublicVolume_imp_Has)

theorem local_public_usage_is_declared_witness:
  "HasLocalPublicVolumes
     (Some [(''e'', WithVolumes (Some [(''vol'', Some [(''driver'', JStr ''local-public'')])])
                      (NewEnvironment ''docker-compose''))])"
  by (rule local_public_usage_is_declared
      [of "\<lparr>svc_Type = ''docker-compose'', svc_Config = Some [(''volumes'', JArr [JStr ''vol:/data''])]\<rparr>"])
    code_simp

end
