(* ===== verification/FileSystem.thy ===== *)
theory FileSystem
  imports Manifest "HOL-Library.Sublist"
begin

text \<open>
  The part of the operating system the daemon works on: an explicit store of files, symbolic links
  and directories, and the functions of Go's packages \<^verbatim>\<open>os\<close> and \<^verbatim>\<open>path/filepath\<close> on it; then
  \<^verbatim>\<open>internal/aom/utils/file.go\<close> and the three closures of \<^verbatim>\<open>cmd/aom.go\<close> that the reverse proxy and the
  permission writer are given.

  A path is the list of its segments. The operating system may refuse an operation on a path for
  reasons the program does not control (permissions, a full disk): the field \<open>faulty\<close> says which,
  and no operation changes it. File modes are not modelled.
\<close>

section \<open>Store\<close>

type_synonym path = "string list"

datatype content = Text string | Doc json

datatype node = File content | Link path | Dir

datatype fsop = OpStat | OpOpen | OpWrite | OpRemove | OpSymlink | OpMkdir | OpChown

record FS =
  nodes :: "(path \<times> node) list"
  faulty :: "fsop \<Rightarrow> path \<Rightarrow> bool"

definition node :: "FS \<Rightarrow> path \<Rightarrow> node option" where
  "node fs p = (if p = [] then Some Dir else map_of (nodes fs) p)"

definition setNode :: "path \<Rightarrow> node \<Rightarrow> FS \<Rightarrow> FS" where
  "setNode p n fs = fs\<lparr>nodes := AList.update p n (nodes fs)\<rparr>"

definition delNode :: "path \<Rightarrow> FS \<Rightarrow> FS" where
  "delNode p fs = fs\<lparr>nodes := AList.delete p (nodes fs)\<rparr>"

definition delTree :: "path \<Rightarrow> FS \<Rightarrow> FS" where
  "delTree p fs = fs\<lparr>nodes := filter (\<lambda>(q, _). \<not> prefix p q) (nodes fs)\<rparr>"

text \<open>The segments of a path text: \<^verbatim>\<open>filepath.Clean\<close> on an absolute path.\<close>

definition toPath :: "string \<Rightarrow> path" where
  "toPath s =
     foldl (\<lambda>acc seg. if seg = [] \<or> seg = ''.'' then acc else if seg = ''..'' then butlast acc else acc @ [seg])
       [] (Split s (CHR ''/''))"

text \<open>\<^verbatim>\<open>filepath.Join(dir, name)\<close>.\<close>

definition joinPath :: "path \<Rightarrow> string \<Rightarrow> path" where
  "joinPath dir name =
     foldl (\<lambda>acc seg. if seg = [] \<or> seg = ''.'' then acc else if seg = ''..'' then butlast acc else acc @ [seg])
       dir (Split name (CHR ''/''))"

definition showPath :: "path \<Rightarrow> string" where
  "showPath p = CHR ''/'' # Join p ''/''"

section \<open>Calls of the package os\<close>

definition errNoEnt :: "string \<Rightarrow> path \<Rightarrow> goerror" where
  "errNoEnt op p = ErrNotExist (op @ '' '' @ showPath p @ '': no such file or directory'')"

definition errOs :: "string \<Rightarrow> path \<Rightarrow> string \<Rightarrow> goerror" where
  "errOs op p why = ErrorString (op @ '' '' @ showPath p @ '': '' @ why)"

text \<open>Symbolic links are followed at most 40 times, as the Linux kernel does.\<close>

fun follow :: "nat \<Rightarrow> FS \<Rightarrow> path \<Rightarrow> (path \<times> node option) option" where
  "follow 0 fs p = None"
| "follow (Suc n) fs p =
     (case node fs p of Some (Link t) \<Rightarrow> follow n fs t | r \<Rightarrow> Some (p, r))"

definition resolve :: "FS \<Rightarrow> path \<Rightarrow> (path \<times> node option) option" where
  "resolve fs p = follow 40 fs p"

definition osStat :: "path \<Rightarrow> (FS, node) go" where
  "osStat p fs =
     (if faulty fs OpStat p then (Err (errOs ''stat'' p ''permission denied''), fs)
      else case resolve fs p of
        None \<Rightarrow> (Err (errOs ''stat'' p ''too many levels of symbolic links''), fs)
      | Some (_, None) \<Rightarrow> (Err (errNoEnt ''stat'' p), fs)
      | Some (_, Some n) \<Rightarrow> (Ok n, fs))"

definition osReadFile :: "path \<Rightarrow> (FS, content) go" where
  "osReadFile p fs =
     (if faulty fs OpOpen p then (Err (errOs ''open'' p ''permission denied''), fs)
      else case resolve fs p of
        None \<Rightarrow> (Err (errOs ''open'' p ''too many levels of symbolic links''), fs)
      | Some (_, None) \<Rightarrow> (Err (errNoEnt ''open'' p), fs)
      | Some (_, Some (File c)) \<Rightarrow> (Ok c, fs)
      | Some (_, Some _) \<Rightarrow> (Err (errOs ''read'' p ''is a directory''), fs))"

text \<open>
  \<^verbatim>\<open>os.OpenFile\<close> for writing, with \<^verbatim>\<open>O_CREATE\<close>: the path of the opened file. A missing file is created
  empty when its directory exists.
\<close>

definition osOpenCreate :: "path \<Rightarrow> (FS, path) go" where
  "osOpenCreate p fs =
     (if faulty fs OpOpen p then (Err (errOs ''open'' p ''permission denied''), fs)
      else case resolve fs p of
        None \<Rightarrow> (Err (errOs ''open'' p ''too many levels of symbolic links''), fs)
      | Some (q, None) \<Rightarrow>
          if node fs (butlast q) = Some Dir then (Ok q, setNode q (File (Text [])) fs)
          else (Err (errNoEnt ''open'' p), fs)
      | Some (q, Some (File c)) \<Rightarrow> (Ok q, fs)
      | Some (q, Some _) \<Rightarrow> (Err (errOs ''open'' p ''is a directory''), fs))"

text \<open>
  Writing at the start of an open file. Without \<^verbatim>\<open>O_TRUNC\<close> what the file held beyond the written
  text stays behind it.
\<close>

fun overwrite :: "content \<Rightarrow> content \<Rightarrow> content" where
  "overwrite (Text new) (Text old) = Text (new @ drop (length new) old)"
| "overwrite new old = new"

definition osWrite :: "path \<Rightarrow> content \<Rightarrow> (FS, unit) go" where
  "osWrite p new fs =
     (if faulty fs OpWrite p then (Err (errOs ''write'' p ''no space left on device''), fs)
      else case node fs p of
        Some (File old) \<Rightarrow> (Ok (), setNode p (File (overwrite new old)) fs)
      | _ \<Rightarrow> (Err (errOs ''write'' p ''bad file descriptor''), fs))"

definition osTruncate :: "path \<Rightarrow> (FS, unit) go" where
  "osTruncate p = modifyM (setNode p (File (Text [])))"

definition osRemove :: "path \<Rightarrow> (FS, unit) go" where
  "osRemove p fs =
     (if faulty fs OpRemove p then (Err (errOs ''remove'' p ''permission denied''), fs)
      else case node fs p of
        None \<Rightarrow> (Err (errNoEnt ''remove'' p), fs)
      | Some Dir \<Rightarrow>
          if p = [] \<or> list_ex (\<lambda>(q, _). strict_prefix p q) (nodes fs)
          then (Err (errOs ''remove'' p ''directory not empty''), fs)
          else (Ok (), delNode p fs)
      | Some _ \<Rightarrow> (Ok (), delNode p fs))"

text \<open>
  \<^verbatim>\<open>os.RemoveAll\<close> goes on after an error: an entry that cannot be removed stays, with the directories that
  lead to it, and everything else is gone.
\<close>

definition undeletable :: "FS \<Rightarrow> path \<Rightarrow> bool" where
  "undeletable fs p \<longleftrightarrow> list_ex (\<lambda>(q, _). prefix p q \<and> faulty fs OpRemove q) (nodes fs)"

definition osRemoveAll :: "path \<Rightarrow> (FS, unit) go" where
  "osRemoveAll p fs =
     (if undeletable fs p
      then (Err (errOs ''unlinkat'' p ''permission denied''),
            fs\<lparr>nodes := filter (\<lambda>(q, _). \<not> prefix p q \<or> undeletable fs q) (nodes fs)\<rparr>)
      else (Ok (), delTree p fs))"

definition osSymlink :: "path \<Rightarrow> path \<Rightarrow> (FS, unit) go" where
  "osSymlink target linkname fs =
     (if faulty fs OpSymlink linkname then (Err (errOs ''symlink'' linkname ''permission denied''), fs)
      else if node fs linkname \<noteq> None then (Err (errOs ''symlink'' linkname ''file exists''), fs)
      else if node fs (butlast linkname) \<noteq> Some Dir then (Err (errNoEnt ''symlink'' linkname), fs)
      else (Ok (), setNode linkname (Link target) fs))"

definition osMkdir :: "path \<Rightarrow> (FS, unit) go" where
  "osMkdir p fs =
     (if node fs p = Some Dir then (Ok (), fs)
      else if node fs p \<noteq> None then (Err (errOs ''mkdir'' p ''not a directory''), fs)
      else if faulty fs OpMkdir p then (Err (errOs ''mkdir'' p ''permission denied''), fs)
      else (Ok (), setNode p Dir fs))"

definition osMkdirAll :: "path \<Rightarrow> (FS, unit) go" where
  "osMkdirAll p = eachM osMkdir (prefixes p)"

text \<open>\<^verbatim>\<open>syscall.Chown\<close>; the owner is not part of the store.\<close>

definition osChown :: "path \<Rightarrow> (FS, unit) go" where
  "osChown p fs =
     (if faulty fs OpChown p then (Err (errOs ''chown'' p ''operation not permitted''), fs)
      else if node fs p = None then (Err (errNoEnt ''chown'' p), fs)
      else (Ok (), fs))"

text \<open>\<^verbatim>\<open>ioutil.WriteFile\<close>: open, truncate, write.\<close>

definition osWriteFile :: "path \<Rightarrow> content \<Rightarrow> (FS, unit) go" where
  "osWriteFile p c =
     tryM (osOpenCreate p) (\<lambda>q.
     tryM (osTruncate q) (\<lambda>_.
     osWrite q c))"

text \<open>
  The entries of a directory, and the entries below a directory in the order in which
  \<^verbatim>\<open>filepath.WalkDir\<close> visits them (lexical order of the paths).
\<close>

definition below :: "FS \<Rightarrow> path \<Rightarrow> path list" where
  "below fs p = sort (filter (strict_prefix p) (remdups (map fst (nodes fs))))"

definition osReadDir :: "path \<Rightarrow> (FS, (string \<times> node) list) go" where
  "osReadDir p fs =
     (if faulty fs OpOpen p then (Err (errOs ''open'' p ''permission denied''), fs)
      else if node fs p = None then (Err (errNoEnt ''open'' p), fs)
      else if node fs p \<noteq> Some Dir then (Err (errOs ''readdirent'' p ''not a directory''), fs)
      else (Ok (map (\<lambda>q. (last q, the (node fs q))) (filter (\<lambda>q. length q = Suc (length p)) (below fs p))), fs))"

text \<open>
  The entries \<^verbatim>\<open>filepath.WalkDir\<close> visits, the root first. A directory that cannot be read is visited, its entries are
  not, and the callback is given the error.
\<close>

definition unreadable :: "FS \<Rightarrow> path \<times> node \<Rightarrow> bool" where
  "unreadable fs = (\<lambda>(p, n). n = Dir \<and> faulty fs OpOpen p)"

definition osVisit :: "path \<Rightarrow> (FS, (path \<times> node) list) go" where
  "osVisit root fs =
     (if node fs root = None then (Err (errNoEnt ''lstat'' root), fs)
      else
        let visited = map (\<lambda>p. (p, the (node fs p))) (root # (if node fs root = Some Dir then below fs root else []))
        in (Ok (filter (\<lambda>(p, _). \<not> list_ex (\<lambda>e. unreadable fs e \<and> strict_prefix (fst e) p) visited) visited), fs))"

text \<open>The walk of a callback that returns the error it is given.\<close>

definition osWalk :: "path \<Rightarrow> (FS, (path \<times> node) list) go" where
  "osWalk root =
     tryM (osVisit root) (\<lambda>visited fs.
       case find (unreadable fs) visited of
         None \<Rightarrow> (Ok visited, fs)
       | Some (p, _) \<Rightarrow> (Err (errOs ''open'' p ''permission denied''), fs))"

section \<open>utils/file.go\<close>

text \<open>The mode bits set by \<^verbatim>\<open>os.Chmod\<close> are not part of the store.\<close>

definition MkDirAll :: "path \<Rightarrow> (FS, unit) go" where
  "MkDirAll p = osMkdirAll p"

definition WriteFileToDestination :: "string \<Rightarrow> content \<Rightarrow> path \<Rightarrow> (FS, unit) go" where
  "WriteFileToDestination fileName fileData destination =
     (let target = joinPath destination fileName
      in osWriteFile target fileData)"

section \<open>Closures of cmd/aom.go\<close>

definition writeToFile :: "path \<Rightarrow> content \<Rightarrow> (FS, unit) go" where
  "writeToFile name newContent =
     tryM (osOpenCreate name) (\<lambda>q. osWrite q newContent)"

text \<open>
  The inner \<^verbatim>\<open>err\<close> of the closure shadows the outer one, which is nil: a file that cannot be
  stat-ed counts as deleted.
\<close>

definition deleteFile :: "path \<Rightarrow> (FS, unit) go" where
  "deleteFile name =
     tryM (attemptM (osStat name)) (\<lambda>r.
       case r of
         Inl _ \<Rightarrow> ret ()
       | Inr _ \<Rightarrow> osRemove name)"

definition createSymbolicLink :: "path \<Rightarrow> path \<Rightarrow> (FS, unit) go" where
  "createSymbolicLink target linkname = osSymlink target linkname"

section \<open>Lemmas\<close>

lemma faulty_frame [simp]:
  "faulty (setNode p n fs) = faulty fs" "faulty (delNode p fs) = faulty fs" "faulty (delTree p fs) = faulty fs"
  by (simp_all add: setNode_def delNode_def delTree_def)

lemma node_root [simp]: "node fs [] = Some Dir"
  by (simp add: node_def)

lemma node_setNode [simp]:
  "p \<noteq> [] \<Longrightarrow> node (setNode p n fs) q = (if q = p then Some n else node fs q)"
  by (auto simp: node_def setNode_def update_conv')

lemma node_delNode [simp]:
  "p \<noteq> [] \<Longrightarrow> node (delNode p fs) q = (if q = p then None else node fs q)"
  by (auto simp: node_def delNode_def delete_conv')

lemma map_of_filter_key: "map_of (filter (\<lambda>(q, _). P q) xs) p = (if P p then map_of xs p else None)"
  by (induction xs) auto

lemma node_delTree [simp]:
  "p \<noteq> [] \<Longrightarrow> node (delTree p fs) q = (if prefix p q then None else node fs q)"
  by (auto simp: node_def delTree_def map_of_filter_key)

lemma osRemoveAll_deletes: "\<not> undeletable fs p \<Longrightarrow> osRemoveAll p fs = (Ok (), delTree p fs)"
  by (simp add: osRemoveAll_def)

lemma deletable_tree: "(\<And>q. prefix p q \<Longrightarrow> \<not> faulty fs OpRemove q) \<Longrightarrow> \<not> undeletable fs p"
  by (auto simp: undeletable_def list_ex_iff)

lemma osRemoveAll_faulty [simp]: "faulty (snd (osRemoveAll p fs)) = faulty fs"
  by (simp add: osRemoveAll_def delTree_def)

lemma osRemoveAll_outside: "\<not> prefix p q \<Longrightarrow> node (snd (osRemoveAll p fs)) q = node fs q"
  by (auto simp: osRemoveAll_def node_def delTree_def map_of_filter_key)

lemma osRemoveAll_keeps: "node (snd (osRemoveAll p fs)) q = Some n \<Longrightarrow> node fs q = Some n"
  by (auto simp: osRemoveAll_def node_def delTree_def map_of_filter_key split: if_splits)

lemma osVisit_state [simp]: "snd (osVisit p fs) = fs"
  by (simp add: osVisit_def Let_def)

lemma osWalk_state [simp]: "snd (osWalk p fs) = fs"
  using osVisit_state [of p fs]
  by (auto simp: osWalk_def tryM_def split: prod.splits res.splits option.splits simp del: osVisit_state)

text \<open>When every directory can be read, every entry is visited.\<close>

lemma osWalk_readable:
  assumes "node fs root \<noteq> None"
    and "\<And>p. prefix root p \<Longrightarrow> node fs p = Some Dir \<Longrightarrow> \<not> faulty fs OpOpen p"
  shows "osVisit root fs = (Ok (map (\<lambda>p. (p, the (node fs p))) (root # (if node fs root = Some Dir then below fs root else []))), fs)"
    and "osWalk root fs = (Ok (map (\<lambda>p. (p, the (node fs p))) (root # (if node fs root = Some Dir then below fs root else []))), fs)"
proof -
  let ?v = "map (\<lambda>p. (p, the (node fs p))) (root # (if node fs root = Some Dir then below fs root else []))"
  have there: "node fs p \<noteq> None" if "p \<in> set (below fs root)" for p
    using that by (auto simp: below_def node_def intro: weak_map_of_SomeI)
  have "\<not> unreadable fs e" if "e \<in> set ?v" for e
    using that assms there by (fastforce simp: unreadable_def below_def strict_prefix_def split: if_splits)
  then have r: "list_all (\<lambda>e. \<not> unreadable fs e) ?v" by (simp only: list_all_iff) blast
  then have "\<not> list_ex (\<lambda>e. unreadable fs e \<and> strict_prefix (fst e) p) ?v" for p
    by (auto simp only: list_ex_iff list_all_iff)
  then have f: "filter (\<lambda>(p, _). \<not> list_ex (\<lambda>e. unreadable fs e \<and> strict_prefix (fst e) p) ?v) ?v = ?v"
    by (intro filter_True) auto
  show v: "osVisit root fs = (Ok ?v, fs)"
    using assms(1) f by (simp only: osVisit_def Let_def if_False)
  have "find (unreadable fs) ?v = None" using r by (simp only: find_None_iff list_all_iff) blast
  then show "osWalk root fs = (Ok ?v, fs)" using v by (simp only: osWalk_def tryM_def) simp
qed

text \<open>Two stores with the same nodes; the order of the entries is not observable by the program.\<close>

definition fs_eq :: "FS \<Rightarrow> FS \<Rightarrow> bool" where
  "fs_eq a b \<longleftrightarrow> node a = node b \<and> faulty a = faulty b"

lemma fs_eq_refl [simp]: "fs_eq a a"
  by (simp add: fs_eq_def)

lemma fs_eq_trans: "fs_eq a b \<Longrightarrow> fs_eq b c \<Longrightarrow> fs_eq a c"
  by (simp add: fs_eq_def)

lemma fs_eq_sym: "fs_eq a b \<Longrightarrow> fs_eq b a"
  by (simp add: fs_eq_def)

text \<open>Only nodes of the set \<open>S\<close> may differ.\<close>

definition onlyIn :: "path set \<Rightarrow> FS \<Rightarrow> FS \<Rightarrow> bool" where
  "onlyIn S a b \<longleftrightarrow> faulty b = faulty a \<and> (\<forall>p. p \<notin> S \<longrightarrow> node b p = node a p)"

interpretation onlyIn: step_relation "onlyIn S"
  by unfold_locales (auto simp: onlyIn_def)

lemma onlyIn_mono: "onlyIn S a b \<Longrightarrow> S \<subseteq> T \<Longrightarrow> onlyIn T a b"
  by (auto simp: onlyIn_def)

lemma keeps_onlyIn_mono: "keeps (onlyIn S) m \<Longrightarrow> S \<subseteq> T \<Longrightarrow> keeps (onlyIn T) m"
  unfolding keeps_def using onlyIn_mono by blast

lemma follow_plain:
  "(\<And>t. node fs p \<noteq> Some (Link t)) \<Longrightarrow> follow (Suc n) fs p = Some (p, node fs p)"
  by (auto split: option.splits node.splits)

lemma follow_link: "node fs p = Some (Link t) \<Longrightarrow> follow (Suc n) fs p = follow n fs t"
  by simp

lemma resolve_plain: "(\<And>t. node fs p \<noteq> Some (Link t)) \<Longrightarrow> resolve fs p = Some (p, node fs p)"
  using follow_plain [of fs p 39] by (simp add: resolve_def del: follow.simps)

lemma resolve_link:
  assumes "node fs p = Some (Link t)" and "\<And>t'. node fs t \<noteq> Some (Link t')"
  shows "resolve fs p = Some (t, node fs t)"
  using follow_plain [OF assms(2), of 38] follow_link [OF assms(1), of 39]
  by (simp add: resolve_def del: follow.simps)

lemma follow_final: "follow k fs p = Some (q, n) \<Longrightarrow> node fs q = n \<and> (\<forall>t. n \<noteq> Some (Link t))"
  by (induction k arbitrary: p) (auto split: option.splits node.splits)

lemma osStat_state [simp]: "snd (osStat p fs) = fs"
  by (auto simp: osStat_def split: option.splits)

lemma osReadFile_state [simp]: "snd (osReadFile p fs) = fs"
  by (auto simp: osReadFile_def split: option.splits node.splits)

lemma keeps_osRemove: "p \<noteq> [] \<Longrightarrow> keeps (onlyIn {p}) (osRemove p)"
  by (auto simp: keeps_def osRemove_def onlyIn_def split: option.splits node.splits)

lemma keeps_osSymlink: "l \<noteq> [] \<Longrightarrow> keeps (onlyIn {l}) (osSymlink t l)"
  by (auto simp: keeps_def osSymlink_def onlyIn_def)

lemma keeps_osRemoveAll: "p \<noteq> [] \<Longrightarrow> keeps (onlyIn {q. prefix p q}) (osRemoveAll p)"
  by (auto simp: keeps_def onlyIn_def osRemoveAll_outside)

lemma keeps_osMkdir: "p \<noteq> [] \<Longrightarrow> keeps (onlyIn {p}) (osMkdir p)"
  by (auto simp: keeps_def osMkdir_def onlyIn_def)

lemma deleteFile_run:
  "deleteFile p fs =
     (case fst (osStat p fs) of Err _ \<Rightarrow> (Ok (), fs) | Ok _ \<Rightarrow> osRemove p fs | Panic m \<Rightarrow> (Panic m, fs))"
  using osStat_state [of p fs]
  by (cases "osStat p fs") (auto simp: deleteFile_def attemptM_def tryM_def split: res.splits)

lemma keeps_deleteFile: "p \<noteq> [] \<Longrightarrow> keeps (onlyIn {p}) (deleteFile p)"
  using keepsD [OF keeps_osRemove] onlyIn.R_refl
  by (auto simp: keeps_def deleteFile_run split: res.splits)

text \<open>Making directories adds nodes and never changes one.\<close>

definition extends :: "FS \<Rightarrow> FS \<Rightarrow> bool" where
  "extends a b \<longleftrightarrow> faulty b = faulty a \<and> (\<forall>q n. node a q = Some n \<longrightarrow> node b q = Some n)"

interpretation extends: step_relation extends
  by unfold_locales (auto simp: extends_def)

lemma keeps_osMkdirAll: "keeps extends (osMkdirAll p)" "keeps (onlyIn {q. q \<noteq> [] \<and> prefix q p}) (osMkdirAll p)"
proof -
  have "keeps extends (osMkdir q)" for q
    by (cases "q = []") (auto simp: keeps_def osMkdir_def extends_def)
  then show "keeps extends (osMkdirAll p)"
    unfolding osMkdirAll_def by (intro extends.keeps_eachM) auto
  have "keeps (onlyIn {q. q \<noteq> [] \<and> prefix q p}) (osMkdir q)" if "q \<in> set (prefixes p)" for q
  proof (cases "q = []")
    case True
    then show ?thesis by (simp add: keeps_def osMkdir_def onlyIn.R_refl)
  next
    case False
    then show ?thesis using that by (intro keeps_onlyIn_mono [OF keeps_osMkdir]) auto
  qed
  then show "keeps (onlyIn {q. q \<noteq> [] \<and> prefix q p}) (osMkdirAll p)"
    unfolding osMkdirAll_def by (intro onlyIn.keeps_eachM) auto
qed

lemma osChown_state [simp]: "snd (osChown p fs) = fs"
  by (simp add: osChown_def)

text \<open>Writing a file that does not exist yet, and deleting a regular file or a link to one.\<close>

lemma writeToFile_new:
  assumes "p \<noteq> []" "node fs p = None" "node fs (butlast p) = Some Dir"
    and "\<not> faulty fs OpOpen p" "\<not> faulty fs OpWrite p"
  shows "\<exists>fs'. writeToFile p (Text c) fs = (Ok (), fs') \<and> faulty fs' = faulty fs \<and>
           (\<forall>q. node fs' q = (if q = p then Some (File (Text c)) else node fs q))"
  using assms resolve_plain [of fs p]
  by (simp add: writeToFile_def osOpenCreate_def tryM_def osWrite_def)

lemma writeToFile_old:
  assumes "p \<noteq> []" "node fs p = Some (File (Text old))"
    and "\<not> faulty fs OpOpen p" "\<not> faulty fs OpWrite p"
  shows "\<exists>fs'. writeToFile p (Text c) fs = (Ok (), fs') \<and> faulty fs' = faulty fs \<and>
           (\<forall>q. node fs' q = (if q = p then Some (File (Text (c @ drop (length c) old))) else node fs q))"
  using assms resolve_plain [of fs p]
  by (simp add: writeToFile_def osOpenCreate_def tryM_def osWrite_def)

text \<open>A path whose file can be written, and what writing it does.\<close>

definition writable :: "FS \<Rightarrow> path \<Rightarrow> bool" where
  "writable fs p \<longleftrightarrow> p \<noteq> [] \<and> node fs (butlast p) = Some Dir \<and>
     (node fs p = None \<or> (\<exists>c. node fs p = Some (File c))) \<and>
     \<not> faulty fs OpOpen p \<and> \<not> faulty fs OpWrite p"

lemma overwrite_empty [simp]: "overwrite c (Text []) = c"
  by (cases c) auto

lemma osWriteFile_run:
  assumes "writable fs p"
  shows "\<exists>fs'. osWriteFile p c fs = (Ok (), fs') \<and> faulty fs' = faulty fs \<and>
           (\<forall>q. node fs' q = (if q = p then Some (File c) else node fs q))"
  using assms resolve_plain [of fs p]
  by (auto simp: writable_def osWriteFile_def osOpenCreate_def tryM_def osTruncate_def osWrite_def)

lemma osWriteFile_frame:
  assumes "p \<noteq> []" "node fs p = None \<or> (\<exists>c. node fs p = Some (File c))"
  shows "onlyIn {p} fs (snd (osWriteFile p c fs)) \<and>
    (node (snd (osWriteFile p c fs)) p = None \<or> (\<exists>d. node (snd (osWriteFile p c fs)) p = Some (File d)))"
  using assms resolve_plain [of fs p]
  by (cases "faulty fs OpWrite p")
    (auto simp: onlyIn_def osWriteFile_def osOpenCreate_def tryM_def osTruncate_def osWrite_def)

lemma osReadFile_file:
  "node fs p = Some (File c) \<Longrightarrow> \<not> faulty fs OpOpen p \<Longrightarrow> osReadFile p fs = (Ok c, fs)"
  using resolve_plain [of fs p] by (simp add: osReadFile_def)

lemma osReadFile_missing:
  "node fs p = None \<Longrightarrow> \<not> faulty fs OpOpen p \<Longrightarrow> osReadFile p fs = (Err (errNoEnt ''open'' p), fs)"
  using resolve_plain [of fs p] by (simp add: osReadFile_def)

text \<open>Paths and their texts.\<close>

definition cleanSeg :: "string \<Rightarrow> bool" where
  "cleanSeg w \<longleftrightarrow> w \<noteq> [] \<and> w \<noteq> ''.'' \<and> w \<noteq> ''..'' \<and> CHR ''/'' \<notin> set w"

lemma Split_Join: "ws \<noteq> [] \<Longrightarrow> \<forall>w\<in>set ws. CHR ''/'' \<notin> set w \<Longrightarrow> Split (Join ws ''/'') (CHR ''/'') = ws"
proof (induction ws)
  case Nil
  then show ?case by simp
next
  case (Cons w ws)
  then show ?case by (cases ws) (auto simp: Split_sepfree Split_append)
qed

lemma clean_fold:
  "\<forall>w\<in>set ws. cleanSeg w \<Longrightarrow>
   foldl (\<lambda>acc seg. if seg = [] \<or> seg = ''.'' then acc else if seg = ''..'' then butlast acc else acc @ [seg]) acc ws
     = acc @ ws"
  by (induction ws arbitrary: acc) (auto simp: cleanSeg_def)

lemma toPath_showPath: "\<forall>w\<in>set p. cleanSeg w \<Longrightarrow> toPath (showPath p) = p"
proof (cases p)
  case Nil
  then show ?thesis by (simp add: toPath_def showPath_def)
next
  case (Cons w ws)
  assume c: "\<forall>w\<in>set p. cleanSeg w"
  then have "Split (Join p ''/'') (CHR ''/'') = p" using Cons by (intro Split_Join) (auto simp: cleanSeg_def)
  then show ?thesis using clean_fold [OF c, of "[]"] by (simp add: toPath_def showPath_def)
qed

lemma joinPath_clean: "cleanSeg n \<Longrightarrow> joinPath d n = d @ [n]"
  by (simp add: joinPath_def cleanSeg_def Split_sepfree)

lemma deleteFile_removes:
  assumes "p \<noteq> []" and "node fs p = Some (File c) \<or> (\<exists>t c. node fs p = Some (Link t) \<and> node fs t = Some (File c))"
    and "\<not> faulty fs OpStat p" "\<not> faulty fs OpRemove p"
  shows "\<exists>fs'. deleteFile p fs = (Ok (), fs') \<and> faulty fs' = faulty fs \<and>
           (\<forall>q. node fs' q = (if q = p then None else node fs q))"
  using assms resolve_plain [of fs p] resolve_link [of fs p]
  by (auto simp: deleteFile_run osStat_def osRemove_def)

lemma deleteFile_missing: "p \<noteq> [] \<Longrightarrow> node fs p = None \<Longrightarrow> deleteFile p fs = (Ok (), fs)"
  using resolve_plain [of fs p] by (simp add: deleteFile_run osStat_def)

lemma deleteFile_dangling:
  "node fs p = Some (Link t) \<Longrightarrow> node fs t = None \<Longrightarrow> deleteFile p fs = (Ok (), fs)"
  using resolve_link [of fs p t] by (simp add: deleteFile_run osStat_def)

end
