(* ===== verification/Migration.thy ===== *)
theory Migration
  imports Manifest
begin

text \<open>
  Reading and writing manifests (\<^verbatim>\<open>models.go\<close>, \<^verbatim>\<open>manifest_validator.go\<close>) and the migration of a
  manifest of version 0.1 to version 0.2 (\<^verbatim>\<open>migration.go\<close>).

  A JSON text is represented by the \<open>json\<close> value it denotes; texts that are not JSON are outside
  the model. The members of a struct are matched by their exact name, where Go also takes a name in other
  letters; of several members of a name the last one counts, where Go merges objects and lets a \<^verbatim>\<open>null\<close>
  pass. A \<^verbatim>\<open>null\<close> or missing member leaves the zero value, as \<^verbatim>\<open>json.Unmarshal\<close> does. A \<^verbatim>\<open>null\<close> in the place
  of a service is a nil pointer in a manifest of version 0.1, whose migration follows it; elsewhere a \<^verbatim>\<open>null\<close> in
  the place of a service, environment, setting, item or route gives an empty one where Go has a nil pointer.
\<close>

section \<open>Decoding\<close>

definition unmarshalTypeError :: "'a res" where
  "unmarshalTypeError = Err (ErrorString ''json: cannot unmarshal value into Go struct field'')"

fun dStr :: "json \<Rightarrow> string res" where
  "dStr JNull = Ok []"
| "dStr (JStr s) = Ok s"
| "dStr _ = unmarshalTypeError"

fun dBool :: "json \<Rightarrow> bool res" where
  "dBool JNull = Ok False"
| "dBool (JBool b) = Ok b"
| "dBool _ = unmarshalTypeError"

text \<open>A later member of an object replaces an earlier one of the same name.\<close>

definition fromMembers :: "(string \<times> 'v) list \<Rightarrow> (string \<times> 'v) list" where
  "fromMembers kvs = foldl (\<lambda>acc (k, v). AList.update k v acc) [] kvs"

fun dMap :: "(json \<Rightarrow> 'v res) \<Rightarrow> json \<Rightarrow> 'v gomap res" where
  "dMap f JNull = Ok None"
| "dMap f (JObj kvs) =
     bind_res (mapR (\<lambda>(k, j). bind_res (f j) (\<lambda>v. Ok (k, v))) kvs) (\<lambda>xs. Ok (Some (fromMembers xs)))"
| "dMap f _ = unmarshalTypeError"

fun dSlice :: "(json \<Rightarrow> 'v res) \<Rightarrow> json \<Rightarrow> 'v list option res" where
  "dSlice f JNull = Ok None"
| "dSlice f (JArr xs) = bind_res (mapR f xs) (\<lambda>ys. Ok (Some ys))"
| "dSlice f _ = unmarshalTypeError"

fun dPtr :: "(json \<Rightarrow> 'v res) \<Rightarrow> json \<Rightarrow> 'v option res" where
  "dPtr f JNull = Ok None"
| "dPtr f j = bind_res (f j) (\<lambda>v. Ok (Some v))"

fun dStruct :: "json \<Rightarrow> (string \<times> json) list res" where
  "dStruct JNull = Ok []"
| "dStruct (JObj kvs) = Ok kvs"
| "dStruct _ = unmarshalTypeError"

definition member :: "(string \<times> json) list \<Rightarrow> string \<Rightarrow> json" where
  "member kvs name = (case map_of (rev kvs) name of None \<Rightarrow> JNull | Some j \<Rightarrow> j)"

definition dService :: "json \<Rightarrow> Service res" where
  "dService j =
     bind_res (dStruct j) (\<lambda>m.
     bind_res (dStr (member m ''type'')) (\<lambda>t.
     bind_res (dMap Ok (member m ''config'')) (\<lambda>c.
     Ok \<lparr>svc_Type = t, svc_Config = c\<rparr>)))"

definition dEnvironmentConfig :: "json \<Rightarrow> EnvironmentConfig res" where
  "dEnvironmentConfig j =
     bind_res (dStruct j) (\<lambda>m.
     bind_res (dMap (dMap Ok) (member m ''volumes'')) (\<lambda>v.
     bind_res (dMap (dMap Ok) (member m ''networks'')) (\<lambda>n.
     Ok \<lparr>Volumes = v, Networks = n\<rparr>)))"

definition dEnvironment :: "json \<Rightarrow> Environment res" where
  "dEnvironment j =
     bind_res (dStruct j) (\<lambda>m.
     bind_res (dStr (member m ''type'')) (\<lambda>t.
     bind_res (dEnvironmentConfig (member m ''config'')) (\<lambda>c.
     Ok \<lparr>env_Type = t, env_Config = c\<rparr>)))"

definition dItem :: "json \<Rightarrow> Item res" where
  "dItem j =
     bind_res (dStruct j) (\<lambda>m.
     bind_res (dStr (member m ''label'')) (\<lambda>l.
     bind_res (dStr (member m ''value'')) (\<lambda>v.
     bind_res (dBool (member m ''default'')) (\<lambda>s.
     Ok \<lparr>item_Label = l, item_Value = v, item_Selected = s\<rparr>))))"

definition dSetting :: "json \<Rightarrow> Setting res" where
  "dSetting j =
     bind_res (dStruct j) (\<lambda>m.
     bind_res (dStr (member m ''name'')) (\<lambda>n.
     bind_res (dStr (member m ''label'')) (\<lambda>l.
     bind_res (dStr (member m ''default'')) (\<lambda>v.
     bind_res (dBool (member m ''required'')) (\<lambda>r.
     bind_res (dStr (member m ''pattern'')) (\<lambda>p.
     bind_res (dSlice dItem (member m ''select'')) (\<lambda>s.
     Ok \<lparr>set_Name = n, set_Label = l, set_Value = v, set_Required = r, set_Pattern = p,
         set_Select = s\<rparr>)))))))"

definition dProxyRoute :: "json \<Rightarrow> ProxyRoute res" where
  "dProxyRoute j =
     bind_res (dStruct j) (\<lambda>m.
     bind_res (dStr (member m ''from'')) (\<lambda>f.
     bind_res (dStr (member m ''to'')) (\<lambda>t.
     Ok \<lparr>From = f, To = t\<rparr>)))"

definition dVendor :: "json \<Rightarrow> Vendor res" where
  "dVendor j =
     bind_res (dStruct j) (\<lambda>m.
     bind_res (dStr (member m ''name'')) (\<lambda>a.
     bind_res (dStr (member m ''url'')) (\<lambda>b.
     bind_res (dStr (member m ''email'')) (\<lambda>c.
     bind_res (dStr (member m ''street'')) (\<lambda>d.
     bind_res (dStr (member m ''zip'')) (\<lambda>e.
     bind_res (dStr (member m ''city'')) (\<lambda>f.
     bind_res (dStr (member m ''country'')) (\<lambda>g.
     Ok \<lparr>vnd_Name = a, vnd_Url = b, vnd_Email = c, vnd_Street = d, vnd_Zip = e, vnd_City = f,
         vnd_Country = g\<rparr>))))))))"

definition dFeature :: "json \<Rightarrow> Feature res" where
  "dFeature j =
     bind_res (dStruct j) (\<lambda>m.
     bind_res (dStr (member m ''name'')) (\<lambda>n.
     bind_res (dPtr dBool (member m ''required'')) (\<lambda>r.
     Ok \<lparr>ft_Name = n, ft_Required = r\<rparr>)))"

text \<open>Slices of which the program never distinguishes nil from empty.\<close>

definition dList :: "(json \<Rightarrow> 'v res) \<Rightarrow> json \<Rightarrow> 'v list res" where
  "dList f j = bind_res (dSlice f j) (\<lambda>xs. Ok (case xs of None \<Rightarrow> [] | Some ys \<Rightarrow> ys))"

definition NewFromBytes :: "json \<Rightarrow> Root res" where
  "NewFromBytes j =
     bind_res (dStruct j) (\<lambda>m.
     bind_res (dStr (member m ''manifestVersion'')) (\<lambda>mv.
     bind_res (dStr (member m ''version'')) (\<lambda>v.
     bind_res (dStr (member m ''title'')) (\<lambda>t.
     bind_res (dStr (member m ''description'')) (\<lambda>d.
     bind_res (dStr (member m ''logo'')) (\<lambda>l.
     bind_res (dMap dService (member m ''services'')) (\<lambda>sv.
     bind_res (dMap dEnvironment (member m ''environments'')) (\<lambda>en.
     bind_res (dMap (dList dSetting) (member m ''settings'')) (\<lambda>st.
     bind_res (dMap dProxyRoute (member m ''publish'')) (\<lambda>pb.
     bind_res (dPtr dVendor (member m ''vendor'')) (\<lambda>vn.
     bind_res (dList dFeature (member m ''features'')) (\<lambda>ft.
     bind_res (dSlice dStr (member m ''platform'')) (\<lambda>pf.
     Ok \<lparr>ManifestVersion = mv, root_Version = v, Title = t, Description = d, Logo = l,
         Services = sv, Environments = en, Settings = st, Publish = pb, root_Vendor = vn,
         Features = ft, Platform = pf\<rparr>)))))))))))))"

definition UnmarshalManifestVersionFrom :: "json \<Rightarrow> string res" where
  "UnmarshalManifestVersionFrom j =
     bind_res (dStruct j) (\<lambda>m.
     bind_res (dStr (member m ''manifestVersion'')) (\<lambda>v.
     if v = [] then Err (ErrorString ''No ManifestVersion in byte content'') else Ok v))"

section \<open>Encoding\<close>

text \<open>An object whose members with value \<open>None\<close> are omitted (\<^verbatim>\<open>omitempty\<close>).\<close>

definition present :: "(string \<times> json option) list \<Rightarrow> (string \<times> json) list" where
  "present fs = concat (map (\<lambda>(n, oj). case oj of None \<Rightarrow> [] | Some j \<Rightarrow> [(n, j)]) fs)"

definition obj :: "(string \<times> json option) list \<Rightarrow> json" where
  "obj fs = JObj (present fs)"

definition eStr :: "string \<Rightarrow> json option" where
  "eStr s = Some (JStr s)"

definition eStrOmit :: "string \<Rightarrow> json option" where
  "eStrOmit s = (if s = [] then None else Some (JStr s))"

definition eBoolOmit :: "bool \<Rightarrow> json option" where
  "eBoolOmit b = (if b then Some (JBool True) else None)"

definition eMap :: "('v \<Rightarrow> json) \<Rightarrow> 'v gomap \<Rightarrow> json" where
  "eMap f m = (case m of None \<Rightarrow> JNull | Some kvs \<Rightarrow> JObj (map (\<lambda>(k, v). (k, f v)) kvs))"

definition eMapOmit :: "('v \<Rightarrow> json) \<Rightarrow> 'v gomap \<Rightarrow> json option" where
  "eMapOmit f m = (if entries m = [] then None else Some (eMap f m))"

definition eListOmit :: "('v \<Rightarrow> json) \<Rightarrow> 'v list \<Rightarrow> json option" where
  "eListOmit f xs = (if xs = [] then None else Some (JArr (map f xs)))"

definition eService :: "Service \<Rightarrow> json" where
  "eService s = obj [(''type'', eStr (svc_Type s)), (''config'', Some (eMap id (svc_Config s)))]"

definition eEnvironmentConfig :: "EnvironmentConfig \<Rightarrow> json" where
  "eEnvironmentConfig c =
     obj [(''volumes'', eMapOmit (eMap id) (Volumes c)), (''networks'', eMapOmit (eMap id) (Networks c))]"

definition eEnvironment :: "Environment \<Rightarrow> json" where
  "eEnvironment e =
     obj [(''type'', eStr (env_Type e)), (''config'', Some (eEnvironmentConfig (env_Config e)))]"

definition eItem :: "Item \<Rightarrow> json" where
  "eItem i =
     obj [(''label'', eStr (item_Label i)), (''value'', eStr (item_Value i)),
          (''default'', Some (JBool (item_Selected i)))]"

definition eSetting :: "Setting \<Rightarrow> json" where
  "eSetting s =
     obj [(''name'', eStrOmit (set_Name s)), (''label'', eStrOmit (set_Label s)),
          (''default'', eStrOmit (set_Value s)), (''required'', eBoolOmit (set_Required s)),
          (''pattern'', eStrOmit (set_Pattern s)), (''select'', eListOmit eItem (selectItems s))]"

definition eProxyRoute :: "ProxyRoute \<Rightarrow> json" where
  "eProxyRoute r = obj [(''from'', eStr (From r)), (''to'', eStr (To r))]"

definition eVendor :: "Vendor \<Rightarrow> json" where
  "eVendor v =
     obj [(''name'', eStr (vnd_Name v)), (''url'', eStr (vnd_Url v)), (''email'', eStr (vnd_Email v)),
          (''street'', eStr (vnd_Street v)), (''zip'', eStr (vnd_Zip v)), (''city'', eStr (vnd_City v)),
          (''country'', eStr (vnd_Country v))]"

definition eFeature :: "Feature \<Rightarrow> json" where
  "eFeature f = obj [(''name'', eStr (ft_Name f)), (''required'', map_option JBool (ft_Required f))]"

definition ePlatform :: "string list option \<Rightarrow> json" where
  "ePlatform p = (case p of None \<Rightarrow> JNull | Some xs \<Rightarrow> JArr (map JStr xs))"

definition eSettings :: "Setting list \<Rightarrow> json" where
  "eSettings xs = JArr (map eSetting xs)"

definition ToBytes :: "Root \<Rightarrow> json" where
  "ToBytes r =
     obj [(''manifestVersion'', eStr (ManifestVersion r)), (''version'', eStr (root_Version r)),
          (''title'', eStr (Title r)), (''description'', eStr (Description r)), (''logo'', eStr (Logo r)),
          (''services'', Some (eMap eService (Services r))),
          (''environments'', eMapOmit eEnvironment (Environments r)),
          (''settings'', eMapOmit eSettings (Settings r)),
          (''publish'', eMapOmit eProxyRoute (Publish r)),
          (''vendor'', map_option eVendor (root_Vendor r)),
          (''features'', eListOmit eFeature (Features r)),
          (''platform'', Some (ePlatform (Platform r)))]"

section \<open>Validation\<close>

text \<open>
  \<^verbatim>\<open>ManifestValidator.Validate\<close>; the compiled JSON schema (package \<^verbatim>\<open>jsonschema\<close>) is the parameter
  \<open>schema\<close>, which gives \<open>Some msg\<close> for a document that violates it.
\<close>

definition Validate :: "(json \<Rightarrow> string option) \<Rightarrow> Root \<Rightarrow> unit res" where
  "Validate schema manifest =
     (let convertedManifest = ToBytes manifest
      in case schema convertedManifest of
           Some msg \<Rightarrow>
             Err (SchemaValidationError
                    (CHR 0x27 # Title manifest @ CHR 0x27 # '' has an invalid manifest. '' @ msg))
         | None \<Rightarrow> Ok ())"

section \<open>Migration\<close>

text \<open>
  \<^verbatim>\<open>v0_1.Root\<close>: a manifest without features; the parts have the types of version 0.2. A service is a pointer.
\<close>

record RootV01 =
  v01_ManifestVersion :: string
  v01_Version :: string
  v01_Title :: string
  v01_Description :: string
  v01_Logo :: string
  v01_Services :: "Service option gomap"
  v01_Environments :: "Environment gomap"
  v01_Settings :: "Setting list gomap"
  v01_Publish :: "ProxyRoute gomap"
  v01_Vendor :: "Vendor option"
  v01_Platform :: "string list option"

definition v01_ValidManifestVersion :: string where
  "v01_ValidManifestVersion = ''0.1''"

definition unmarshalV01 :: "json \<Rightarrow> RootV01 res" where
  "unmarshalV01 j =
     bind_res (dStruct j) (\<lambda>m.
     bind_res (dStr (member m ''manifestVersion'')) (\<lambda>mv.
     bind_res (dStr (member m ''version'')) (\<lambda>v.
     bind_res (dStr (member m ''title'')) (\<lambda>t.
     bind_res (dStr (member m ''description'')) (\<lambda>d.
     bind_res (dStr (member m ''logo'')) (\<lambda>l.
     bind_res (dMap (dPtr dService) (member m ''services'')) (\<lambda>sv.
     bind_res (dMap dEnvironment (member m ''environments'')) (\<lambda>en.
     bind_res (dMap (dList dSetting) (member m ''settings'')) (\<lambda>st.
     bind_res (dMap dProxyRoute (member m ''publish'')) (\<lambda>pb.
     bind_res (dPtr dVendor (member m ''vendor'')) (\<lambda>vn.
     bind_res (dSlice dStr (member m ''platform'')) (\<lambda>pf.
     Ok \<lparr>v01_ManifestVersion = mv, v01_Version = v, v01_Title = t, v01_Description = d,
         v01_Logo = l, v01_Services = sv, v01_Environments = en, v01_Settings = st,
         v01_Publish = pb, v01_Vendor = vn, v01_Platform = pf\<rparr>))))))))))))"

definition eServicePtr :: "Service option \<Rightarrow> json" where
  "eServicePtr p = (case p of None \<Rightarrow> JNull | Some s \<Rightarrow> eService s)"

definition marshalV01 :: "RootV01 \<Rightarrow> json" where
  "marshalV01 r =
     obj [(''manifestVersion'', eStr (v01_ManifestVersion r)), (''version'', eStr (v01_Version r)),
          (''title'', eStr (v01_Title r)), (''description'', eStr (v01_Description r)),
          (''logo'', eStr (v01_Logo r)),
          (''services'', Some (eMap eServicePtr (v01_Services r))),
          (''environments'', eMapOmit eEnvironment (v01_Environments r)),
          (''settings'', eMapOmit eSettings (v01_Settings r)),
          (''publish'', eMapOmit eProxyRoute (v01_Publish r)),
          (''vendor'', map_option eVendor (v01_Vendor r)),
          (''platform'', Some (ePlatform (v01_Platform r)))]"

definition externalAddOnNetworkConfigName :: string where
  "externalAddOnNetworkConfigName = ''uc-aom-network''"

definition emptyVendor :: Vendor where
  "emptyVendor =
     \<lparr>vnd_Name = [], vnd_Url = [], vnd_Email = [], vnd_Street = [], vnd_Zip = [], vnd_City = [],
      vnd_Country = []\<rparr>"

definition usesBridge :: "Service \<Rightarrow> bool" where
  "usesBridge service \<longleftrightarrow> mget (svc_Config service) ''networkMode'' = Some (JStr InternalAddOnNetworkName)"

definition useInternalBridge :: "Service gomap \<Rightarrow> bool" where
  "useInternalBridge services = list_ex (\<lambda>(_, service). usesBridge service) (entries services)"

text \<open>A write to a Go map that is known to be non-nil.\<close>

definition setKey :: "string \<Rightarrow> 'v \<Rightarrow> 'v gomap \<Rightarrow> 'v gomap" where
  "setKey k v m = map_option (AList.update k v) m"

definition mapServices :: "(Service \<Rightarrow> Service) \<Rightarrow> Root \<Rightarrow> Root" where
  "mapServices f r = r\<lparr>Services := map_option (map (\<lambda>(k, s). (k, f s))) (Services r)\<rparr>"

definition replaceRestart :: "Service \<Rightarrow> Service" where
  "replaceRestart service =
     (if mget (svc_Config service) ''restart'' = Some (JStr ''always'')
      then service\<lparr>svc_Config := setKey ''restart'' (JStr ''no'') (svc_Config service)\<rparr>
      else service)"

definition migrationEnvironmentName :: string where
  "migrationEnvironmentName = ''migration-environment-v0-1-to-v0-2''"

definition addEnvironmentforExternalAddOnNetwork :: "Root \<Rightarrow> Root" where
  "addEnvironmentforExternalAddOnNetwork migratedManifest =
     (let environments = (if entries (Environments migratedManifest) = [] then Some []
                          else Environments migratedManifest);
          ucAomNetworkConfig = Some [(externalAddOnNetworkConfigName,
            Some [(''external'', JBool True), (''name'', JStr InternalAddOnNetworkName)])]
      in migratedManifest\<lparr>Environments :=
           setKey migrationEnvironmentName
             (WithNetworks ucAomNetworkConfig (NewEnvironment ''docker-compose'')) environments\<rparr>)"

definition attachService :: "Service \<Rightarrow> Service" where
  "attachService service =
     (if usesBridge service
      then service\<lparr>svc_Config := setKey ''networks'' (JArr [JStr externalAddOnNetworkConfigName])
                                 (mdelete ''networkMode'' (svc_Config service))\<rparr>
      else service)"

definition attachServicesToExternalAddOnNetwork :: "Root \<Rightarrow> Root" where
  "attachServicesToExternalAddOnNetwork = mapServices attachService"

text \<open>
  The services of \<open>migratedManifest\<close> that are nil are those of \<open>manifestToMigrate\<close>; the first loop over the services
  dereferences every one of them.
\<close>

definition migrateFromV0_1ToV0_2 :: "RootV01 \<Rightarrow> Root res" where
  "migrateFromV0_1ToV0_2 manifestToMigrate =
     bind_res (NewFromBytes (marshalV01 manifestToMigrate)) (\<lambda>migratedManifest.
       if root_Vendor migratedManifest = None \<or> root_Vendor migratedManifest = Some emptyVendor
       then Err (ErrorString ''Vendor is required'')
       else if list_ex (\<lambda>(_, service). service = None) (entries (v01_Services manifestToMigrate))
       then Panic ''invalid memory address or nil pointer dereference''
       else
         (let m1 = mapServices replaceRestart (migratedManifest\<lparr>Features := []\<rparr>);
              m2 = (if useInternalBridge (Services m1)
                    then attachServicesToExternalAddOnNetwork (addEnvironmentforExternalAddOnNetwork m1)
                    else m1)
          in Ok (m2\<lparr>ManifestVersion := ValidManifestVersion\<rparr>)))"

definition MigrateUcManifest :: "string \<Rightarrow> json \<Rightarrow> json res" where
  "MigrateUcManifest manifestVersion manifestToMigrate =
     (if manifestVersion = v01_ValidManifestVersion then
        bind_res (unmarshalV01 manifestToMigrate) (\<lambda>manifestV0_1.
        bind_res (migrateFromV0_1ToV0_2 manifestV0_1) (\<lambda>currentManifest.
        Ok (ToBytes currentManifest)))
      else if manifestVersion = ValidManifestVersion then Ok manifestToMigrate
      else Err (ErrorString (''Manifest version '' @ manifestVersion @ '' is unknown'')))"

section \<open>Round trips of the parts\<close>

definition wfMap :: "'v gomap \<Rightarrow> bool" where
  "wfMap m \<longleftrightarrow> distinct (map fst (entries m))"

definition mapValues :: "('a \<Rightarrow> 'b) \<Rightarrow> 'a gomap \<Rightarrow> 'b gomap" where
  "mapValues f m = map_option (map (\<lambda>(k, v). (k, f v))) m"

text \<open>What \<^verbatim>\<open>omitempty\<close> makes of an empty map: it comes back as nil.\<close>

definition omitMap :: "'v gomap \<Rightarrow> 'v gomap" where
  "omitMap m = (if entries m = [] then None else m)"

definition orNull :: "json option \<Rightarrow> json" where
  "orNull oj = (case oj of None \<Rightarrow> JNull | Some j \<Rightarrow> j)"

lemma orNull_simps [simp]: "orNull None = JNull" "orNull (Some j) = j"
  by (simp_all add: orNull_def)

lemma update_new: "k \<notin> fst ` set al \<Longrightarrow> AList.update k v al = al @ [(k, v)]"
  by (induction al) auto

lemma fromMembers_distinct:
  assumes "distinct (map fst kvs)"
  shows "fromMembers kvs = kvs"
proof -
  have "distinct (map fst (acc @ kvs)) \<Longrightarrow>
      foldl (\<lambda>acc (k, v). AList.update k v acc) acc kvs = acc @ kvs" for acc
    by (induction kvs arbitrary: acc) (auto simp: update_new)
  from this [of "[]"] assms show ?thesis by (simp add: fromMembers_def)
qed

lemma distinct_fromMembers: "distinct (map fst (fromMembers kvs))"
proof -
  have "distinct (map fst acc) \<Longrightarrow>
      distinct (map fst (foldl (\<lambda>acc (k, v). AList.update k v acc) acc kvs))" for acc
    by (induction kvs arbitrary: acc) (auto simp: distinct_update)
  from this [of "[]"] show ?thesis by (simp add: fromMembers_def)
qed

lemma map_of_present:
  "distinct (map fst fs) \<Longrightarrow>
   map_of (present fs) n = (case map_of fs n of Some oj \<Rightarrow> oj | None \<Rightarrow> None)"
proof (induction fs)
  case Nil
  then show ?case by (simp add: present_def)
next
  case (Cons p fs)
  obtain m oj where p: "p = (m, oj)" by (cases p)
  have "map_of fs m = None" using Cons.prems p by (simp add: map_of_eq_None_iff)
  then show ?case
    using Cons p by (cases oj) (auto simp: present_def)
qed

lemma distinct_present: "distinct (map fst fs) \<Longrightarrow> distinct (map fst (present fs))"
proof (induction fs)
  case (Cons p fs)
  obtain m oj where p: "p = (m, oj)" by (cases p)
  have "map_of fs m = None" using Cons.prems p by (simp add: map_of_eq_None_iff)
  then have "map_of (present fs) m = None" using Cons.prems p by (simp add: map_of_present)
  then show ?case
    using Cons p by (cases oj) (auto simp: present_def map_of_eq_None_iff)
qed (simp add: present_def)

lemma map_of_rev_distinct: "distinct (map fst xs) \<Longrightarrow> map_of (rev xs) k = map_of xs k"
proof (induction xs)
  case (Cons x xs)
  have "map_of xs (fst x) = None" using Cons.prems by (simp add: map_of_eq_None_iff)
  then show ?case using Cons by (cases x) (auto simp: map_add_def split: option.splits)
qed simp

lemma member_distinct: "distinct (map fst kvs) \<Longrightarrow> member kvs n = (case map_of kvs n of None \<Rightarrow> JNull | Some j \<Rightarrow> j)"
  by (simp add: member_def map_of_rev_distinct)

lemma dStruct_obj [simp]: "dStruct (obj fs) = Ok (present fs)"
  by (simp add: obj_def)

lemma member_obj [simp]:
  "distinct (map fst fs) \<Longrightarrow>
   member (present fs) n = (case map_of fs n of Some oj \<Rightarrow> orNull oj | None \<Rightarrow> JNull)"
  by (auto simp: member_distinct distinct_present map_of_present orNull_def split: option.splits)

lemma dec_enc_scalars [simp]:
  "dStr (orNull (eStr s)) = Ok s" "dStr (orNull (eStrOmit s)) = Ok s"
  "dBool (orNull (eBoolOmit b)) = Ok b"
  by (simp_all add: eStr_def eStrOmit_def eBoolOmit_def)

lemma dMap_eMap:
  assumes "wfMap m" and "\<And>k v. (k, v) \<in> set (entries m) \<Longrightarrow> f (g v) = Ok (h v)"
  shows "dMap f (eMap g m) = Ok (mapValues h m)"
proof (cases m)
  case None
  then show ?thesis by (simp add: eMap_def mapValues_def)
next
  case (Some kvs)
  have "mapR (\<lambda>(k, j). bind_res (f j) (\<lambda>v. Ok (k, v))) (map (\<lambda>(k, v). (k, g v)) kvs)
      = Ok (map (\<lambda>(k, v). (k, h v)) kvs)"
    unfolding mapR_map by (rule mapR_Ok) (use assms(2) Some in auto)
  moreover have "distinct (map fst (map (\<lambda>(k, v). (k, h v)) kvs))"
    using assms(1) Some by (simp add: wfMap_def comp_def case_prod_beta)
  ultimately show ?thesis using Some by (simp add: eMap_def mapValues_def fromMembers_distinct)
qed

lemma dMap_eMapOmit:
  assumes "wfMap m" and "\<And>k v. (k, v) \<in> set (entries m) \<Longrightarrow> f (g v) = Ok (h v)"
  shows "dMap f (orNull (eMapOmit g m)) = Ok (omitMap (mapValues h m))"
  using dMap_eMap [of m f g h] assms by (cases m) (auto simp: eMapOmit_def omitMap_def mapValues_def)

lemma dMap_id: "wfMap m \<Longrightarrow> dMap Ok (eMap id m) = Ok m"
  using dMap_eMap [of m Ok id id] by (cases m) (auto simp: mapValues_def)

lemma dList_eListOmit:
  assumes "\<And>x. x \<in> set xs \<Longrightarrow> f (g x) = Ok (h x)"
  shows "dSlice f (orNull (eListOmit g xs)) = Ok (if xs = [] then None else Some (map h xs))"
    and "dList f (orNull (eListOmit g xs)) = Ok (map h xs)"
    and "dSlice f (JArr (map g xs)) = Ok (Some (map h xs))"
    and "dList f (JArr (map g xs)) = Ok (map h xs)"
proof -
  have "mapR f (map g xs) = Ok (map h xs)" using assms by (induction xs) auto
  then show "dSlice f (orNull (eListOmit g xs)) = Ok (if xs = [] then None else Some (map h xs))"
    and "dList f (orNull (eListOmit g xs)) = Ok (map h xs)"
    and "dSlice f (JArr (map g xs)) = Ok (Some (map h xs))"
    and "dList f (JArr (map g xs)) = Ok (map h xs)"
    by (simp_all add: eListOmit_def dList_def)
qed

text \<open>The normal form a part of the manifest has after it was written and read again.\<close>

definition normConfig :: "EnvironmentConfig \<Rightarrow> EnvironmentConfig" where
  "normConfig c = \<lparr>Volumes = omitMap (Volumes c), Networks = omitMap (Networks c)\<rparr>"

definition normEnvironment :: "Environment \<Rightarrow> Environment" where
  "normEnvironment e = e\<lparr>env_Config := normConfig (env_Config e)\<rparr>"

definition normSetting :: "Setting \<Rightarrow> Setting" where
  "normSetting s = s\<lparr>set_Select := (if selectItems s = [] then None else set_Select s)\<rparr>"

definition normRoot :: "Root \<Rightarrow> Root" where
  "normRoot r = r\<lparr>Environments := omitMap (mapValues normEnvironment (Environments r)),
                  Settings := omitMap (mapValues (map normSetting) (Settings r)),
                  Publish := omitMap (Publish r)\<rparr>"

definition wfMaps :: "json gomap gomap \<Rightarrow> bool" where
  "wfMaps m \<longleftrightarrow> wfMap m \<and> list_all (\<lambda>(_, c). wfMap c) (entries m)"

definition wfServices :: "Service gomap \<Rightarrow> bool" where
  "wfServices m \<longleftrightarrow> wfMap m \<and> list_all (\<lambda>(_, s). wfMap (svc_Config s)) (entries m)"

definition wfEnvironments :: "Environment gomap \<Rightarrow> bool" where
  "wfEnvironments m \<longleftrightarrow> wfMap m \<and>
     list_all (\<lambda>(_, e). wfMaps (Volumes (env_Config e)) \<and> wfMaps (Networks (env_Config e))) (entries m)"

text \<open>Every Go map of the manifest has distinct keys (Go's maps always do).\<close>

definition wfRoot :: "Root \<Rightarrow> bool" where
  "wfRoot r \<longleftrightarrow> wfServices (Services r) \<and> wfEnvironments (Environments r) \<and>
     wfMap (Settings r) \<and> wfMap (Publish r)"

lemma mapValues_ident [simp]: "mapValues (\<lambda>x. x) m = m" "mapValues id m = m"
  by (cases m; simp add: mapValues_def)+

lemma dService_eService: "wfMap (svc_Config s) \<Longrightarrow> dService (eService s) = Ok s"
  by (simp add: dService_def eService_def dMap_id)

lemma dMaps_omit: "wfMaps m \<Longrightarrow> dMap (dMap Ok) (orNull (eMapOmit (eMap id) m)) = Ok (omitMap m)"
  using dMap_eMapOmit [of m "dMap Ok" "eMap id" id] dMap_id
  by (auto simp: wfMaps_def list_all_iff)

lemma dEnvironment_eEnvironment:
  assumes "wfMaps (Volumes (env_Config e))" "wfMaps (Networks (env_Config e))"
  shows "dEnvironment (eEnvironment e) = Ok (normEnvironment e)"
  using assms
  by (cases e; cases "env_Config e")
    (simp add: dEnvironment_def eEnvironment_def dEnvironmentConfig_def eEnvironmentConfig_def
      dMaps_omit normEnvironment_def normConfig_def)

lemma dItem_eItem: "dItem (eItem i) = Ok i"
  by (simp add: dItem_def eItem_def)

lemma dSetting_eSetting: "dSetting (eSetting s) = Ok (normSetting s)"
  using dList_eListOmit [of "selectItems s" dItem eItem id] dItem_eItem
  by (cases s) (auto simp: dSetting_def eSetting_def normSetting_def selectItems_def split: option.splits)

lemma dSettings_eSettings: "dList dSetting (eSettings xs) = Ok (map normSetting xs)"
  using dList_eListOmit(4) [of xs dSetting eSetting normSetting] dSetting_eSetting
  by (simp add: eSettings_def)

lemma dProxyRoute_eProxyRoute: "dProxyRoute (eProxyRoute r) = Ok r"
  by (simp add: dProxyRoute_def eProxyRoute_def)

lemma dVendor_eVendor: "dVendor (eVendor v) = Ok v"
  by (simp add: dVendor_def eVendor_def)

lemma dPtr_eVendor: "dPtr dVendor (orNull (map_option eVendor v)) = Ok v"
  using dVendor_eVendor by (cases v) (auto simp: eVendor_def obj_def)

lemma dFeature_eFeature: "dFeature (eFeature f) = Ok f"
  by (cases "ft_Required f"; cases f) (simp_all add: dFeature_def eFeature_def)

lemma dPlatform_ePlatform: "dSlice dStr (ePlatform p) = Ok p"
  using dList_eListOmit(3) [of _ dStr JStr id] by (cases p) (simp_all add: ePlatform_def)

lemma dServices_eServices: "wfServices m \<Longrightarrow> dMap dService (eMap eService m) = Ok m"
  using dMap_eMap [of m dService eService id] dService_eService
  by (auto simp: wfServices_def list_all_iff)

lemma dEnvironments_omit:
  assumes "wfEnvironments m"
  shows "dMap dEnvironment (orNull (eMapOmit eEnvironment m)) = Ok (omitMap (mapValues normEnvironment m))"
  by (rule dMap_eMapOmit)
    (use assms in \<open>auto simp: wfEnvironments_def list_all_iff intro!: dEnvironment_eEnvironment\<close>)

lemmas decode_encode =
  dServices_eServices dEnvironments_omit dPtr_eVendor dPlatform_ePlatform
  dMap_eMapOmit [of _ "dList dSetting" eSettings "map normSetting", OF _ dSettings_eSettings]
  dMap_eMapOmit [of _ dProxyRoute eProxyRoute "\<lambda>x. x", OF _ dProxyRoute_eProxyRoute]
  dList_eListOmit(2) [of _ dFeature eFeature "\<lambda>x. x", OF dFeature_eFeature]

lemma NewFromBytes_ToBytes: "wfRoot r \<Longrightarrow> NewFromBytes (ToBytes r) = Ok (normRoot r)"
  by (cases r) (simp add: NewFromBytes_def ToBytes_def wfRoot_def decode_encode normRoot_def)

section \<open>Migration lemmas\<close>

lemma wfMap_dMap: "dMap f j = Ok m \<Longrightarrow> wfMap m"
  by (cases j) (auto simp: wfMap_def bind_res_Ok_iff distinct_fromMembers unmarshalTypeError_def)

lemma set_fromMembers: "set (fromMembers kvs) \<subseteq> set kvs"
proof -
  have "set (foldl (\<lambda>acc (k, v). AList.update k v acc) acc kvs) \<subseteq> set acc \<union> set kvs" for acc
  proof (induction kvs arbitrary: acc)
    case Nil
    show ?case by simp
  next
    case (Cons kv kvs)
    show ?case
      using Cons.IH [of "AList.update (fst kv) (snd kv) acc"] set_update_subset [of "fst kv" "snd kv" acc]
      by (auto simp: case_prod_beta)
  qed
  from this [of "[]"] show ?thesis by (simp add: fromMembers_def)
qed

lemma dMap_values:
  assumes "dMap f j = Ok m" and "(k, v) \<in> set (entries m)"
  shows "\<exists>i. f i = Ok v"
proof (cases j)
  case (JObj kvs)
  with assms obtain xs where
    xs: "list_all2 (\<lambda>kj kv. (case kj of (k, j) \<Rightarrow> bind_res (f j) (\<lambda>v. Ok (k, v))) = Ok kv) kvs xs"
    and m: "m = Some (fromMembers xs)"
    by (auto simp: bind_res_Ok_iff mapR_Ok_iff)
  have "(k, v) \<in> set xs" using assms(2) m set_fromMembers by fastforce
  then obtain i where i: "i < length xs" "xs ! i = (k, v)" by (auto simp: in_set_conv_nth)
  with list_all2_nthD2 [OF xs i(1)] show ?thesis
    by (auto simp: bind_res_Ok_iff split: prod.splits)
qed (use assms in \<open>auto simp: unmarshalTypeError_def\<close>)

lemma dMap_all:
  "dMap f j = Ok m \<Longrightarrow> (\<And>i v. f i = Ok v \<Longrightarrow> P v) \<Longrightarrow> list_all (\<lambda>(_, v). P v) (entries m)"
  using dMap_values by (fastforce simp: list_all_iff)

lemma wfMaps_dMap: "dMap (dMap Ok) j = Ok m \<Longrightarrow> wfMaps m"
  unfolding wfMaps_def by (intro conjI wfMap_dMap dMap_all) (assumption | erule wfMap_dMap)+

lemma wf_dService: "dService i = Ok s \<Longrightarrow> wfMap (svc_Config s)"
  by (auto simp: dService_def bind_res_Ok_iff intro: wfMap_dMap)

lemma wf_dEnvironment:
  "dEnvironment i = Ok e \<Longrightarrow> wfMaps (Volumes (env_Config e)) \<and> wfMaps (Networks (env_Config e))"
  by (auto simp: dEnvironment_def dEnvironmentConfig_def bind_res_Ok_iff intro: wfMaps_dMap)

lemma wfServices_dMap: "dMap dService j = Ok m \<Longrightarrow> wfServices m"
  unfolding wfServices_def by (intro conjI) (erule wfMap_dMap, erule dMap_all, erule wf_dService)

lemma wfEnvironments_dMap: "dMap dEnvironment j = Ok m \<Longrightarrow> wfEnvironments m"
  unfolding wfEnvironments_def by (intro conjI) (erule wfMap_dMap, erule dMap_all, erule wf_dEnvironment)

definition serviceOrEmpty :: "Service option \<Rightarrow> Service" where
  "serviceOrEmpty p = (case p of None \<Rightarrow> \<lparr>svc_Type = [], svc_Config = None\<rparr> | Some s \<Rightarrow> s)"

definition asRoot :: "RootV01 \<Rightarrow> Root" where
  "asRoot o1 =
     \<lparr>ManifestVersion = v01_ManifestVersion o1, root_Version = v01_Version o1, Title = v01_Title o1,
      Description = v01_Description o1, Logo = v01_Logo o1, Services = mapValues serviceOrEmpty (v01_Services o1),
      Environments = v01_Environments o1, Settings = v01_Settings o1, Publish = v01_Publish o1,
      root_Vendor = v01_Vendor o1, Features = [], Platform = v01_Platform o1\<rparr>"

lemma entries_mapValues [simp]: "entries (mapValues f m) = map (\<lambda>(k, v). (k, f v)) (entries m)"
  by (cases m) (simp_all add: mapValues_def)

lemma mget_mapValues: "mget (mapValues f m) k = map_option f (mget m k)"
  by (cases m) (auto simp: mapValues_def map_of_map)

lemma wfMap_mapValues [simp]: "wfMap (mapValues f m) = wfMap m"
  by (simp add: wfMap_def comp_def case_prod_beta)

lemma wf_dServicePtr: "dPtr dService i = Ok p \<Longrightarrow> wfMap (svc_Config (serviceOrEmpty p))"
  by (cases i) (auto simp: serviceOrEmpty_def bind_res_Ok_iff wf_dService wfMap_def [of None])

lemma wfServicePtrs:
  assumes "dMap (dPtr dService) j = Ok m"
  shows "wfServices (mapValues serviceOrEmpty m)"
proof -
  have "list_all (\<lambda>(_, p). wfMap (svc_Config (serviceOrEmpty p))) (entries m)"
    using assms by (rule dMap_all) (rule wf_dServicePtr)
  then show ?thesis using wfMap_dMap [OF assms] by (auto simp: wfServices_def list_all_iff)
qed

lemma dService_eServicePtr: "wfMap (svc_Config (serviceOrEmpty p)) \<Longrightarrow> dService (eServicePtr p) = Ok (serviceOrEmpty p)"
  by (cases p) (simp_all add: serviceOrEmpty_def eServicePtr_def dService_eService, simp add: dService_def member_def)

lemma dServices_eServicePtrs:
  "wfServices (mapValues serviceOrEmpty m) \<Longrightarrow> dMap dService (eMap eServicePtr m) = Ok (mapValues serviceOrEmpty m)"
  by (rule dMap_eMap) (auto simp: wfServices_def list_all_iff intro: dService_eServicePtr)

lemma wf_unmarshalV01: "unmarshalV01 j = Ok o1 \<Longrightarrow> wfRoot (asRoot o1)"
  by (auto simp: unmarshalV01_def bind_res_Ok_iff wfRoot_def asRoot_def
      intro: wfServicePtrs wfEnvironments_dMap wfMap_dMap)

lemma NewFromBytes_marshalV01:
  assumes "unmarshalV01 j = Ok o1"
  shows "NewFromBytes (marshalV01 o1) = Ok (normRoot (asRoot o1))"
proof -
  have "wfServices (mapValues serviceOrEmpty (v01_Services o1))" "wfEnvironments (v01_Environments o1)"
    "wfMap (v01_Settings o1)" "wfMap (v01_Publish o1)"
    using wf_unmarshalV01 [OF assms] by (simp_all add: wfRoot_def asRoot_def)
  moreover have "dList dFeature JNull = Ok []" by (simp add: dList_def)
  ultimately show ?thesis
    by (simp add: NewFromBytes_def marshalV01_def asRoot_def decode_encode dServices_eServicePtrs normRoot_def)
qed

text \<open>The nil services of a decoded manifest, by their names.\<close>

lemma nilService_iff:
  assumes "unmarshalV01 j = Ok o1"
  shows "list_ex (\<lambda>(_, service). service = None) (entries (v01_Services o1)) \<longleftrightarrow> (\<exists>n. mget (v01_Services o1) n = Some None)"
proof -
  have "distinct (map fst (entries (v01_Services o1)))"
    using wf_unmarshalV01 [OF assms] by (simp add: wfRoot_def asRoot_def wfServices_def) (simp add: wfMap_def)
  then have "(n, p) \<in> set (entries (v01_Services o1)) \<longleftrightarrow> mget (v01_Services o1) n = Some p" for n p
    by (cases "v01_Services o1") auto
  then show ?thesis by (auto simp: list_ex_iff)
qed

lemma wfMap_omitMap: "wfMap m \<Longrightarrow> wfMap (omitMap m)"
  by (simp add: wfMap_def omitMap_def)

lemma wfMap_setKey: "wfMap m \<Longrightarrow> wfMap (setKey k v m)"
  by (cases m) (simp_all add: wfMap_def setKey_def distinct_update)

lemma wfMap_mdelete: "wfMap m \<Longrightarrow> wfMap (mdelete k m)"
  by (cases m) (simp_all add: wfMap_def mdelete_def distinct_delete)

lemma mget_setKey: "m \<noteq> None \<Longrightarrow> mget (setKey k v m) k' = (if k' = k then Some v else mget m k')"
  by (auto simp: setKey_def update_conv')

lemma wfMaps_omitMap: "wfMaps m \<Longrightarrow> wfMaps (omitMap m)"
  by (simp add: wfMaps_def omitMap_def wfMap_def)

lemma wfRoot_normRoot: "wfRoot r \<Longrightarrow> wfRoot (normRoot r)"
  by (auto simp: wfRoot_def normRoot_def wfEnvironments_def wfMap_omitMap omitMap_def [of "mapValues _ _"]
      normEnvironment_def normConfig_def list_all_iff wfMaps_omitMap)
    (auto simp: wfMap_def)

lemma mapServices_eq: "mapServices f r = r\<lparr>Services := mapValues f (Services r)\<rparr>"
  by (simp add: mapServices_def mapValues_def)

lemma mapValues_comp: "mapValues f (mapValues g m) = mapValues (\<lambda>x. f (g x)) m"
  by (cases m) (simp_all add: mapValues_def comp_def case_prod_beta)

lemma mapValues_cong:
  "(\<And>k v. (k, v) \<in> set (entries m) \<Longrightarrow> f v = g v) \<Longrightarrow> mapValues f m = mapValues g m"
  by (cases m) (auto simp: mapValues_def)

lemma wfServices_mapValues:
  "wfServices m \<Longrightarrow> (\<And>s. wfMap (svc_Config s) \<Longrightarrow> wfMap (svc_Config (f s))) \<Longrightarrow> wfServices (mapValues f m)"
  by (auto simp: wfServices_def list_all_iff)

lemma wfMap_replaceRestart: "wfMap (svc_Config s) \<Longrightarrow> wfMap (svc_Config (replaceRestart s))"
  by (simp add: replaceRestart_def wfMap_setKey)

lemma wfMap_attachService: "wfMap (svc_Config s) \<Longrightarrow> wfMap (svc_Config (attachService s))"
  by (simp add: attachService_def wfMap_setKey wfMap_mdelete)

lemma wfEnvironments_setKey:
  assumes "wfEnvironments m" "wfMaps (Volumes (env_Config e))" "wfMaps (Networks (env_Config e))"
  shows "wfEnvironments (setKey k e m)"
proof (cases m)
  case (Some kvs)
  then show ?thesis
    using assms wfMap_setKey [of m k e] set_update_subset [of k e kvs]
    by (fastforce simp: wfEnvironments_def list_all_iff setKey_def)
qed (simp add: wfEnvironments_def setKey_def wfMap_def)

lemma mget_upgraded:
  "mget (svc_Config (attachService (replaceRestart s))) key =
     (if key = ''restart'' \<and> mget (svc_Config s) key = Some (JStr ''always'') then Some (JStr ''no'')
      else if usesBridge s \<and> key = ''networkMode'' then None
      else if usesBridge s \<and> key = ''networks'' then Some (JArr [JStr externalAddOnNetworkConfigName])
      else mget (svc_Config s) key)"
proof (cases "svc_Config s")
  case None
  then show ?thesis by (simp add: attachService_def replaceRestart_def usesBridge_def)
next
  case (Some c)
  then show ?thesis
    by (auto simp: attachService_def replaceRestart_def usesBridge_def setKey_def mdelete_def
        update_conv' delete_conv')
qed

lemma usesBridge_replaceRestart: "usesBridge (replaceRestart s) \<longleftrightarrow> usesBridge s"
  by (cases "svc_Config s") (auto simp: replaceRestart_def usesBridge_def setKey_def update_conv')

text \<open>The manifest the migration computes from a decoded one.\<close>

definition upgraded :: "Root \<Rightarrow> Root" where
  "upgraded r =
     (let m1 = mapServices replaceRestart (r\<lparr>Features := []\<rparr>);
          m2 = (if useInternalBridge (Services m1)
                then attachServicesToExternalAddOnNetwork (addEnvironmentforExternalAddOnNetwork m1)
                else m1)
      in m2\<lparr>ManifestVersion := ValidManifestVersion\<rparr>)"

lemma useInternalBridge_restart:
  "useInternalBridge (mapValues replaceRestart m) = useInternalBridge m"
  by (cases m) (simp_all add: useInternalBridge_def mapValues_def list_ex_iff case_prod_beta usesBridge_replaceRestart)

lemma upgraded_fields [simp]:
  "ManifestVersion (upgraded r) = ValidManifestVersion" "Title (upgraded r) = Title r"
  "root_Version (upgraded r) = root_Version r" "Description (upgraded r) = Description r"
  "Logo (upgraded r) = Logo r" "Settings (upgraded r) = Settings r" "Publish (upgraded r) = Publish r"
  "root_Vendor (upgraded r) = root_Vendor r" "Platform (upgraded r) = Platform r"
  "Features (upgraded r) = []"
  by (simp_all add: upgraded_def Let_def attachServicesToExternalAddOnNetwork_def mapServices_def
      addEnvironmentforExternalAddOnNetwork_def)

lemma upgraded_Services: "Services (upgraded r) = mapValues (\<lambda>s. attachService (replaceRestart s)) (Services r)"
proof (cases "useInternalBridge (Services r)")
  case True
  then show ?thesis
    by (simp add: upgraded_def Let_def attachServicesToExternalAddOnNetwork_def mapServices_eq
        useInternalBridge_restart addEnvironmentforExternalAddOnNetwork_def mapValues_comp)
next
  case False
  then have "attachService (replaceRestart s) = replaceRestart s" if "(k, s) \<in> set (entries (Services r))" for k s
    using that by (auto simp: useInternalBridge_def list_ex_iff attachService_def usesBridge_replaceRestart)
  then have "mapValues (\<lambda>s. attachService (replaceRestart s)) (Services r) = mapValues replaceRestart (Services r)"
    by (rule mapValues_cong)
  with False show ?thesis
    by (simp add: upgraded_def Let_def mapServices_eq useInternalBridge_restart)
qed

lemma upgraded_Environments:
  "Environments (upgraded r) =
     (if useInternalBridge (Services r) then Environments (addEnvironmentforExternalAddOnNetwork r)
      else Environments r)"
  by (simp add: upgraded_def Let_def attachServicesToExternalAddOnNetwork_def mapServices_eq
      useInternalBridge_restart addEnvironmentforExternalAddOnNetwork_def)

lemma mget_omitMap: "mget (omitMap m) k = mget m k"
  by (cases m) (auto simp: omitMap_def)

lemma mget_addEnvironment:
  "mget (Environments (addEnvironmentforExternalAddOnNetwork r)) migrationEnvironmentName =
     Some (WithNetworks (Some [(externalAddOnNetworkConfigName,
             Some [(''external'', JBool True), (''name'', JStr InternalAddOnNetworkName)])])
           (NewEnvironment ''docker-compose''))"
  by (cases "Environments r") (simp_all add: addEnvironmentforExternalAddOnNetwork_def setKey_def update_conv')

lemma wf_addEnvironment:
  assumes "wfEnvironments (Environments r)"
  shows "wfEnvironments (Environments (addEnvironmentforExternalAddOnNetwork r))"
  using assms
  by (auto simp: addEnvironmentforExternalAddOnNetwork_def Let_def WithNetworks_def NewEnvironment_def
      intro!: wfEnvironments_setKey) (auto simp: wfEnvironments_def wfMaps_def wfMap_def)

lemma wfRoot_upgraded: "wfRoot r \<Longrightarrow> wfRoot (upgraded r)"
  by (auto simp: wfRoot_def upgraded_Services upgraded_Environments wf_addEnvironment
      intro!: wfServices_mapValues wfMap_attachService wfMap_replaceRestart)

lemma migrateFromV0_1ToV0_2_eq:
  assumes "unmarshalV01 j = Ok o1"
  shows "migrateFromV0_1ToV0_2 o1 =
    (if v01_Vendor o1 = None \<or> v01_Vendor o1 = Some emptyVendor then Err (ErrorString ''Vendor is required'')
     else if \<exists>n. mget (v01_Services o1) n = Some None then Panic ''invalid memory address or nil pointer dereference''
     else Ok (upgraded (normRoot (asRoot o1))))"
  unfolding nilService_iff [OF assms, symmetric]
  by (simp add: migrateFromV0_1ToV0_2_def NewFromBytes_marshalV01 [OF assms] upgraded_def normRoot_def asRoot_def Let_def)

text \<open>Reading a manifest gives an error or a value; it never panics.\<close>

definition never_panics :: "'a res \<Rightarrow> bool" where
  "never_panics r \<longleftrightarrow> (\<forall>p. r \<noteq> Panic p)"

lemma never_panics_bind: "never_panics r \<Longrightarrow> (\<And>x. never_panics (f x)) \<Longrightarrow> never_panics (bind_res r f)"
  by (cases r) (simp_all add: never_panics_def)

lemma never_panics_mapR: "(\<And>x. never_panics (f x)) \<Longrightarrow> never_panics (mapR f xs)"
  by (induction xs) (simp_all add: never_panics_def [of "Ok _"] never_panics_bind)

lemma never_panics_Ok [simp]: "never_panics (Ok x)"
  by (simp add: never_panics_def)

lemma never_panics_scalars:
  "never_panics unmarshalTypeError" "never_panics (dStr j)" "never_panics (dBool j)" "never_panics (dStruct j)"
  by (cases j; simp add: never_panics_def unmarshalTypeError_def)+

lemma never_panics_parts:
  assumes "\<And>j. never_panics (f j)"
  shows "never_panics (dMap f j)" "never_panics (dSlice f j)" "never_panics (dPtr f j)" "never_panics (dList f j)"
proof -
  show s: "never_panics (dSlice f j)"
    using assms by (cases j) (auto simp: never_panics_scalars intro!: never_panics_bind never_panics_mapR)
  show "never_panics (dMap f j)"
    using assms
    by (cases j) (auto simp: never_panics_scalars case_prod_beta intro!: never_panics_bind never_panics_mapR)
  show "never_panics (dPtr f j)" using assms by (cases j) (auto intro!: never_panics_bind)
  show "never_panics (dList f j)" unfolding dList_def by (intro never_panics_bind s never_panics_Ok)
qed

lemmas never_panics_rules = never_panics_bind never_panics_Ok never_panics_scalars never_panics_parts

lemma never_panics_unmarshalV01: "never_panics (unmarshalV01 j)"
  unfolding unmarshalV01_def dService_def dEnvironment_def dEnvironmentConfig_def dSetting_def dItem_def dProxyRoute_def dVendor_def
  by (intro never_panics_rules)

lemma omitMap_idem: "omitMap (omitMap m) = omitMap m"
  by (simp add: omitMap_def)

lemma omit_mapValues_idem:
  "(\<And>x. f (f x) = f x) \<Longrightarrow> omitMap (mapValues f (omitMap (mapValues f m))) = omitMap (mapValues f m)"
  by (cases m) (auto simp: omitMap_def mapValues_def)

lemma normRoot_idem: "normRoot (normRoot r) = normRoot r"
proof -
  have e: "normEnvironment (normEnvironment e) = normEnvironment e" for e
    by (simp add: normEnvironment_def normConfig_def omitMap_idem)
  have s: "map normSetting (map normSetting xs) = map normSetting xs" for xs
    by (simp add: normSetting_def selectItems_def)
  show ?thesis
    unfolding normRoot_def
    using omit_mapValues_idem [of normEnvironment, OF e] omit_mapValues_idem [of "map normSetting", OF s]
    by (simp add: omitMap_idem)
qed

section \<open>Properties\<close>

text \<open>
  C36. Writing a manifest and reading it again gives the manifest back, except that the empty optional
  maps and choice lists, which are omitted from the text, come back as nil; and what was read once is
  read back unchanged.
\<close>

theorem manifest_round_trip:
  assumes "wfRoot r"
  shows "NewFromBytes (ToBytes r) = Ok (normRoot r)
    \<and> NewFromBytes (ToBytes (normRoot r)) = Ok (normRoot r)"
proof -
  have "normRoot (normRoot r) = normRoot r" by (rule normRoot_idem)
  then show ?thesis
    using NewFromBytes_ToBytes [OF assms] NewFromBytes_ToBytes [OF wfRoot_normRoot [OF assms]] by simp
qed

definition sampleV01 :: json where
  "sampleV01 =
     JObj [(''manifestVersion'', JStr ''0.1''), (''version'', JStr ''1.0.0-1''), (''title'', JStr ''App''),
           (''services'', JObj [(''app'', JObj [(''type'', JStr ''docker-compose''),
              (''config'', JObj [(''image'', JStr ''app:1''), (''restart'', JStr ''always''),
                                 (''networkMode'', JStr ''internal-bridge'')])])]),
           (''vendor'', JObj [(''name'', JStr ''Acme'')])]"

theorem manifest_round_trip_witness:
  "NewFromBytes (ToBytes (addEnvironmentforExternalAddOnNetwork (asRoot (case unmarshalV01 sampleV01 of Ok x \<Rightarrow> x))))
   = Ok (normRoot (addEnvironmentforExternalAddOnNetwork (asRoot (case unmarshalV01 sampleV01 of Ok x \<Rightarrow> x))))"
proof -
  have "wfRoot (addEnvironmentforExternalAddOnNetwork (asRoot (case unmarshalV01 sampleV01 of Ok x \<Rightarrow> x)))"
    by code_simp
  from manifest_round_trip [OF this] show ?thesis by simp
qed

lemma usesBridge_iff: "usesBridge s \<longleftrightarrow> mget (svc_Config s) ''networkMode'' = Some (JStr ''internal-bridge'')"
  by (simp add: usesBridge_def InternalAddOnNetworkName_def)

lemma normSettings_idem [simp]: "normSetting \<circ> normSetting = normSetting"
  by (auto simp: normSetting_def selectItems_def)

lemma normEnvironment_idem [simp]: "normEnvironment (normEnvironment e) = normEnvironment e"
  by (simp add: normEnvironment_def normConfig_def omitMap_idem)

text \<open>The environments of a migrated manifest.\<close>

lemma mget_addedEnvironment:
  "mget (Environments (addEnvironmentforExternalAddOnNetwork r)) n =
     (if n = migrationEnvironmentName
      then Some (WithNetworks (Some [(externalAddOnNetworkConfigName,
             Some [(''external'', JBool True), (''name'', JStr InternalAddOnNetworkName)])])
           (NewEnvironment ''docker-compose''))
      else mget (Environments r) n)"
  by (cases "Environments r") (auto simp: addEnvironmentforExternalAddOnNetwork_def setKey_def update_conv')

lemma upgraded_environment:
  assumes "unmarshalV01 doc = Ok old" and "\<nexists>n. mget (v01_Services old) n = Some None"
  shows "mget (Environments (normRoot (upgraded (normRoot (asRoot old))))) n =
     (if n = ''migration-environment-v0-1-to-v0-2'' \<and> (\<exists>n s. mget (v01_Services old) n = Some (Some s) \<and> usesBridge s)
      then Some \<lparr>env_Type = ''docker-compose'', env_Config = \<lparr>Volumes = None,
             Networks = Some [(''uc-aom-network'', Some [(''external'', JBool True), (''name'', JStr ''internal-bridge'')])]\<rparr>\<rparr>
      else map_option normEnvironment (mget (v01_Environments old) n))"
proof -
  have "distinct (map fst (entries (v01_Services old)))"
    using wf_unmarshalV01 [OF assms(1)] by (simp add: wfRoot_def asRoot_def wfServices_def) (simp add: wfMap_def)
  then have mem: "(n, p) \<in> set (entries (v01_Services old)) \<longleftrightarrow> mget (v01_Services old) n = Some p" for n p
    by (cases "v01_Services old") auto
  have bridge: "useInternalBridge (Services (normRoot (asRoot old))) \<longleftrightarrow> (\<exists>n s. mget (v01_Services old) n = Some (Some s) \<and> usesBridge s)"
  proof -
    have "useInternalBridge (Services (normRoot (asRoot old))) \<longleftrightarrow>
        (\<exists>n p. mget (v01_Services old) n = Some p \<and> usesBridge (serviceOrEmpty p))"
      by (force simp: useInternalBridge_def normRoot_def asRoot_def list_ex_iff simp flip: mem)
    moreover have "p = Some s \<longleftrightarrow> p \<noteq> None \<and> serviceOrEmpty p = s" for p s by (cases p) (auto simp: serviceOrEmpty_def)
    ultimately show ?thesis using assms(2) by metis
  qed
  have e: "mget (Environments (normRoot x)) n = map_option normEnvironment (mget (Environments x) n)" for x n
    by (simp add: normRoot_def mget_omitMap mget_mapValues)
  show ?thesis
    by (auto simp: e upgraded_Environments bridge mget_addedEnvironment option.map_comp comp_def)
      (auto simp: asRoot_def normEnvironment_def normConfig_def WithNetworks_def NewEnvironment_def omitMap_def
        migrationEnvironmentName_def externalAddOnNetworkConfigName_def InternalAddOnNetworkName_def)
qed

text \<open>
  C37. A manifest of version 0.1 is migrated exactly when it can be read, names a vendor and has no service that
  is \<^verbatim>\<open>null\<close>; a manifest of version 0.2 is returned as it is. Every other version is refused with an error that
  names it, and a manifest without a vendor with an error as well; a service that is \<^verbatim>\<open>null\<close> ends the program with a
  nil pointer, and nothing else does.
\<close>

theorem migration_succeeds_iff:
  "((\<exists>new. MigrateUcManifest v doc = Ok new) \<longleftrightarrow>
      v = ValidManifestVersion \<or>
      v = v01_ValidManifestVersion \<and>
        (\<exists>old. unmarshalV01 doc = Ok old \<and> v01_Vendor old \<noteq> None \<and> v01_Vendor old \<noteq> Some emptyVendor
           \<and> (\<nexists>n. mget (v01_Services old) n = Some None)))
   \<and> MigrateUcManifest ValidManifestVersion doc = Ok doc
   \<and> (MigrateUcManifest v doc = Err (ErrorString (''Manifest version '' @ v @ '' is unknown'')) \<or>
        v = v01_ValidManifestVersion \<or> v = ValidManifestVersion)
   \<and> ((\<exists>p. MigrateUcManifest v doc = Panic p) \<longleftrightarrow>
        v = v01_ValidManifestVersion \<and>
        (\<exists>old n. unmarshalV01 doc = Ok old \<and> v01_Vendor old \<noteq> None \<and> v01_Vendor old \<noteq> Some emptyVendor
           \<and> mget (v01_Services old) n = Some None))"
proof -
  have ne: "ValidManifestVersion \<noteq> v01_ValidManifestVersion"
    by (simp add: ValidManifestVersion_def v01_ValidManifestVersion_def)
  have np: "unmarshalV01 doc \<noteq> Panic p" for p using never_panics_unmarshalV01 by (simp add: never_panics_def)
  show ?thesis
  proof (cases "v = v01_ValidManifestVersion")
    case True
    show ?thesis
    proof (cases "unmarshalV01 doc")
      case (Ok old)
      then show ?thesis using True ne migrateFromV0_1ToV0_2_eq [OF Ok] by (simp add: MigrateUcManifest_def)
    qed (use True ne np in \<open>auto simp: MigrateUcManifest_def\<close>)
  qed (use ne in \<open>auto simp: MigrateUcManifest_def\<close>)
qed

definition sampleNilService :: json where
  "sampleNilService =
     JObj [(''services'', JObj [(''app'', JNull)]), (''vendor'', JObj [(''name'', JStr ''Acme'')])]"

theorem migration_succeeds_iff_witness:
  "(\<exists>new. MigrateUcManifest v01_ValidManifestVersion sampleV01 = Ok new)
   \<and> (\<exists>p. MigrateUcManifest v01_ValidManifestVersion sampleNilService = Panic p)"
proof -
  have "case unmarshalV01 sampleV01 of Ok old \<Rightarrow> v01_Vendor old \<noteq> None \<and> v01_Vendor old \<noteq> Some emptyVendor
      \<and> map fst (entries (v01_Services old)) = [''app''] \<and> mget (v01_Services old) ''app'' \<noteq> Some None | _ \<Rightarrow> False" by code_simp
  then obtain old where old: "unmarshalV01 sampleV01 = Ok old" "v01_Vendor old \<noteq> None" "v01_Vendor old \<noteq> Some emptyVendor"
    and app: "map fst (entries (v01_Services old)) = [''app'']" "mget (v01_Services old) ''app'' \<noteq> Some None"
    by (auto split: res.splits)
  have "\<nexists>n. mget (v01_Services old) n = Some None"
    using app by (cases "v01_Services old") (auto split: if_splits)
  with old have one: "\<exists>new. MigrateUcManifest v01_ValidManifestVersion sampleV01 = Ok new"
    using migration_succeeds_iff [of v01_ValidManifestVersion sampleV01] by blast
  have "case unmarshalV01 sampleNilService of Ok old \<Rightarrow> v01_Vendor old \<noteq> None \<and> v01_Vendor old \<noteq> Some emptyVendor
      \<and> mget (v01_Services old) ''app'' = Some None | _ \<Rightarrow> False" by code_simp
  then obtain old' where "unmarshalV01 sampleNilService = Ok old'" "v01_Vendor old' \<noteq> None" "v01_Vendor old' \<noteq> Some emptyVendor"
    "mget (v01_Services old') ''app'' = Some None" by (auto split: res.splits)
  then have "\<exists>p. MigrateUcManifest v01_ValidManifestVersion sampleNilService = Panic p"
    using migration_succeeds_iff [of v01_ValidManifestVersion sampleNilService] by blast
  with one show ?thesis by blast
qed

text \<open>
  C38. What the migration of a manifest of version 0.1 does to every part of it. The new document is a manifest of
  version 0.2 without features, with the same add-on version, title, description, logo, vendor, platforms and routes, and
  with the same settings and environments, in which only an empty list of choices and empty maps become nil. Its
  services are the same, and a service's configuration is the same except that the restart policy \<^verbatim>\<open>always\<close> becomes
  \<^verbatim>\<open>no\<close>, and that the network mode of the internal bridge is replaced by a membership in the add-on network. Exactly
  when a service needs that network, one environment is added, which declares it as external.
\<close>

theorem migration_effect:
  assumes "unmarshalV01 doc = Ok old" and "MigrateUcManifest v01_ValidManifestVersion doc = Ok new"
  shows "\<exists>r. NewFromBytes new = Ok r \<and> ManifestVersion r = ValidManifestVersion
    \<and> root_Version r = v01_Version old \<and> Title r = v01_Title old \<and> Description r = v01_Description old
    \<and> Logo r = v01_Logo old \<and> root_Vendor r = v01_Vendor old \<and> Platform r = v01_Platform old \<and> Features r = []
    \<and> (\<forall>n. mget (Publish r) n = mget (v01_Publish old) n)
    \<and> (\<forall>n. mget (Settings r) n = map_option (map normSetting) (mget (v01_Settings old) n))
    \<and> (\<forall>n. mget (Environments r) n =
         (if n = ''migration-environment-v0-1-to-v0-2'' \<and>
             (\<exists>n s. mget (v01_Services old) n = Some (Some s) \<and> mget (svc_Config s) ''networkMode'' = Some (JStr ''internal-bridge''))
          then Some \<lparr>env_Type = ''docker-compose'', env_Config = \<lparr>Volumes = None,
                 Networks = Some [(''uc-aom-network'', Some [(''external'', JBool True), (''name'', JStr ''internal-bridge'')])]\<rparr>\<rparr>
          else map_option normEnvironment (mget (v01_Environments old) n)))
    \<and> (\<forall>n. mget (Services r) n = None \<longleftrightarrow> mget (v01_Services old) n = None)
    \<and> (\<forall>n s s' key. mget (v01_Services old) n = Some (Some s) \<and> mget (Services r) n = Some s' \<longrightarrow>
         svc_Type s' = svc_Type s \<and>
         mget (svc_Config s') key =
           (if key = ''restart'' \<and> mget (svc_Config s) key = Some (JStr ''always'') then Some (JStr ''no'')
            else if mget (svc_Config s) ''networkMode'' = Some (JStr ''internal-bridge'') \<and> key = ''networkMode'' then None
            else if mget (svc_Config s) ''networkMode'' = Some (JStr ''internal-bridge'') \<and> key = ''networks'' then Some (JArr [JStr ''uc-aom-network''])
            else mget (svc_Config s) key))"
proof -
  let ?m = "upgraded (normRoot (asRoot old))"
  have ne: "ValidManifestVersion \<noteq> v01_ValidManifestVersion"
    by (simp add: ValidManifestVersion_def v01_ValidManifestVersion_def)
  have new: "new = ToBytes ?m" and nn: "\<nexists>n. mget (v01_Services old) n = Some None"
    using assms migrateFromV0_1ToV0_2_eq [OF assms(1)]
    by (auto simp: MigrateUcManifest_def ne split: if_splits)
  have wf: "wfRoot ?m"
    by (intro wfRoot_upgraded wfRoot_normRoot wf_unmarshalV01 [OF assms(1)])
  have read: "NewFromBytes new = Ok (normRoot ?m)" unfolding new by (rule NewFromBytes_ToBytes [OF wf])
  have srv: "mget (Services (normRoot ?m)) n =
      map_option (\<lambda>p. attachService (replaceRestart (serviceOrEmpty p))) (mget (v01_Services old) n)" for n
    by (simp add: normRoot_def upgraded_Services asRoot_def mget_mapValues option.map_comp comp_def)
  have ty: "svc_Type (attachService (replaceRestart s)) = svc_Type s" for s
    by (simp add: attachService_def replaceRestart_def)
  have fields: "ManifestVersion (normRoot ?m) = ValidManifestVersion" "root_Version (normRoot ?m) = v01_Version old"
    "Title (normRoot ?m) = v01_Title old" "Description (normRoot ?m) = v01_Description old" "Logo (normRoot ?m) = v01_Logo old"
    "root_Vendor (normRoot ?m) = v01_Vendor old" "Platform (normRoot ?m) = v01_Platform old" "Features (normRoot ?m) = []"
    by (simp_all add: normRoot_def asRoot_def)
  have maps: "mget (Publish (normRoot ?m)) n = mget (v01_Publish old) n"
    "mget (Settings (normRoot ?m)) n = map_option (map normSetting) (mget (v01_Settings old) n)" for n
    by (simp_all add: normRoot_def asRoot_def mget_omitMap mget_mapValues option.map_comp normSettings_idem)
  have none: "mget (Services (normRoot ?m)) n = None \<longleftrightarrow> mget (v01_Services old) n = None" for n
    by (simp add: srv)
  have service: "s' = attachService (replaceRestart s)"
    if "mget (v01_Services old) n = Some (Some s)" "mget (Services (normRoot ?m)) n = Some s'" for n s s'
    using that by (simp add: srv serviceOrEmpty_def)
  show ?thesis
    unfolding usesBridge_iff [symmetric]
    by (intro exI [of _ "normRoot ?m"] conjI allI impI)
      (rule read fields maps none upgraded_environment [OF assms(1) nn]
        | elim conjE, drule (1) service, simp only: ty mget_upgraded externalAddOnNetworkConfigName_def)+
qed

definition sampleWithEnvironment :: json where
  "sampleWithEnvironment =
     JObj [(''title'', JStr ''App''), (''vendor'', JObj [(''name'', JStr ''Acme'')]),
           (''environments'', JObj [(''prod'', JObj [(''type'', JStr ''docker-compose'')])]),
           (''services'', JObj [(''app'', JObj [(''config'', JObj [(''networkMode'', JStr ''internal-bridge'')])])])]"

theorem migration_effect_witness:
  "\<exists>new r. MigrateUcManifest v01_ValidManifestVersion sampleWithEnvironment = Ok new \<and> NewFromBytes new = Ok r \<and>
     ManifestVersion r = ValidManifestVersion \<and> Title r = ''App'' \<and> (\<exists>e. mget (Environments r) ''prod'' = Some e)"
proof -
  have "case unmarshalV01 sampleWithEnvironment of Ok old \<Rightarrow> v01_Title old = ''App'' \<and> mget (v01_Environments old) ''prod'' \<noteq> None | _ \<Rightarrow> False"
    by code_simp
  then obtain old where old: "unmarshalV01 sampleWithEnvironment = Ok old" "v01_Title old = ''App''" "mget (v01_Environments old) ''prod'' \<noteq> None"
    by (auto split: res.splits)
  have "is_ok (MigrateUcManifest v01_ValidManifestVersion sampleWithEnvironment)" by code_simp
  then obtain new where new: "MigrateUcManifest v01_ValidManifestVersion sampleWithEnvironment = Ok new"
    by (cases "MigrateUcManifest v01_ValidManifestVersion sampleWithEnvironment") auto
  from migration_effect [OF old(1) new] obtain r where r: "NewFromBytes new = Ok r" "ManifestVersion r = ValidManifestVersion"
    "Title r = v01_Title old" and env: "mget (Environments r) ''prod'' = map_option normEnvironment (mget (v01_Environments old) ''prod'')"
    by fastforce
  from env old(3) have "\<exists>e. mget (Environments r) ''prod'' = Some e" by auto
  with new r old(2) show ?thesis by auto
qed

end
