(* ===== verification/Registry.thy ===== *)
theory Registry
  imports FileSystem Migration "HOL-Library.Word"
begin

text \<open>
  \<^verbatim>\<open>internal/aom/registry\<close>: where add-ons come from. \<^verbatim>\<open>helpers.go\<close> and
  \<^verbatim>\<open>image_manifest_layer_processor.go\<close>; the drop-in registry on the local disk
  (\<^verbatim>\<open>drop_in_addon_registry.go\<close>); the remote registry (\<^verbatim>\<open>oras_addon_registry.go\<close>), whose repositories are
  third-party code (the package \<^verbatim>\<open>oras\<close>) and a parameter; the adapter that hides code names
  (\<^verbatim>\<open>codename_adapter_registry.go\<close>, \<^verbatim>\<open>pkg/registry/utils.go\<close>); \<^verbatim>\<open>credentials.go\<close>; and the manifest layer,
  \<^verbatim>\<open>internal/aom/manifest/decompress.go\<close>.

  The state the daemon works on is the record \<open>world\<close>: the file system, the image archives accumulated by
  a pull, the remote registry and the Docker daemon.
\<close>

section \<open>Image manifests\<close>

record Descriptor =
  desc_MediaType :: string
  desc_Digest :: string
  desc_Size :: "64 word"
  desc_Annotations :: "string gomap"

record ImageManifest =
  im_Config :: Descriptor
  im_Layers :: "Descriptor list"

record ImageConfig =
  ic_Architecture :: string
  ic_OS :: string

definition UcConfigMediaType :: string where
  "UcConfigMediaType = ''application/vnd.weidmueller.uc.config.v1+json''"

definition UcImageLayerMediaType :: string where
  "UcImageLayerMediaType = ''application/vnd.weidmueller.uc.image.layer.v1.tar+gzip''"

definition UcImageManifestDescriptorFilename :: string where
  "UcImageManifestDescriptorFilename = ''image-manifest.json''"

definition UcImageLayerAnnotationSchemaVersion :: string where
  "UcImageLayerAnnotationSchemaVersion = ''com.weidmueller.uc.image.schema.version''"

definition UcImageManifestFilename :: string where
  "UcImageManifestFilename = ''manifest.json''"

definition AnnotationTitle :: string where
  "AnnotationTitle = ''org.opencontainers.image.title''"

fun dInt64 :: "json \<Rightarrow> 64 word res" where
  "dInt64 JNull = Ok 0"
| "dInt64 (JNum n) = (if - (2 ^ 63) \<le> n \<and> n < 2 ^ 63 then Ok (word_of_int n) else unmarshalTypeError)"
| "dInt64 _ = unmarshalTypeError"

definition dDescriptor :: "json \<Rightarrow> Descriptor res" where
  "dDescriptor j =
     bind_res (dStruct j) (\<lambda>m.
     bind_res (dStr (member m ''mediaType'')) (\<lambda>t.
     bind_res (dStr (member m ''digest'')) (\<lambda>d.
     bind_res (dInt64 (member m ''size'')) (\<lambda>s.
     bind_res (dMap dStr (member m ''annotations'')) (\<lambda>a.
     Ok \<lparr>desc_MediaType = t, desc_Digest = d, desc_Size = s, desc_Annotations = a\<rparr>)))))"

definition dImageManifest :: "json \<Rightarrow> ImageManifest res" where
  "dImageManifest j =
     bind_res (dStruct j) (\<lambda>m.
     bind_res (dDescriptor (member m ''config'')) (\<lambda>c.
     bind_res (dList dDescriptor (member m ''layers'')) (\<lambda>ls.
     Ok \<lparr>im_Config = c, im_Layers = ls\<rparr>)))"

definition dImageConfig :: "json \<Rightarrow> ImageConfig res" where
  "dImageConfig j =
     bind_res (dStruct j) (\<lambda>m.
     bind_res (dStr (member m ''architecture'')) (\<lambda>a.
     bind_res (dStr (member m ''os'')) (\<lambda>s.
     Ok \<lparr>ic_Architecture = a, ic_OS = s\<rparr>)))"

section \<open>helpers.go\<close>

definition IsUcImageLayerMediaType :: "string \<Rightarrow> bool" where
  "IsUcImageLayerMediaType mediaType \<longleftrightarrow> mediaType = UcImageLayerMediaType"

definition hasUcImageLayer :: "ImageManifest \<Rightarrow> bool" where
  "hasUcImageLayer imageManifest = list_ex (\<lambda>layer. IsUcImageLayerMediaType (desc_MediaType layer)) (im_Layers imageManifest)"

definition getUcImageLayer :: "ImageManifest \<Rightarrow> Descriptor res" where
  "getUcImageLayer imageManifest =
     (case find (\<lambda>layer. IsUcImageLayerMediaType (desc_MediaType layer)) (im_Layers imageManifest) of
        Some layer \<Rightarrow> Ok layer
      | None \<Rightarrow> Err (ErrorString ''not found''))"

text \<open>The optional size mapping of a migrated repository is the argument \<open>mapSize\<close>.\<close>

definition cumulativeLayerSize :: "(Descriptor \<Rightarrow> 64 word) \<Rightarrow> Descriptor list \<Rightarrow> 64 word" where
  "cumulativeLayerSize mapSize layers = foldl (\<lambda>acc desc. acc + mapSize desc) 0 layers"

text \<open>
  \<^verbatim>\<open>uint64(math.Ceil(2.5 * float64(n)))\<close>. A non-negative float64 that is a multiple of one half is kept as
  the number of its halves. \<open>roundBits\<close> rounds to 53 significant bits, to even on a tie, as the
  conversion and the multiplication do; the conversion back is defined by Go only below \<open>2 ^ 64\<close>, and above it
  it is what the machine does: the parameter \<open>overflow\<close>.
\<close>

fun bitLength :: "nat \<Rightarrow> nat" where
  "bitLength n = (if n = 0 then 0 else Suc (bitLength (n div 2)))"

declare bitLength.simps [simp del]

definition roundBits :: "nat \<Rightarrow> nat" where
  "roundBits n =
     (if n < 2 ^ 53 then n
      else
        (let e = bitLength n - 53; q = n div 2 ^ e; r = n mod 2 ^ e; half = 2 ^ (e - 1)
         in (if half < r \<or> (r = half \<and> odd q) then q + 1 else q) * 2 ^ e))"

definition estimatedInstallSizeBytes :: "(nat \<Rightarrow> 64 word) \<Rightarrow> 64 word \<Rightarrow> 64 word" where
  "estimatedInstallSizeBytes overflow n =
     (let f = roundBits (unat n); halves = roundBits (5 * f); c = (halves + 1) div 2
      in if c < 2 ^ 64 then of_nat c else overflow c)"

section \<open>Layer contents\<close>

record ManifestLayerContent =
  mlc_Manifest :: content
  mlc_Logo :: content
  mlc_LogoName :: string

datatype reader = RawReader content | ManifestReader ManifestLayerContent

section \<open>World\<close>

record ('r, 'd) world =
  files :: FS
  images :: "reader list"
  remote :: 'r
  docker :: 'd

definition onFiles :: "(FS, 'a) go \<Rightarrow> (('r, 'd) world, 'a) go" where
  "onFiles m = onPart files (\<lambda>fs w. w\<lparr>files := fs\<rparr>) m"

definition onRemote :: "('r, 'a) go \<Rightarrow> (('r, 'd) world, 'a) go" where
  "onRemote m = onPart remote (\<lambda>r w. w\<lparr>remote := r\<rparr>) m"

definition onDocker :: "('d, 'a) go \<Rightarrow> (('r, 'd) world, 'a) go" where
  "onDocker m = onPart docker (\<lambda>d w. w\<lparr>docker := d\<rparr>) m"

section \<open>Reading a package layer\<close>

text \<open>
  The last manifest and the last other file of the archive; the entries of the archive (packages
  \<^verbatim>\<open>compress/gzip\<close> and \<^verbatim>\<open>archive/tar\<close>) are what the parameter \<open>untar\<close> reads from the file.
\<close>

definition readLogoAndManifestFromTar :: "(string \<times> content) list \<Rightarrow> ManifestLayerContent" where
  "readLogoAndManifestFromTar es =
     foldl (\<lambda>layer (name, data).
         if name = UcImageManifestFilename then layer\<lparr>mlc_Manifest := data\<rparr>
         else layer\<lparr>mlc_LogoName := name, mlc_Logo := data\<rparr>)
       \<lparr>mlc_Manifest = Text [], mlc_Logo = Text [], mlc_LogoName = []\<rparr> es"

definition Decompress :: "(content \<Rightarrow> (string \<times> content) list res) \<Rightarrow> content \<Rightarrow> reader res" where
  "Decompress untar layer =
     bind_res (untar layer) (\<lambda>es. Ok (ManifestReader (readLogoAndManifestFromTar es)))"

fun UnmarshalDecompressedContent :: "reader \<Rightarrow> ManifestLayerContent res" where
  "UnmarshalDecompressedContent (ManifestReader m) = Ok m"
| "UnmarshalDecompressedContent (RawReader _) = Err (ErrorString ''invalid character'')"

definition GetShortHashFromWithCustomHashFunc :: "(content \<Rightarrow> string res) \<Rightarrow> content \<Rightarrow> string res" where
  "GetShortHashFromWithCustomHashFunc customHashFunc c =
     bind_res (customHashFunc c) (\<lambda>hash.
       if length hash < 5 then Panic ''slice bounds out of range'' else Ok (take 5 hash))"

text \<open>\<^verbatim>\<open>filepath.Ext\<close>: from the last dot of the last element on.\<close>

definition Ext :: "string \<Rightarrow> string" where
  "Ext filename =
     (let r = takeWhile (\<lambda>c. c \<noteq> CHR ''.'' \<and> c \<noteq> CHR ''/'') (rev filename);
          rest = dropWhile (\<lambda>c. c \<noteq> CHR ''.'' \<and> c \<noteq> CHR ''/'') (rev filename)
      in if rest \<noteq> [] \<and> hd rest = CHR ''.'' then CHR ''.'' # rev r else [])"

definition addHashToFilename :: "string \<Rightarrow> string \<Rightarrow> string" where
  "addHashToFilename filename hash =
     (let fileExt = Ext filename; pureFilename = take (length filename - length fileExt) filename
      in pureFilename @ ''-'' @ hash @ fileExt)"

definition changeLogoInManifest :: "content \<Rightarrow> string \<Rightarrow> content res" where
  "changeLogoInManifest manifestRaw newLogoName =
     (case manifestRaw of
        Text _ \<Rightarrow> Err (ErrorString ''invalid character'')
      | Doc j \<Rightarrow> bind_res (NewFromBytes j) (\<lambda>m. Ok (Doc (ToBytes (m\<lparr>Logo := newLogoName\<rparr>)))))"

text \<open>On a failed write the destination is removed again; the hash function is the parameter \<open>sha1\<close>.\<close>

definition writeOrRemove :: "path \<Rightarrow> (FS, unit) go \<Rightarrow> (FS, unit) go" where
  "writeOrRemove destination m =
     tryM (attemptM m) (\<lambda>r.
       case r of
         Inr _ \<Rightarrow> ret ()
       | Inl err \<Rightarrow> tryM (osRemoveAll destination) (\<lambda>_. fail err))"

definition WriteUcManifestContentToDestination ::
  "(content \<Rightarrow> string res) \<Rightarrow> reader \<Rightarrow> path \<Rightarrow> (FS, unit) go" where
  "WriteUcManifestContentToDestination sha1 rd destination =
     tryM (liftR (UnmarshalDecompressedContent rd)) (\<lambda>manifestLayer.
     tryM (liftR (GetShortHashFromWithCustomHashFunc sha1 (mlc_Logo manifestLayer))) (\<lambda>hash.
     let newLogoName = addHashToFilename (mlc_LogoName manifestLayer) hash
     in tryM (liftR (changeLogoInManifest (mlc_Manifest manifestLayer) newLogoName)) (\<lambda>manifestRawChanged.
        tryM (MkDirAll destination) (\<lambda>_.
        tryM (writeOrRemove destination
               (WriteFileToDestination UcImageManifestFilename manifestRawChanged destination)) (\<lambda>_.
        writeOrRemove destination (WriteFileToDestination newLogoName (mlc_Logo manifestLayer) destination))))))"

section \<open>image\_manifest\_layer\_processor.go\<close>

record 'w Processor =
  Action :: "reader \<Rightarrow> string \<Rightarrow> ('w, unit) go"
  Filter :: "Descriptor \<Rightarrow> bool"

definition ucImageLayerFilter :: "Descriptor \<Rightarrow> bool" where
  "ucImageLayerFilter desc =
     (if \<not> IsUcImageLayerMediaType (desc_MediaType desc) then False
      else case mget (desc_Annotations desc) UcImageLayerAnnotationSchemaVersion of
             Some value \<Rightarrow> value = ValidManifestVersion
           | None \<Rightarrow> False)"

definition NewUcImageLayerProcessor :: "(reader \<Rightarrow> string \<Rightarrow> ('w, unit) go) \<Rightarrow> 'w Processor" where
  "NewUcImageLayerProcessor action = \<lparr>Action = action, Filter = ucImageLayerFilter\<rparr>"

definition NewAllExceptUcImageLayerProcessor :: "(reader \<Rightarrow> string \<Rightarrow> ('w, unit) go) \<Rightarrow> 'w Processor" where
  "NewAllExceptUcImageLayerProcessor action = \<lparr>Action = action, Filter = (\<lambda>desc. \<not> ucImageLayerFilter desc)\<rparr>"

definition NewAcceptAllManifestLayerProcessor :: "(reader \<Rightarrow> string \<Rightarrow> ('w, unit) go) \<Rightarrow> 'w Processor" where
  "NewAcceptAllManifestLayerProcessor action = \<lparr>Action = action, Filter = (\<lambda>_. True)\<rparr>"

definition NewAcceptNoneManifestLayerProcessor :: "(reader \<Rightarrow> string \<Rightarrow> ('w, unit) go) \<Rightarrow> 'w Processor" where
  "NewAcceptNoneManifestLayerProcessor action = \<lparr>Action = action, Filter = (\<lambda>_. False)\<rparr>"

section \<open>The interface AddOnRegistry\<close>

record 'w AddOnRegistry =
  Repositories :: "('w, string list) go"
  Tags :: "string \<Rightarrow> ('w, string list) go"
  Pull :: "string \<Rightarrow> string \<Rightarrow> 'w Processor \<Rightarrow> ('w, 64 word) go"
  RegistryDelete :: "string \<Rightarrow> string \<Rightarrow> ('w, unit) go"

section \<open>The drop-in registry\<close>

record DropInAddOnRegistry =
  dropin_root :: path
  dropin_architecture :: string
  dropin_os :: string

definition getDirectoriesIn :: "path \<Rightarrow> (FS, string list) go" where
  "getDirectoriesIn p =
     tryM (osReadDir p) (\<lambda>dirList. ret (map fst (filter (\<lambda>(_, n). n = Dir) dirList)))"

definition openFile :: "path \<Rightarrow> Descriptor \<Rightarrow> (FS, content) go" where
  "openFile rootDirectory descriptor =
     (case mget (desc_Annotations descriptor) AnnotationTitle of
        Some fileName \<Rightarrow> osReadFile (joinPath rootDirectory fileName)
      | None \<Rightarrow> fail (ErrNotExist ''file does not exist''))"

fun contentJson :: "content \<Rightarrow> json res" where
  "contentJson (Doc j) = Ok j"
| "contentJson (Text _) = Err (ErrorString ''invalid character'')"

definition readImageConfig :: "path \<Rightarrow> ImageManifest \<Rightarrow> (FS, ImageConfig) go" where
  "readImageConfig rootDirectory imageManifest =
     (if desc_MediaType (im_Config imageManifest) \<noteq> UcConfigMediaType then fail (ErrNotExist ''file does not exist'')
      else
        tryM (openFile rootDirectory (im_Config imageManifest)) (\<lambda>content.
        liftR (bind_res (contentJson content) dImageConfig)))"

definition readImageManifest :: "path \<Rightarrow> (FS, ImageManifest) go" where
  "readImageManifest p =
     tryM (osReadFile p) (\<lambda>content. liftR (bind_res (contentJson content) dImageManifest))"

text \<open>
  The callback returns \<^verbatim>\<open>SkipDir\<close> on a match, which skips what is left of the directory that holds the
  file.
\<close>

fun collectMatching :: "FS \<Rightarrow> string \<Rightarrow> path list \<Rightarrow> (path \<times> node) list \<Rightarrow> path list res" where
  "collectMatching fs matchingName skipped [] = Ok []"
| "collectMatching fs matchingName skipped ((p, n) # rest) =
     (if list_ex (\<lambda>d. strict_prefix d p) skipped then collectMatching fs matchingName skipped rest
      else if unreadable fs (p, n) then Err (errOs ''open'' p ''permission denied'')
      else if n \<noteq> Dir \<and> p \<noteq> [] \<and> last p = matchingName
      then bind_res (collectMatching fs matchingName (butlast p # skipped) rest) (\<lambda>ps. Ok (p # ps))
      else collectMatching fs matchingName skipped rest)"

definition findFilesWith :: "path \<Rightarrow> string \<Rightarrow> (FS, path list) go" where
  "findFilesWith root matchingName =
     tryM (osVisit root) (\<lambda>visited fs. (collectMatching fs matchingName [] visited, fs))"

definition checkIfCanBePulled :: "DropInAddOnRegistry \<Rightarrow> ImageConfig \<Rightarrow> bool" where
  "checkIfCanBePulled r config \<longleftrightarrow>
     ic_Architecture config = dropin_architecture r \<and> ic_OS config = dropin_os r"

definition ErrReadImageConfig :: goerror where
  "ErrReadImageConfig = ErrorString ''cannot read config image''"

definition ErrWrongArchOrOS :: goerror where
  "ErrWrongArchOrOS = ErrorString ''wrong architecture or OS''"

definition validateImageManifestAt :: "DropInAddOnRegistry \<Rightarrow> path \<Rightarrow> (FS, ImageManifest) go" where
  "validateImageManifestAt r p =
     tryM (readImageManifest p) (\<lambda>imageManifest.
     tryM (attemptM (readImageConfig (butlast p) imageManifest)) (\<lambda>c.
       case c of
         Inl _ \<Rightarrow> fail ErrReadImageConfig
       | Inr config \<Rightarrow>
           if \<not> checkIfCanBePulled r config then fail ErrWrongArchOrOS else ret imageManifest))"

fun dropInLayers ::
  "(content \<Rightarrow> (string \<times> content) list res) \<Rightarrow> path \<Rightarrow> ('r, 'd) world Processor \<Rightarrow> Descriptor list \<Rightarrow>
   (('r, 'd) world, unit) go" where
  "dropInLayers untar parentDirectory processor [] = ret ()"
| "dropInLayers untar parentDirectory processor (layer # layers) =
     (if \<not> Filter processor layer then dropInLayers untar parentDirectory processor layers
      else
        tryM (onFiles (openFile parentDirectory layer)) (\<lambda>file.
        tryM
          (if IsUcImageLayerMediaType (desc_MediaType layer) then
             tryM (liftR (Decompress untar file)) (\<lambda>rc. Action processor rc (desc_MediaType layer))
           else Action processor (RawReader file) (desc_MediaType layer)) (\<lambda>_.
        dropInLayers untar parentDirectory processor layers)))"

fun dropInPullFirst ::
  "(content \<Rightarrow> (string \<times> content) list res) \<Rightarrow> (nat \<Rightarrow> 64 word) \<Rightarrow> DropInAddOnRegistry \<Rightarrow>
   ('r, 'd) world Processor \<Rightarrow> goerror \<Rightarrow> path list \<Rightarrow> (('r, 'd) world, 64 word) go" where
  "dropInPullFirst untar overflow r processor lastError [] = fail lastError"
| "dropInPullFirst untar overflow r processor lastError (p # ps) =
     tryM (attemptM (onFiles (validateImageManifestAt r p))) (\<lambda>v.
       case v of
         Inl err \<Rightarrow> dropInPullFirst untar overflow r processor err ps
       | Inr imageManifest \<Rightarrow>
           tryM (dropInLayers untar (butlast p) processor (im_Layers imageManifest)) (\<lambda>_.
           ret (estimatedInstallSizeBytes overflow (cumulativeLayerSize desc_Size (im_Layers imageManifest)))))"

definition dropIn_Pull ::
  "(content \<Rightarrow> (string \<times> content) list res) \<Rightarrow> (nat \<Rightarrow> 64 word) \<Rightarrow> DropInAddOnRegistry \<Rightarrow> string \<Rightarrow> string \<Rightarrow>
   ('r, 'd) world Processor \<Rightarrow> (('r, 'd) world, 64 word) go" where
  "dropIn_Pull untar overflow r repository tag processor =
     tryM (onFiles (findFilesWith (joinPath (joinPath (dropin_root r) repository) tag) UcImageManifestDescriptorFilename))
       (\<lambda>imageManifestPaths.
     dropInPullFirst untar overflow r processor (ErrNotExist ''file does not exist'') imageManifestPaths)"

definition dropIn_Delete :: "DropInAddOnRegistry \<Rightarrow> string \<Rightarrow> string \<Rightarrow> (('r, 'd) world, unit) go" where
  "dropIn_Delete r repository tag =
     (if repository = [] \<or> tag = [] then ret ()
      else onFiles (osRemoveAll (joinPath (dropin_root r) repository)))"

definition dropIn_Repositories :: "DropInAddOnRegistry \<Rightarrow> (('r, 'd) world, string list) go" where
  "dropIn_Repositories r = onFiles (getDirectoriesIn (dropin_root r))"

definition dropIn_Tags :: "DropInAddOnRegistry \<Rightarrow> string \<Rightarrow> (('r, 'd) world, string list) go" where
  "dropIn_Tags r repository = onFiles (getDirectoriesIn (joinPath (dropin_root r) repository))"

definition NewDropInAddOnRegistry ::
  "(content \<Rightarrow> (string \<times> content) list res) \<Rightarrow> (nat \<Rightarrow> 64 word) \<Rightarrow> path \<Rightarrow> string \<Rightarrow> string \<Rightarrow>
   ('r, 'd) world AddOnRegistry" where
  "NewDropInAddOnRegistry untar overflow root architecture os =
     (let r = \<lparr>dropin_root = root, dropin_architecture = architecture, dropin_os = os\<rparr>
      in \<lparr>Repositories = dropIn_Repositories r, Tags = dropIn_Tags r,
          Pull = dropIn_Pull untar overflow r, RegistryDelete = dropIn_Delete r\<rparr>)"

section \<open>Code names\<close>

definition NormalizeCodeName :: "string \<Rightarrow> string" where
  "NormalizeCodeName repository =
     (let split = Split repository (CHR ''/'')
      in if length split > 1 then last split else repository)"

definition getRepositoryWithCodeName :: "'w AddOnRegistry \<Rightarrow> string \<Rightarrow> ('w, string) go" where
  "getRepositoryWithCodeName registry name =
     tryM (Repositories registry) (\<lambda>repositoriesWithCodeName.
       case find (\<lambda>r. NormalizeCodeName r = name) repositoriesWithCodeName of
         Some r \<Rightarrow> ret r
       | None \<Rightarrow> fail (ErrorString ''Not Found''))"

definition codeName_Repositories :: "'w AddOnRegistry \<Rightarrow> ('w, string list) go" where
  "codeName_Repositories registry =
     tryM (Repositories registry) (\<lambda>rs. ret (map NormalizeCodeName rs))"

definition codeName_Tags :: "'w AddOnRegistry \<Rightarrow> string \<Rightarrow> ('w, string list) go" where
  "codeName_Tags registry repository =
     tryM (getRepositoryWithCodeName registry repository) (\<lambda>r. Tags registry r)"

definition codeName_Pull :: "'w AddOnRegistry \<Rightarrow> string \<Rightarrow> string \<Rightarrow> 'w Processor \<Rightarrow> ('w, 64 word) go" where
  "codeName_Pull registry repository tag processor =
     tryM (getRepositoryWithCodeName registry repository) (\<lambda>r. Pull registry r tag processor)"

definition codeName_Delete :: "'w AddOnRegistry \<Rightarrow> string \<Rightarrow> string \<Rightarrow> ('w, unit) go" where
  "codeName_Delete registry repository tag =
     tryM (getRepositoryWithCodeName registry repository) (\<lambda>r. RegistryDelete registry r tag)"

definition NewCodeNameAdapterRegistry :: "'w AddOnRegistry \<Rightarrow> 'w AddOnRegistry" where
  "NewCodeNameAdapterRegistry registry =
     \<lparr>Repositories = codeName_Repositories registry, Tags = codeName_Tags registry,
      Pull = codeName_Pull registry, RegistryDelete = codeName_Delete registry\<rparr>"

section \<open>The remote registry\<close>

text \<open>
  A repository of the package \<^verbatim>\<open>oras\<close> resolves tags to descriptors, delivers the JSON document of a
  descriptor (\<^verbatim>\<open>content.FetchAll\<close>) and opens a layer. The field \<open>getRepositoryCallback\<close> is the callback of
  the struct; in the daemon it wraps repositories so that packages of the first format are migrated.
\<close>

record 'r OrasRepository =
  repo_Resolve :: "string \<Rightarrow> ('r, Descriptor) go"
  repo_FetchAll :: "Descriptor \<Rightarrow> ('r, json) go"
  repo_Fetch :: "Descriptor \<Rightarrow> ('r, reader) go"
  repo_MapDescriptorSize :: "'r \<Rightarrow> Descriptor \<Rightarrow> 64 word"

record OciPlatform =
  pl_Architecture :: string
  pl_OS :: string

record IndexEntry =
  ie_Descriptor :: Descriptor
  ie_Platform :: "OciPlatform option"

record 'r ORASAddOnRegistry =
  remoteRepositories :: "('r, string list) go"
  remoteTags :: "string \<Rightarrow> ('r, string list) go"
  getRepositoryCallback :: "string \<Rightarrow> ('r, 'r OrasRepository) go"
  oras_architecture :: string
  oras_os :: string

definition MediaTypeImageIndex :: string where
  "MediaTypeImageIndex = ''application/vnd.oci.image.index.v1+json''"

definition dPlatform :: "json \<Rightarrow> OciPlatform res" where
  "dPlatform j =
     bind_res (dStruct j) (\<lambda>m.
     bind_res (dStr (member m ''architecture'')) (\<lambda>a.
     bind_res (dStr (member m ''os'')) (\<lambda>s.
     Ok \<lparr>pl_Architecture = a, pl_OS = s\<rparr>)))"

definition dIndexEntry :: "json \<Rightarrow> IndexEntry res" where
  "dIndexEntry j =
     bind_res (dDescriptor j) (\<lambda>d.
     bind_res (dStruct j) (\<lambda>m.
     bind_res (dPtr dPlatform (member m ''platform'')) (\<lambda>p.
     Ok \<lparr>ie_Descriptor = d, ie_Platform = p\<rparr>)))"

definition FetchImageIndex :: "'r OrasRepository \<Rightarrow> Descriptor \<Rightarrow> ('r, IndexEntry list) go" where
  "FetchImageIndex repository desc =
     tryM (repo_FetchAll repository desc) (\<lambda>j.
     liftR (bind_res (dStruct j) (\<lambda>m. dList dIndexEntry (member m ''manifests''))))"

definition FetchImageManifest :: "'r OrasRepository \<Rightarrow> Descriptor \<Rightarrow> ('r, ImageManifest) go" where
  "FetchImageManifest repository desc =
     tryM (repo_FetchAll repository desc) (\<lambda>j. liftR (dImageManifest j))"

text \<open>An index entry without a platform is a nil dereference.\<close>

fun findSupportedManifest ::
  "'r ORASAddOnRegistry \<Rightarrow> 'r OrasRepository \<Rightarrow> IndexEntry list \<Rightarrow> ('r, ImageManifest) go" where
  "findSupportedManifest r repository [] =
     fail (ErrorString (''Support architecture '' @ oras_architecture r @ '' and OS '' @ oras_os r @ '' is not included!''))"
| "findSupportedManifest r repository (e # es) =
     (case ie_Platform e of
        None \<Rightarrow> panicM ''invalid memory address or nil pointer dereference''
      | Some platform \<Rightarrow>
          if pl_OS platform = oras_os r \<and> pl_Architecture platform = oras_architecture r
          then FetchImageManifest repository (ie_Descriptor e)
          else findSupportedManifest r repository es)"

definition deserializeImageManifest ::
  "'r ORASAddOnRegistry \<Rightarrow> 'r OrasRepository \<Rightarrow> string \<Rightarrow> ('r, ImageManifest) go" where
  "deserializeImageManifest r repository tag =
     tryM (repo_Resolve repository tag) (\<lambda>desc.
       if desc_MediaType desc = MediaTypeImageIndex then
         tryM (FetchImageIndex repository desc) (\<lambda>manifests. findSupportedManifest r repository manifests)
       else fail (ErrorString (''Unexpected mediatype: '' @ CHR 0x27 # desc_MediaType desc @ [CHR 0x27])))"

definition validateIsAddOn :: "'r ORASAddOnRegistry \<Rightarrow> 'r OrasRepository \<Rightarrow> string \<Rightarrow> ('r, bool) go" where
  "validateIsAddOn r repository tag =
     tryM (deserializeImageManifest r repository tag) (\<lambda>imageManifest. ret (hasUcImageLayer imageManifest))"

fun filterAddOnTags :: "'r ORASAddOnRegistry \<Rightarrow> 'r OrasRepository \<Rightarrow> string list \<Rightarrow> ('r, string list) go" where
  "filterAddOnTags r target [] = ret []"
| "filterAddOnTags r target (tag # tags) =
     tryM (attemptM (validateIsAddOn r target tag)) (\<lambda>v.
     tryM (filterAddOnTags r target tags) (\<lambda>rest.
       case v of
         Inr True \<Rightarrow> ret (tag # rest)
       | _ \<Rightarrow> ret rest))"

definition onlyAddOnTags :: "'r ORASAddOnRegistry \<Rightarrow> 'r OrasRepository \<Rightarrow> string list \<Rightarrow> ('r, string list) go" where
  "onlyAddOnTags r target tags =
     tryM (filterAddOnTags r target tags) (\<lambda>filtered.
       if filtered = [] then fail (ErrorString ''Invalid AddOn'') else ret filtered)"

fun retryLoop :: "nat \<Rightarrow> goerror option \<Rightarrow> ('s, 'a) go \<Rightarrow> ('s, 'a option) go" where
  "retryLoop 0 err callback = (case err of None \<Rightarrow> ret None | Some e \<Rightarrow> fail e)"
| "retryLoop (Suc n) err callback =
     tryM (attemptM callback) (\<lambda>r.
       case r of
         Inr res \<Rightarrow> ret (Some res)
       | Inl e \<Rightarrow> retryLoop n (Some e) callback)"

text \<open>\<^verbatim>\<open>utils.Retry\<close>; the sleep between two attempts is not modelled. Zero attempts give a nil result.\<close>

definition Retry :: "int \<Rightarrow> ('s, 'a) go \<Rightarrow> ('s, 'a option) go" where
  "Retry attempts callback =
     (if attempts < 0 then fail (ErrorString ''Retry attempts should be greater than 0'')
      else retryLoop (nat attempts) None callback)"

definition oras_Repositories :: "'r ORASAddOnRegistry \<Rightarrow> ('r, string list) go" where
  "oras_Repositories r =
     tryM (Retry 5 (remoteRepositories r)) (\<lambda>res.
       case res of
         Some repositories \<Rightarrow> ret repositories
       | None \<Rightarrow> fail (ErrorString ''Could not cast <nil> into string''))"

definition oras_Tags :: "'r ORASAddOnRegistry \<Rightarrow> string \<Rightarrow> ('r, string list) go" where
  "oras_Tags r repository =
     tryM (getRepositoryCallback r repository) (\<lambda>repo.
     tryM (remoteTags r repository) (\<lambda>tags.
     onlyAddOnTags r repo tags))"

text \<open>A layer that cannot be fetched is logged and skipped.\<close>

fun orasLayers ::
  "'r OrasRepository \<Rightarrow> ('r, 'd) world Processor \<Rightarrow> Descriptor list \<Rightarrow> (('r, 'd) world, unit) go" where
  "orasLayers repo processor [] = ret ()"
| "orasLayers repo processor (item # items) =
     (if \<not> Filter processor item then orasLayers repo processor items
      else
        tryM (attemptM (onRemote (repo_Fetch repo item))) (\<lambda>f.
          case f of
            Inl _ \<Rightarrow> orasLayers repo processor items
          | Inr rd \<Rightarrow>
              tryM (Action processor rd (desc_MediaType item)) (\<lambda>_. orasLayers repo processor items)))"

definition oras_Pull ::
  "(nat \<Rightarrow> 64 word) \<Rightarrow> 'r ORASAddOnRegistry \<Rightarrow> string \<Rightarrow> string \<Rightarrow> ('r, 'd) world Processor \<Rightarrow>
   (('r, 'd) world, 64 word) go" where
  "oras_Pull overflow r repository tag processor =
     tryM (onRemote (getRepositoryCallback r repository)) (\<lambda>repo.
     tryM (onRemote (deserializeImageManifest r repo tag)) (\<lambda>imageManifest.
     tryM (orasLayers repo processor (im_Layers imageManifest)) (\<lambda>_.
     tryM (onRemote (getM (repo_MapDescriptorSize repo))) (\<lambda>mapSize.
     ret (estimatedInstallSizeBytes overflow (cumulativeLayerSize mapSize (im_Layers imageManifest)))))))"

definition oras_Delete :: "string \<Rightarrow> string \<Rightarrow> ('w, unit) go" where
  "oras_Delete repository tag = panicM ''Not implemented''"

definition NewORASAddOnRegistry ::
  "(nat \<Rightarrow> 64 word) \<Rightarrow> 'r ORASAddOnRegistry \<Rightarrow> ('r, 'd) world AddOnRegistry" where
  "NewORASAddOnRegistry overflow r =
     \<lparr>Repositories = onRemote (oras_Repositories r), Tags = (\<lambda>n. onRemote (oras_Tags r n)),
      Pull = oras_Pull overflow r, RegistryDelete = oras_Delete\<rparr>"

section \<open>credentials.go\<close>

record Credentials =
  cred_Username :: string
  cred_Password :: string
  cred_ServerAddress :: string

definition convertCredentials :: "json \<Rightarrow> Credentials res" where
  "convertCredentials j =
     bind_res (dStruct j) (\<lambda>m.
     bind_res (dStr (member m ''username'')) (\<lambda>u.
     bind_res (dStr (member m ''password'')) (\<lambda>p.
     bind_res (dStr (member m ''serveraddress'')) (\<lambda>s.
     Ok \<lparr>cred_Username = u, cred_Password = p, cred_ServerAddress = s\<rparr>))))"

definition validateCredentials :: "Credentials \<Rightarrow> unit res" where
  "validateCredentials c =
     (if cred_ServerAddress c = [] then Err (ErrorString ''No serveradress provided!'')
      else if cred_Username c = [] \<and> cred_Password c \<noteq> [] then
        Err (ErrorString ''Password was provided but no username!'')
      else if cred_Username c \<noteq> [] \<and> cred_Password c = [] then
        Err (ErrorString ''Username was provided but no password!'')
      else Ok ())"

definition ReadAndValidateCredentials :: "path \<Rightarrow> (FS, Credentials) go" where
  "ReadAndValidateCredentials p =
     tryM (osReadFile p) (\<lambda>content.
     tryM (liftR (bind_res (contentJson content) convertCredentials)) (\<lambda>c.
     tryM (liftR (validateCredentials c)) (\<lambda>_. ret c)))"

definition IsInsecureServer :: "Credentials \<Rightarrow> bool" where
  "IsInsecureServer c \<longleftrightarrow> cred_Username c = [] \<and> cred_Password c = []"

definition hasOverwriteCredentialsAt :: "path \<Rightarrow> (FS, bool) go" where
  "hasOverwriteCredentialsAt p =
     tryM (attemptM (osStat (joinPath p ''registrycredentials.json''))) (\<lambda>r.
       ret (case r of Inr _ \<Rightarrow> True | Inl _ \<Rightarrow> False))"

definition GetRegistryCredentials :: "path \<Rightarrow> path \<Rightarrow> (FS, Credentials) go" where
  "GetRegistryCredentials devRoot relRoot =
     tryM (hasOverwriteCredentialsAt devRoot) (\<lambda>b.
     ReadAndValidateCredentials (joinPath (if b then devRoot else relRoot) ''registrycredentials.json''))"

section \<open>Lemmas\<close>

lemma onFiles_run: "onFiles m w = (fst (m (files w)), w\<lparr>files := snd (m (files w))\<rparr>)"
  by (simp add: onFiles_def onPart_def split: prod.splits)

lemma onRemote_run: "onRemote m w = (fst (m (remote w)), w\<lparr>remote := snd (m (remote w))\<rparr>)"
  by (simp add: onRemote_def onPart_def split: prod.splits)

lemma onDocker_run: "onDocker m w = (fst (m (docker w)), w\<lparr>docker := snd (m (docker w))\<rparr>)"
  by (simp add: onDocker_def onPart_def split: prod.splits)

lemma keeps_onRemote: "keeps (same files) (onRemote m)"
  by (simp add: keeps_def onRemote_run same_def)

lemma keeps_onDocker: "keeps (same files) (onDocker m)"
  by (simp add: keeps_def onDocker_run same_def)

lemma keeps_onFiles: "keeps (=) m \<Longrightarrow> keeps (=) (onFiles m)"
  by (simp add: keeps_def onFiles_run)

text \<open>Calls that only read.\<close>

interpretation reads: step_relation "(=)"
  by unfold_locales auto

lemma keeps_reads:
  "keeps (=) (osReadDir p)" "keeps (=) (osReadFile p)" "keeps (=) (osWalk p)" "keeps (=) (osVisit p)" "keeps (=) (osStat p)"
  by (auto simp: keeps_def osReadDir_def)

lemma keeps_openFile: "keeps (=) (openFile d desc)"
  by (auto simp: openFile_def keeps_reads intro: reads.keeps_pure split: option.splits)

lemma keeps_readImageManifest: "keeps (=) (readImageManifest p)"
  unfolding readImageManifest_def by (intro reads.keeps_rules keeps_reads)

lemma keeps_validate: "keeps (=) (validateImageManifestAt r p)"
proof -
  have c: "keeps (=) (readImageConfig d m)" for d m
    unfolding readImageConfig_def by (intro reads.keeps_rules keeps_openFile)
  show ?thesis
    unfolding validateImageManifestAt_def
    by (intro reads.keeps_tryM keeps_readImageManifest reads.keeps_attemptM c)
      (auto split: sum.splits intro: reads.keeps_pure)
qed

lemma keeps_findFilesWith: "keeps (=) (findFilesWith p n)"
  unfolding findFilesWith_def by (intro reads.keeps_tryM) (simp_all add: keeps_def)

lemma keeps_reads_run: "keeps (=) m \<Longrightarrow> fst (m s) = r \<Longrightarrow> m s = (r, s)"
  using keepsD [of "(=)" m s] by (simp add: prod_eq_iff)

section \<open>The interface AddOnRegistry as a contract\<close>

text \<open>Listing what a registry offers changes no file.\<close>

locale listing_registry =
  fixes reg :: "('r, 'd) world AddOnRegistry"
  assumes repositories_read: "keeps (same files) (Repositories reg)"
    and tags_read: "keeps (same files) (Tags reg n)"
begin

lemma resolve_name_read: "keeps (same files) (getRepositoryWithCodeName reg n)"
  unfolding getRepositoryWithCodeName_def
  by (intro same.keeps_tryM repositories_read) (auto intro: same.keeps_pure split: option.splits)

lemma adapter_repositories_read: "keeps (same files) (Repositories (NewCodeNameAdapterRegistry reg))"
  unfolding NewCodeNameAdapterRegistry_def codeName_Repositories_def
  by (simp, intro same.keeps_tryM repositories_read) (auto intro: same.keeps_pure)

lemma adapter_tags_read: "keeps (same files) (Tags (NewCodeNameAdapterRegistry reg) n)"
  unfolding NewCodeNameAdapterRegistry_def codeName_Tags_def
  by (simp, intro same.keeps_tryM resolve_name_read tags_read)

end

interpretation orasListing: listing_registry "NewORASAddOnRegistry overflow r"
  by unfold_locales (simp_all add: NewORASAddOnRegistry_def keeps_onRemote)

interpretation adaptedListing: listing_registry "NewCodeNameAdapterRegistry (NewORASAddOnRegistry overflow r)"
  by unfold_locales (rule orasListing.adapter_repositories_read orasListing.adapter_tags_read)+

lemma keeps_eq_same: "keeps (=) m \<Longrightarrow> keeps (same f) m"
  unfolding keeps_def same_def using arg_cong [of _ _ f] by (metis (lifting))

interpretation dropInListing: listing_registry "NewDropInAddOnRegistry untar overflow root arch os"
proof unfold_locales
  have d: "keeps (=) (getDirectoriesIn p)" for p
    unfolding getDirectoriesIn_def by (intro reads.keeps_rules keeps_reads)
  show "keeps (same files) (Repositories (NewDropInAddOnRegistry untar overflow root arch os))"
    by (simp add: NewDropInAddOnRegistry_def dropIn_Repositories_def keeps_eq_same keeps_onFiles d Let_def)
  show "keeps (same files) (Tags (NewDropInAddOnRegistry untar overflow root arch os) n)" for n
    by (simp add: NewDropInAddOnRegistry_def dropIn_Tags_def keeps_eq_same keeps_onFiles d Let_def)
qed

text \<open>Relations on the device that only look at its files.\<close>

locale device_relation = step_relation R
  for R :: "('r, 'd) world \<Rightarrow> ('r, 'd) world \<Rightarrow> bool" +
  assumes files_matter: "same files w w' \<Longrightarrow> R w w'"
begin

lemma keeps_files_same: "keeps (same files) m \<Longrightarrow> keeps R m"
  by (erule keeps_imp) (rule files_matter)

lemma keeps_device_reads: "keeps (=) m \<Longrightarrow> keeps R (onFiles m)"
  by (intro keeps_files_same) (simp add: keeps_def same_def onFiles_run)

lemma keeps_remote: "keeps R (onRemote m)"
  by (intro keeps_files_same keeps_onRemote)

lemma keeps_orasLayers:
  assumes "\<And>rd mt. keeps R (Action p rd mt)"
  shows "keeps R (orasLayers repo p ls)"
  by (induction ls) (auto intro!: keeps_pure keeps_tryM keeps_attemptM keeps_remote assms split: sum.splits)

lemma keeps_oras_Pull: "(\<And>rd mt. keeps R (Action p rd mt)) \<Longrightarrow> keeps R (oras_Pull overflow r n v p)"
  unfolding oras_Pull_def by (intro keeps_tryM keeps_remote keeps_orasLayers keeps_pure)

lemma keeps_dropInLayers:
  assumes "\<And>rd mt. keeps R (Action p rd mt)"
  shows "keeps R (dropInLayers untar d p ls)"
  by (induction ls) (auto intro!: keeps_pure keeps_tryM keeps_device_reads keeps_openFile assms)

lemma keeps_dropInPullFirst:
  assumes "\<And>rd mt. keeps R (Action p rd mt)"
  shows "keeps R (dropInPullFirst untar overflow r p err ps)"
  by (induction ps arbitrary: err)
    (auto intro!: keeps_pure keeps_tryM keeps_attemptM keeps_device_reads keeps_validate keeps_dropInLayers assms split: sum.splits)

lemma keeps_dropIn_Pull: "(\<And>rd mt. keeps R (Action p rd mt)) \<Longrightarrow> keeps R (dropIn_Pull untar overflow r n v p)"
  unfolding dropIn_Pull_def by (intro keeps_tryM keeps_device_reads keeps_findFilesWith keeps_dropInPullFirst)

end

text \<open>A pull changes the device only through the action of the processor.\<close>

locale pulling_registry = listing_registry reg
  for reg :: "('r, 'd) world AddOnRegistry" +
  assumes pull_frame: "device_relation R \<Longrightarrow> (\<And>rd mt. keeps R (Action p rd mt)) \<Longrightarrow> keeps R (Pull reg n v p)"
begin

lemma adapter_pull_frame:
  assumes "device_relation R" and "\<And>rd mt. keeps R (Action p rd mt)"
  shows "keeps R (Pull (NewCodeNameAdapterRegistry reg) n v p)"
proof -
  have s: "step_relation R" using assms(1) by (simp add: device_relation_def)
  show ?thesis
    unfolding NewCodeNameAdapterRegistry_def codeName_Pull_def
    using step_relation.keeps_tryM [OF s device_relation.keeps_files_same [OF assms(1) resolve_name_read] pull_frame [OF assms]]
    by simp
qed

end

interpretation orasPulling: pulling_registry "NewORASAddOnRegistry overflow r"
  by unfold_locales (simp add: NewORASAddOnRegistry_def device_relation.keeps_oras_Pull)

interpretation dropInPulling: pulling_registry "NewDropInAddOnRegistry untar overflow root arch os"
  by unfold_locales (simp add: NewDropInAddOnRegistry_def Let_def device_relation.keeps_dropIn_Pull)

interpretation adaptedPulling: pulling_registry "NewCodeNameAdapterRegistry (NewORASAddOnRegistry overflow r)"
  by unfold_locales (rule orasPulling.adapter_pull_frame)

section \<open>Properties\<close>

lemma unat_cumulative:
  fixes acc :: "64 word"
  assumes "unat acc + sum_list (map (\<lambda>d. unat (f d)) ls) < 2 ^ 64"
  shows "unat (foldl (\<lambda>acc d. acc + f d) acc ls) = unat acc + sum_list (map (\<lambda>d. unat (f d)) ls)"
  using assms
proof (induction ls arbitrary: acc)
  case Nil
  then show ?case by simp
next
  case (Cons d ls)
  have "unat (acc + f d) = unat acc + unat (f d)"
    using Cons.prems by (intro unat_add_lem [THEN iffD1]) simp
  then show ?case using Cons by (simp add: add.assoc)
qed

text \<open>
  The estimated installation size: as long as the layers of a package add up to less than about
  1.8 peta bytes, the 64-bit sum does not wrap, the floating-point product is exact, and the estimate is two and a
  half times the sum, rounded up.
\<close>

theorem estimate_is_exact:
  assumes "5 * sum_list (map (\<lambda>d. unat (size' d)) layers) < 2 ^ 53"
  shows "unat (estimatedInstallSizeBytes overflow (cumulativeLayerSize size' layers))
    = (5 * sum_list (map (\<lambda>d. unat (size' d)) layers) + 1) div 2"
proof -
  let ?n = "sum_list (map (\<lambda>d. unat (size' d)) layers)"
  have small: "?n < 2 ^ 53" "5 * ?n < 2 ^ 53" using assms by linarith+
  have s: "unat (cumulativeLayerSize size' layers) = ?n"
    using unat_cumulative [of 0 size' layers] small by (simp add: cumulativeLayerSize_def)
  have c: "(5 * ?n + 1) div 2 < 2 ^ 64" using small by simp
  have "unat (of_nat ((5 * ?n + 1) div 2) :: 64 word) = (5 * ?n + 1) div 2"
    using c by (simp add: unat_of_nat)
  then show ?thesis
    using s small c by (simp add: estimatedInstallSizeBytes_def Let_def roundBits_def)
qed

definition sampleLayer :: "64 word \<Rightarrow> Descriptor" where
  "sampleLayer n = \<lparr>desc_MediaType = [], desc_Digest = [], desc_Size = n, desc_Annotations = None\<rparr>"

theorem estimate_is_exact_witness:
  "unat (estimatedInstallSizeBytes (\<lambda>_. 0) (cumulativeLayerSize desc_Size [sampleLayer 1000, sampleLayer 3])) = 2508"
  using estimate_is_exact [of desc_Size "[sampleLayer 1000, sampleLayer 3]" "\<lambda>_. 0"]
  by (simp add: sampleLayer_def)

lemma NormalizeCodeName_plain: "CHR ''/'' \<notin> set n \<Longrightarrow> NormalizeCodeName n = n"
  by (simp add: NormalizeCodeName_def Split_sepfree)

lemma NormalizeCodeName_no_slash: "CHR ''/'' \<notin> set (NormalizeCodeName n)"
proof (cases "length (Split n (CHR ''/'')) > 1")
  case True
  then have "last (Split n (CHR ''/'')) \<in> set (Split n (CHR ''/''))" by (intro last_in_set) simp
  then show ?thesis using True sep_notin_Split [of _ n "CHR ''/''"] by (simp add: NormalizeCodeName_def Let_def)
next
  case False
  then have l: "length (Split n (CHR ''/'')) = 1"
    by (cases "Split n (CHR ''/'')") (auto simp: Suc_lessI)
  then have "Split n (CHR ''/'') = [n]"
    using Join_Split [of n "CHR ''/''"] by (cases "Split n (CHR ''/'')") auto
  then have "CHR ''/'' \<notin> set n" using sep_notin_Split [of n n "CHR ''/''"] by simp
  then show ?thesis using False by (simp add: NormalizeCodeName_def)
qed

text \<open>
  The code name adapter: names it lists contain no slash; when no two repositories share the name behind
  the last slash, asking for the tags of a listed name, or pulling it, is asking the registry for the
  repository it stands for; and an unknown name is refused.
\<close>

theorem code_names_are_resolved:
  assumes "Repositories reg w = (Ok rs, w')" and "inj_on NormalizeCodeName (set rs)" and "r \<in> set rs"
  shows "CHR ''/'' \<notin> set (NormalizeCodeName r)
    \<and> fst (Repositories (NewCodeNameAdapterRegistry reg) w) = Ok (map NormalizeCodeName rs)
    \<and> Tags (NewCodeNameAdapterRegistry reg) (NormalizeCodeName r) w = Tags reg r w'
    \<and> Pull (NewCodeNameAdapterRegistry reg) (NormalizeCodeName r) tag p w = Pull reg r tag p w'
    \<and> (n \<notin> NormalizeCodeName ` set rs \<longrightarrow>
         Tags (NewCodeNameAdapterRegistry reg) n w = (Err (ErrorString ''Not Found''), w'))"
proof -
  have f: "find (\<lambda>x. NormalizeCodeName x = NormalizeCodeName r) rs = Some r"
  proof (cases "find (\<lambda>x. NormalizeCodeName x = NormalizeCodeName r) rs")
    case None
    then show ?thesis using assms(3) by (auto simp: find_None_iff)
  next
    case (Some y)
    then have "y \<in> set rs" "NormalizeCodeName y = NormalizeCodeName r" by (auto simp: find_Some_iff)
    then have "y = r" using assms(2,3) by (auto dest: inj_onD)
    then show ?thesis using Some by simp
  qed
  have g: "n \<notin> NormalizeCodeName ` set rs \<Longrightarrow> find (\<lambda>x. NormalizeCodeName x = n) rs = None"
    by (auto simp: find_None_iff)
  show ?thesis
    using assms(1) f g NormalizeCodeName_no_slash
    by (simp add: NewCodeNameAdapterRegistry_def codeName_Repositories_def codeName_Tags_def codeName_Pull_def
        getRepositoryWithCodeName_def tryM_def)
qed

definition sampleRegistry :: "(unit, unit) world AddOnRegistry" where
  "sampleRegistry =
     \<lparr>Repositories = ret [''acme/app'', ''tool''], Tags = (\<lambda>n. ret [n @ ''-tag'']),
      Pull = (\<lambda>_ _ _. ret 0), RegistryDelete = (\<lambda>_ _. ret ())\<rparr>"

definition emptyWorld :: "(unit, unit) world" where
  "emptyWorld = \<lparr>files = \<lparr>nodes = [], faulty = (\<lambda>_ _. False)\<rparr>, images = [], remote = (), docker = ()\<rparr>"

theorem code_names_are_resolved_witness:
  "fst (Tags (NewCodeNameAdapterRegistry sampleRegistry) ''app'' emptyWorld) = Ok [''acme/app-tag'']"
proof -
  have n: "NormalizeCodeName ''acme/app'' = ''app''" "NormalizeCodeName ''tool'' = ''tool''" by code_simp+
  have r: "Repositories sampleRegistry emptyWorld = (Ok [''acme/app'', ''tool''], emptyWorld)"
    by (simp add: sampleRegistry_def)
  have "inj_on NormalizeCodeName (set [''acme/app'', ''tool''])" by (simp add: n)
  from code_names_are_resolved [OF r this, of "''acme/app''"] n show ?thesis
    by (simp add: sampleRegistry_def)
qed

text \<open>
  A drop-in package is pulled only for the device it was built for: when the pull succeeds, some image
  manifest below the package's directory has a readable configuration with the device's architecture and
  operating system. When none has, the pull fails, and nothing was processed.
\<close>

theorem drop_in_pull_matches_device:
  assumes "dropIn_Pull untar overflow r repository tag processor w = (res, w')"
  shows "(\<forall>size. res = Ok size \<longrightarrow>
      (\<exists>p m c. fst (readImageManifest p (files w)) = Ok m \<and>
         fst (readImageConfig (butlast p) m (files w)) = Ok c \<and>
         ic_Architecture c = dropin_architecture r \<and> ic_OS c = dropin_os r))
    \<and> ((\<forall>p m. fst (validateImageManifestAt r p (files w)) \<noteq> Ok m) \<longrightarrow> (\<forall>size. res \<noteq> Ok size) \<and> w' = w)"
proof -
  have val: "\<exists>c. fst (readImageManifest p fs) = Ok m \<and> fst (readImageConfig (butlast p) m fs) = Ok c \<and>
       ic_Architecture c = dropin_architecture r \<and> ic_OS c = dropin_os r"
    if "fst (validateImageManifestAt r p fs) = Ok m" for p fs m
  proof -
    have s: "snd (readImageManifest p fs) = fs"
      using keepsD [OF keeps_readImageManifest, of fs p] by simp
    show ?thesis
      using that s
      by (auto simp: validateImageManifestAt_def tryM_def attemptM_def checkIfCanBePulled_def
          split: prod.splits res.splits if_splits)
  qed
  have first: "(\<forall>size. res = Ok size \<longrightarrow> (\<exists>p m. fst (validateImageManifestAt r p (files w)) = Ok m)) \<and>
      ((\<forall>p m. fst (validateImageManifestAt r p (files w)) \<noteq> Ok m) \<longrightarrow> (\<forall>size. res \<noteq> Ok size) \<and> w' = w)"
    if "dropInPullFirst untar overflow r processor e ps w = (res, w')" for e ps
    using that
  proof (induction ps arbitrary: e)
    case Nil
    then show ?case by auto
  next
    case (Cons p ps)
    have "snd (validateImageManifestAt r p (files w)) = files w"
      using keepsD [OF keeps_validate, of "files w" r p] by simp
    then show ?case
      using Cons by (cases "fst (validateImageManifestAt r p (files w))")
        (auto simp: tryM_def attemptM_def onFiles_run)
  qed
  obtain x fs1 where x: "findFilesWith (joinPath (joinPath (dropin_root r) repository) tag)
      UcImageManifestDescriptorFilename (files w) = (x, fs1)"
    by (cases "findFilesWith (joinPath (joinPath (dropin_root r) repository) tag)
      UcImageManifestDescriptorFilename (files w)")
  have "fs1 = files w" using keeps_run [OF keeps_findFilesWith x] by simp
  then have "(\<exists>ps. dropInPullFirst untar overflow r processor (ErrNotExist ''file does not exist'') ps w = (res, w')) \<or>
      (\<forall>size. res \<noteq> Ok size) \<and> w' = w"
    using assms x by (cases x) (auto simp: dropIn_Pull_def tryM_def onFiles_run)
  then show ?thesis using first val by blast
qed

definition sampleDropIn :: DropInAddOnRegistry where
  "sampleDropIn = \<lparr>dropin_root = [''cache''], dropin_architecture = ''arm'', dropin_os = ''linux''\<rparr>"

definition sampleImageManifest :: json where
  "sampleImageManifest =
     JObj
       [(''config'', JObj [(''mediaType'', JStr UcConfigMediaType),
          (''annotations'', JObj [(AnnotationTitle, JStr ''config.json'')])]),
        (''layers'', JArr [JObj [(''mediaType'', JStr ''text''), (''size'', JNum 1000)]])]"

definition sampleImageConfig :: json where
  "sampleImageConfig = JObj [(''architecture'', JStr ''arm''), (''os'', JStr ''linux'')]"

definition dropInWorld :: "(unit, unit) world" where
  "dropInWorld = emptyWorld\<lparr>files := \<lparr>
     nodes =
       [([''cache''], Dir), ([''cache'', ''app''], Dir), ([''cache'', ''app'', ''1.0''], Dir),
        ([''cache'', ''app'', ''1.0'', UcImageManifestDescriptorFilename], File (Doc sampleImageManifest)),
        ([''cache'', ''app'', ''1.0'', ''config.json''], File (Doc sampleImageConfig))],
     faulty = (\<lambda>_ _. False)\<rparr>\<rparr>"

theorem drop_in_pull_matches_device_witness:
  "fst (dropIn_Pull (\<lambda>_. Ok []) (\<lambda>_. 0) sampleDropIn ''app'' ''1.0'' (NewUcImageLayerProcessor (\<lambda>_ _. ret ())) dropInWorld)
     = Ok 2500
   \<and> (\<exists>p m c. fst (readImageManifest p (files dropInWorld)) = Ok m \<and>
        fst (readImageConfig (butlast p) m (files dropInWorld)) = Ok c \<and>
        ic_Architecture c = ''arm'' \<and> ic_OS c = ''linux'')"
proof -
  let ?run = "dropIn_Pull (\<lambda>_. Ok []) (\<lambda>_. 0) sampleDropIn ''app'' ''1.0''
    (NewUcImageLayerProcessor (\<lambda>_ _. ret ())) dropInWorld"
  let ?p = "[''cache'', ''app'', ''1.0'', UcImageManifestDescriptorFilename]"
  have f: "findFilesWith (joinPath (joinPath (dropin_root sampleDropIn) ''app'') ''1.0'')
      UcImageManifestDescriptorFilename (files dropInWorld) = (Ok [?p], files dropInWorld)"
    by (rule keeps_reads_run [OF keeps_findFilesWith]) code_simp
  have d1: "dImageManifest sampleImageManifest =
      Ok \<lparr>im_Config = \<lparr>desc_MediaType = UcConfigMediaType, desc_Digest = [], desc_Size = 0,
             desc_Annotations = Some [(AnnotationTitle, ''config.json'')]\<rparr>,
          im_Layers = [\<lparr>desc_MediaType = ''text'', desc_Digest = [], desc_Size = 1000, desc_Annotations = None\<rparr>]\<rparr>"
    by (simp add: sampleImageManifest_def dImageManifest_def dDescriptor_def member_def dList_def fromMembers_def)
  have d2: "dImageConfig sampleImageConfig = Ok \<lparr>ic_Architecture = ''arm'', ic_OS = ''linux''\<rparr>"
    by (simp add: sampleImageConfig_def dImageConfig_def member_def)
  have r1: "osReadFile ?p (files dropInWorld) = (Ok (Doc sampleImageManifest), files dropInWorld)"
    by (rule osReadFile_file) (simp_all add: dropInWorld_def node_def)
  have r2: "osReadFile [''cache'', ''app'', ''1.0'', ''config.json''] (files dropInWorld)
      = (Ok (Doc sampleImageConfig), files dropInWorld)"
    by (rule osReadFile_file) (simp_all add: dropInWorld_def node_def UcImageManifestDescriptorFilename_def)
  have j: "joinPath [''cache'', ''app'', ''1.0''] ''config.json'' = [''cache'', ''app'', ''1.0'', ''config.json'']"
    by code_simp
  have v: "validateImageManifestAt sampleDropIn ?p (files dropInWorld) =
      (Ok \<lparr>im_Config = \<lparr>desc_MediaType = UcConfigMediaType, desc_Digest = [], desc_Size = 0,
             desc_Annotations = Some [(AnnotationTitle, ''config.json'')]\<rparr>,
           im_Layers = [\<lparr>desc_MediaType = ''text'', desc_Digest = [], desc_Size = 1000, desc_Annotations = None\<rparr>]\<rparr>,
       files dropInWorld)"
    by (simp add: validateImageManifestAt_def readImageManifest_def readImageConfig_def tryM_def attemptM_def
        checkIfCanBePulled_def openFile_def sampleDropIn_def r1 r2 d1 d2 j)
  have e: "estimatedInstallSizeBytes (\<lambda>_. 0) 1000 = 2500"
    by (simp add: estimatedInstallSizeBytes_def roundBits_def Let_def)
  have fil: "\<not> Filter (NewUcImageLayerProcessor act)
      \<lparr>desc_MediaType = ''text'', desc_Digest = [], desc_Size = 1000, desc_Annotations = None\<rparr>" for act
    by (simp add: NewUcImageLayerProcessor_def ucImageLayerFilter_def IsUcImageLayerMediaType_def UcImageLayerMediaType_def)
  have w: "dropInWorld\<lparr>files := files dropInWorld\<rparr> = dropInWorld" by simp
  have r: "fst ?run = Ok 2500"
    by (simp add: dropIn_Pull_def tryM_def attemptM_def onFiles_run f v w fil cumulativeLayerSize_def e)
  have d: "dropin_architecture sampleDropIn = ''arm''" "dropin_os sampleDropIn = ''linux''"
    by (simp_all add: sampleDropIn_def)
  from drop_in_pull_matches_device [OF prod.collapse [symmetric], of _ _ sampleDropIn "''app''" "''1.0''" _ dropInWorld]
  show ?thesis using r unfolding d by blast
qed

text \<open>The attempts of a retried call are counted by \<open>calls\<close>, any number that each call increases by one.\<close>

lemma retry_attempts:
  assumes "\<forall>s. calls (snd (callback s)) = Suc (calls s)" and "\<forall>s p. fst (callback s) \<noteq> Panic p"
  shows "retryLoop n err callback s = (r, s') \<Longrightarrow>
    calls s' \<le> calls s + n \<and> (\<forall>x. r = Ok (Some x) \<longrightarrow> (\<exists>t. callback t = (Ok x, s'))) \<and>
    (\<forall>e. r = Err e \<longrightarrow> calls s' = calls s + n \<and> (n = 0 \<and> err = Some e \<or> (\<exists>t. callback t = (Err e, s'))))"
proof (induction n arbitrary: err s)
  case 0
  then show ?case by (auto split: option.splits)
next
  case (Suc n)
  obtain q t where c: "callback s = (q, t)" by fastforce
  have t: "calls t = Suc (calls s)" using assms(1) c by (metis snd_conv)
  show ?case
  proof (cases q)
    case (Ok x)
    then show ?thesis using Suc.prems c t by (auto simp: tryM_def attemptM_def)
  next
    case (Err e)
    then have "retryLoop n (Some e) callback t = (r, s')" using Suc.prems c by (simp add: tryM_def attemptM_def)
    from Suc.IH [OF this] this show ?thesis using t c Err by (cases n) auto
  next
    case (Panic p)
    then show ?thesis using assms(2) c by (metis fst_conv)
  qed
qed

text \<open>
  C40. \<^verbatim>\<open>utils.Retry\<close> ends after at most the given number of attempts: it answers with the result of the last call
  it made, with an error only when every one of the attempts has failed, and never with a nil result.
\<close>

theorem retry_is_bounded:
  assumes "\<forall>s. calls (snd (callback s)) = Suc (calls s)" and "\<forall>s p. fst (callback s) \<noteq> Panic p"
    and "0 < attempts" and "Retry attempts callback s = (r, s')"
  shows "calls s < calls s' \<and> calls s' \<le> calls s + nat attempts
    \<and> (\<exists>t. case r of
          Ok (Some x) \<Rightarrow> callback t = (Ok x, s')
        | Ok None \<Rightarrow> False
        | Err e \<Rightarrow> calls s' = calls s + nat attempts \<and> callback t = (Err e, s')
        | Panic _ \<Rightarrow> False)"
proof -
  obtain n where n: "nat attempts = Suc n" using assms(3) by (metis gr0_implies_Suc zero_less_nat_eq)
  then have run: "retryLoop (Suc n) None callback s = (r, s')" using assms(3,4) by (simp add: Retry_def)
  obtain q t where c: "callback s = (q, t)" by fastforce
  have t: "calls t = Suc (calls s)" using assms(1) c by (metis snd_conv)
  note all = retry_attempts [OF assms(1,2)]
  show ?thesis
  proof (cases q)
    case (Ok x)
    then show ?thesis using run c t n by (auto simp: tryM_def attemptM_def)
  next
    case (Err e)
    then have rest: "retryLoop n (Some e) callback t = (r, s')" using run c by (simp add: tryM_def attemptM_def)
    have more: "calls t \<le> calls s' \<and> r \<noteq> Ok None \<and> (\<forall>p. r \<noteq> Panic p)" if "retryLoop n (Some e) callback t = (r, s')" for n e t
      using that
    proof (induction n arbitrary: e t)
      case 0
      then show ?case by auto
    next
      case (Suc n)
      obtain q u where c: "callback t = (q, u)" by fastforce
      have "calls u = Suc (calls t)" "\<forall>p. q \<noteq> Panic p" using assms(1,2) c by (metis snd_conv, metis fst_conv)
      then show ?case using Suc.prems Suc.IH [of _ u] c by (cases q) (auto simp: tryM_def attemptM_def dest!: Suc_leD)
    qed
    from all [OF run] more [OF rest] t n show ?thesis
      by (cases r) (auto split: option.splits)
  next
    case (Panic p)
    then show ?thesis using assms(2) c by (metis fst_conv)
  qed
qed

theorem retry_is_bounded_witness:
  "Retry 5 (\<lambda>n. (Err (ErrorString ''timeout''), Suc n)) (0 :: nat) = (Err (ErrorString ''timeout'') :: unit option res, 5)"
proof -
  let ?cb = "\<lambda>n. (Err (ErrorString ''timeout'') :: unit res, Suc n)"
  obtain r s' where run: "Retry 5 ?cb 0 = (r, s')" by fastforce
  have "\<not> is_ok (fst (Retry 5 ?cb 0))" by code_simp
  then show ?thesis
    using retry_is_bounded [of id ?cb 5 0 r s'] run by (cases r) auto
qed

end
