(* ===== verification/Version.thy ===== *)
theory Version
  imports Prelude "HOL-Library.Multiset"
begin

text \<open>
  \<^verbatim>\<open>internal/pkg/manifest/version.go\<close>: the order of add-on versions. An add-on version is a partner
  version followed by a package version, as in \<^verbatim>\<open>1.2.0-3\<close> or \<^verbatim>\<open>1.2.0-3-rc.1\<close>; the two parts are cut
  apart by a regular expression and compared by the third-party package
  \<^verbatim>\<open>hashicorp/go-version\<close>, which is the parameter \<open>version_api\<close> of the model.

  The theory first shows that \<open>sort_Sort\<close> sorts (a permutation, ascending, unique when no two
  elements tie), then that \<open>Less\<close> is a strict weak order on the versions it can read, and from
  both what \<open>GreaterThan\<close> decides and which element of a sorted tag list is last.
\<close>

section \<open>Sorting with a strict weak order\<close>

definition strict_weak_order :: "('a \<Rightarrow> 'a \<Rightarrow> bool) \<Rightarrow> 'a set \<Rightarrow> bool" where
  "strict_weak_order lt A \<longleftrightarrow>
     (\<forall>a\<in>A. \<forall>b\<in>A. lt a b \<longrightarrow> \<not> lt b a) \<and>
     (\<forall>a\<in>A. \<forall>b\<in>A. \<forall>c\<in>A. \<not> lt a b \<longrightarrow> \<not> lt b c \<longrightarrow> \<not> lt a c)"

lemma strict_weak_order_asym:
  assumes "strict_weak_order lt A" and "a \<in> A" "b \<in> A" and "lt a b"
  shows "\<not> lt b a"
proof -
  have "\<forall>a\<in>A. \<forall>b\<in>A. lt a b \<longrightarrow> \<not> lt b a"
    using assms(1) unfolding strict_weak_order_def by (rule conjunct1)
  from bspec [OF bspec [OF this assms(2)] assms(3)] assms(4) show ?thesis by simp
qed

lemma strict_weak_order_negtrans:
  assumes "strict_weak_order lt A" and "a \<in> A" "b \<in> A" "c \<in> A" and "\<not> lt a b" "\<not> lt b c"
  shows "\<not> lt a c"
proof -
  have "\<forall>a\<in>A. \<forall>b\<in>A. \<forall>c\<in>A. \<not> lt a b \<longrightarrow> \<not> lt b c \<longrightarrow> \<not> lt a c"
    using assms(1) unfolding strict_weak_order_def by (rule conjunct2)
  from bspec [OF bspec [OF bspec [OF this assms(2)] assms(3)] assms(4)] assms(5,6)
  show ?thesis by simp
qed

lemma strict_weak_orderI:
  assumes "\<And>a b. a \<in> A \<Longrightarrow> b \<in> A \<Longrightarrow> lt a b \<Longrightarrow> \<not> lt b a"
    and "\<And>a b c. a \<in> A \<Longrightarrow> b \<in> A \<Longrightarrow> c \<in> A \<Longrightarrow> lt a c \<Longrightarrow> lt a b \<or> lt b c"
  shows "strict_weak_order lt A"
  unfolding strict_weak_order_def using assms by (intro conjI ballI impI) metis+

lemma strict_weak_order_subset:
  assumes "strict_weak_order lt A" and "B \<subseteq> A"
  shows "strict_weak_order lt B"
proof (rule strict_weak_orderI)
  fix a b assume "a \<in> B" "b \<in> B" "lt a b"
  then show "\<not> lt b a" using strict_weak_order_asym [OF assms(1)] assms(2) by blast
next
  fix a b c assume "a \<in> B" "b \<in> B" "c \<in> B" "lt a c"
  then show "lt a b \<or> lt b c"
    using strict_weak_order_negtrans [OF assms(1), of a b c] assms(2) by blast
qed

lemma mset_insertDown [simp]: "mset (insertDown lt x ys) = add_mset x (mset ys)"
  by (induction ys) auto

lemma set_insertDown [simp]: "set (insertDown lt x ys) = insert x (set ys)"
  by (induction ys) auto

lemma mset_fold_insertDown:
  "mset (foldl (\<lambda>acc x. insertDown lt x acc) acc xs) = mset acc + mset xs"
  by (induction xs arbitrary: acc) auto

lemma mset_sort_Sort [simp]: "mset (sort_Sort lt xs) = mset xs"
  by (simp add: sort_Sort_def mset_fold_insertDown)

lemma set_sort_Sort [simp]: "set (sort_Sort lt xs) = set xs"
  by (metis mset_sort_Sort set_mset_mset)

lemma sort_Sort_eq_Nil [simp]: "sort_Sort lt xs = [] \<longleftrightarrow> xs = []"
  by (metis mset_sort_Sort mset_zero_iff_right)

lemma sorted_insertDown:
  assumes "strict_weak_order lt (insert x (set ys))" and "sorted_wrt (\<lambda>a b. \<not> lt a b) ys"
  shows "sorted_wrt (\<lambda>a b. \<not> lt a b) (insertDown lt x ys)"
  using assms
proof (induction ys)
  case Nil
  then show ?case by simp
next
  case (Cons y ys)
  show ?case
  proof (cases "lt x y")
    case True
    have "strict_weak_order lt (insert x (set ys))"
      using Cons.prems(1) by (rule strict_weak_order_subset) auto
    then have "sorted_wrt (\<lambda>a b. \<not> lt a b) (insertDown lt x ys)"
      using Cons.IH Cons.prems(2) by simp
    moreover have "\<not> lt y x"
      using strict_weak_order_asym [OF Cons.prems(1) _ _ True] by simp
    ultimately show ?thesis using True Cons.prems(2) by auto
  next
    case False
    have "\<not> lt x z" if "z \<in> set ys" for z
      using strict_weak_order_negtrans [OF Cons.prems(1), of x y z] that False Cons.prems(2) by auto
    then show ?thesis using False Cons.prems(2) by auto
  qed
qed

lemma sorted_fold_insertDown:
  assumes "strict_weak_order lt (set acc \<union> set xs)" and "sorted_wrt (\<lambda>a b. \<not> lt a b) acc"
  shows "sorted_wrt (\<lambda>a b. \<not> lt a b) (foldl (\<lambda>acc x. insertDown lt x acc) acc xs)"
  using assms
proof (induction xs arbitrary: acc)
  case Nil
  then show ?case by simp
next
  case (Cons x xs)
  have "sorted_wrt (\<lambda>a b. \<not> lt a b) (insertDown lt x acc)"
    by (rule sorted_insertDown [OF strict_weak_order_subset [OF Cons.prems(1)] Cons.prems(2)]) auto
  moreover have "strict_weak_order lt (set (insertDown lt x acc) \<union> set xs)"
    by (rule strict_weak_order_subset [OF Cons.prems(1)]) auto
  ultimately show ?case using Cons.IH by simp
qed

lemma sorted_sort_Sort:
  assumes "strict_weak_order lt (set xs)"
  shows "sorted_wrt (\<lambda>a b. \<not> lt b a) (sort_Sort lt xs)"
  using sorted_fold_insertDown [of lt "[]" xs] assms
  by (simp add: sort_Sort_def sorted_wrt_rev)

lemma last_sort_Sort_max:
  assumes "strict_weak_order lt (set xs)" and "x \<in> set xs"
  shows "\<not> lt (last (sort_Sort lt xs)) x"
proof -
  have mem: "x \<in> set (sort_Sort lt xs)" using assms(2) by simp
  have irrefl: "\<not> lt x x" using assms strict_weak_order_asym by metis
  have "sort_Sort lt xs \<noteq> []" using mem by auto
  then obtain ys y where ys: "sort_Sort lt xs = ys @ [y]"
    by (cases "sort_Sort lt xs" rule: rev_cases) auto
  have "sorted_wrt (\<lambda>a b. \<not> lt b a) (ys @ [y])"
    using sorted_sort_Sort [OF assms(1)] ys by simp
  then show ?thesis
    using mem irrefl ys by (auto simp: sorted_wrt_append)
qed

text \<open>
  On longer data Go's \<^verbatim>\<open>sort.Sort\<close> switches to another algorithm. Whichever it is, an ascending
  permutation is unique when no two distinct elements tie, so \<open>sort_Sort\<close> computes its result.
\<close>

lemma sorted_unique:
  assumes "mset xs = mset ys"
    and "\<And>a b. a \<in> set xs \<Longrightarrow> b \<in> set xs \<Longrightarrow> a \<noteq> b \<Longrightarrow> lt a b \<or> lt b a"
    and "sorted_wrt (\<lambda>a b. \<not> lt b a) xs" and "sorted_wrt (\<lambda>a b. \<not> lt b a) ys"
  shows "xs = ys"
  using assms
proof (induction xs arbitrary: ys)
  case Nil
  then show ?case by simp
next
  case (Cons x xs)
  from Cons.prems(1) obtain y ys' where ys: "ys = y # ys'"
    by (cases ys) auto
  have sets: "set (y # ys') = set (x # xs)"
    using Cons.prems(1) ys by (metis set_mset_mset)
  have "x = y"
  proof (rule ccontr)
    assume ne: "x \<noteq> y"
    then have mem: "y \<in> set xs" "x \<in> set ys'" using sets by auto
    then have "\<not> lt y x" "\<not> lt x y" using Cons.prems(3,4) ys by auto
    then show False using Cons.prems(2) [of x y] ne mem(1) by simp
  qed
  with Cons ys show ?case by auto
qed

section \<open>The package version in an add-on version\<close>

text \<open>
  The regular expression \<^verbatim>\<open>-[0-9]+(-(alpha|beta|rc)\.[0-9]+)?\<close>. \<open>matchPre\<close> is its optional group,
  \<open>matchAt\<close> the text matched at the head of a string, \<open>findPackageVersion\<close> the text before the
  leftmost match and the match.
\<close>

definition matchPre :: "string \<Rightarrow> string" where
  "matchPre s =
     (case find (\<lambda>w. HasPrefix s w) [''-alpha.'', ''-beta.'', ''-rc.''] of
        None \<Rightarrow> []
      | Some w \<Rightarrow>
          (let ds = takeWhile isDigit (drop (length w) s) in if ds = [] then [] else w @ ds))"

definition matchAt :: "string \<Rightarrow> string option" where
  "matchAt s =
     (case s of
        [] \<Rightarrow> None
      | c # r \<Rightarrow>
          (let ds = takeWhile isDigit r
           in if c = CHR ''-'' \<and> ds \<noteq> [] then Some (c # ds @ matchPre (drop (length ds) r)) else None))"

fun findPackageVersion :: "string \<Rightarrow> (string \<times> string) option" where
  "findPackageVersion [] = None"
| "findPackageVersion (c # s) =
     (case matchAt (c # s) of
        Some m \<Rightarrow> Some ([], m)
      | None \<Rightarrow> map_option (\<lambda>(a, m). (c # a, m)) (findPackageVersion s))"

section \<open>ByAddOnVersion\<close>

record 'v version_api =
  NewVersion :: "string \<Rightarrow> 'v option"
  VersionEqual :: "'v \<Rightarrow> 'v \<Rightarrow> bool"
  VersionLessThan :: "'v \<Rightarrow> 'v \<Rightarrow> bool"

definition createAddOnPartnerVersion :: "'v version_api \<Rightarrow> string \<Rightarrow> 'v option" where
  "createAddOnPartnerVersion api manifestVersion =
     (case findPackageVersion manifestVersion of
        None \<Rightarrow> None
      | Some (addOnPartnerVersion, _) \<Rightarrow> NewVersion api addOnPartnerVersion)"

definition createAddOnPackageVersion :: "'v version_api \<Rightarrow> string \<Rightarrow> 'v option" where
  "createAddOnPackageVersion api manifestVersion =
     (let addOnVersion = (case findPackageVersion manifestVersion of None \<Rightarrow> [] | Some (_, m) \<Rightarrow> m)
      in if length addOnVersion > 1 then NewVersion api (drop 1 addOnVersion) else None)"

definition Less :: "'v version_api \<Rightarrow> string \<Rightarrow> string \<Rightarrow> bool" where
  "Less api vi vj =
     (case createAddOnPartnerVersion api vi of
        None \<Rightarrow> False
      | Some pi' \<Rightarrow>
     (case createAddOnPartnerVersion api vj of
        None \<Rightarrow> False
      | Some pj \<Rightarrow>
          if VersionEqual api pi' pj then
            (case createAddOnPackageVersion api vi of
               None \<Rightarrow> False
             | Some ki \<Rightarrow>
            (case createAddOnPackageVersion api vj of
               None \<Rightarrow> False
             | Some kj \<Rightarrow> VersionLessThan api ki kj))
          else VersionLessThan api pi' pj))"

definition GreaterThan :: "'v version_api \<Rightarrow> string \<Rightarrow> string \<Rightarrow> bool" where
  "GreaterThan api first second =
     (let versions = sort_Sort (Less api) [first, second] in hd versions \<noteq> first)"

definition GreaterThanOrEqual :: "'v version_api \<Rightarrow> string \<Rightarrow> string \<Rightarrow> bool" where
  "GreaterThanOrEqual api first second = (if first = second then True else GreaterThan api first second)"

text \<open>
  What the order of \<^verbatim>\<open>go-version\<close> promises: \<open>LessThan\<close> is a strict order in which \<open>Equal\<close> is
  \<^emph>\<open>neither is less\<close>, and being equal is transitive.
\<close>

definition ordered_versions :: "'v version_api \<Rightarrow> bool" where
  "ordered_versions api \<longleftrightarrow>
     strict_weak_order (VersionLessThan api) UNIV \<and>
     (\<forall>a b. VersionEqual api a b \<longleftrightarrow> \<not> VersionLessThan api a b \<and> \<not> VersionLessThan api b a)"

text \<open>Both parts of the version can be read.\<close>

definition readable :: "'v version_api \<Rightarrow> string \<Rightarrow> bool" where
  "readable api v \<longleftrightarrow>
     createAddOnPartnerVersion api v \<noteq> None \<and> createAddOnPackageVersion api v \<noteq> None"

lemma Less_unreadable_partner:
  "createAddOnPartnerVersion api a = None \<or> createAddOnPartnerVersion api b = None \<Longrightarrow> \<not> Less api a b"
  by (auto simp: Less_def split: option.splits)

lemma Less_strict_weak_order:
  assumes "ordered_versions api" and "\<forall>v\<in>A. readable api v"
  shows "strict_weak_order (Less api) A"
proof -
  let ?lt = "VersionLessThan api"
  have swo: "strict_weak_order ?lt UNIV" and
    eq: "\<And>a b. VersionEqual api a b \<longleftrightarrow> \<not> ?lt a b \<and> \<not> ?lt b a"
    using assms(1) by (auto simp: ordered_versions_def)
  have asym: "\<And>a b. ?lt a b \<Longrightarrow> \<not> ?lt b a"
    using strict_weak_order_asym [OF swo] by simp
  have neg: "\<And>a b c. ?lt a c \<Longrightarrow> ?lt a b \<or> ?lt b c"
    using strict_weak_order_negtrans [OF swo] by blast
  define p where "p v = the (createAddOnPartnerVersion api v)" for v
  define k where "k v = the (createAddOnPackageVersion api v)" for v
  have Less_lex: "Less api a b \<longleftrightarrow> ?lt (p a) (p b) \<or> (\<not> ?lt (p b) (p a) \<and> \<not> ?lt (p a) (p b) \<and> ?lt (k a) (k b))"
    if "a \<in> A" "b \<in> A" for a b
  proof -
    have "readable api a" "readable api b" using that assms(2) by auto
    then obtain pa ka pb kb where
      "createAddOnPartnerVersion api a = Some pa" "createAddOnPackageVersion api a = Some ka"
      "createAddOnPartnerVersion api b = Some pb" "createAddOnPackageVersion api b = Some kb"
      by (auto simp: readable_def)
    then show ?thesis using asym by (auto simp: Less_def p_def k_def eq)
  qed
  show ?thesis
  proof (rule strict_weak_orderI)
    fix a b assume "a \<in> A" "b \<in> A" "Less api a b"
    then show "\<not> Less api b a" using Less_lex asym by blast
  next
    fix a b c assume mem: "a \<in> A" "b \<in> A" "c \<in> A" and ac: "Less api a c"
    show "Less api a b \<or> Less api b c"
      using ac Less_lex [OF mem(1,3)] Less_lex [OF mem(1,2)] Less_lex [OF mem(2,3)]
        neg [of "p a" "p c" "p b"] neg [of "k a" "k c" "k b"]
        neg [of "p c" "p b" "p a"] neg [of "p b" "p a" "p c"] neg [of "p b" "p c" "p a"]
        neg [of "p c" "p a" "p b"] neg [of "p a" "p b" "p c"]
        asym [of "p a" "p b"] asym [of "p b" "p c"] asym [of "p a" "p c"]
      by blast
  qed
qed

lemma GreaterThan_iff_Less: "GreaterThan api a b \<longleftrightarrow> Less api b a \<and> b \<noteq> a"
  by (simp add: GreaterThan_def sort_Sort_def)

section \<open>A concrete instance of the version order\<close>

text \<open>
  Dotted numbers compared component-wise: an instance of \<open>version_api\<close> that satisfies
  \<open>ordered_versions\<close>, used to run the definitions on concrete versions.
\<close>

definition digitVal :: "char \<Rightarrow> nat" where
  "digitVal c = of_char c - 48"

definition numVal :: "string \<Rightarrow> nat option" where
  "numVal s = (if s \<noteq> [] \<and> list_all isDigit s then Some (foldl (\<lambda>n c. 10 * n + digitVal c) 0 s) else None)"

definition dotted_version_api :: "nat list version_api" where
  "dotted_version_api =
     \<lparr>NewVersion = (\<lambda>s. those (map numVal (Split s (CHR ''.'')))),
      VersionEqual = (=), VersionLessThan = (<)\<rparr>"

lemma ordered_dotted: "ordered_versions dotted_version_api"
  by (auto simp: ordered_versions_def strict_weak_order_def dotted_version_api_def)

section \<open>Properties\<close>

lemma matchAt_no_dash: "c \<noteq> CHR ''-'' \<Longrightarrow> matchAt (c # s) = None"
  by (simp add: matchAt_def)

lemma findPackageVersion_skip:
  "CHR ''-'' \<notin> set p \<Longrightarrow> findPackageVersion (p @ r) = map_option (\<lambda>(a, m). (p @ a, m)) (findPackageVersion r)"
proof (induction p)
  case Nil
  show ?case by (cases "findPackageVersion r") auto
next
  case (Cons c p)
  then show ?case by (cases "findPackageVersion r") (auto simp: matchAt_no_dash)
qed

lemma takeWhile_digits:
  "list_all isDigit ds \<Longrightarrow> (r = [] \<or> \<not> isDigit (hd r)) \<Longrightarrow> takeWhile isDigit (ds @ r) = ds"
  by (induction ds) (auto simp: takeWhile_eq_Nil_iff)

lemma dash_no_digit: "\<not> isDigit (CHR ''-'')"
  by (simp add: isDigit_def less_eq_char_def)

lemma matchAt_package:
  assumes "ds \<noteq> []" "list_all isDigit ds" "r = [] \<or> \<not> isDigit (hd r)"
  shows "matchAt (CHR ''-'' # ds @ r) = Some (CHR ''-'' # ds @ matchPre r)"
  using assms takeWhile_digits [OF assms(2,3)] by (simp add: matchAt_def)

lemma matchPre_release: "list_all isDigit es \<Longrightarrow> es \<noteq> [] \<Longrightarrow> matchPre (''-rc.'' @ es) = ''-rc.'' @ es"
  by (auto simp: matchPre_def HasPrefix_def Let_def list_all_iff takeWhile_eq_all_conv [THEN iffD2])

text \<open>
  Reading back a composed version: from a partner version without a hyphen, a package number
  and, possibly, a release candidate suffix, the two parts handed to the version library are the
  partner version and the package version, as they were written.
\<close>

theorem addon_version_parts:
  assumes "CHR ''-'' \<notin> set partner" and "list_all isDigit pkg" "pkg \<noteq> []"
    and "suffix = [] \<or> (\<exists>es. es \<noteq> [] \<and> list_all isDigit es \<and> suffix = ''-rc.'' @ es)"
  shows "createAddOnPartnerVersion api (partner @ ''-'' @ pkg @ suffix) = NewVersion api partner
    \<and> createAddOnPackageVersion api (partner @ ''-'' @ pkg @ suffix) = NewVersion api (pkg @ suffix)"
proof -
  have pre: "matchPre suffix = suffix" using assms(4) matchPre_release
    by (auto simp: matchPre_def HasPrefix_def)
  have hd: "suffix = [] \<or> \<not> isDigit (hd suffix)" using assms(4) dash_no_digit by auto
  have "findPackageVersion (partner @ CHR ''-'' # pkg @ suffix) = Some (partner, CHR ''-'' # pkg @ suffix)"
    using findPackageVersion_skip [OF assms(1)] matchAt_package [OF assms(3,2) hd] pre by simp
  then show ?thesis
    using assms(3) by (simp_all add: createAddOnPartnerVersion_def createAddOnPackageVersion_def)
qed

theorem addon_version_parts_witness:
  "createAddOnPartnerVersion dotted_version_api (''1.2.0'' @ ''-'' @ ''3'' @ []) = Some [1, 2, 0]
   \<and> createAddOnPackageVersion dotted_version_api (''1.2.0'' @ ''-'' @ ''3'' @ []) = Some [3]"
proof -
  have "isDigit (CHR ''3'')" by code_simp
  moreover have "NewVersion dotted_version_api ''1.2.0'' = Some [1, 2, 0]" by code_simp
  moreover have "NewVersion dotted_version_api ''3'' = Some [3]" by code_simp
  ultimately show ?thesis
    using addon_version_parts [of "''1.2.0''" "''3''" "[]" dotted_version_api] by simp
qed

text \<open>
  Sorting version tags: when the version library orders versions and every tag has a readable
  partner and package version, sorting by \<open>Less\<close> yields the same tags in ascending order, and the
  last one is a newest: no tag of the list is greater.
\<close>

theorem sorted_tags_newest_last:
  assumes "ordered_versions api" and "\<forall>v\<in>set tags. readable api v"
  shows "mset (sort_Sort (Less api) tags) = mset tags
    \<and> sorted_wrt (\<lambda>a b. \<not> Less api b a) (sort_Sort (Less api) tags)
    \<and> (\<forall>v\<in>set tags. \<not> Less api (last (sort_Sort (Less api) tags)) v
                     \<and> \<not> GreaterThan api v (last (sort_Sort (Less api) tags)))"
proof -
  note swo = Less_strict_weak_order [OF assms]
  show ?thesis
    using sorted_sort_Sort [OF swo] last_sort_Sort_max [OF swo] by (simp add: GreaterThan_iff_Less)
qed

theorem sorted_tags_newest_last_witness:
  "last (sort_Sort (Less dotted_version_api) [''1.10.0-1'', ''1.2.0-3'', ''1.2.0-12'']) = ''1.10.0-1''
   \<and> \<not> Less dotted_version_api ''1.10.0-1'' ''1.2.0-12''"
proof -
  have r: "\<forall>v\<in>set [''1.10.0-1'', ''1.2.0-3'', ''1.2.0-12'']. readable dotted_version_api v"
    by code_simp
  have l: "last (sort_Sort (Less dotted_version_api) [''1.10.0-1'', ''1.2.0-3'', ''1.2.0-12'']) = ''1.10.0-1''"
    by code_simp
  show ?thesis using sorted_tags_newest_last [OF ordered_dotted r] l by simp
qed

text \<open>
  Comparing two versions by sorting the pair: on readable versions \<open>GreaterThan\<close> is a strict
  order (never both ways round, transitive), it holds exactly when the second is \<open>Less\<close> than the
  first, and \<open>GreaterThanOrEqual\<close> adds the identical text.
\<close>

theorem GreaterThan_strict_order:
  assumes "ordered_versions api" and "readable api a" "readable api b" "readable api c"
  shows "(GreaterThan api a b \<longleftrightarrow> Less api b a)
    \<and> \<not> (GreaterThan api a b \<and> GreaterThan api b a)
    \<and> (GreaterThan api a b \<and> GreaterThan api b c \<longrightarrow> GreaterThan api a c)
    \<and> (GreaterThanOrEqual api a b \<longleftrightarrow> a = b \<or> GreaterThan api a b)"
proof -
  have swo: "strict_weak_order (Less api) {a, b, c}"
    using assms by (intro Less_strict_weak_order) auto
  have asym: "\<And>x y. x \<in> {a, b, c} \<Longrightarrow> y \<in> {a, b, c} \<Longrightarrow> Less api x y \<Longrightarrow> \<not> Less api y x"
    by (rule strict_weak_order_asym [OF swo])
  have eq: "GreaterThan api x y \<longleftrightarrow> Less api y x" if "x \<in> {a, b, c}" "y \<in> {a, b, c}" for x y
    using asym [of x y] asym [of y x] that by (auto simp: GreaterThan_iff_Less)
  have "Less api b a \<Longrightarrow> Less api c b \<Longrightarrow> Less api c a"
    using strict_weak_order_negtrans [OF swo, of c a b] asym [of b a] by auto
  then show ?thesis using eq asym by (auto simp: GreaterThanOrEqual_def)
qed

theorem GreaterThan_strict_order_witness:
  "GreaterThan dotted_version_api ''1.10.0-1'' ''1.2.0-12''
   \<and> \<not> GreaterThan dotted_version_api ''1.2.0-12'' ''1.10.0-1''"
proof -
  have r: "readable dotted_version_api ''1.10.0-1''" "readable dotted_version_api ''1.2.0-12''"
    by code_simp+
  have l: "Less dotted_version_api ''1.2.0-12'' ''1.10.0-1''" by code_simp
  show ?thesis using GreaterThan_strict_order [OF ordered_dotted r r(2)] l by blast
qed

end
