(* ===== verification/Catalogue.thy ===== *)
theory Catalogue
  imports Registry Version
begin

text \<open>
  The catalogues: \<^verbatim>\<open>internal/aom/manifest/repository.go\<close> (manifests on disk),
  \<^verbatim>\<open>internal/aom/catalogue/local-catalogue.go\<close> (what is installed) and \<^verbatim>\<open>remote-catalogue.go\<close> (what can be
  installed). Both pull through an \<open>AddOnRegistry\<close>.

  The name that \<^verbatim>\<open>os.MkdirTemp\<close> invents is the parameter \<open>tempName\<close>, the hash function of the logo's file
  name the parameter \<open>sha1\<close>, and the order of versions the parameter \<open>api\<close> of the theory \<open>Version\<close>.
\<close>

section \<open>repository.go\<close>

definition DROP_IN_FOLDER_NAME :: string where
  "DROP_IN_FOLDER_NAME = ''drop-in''"

text \<open>\<^verbatim>\<open>filepath.Rel\<close> to the base path, then \<^verbatim>\<open>filepath.Dir\<close>.\<close>

definition relDir :: "path \<Rightarrow> path \<Rightarrow> string" where
  "relDir base p = (let rel = butlast (drop (length base) p) in if rel = [] then ''.'' else Join rel ''/'')"

definition isManifestEntry :: "path \<times> node \<Rightarrow> bool" where
  "isManifestEntry = (\<lambda>(p, n).
     \<not> Contains (showPath p) DROP_IN_FOLDER_NAME \<and> n \<noteq> Dir \<and> p \<noteq> [] \<and> last p = UcImageManifestFilename)"

definition GetManifestsDirectories :: "path \<Rightarrow> (FS, string list) go" where
  "GetManifestsDirectories basepath =
     tryM (osWalk basepath) (\<lambda>visited.
     ret (map (\<lambda>(p, _). relDir basepath p) (filter isManifestEntry visited)))"

definition ReadManifestFrom :: "path \<Rightarrow> (FS, Root) go" where
  "ReadManifestFrom directoryOfManifest =
     tryM (osReadFile (joinPath directoryOfManifest UcImageManifestFilename)) (\<lambda>bytes.
     liftR (bind_res (contentJson bytes) NewFromBytes))"

section \<open>catalogue.go\<close>

record CatalogueAddOn =
  ca_Name :: string
  ca_Version :: string
  ca_Manifest :: Root

record CatalogueAddOnWithImages =
  EstimatedInstallSize :: "64 word"
  AddOn :: CatalogueAddOn
  DockerImageData :: "reader list"

record 'w RemoteAddOnCatalogue =
  GetAddOnNames :: "('w, string list) go"
  GetAddOnVersions :: "string \<Rightarrow> ('w, string list) go"
  remote_GetAddOn :: "string \<Rightarrow> string \<Rightarrow> ('w, CatalogueAddOn) go"
  GetLatestAddOns :: "('w, CatalogueAddOn list) go"

record 'w LocalAddOnCatalogue =
  PullAddOn :: "string \<Rightarrow> string \<Rightarrow> ('w, CatalogueAddOnWithImages) go"
  lcat_DeleteAddOn :: "string \<Rightarrow> ('w, unit) go"
  lcat_GetAddOn :: "string \<Rightarrow> ('w, CatalogueAddOn) go"
  GetAddOns :: "('w, CatalogueAddOn list) go"
  FetchManifest :: "string \<Rightarrow> string \<Rightarrow> ('w, Root) go"

section \<open>local-catalogue.go\<close>

record ('r, 'd) localAddOnCatalogue =
  lc_Root :: path
  lc_registry :: "('r, 'd) world AddOnRegistry"
  lc_sha1 :: "content \<Rightarrow> string res"
  lc_tempName :: "FS \<Rightarrow> path"

definition getInstallLocation :: "('r, 'd) localAddOnCatalogue \<Rightarrow> string \<Rightarrow> path" where
  "getInstallLocation c name = joinPath (lc_Root c) name"

text \<open>
  \<^verbatim>\<open>dockerImageAccumulator.action\<close>: an image archive is kept for the import, the manifest layer is written
  to the destination; a failure of that is only logged. \<open>images\<close> is the accumulator's slice.
\<close>

definition accumulatorAction ::
  "(content \<Rightarrow> string res) \<Rightarrow> path \<Rightarrow> reader \<Rightarrow> string \<Rightarrow> (('r, 'd) world, unit) go" where
  "accumulatorAction sha1 destination src mediaType =
     (if \<not> IsUcImageLayerMediaType mediaType then modifyM (\<lambda>w. w\<lparr>images := images w @ [src]\<rparr>)
      else ignoreM (onFiles (WriteUcManifestContentToDestination sha1 src destination)))"

definition mkdirTemp :: "(FS \<Rightarrow> path) \<Rightarrow> (FS, path) go" where
  "mkdirTemp tempName fs =
     (let p = tempName fs
      in if faulty fs OpMkdir p \<or> node fs p \<noteq> None
         then (Err (errOs ''mkdir'' p ''permission denied''), fs)
         else (Ok p, setNode p Dir fs))"

definition local_FetchManifest ::
  "('r, 'd) localAddOnCatalogue \<Rightarrow> string \<Rightarrow> string \<Rightarrow> (('r, 'd) world, Root) go" where
  "local_FetchManifest c name version =
     tryM (onFiles (mkdirTemp (lc_tempName c))) (\<lambda>dir.
     deferM (onFiles (osRemoveAll dir))
       (tryM (Pull (lc_registry c) name version (NewUcImageLayerProcessor (accumulatorAction (lc_sha1 c) dir))) (\<lambda>_.
        onFiles (ReadManifestFrom dir))))"

definition local_GetAddOn :: "('r, 'd) localAddOnCatalogue \<Rightarrow> string \<Rightarrow> (('r, 'd) world, CatalogueAddOn) go" where
  "local_GetAddOn c name =
     tryM (attemptM (onFiles (ReadManifestFrom (getInstallLocation c name)))) (\<lambda>r.
       case r of
         Inl (ErrNotExist _) \<Rightarrow> fail ErrorAddOnNotFound
       | Inl err \<Rightarrow> fail err
       | Inr manifest \<Rightarrow> ret \<lparr>ca_Name = name, ca_Version = root_Version manifest, ca_Manifest = manifest\<rparr>)"

definition local_PullAddOn ::
  "('r, 'd) localAddOnCatalogue \<Rightarrow> string \<Rightarrow> string \<Rightarrow> (('r, 'd) world, CatalogueAddOnWithImages) go" where
  "local_PullAddOn c name version =
     (let destination = getInstallLocation c name
      in
        tryM (onFiles (osRemoveAll destination)) (\<lambda>_.
        tryM (modifyM (\<lambda>w. w\<lparr>images := []\<rparr>)) (\<lambda>_.
        tryM (Pull (lc_registry c) name version
               (NewAcceptAllManifestLayerProcessor (accumulatorAction (lc_sha1 c) destination))) (\<lambda>estimatedInstallSize.
        tryM (local_GetAddOn c name) (\<lambda>addOn.
        tryM (getM images) (\<lambda>imageReaders.
        ret \<lparr>EstimatedInstallSize = estimatedInstallSize, AddOn = addOn, DockerImageData = imageReaders\<rparr>))))))"

definition local_DeleteAddOn :: "('r, 'd) localAddOnCatalogue \<Rightarrow> string \<Rightarrow> (('r, 'd) world, unit) go" where
  "local_DeleteAddOn c name = onFiles (osRemoveAll (getInstallLocation c name))"

fun collectAddOns :: "('x \<Rightarrow> ('w, 'a) go) \<Rightarrow> 'x list \<Rightarrow> ('w, 'a list) go" where
  "collectAddOns get [] = ret []"
| "collectAddOns get (repo # repositories) =
     tryM (attemptM (get repo)) (\<lambda>r.
     tryM (collectAddOns get repositories) (\<lambda>addOns.
       ret (case r of Inl _ \<Rightarrow> addOns | Inr addOn \<Rightarrow> addOn # addOns)))"

definition local_GetAddOns :: "('r, 'd) localAddOnCatalogue \<Rightarrow> (('r, 'd) world, CatalogueAddOn list) go" where
  "local_GetAddOns c =
     tryM (onFiles (GetManifestsDirectories (lc_Root c))) (\<lambda>repositories.
     collectAddOns (local_GetAddOn c) repositories)"

definition NewLocalAddOnCatalogue :: "('r, 'd) localAddOnCatalogue \<Rightarrow> ('r, 'd) world LocalAddOnCatalogue" where
  "NewLocalAddOnCatalogue c =
     \<lparr>PullAddOn = local_PullAddOn c, lcat_DeleteAddOn = local_DeleteAddOn c, lcat_GetAddOn = local_GetAddOn c,
      GetAddOns = local_GetAddOns c, FetchManifest = local_FetchManifest c\<rparr>"

section \<open>remote-catalogue.go\<close>

record ('r, 'd) ORASRemoteAddOnCatalogue =
  rc_Root :: path
  rc_registry :: "('r, 'd) world AddOnRegistry"
  rc_sha1 :: "content \<Rightarrow> string res"

definition remote_action :: "(content \<Rightarrow> string res) \<Rightarrow> path \<Rightarrow> reader \<Rightarrow> string \<Rightarrow> (('r, 'd) world, unit) go" where
  "remote_action sha1 destination src mediaType =
     ignoreM (onFiles (WriteUcManifestContentToDestination sha1 src destination))"

definition oras_GetAddOnNames :: "('r, 'd) ORASRemoteAddOnCatalogue \<Rightarrow> (('r, 'd) world, string list) go" where
  "oras_GetAddOnNames c = Repositories (rc_registry c)"

definition oras_GetAddOnVersions ::
  "'v version_api \<Rightarrow> ('r, 'd) ORASRemoteAddOnCatalogue \<Rightarrow> string \<Rightarrow> (('r, 'd) world, string list) go" where
  "oras_GetAddOnVersions api c name =
     tryM (Tags (rc_registry c) name) (\<lambda>versions. ret (sort_Sort (Less api) versions))"

definition oras_GetAddOn ::
  "('r, 'd) ORASRemoteAddOnCatalogue \<Rightarrow> string \<Rightarrow> string \<Rightarrow> (('r, 'd) world, CatalogueAddOn) go" where
  "oras_GetAddOn c name version =
     (let destination = joinPath (rc_Root c) name
      in
        tryM (onFiles (osRemoveAll destination)) (\<lambda>_.
        tryM (Pull (rc_registry c) name version (NewUcImageLayerProcessor (remote_action (rc_sha1 c) destination))) (\<lambda>_.
        tryM (onFiles (ReadManifestFrom destination)) (\<lambda>manifest.
        ret \<lparr>ca_Name = name, ca_Version = version, ca_Manifest = manifest\<rparr>))))"

text \<open>A repository without a version is an index out of range.\<close>

fun latestAddOns ::
  "'v version_api \<Rightarrow> ('r, 'd) ORASRemoteAddOnCatalogue \<Rightarrow> string list \<Rightarrow> (('r, 'd) world, CatalogueAddOn list) go" where
  "latestAddOns api c [] = ret []"
| "latestAddOns api c (repo # repositories) =
     tryM (attemptM (oras_GetAddOnVersions api c repo)) (\<lambda>v.
       case v of
         Inl _ \<Rightarrow> latestAddOns api c repositories
       | Inr versions \<Rightarrow>
           if versions = [] then panicM ''index out of range [-1]''
           else
             tryM (attemptM (oras_GetAddOn c repo (last versions))) (\<lambda>r.
             tryM (latestAddOns api c repositories) (\<lambda>addOns.
               ret (case r of Inl _ \<Rightarrow> addOns | Inr addOn \<Rightarrow> addOn # addOns))))"

definition NewRemoteRegistryConnectionError :: "goerror \<Rightarrow> goerror" where
  "NewRemoteRegistryConnectionError err =
     RemoteRegistryConnectionError (''Unable to connect to remote registry, err ='' @ err_text err)"

definition oras_GetLatestAddOns ::
  "'v version_api \<Rightarrow> ('r, 'd) ORASRemoteAddOnCatalogue \<Rightarrow> (('r, 'd) world, CatalogueAddOn list) go" where
  "oras_GetLatestAddOns api c =
     tryM (attemptM (oras_GetAddOnNames c)) (\<lambda>n.
       case n of
         Inl err \<Rightarrow> fail (NewRemoteRegistryConnectionError err)
       | Inr repositories \<Rightarrow> latestAddOns api c repositories)"

definition NewORASRemoteAddOnCatalogue ::
  "'v version_api \<Rightarrow> ('r, 'd) ORASRemoteAddOnCatalogue \<Rightarrow> ('r, 'd) world RemoteAddOnCatalogue" where
  "NewORASRemoteAddOnCatalogue api c =
     \<lparr>GetAddOnNames = oras_GetAddOnNames c, GetAddOnVersions = oras_GetAddOnVersions api c,
      remote_GetAddOn = oras_GetAddOn c, GetLatestAddOns = oras_GetLatestAddOns api c\<rparr>"

section \<open>Lemmas\<close>

lemma wf_NewFromBytes: "NewFromBytes j = Ok r \<Longrightarrow> wfRoot r"
  by (auto simp: NewFromBytes_def bind_res_Ok_iff wfRoot_def
      intro: wfServices_dMap wfEnvironments_dMap wfMap_dMap)

lemma keeps_ReadManifestFrom: "keeps (=) (ReadManifestFrom d)"
  unfolding ReadManifestFrom_def by (intro reads.keeps_rules keeps_reads)

lemma keeps_GetManifestsDirectories: "keeps (=) (GetManifestsDirectories d)"
  unfolding GetManifestsDirectories_def by (intro reads.keeps_rules keeps_reads)

lemma keeps_local_GetAddOn: "keeps (=) (local_GetAddOn c n)"
  unfolding local_GetAddOn_def
  by (intro reads.keeps_tryM reads.keeps_attemptM keeps_onFiles keeps_ReadManifestFrom)
    (auto intro: reads.keeps_pure split: sum.splits goerror.splits)

lemma local_GetAddOn_state [simp]: "snd (local_GetAddOn c n w) = w"
  using keepsD [OF keeps_local_GetAddOn, of w c n] by simp

lemma local_GetAddOn_OkD:
  assumes "fst (local_GetAddOn c n w) = Ok a"
  shows "fst (ReadManifestFrom (getInstallLocation c n) (files w)) = Ok (ca_Manifest a)" and "ca_Name a = n"
    and "ca_Version a = root_Version (ca_Manifest a)"
  using assms
  by (auto simp: local_GetAddOn_def tryM_def attemptM_def onFiles_run
      split: prod.splits res.splits goerror.splits)

lemma manifest_segment: "joinPath d UcImageManifestFilename = d @ [UcImageManifestFilename]"
  by (rule joinPath_clean) (simp add: cleanSeg_def UcImageManifestFilename_def)

text \<open>Without its manifest file an add-on is not installed.\<close>

lemma ReadManifestFrom_missing:
  "node fs (d @ [UcImageManifestFilename]) = None \<Longrightarrow> fst (ReadManifestFrom d fs) \<noteq> Ok r"
  using resolve_plain [of fs "d @ [UcImageManifestFilename]"]
  by (auto simp: ReadManifestFrom_def manifest_segment osReadFile_def tryM_def)

lemma node_delTree_below: "q \<noteq> [] \<Longrightarrow> prefix p q \<Longrightarrow> node (delTree p fs) q = None"
  by (auto simp: node_def delTree_def map_of_filter_key)

lemma osRemoveAll_Ok: "osRemoveAll p fs = (Ok (), fs') \<Longrightarrow> fs' = delTree p fs"
  by (simp add: osRemoveAll_def split: if_splits)

lemma local_DeleteAddOn_gone:
  assumes "local_DeleteAddOn c n w = (Ok (), w')"
  shows "fst (local_GetAddOn c n w') \<noteq> Ok a"
proof
  assume "fst (local_GetAddOn c n w') = Ok a"
  then have "fst (ReadManifestFrom (getInstallLocation c n) (files w')) = Ok (ca_Manifest a)"
    by (rule local_GetAddOn_OkD)
  moreover have "files w' = delTree (getInstallLocation c n) (files w)"
    using assms by (auto simp: local_DeleteAddOn_def onFiles_run prod_eq_iff intro: osRemoveAll_Ok)
  ultimately show False
    using ReadManifestFrom_missing node_delTree_below [of "getInstallLocation c n @ [UcImageManifestFilename]"]
    by simp
qed

lemma collectAddOns_members:
  assumes "\<And>x. keeps (=) (get x)" and "collectAddOns get xs w = (Ok as, w')"
  shows "w' = w \<and> (\<forall>a\<in>set as. \<exists>x\<in>set xs. fst (get x w) = Ok a)"
  using assms(2)
proof (induction xs arbitrary: as w')
  case Nil
  then show ?case by simp
next
  case (Cons x xs)
  have "snd (get x w) = w" using keepsD [OF assms(1), of w x] by simp
  then obtain r where r: "get x w = (r, w)" by (metis prod.collapse)
  show ?case
    using Cons.prems Cons.IH r
    by (cases r) (auto simp: tryM_def attemptM_def split: prod.splits res.splits)
qed

section \<open>The interface LocalAddOnCatalogue as a contract\<close>

text \<open>
  What the service relies on: looking an add-on up changes nothing and answers under the name asked for;
  an add-on that was deleted is not found any more; a pulled one is found.
\<close>

locale local_catalogue =
  fixes cat :: "'w LocalAddOnCatalogue"
  assumes get_reads: "keeps (=) (lcat_GetAddOn cat n)"
    and get_names: "fst (lcat_GetAddOn cat n w) = Ok a \<Longrightarrow> ca_Name a = n"
    and delete_gone: "lcat_DeleteAddOn cat n w = (Ok (), w') \<Longrightarrow> fst (lcat_GetAddOn cat n w') \<noteq> Ok a"
    and pull_found: "PullAddOn cat n v w = (Ok p, w') \<Longrightarrow> fst (lcat_GetAddOn cat n w') = Ok (AddOn p)"
begin

lemma get_state: "snd (lcat_GetAddOn cat n w) = w"
  using keepsD [OF get_reads, of w n] by simp

lemma get_run: "lcat_GetAddOn cat n w = (fst (lcat_GetAddOn cat n w), w)"
  using get_state by (metis prod.collapse)

lemma pulled_name: "PullAddOn cat n v w = (Ok p, w') \<Longrightarrow> ca_Name (AddOn p) = n"
  using get_names pull_found by blast

end

lemma local_PullAddOn_found:
  assumes "local_PullAddOn c n v w = (Ok p, w')"
  shows "fst (local_GetAddOn c n w') = Ok (AddOn p) \<and> DockerImageData p = images w'"
proof -
  from assms obtain s1 sz addOn where g: "local_GetAddOn c n s1 = (Ok addOn, w')"
    and p: "p = \<lparr>EstimatedInstallSize = sz, AddOn = addOn, DockerImageData = images w'\<rparr>"
    by (auto simp: local_PullAddOn_def Let_def elim!: tryM_OkE)
  then have "w' = s1" using local_GetAddOn_state [of c n s1] by simp
  then show ?thesis using g p by simp
qed

interpretation installed: local_catalogue "NewLocalAddOnCatalogue c"
  by unfold_locales
    (auto simp: NewLocalAddOnCatalogue_def keeps_local_GetAddOn local_GetAddOn_OkD local_DeleteAddOn_gone
      local_PullAddOn_found)

section \<open>Properties\<close>

text \<open>
  The catalogue of installed add-ons: a pulled add-on is found under its name with the version its
  manifest states; after a successful deletion it is not found, and nothing outside its directory has
  changed; and every add-on the listing shows is one that can be looked up.
\<close>

theorem catalogue_lifecycle:
  "(PullAddOn (NewLocalAddOnCatalogue c) n v w = (Ok p, w1) \<longrightarrow>
      fst (lcat_GetAddOn (NewLocalAddOnCatalogue c) n w1) = Ok (AddOn p) \<and> ca_Name (AddOn p) = n
      \<and> ca_Version (AddOn p) = root_Version (ca_Manifest (AddOn p)) \<and> DockerImageData p = images w1)
   \<and> (lcat_DeleteAddOn (NewLocalAddOnCatalogue c) n w = (Ok (), w2) \<longrightarrow>
      (\<forall>a. fst (lcat_GetAddOn (NewLocalAddOnCatalogue c) n w2) \<noteq> Ok a)
      \<and> (\<forall>q. \<not> prefix (getInstallLocation c n) q \<longrightarrow> node (files w2) q = node (files w) q))
   \<and> (GetAddOns (NewLocalAddOnCatalogue c) w = (Ok as, w3) \<longrightarrow>
      w3 = w \<and> (\<forall>a\<in>set as. fst (lcat_GetAddOn (NewLocalAddOnCatalogue c) (ca_Name a) w) = Ok a))"
proof (intro conjI impI)
  assume p: "PullAddOn (NewLocalAddOnCatalogue c) n v w = (Ok p, w1)"
  then show g: "fst (lcat_GetAddOn (NewLocalAddOnCatalogue c) n w1) = Ok (AddOn p)"
    by (rule installed.pull_found)
  show "ca_Name (AddOn p) = n" by (rule installed.pulled_name [OF p])
  show "ca_Version (AddOn p) = root_Version (ca_Manifest (AddOn p))"
    using g by (auto simp: NewLocalAddOnCatalogue_def dest: local_GetAddOn_OkD)
  show "DockerImageData p = images w1"
    using p by (auto simp: NewLocalAddOnCatalogue_def dest: local_PullAddOn_found)
next
  assume d: "lcat_DeleteAddOn (NewLocalAddOnCatalogue c) n w = (Ok (), w2)"
  then show "\<forall>a. fst (lcat_GetAddOn (NewLocalAddOnCatalogue c) n w2) \<noteq> Ok a"
    using installed.delete_gone by blast
  have "files w2 = delTree (getInstallLocation c n) (files w)"
    using d by (auto simp: NewLocalAddOnCatalogue_def local_DeleteAddOn_def onFiles_run prod_eq_iff intro: osRemoveAll_Ok)
  then show "\<forall>q. \<not> prefix (getInstallLocation c n) q \<longrightarrow> node (files w2) q = node (files w) q"
    by (auto simp: node_def delTree_def map_of_filter_key)
next
  assume l: "GetAddOns (NewLocalAddOnCatalogue c) w = (Ok as, w3)"
  then obtain ds w' where ds: "onFiles (GetManifestsDirectories (lc_Root c)) w = (Ok ds, w')"
    and c: "collectAddOns (local_GetAddOn c) ds w' = (Ok as, w3)"
    by (auto simp: NewLocalAddOnCatalogue_def local_GetAddOns_def elim: tryM_OkE)
  have "w' = w" using keeps_run [OF keeps_onFiles [OF keeps_GetManifestsDirectories] ds] by simp
  with collectAddOns_members [OF keeps_local_GetAddOn c]
  have m: "w3 = w" "\<forall>a\<in>set as. \<exists>x\<in>set ds. fst (local_GetAddOn c x w) = Ok a" by auto
  show "w3 = w" by (rule m(1))
  show "\<forall>a\<in>set as. fst (lcat_GetAddOn (NewLocalAddOnCatalogue c) (ca_Name a) w) = Ok a"
    using m(2) by (auto simp: NewLocalAddOnCatalogue_def dest: local_GetAddOn_OkD(2))
qed

definition sampleLayerContent :: ManifestLayerContent where
  "sampleLayerContent =
     \<lparr>mlc_Manifest = Doc (JObj [(''manifestVersion'', JStr ''0.2''), (''version'', JStr ''1.0.0-1''), (''title'', JStr ''App''),
        (''logo'', JStr ''logo.png''),
        (''services'', JObj [(''app'', JObj [(''type'', JStr ''docker-compose''),
           (''config'', JObj [(''image'', JStr ''app:1'')])])])]),
      mlc_Logo = Text ''png'', mlc_LogoName = ''logo.png''\<rparr>"

definition manifestRegistry :: "('r, 'd) world AddOnRegistry" where
  "manifestRegistry =
     \<lparr>Repositories = ret [''app''], Tags = (\<lambda>_. ret [''1.0.0-1'']),
      Pull = (\<lambda>_ _ p. tryM (Action p (ManifestReader sampleLayerContent) UcImageLayerMediaType) (\<lambda>_.
        tryM (Action p (RawReader (Text ''app:1'')) ''tar'') (\<lambda>_. ret 2500))),
      RegistryDelete = (\<lambda>_ _. ret ())\<rparr>"

definition sampleCatalogue :: "('r, 'd) localAddOnCatalogue" where
  "sampleCatalogue =
     \<lparr>lc_Root = [''inst''], lc_registry = manifestRegistry, lc_sha1 = (\<lambda>_. Ok ''0123456789''),
      lc_tempName = (\<lambda>_. [''tmp'', ''1-manifest''])\<rparr>"

definition diskWorld :: "(unit, unit) world" where
  "diskWorld = emptyWorld\<lparr>files := \<lparr>nodes = [([''inst''], Dir), ([''tmp''], Dir)], faulty = (\<lambda>_ _. False)\<rparr>\<rparr>"

theorem catalogue_lifecycle_witness:
  "let w1 = snd (PullAddOn (NewLocalAddOnCatalogue sampleCatalogue) ''app'' ''1.0.0-1'' diskWorld);
       w2 = snd (lcat_DeleteAddOn (NewLocalAddOnCatalogue sampleCatalogue) ''app'' w1)
   in is_ok (fst (lcat_GetAddOn (NewLocalAddOnCatalogue sampleCatalogue) ''app'' w1))
      \<and> \<not> is_ok (fst (lcat_GetAddOn (NewLocalAddOnCatalogue sampleCatalogue) ''app'' w2))"
proof -
  let ?c = "NewLocalAddOnCatalogue sampleCatalogue"
  have ok: "is_ok (fst (PullAddOn ?c ''app'' ''1.0.0-1'' diskWorld))" by code_simp
  have ok2: "is_ok (fst (lcat_DeleteAddOn ?c ''app'' (snd (PullAddOn ?c ''app'' ''1.0.0-1'' diskWorld))))" by code_simp
  obtain p w1 where p: "PullAddOn ?c ''app'' ''1.0.0-1'' diskWorld = (Ok p, w1)"
    using ok by (cases "PullAddOn ?c ''app'' ''1.0.0-1'' diskWorld"; cases "fst (PullAddOn ?c ''app'' ''1.0.0-1'' diskWorld)") auto
  obtain u w2 where d: "lcat_DeleteAddOn ?c ''app'' w1 = (Ok u, w2)"
    using ok2 p by (cases "lcat_DeleteAddOn ?c ''app'' w1"; cases "fst (lcat_DeleteAddOn ?c ''app'' w1)") auto
  have "fst (lcat_GetAddOn ?c ''app'' w1) = Ok (AddOn p)"
    using catalogue_lifecycle [of sampleCatalogue "''app''" "''1.0.0-1''" diskWorld p w1] p by simp
  moreover have "fst (lcat_GetAddOn ?c ''app'' w2) \<noteq> Ok a" for a
    using catalogue_lifecycle [of sampleCatalogue "''app''" _ w1 _ _ w2] d by simp
  ultimately show ?thesis
    using p d by (cases "fst (lcat_GetAddOn ?c ''app'' w2)") auto
qed

lemma osWriteFile_Ok:
  assumes "p \<noteq> []" and "node fs p = None \<or> (\<exists>c. node fs p = Some (File c))"
    and "osWriteFile p c fs = (Ok (), fs')"
  shows "node fs' q = (if q = p then Some (File c) else node fs q)" and "faulty fs' = faulty fs"
    and "\<not> faulty fs OpOpen p"
proof -
  have a: "node fs (butlast p) = Some Dir \<or> node fs p \<noteq> None" "\<not> faulty fs OpOpen p" "\<not> faulty fs OpWrite p"
    using assms resolve_plain [of fs p]
    by (auto simp: osWriteFile_def osOpenCreate_def tryM_def osTruncate_def osWrite_def split: if_splits)
  then show "\<not> faulty fs OpOpen p" by blast
  show "node fs' q = (if q = p then Some (File c) else node fs q)" "faulty fs' = faulty fs"
    using assms a resolve_plain [of fs p]
    by (auto simp: osWriteFile_def osOpenCreate_def tryM_def osTruncate_def osWrite_def split: if_splits)
qed

lemma writeOrRemove_Ok: "writeOrRemove d m fs = (Ok (), fs') \<Longrightarrow> m fs = (Ok (), fs')"
  by (auto simp: writeOrRemove_def attemptM_def tryM_def split: prod.splits res.splits)

text \<open>
  What a pull leaves on disk: when the manifest layer has been written to an empty destination, the
  manifest read back from there is the one in the package up to omitted empty parts, except that its logo
  names the file that was written beside it, which has the hash of the picture in its name and the
  picture as its content.
\<close>

theorem installed_manifest_names_its_logo:
  assumes "WriteUcManifestContentToDestination sha1 (ManifestReader l) d fs = (Ok (), fs')"
    and "d \<noteq> []" and "\<forall>q. strict_prefix d q \<longrightarrow> node fs q = None"
    and "sha1 (mlc_Logo l) = Ok h" and "cleanSeg (addHashToFilename (mlc_LogoName l) (take 5 h))"
    and "addHashToFilename (mlc_LogoName l) (take 5 h) \<noteq> UcImageManifestFilename"
  shows "\<exists>j m. mlc_Manifest l = Doc j \<and> NewFromBytes j = Ok m
    \<and> fst (ReadManifestFrom d fs') = Ok (normRoot (m\<lparr>Logo := addHashToFilename (mlc_LogoName l) (take 5 h)\<rparr>))
    \<and> node fs' (d @ [addHashToFilename (mlc_LogoName l) (take 5 h)]) = Some (File (mlc_Logo l))"
proof -
  let ?logo = "addHashToFilename (mlc_LogoName l) (take 5 h)"
  let ?mp = "d @ [UcImageManifestFilename]" and ?lp = "d @ [?logo]"
  from assms(1,4) obtain raw fs1 fs2 where raw: "changeLogoInManifest (mlc_Manifest l) ?logo = Ok raw"
    and mk: "MkDirAll d fs = (Ok (), fs1)"
    and w1: "osWriteFile ?mp raw fs1 = (Ok (), fs2)" and w2: "osWriteFile ?lp (mlc_Logo l) fs2 = (Ok (), fs')"
    using joinPath_clean [OF assms(5), of d]
    by (auto simp: WriteUcManifestContentToDestination_def GetShortHashFromWithCustomHashFunc_def Let_def
        WriteFileToDestination_def manifest_segment elim!: tryM_OkE dest!: writeOrRemove_Ok split: if_splits)
  from raw obtain j m where jm: "mlc_Manifest l = Doc j" "NewFromBytes j = Ok m" "raw = Doc (ToBytes (m\<lparr>Logo := ?logo\<rparr>))"
    by (auto simp: changeLogoInManifest_def bind_res_Ok_iff split: content.splits)
  have fresh: "node fs1 q = None" if "strict_prefix d q" for q
  proof -
    have "onlyIn {q. q \<noteq> [] \<and> prefix q d} fs fs1"
      using keeps_run [OF keeps_osMkdirAll(2) mk [unfolded MkDirAll_def]] .
    then show ?thesis using that assms(3) by (auto simp: onlyIn_def strict_prefix_def)
  qed
  note e1 = osWriteFile_Ok [OF _ _ w1]
  have n2: "node fs2 q = (if q = ?mp then Some (File raw) else node fs1 q)" for q
    using e1(1) fresh [of ?mp] by (simp add: strict_prefix_def)
  have f2: "faulty fs2 = faulty fs1" "\<not> faulty fs1 OpOpen ?mp"
    using e1(2,3) fresh [of ?mp] by (simp_all add: strict_prefix_def)
  have free: "node fs2 ?lp = None" using n2 fresh [of ?lp] assms(6) by (simp add: strict_prefix_def)
  note e2 = osWriteFile_Ok [OF _ _ w2]
  have n': "node fs' q = (if q = ?lp then Some (File (mlc_Logo l)) else node fs2 q)" for q
    using e2(1) free by simp
  have "node fs' ?mp = Some (File raw)" "\<not> faulty fs' OpOpen ?mp"
    using n' n2 assms(6) e2(2) f2 free by auto
  then have "osReadFile ?mp fs' = (Ok raw, fs')" by (rule osReadFile_file)
  moreover have "NewFromBytes (ToBytes (m\<lparr>Logo := ?logo\<rparr>)) = Ok (normRoot (m\<lparr>Logo := ?logo\<rparr>))"
    using wf_NewFromBytes [OF jm(2)] by (intro NewFromBytes_ToBytes) (simp add: wfRoot_def)
  ultimately have "fst (ReadManifestFrom d fs') = Ok (normRoot (m\<lparr>Logo := ?logo\<rparr>))"
    using jm(3) by (simp add: ReadManifestFrom_def manifest_segment tryM_def)
  then show ?thesis using jm n' by auto
qed

theorem installed_manifest_names_its_logo_witness:
  "node (snd (WriteUcManifestContentToDestination (\<lambda>_. Ok ''0123456789'') (ManifestReader sampleLayerContent)
      [''inst'', ''app''] (files diskWorld))) [''inst'', ''app'', ''logo-01234.png''] = Some (File (Text ''png''))"
proof -
  let ?run = "WriteUcManifestContentToDestination (\<lambda>_. Ok ''0123456789'') (ManifestReader sampleLayerContent)
      [''inst'', ''app''] (files diskWorld)"
  have ok: "is_ok (fst ?run)" by code_simp
  have n: "addHashToFilename (mlc_LogoName sampleLayerContent) (take 5 ''0123456789'') = ''logo-01234.png''" by code_simp
  have e: "\<forall>q. strict_prefix [''inst'', ''app''] q \<longrightarrow> node (files diskWorld) q = None"
    by (auto simp: diskWorld_def node_def strict_prefix_def)
  obtain fs' where run: "?run = (Ok (), fs')"
    using ok by (cases ?run; cases "fst ?run") auto
  have lg: "mlc_Logo sampleLayerContent = Text ''png''" by (simp add: sampleLayerContent_def)
  show ?thesis
    using installed_manifest_names_its_logo [OF run _ e, of "''0123456789''", unfolded n lg] run
    by (auto simp: cleanSeg_def UcImageManifestFilename_def)
qed

end
