(* ===== verification/Archive.thy ===== *)
theory Archive
  imports Catalogue
begin

text \<open>
  \<^verbatim>\<open>internal/aop/fileio/archive.go\<close> and \<^verbatim>\<open>internal/aop/utils/utils.go\<close>: the archives and copies of the packager.

  The formats tar, gzip and cpio are written and read by Go's standard library and by a third-party package. The
  record \<open>archiver\<close> holds them as functions between the entries of an archive and its bytes; the entries
  themselves are the program's. A directory has an entry with an empty body.
\<close>

section \<open>Copying files\<close>

definition copyEntry :: "path \<Rightarrow> path \<Rightarrow> string \<Rightarrow> (FS, unit) go" where
  "copyEntry sourceDirectory destinationDirectory name =
     tryM (osReadFile (joinPath sourceDirectory name)) (\<lambda>bytes.
     osWriteFile (joinPath destinationDirectory name) bytes)"

definition CopyFiles :: "path \<Rightarrow> path \<Rightarrow> (string \<Rightarrow> bool) \<Rightarrow> (FS, unit) go" where
  "CopyFiles sourceDirectory destinationDirectory filesFilterFunc =
     tryM (osReadDir sourceDirectory) (\<lambda>sourceFiles.
     eachM (\<lambda>(name, n).
       if n = Dir \<or> \<not> filesFilterFunc name then ret ()
       else copyEntry sourceDirectory destinationDirectory name) sourceFiles)"

section \<open>Archives\<close>

record tarEntry =
  te_Name :: string
  te_IsDir :: bool
  te_Body :: content

record ArchiveFileEntry =
  af_Name :: string
  af_Body :: content

record archiver =
  tarBytes :: "tarEntry list \<Rightarrow> content"
  gzipTarBytes :: "tarEntry list \<Rightarrow> content"
  gunzipTar :: "content \<Rightarrow> tarEntry list res"
  cpioBytes :: "ArchiveFileEntry list \<Rightarrow> content"

text \<open>\<^verbatim>\<open>filepath.Rel\<close> for a path below the base.\<close>

definition relPath :: "path \<Rightarrow> path \<Rightarrow> string" where
  "relPath base p = (let rel = drop (length base) p in if rel = [] then ''.'' else Join rel ''/'')"

text \<open>
  The callback of \<^verbatim>\<open>filepath.WalkDir\<close>. An error ends the walk, but its result is not looked at: the archive then
  holds what has been written before. Only a file whose header has been written and whose content could not be
  read is noticed, by \<^verbatim>\<open>tarWriter.Close\<close>. The header of a symbolic link takes no content.
\<close>

fun walkTar :: "(path \<Rightarrow> bool) \<Rightarrow> (path \<Rightarrow> string res) \<Rightarrow> FS \<Rightarrow> (path \<times> node) list \<Rightarrow> tarEntry list res" where
  "walkTar predicate headerName fs [] = Ok []"
| "walkTar predicate headerName fs ((p, n) # rest) =
     (if n \<noteq> Dir \<and> \<not> predicate p then walkTar predicate headerName fs rest
      else case headerName p of
        Err _ \<Rightarrow> Ok []
      | Panic x \<Rightarrow> Panic x
      | Ok rel \<Rightarrow>
          (case n of
             Dir \<Rightarrow> bind_res (walkTar predicate headerName fs rest) (\<lambda>es.
               Ok (\<lparr>te_Name = rel, te_IsDir = True, te_Body = Text []\<rparr> # es))
           | Link _ \<Rightarrow>
               if fst (osReadFile p fs) = Ok (Text []) then bind_res (walkTar predicate headerName fs rest) (\<lambda>es.
                 Ok (\<lparr>te_Name = rel, te_IsDir = False, te_Body = Text []\<rparr> # es))
               else Ok [\<lparr>te_Name = rel, te_IsDir = False, te_Body = Text []\<rparr>]
           | File c \<Rightarrow>
               (case fst (osReadFile p fs) of
                  Ok body \<Rightarrow> bind_res (walkTar predicate headerName fs rest) (\<lambda>es.
                    Ok (\<lparr>te_Name = rel, te_IsDir = False, te_Body = body\<rparr> # es))
                | _ \<Rightarrow>
                    if c = Text [] then Ok [\<lparr>te_Name = rel, te_IsDir = False, te_Body = Text []\<rparr>]
                    else Err (ErrorString ''archive/tar: missed writing bytes''))))"

text \<open>
  The callback returns the error of a directory that cannot be read, after the directory itself was visited; the
  result of the walk is dropped, so the archive ends there.
\<close>

definition upToUnreadable :: "FS \<Rightarrow> (path \<times> node) list \<Rightarrow> (path \<times> node) list" where
  "upToUnreadable fs visited =
     takeWhile (\<lambda>e. \<not> unreadable fs e) visited @ take 1 (dropWhile (\<lambda>e. \<not> unreadable fs e) visited)"

definition writeDirectoryAsTar :: "path \<Rightarrow> (path \<Rightarrow> bool) \<Rightarrow> (path \<Rightarrow> string res) \<Rightarrow> (FS, tarEntry list) go" where
  "writeDirectoryAsTar inputDirectory predicate headerName =
     tryM (osStat inputDirectory) (\<lambda>inputDirectoryInfo.
     if inputDirectoryInfo \<noteq> Dir then fail (ErrorString ''invalid argument'')
     else
       tryM (attemptM (osVisit inputDirectory)) (\<lambda>r fs.
       (walkTar predicate headerName fs (case r of Inr visited \<Rightarrow> upToUnreadable fs visited | Inl _ \<Rightarrow> []), fs)))"

definition Tarball :: "archiver \<Rightarrow> path \<Rightarrow> (path \<Rightarrow> bool) \<Rightarrow> (path \<Rightarrow> string res) \<Rightarrow> (FS, content) go" where
  "Tarball a path predicate headerName =
     tryM (writeDirectoryAsTar path predicate headerName) (\<lambda>headers. ret (tarBytes a headers))"

definition GzipTarball :: "archiver \<Rightarrow> path \<Rightarrow> (path \<Rightarrow> bool) \<Rightarrow> (FS, content) go" where
  "GzipTarball a path predicate =
     tryM (writeDirectoryAsTar path predicate (\<lambda>p. Ok (relPath path p))) (\<lambda>headers. ret (gzipTarBytes a headers))"

definition CreateCpioArchive :: "archiver \<Rightarrow> path \<Rightarrow> ArchiveFileEntry list \<Rightarrow> (FS, unit) go" where
  "CreateCpioArchive a outputPath archiveFiles = osWriteFile outputPath (cpioBytes a archiveFiles)"

text \<open>
  An existing file is not truncated, and a name that leaves the destination (\<^verbatim>\<open>..\<close>) is not refused.
\<close>

definition extractEntry :: "path \<Rightarrow> tarEntry \<Rightarrow> (FS, unit) go" where
  "extractEntry destinationPath header =
     (let target = joinPath destinationPath (te_Name header)
      in if te_IsDir header then
           tryM (attemptM (osStat target)) (\<lambda>r. case r of Inl _ \<Rightarrow> osMkdirAll target | Inr _ \<Rightarrow> ret ())
         else tryM (osOpenCreate target) (\<lambda>f. osWrite f (te_Body header)))"

definition UnTarball :: "path \<Rightarrow> tarEntry list \<Rightarrow> (FS, unit) go" where
  "UnTarball destinationPath headers = eachM (extractEntry destinationPath) headers"

definition UnGzipTarball :: "archiver \<Rightarrow> path \<Rightarrow> content \<Rightarrow> (FS, unit) go" where
  "UnGzipTarball a destinationPath r =
     tryM (liftR (gunzipTar a r)) (\<lambda>headers. UnTarball destinationPath headers)"

section \<open>What an archive of a directory holds\<close>

definition fileEntry :: "(path \<Rightarrow> string) \<Rightarrow> path \<times> node \<Rightarrow> tarEntry" where
  "fileEntry name = (\<lambda>(p, n). \<lparr>te_Name = name p, te_IsDir = False, te_Body = (case n of File c \<Rightarrow> c | _ \<Rightarrow> Text [])\<rparr>)"

lemma walkTar_files:
  assumes "list_all (\<lambda>(p, n). \<exists>c. n = File c \<and> node fs p = Some (File c) \<and> \<not> faulty fs OpOpen p) visited"
  shows "walkTar predicate (\<lambda>p. Ok (name p)) fs visited = Ok (map (fileEntry name) (filter (\<lambda>(p, _). predicate p) visited))"
  using assms
  by (induction visited) (auto simp: osReadFile_file fileEntry_def)

text \<open>A directory that holds files only, all of them readable.\<close>

definition flatDir :: "FS \<Rightarrow> path \<Rightarrow> bool" where
  "flatDir fs d \<longleftrightarrow> node fs d = Some Dir \<and> \<not> faulty fs OpStat d \<and> \<not> faulty fs OpOpen d \<and>
     (\<forall>p. strict_prefix d p \<longrightarrow> node fs p \<noteq> None \<longrightarrow>
        (\<exists>n c. p = d @ [n] \<and> node fs p = Some (File c) \<and> \<not> faulty fs OpOpen p))"

lemma below_iff: "p \<in> set (below fs d) \<longleftrightarrow> strict_prefix d p \<and> p \<in> fst ` set (nodes fs)"
  by (auto simp: below_def)

lemma distinct_below: "distinct (below fs d)"
  by (simp add: below_def)

lemma node_iff: "p \<noteq> [] \<Longrightarrow> node fs p \<noteq> None \<longleftrightarrow> p \<in> fst ` set (nodes fs)"
  by (simp add: node_def map_of_eq_None_iff)

lemma below_node: "p \<in> set (below fs d) \<longleftrightarrow> strict_prefix d p \<and> node fs p \<noteq> None"
  using node_iff [of p fs] by (cases "p = []") (auto simp: below_iff)

lemma upToUnreadable_all:
  assumes "\<And>e. e \<in> set xs \<Longrightarrow> \<not> unreadable fs e"
  shows "upToUnreadable fs xs = xs"
proof -
  have t: "takeWhile (\<lambda>e. \<not> unreadable fs e) xs = xs" using assms by (simp add: takeWhile_eq_all_conv)
  have d: "dropWhile (\<lambda>e. \<not> unreadable fs e) xs = []" using assms by (simp add: dropWhile_eq_Nil_conv)
  show ?thesis by (simp only: upToUnreadable_def t d take_Nil append_Nil2)
qed

lemma writeDirectoryAsTar_flat:
  assumes "flatDir fs d"
  shows "writeDirectoryAsTar d predicate (\<lambda>p. Ok (name p)) fs =
    (Ok (\<lparr>te_Name = name d, te_IsDir = True, te_Body = Text []\<rparr> #
       map (\<lambda>p. fileEntry name (p, the (node fs p))) (filter predicate (below fs d))), fs)"
proof -
  have d: "node fs d = Some Dir" "\<not> faulty fs OpStat d" "\<not> faulty fs OpOpen d" using assms by (simp_all add: flatDir_def)
  have files: "list_all (\<lambda>(p, n). \<exists>c. n = File c \<and> node fs p = Some (File c) \<and> \<not> faulty fs OpOpen p)
      (map (\<lambda>p. (p, the (node fs p))) (below fs d))"
    using assms by (fastforce simp: list_all_iff below_node flatDir_def)
  have "osStat d fs = (Ok Dir, fs)" using d resolve_plain [of fs d] by (simp add: osStat_def)
  moreover have v: "osVisit d fs = (Ok ((d, Dir) # map (\<lambda>p. (p, the (node fs p))) (below fs d)), fs)"
  proof -
    have "\<not> faulty fs OpOpen p" if "prefix d p" "node fs p = Some Dir" for p
    proof (cases "p = d")
      case False
      then have "strict_prefix d p" using that(1) by (simp add: strict_prefix_def)
      moreover have "\<forall>p. strict_prefix d p \<longrightarrow> node fs p \<noteq> None \<longrightarrow> \<not> faulty fs OpOpen p"
        using assms unfolding flatDir_def by fast
      moreover have "node fs p \<noteq> None" using that(2) by simp
      ultimately show ?thesis by (elim allE impE)
    qed (use d(3) in simp)
    then have "osVisit d fs = (Ok (map (\<lambda>p. (p, the (node fs p))) (d # (if node fs d = Some Dir then below fs d else []))), fs)"
      using d(1) by (intro osWalk_readable(1)) auto
    then show ?thesis using d(1) by simp
  qed
  moreover have "upToUnreadable fs ((d, Dir) # map (\<lambda>p. (p, the (node fs p))) (below fs d))
      = (d, Dir) # map (\<lambda>p. (p, the (node fs p))) (below fs d)"
    by (rule upToUnreadable_all) (use d(3) files in \<open>auto simp: unreadable_def list_all_iff\<close>)
  ultimately show ?thesis
    using walkTar_files [OF files]
    by (simp add: writeDirectoryAsTar_def tryM_def attemptM_def filter_map comp_def)
qed

lemma two_of_list:
  assumes "distinct xs" and "\<And>x. x \<in> set xs \<longleftrightarrow> x = a \<or> x = b" and "a \<noteq> b"
  shows "xs = [a, b] \<or> xs = [b, a]"
proof -
  have set: "set xs = {a, b}" using assms(2) by auto
  then have "length xs = 2" using distinct_card [OF assms(1)] assms(3) by simp
  then obtain x y where "xs = [x, y]" by (auto simp: length_Suc_conv numeral_2_eq_2)
  then show ?thesis using set assms(3) by auto
qed

text \<open>
  The archive of a directory with a manifest and a logo, whatever other files lie there, is read by the device as
  that manifest and that logo: the entry of the directory comes first, so that the logo replaces it.
\<close>

lemma layer_is_read_back:
  assumes dir: "flatDir fs d"
    and m: "node fs (d @ [UcImageManifestFilename]) = Some (File m)" and l: "node fs (d @ [logo]) = Some (File l)"
    and ne: "logo \<noteq> UcImageManifestFilename"
    and law: "\<And>es. untar (gzipTarBytes a es) = Ok (map (\<lambda>e. (te_Name e, te_Body e)) es)"
  shows "\<exists>layer. GzipTarball a d (\<lambda>p. last p = UcImageManifestFilename \<or> last p = logo) fs = (Ok layer, fs)
    \<and> Decompress untar layer = Ok (ManifestReader \<lparr>mlc_Manifest = m, mlc_Logo = l, mlc_LogoName = logo\<rparr>)"
proof -
  let ?pred = "\<lambda>p. last p = UcImageManifestFilename \<or> last p = logo"
  let ?m = "d @ [UcImageManifestFilename]" and ?l = "d @ [logo]"
  have "x \<in> set (filter ?pred (below fs d)) \<longleftrightarrow> x = ?m \<or> x = ?l" for x
    using dir m l by (auto simp: below_node flatDir_def strict_prefix_def)
  then have xs: "filter ?pred (below fs d) = [?m, ?l] \<or> filter ?pred (below fs d) = [?l, ?m]"
    using ne distinct_below [of fs d] by (intro two_of_list) auto
  let ?entries = "\<lparr>te_Name = relPath d d, te_IsDir = True, te_Body = Text []\<rparr> #
    map (\<lambda>p. fileEntry (relPath d) (p, the (node fs p))) (filter ?pred (below fs d))"
  have "GzipTarball a d ?pred fs = (Ok (gzipTarBytes a ?entries), fs)"
    using writeDirectoryAsTar_flat [OF dir, of ?pred "relPath d"] by (simp add: GzipTarball_def tryM_run ret_def)
  moreover have "Decompress untar (gzipTarBytes a ?entries)
      = Ok (ManifestReader \<lparr>mlc_Manifest = m, mlc_Logo = l, mlc_LogoName = logo\<rparr>)"
    using xs m l ne
    by (auto simp: law Decompress_def readLogoAndManifestFromTar_def fileEntry_def relPath_def UcImageManifestFilename_def)
  ultimately show ?thesis by blast
qed

section \<open>An archive format\<close>

text \<open>To run the archives on: entries as a JSON document.\<close>

definition encodeBody :: "content \<Rightarrow> json" where
  "encodeBody c = (case c of Text t \<Rightarrow> JStr t | Doc j \<Rightarrow> JArr [j])"

definition encodeEntry :: "tarEntry \<Rightarrow> json" where
  "encodeEntry e = JArr [JStr (te_Name e), JBool (te_IsDir e), encodeBody (te_Body e)]"

fun decodeBody :: "json \<Rightarrow> content" where
  "decodeBody (JStr t) = Text t"
| "decodeBody (JArr [j]) = Doc j"
| "decodeBody _ = Text []"

fun decodeEntry :: "json \<Rightarrow> tarEntry" where
  "decodeEntry (JArr [JStr n, JBool d, b]) = \<lparr>te_Name = n, te_IsDir = d, te_Body = decodeBody b\<rparr>"
| "decodeEntry _ = \<lparr>te_Name = [], te_IsDir = False, te_Body = Text []\<rparr>"

fun decodeArchive :: "content \<Rightarrow> tarEntry list res" where
  "decodeArchive (Doc (JArr js)) = Ok (map decodeEntry js)"
| "decodeArchive _ = Err (ErrorString ''gzip: invalid header'')"

definition sampleArchiver :: archiver where
  "sampleArchiver =
     \<lparr>tarBytes = (\<lambda>es. Doc (JArr (map encodeEntry es))), gzipTarBytes = (\<lambda>es. Doc (JArr (map encodeEntry es))),
      gunzipTar = decodeArchive,
      cpioBytes = (\<lambda>fs. Doc (JArr (map (\<lambda>f. JArr [JStr (af_Name f), encodeBody (af_Body f)]) fs)))\<rparr>"

definition sampleUntar :: "content \<Rightarrow> (string \<times> content) list res" where
  "sampleUntar c = bind_res (gunzipTar sampleArchiver c) (\<lambda>es. Ok (map (\<lambda>e. (te_Name e, te_Body e)) es))"

lemma decodeEntry_encodeEntry [simp]: "decodeEntry (encodeEntry e) = e"
proof -
  have "decodeBody (encodeBody c) = c" for c by (cases c) (simp_all add: encodeBody_def)
  then show ?thesis by (simp add: encodeEntry_def)
qed

lemma gunzip_sample: "gunzipTar sampleArchiver (gzipTarBytes sampleArchiver es) = Ok es"
  by (simp add: sampleArchiver_def comp_def)

lemma untar_sample: "sampleUntar (gzipTarBytes sampleArchiver es) = Ok (map (\<lambda>e. (te_Name e, te_Body e)) es)"
  by (simp add: sampleUntar_def gunzip_sample)

end
