(* ===== verification/GraphBuilder.thy ===== *)
theory GraphBuilder
  imports Registry "HOL-Library.Countable"
begin

text \<open>
  \<^verbatim>\<open>internal/pkg/oras-wrapper\<close>: \<^verbatim>\<open>graph_builder.go\<close>, \<^verbatim>\<open>push.go\<close> and \<^verbatim>\<open>types.go\<close>. A package is a graph of blobs in
  a content store: an image index, one image manifest per platform, and below each its configuration, the
  layer with the add-on manifest and one layer per Docker image.

  The hash of a blob, its length and the current time are fields of the record \<open>codec\<close>. The in-memory store of
  the package \<^verbatim>\<open>oras\<close> is third-party code: the record \<open>Target\<close> holds its methods over a state \<open>'m\<close>; what is used
  of it is stated by \<open>content_store\<close>.
\<close>

section \<open>Platform keys\<close>

record Platform =
  plat_OS :: string
  plat_Architecture :: string
  plat_Variant :: string

definition FromOCIPlatform :: "Platform \<Rightarrow> string" where
  "FromOCIPlatform platform =
     plat_OS platform @ ''-'' @ plat_Architecture platform @
     (if plat_Variant platform \<noteq> [] then ''-'' @ plat_Variant platform else [])"

definition ToOCIPlatform :: "string \<Rightarrow> Platform res" where
  "ToOCIPlatform p =
     (case Split p (CHR ''-'') of
        os # arch # rest \<Rightarrow>
          Ok \<lparr>plat_OS = os, plat_Architecture = arch, plat_Variant = (case rest of [variant] \<Rightarrow> variant | _ \<Rightarrow> [])\<rparr>
      | _ \<Rightarrow> Err (ErrorString ''Invalid arguments''))"

section \<open>Blobs and descriptors\<close>

record codec =
  FromBytes :: "reader \<Rightarrow> string"
  blobLen :: "reader \<Rightarrow> 64 word"
  nowUTC :: string

record DescriptorBlobTuple =
  dbt_Desc :: Descriptor
  dbt_Platform :: "Platform option"
  dbt_Blob :: reader

definition MediaTypeImageLayer :: string where
  "MediaTypeImageLayer = ''application/vnd.oci.image.layer.v1.tar''"

definition MediaTypeImageManifest :: string where
  "MediaTypeImageManifest = ''application/vnd.oci.image.manifest.v1+json''"

definition AnnotationVersion :: string where
  "AnnotationVersion = ''org.opencontainers.image.version''"

definition UcConfigAnnotationTitle :: string where
  "UcConfigAnnotationTitle = ''config.json''"

definition UcPackageVersion :: string where
  "UcPackageVersion = ''1.0''"

definition UcImageLayerAnnotationTitle :: string where
  "UcImageLayerAnnotationTitle = ''weidmueller.uc.aom''"

definition CreateUcManifestAnnotationsV1_0 :: "string \<Rightarrow> string \<Rightarrow> string list" where
  "CreateUcManifestAnnotationsV1_0 tag manifestVersion =
     [AnnotationTitle, UcImageLayerAnnotationTitle, AnnotationVersion, tag, UcImageLayerAnnotationSchemaVersion, manifestVersion]"

text \<open>The annotations come as keys and values in turn; a last key without a value is an index out of range.\<close>

fun annotationMap :: "string list \<Rightarrow> (string \<times> string) list \<Rightarrow> (string \<times> string) list res" where
  "annotationMap [] acc = Ok acc"
| "annotationMap [k] acc = Panic ''index out of range''"
| "annotationMap (k # v # rest) acc = annotationMap rest (AList.update k v acc)"

definition createDescriptorFromBlob :: "codec \<Rightarrow> string \<Rightarrow> reader \<Rightarrow> string list \<Rightarrow> Descriptor res" where
  "createDescriptorFromBlob c mediaType blob annotations =
     bind_res (annotationMap annotations []) (\<lambda>m.
     Ok \<lparr>desc_MediaType = mediaType, desc_Digest = FromBytes c blob, desc_Size = blobLen c blob, desc_Annotations = Some m\<rparr>)"

text \<open>\<^verbatim>\<open>json.Marshal\<close> on the structures of the image specification.\<close>

definition eOciPlatform :: "Platform \<Rightarrow> json" where
  "eOciPlatform p =
     obj [(''architecture'', eStr (plat_Architecture p)), (''os'', eStr (plat_OS p)), (''variant'', eStrOmit (plat_Variant p))]"

definition eDescriptor :: "Descriptor \<times> Platform option \<Rightarrow> json" where
  "eDescriptor = (\<lambda>(d, p).
     obj [(''mediaType'', eStrOmit (desc_MediaType d)), (''digest'', eStr (desc_Digest d)),
          (''size'', Some (JNum (sint (desc_Size d)))), (''annotations'', eMapOmit JStr (desc_Annotations d)),
          (''platform'', map_option eOciPlatform p)])"

definition eIndex :: "(Descriptor \<times> Platform option) list \<Rightarrow> json" where
  "eIndex manifests =
     obj [(''schemaVersion'', Some (JNum 2)), (''manifests'', Some (JArr (map eDescriptor manifests))),
          (''annotations'', Some (JObj [(AnnotationVersion, JStr UcPackageVersion)]))]"

definition eImageManifest :: "Descriptor \<Rightarrow> Descriptor list \<Rightarrow> json" where
  "eImageManifest config layers =
     obj [(''schemaVersion'', Some (JNum 2)), (''config'', Some (eDescriptor (config, None))),
          (''layers'', Some (JArr (map (\<lambda>d. eDescriptor (d, None)) layers)))]"

definition eImageConfig :: "string \<Rightarrow> string \<Rightarrow> Platform \<Rightarrow> json" where
  "eImageConfig created author platform =
     obj [(''created'', eStrOmit created), (''author'', eStrOmit author),
          (''architecture'', eStr (plat_Architecture platform)), (''os'', eStr (plat_OS platform)),
          (''config'', Some (JObj [])), (''rootfs'', Some (JObj [(''type'', JStr []), (''diff_ids'', JNull)]))]"

definition CreateImageConfigTuple :: "codec \<Rightarrow> string \<Rightarrow> string \<Rightarrow> DescriptorBlobTuple res" where
  "CreateImageConfigTuple c platformKey author =
     bind_res (ToOCIPlatform platformKey) (\<lambda>platform.
     let imageConfigJSON = RawReader (Doc (eImageConfig (nowUTC c) author platform))
     in bind_res (createDescriptorFromBlob c UcConfigMediaType imageConfigJSON [AnnotationTitle, UcConfigAnnotationTitle])
          (\<lambda>descriptor. Ok \<lparr>dbt_Desc = descriptor, dbt_Platform = None, dbt_Blob = imageConfigJSON\<rparr>))"

definition CreateImageManifestTuple ::
  "codec \<Rightarrow> string \<Rightarrow> Descriptor \<Rightarrow> Descriptor list \<Rightarrow> DescriptorBlobTuple res" where
  "CreateImageManifestTuple c platformKey config layers =
     (let manifestJSON = RawReader (Doc (eImageManifest config layers))
      in bind_res (ToOCIPlatform platformKey) (\<lambda>platform.
         bind_res (createDescriptorFromBlob c MediaTypeImageManifest manifestJSON []) (\<lambda>descriptor.
         Ok \<lparr>dbt_Desc = descriptor, dbt_Platform = Some platform, dbt_Blob = manifestJSON\<rparr>)))"

definition CreateImageIndexTuple :: "codec \<Rightarrow> DescriptorBlobTuple list \<Rightarrow> DescriptorBlobTuple res" where
  "CreateImageIndexTuple c imageManifests =
     (let indexJSON = RawReader (Doc (eIndex (map (\<lambda>im. (dbt_Desc im, dbt_Platform im)) imageManifests)))
      in bind_res (createDescriptorFromBlob c MediaTypeImageIndex indexJSON []) (\<lambda>descriptor.
         Ok \<lparr>dbt_Desc = descriptor, dbt_Platform = None, dbt_Blob = indexJSON\<rparr>))"

section \<open>The builder\<close>

record GraphBuilder =
  UcManifestTuple :: "DescriptorBlobTuple option"
  DockerImages :: "(string \<times> DescriptorBlobTuple list) list"
  ImageManifestTuples :: "DescriptorBlobTuple list"
  gb_Tag :: string
  gb_author :: string

definition NewGraphBuilder :: "string \<Rightarrow> GraphBuilder" where
  "NewGraphBuilder tag =
     \<lparr>UcManifestTuple = None, DockerImages = [], ImageManifestTuples = [], gb_Tag = tag, gb_author = []\<rparr>"

definition WithAuthor :: "string \<Rightarrow> GraphBuilder \<Rightarrow> GraphBuilder" where
  "WithAuthor author r = r\<lparr>gb_author := author\<rparr>"

definition AppendUcManifest :: "codec \<Rightarrow> reader \<Rightarrow> string list \<Rightarrow> GraphBuilder \<Rightarrow> GraphBuilder res" where
  "AppendUcManifest c blob annotations r =
     bind_res (createDescriptorFromBlob c UcImageLayerMediaType blob annotations) (\<lambda>descriptor.
     Ok (r\<lparr>UcManifestTuple := Some \<lparr>dbt_Desc = descriptor, dbt_Platform = None, dbt_Blob = blob\<rparr>\<rparr>))"

definition layersFor :: "GraphBuilder \<Rightarrow> string \<Rightarrow> DescriptorBlobTuple list" where
  "layersFor r platformKey = (case map_of (DockerImages r) platformKey of None \<Rightarrow> [] | Some ts \<Rightarrow> ts)"

definition AppendDockerImage ::
  "codec \<Rightarrow> reader \<Rightarrow> Platform \<Rightarrow> string list \<Rightarrow> GraphBuilder \<Rightarrow> GraphBuilder res" where
  "AppendDockerImage c blob platform annotations r =
     bind_res (createDescriptorFromBlob c MediaTypeImageLayer blob annotations) (\<lambda>descriptor.
     let platformKey = FromOCIPlatform platform;
         currentLayerTuples = layersFor r platformKey @ [\<lparr>dbt_Desc = descriptor, dbt_Platform = None, dbt_Blob = blob\<rparr>]
     in Ok (r\<lparr>DockerImages := AList.update platformKey currentLayerTuples (DockerImages r)\<rparr>))"

text \<open>A builder without an add-on manifest is a nil dereference.\<close>

definition CreateImageConfigTupleAndImageManifestTuple ::
  "codec \<Rightarrow> string \<Rightarrow> string \<Rightarrow> DescriptorBlobTuple option \<Rightarrow> DescriptorBlobTuple list \<Rightarrow>
   (DescriptorBlobTuple \<times> DescriptorBlobTuple) res" where
  "CreateImageConfigTupleAndImageManifestTuple c platformKey author ucManifestTuple dockerImageTuples =
     bind_res (CreateImageConfigTuple c platformKey author) (\<lambda>imageConfigTuple.
     case ucManifestTuple of
       None \<Rightarrow> Panic ''invalid memory address or nil pointer dereference''
     | Some uc \<Rightarrow>
         bind_res (CreateImageManifestTuple c platformKey (dbt_Desc imageConfigTuple) (dbt_Desc uc # map dbt_Desc dockerImageTuples))
           (\<lambda>imageManifestTuple. Ok (imageConfigTuple, imageManifestTuple)))"

definition AppendImageManifest ::
  "codec \<Rightarrow> string \<Rightarrow> GraphBuilder \<Rightarrow> ((DescriptorBlobTuple \<times> DescriptorBlobTuple) \<times> GraphBuilder) res" where
  "AppendImageManifest c platformKey r =
     bind_res (CreateImageConfigTupleAndImageManifestTuple c platformKey (gb_author r) (UcManifestTuple r) (layersFor r platformKey))
       (\<lambda>(imageConfigTuple, imageManifestTuple).
        Ok ((imageConfigTuple, imageManifestTuple), r\<lparr>ImageManifestTuples := ImageManifestTuples r @ [imageManifestTuple]\<rparr>))"

section \<open>Pushing\<close>

record 'm Target =
  tgt_Push :: "Descriptor \<Rightarrow> reader \<Rightarrow> ('m, unit) go"
  tgt_Tag :: "Descriptor \<Rightarrow> string \<Rightarrow> ('m, unit) go"
  tgt_Resolve :: "string \<Rightarrow> ('m, Descriptor) go"
  tgt_Fetch :: "Descriptor \<Rightarrow> ('m, reader) go"
  tgt_Exists :: "Descriptor \<Rightarrow> ('m, bool) go"
  memoryNew :: 'm

definition PushAll :: "'m Target \<Rightarrow> DescriptorBlobTuple list \<Rightarrow> ('m, unit) go" where
  "PushAll pusher tuples = eachM (\<lambda>tuple. tgt_Push pusher (dbt_Desc tuple) (dbt_Blob tuple)) tuples"

type_synonym 'm building = "GraphBuilder \<times> 'm"

definition onStore :: "('m, 'a) go \<Rightarrow> ('m building, 'a) go" where
  "onStore k = onPart snd (\<lambda>m s. (fst s, m)) k"

text \<open>The loop body of \<open>BuildAndTag\<close> for one platform.\<close>

definition buildPlatform :: "codec \<Rightarrow> 'm Target \<Rightarrow> string \<times> DescriptorBlobTuple list \<Rightarrow> ('m building, unit) go" where
  "buildPlatform c src = (\<lambda>(platformKey, dockerImageTuples).
     tryM (\<lambda>(r, m).
       case AppendImageManifest c platformKey r of
         Ok (ts, r') \<Rightarrow> (Ok ts, (r', m))
       | Err e \<Rightarrow> (Err e, (r, m))
       | Panic p \<Rightarrow> (Panic p, (r, m))) (\<lambda>(imageConfigTuple, imageManifestTuple).
     tryM (onStore (PushAll src dockerImageTuples)) (\<lambda>_.
     tryM (onStore (PushAll src [imageConfigTuple])) (\<lambda>_.
     onStore (PushAll src [imageManifestTuple])))))"

text \<open>The error of pushing the index is not looked at: the variable tested after it is that of the call before.\<close>

definition BuildAndTag :: "codec \<Rightarrow> 'm Target \<Rightarrow> ('m building, unit) go" where
  "BuildAndTag c src =
     tryM (\<lambda>(r, _).
       case UcManifestTuple r of
         None \<Rightarrow> (Panic ''invalid memory address or nil pointer dereference'', (r, memoryNew src))
       | Some uc \<Rightarrow> onStore (PushAll src [uc]) (r, memoryNew src)) (\<lambda>_.
     tryM (getM (\<lambda>s. DockerImages (fst s))) (\<lambda>dockerImages.
     tryM (eachM (buildPlatform c src) dockerImages) (\<lambda>_.
     tryM (getM (\<lambda>s. ImageManifestTuples (fst s))) (\<lambda>imageManifestTuples.
     tryM (liftR (CreateImageIndexTuple c imageManifestTuples)) (\<lambda>imageIndexTuple.
     tryM (ignoreM (onStore (PushAll src [imageIndexTuple]))) (\<lambda>_.
     tryM (getM (\<lambda>s. gb_Tag (fst s))) (\<lambda>tag.
     onStore (tgt_Tag src (dbt_Desc imageIndexTuple) tag))))))))"

section \<open>Platform keys are read back\<close>

lemma ToOCIPlatform_FromOCIPlatform:
  assumes "CHR ''-'' \<notin> set (plat_OS p)" and "CHR ''-'' \<notin> set (plat_Architecture p)" and "CHR ''-'' \<notin> set (plat_Variant p)"
  shows "ToOCIPlatform (FromOCIPlatform p) = Ok p"
  using assms
  by (cases "plat_Variant p = []")
    (simp_all add: ToOCIPlatform_def FromOCIPlatform_def Split_append Split_sepfree)

section \<open>What is written is read back\<close>

definition normDesc :: "Descriptor \<Rightarrow> Descriptor" where
  "normDesc d = d\<lparr>desc_Annotations := omitMap (desc_Annotations d)\<rparr>"

lemma normDesc_same [simp]:
  "desc_Digest (normDesc d) = desc_Digest d" "desc_MediaType (normDesc d) = desc_MediaType d" "desc_Size (normDesc d) = desc_Size d"
  by (simp_all add: normDesc_def)

definition wfDesc :: "Descriptor \<Rightarrow> bool" where
  "wfDesc d \<longleftrightarrow> wfMap (desc_Annotations d)"

lemma dInt64_sint: "dInt64 (JNum (sint (w :: 64 word))) = Ok w"
proof -
  have "- (2 ^ 63) \<le> sint w" "sint w < 2 ^ 63"
    using sint_ge [of w] sint_lt [of w] by simp_all
  then show ?thesis by simp
qed

lemma dDescriptor_eDescriptor: "wfDesc d \<Longrightarrow> dDescriptor (eDescriptor (d, p)) = Ok (normDesc d)"
  using dMap_eMapOmit [of "desc_Annotations d" dStr JStr id]
  by (cases d; cases "desc_Annotations d")
    (simp_all add: dDescriptor_def eDescriptor_def wfDesc_def normDesc_def dInt64_sint mapValues_def del: dInt64.simps)

definition ociPlatform :: "Platform \<Rightarrow> OciPlatform" where
  "ociPlatform p = \<lparr>pl_Architecture = plat_Architecture p, pl_OS = plat_OS p\<rparr>"

lemma dPlatform_eOciPlatform: "dPlatform (eOciPlatform p) = Ok (ociPlatform p)"
  by (simp add: dPlatform_def eOciPlatform_def ociPlatform_def)

lemma dPtr_eOciPlatform: "dPtr dPlatform (orNull (map_option eOciPlatform p)) = Ok (map_option ociPlatform p)"
proof (cases p)
  case (Some x)
  obtain kvs where "eOciPlatform x = JObj kvs" by (simp add: eOciPlatform_def obj_def)
  then show ?thesis using Some dPlatform_eOciPlatform [of x] by simp
qed simp

lemma dIndexEntry_eDescriptor:
  assumes "wfDesc d"
  shows "dIndexEntry (eDescriptor (d, p)) = Ok \<lparr>ie_Descriptor = normDesc d, ie_Platform = map_option ociPlatform p\<rparr>"
  unfolding dIndexEntry_def dDescriptor_eDescriptor [OF assms]
  by (simp add: eDescriptor_def dPtr_eOciPlatform)

text \<open>An image manifest the builder writes is the one \<^verbatim>\<open>FetchImageManifest\<close> reads.\<close>

lemma dImageManifest_eImageManifest:
  assumes "wfDesc config" and "list_all wfDesc layers"
  shows "dImageManifest (eImageManifest config layers) = Ok \<lparr>im_Config = normDesc config, im_Layers = map normDesc layers\<rparr>"
  using dList_eListOmit(4) [of layers dDescriptor "\<lambda>d. eDescriptor (d, None)" normDesc] assms
  by (simp add: dImageManifest_def eImageManifest_def dDescriptor_eDescriptor list_all_iff)

lemma index_manifests:
  assumes "list_all (\<lambda>(d, p). wfDesc d) es"
  shows "bind_res (dStruct (eIndex es)) (\<lambda>m. dList dIndexEntry (member m ''manifests''))
    = Ok (map (\<lambda>(d, p). \<lparr>ie_Descriptor = normDesc d, ie_Platform = map_option ociPlatform p\<rparr>) es)"
proof -
  have "dIndexEntry (eDescriptor x) = Ok ((\<lambda>(d, p). \<lparr>ie_Descriptor = normDesc d, ie_Platform = map_option ociPlatform p\<rparr>) x)"
    if "x \<in> set es" for x
    using that assms by (cases x) (auto simp: list_all_iff dIndexEntry_eDescriptor)
  from dList_eListOmit(4) [of es dIndexEntry eDescriptor
      "\<lambda>(d, p). \<lparr>ie_Descriptor = normDesc d, ie_Platform = map_option ociPlatform p\<rparr>", OF this] show ?thesis by (simp add: eIndex_def)
qed

section \<open>Content stores\<close>

definition errNotFound :: goerror where
  "errNotFound = ErrorString ''not found''"

text \<open>
  What is used of the in-memory store: blobs are found under the digest they were pushed with, a tag is set on
  a stored blob only, and reading changes nothing. \<open>blobs\<close> and \<open>tags\<close> are what the store holds.
\<close>

definition content_store ::
  "'m Target \<Rightarrow> ('m \<Rightarrow> string \<Rightarrow> reader option) \<Rightarrow> ('m \<Rightarrow> string \<Rightarrow> Descriptor option) \<Rightarrow> bool" where
  "content_store t blobs tags \<longleftrightarrow>
     (\<forall>d b m r m'. tgt_Push t d b m = (r, m') \<longrightarrow> tags m' = tags m \<and>
        (if r = Ok () then blobs m' = (blobs m)(desc_Digest d \<mapsto> b)
         else blobs m' = blobs m \<or> blobs m' = (blobs m)(desc_Digest d \<mapsto> b))) \<and>
     (\<forall>d n m m'. tgt_Tag t d n m = (Ok (), m') \<longrightarrow>
        blobs m (desc_Digest d) \<noteq> None \<and> blobs m' = blobs m \<and> tags m' = (tags m)(n \<mapsto> d)) \<and>
     (\<forall>d m. tgt_Fetch t d m = (case blobs m (desc_Digest d) of Some b \<Rightarrow> Ok b | None \<Rightarrow> Err errNotFound, m)) \<and>
     (\<forall>n m. tgt_Resolve t n m = (case tags m n of Some d \<Rightarrow> Ok d | None \<Rightarrow> Err errNotFound, m)) \<and>
     (\<forall>d m. tgt_Exists t d m = (Ok (blobs m (desc_Digest d) \<noteq> None), m)) \<and>
     blobs (memoryNew t) = Map.empty \<and> tags (memoryNew t) = Map.empty"

definition addressed :: "codec \<Rightarrow> DescriptorBlobTuple \<Rightarrow> bool" where
  "addressed c t \<longleftrightarrow> desc_Digest (dbt_Desc t) = FromBytes c (dbt_Blob t)"

text \<open>
  Everything stored keeps its place, because digests do not collide, and what is new lies under its own digest;
  tags are not touched.
\<close>

definition storeGrows ::
  "codec \<Rightarrow> ('m \<Rightarrow> string \<Rightarrow> reader option) \<Rightarrow> ('m \<Rightarrow> string \<Rightarrow> Descriptor option) \<Rightarrow> 'm \<Rightarrow> 'm \<Rightarrow> bool" where
  "storeGrows c blobs tags m m' \<longleftrightarrow> tags m' = tags m \<and>
     (\<forall>b. blobs m (FromBytes c b) = Some b \<longrightarrow> blobs m' (FromBytes c b) = Some b) \<and>
     (\<forall>h b. blobs m' h = Some b \<longrightarrow> blobs m h = Some b \<or> FromBytes c b = h)"

interpretation grows: step_relation "storeGrows c blobs tags"
  by unfold_locales (simp_all add: storeGrows_def, blast)

lemmas store_laws = content_store_def [THEN iffD1]

lemma store_push:
  assumes "content_store t blobs tags" and "tgt_Push t d b m = (r, m')"
  shows "tags m' = tags m \<and> (if r = Ok () then blobs m' = (blobs m)(desc_Digest d \<mapsto> b)
    else blobs m' = blobs m \<or> blobs m' = (blobs m)(desc_Digest d \<mapsto> b))"
  using store_laws [OF assms(1), THEN conjunct1, rule_format, OF assms(2)] .

lemma store_tag:
  assumes "content_store t blobs tags" and "tgt_Tag t d n m = (Ok (), m')"
  shows "blobs m (desc_Digest d) \<noteq> None \<and> blobs m' = blobs m \<and> tags m' = (tags m)(n \<mapsto> d)"
  using store_laws [OF assms(1), THEN conjunct2, THEN conjunct1, rule_format, OF assms(2)] .

lemma store_read:
  assumes "content_store t blobs tags"
  shows "tgt_Fetch t d m = (case blobs m (desc_Digest d) of Some b \<Rightarrow> Ok b | None \<Rightarrow> Err errNotFound, m)"
    and "tgt_Resolve t n m = (case tags m n of Some d \<Rightarrow> Ok d | None \<Rightarrow> Err errNotFound, m)"
    and "tgt_Exists t d m = (Ok (blobs m (desc_Digest d) \<noteq> None), m)"
    and "blobs (memoryNew t) = Map.empty" and "tags (memoryNew t) = Map.empty"
  using store_laws [OF assms] by blast+

lemma keeps_Push:
  assumes "content_store t blobs tags" and "inj (FromBytes c)" and "addressed c u"
  shows "keeps (storeGrows c blobs tags) (tgt_Push t (dbt_Desc u) (dbt_Blob u))"
  unfolding keeps_def
proof
  fix m
  obtain r m' where run: "tgt_Push t (dbt_Desc u) (dbt_Blob u) m = (r, m')" by fastforce
  have "tags m' = tags m" and "blobs m' = blobs m \<or> blobs m' = (blobs m)(FromBytes c (dbt_Blob u) \<mapsto> dbt_Blob u)"
    using store_push [OF assms(1) run] assms(3) by (auto simp: addressed_def split: if_splits)
  then show "storeGrows c blobs tags m (snd (tgt_Push t (dbt_Desc u) (dbt_Blob u) m))"
    using run injD [OF assms(2)] by (auto simp: storeGrows_def split: if_splits)
qed

lemma keeps_PushAll:
  assumes "content_store t blobs tags" and "inj (FromBytes c)" and "list_all (addressed c) us"
  shows "keeps (storeGrows c blobs tags) (PushAll t us)"
  unfolding PushAll_def
  using assms by (intro grows.keeps_eachM keeps_Push) (auto simp: list_all_iff)

lemma PushAll_stores:
  assumes store: "content_store t blobs tags" and inj: "inj (FromBytes c)"
  shows "PushAll t us m = (Ok (), m') \<Longrightarrow> list_all (addressed c) us \<Longrightarrow>
    list_all (\<lambda>u. blobs m' (desc_Digest (dbt_Desc u)) = Some (dbt_Blob u)) us"
proof (induction us arbitrary: m)
  case Nil
  then show ?case by simp
next
  case (Cons u us)
  from Cons.prems obtain m1 where one: "tgt_Push t (dbt_Desc u) (dbt_Blob u) m = (Ok (), m1)"
    and rest: "PushAll t us m1 = (Ok (), m')" by (auto simp: PushAll_def elim!: tryM_OkE)
  have "blobs m1 = (blobs m)(desc_Digest (dbt_Desc u) \<mapsto> dbt_Blob u)"
    using store_push [OF store one] by simp
  then have "blobs m1 (FromBytes c (dbt_Blob u)) = Some (dbt_Blob u)" using Cons.prems(2) by (simp add: addressed_def)
  then have "blobs m' (FromBytes c (dbt_Blob u)) = Some (dbt_Blob u)"
    using keeps_run [OF keeps_PushAll [OF store inj] rest] Cons.prems(2) by (simp add: storeGrows_def)
  then show ?case using Cons.IH [OF rest] Cons.prems(2) by (simp add: addressed_def)
qed

section \<open>The built package\<close>

lemma distinct_annotationMap: "annotationMap ann acc = Ok m \<Longrightarrow> distinct (map fst acc) \<Longrightarrow> distinct (map fst m)"
  by (induction ann acc rule: annotationMap.induct) (simp_all add: distinct_update)

lemma createDescriptor_addressed:
  "createDescriptorFromBlob c mt b ann = Ok d \<Longrightarrow>
   desc_Digest d = FromBytes c b \<and> desc_MediaType d = mt \<and> desc_Size d = blobLen c b \<and> wfDesc d"
  by (auto simp: createDescriptorFromBlob_def bind_res_Ok_iff wfDesc_def wfMap_def dest: distinct_annotationMap)

lemma AppendImageManifest_Ok:
  assumes "AppendImageManifest c key r = Ok ((cfg, im), r')" and "UcManifestTuple r = Some uc"
  shows "r' = r\<lparr>ImageManifestTuples := ImageManifestTuples r @ [im]\<rparr> \<and> addressed c cfg \<and> addressed c im
    \<and> dbt_Blob im = RawReader (Doc (eImageManifest (dbt_Desc cfg) (dbt_Desc uc # map dbt_Desc (layersFor r key))))
    \<and> desc_MediaType (dbt_Desc im) = MediaTypeImageManifest \<and> wfDesc (dbt_Desc im) \<and> wfDesc (dbt_Desc cfg)
    \<and> (\<exists>p. ToOCIPlatform key = Ok p \<and> dbt_Platform im = Some p
         \<and> dbt_Blob cfg = RawReader (Doc (eImageConfig (nowUTC c) (gb_author r) p)))"
  using assms
  by (auto simp: AppendImageManifest_def CreateImageConfigTupleAndImageManifestTuple_def CreateImageConfigTuple_def
      CreateImageManifestTuple_def bind_res_Ok_iff Let_def addressed_def dest!: createDescriptor_addressed)

text \<open>The image manifest of a platform, with everything it refers to, is in the store.\<close>

definition inStore :: "codec \<Rightarrow> ('m \<Rightarrow> string \<Rightarrow> reader option) \<Rightarrow> 'm \<Rightarrow> DescriptorBlobTuple \<Rightarrow> bool" where
  "inStore c blobs m u \<longleftrightarrow> addressed c u \<and> blobs m (desc_Digest (dbt_Desc u)) = Some (dbt_Blob u)"

definition platformStored ::
  "codec \<Rightarrow> ('m \<Rightarrow> string \<Rightarrow> reader option) \<Rightarrow> 'm \<Rightarrow> string \<Rightarrow> DescriptorBlobTuple \<Rightarrow> string \<times> DescriptorBlobTuple list \<Rightarrow>
   DescriptorBlobTuple \<Rightarrow> bool" where
  "platformStored c blobs m author uc = (\<lambda>(key, ts) im.
     \<exists>cfg p. ToOCIPlatform key = Ok p \<and> dbt_Platform im = Some p
       \<and> dbt_Blob im = RawReader (Doc (eImageManifest (dbt_Desc cfg) (dbt_Desc uc # map dbt_Desc ts)))
       \<and> dbt_Blob cfg = RawReader (Doc (eImageConfig (nowUTC c) author p))
       \<and> desc_MediaType (dbt_Desc im) = MediaTypeImageManifest \<and> wfDesc (dbt_Desc im) \<and> wfDesc (dbt_Desc cfg)
       \<and> list_all (inStore c blobs m) (cfg # im # ts))"

lemma inStore_grows: "storeGrows c blobs tags m m' \<Longrightarrow> inStore c blobs m u \<Longrightarrow> inStore c blobs m' u"
  by (auto simp: storeGrows_def inStore_def addressed_def)

lemma platformStored_grows:
  "storeGrows c blobs tags m m' \<Longrightarrow> platformStored c blobs m author uc x im \<Longrightarrow> platformStored c blobs m' author uc x im"
proof (cases x)
  case (Pair key ts)
  assume g: "storeGrows c blobs tags m m'" and "platformStored c blobs m author uc x im"
  then obtain cfg p where p: "ToOCIPlatform key = Ok p" "dbt_Platform im = Some p"
    "dbt_Blob im = RawReader (Doc (eImageManifest (dbt_Desc cfg) (dbt_Desc uc # map dbt_Desc ts)))
       \<and> dbt_Blob cfg = RawReader (Doc (eImageConfig (nowUTC c) author p))
       \<and> desc_MediaType (dbt_Desc im) = MediaTypeImageManifest \<and> wfDesc (dbt_Desc im) \<and> wfDesc (dbt_Desc cfg)"
    "list_all (inStore c blobs m) (cfg # im # ts)"
    using Pair by (auto simp: platformStored_def)
  have "list_all (inStore c blobs m') (cfg # im # ts)"
    using p(4) inStore_grows [OF g] by (auto simp: list_all_iff)
  with p(1-3) Pair show ?thesis unfolding platformStored_def by auto
qed

lemma PushAll_inStore:
  assumes "content_store t blobs tags" and "inj (FromBytes c)" and "PushAll t us m = (Ok (), m')" and "list_all (addressed c) us"
  shows "storeGrows c blobs tags m m' \<and> list_all (inStore c blobs m') us"
  using keeps_run [OF keeps_PushAll [OF assms(1,2,4)] assms(3)] PushAll_stores [OF assms] assms(4)
  by (auto simp: inStore_def list_all_iff)

lemma onStore_run: "onStore k (r, m) = (fst (k m), (r, snd (k m)))"
  by (simp add: onStore_def onPart_def split: prod.splits)

lemma onStore_OkE:
  assumes "onStore k s = (Ok x, s')"
  obtains m' where "k (snd s) = (Ok x, m')" and "s' = (fst s, m')"
  using assms by (cases s) (auto simp: onStore_run prod_eq_iff)

lemma ignoreStore_OkE:
  assumes "ignoreM (onStore k) s = (Ok x, s')"
  obtains m' where "snd (k (snd s)) = m'" and "s' = (fst s, m')"
  using assms snd_ignoreM [of "onStore k" s] by (cases s) (auto simp: onStore_run)

lemma buildPlatform_Ok:
  assumes store: "content_store t blobs tags" and inj: "inj (FromBytes c)" and uc: "UcManifestTuple r = Some uc"
    and ts: "layersFor r key = ts" "list_all (addressed c) ts" and run: "buildPlatform c t (key, ts) (r, m) = (Ok (), s')"
  shows "\<exists>im. fst s' = r\<lparr>ImageManifestTuples := ImageManifestTuples r @ [im]\<rparr> \<and> storeGrows c blobs tags m (snd s')
    \<and> platformStored c blobs (snd s') (gb_author r) uc (key, ts) im"
proof -
  from run obtain cfg im r' m1 m2 m3 where ap: "AppendImageManifest c key r = Ok ((cfg, im), r')"
    and p1: "PushAll t ts m = (Ok (), m1)" and p2: "PushAll t [cfg] m1 = (Ok (), m2)" and p3: "PushAll t [im] m2 = (Ok (), m3)"
    and s': "s' = (r', m3)"
    unfolding buildPlatform_def by (auto elim!: tryM_OkE onStore_OkE split: res.splits)
  note a = AppendImageManifest_Ok [OF ap uc]
  have 1: "storeGrows c blobs tags m m1" "list_all (inStore c blobs m1) ts"
    using PushAll_inStore [OF store inj p1 ts(2)] by simp_all
  have 2: "storeGrows c blobs tags m1 m2" "inStore c blobs m2 cfg" using PushAll_inStore [OF store inj p2] a by simp_all
  have 3: "storeGrows c blobs tags m2 m3" "inStore c blobs m3 im" using PushAll_inStore [OF store inj p3] a by simp_all
  have g: "storeGrows c blobs tags m1 m3" using 2(1) 3(1) by (rule grows.R_trans)
  have g0: "storeGrows c blobs tags m m3" using 1(1) g by (rule grows.R_trans)
  have "list_all (inStore c blobs m3) (cfg # im # ts)"
    using 1(2) 2(2) 3 inStore_grows [OF g] inStore_grows [OF 3(1)] by (auto simp: list_all_iff)
  then have "platformStored c blobs m3 (gb_author r) uc (key, ts) im" using a ts(1) by (auto simp: platformStored_def)
  then show ?thesis using a g0 s' by auto
qed

lemma buildPlatforms_Ok:
  assumes store: "content_store t blobs tags" and inj: "inj (FromBytes c)"
  shows "UcManifestTuple r = Some uc \<Longrightarrow> list_all (\<lambda>(key, ts). layersFor r key = ts \<and> list_all (addressed c) ts) xs \<Longrightarrow>
    eachM (buildPlatform c t) xs (r, m) = (Ok (), s') \<Longrightarrow>
    \<exists>ims. fst s' = r\<lparr>ImageManifestTuples := ImageManifestTuples r @ ims\<rparr> \<and> storeGrows c blobs tags m (snd s')
      \<and> list_all2 (platformStored c blobs (snd s') (gb_author r) uc) xs ims"
proof (induction xs arbitrary: r m)
  case Nil
  then show ?case by (auto simp: grows.R_refl)
next
  case (Cons x xs)
  obtain key ts where x: "x = (key, ts)" by (cases x)
  from Cons.prems(3) x obtain s1 where one: "buildPlatform c t (key, ts) (r, m) = (Ok (), s1)"
    and rest: "eachM (buildPlatform c t) xs s1 = (Ok (), s')" by (auto elim!: tryM_OkE)
  from buildPlatform_Ok [OF store inj Cons.prems(1) _ _ one] Cons.prems(2) x
  obtain im where im: "fst s1 = r\<lparr>ImageManifestTuples := ImageManifestTuples r @ [im]\<rparr>" "storeGrows c blobs tags m (snd s1)"
    "platformStored c blobs (snd s1) (gb_author r) uc (key, ts) im" by auto
  have l: "layersFor (fst s1) k = layersFor r k" for k using im(1) by (simp add: layersFor_def)
  have "\<exists>ims. fst s' = (fst s1)\<lparr>ImageManifestTuples := ImageManifestTuples (fst s1) @ ims\<rparr>
      \<and> storeGrows c blobs tags (snd s1) (snd s') \<and> list_all2 (platformStored c blobs (snd s') (gb_author r) uc) xs ims"
    using Cons.IH [of "fst s1" "snd s1"] Cons.prems(1,2) im(1) rest l by (cases s1) (simp add: split_def)
  then obtain ims where ims: "fst s' = (fst s1)\<lparr>ImageManifestTuples := ImageManifestTuples (fst s1) @ ims\<rparr>"
    "storeGrows c blobs tags (snd s1) (snd s')" "list_all2 (platformStored c blobs (snd s') (gb_author r) uc) xs ims" by blast
  have "platformStored c blobs (snd s') (gb_author r) uc x im" using platformStored_grows [OF ims(2) im(3)] x by simp
  then show ?case
    using ims im(1,2) grows.R_trans [OF im(2) ims(2)] by (intro exI [of _ "im # ims"]) simp
qed

lemma built_package:
  assumes "content_store t blobs tags" and "inj (FromBytes c)" and "UcManifestTuple r = Some uc" and "addressed c uc"
    and "ImageManifestTuples r = []" and "distinct (map fst (DockerImages r))"
    and "list_all (\<lambda>(_, ts). list_all (addressed c) ts) (DockerImages r)"
    and "BuildAndTag c t (r, m0) = (Ok (), (r', m))"
  shows "\<exists>index ims. tags m (gb_Tag r) = Some (dbt_Desc index) \<and> desc_MediaType (dbt_Desc index) = MediaTypeImageIndex
    \<and> dbt_Blob index = RawReader (Doc (eIndex (map (\<lambda>im. (dbt_Desc im, dbt_Platform im)) ims)))
    \<and> list_all2 (platformStored c blobs m (gb_author r) uc) (DockerImages r) ims \<and> list_all (inStore c blobs m) [index, uc]"
proof -
  let ?m0 = "memoryNew t"
  from assms(8,3) obtain m1 s2 idx m3 where p1: "PushAll t [uc] ?m0 = (Ok (), m1)"
    and loop: "eachM (buildPlatform c t) (DockerImages r) (r, m1) = (Ok (), s2)"
    and idx: "CreateImageIndexTuple c (ImageManifestTuples (fst s2)) = Ok idx"
    and pi: "snd (PushAll t [idx] (snd s2)) = m3"
    and tag: "tgt_Tag t (dbt_Desc idx) (gb_Tag (fst s2)) m3 = (Ok (), m)"
    unfolding BuildAndTag_def
    by (auto elim!: tryM_OkE onStore_OkE ignoreStore_OkE split: option.splits)
  have 1: "inStore c blobs m1 uc" using PushAll_inStore [OF assms(1,2) p1] assms(4) by simp
  have "list_all (\<lambda>(key, ts). layersFor r key = ts \<and> list_all (addressed c) ts) (DockerImages r)"
    using assms(6,7) by (auto simp: list_all_iff layersFor_def)
  from buildPlatforms_Ok [OF assms(1,2,3) this loop] obtain ims
    where 2: "fst s2 = r\<lparr>ImageManifestTuples := ims\<rparr>" "storeGrows c blobs tags m1 (snd s2)"
      "list_all2 (platformStored c blobs (snd s2) (gb_author r) uc) (DockerImages r) ims" using assms(5) by auto
  let ?doc = "RawReader (Doc (eIndex (map (\<lambda>im. (dbt_Desc im, dbt_Platform im)) ims)))"
  have i: "dbt_Blob idx = ?doc" "addressed c idx" "desc_MediaType (dbt_Desc idx) = MediaTypeImageIndex"
    using idx 2(1)
    by (auto simp: CreateImageIndexTuple_def Let_def bind_res_Ok_iff addressed_def dest!: createDescriptor_addressed)
  have 3: "storeGrows c blobs tags (snd s2) m3"
    using keepsD [OF keeps_PushAll [OF assms(1,2)], of "[idx]" "snd s2"] i(2) pi by simp
  note tg = store_tag [OF assms(1) tag]
  have 0: "storeGrows c blobs tags ?m0 m1" using PushAll_inStore [OF assms(1,2) p1] assms(4) by simp
  have "storeGrows c blobs tags ?m0 m3" using grows.R_trans [OF 0 grows.R_trans [OF 2(2) 3]] .
  then have own: "FromBytes c b = h" if "blobs m3 h = Some b" for h b
    using that store_read(4) [OF assms(1)] by (auto simp: storeGrows_def)
  have at: "inStore c blobs m idx"
    using tg own i(1,2) injD [OF assms(2)] by (auto simp: addressed_def inStore_def)
  have same: "inStore c blobs m = inStore c blobs m3" using tg by (simp add: inStore_def fun_eq_iff)
  have "list_all2 (platformStored c blobs m (gb_author r) uc) (DockerImages r) ims"
  proof (rule list_all2_mono [OF 2(3)])
    fix x im
    assume "platformStored c blobs (snd s2) (gb_author r) uc x im"
    from platformStored_grows [OF 3 this] show "platformStored c blobs m (gb_author r) uc x im" using same by (simp add: platformStored_def)
  qed
  moreover have "inStore c blobs m uc" using inStore_grows [OF 3 inStore_grows [OF 2(2) 1]] same by simp
  moreover have "tags m (gb_Tag r) = Some (dbt_Desc idx)" using tg 2(1) by simp
  ultimately show ?thesis using at i(1,3) by (intro exI [of _ idx] exI [of _ ims]) simp
qed

text \<open>
  A package that the builder has built and tagged is complete: its tag leads to an image index with one
  entry per platform, in the order of the platforms; every entry leads to an image manifest whose layers are the
  add-on manifest and the Docker images of that platform, in order; and every blob these refer to is stored.
\<close>

theorem built_package_is_complete:
  assumes "content_store t blobs tags" and "inj (FromBytes c)" and "UcManifestTuple r = Some uc" and "addressed c uc"
    and "ImageManifestTuples r = []" and "distinct (map fst (DockerImages r))"
    and "list_all (\<lambda>(_, ts). list_all (addressed c) ts) (DockerImages r)"
    and "BuildAndTag c t (r, m0) = (Ok (), (r', m))"
  shows "\<exists>index ims. tags m (gb_Tag r) = Some (dbt_Desc index) \<and> desc_MediaType (dbt_Desc index) = MediaTypeImageIndex
    \<and> dbt_Blob index = RawReader (Doc (eIndex (map (\<lambda>im. (dbt_Desc im, dbt_Platform im)) ims)))
    \<and> list_all2 (platformStored c blobs m (gb_author r) uc) (DockerImages r) ims \<and> list_all (inStore c blobs m) [index, uc]"
  using assms by (rule built_package)

section \<open>A store and digests without collisions\<close>

text \<open>To run the builder on: a store of two maps, and as digest a numbering of all blobs.\<close>

instance json :: countable
  by countable_datatype

instance content :: countable
  by countable_datatype

instance ManifestLayerContent_ext :: (countable) countable
proof (intro_classes, intro exI [of _ "\<lambda>r. to_nat (mlc_Manifest r, mlc_Logo r, mlc_LogoName r, ManifestLayerContent.more r)"])
  show "inj (\<lambda>r :: 'a ManifestLayerContent_scheme. to_nat (mlc_Manifest r, mlc_Logo r, mlc_LogoName r, ManifestLayerContent.more r))"
    by (rule injI) simp
qed

instance reader :: countable
  by countable_datatype

definition numberingCodec :: codec where
  "numberingCodec = \<lparr>FromBytes = (\<lambda>b. replicate (to_nat b) (CHR ''x'')), blobLen = (\<lambda>_. 1), nowUTC = []\<rparr>"

lemma inj_numbering: "inj (FromBytes numberingCodec)"
proof (rule injI)
  fix a b :: reader
  assume "FromBytes numberingCodec a = FromBytes numberingCodec b"
  then have "to_nat a = to_nat b" unfolding numberingCodec_def by (metis codec.select_convs(1) length_replicate)
  then show "a = b" by simp
qed

type_synonym mapStore = "(string \<Rightarrow> reader option) \<times> (string \<Rightarrow> Descriptor option)"

definition mapTarget :: "mapStore Target" where
  "mapTarget =
     \<lparr>tgt_Push = (\<lambda>d b (bs, ts). (Ok (), (bs(desc_Digest d \<mapsto> b), ts))),
      tgt_Tag = (\<lambda>d n (bs, ts). if bs (desc_Digest d) = None then (Err errNotFound, (bs, ts)) else (Ok (), (bs, ts(n \<mapsto> d)))),
      tgt_Resolve = (\<lambda>n m. (case snd m n of Some d \<Rightarrow> Ok d | None \<Rightarrow> Err errNotFound, m)),
      tgt_Fetch = (\<lambda>d m. (case fst m (desc_Digest d) of Some b \<Rightarrow> Ok b | None \<Rightarrow> Err errNotFound, m)),
      tgt_Exists = (\<lambda>d m. (Ok (fst m (desc_Digest d) \<noteq> None), m)),
      memoryNew = (Map.empty, Map.empty)\<rparr>"

lemma content_mapTarget: "content_store mapTarget fst snd"
  by (auto simp: content_store_def mapTarget_def split: if_splits)

lemma mapTarget_builds:
  assumes "UcManifestTuple r = Some uc" and "ImageManifestTuples r = []" and "DockerImages r = [(key, [im])]"
    and "ToOCIPlatform key = Ok p"
  shows "\<exists>r' m d. BuildAndTag c mapTarget (r, m0) = (Ok (), (r', m)) \<and> snd m (gb_Tag r) = Some d"
  using assms
  by (simp add: BuildAndTag_def buildPlatform_def PushAll_def mapTarget_def AppendImageManifest_def layersFor_def
      CreateImageConfigTupleAndImageManifestTuple_def CreateImageConfigTuple_def CreateImageManifestTuple_def
      createDescriptorFromBlob_def CreateImageIndexTuple_def tryM_def onStore_run ignoreM_def attemptM_def Let_def split_def)

definition samplePlatform :: Platform where
  "samplePlatform = \<lparr>plat_OS = ''linux'', plat_Architecture = ''arm64'', plat_Variant = []\<rparr>"

definition sampleBuilder :: "GraphBuilder res" where
  "sampleBuilder =
     bind_res (AppendUcManifest numberingCodec (RawReader (Text ''manifest'')) [AnnotationTitle, ''app''] (NewGraphBuilder ''1.0''))
       (\<lambda>r. AppendDockerImage numberingCodec (RawReader (Text ''image'')) samplePlatform [] r)"

theorem built_package_is_complete_witness:
  "\<exists>r index. sampleBuilder = Ok r \<and> snd (snd (snd (BuildAndTag numberingCodec mapTarget (r, memoryNew mapTarget)))) ''1.0'' = Some index
     \<and> desc_MediaType index = MediaTypeImageIndex"
proof -
  let ?c = numberingCodec and ?t = mapTarget
  obtain r uc im where r: "sampleBuilder = Ok r" "UcManifestTuple r = Some uc" "addressed ?c uc" "gb_Tag r = ''1.0''"
    "ImageManifestTuples r = []" "DockerImages r = [(FromOCIPlatform samplePlatform, [im])]" "addressed ?c im"
    by (simp add: sampleBuilder_def AppendUcManifest_def AppendDockerImage_def createDescriptorFromBlob_def NewGraphBuilder_def
        layersFor_def addressed_def)
  have p: "ToOCIPlatform (FromOCIPlatform samplePlatform) = Ok samplePlatform" by code_simp
  obtain r' m where run: "BuildAndTag ?c ?t (r, memoryNew ?t) = (Ok (), (r', m))"
    using mapTarget_builds [OF r(2,5,6) p] by blast
  from built_package_is_complete [OF content_mapTarget inj_numbering r(2,3,5) _ _ run] r(1,4,6,7) run
  show ?thesis by auto
qed

end
