(* ===== verification/Packager.thy ===== *)
theory Packager
  imports Archive GraphBuilder
begin

text \<open>
  The packager \<^verbatim>\<open>uc-aop\<close>: \<^verbatim>\<open>internal/aop/credentials\<close>, \<^verbatim>\<open>manifest\<close>, \<^verbatim>\<open>company\<close>, \<^verbatim>\<open>registry\<close> and \<^verbatim>\<open>packager\<close>, and the
  command \<^verbatim>\<open>push\<close>. A package is made of a directory with a manifest and a logo and of the Docker images the
  manifest refers to, and is copied to the repository of the add-on.

  The state of a command is the file system and the registries it talks to. Parameters are the registry client
  (package \<^verbatim>\<open>oras\<close>), the export of a Docker image by \<^verbatim>\<open>containerd\<close>, the archive formats, the JSON schema and
  what the linker and the environment set (version, build time, default registry).
\<close>

section \<open>credentials.go\<close>

record PackagerCredentials =
  cr_Username :: string
  cr_Password :: string
  cr_RepositoryName :: string
  cr_ServerAddress :: string

type_synonym ValidationOpt = "PackagerCredentials \<Rightarrow> unit res"

definition RepositoryNameSet :: ValidationOpt where
  "RepositoryNameSet c =
     (if cr_RepositoryName c = [] then Err (ErrorString ''repositoryname not set'') else Ok ())"

definition ServerAddressSet :: ValidationOpt where
  "ServerAddressSet c =
     (if cr_ServerAddress c = [] then Err (ErrorString ''serveraddress not set'') else Ok ())"

definition cr_IsInsecureServer :: "PackagerCredentials \<Rightarrow> bool" where
  "cr_IsInsecureServer c \<longleftrightarrow> cr_Username c = [] \<and> cr_Password c = []"

definition dCredentials :: "json \<Rightarrow> PackagerCredentials res" where
  "dCredentials j =
     bind_res (dStruct j) (\<lambda>m.
     bind_res (dStr (member m ''username'')) (\<lambda>u.
     bind_res (dStr (member m ''password'')) (\<lambda>p.
     bind_res (dStr (member m ''repositoryname'')) (\<lambda>r.
     bind_res (dStr (member m ''serveraddress'')) (\<lambda>s.
     Ok \<lparr>cr_Username = u, cr_Password = p, cr_RepositoryName = r, cr_ServerAddress = s\<rparr>)))))"

definition cr_parse :: "path \<Rightarrow> (FS, PackagerCredentials) go" where
  "cr_parse filepath =
     tryM (osReadFile filepath) (\<lambda>content.
     liftR (bind_res (contentJson content) dCredentials))"

fun cr_options :: "ValidationOpt list \<Rightarrow> PackagerCredentials \<Rightarrow> unit res" where
  "cr_options [] c = Ok ()"
| "cr_options (opt # opts) c = bind_res (opt c) (\<lambda>_. cr_options opts c)"

definition cr_validate :: "ValidationOpt list \<Rightarrow> PackagerCredentials \<Rightarrow> unit res" where
  "cr_validate opts c =
     bind_res (cr_options opts c) (\<lambda>_.
     if cr_Username c = [] then
       (if cr_Password c = [] then Ok ()
        else Err (ErrorString ''username not set although password provided''))
     else if cr_Password c = [] then Err (ErrorString ''password not set although username provided'')
     else Ok ())"

definition cr_ParseAndValidate :: "path \<Rightarrow> ValidationOpt list \<Rightarrow> (FS, PackagerCredentials) go" where
  "cr_ParseAndValidate filepath opts =
     tryM (cr_parse filepath) (\<lambda>c.
     tryM (liftR (cr_validate opts c)) (\<lambda>_. ret c))"

definition SetRegistryServerAddress :: "string \<Rightarrow> PackagerCredentials \<Rightarrow> PackagerCredentials" where
  "SetRegistryServerAddress REGISTRY_ADDRESS c =
     (if cr_ServerAddress c = [] then c\<lparr>cr_ServerAddress := REGISTRY_ADDRESS\<rparr> else c)"

section \<open>add\_on\_manifest.go\<close>

record AddOnManifest =
  am_Root :: Root
  am_manifestDirPath :: path

definition getRawManifest :: "path \<Rightarrow> (FS, content) go" where
  "getRawManifest baseManifestPath = osReadFile (joinPath baseManifestPath UcImageManifestFilename)"

definition updateManifestFileContent :: "path \<Rightarrow> content \<Rightarrow> (FS, unit) go" where
  "updateManifestFileContent manifestPath manifestContent =
     osWriteFile (joinPath manifestPath UcImageManifestFilename) manifestContent"

definition MigrateManifestFile :: "path \<Rightarrow> (FS, unit) go" where
  "MigrateManifestFile dirpath =
     tryM (getRawManifest dirpath) (\<lambda>content.
     tryM (liftR (contentJson content)) (\<lambda>rawManifest.
     tryM (liftR (UnmarshalManifestVersionFrom rawManifest)) (\<lambda>manifestVersion.
     tryM (liftR (MigrateUcManifest manifestVersion rawManifest)) (\<lambda>migratedManifest.
     updateManifestFileContent dirpath (Doc migratedManifest)))))"

text \<open>Only the error \<^verbatim>\<open>os.ErrNotExist\<close> counts.\<close>

definition validateAssets :: "AddOnManifest \<Rightarrow> (FS, unit) go" where
  "validateAssets r =
     (let logoPath = joinPath (am_manifestDirPath r) (Logo (am_Root r))
      in tryM (attemptM (osStat logoPath)) (\<lambda>x.
         case x of
           Inl (ErrNotExist _) \<Rightarrow> fail (ErrorString (''Logo file '' @ CHR 0x27 # showPath logoPath @ CHR 0x27 # '' does not exist''))
         | _ \<Rightarrow> ret ()))"

definition am_ParseAndValidate :: "(json \<Rightarrow> string option) \<Rightarrow> path \<Rightarrow> (FS, AddOnManifest) go" where
  "am_ParseAndValidate schema dirpath =
     tryM (ReadManifestFrom dirpath) (\<lambda>root.
     tryM (liftR (Validate schema root)) (\<lambda>_.
     let addOnManifest = \<lparr>am_Root = root, am_manifestDirPath = dirpath\<rparr>
     in tryM (validateAssets addOnManifest) (\<lambda>_. ret addOnManifest)))"

section \<open>build\_info.go\<close>

text \<open>The two bytes of the letter u with diaeresis in UTF-8.\<close>

definition AuthorName :: string where
  "AuthorName = ''Weidm'' @ [CHR 0xC3, CHR 0xBC] @ ''ller Interface GmbH & Co. KG''"

definition company_Version :: "string \<Rightarrow> string" where
  "company_Version version = (if version = [] then ''v0.0.0'' else version)"

definition company_BuildTime :: "string \<Rightarrow> string \<Rightarrow> string" where
  "company_BuildTime now buildtime = (if buildtime = [] then now else buildtime)"

definition ShortAuthorInfo :: "string \<Rightarrow> string \<Rightarrow> string \<Rightarrow> string" where
  "ShortAuthorInfo now version buildtime =
     AuthorName @ ''. UC-AOM PACKAGER '' @ company_Version version @ '' ('' @ company_BuildTime now buildtime @ '')''"

section \<open>package\_creator.go\<close>

text \<open>
  The index entries of a Docker image, with the platform as the builder needs it. An entry without a platform is a
  nil dereference in \<open>isAttestationManifest\<close>.
\<close>

definition dOciPlatform :: "json \<Rightarrow> Platform res" where
  "dOciPlatform j =
     bind_res (dStruct j) (\<lambda>m.
     bind_res (dStr (member m ''architecture'')) (\<lambda>a.
     bind_res (dStr (member m ''os'')) (\<lambda>s.
     bind_res (dStr (member m ''variant'')) (\<lambda>v.
     Ok \<lparr>plat_OS = s, plat_Architecture = a, plat_Variant = v\<rparr>))))"

definition dManifestPlatform :: "json \<Rightarrow> Platform option res" where
  "dManifestPlatform j =
     bind_res (dDescriptor j) (\<lambda>_.
     bind_res (dStruct j) (\<lambda>m. dPtr dOciPlatform (member m ''platform'')))"

definition dIndexPlatforms :: "json \<Rightarrow> Platform option list res" where
  "dIndexPlatforms j =
     bind_res (dStruct j) (\<lambda>m. dList dManifestPlatform (member m ''manifests''))"

definition isAttestationManifest :: "Platform \<Rightarrow> bool" where
  "isAttestationManifest platform \<longleftrightarrow>
     Contains (plat_Architecture platform) ''unknown'' \<and> Contains (plat_OS platform) ''unknown''"

fun supportedPlatforms :: "Platform option list \<Rightarrow> Platform list res" where
  "supportedPlatforms [] = Ok []"
| "supportedPlatforms (None # ps) = Panic ''invalid memory address or nil pointer dereference''"
| "supportedPlatforms (Some p # ps) =
     (if isAttestationManifest p then supportedPlatforms ps
      else bind_res (supportedPlatforms ps) (\<lambda>qs. Ok (p # qs)))"

definition ToRepositoryAndTag :: "string \<Rightarrow> (string \<times> string) res" where
  "ToRepositoryAndTag ref =
     (case Split ref (CHR '':'') of
        repository # tag # _ \<Rightarrow> Ok (repository, tag)
      | _ \<Rightarrow> Err (ErrorString (''Could not find tag: '' @ ref)))"

type_synonym 's ociRegistry = "string \<Rightarrow> ('s, 's OrasRepository) go"

definition getSupportedPlatforms :: "'s ociRegistry \<Rightarrow> string \<Rightarrow> ('s, Platform list) go" where
  "getSupportedPlatforms reg ref =
     tryM (liftR (ToRepositoryAndTag ref)) (\<lambda>(repository, tag).
     tryM (wrapErr ''[Repository] Unexpected error = '' [] (reg repository)) (\<lambda>ociRepository.
     tryM (wrapErr ''[Resolve] Unexpected error = '' [] (repo_Resolve ociRepository tag)) (\<lambda>desc.
     tryM (wrapErr ''[Fetch] Unexpected error = '' [] (repo_Fetch ociRepository desc)) (\<lambda>rc.
     tryM (wrapErr ''[Unmarshal] Unexpected error = '' []
       (liftR (bind_res (case rc of RawReader c \<Rightarrow> contentJson c | ManifestReader _ \<Rightarrow> unmarshalTypeError) dIndexPlatforms)))
       (\<lambda>manifests. liftR (supportedPlatforms manifests))))))"

record ('s, 'm) PackageCreator =
  exportDockerImageFunc :: "string \<Rightarrow> Platform \<Rightarrow> ('s, content option) go"
  pc_archiver :: archiver
  pc_codec :: codec
  pc_memory :: "'m Target"
  pc_author :: string

text \<open>The file names the layer is made of; \<open>logoBaseName\<close> is the logo of the manifest.\<close>

definition pc_predicate :: "string \<Rightarrow> path \<Rightarrow> bool" where
  "pc_predicate logoBaseName p \<longleftrightarrow> (let base = last p in base = UcImageManifestFilename \<or> base = logoBaseName)"

definition appendManifestAndLogo ::
  "('s, 'm) PackageCreator \<Rightarrow> string \<Rightarrow> path \<Rightarrow> string list \<Rightarrow> GraphBuilder \<Rightarrow> (FS, GraphBuilder) go" where
  "appendManifestAndLogo r logoBaseName contentDirPath annotations builder =
     tryM (GzipTarball (pc_archiver r) contentDirPath (pc_predicate logoBaseName)) (\<lambda>tarGzipBytes.
     liftR (AppendUcManifest (pc_codec r) (RawReader tarGzipBytes) annotations builder))"

text \<open>An export without bytes ends the whole loop without an error; the flag says so.\<close>

fun appendPlatforms ::
  "('s, 'm) PackageCreator \<Rightarrow> string \<Rightarrow> Platform list \<Rightarrow> GraphBuilder \<Rightarrow> ('s, GraphBuilder \<times> bool) go" where
  "appendPlatforms r ref [] builder = ret (builder, False)"
| "appendPlatforms r ref (platform # platforms) builder =
     tryM (exportDockerImageFunc r ref platform) (\<lambda>ociTarballBytes.
     case ociTarballBytes of
       None \<Rightarrow> ret (builder, True)
     | Some bytes \<Rightarrow>
         tryM (liftR (AppendDockerImage (pc_codec r) (RawReader bytes) platform [AnnotationTitle, ref] builder)) (\<lambda>builder'.
         appendPlatforms r ref platforms builder'))"

fun appendDockerImages ::
  "('s, 'm) PackageCreator \<Rightarrow> 's ociRegistry \<Rightarrow> string list \<Rightarrow> GraphBuilder \<Rightarrow> ('s, GraphBuilder) go" where
  "appendDockerImages r reg [] builder = ret builder"
| "appendDockerImages r reg (ref # dockerImageRefs) builder =
     tryM (getSupportedPlatforms reg ref) (\<lambda>platforms.
     if platforms = [] then fail (ErrorString ''A multi-platform image build is required'')
     else
       tryM (appendPlatforms r ref platforms builder) (\<lambda>(builder', stop).
       if stop then ret builder' else appendDockerImages r reg dockerImageRefs builder'))"

record 's packState =
  ps_files :: FS
  ps_registries :: 's

definition onPackFiles :: "(FS, 'a) go \<Rightarrow> ('s packState, 'a) go" where
  "onPackFiles k = onPart ps_files (\<lambda>x s. s\<lparr>ps_files := x\<rparr>) k"

definition onRegistries :: "('s, 'a) go \<Rightarrow> ('s packState, 'a) go" where
  "onRegistries k = onPart ps_registries (\<lambda>x s. s\<lparr>ps_registries := x\<rparr>) k"

record 'm TargetDecorator =
  decorate :: 'm
  AddOnVersion :: string

text \<open>
  The result of a failed \<^verbatim>\<open>BuildAndTag\<close> is a nil target without an error: the error of the inner scope is not the
  one that is returned.
\<close>

definition CreateOciArtifact ::
  "('s, 'm) PackageCreator \<Rightarrow> AddOnManifest \<Rightarrow> 's ociRegistry \<Rightarrow> ('s packState, 'm TargetDecorator option) go" where
  "CreateOciArtifact r manifest reg =
     (let root = am_Root manifest; builder = WithAuthor (pc_author r) (NewGraphBuilder (root_Version root));
          annotations = CreateUcManifestAnnotationsV1_0 (root_Version root) (ManifestVersion root)
      in tryM (onPackFiles (appendManifestAndLogo r (Logo root) (am_manifestDirPath manifest) annotations builder)) (\<lambda>builder.
         tryM (onRegistries (appendDockerImages r reg (GetDockerImageReferences (Services root)) builder)) (\<lambda>builder.
         case BuildAndTag (pc_codec r) (pc_memory r) (builder, memoryNew (pc_memory r)) of
           (Ok _, (_, orasTarget)) \<Rightarrow> ret (Some \<lparr>decorate = orasTarget, AddOnVersion = root_Version root\<rparr>)
         | (Err _, _) \<Rightarrow> ret None
         | (Panic p, _) \<Rightarrow> panicM p)))"

section \<open>push.go\<close>

text \<open>The regular expression \<^verbatim>\<open>^.+\.(jpg|png|jpeg|svg)$\<close>; the dot does not match a line feed.\<close>

definition isLogoName :: "string \<Rightarrow> bool" where
  "isLogoName fileName \<longleftrightarrow>
     list_ex (\<lambda>ext. length ext < length fileName \<and> drop (length fileName - length ext) fileName = ext \<and>
         CHR 0x0A \<notin> set (take (length fileName - length ext) fileName))
       [''.jpg'', ''.png'', ''.jpeg'', ''.svg'']"

definition filterAppFilesFunc :: "string \<Rightarrow> bool" where
  "filterAppFilesFunc fileName \<longleftrightarrow> fileName = UcImageManifestFilename \<or> isLogoName fileName"

text \<open>
  The client \<^verbatim>\<open>remote.Registry\<close> of the package \<^verbatim>\<open>oras\<close>, from server address, user, password and the flag for plain
  HTTP, after its \<^verbatim>\<open>Ping\<close>; \<^verbatim>\<open>oras.Copy\<close> from the store of the package to a repository.
\<close>

record ('s, 'm) pushEnv =
  env_newRegistry :: "string \<Rightarrow> string \<Rightarrow> string \<Rightarrow> bool \<Rightarrow> ('s, 's ociRegistry) go"
  env_copy :: "'m \<Rightarrow> string \<Rightarrow> 's OrasRepository \<Rightarrow> ('s, Descriptor) go"
  env_creator :: "('s, 'm) PackageCreator"
  env_schema :: "json \<Rightarrow> string option"
  env_tempName :: "FS \<Rightarrow> path"
  env_REGISTRY_ADDRESS :: string

definition InitializeRegistry ::
  "(string \<Rightarrow> string \<Rightarrow> string \<Rightarrow> bool \<Rightarrow> ('s, 's ociRegistry) go) \<Rightarrow> PackagerCredentials \<Rightarrow> ('s, 's ociRegistry) go" where
  "InitializeRegistry newRegistry c =
     newRegistry (cr_ServerAddress c) (cr_Username c) (cr_Password c) (cr_IsInsecureServer c)"

text \<open>\<^verbatim>\<open>registry.Copy\<close> asks the artifact for its version, which is a nil dereference if there is none.\<close>

definition registry_Copy ::
  "('s, 'm) pushEnv \<Rightarrow> 'm TargetDecorator option \<Rightarrow> 's OrasRepository \<Rightarrow> ('s, Descriptor) go" where
  "registry_Copy env source destination =
     (case source of
        None \<Rightarrow> panicM ''invalid memory address or nil pointer dereference''
      | Some t \<Rightarrow> env_copy env (decorate t) (AddOnVersion t) destination)"

definition pushFrom ::
  "('s, 'm) pushEnv \<Rightarrow> path \<Rightarrow> 's ociRegistry \<Rightarrow> 's OrasRepository \<Rightarrow> path \<Rightarrow> ('s packState, unit) go" where
  "pushFrom env contentDirpath source repo workDir =
     tryM (onPackFiles (CopyFiles contentDirpath workDir filterAppFilesFunc)) (\<lambda>_.
     tryM (onPackFiles (MigrateManifestFile workDir)) (\<lambda>_.
     tryM (onPackFiles (am_ParseAndValidate (env_schema env) workDir)) (\<lambda>addOnManifest.
     tryM (CreateOciArtifact (env_creator env) addOnManifest source) (\<lambda>artifact.
     tryM (onRegistries (registry_Copy env artifact repo)) (\<lambda>_. ret ())))))"

definition executePushCommand :: "('s, 'm) pushEnv \<Rightarrow> path \<Rightarrow> path \<Rightarrow> path \<Rightarrow> ('s packState, unit) go" where
  "executePushCommand env sourceCredentialsFilepath targetCredentialsFilepath contentDirpath =
     tryM (onPackFiles (cr_ParseAndValidate sourceCredentialsFilepath [ServerAddressSet])) (\<lambda>sourceCredentials.
     tryM (onPackFiles (cr_ParseAndValidate targetCredentialsFilepath [RepositoryNameSet])) (\<lambda>credentials.
     let targetCredentials = SetRegistryServerAddress (env_REGISTRY_ADDRESS env) credentials
     in tryM (onRegistries (InitializeRegistry (env_newRegistry env) sourceCredentials)) (\<lambda>source.
        tryM (onRegistries (InitializeRegistry (env_newRegistry env) targetCredentials)) (\<lambda>target.
        tryM (onRegistries (target (cr_RepositoryName targetCredentials))) (\<lambda>repo.
        tryM (onPackFiles (mkdirTemp (env_tempName env))) (\<lambda>workDir.
        deferM (onPackFiles (osRemoveAll workDir)) (pushFrom env contentDirpath source repo workDir)))))))"

section \<open>The work directory\<close>

text \<open>
  A push works in a directory of its own. \<open>ownDir w\<close>: below the directory \<open>w\<close> lie files only, and no path of the
  file system has a segment that a path function would interpret.
\<close>

definition cleanTree :: "FS \<Rightarrow> bool" where
  "cleanTree fs \<longleftrightarrow> (\<forall>q. node fs q \<noteq> None \<longrightarrow> list_all cleanSeg q)"

definition ownDir :: "path \<Rightarrow> FS \<Rightarrow> bool" where
  "ownDir w fs \<longleftrightarrow> w \<noteq> [] \<and> list_all cleanSeg w \<and> cleanTree fs \<and>
     (\<forall>q. strict_prefix w q \<longrightarrow> node fs q = None \<or> (\<exists>c. node fs q = Some (File c)))"

definition workOnly :: "path \<Rightarrow> FS \<Rightarrow> FS \<Rightarrow> bool" where
  "workOnly w a b \<longleftrightarrow> (ownDir w a \<longrightarrow> onlyIn {q. prefix w q} a b \<and> ownDir w b)"

interpretation workOnly: step_relation "workOnly w"
  by unfold_locales (auto simp: workOnly_def intro: onlyIn.R_refl onlyIn.R_trans)

lemma workOnly_reads: "keeps (=) m \<Longrightarrow> keeps (workOnly w) m"
  using workOnly.R_refl [of w] by (simp add: keeps_def)

lemma keeps_workOnly_write:
  assumes "cleanSeg n"
  shows "keeps (workOnly w) (osWriteFile (joinPath w n) c)"
  unfolding keeps_def
proof
  fix fs
  let ?p = "w @ [n]" and ?fs' = "snd (osWriteFile (joinPath w n) c fs)"
  have "onlyIn {q. prefix w q} fs ?fs' \<and> ownDir w ?fs'" if own: "ownDir w fs"
  proof -
    have f: "onlyIn {?p} fs ?fs' \<and> (node ?fs' ?p = None \<or> (\<exists>d. node ?fs' ?p = Some (File d)))"
      unfolding joinPath_clean [OF assms]
      using own by (intro osWriteFile_frame) (auto simp: ownDir_def strict_prefix_def)
    then have same: "node ?fs' q = node fs q" if "q \<noteq> ?p" for q using that by (simp add: onlyIn_def)
    have w: "w \<noteq> []" "list_all cleanSeg w" "cleanTree fs" using own by (simp_all add: ownDir_def)
    have "cleanTree ?fs'"
      unfolding cleanTree_def
    proof (intro allI impI)
      fix q
      assume "node ?fs' q \<noteq> None"
      then show "list_all cleanSeg q" using same [of q] w assms by (cases "q = ?p") (auto simp: cleanTree_def)
    qed
    moreover have "node ?fs' q = None \<or> (\<exists>c. node ?fs' q = Some (File c))" if "strict_prefix w q" for q
      using that own f same [of q] by (cases "q = ?p") (auto simp: ownDir_def)
    moreover have "node ?fs' q = node fs q" if "\<not> prefix w q" for q
      using that by (intro same) auto
    then have "onlyIn {q. prefix w q} fs ?fs'" using f by (simp add: onlyIn_def)
    ultimately show ?thesis using w by (simp add: ownDir_def)
  qed
  then show "workOnly w fs ?fs'" by (simp add: workOnly_def)
qed

lemma readDir_clean:
  assumes "cleanTree fs" and "fst (osReadDir d fs) = Ok xs"
  shows "list_all (\<lambda>(n, _). cleanSeg n) xs"
proof -
  have "cleanSeg (last q)" if "q \<in> set (below fs d)" for q
  proof -
    from that have "list_all cleanSeg q" "q \<noteq> []" using assms(1) by (auto simp: below_node cleanTree_def)
    then show ?thesis by (simp add: list_all_iff)
  qed
  then show ?thesis using assms(2) by (auto simp: osReadDir_def list_all_iff split: if_splits)
qed

lemma keeps_workOnly_CopyFiles: "keeps (workOnly w) (CopyFiles d w f)"
  unfolding keeps_def
proof
  fix fs
  have st: "snd (osReadDir d fs) = fs" using keepsD [OF keeps_reads(1)] by metis
  show "workOnly w fs (snd (CopyFiles d w f fs))"
  proof (cases "ownDir w fs")
    case False
    then show ?thesis by (simp add: workOnly_def)
  next
    case True
    then have clean: "cleanTree fs" by (simp add: ownDir_def)
    have "keeps (workOnly w) (copyEntry d w n)" if "cleanSeg n" for n
      unfolding copyEntry_def using that
      by (intro workOnly.keeps_tryM workOnly_reads [OF keeps_reads(2)] keeps_workOnly_write)
    then have loop: "keeps (workOnly w) (eachM (\<lambda>(n, x). if x = Dir \<or> \<not> f n then ret () else copyEntry d w n) xs)"
      if "fst (osReadDir d fs) = Ok xs" for xs
      using readDir_clean [OF clean that]
      by (intro workOnly.keeps_eachM) (fastforce simp: list_all_iff workOnly.keeps_pure split: prod.split)
    show ?thesis
    proof (cases "osReadDir d fs")
      case (Pair r fs1)
      then show ?thesis
        using st keepsD [OF loop, of _ fs] workOnly.R_refl [of w fs]
        by (cases r) (auto simp: CopyFiles_def tryM_def)
    qed
  qed
qed


definition packWork :: "path \<Rightarrow> 's packState \<Rightarrow> 's packState \<Rightarrow> bool" where
  "packWork w a b \<longleftrightarrow> workOnly w (ps_files a) (ps_files b)"

interpretation packWork: step_relation "packWork w"
  by unfold_locales (auto simp: packWork_def intro: workOnly.R_refl workOnly.R_trans)

lemma onPackFiles_run: "onPackFiles k s = (fst (k (ps_files s)), s\<lparr>ps_files := snd (k (ps_files s))\<rparr>)"
  by (simp add: onPackFiles_def onPart_def split: prod.splits)

lemma onRegistries_run: "onRegistries k s = (fst (k (ps_registries s)), s\<lparr>ps_registries := snd (k (ps_registries s))\<rparr>)"
  by (simp add: onRegistries_def onPart_def split: prod.splits)

lemma packWork_files: "keeps (workOnly w) k \<Longrightarrow> keeps (packWork w) (onPackFiles k)"
  by (simp add: keeps_def packWork_def onPackFiles_run)

lemma packWork_registries: "keeps (packWork w) (onRegistries k)"
  by (simp add: keeps_def packWork_def onRegistries_run workOnly.R_refl)

lemma reads_writeDirectoryAsTar: "keeps (=) (writeDirectoryAsTar d predicate name)"
  unfolding writeDirectoryAsTar_def
  by (intro reads.keeps_tryM reads.keeps_if reads.keeps_pure reads.keeps_attemptM keeps_reads) (simp add: keeps_def)

lemma reads_validate: "keeps (=) (am_ParseAndValidate schema d)"
  unfolding am_ParseAndValidate_def validateAssets_def Let_def
  by (intro reads.keeps_tryM reads.keeps_attemptM reads.keeps_pure keeps_reads keeps_ReadManifestFrom)
    (auto intro: reads.keeps_pure split: sum.split goerror.split)

lemma keeps_MigrateManifestFile: "keeps (workOnly w) (MigrateManifestFile w)"
proof -
  have "cleanSeg UcImageManifestFilename" by code_simp
  then show ?thesis
    unfolding MigrateManifestFile_def getRawManifest_def updateManifestFileContent_def
    by (intro workOnly.keeps_tryM workOnly_reads keeps_reads workOnly.keeps_pure keeps_workOnly_write)
qed

lemma keeps_CreateOciArtifact: "keeps (packWork w) (CreateOciArtifact r m reg)"
  unfolding CreateOciArtifact_def appendManifestAndLogo_def GzipTarball_def Let_def
  by (intro packWork.keeps_tryM packWork_files packWork_registries workOnly_reads reads.keeps_tryM
      reads_writeDirectoryAsTar reads.keeps_pure)
    (auto intro: packWork.keeps_pure split: prod.split res.split)

lemma keeps_pushFrom: "keeps (packWork w) (pushFrom env d source repo w)"
  unfolding pushFrom_def
  by (intro packWork.keeps_tryM packWork_files packWork_registries packWork.keeps_pure keeps_workOnly_CopyFiles
      keeps_MigrateManifestFile workOnly_reads [OF reads_validate] keeps_CreateOciArtifact)

lemma reads_credentials: "keeps (=) (cr_ParseAndValidate f opts)"
  unfolding cr_ParseAndValidate_def cr_parse_def
  by (intro reads.keeps_tryM reads.keeps_pure keeps_reads)

text \<open>A stage that reads files only: it fails and leaves them, or the rest runs on them.\<close>

definition sameFiles :: "'s packState \<Rightarrow> 's packState \<Rightarrow> bool" where
  "sameFiles a b \<longleftrightarrow> ps_files b = ps_files a"

lemma sameFiles_stages:
  "keeps (=) k \<Longrightarrow> keeps sameFiles (onPackFiles k)" "keeps sameFiles (onRegistries l)"
  by (simp_all add: keeps_def sameFiles_def onPackFiles_run onRegistries_run)

lemma tryM_stage:
  assumes "keeps sameFiles m" and "tryM m k s = (r, s')" and "ps_files s = fs" and "ps_files s' = fs \<Longrightarrow> P"
    and "\<And>x s1. ps_files s1 = fs \<Longrightarrow> k x s1 = (r, s') \<Longrightarrow> P"
  shows P
proof (cases "m s")
  case (Pair q s1)
  then have "ps_files s1 = fs" using keeps_run [OF assms(1) Pair] assms(3) by (simp add: sameFiles_def)
  then show ?thesis using assms(2,4,5) Pair by (cases q) (auto simp: tryM_def)
qed

lemma push_stages:
  assumes "executePushCommand env sc tc d st = (r, st')" and "ps_files st' = ps_files st \<Longrightarrow> P"
    and "\<And>s source repo. ps_files s = ps_files st \<Longrightarrow>
       tryM (onPackFiles (mkdirTemp (env_tempName env))) (\<lambda>workDir.
         deferM (onPackFiles (osRemoveAll workDir)) (pushFrom env d source repo workDir)) s = (r, st') \<Longrightarrow> P"
  shows P
proof -
  note stage = tryM_stage [OF sameFiles_stages(1) [OF reads_credentials] _ _ assms(2)] tryM_stage [OF sameFiles_stages(2) _ _ assms(2)]
  show ?thesis
    by (rule stage(1) [OF assms(1) [unfolded executePushCommand_def Let_def] refl], assumption,
        erule stage(1), assumption, assumption, erule stage(2), assumption, assumption, erule stage(2), assumption, assumption,
        erule stage(2), assumption, assumption, rule assms(3), assumption, assumption)
qed

text \<open>
  C23. Publishing a package changes nothing outside its work directory, however it ends: the manifest that is
  migrated and the logo are copies, and the directory of the developer stays as it is. When the work
  directory can be removed, the whole file system is as before.
\<close>

theorem push_leaves_the_files_alone:
  assumes clean: "cleanTree (ps_files st)" and w: "w = env_tempName env (ps_files st)" "w \<noteq> []" "list_all cleanSeg w"
    and fresh: "\<forall>q. prefix w q \<longrightarrow> node (ps_files st) q = None"
    and run: "executePushCommand env sourceCredentials targetCredentials contentDir st = (r, st')"
  shows "onlyIn {q. prefix w q} (ps_files st) (ps_files st')
    \<and> ((\<forall>q. prefix w q \<longrightarrow> \<not> faulty (ps_files st) OpRemove q) \<longrightarrow> (\<forall>q. node (ps_files st') q = node (ps_files st) q))"
proof (rule push_stages [OF run])
  assume "ps_files st' = ps_files st"
  then show ?thesis by (simp add: onlyIn.R_refl)
next
  fix s source repo
  assume s: "ps_files s = ps_files st"
    and step: "tryM (onPackFiles (mkdirTemp (env_tempName env))) (\<lambda>workDir.
      deferM (onPackFiles (osRemoveAll workDir)) (pushFrom env contentDir source repo workDir)) s = (r, st')"
  let ?fs = "ps_files st" and ?fs1 = "setNode w Dir (ps_files st)"
  show ?thesis
  proof (cases "faulty ?fs OpMkdir w")
    case True
    then have "ps_files st' = ?fs" using step s w(1) by (auto simp: onPackFiles_run mkdirTemp_def tryM_def)
    then show ?thesis by (simp add: onlyIn.R_refl)
  next
    case False
    let ?s1 = "s\<lparr>ps_files := ?fs1\<rparr>"
    have "mkdirTemp (env_tempName env) ?fs = (Ok w, ?fs1)" using False fresh w(1) by (simp add: mkdirTemp_def Let_def)
    then have "onPackFiles (mkdirTemp (env_tempName env)) s = (Ok w, ?s1)" using s by (simp add: onPackFiles_run)
    then have "deferM (onPackFiles (osRemoveAll w)) (pushFrom env contentDir source repo w) ?s1 = (r, st')"
      using step by (simp add: tryM_run)
    then have "snd (deferM (onPackFiles (osRemoveAll w)) (pushFrom env contentDir source repo w) ?s1) = st'" by simp
    moreover obtain s2 where s2: "snd (pushFrom env contentDir source repo w ?s1) = s2" by blast
    ultimately have st': "ps_files st' = snd (osRemoveAll w (ps_files s2))" by (auto simp: onPackFiles_run)
    have "ownDir w ?fs1" using clean w(2,3) fresh by (auto simp: ownDir_def cleanTree_def strict_prefix_def)
    then have in2: "onlyIn {q. prefix w q} ?fs1 (ps_files s2)"
      using keepsD [OF keeps_pushFrom [of w env contentDir source repo], of ?s1] s2 by (simp add: packWork_def workOnly_def)
    have in1: "onlyIn {q. prefix w q} ?fs ?fs1" using w(2) by (auto simp: onlyIn_def)
    have in3: "onlyIn {q. prefix w q} (ps_files s2) (ps_files st')"
      using keepsD [OF keeps_osRemoveAll [OF w(2)], of "ps_files s2"] st' by simp
    have all: "onlyIn {q. prefix w q} ?fs (ps_files st')" using onlyIn.R_trans [OF in1 onlyIn.R_trans [OF in2 in3]] .
    moreover have "node (ps_files st') q = node ?fs q" if ok: "\<forall>q. prefix w q \<longrightarrow> \<not> faulty ?fs OpRemove q" for q
    proof (cases "prefix w q")
      case True
      have "faulty (ps_files s2) = faulty ?fs" using in1 in2 by (simp add: onlyIn_def)
      then have "ps_files st' = delTree w (ps_files s2)" using st' ok by (simp add: osRemoveAll_deletes deletable_tree)
      then show ?thesis using True fresh w(2) by simp
    next
      case False
      then show ?thesis using all by (simp add: onlyIn_def)
    qed
    ultimately show ?thesis by blast
  qed
qed

text \<open>A developer's directory with a manifest of the old version and a logo, and two registries.\<close>

definition samplePush :: "(unit, mapStore) pushEnv" where
  "samplePush =
     \<lparr>env_newRegistry = (\<lambda>_ _ _ _. ret (\<lambda>_. ret
        \<lparr>repo_Resolve = (\<lambda>_. ret \<lparr>desc_MediaType = [], desc_Digest = [], desc_Size = 0, desc_Annotations = None\<rparr>),
         repo_FetchAll = (\<lambda>_. fail errNotFound),
         repo_Fetch = (\<lambda>_. ret (RawReader (Doc (JObj [(''manifests'', JArr [JObj [(''platform'',
           JObj [(''os'', JStr ''linux''), (''architecture'', JStr ''arm64'')])]])])))),
         repo_MapDescriptorSize = (\<lambda>_. desc_Size)\<rparr>)),
      env_copy = (\<lambda>m tag repo. liftR (case snd m tag of Some d \<Rightarrow> Ok d | None \<Rightarrow> Err errNotFound)),
      env_creator = \<lparr>exportDockerImageFunc = (\<lambda>ref p. ret (Some (Text ref))), pc_archiver = sampleArchiver,
        pc_codec = \<lparr>FromBytes = (\<lambda>_. ''x''), blobLen = (\<lambda>_. 1), nowUTC = []\<rparr>, pc_memory = mapTarget, pc_author = AuthorName\<rparr>,
      env_schema = (\<lambda>_. None), env_tempName = (\<lambda>_. [''tmp'', ''work'']), env_REGISTRY_ADDRESS = ''registry:5000''\<rparr>"

definition manifestWithLogo :: json where
  "manifestWithLogo = (case sampleV01 of JObj kvs \<Rightarrow> JObj ((''logo'', JStr ''logo.png'') # kvs) | j \<Rightarrow> j)"

definition developer :: "unit packState" where
  "developer =
     \<lparr>ps_files = \<lparr>nodes = [([''tmp''], Dir), ([''app''], Dir), ([''app'', ''manifest.json''], File (Doc manifestWithLogo)),
          ([''app'', ''logo.png''], File (Text ''picture'')),
          ([''credentials''], File (Doc (JObj [(''repositoryname'', JStr ''acme/app''), (''serveraddress'', JStr ''hub'')])))],
        faulty = (\<lambda>_ _. False)\<rparr>, ps_registries = ()\<rparr>"

lemma sample_push_runs: "is_ok (fst (executePushCommand samplePush [''credentials''] [''credentials''] [''app''] developer))"
  by code_simp

lemma clean_developer: "cleanTree (ps_files developer)"
proof -
  have "list_all (\<lambda>(q, _). list_all cleanSeg q) (nodes (ps_files developer))" by code_simp
  then show ?thesis by (auto simp: cleanTree_def node_def list_all_iff dest: map_of_SomeD)
qed

theorem push_leaves_the_files_alone_witness:
  "case executePushCommand samplePush [''credentials''] [''credentials''] [''app''] developer of (r, st') \<Rightarrow>
     is_ok r \<and> node (ps_files st') [''app'', ''manifest.json''] = Some (File (Doc manifestWithLogo))
       \<and> node (ps_files st') [''tmp'', ''work''] = None"
proof -
  let ?run = "executePushCommand samplePush [''credentials''] [''credentials''] [''app''] developer"
  obtain r st' where run: "?run = (r, st')" by (cases ?run)
  have w: "[''tmp'', ''work''] = env_tempName samplePush (ps_files developer)" "list_all cleanSeg [''tmp'', ''work'']"
    by (simp_all add: samplePush_def cleanSeg_def)
  have fresh: "\<forall>q. prefix [''tmp'', ''work''] q \<longrightarrow> node (ps_files developer) q = None"
    by (auto simp: developer_def node_def prefix_def)
  have ok: "\<forall>q. prefix [''tmp'', ''work''] q \<longrightarrow> \<not> faulty (ps_files developer) OpRemove q" by (simp add: developer_def)
  have "node (ps_files developer) [''app'', ''manifest.json''] = Some (File (Doc manifestWithLogo))"
    "node (ps_files developer) [''tmp'', ''work''] = None"
    by (simp_all add: developer_def node_def)
  with push_leaves_the_files_alone [OF clean_developer w(1) _ w(2) fresh run] ok sample_push_runs run
  show ?thesis by simp
qed

end
