(* ===== verification/PackageReader.thy ===== *)
theory PackageReader
  imports Packager
begin

text \<open>
  \<^verbatim>\<open>package_resolver.go\<close>, \<^verbatim>\<open>package_validator.go\<close>, \<^verbatim>\<open>package_reader.go\<close> and \<^verbatim>\<open>package_exporter.go\<close> of \<^verbatim>\<open>internal/aop/packager\<close>,
  and the commands \<^verbatim>\<open>pull\<close> and \<^verbatim>\<open>export\<close>: reading a package from its repository, checking it, storing it in a
  directory per platform and packing that into a file for \<^verbatim>\<open>swupdate\<close>.

  \<^verbatim>\<open>oras.Copy\<close> into a file store is a parameter, over the state of the command; it is given the callback
  \<^verbatim>\<open>PostCopy\<close> of the code.
\<close>

section \<open>package\_resolver.go\<close>

record OciManifest = ImageManifest +
  om_SchemaVersion :: "64 word"

record OciImage = ImageConfig +
  oi_Author :: string

definition dOciManifest :: "json \<Rightarrow> OciManifest res" where
  "dOciManifest j =
     bind_res (dImageManifest j) (\<lambda>im.
     bind_res (dStruct j) (\<lambda>m.
     bind_res (dInt64 (member m ''schemaVersion'')) (\<lambda>v.
     Ok \<lparr>im_Config = im_Config im, im_Layers = im_Layers im, om_SchemaVersion = v\<rparr>)))"

definition dOciImage :: "json \<Rightarrow> OciImage res" where
  "dOciImage j =
     bind_res (dImageConfig j) (\<lambda>ic.
     bind_res (dStruct j) (\<lambda>m.
     bind_res (dStr (member m ''author'')) (\<lambda>a.
     Ok \<lparr>ic_Architecture = ic_Architecture ic, ic_OS = ic_OS ic, oi_Author = a\<rparr>)))"

record addOnOCIPackage =
  OciImageManifestDescriptor :: IndexEntry
  OciImageManifest :: OciManifest
  OciConfiguration :: OciImage
  OciImageManifestLayersMap :: "(string \<times> Descriptor list) list"

record addOnOCIPackageIndex =
  OciImageIndexDescriptor :: Descriptor
  OciImageIndex :: "IndexEntry list"
  packages :: "addOnOCIPackage list"

definition descriptorsFor :: "string \<Rightarrow> (string \<times> Descriptor list) list \<Rightarrow> Descriptor list" where
  "descriptorsFor mediaType m = (case map_of m mediaType of None \<Rightarrow> [] | Some ds \<Rightarrow> ds)"

definition GetAllDockerImageDescriptors :: "addOnOCIPackage \<Rightarrow> Descriptor list" where
  "GetAllDockerImageDescriptors p = descriptorsFor MediaTypeImageLayer (OciImageManifestLayersMap p)"

definition GetAllAddOnManifestDescriptors :: "addOnOCIPackage \<Rightarrow> Descriptor list" where
  "GetAllAddOnManifestDescriptors p = descriptorsFor UcImageLayerMediaType (OciImageManifestLayersMap p)"

definition GetAddOnManifestDescriptor :: "addOnOCIPackage \<Rightarrow> Descriptor res" where
  "GetAddOnManifestDescriptor p =
     (case GetAllAddOnManifestDescriptors p of
        d # _ \<Rightarrow> Ok d
      | [] \<Rightarrow> Err (ErrorString ''Add-on manifest layer not Found''))"

definition createLayersMediaTypeMap :: "Descriptor list \<Rightarrow> (string \<times> Descriptor list) list" where
  "createLayersMediaTypeMap layers =
     foldl (\<lambda>layersMap layer.
       AList.update (desc_MediaType layer) (descriptorsFor (desc_MediaType layer) layersMap @ [layer]) layersMap) [] layers"

definition fetchAddOnOciImageManifest :: "'s OrasRepository \<Rightarrow> Descriptor \<Rightarrow> ('s, OciManifest) go" where
  "fetchAddOnOciImageManifest target desc = tryM (repo_FetchAll target desc) (\<lambda>j. liftR (dOciManifest j))"

definition fetchAddOnOciConfiguration :: "'s OrasRepository \<Rightarrow> Descriptor \<Rightarrow> ('s, OciImage) go" where
  "fetchAddOnOciConfiguration target desc = tryM (repo_FetchAll target desc) (\<lambda>j. liftR (dOciImage j))"

text \<open>A manifest that cannot be fetched, or whose configuration cannot, is left out.\<close>

definition resolvePackage :: "'s OrasRepository \<Rightarrow> IndexEntry \<Rightarrow> ('s, addOnOCIPackage list) go" where
  "resolvePackage target manifest =
     tryM (attemptM (fetchAddOnOciImageManifest target (ie_Descriptor manifest))) (\<lambda>r.
     case r of
       Inl _ \<Rightarrow> ret []
     | Inr ociImageManifest \<Rightarrow>
         tryM (attemptM (fetchAddOnOciConfiguration target (im_Config ociImageManifest))) (\<lambda>r.
         case r of
           Inl _ \<Rightarrow> ret []
         | Inr ociConfiguration \<Rightarrow>
             ret [\<lparr>OciImageManifestDescriptor = manifest, OciImageManifest = ociImageManifest,
                   OciConfiguration = ociConfiguration,
                   OciImageManifestLayersMap = createLayersMediaTypeMap (im_Layers ociImageManifest)\<rparr>]))"

fun resolvePackages :: "'s OrasRepository \<Rightarrow> IndexEntry list \<Rightarrow> ('s, addOnOCIPackage list) go" where
  "resolvePackages target [] = ret []"
| "resolvePackages target (manifest # manifests) =
     tryM (resolvePackage target manifest) (\<lambda>p.
     tryM (resolvePackages target manifests) (\<lambda>ps. ret (p @ ps)))"

definition package_resolve :: "'s OrasRepository \<Rightarrow> string \<Rightarrow> ('s, addOnOCIPackageIndex) go" where
  "package_resolve target version =
     tryM (repo_Resolve target version) (\<lambda>addOnOciImageIndex.
     tryM (FetchImageIndex target addOnOciImageIndex) (\<lambda>ociImageIndex.
     tryM (resolvePackages target ociImageIndex) (\<lambda>ps.
     ret \<lparr>OciImageIndexDescriptor = addOnOciImageIndex, OciImageIndex = ociImageIndex, packages = ps\<rparr>)))"

section \<open>package\_validator.go\<close>

record AnnotationPair =
  ap_Key :: string
  ap_Value :: string

fun validateAnnotations :: "string gomap \<Rightarrow> AnnotationPair list \<Rightarrow> unit res" where
  "validateAnnotations actualAnnotations [] = Ok ()"
| "validateAnnotations actualAnnotations (pair # pairs) =
     (case mget actualAnnotations (ap_Key pair) of
        Some actualValue \<Rightarrow>
          if actualValue \<noteq> ap_Value pair
          then Err (ErrorString (''Unexpected annotation value: want '' @ CHR 0x27 # ap_Value pair @ CHR 0x27 # '', but got '' @
                 CHR 0x27 # actualValue @ CHR 0x27 # '' for key '' @ CHR 0x27 # ap_Key pair @ [CHR 0x27]))
          else validateAnnotations actualAnnotations pairs
      | None \<Rightarrow> Err (ErrorString (''Annotation key '' @ CHR 0x27 # ap_Key pair @ CHR 0x27 # '' not Found'')))"

fun eachR :: "('a \<Rightarrow> unit res) \<Rightarrow> 'a list \<Rightarrow> unit res" where
  "eachR f [] = Ok ()"
| "eachR f (x # xs) = bind_res (f x) (\<lambda>_. eachR f xs)"

definition show_int :: "int \<Rightarrow> string" where
  "show_int n = (if n < 0 then ''-'' else []) @ show_nat (nat \<bar>n\<bar>)"

definition validateOciImageManifest :: "addOnOCIPackage list \<Rightarrow> unit res" where
  "validateOciImageManifest =
     eachR (\<lambda>p.
       if desc_MediaType (ie_Descriptor (OciImageManifestDescriptor p)) \<noteq> MediaTypeImageManifest
       then Err (ErrorString ''MediaType mismatch'')
       else if om_SchemaVersion (OciImageManifest p) \<noteq> 2
       then Err (ErrorString (''Wrong manifestJson SchemaVersion actual '' @ show_int (sint (om_SchemaVersion (OciImageManifest p))) @ '', 2''))
       else Ok ())"

definition mismatch :: "string \<Rightarrow> string \<Rightarrow> string \<Rightarrow> goerror" where
  "mismatch what expected actual =
     ErrorString (what @ '' mismatch. Expected '' @ CHR 0x27 # expected @ CHR 0x27 # '', Actual '' @ CHR 0x27 # actual @ [CHR 0x27])"

definition validateConfig :: "addOnOCIPackage list \<Rightarrow> unit res" where
  "validateConfig =
     eachR (\<lambda>p. let config = im_Config (OciImageManifest p) in
       if desc_MediaType config \<noteq> UcConfigMediaType
       then Err (ErrorString (''[MediaTypeMismatch] Unexpected config media type = '' @ desc_MediaType config))
       else bind_res (validateAnnotations (desc_Annotations config) [\<lparr>ap_Key = AnnotationTitle, ap_Value = UcConfigAnnotationTitle\<rparr>])
         (\<lambda>_. if \<not> Contains (oi_Author (OciConfiguration p)) AuthorName then Err (mismatch ''Author'' AuthorName (oi_Author (OciConfiguration p)))
              else if \<not> Contains (ic_OS (OciConfiguration p)) ''linux'' then Err (mismatch ''OS'' ''linux'' (ic_OS (OciConfiguration p)))
              else Ok ()))"

definition validateDockerLayers :: "addOnOCIPackage list \<Rightarrow> unit res" where
  "validateDockerLayers =
     eachR (\<lambda>p. if GetAllDockerImageDescriptors p = [] then Err (ErrorString ''No docker images in add-on'') else Ok ())"

definition validateMetaInfoOfLayers :: "addOnOCIPackage list \<Rightarrow> unit res" where
  "validateMetaInfoOfLayers ps =
     bind_res (eachR (\<lambda>p.
       if length (im_Layers (OciImageManifest p)) \<noteq> 2 then Err (ErrorString (''Layers Count mismatch. Expected 2, Actual '' @ show_nat (length (im_Layers (OciImageManifest p)))))
       else bind_res (GetAddOnManifestDescriptor p) (\<lambda>addOnManifestLayer.
            if mget (desc_Annotations addOnManifestLayer) AnnotationTitle = None
            then Err (ErrorString (''Manifest descriptor does not include an annotations for '' @ AnnotationTitle))
            else Ok ())) ps)
       (\<lambda>_. validateDockerLayers ps)"

definition ValidateMetaInfosOnlyOf :: "addOnOCIPackageIndex \<Rightarrow> unit res" where
  "ValidateMetaInfosOnlyOf v =
     bind_res (validateOciImageManifest (packages v)) (\<lambda>_.
     bind_res (validateConfig (packages v)) (\<lambda>_.
     validateMetaInfoOfLayers (packages v)))"

text \<open>A layer for which no annotations are expected is an index out of range.\<close>

fun validateLayers :: "Descriptor list \<Rightarrow> AnnotationPair list list \<Rightarrow> unit res" where
  "validateLayers [] expected = Ok ()"
| "validateLayers (layer # layers) [] = Panic ''index out of range''"
| "validateLayers (layer # layers) (pairs # expected) =
     bind_res (validateAnnotations (desc_Annotations layer) pairs) (\<lambda>_. validateLayers layers expected)"

definition ValidateLayerDescriptorAnnotations :: "addOnOCIPackageIndex \<Rightarrow> AnnotationPair list list \<Rightarrow> unit res" where
  "ValidateLayerDescriptorAnnotations v expectedAnnotations =
     eachR (\<lambda>p. validateLayers (im_Layers (OciImageManifest p)) expectedAnnotations) (packages v)"

fun validateContents ::
  "'s OrasRepository \<Rightarrow> (reader \<Rightarrow> Descriptor \<Rightarrow> nat \<Rightarrow> bool) \<Rightarrow> nat \<Rightarrow> Descriptor list \<Rightarrow> ('s, unit) go" where
  "validateContents target compareFn layerIndex [] = ret ()"
| "validateContents target compareFn layerIndex (layerDescriptor # layers) =
     tryM (attemptM (repo_Fetch target layerDescriptor)) (\<lambda>r.
     case r of
       Inl _ \<Rightarrow> fail (ErrorString (''Could not fetch content of layer '' @ show_nat layerIndex))
     | Inr content \<Rightarrow>
         if compareFn content layerDescriptor layerIndex then validateContents target compareFn (Suc layerIndex) layers
         else fail (ErrorString (''Content of layer '' @ show_nat layerIndex @ '' is not equal'')))"

definition ValidateLayerContent ::
  "'s OrasRepository \<Rightarrow> addOnOCIPackageIndex \<Rightarrow> (reader \<Rightarrow> Descriptor \<Rightarrow> nat \<Rightarrow> bool) \<Rightarrow> ('s, unit) go" where
  "ValidateLayerContent target v compareFn =
     eachM (\<lambda>p. validateContents target compareFn 0 (im_Layers (OciImageManifest p))) (packages v)"

section \<open>package\_reader.go\<close>

record 's AddOnRepositoryTarget =
  art_target :: "'s OrasRepository"
  art_Version :: string
  art_Repository :: string

record 's PackageReader =
  rd_archiver :: archiver
  rd_copy :: "'s OrasRepository \<Rightarrow> string \<Rightarrow> Descriptor \<Rightarrow> path \<Rightarrow> (Descriptor \<Rightarrow> ('s packState, unit) go) \<Rightarrow> ('s packState, Descriptor) go"

record PullOptions =
  DestDir :: path
  Extract :: bool

definition GetSubdirectoryNameFor :: "OciPlatform \<Rightarrow> string" where
  "GetSubdirectoryNameFor platform = pl_OS platform @ ''-'' @ pl_Architecture platform"

definition GetPullDirectory :: "'s AddOnRepositoryTarget \<Rightarrow> OciPlatform \<Rightarrow> path \<Rightarrow> path" where
  "GetPullDirectory addOnTarget platform parentDirectory =
     joinPath (joinPath (joinPath parentDirectory (NormalizeCodeName (art_Repository addOnTarget))) (art_Version addOnTarget))
       (GetSubdirectoryNameFor platform)"

definition createPullDirectory :: "path \<Rightarrow> 's AddOnRepositoryTarget \<Rightarrow> OciPlatform \<Rightarrow> (FS, path) go" where
  "createPullDirectory parentDirectory addOnTarget platform =
     (let pullDirectory = GetPullDirectory addOnTarget platform parentDirectory
      in tryM (wrapErr (''Could not create add-on pull directory '' @ CHR 0x27 # showPath pullDirectory @ CHR 0x27 # '': '') []
           (osMkdirAll pullDirectory)) (\<lambda>_. ret pullDirectory))"

text \<open>\<^verbatim>\<open>oci_copy_options.go\<close>: the image manifest itself is written to a file beside its blobs. The file is truncated first.\<close>

definition writeToDestination :: "path \<Rightarrow> string \<Rightarrow> content \<Rightarrow> (FS, unit) go" where
  "writeToDestination destination filename bytes =
     tryM (osOpenCreate (joinPath destination filename)) (\<lambda>f.
     tryM (osTruncate f) (\<lambda>_. osWrite f bytes))"

definition writeDescriptorContent ::
  "'s OrasRepository \<Rightarrow> Descriptor \<Rightarrow> string \<Rightarrow> path \<Rightarrow> Descriptor \<Rightarrow> ('s packState, unit) go" where
  "writeDescriptorContent orasRepository imageManifest imageManifestFilename destination desc =
     (if desc_Digest imageManifest \<noteq> desc_Digest desc then ret ()
      else
        tryM (onRegistries (repo_Fetch orasRepository desc)) (\<lambda>rc.
        case rc of
          RawReader bytes \<Rightarrow> onPackFiles (writeToDestination destination imageManifestFilename bytes)
        | ManifestReader _ \<Rightarrow> ret ()))"

definition extractIfManifest :: "'s PackageReader \<Rightarrow> path \<Rightarrow> string \<Rightarrow> path \<times> node \<Rightarrow> (FS, unit) go" where
  "extractIfManifest r destDir manifestFileName = (\<lambda>(p, n).
     if n = Dir \<or> last p \<noteq> manifestFileName then ret ()
     else
       tryM (osReadFile p) (\<lambda>bytes.
       tryM (UnGzipTarball (rd_archiver r) destDir bytes) (\<lambda>_. osRemove p)))"

text \<open>
  The callback does not look at the error it is given: a directory that cannot be read is passed over, and a
  destination that does not exist gives it a nil entry.
\<close>

definition extractManifestAndLogoTarball :: "'s PackageReader \<Rightarrow> path \<Rightarrow> string \<Rightarrow> (FS, unit) go" where
  "extractManifestAndLogoTarball r destDir manifestFileName =
     tryM (attemptM (osVisit destDir)) (\<lambda>r'. case r' of
       Inl _ \<Rightarrow> panicM ''invalid memory address or nil pointer dereference''
     | Inr visited \<Rightarrow> eachM (extractIfManifest r destDir manifestFileName) visited)"

definition extractAddOnArchive :: "'s PackageReader \<Rightarrow> addOnOCIPackage \<Rightarrow> PullOptions \<Rightarrow> (FS, unit) go" where
  "extractAddOnArchive r addOnPackage options =
     tryM (liftR (GetAddOnManifestDescriptor addOnPackage)) (\<lambda>descriptor.
     extractManifestAndLogoTarball r (DestDir options)
       (case mget (desc_Annotations descriptor) AnnotationTitle of Some title \<Rightarrow> title | None \<Rightarrow> []))"

text \<open>
  The loop body: for every platform the archive of the first package is extracted. An index entry without a
  platform is a nil dereference.
\<close>

definition pullPackage ::
  "'s PackageReader \<Rightarrow> 's AddOnRepositoryTarget \<Rightarrow> PullOptions \<Rightarrow> addOnOCIPackage \<Rightarrow> addOnOCIPackage \<Rightarrow> ('s packState, OciPlatform) go" where
  "pullPackage r addOnTarget options first pkg =
     (case ie_Platform (OciImageManifestDescriptor pkg) of
        None \<Rightarrow> panicM ''invalid memory address or nil pointer dereference''
      | Some platform \<Rightarrow>
          (let root = ie_Descriptor (OciImageManifestDescriptor pkg)
           in tryM (onPackFiles (createPullDirectory (DestDir options) addOnTarget platform)) (\<lambda>pullDirectory.
              tryM (rd_copy r (art_target addOnTarget) (art_Version addOnTarget) root pullDirectory
                (writeDescriptorContent (art_target addOnTarget) root UcImageManifestDescriptorFilename pullDirectory)) (\<lambda>_.
              tryM (if Extract options then onPackFiles (extractAddOnArchive r first options) else ret ()) (\<lambda>_.
              ret platform)))))"

fun pullPackages ::
  "'s PackageReader \<Rightarrow> 's AddOnRepositoryTarget \<Rightarrow> PullOptions \<Rightarrow> addOnOCIPackage list \<Rightarrow> addOnOCIPackage list \<Rightarrow>
   ('s packState, OciPlatform list) go" where
  "pullPackages r addOnTarget options ps [] = ret []"
| "pullPackages r addOnTarget options ps (pkg # pkgs) =
     tryM (pullPackage r addOnTarget options (hd ps) pkg) (\<lambda>platform.
     tryM (pullPackages r addOnTarget options ps pkgs) (\<lambda>platforms. ret (platform # platforms)))"

definition reader_Pull ::
  "'s PackageReader \<Rightarrow> 's AddOnRepositoryTarget \<Rightarrow> PullOptions \<Rightarrow> ('s packState, OciPlatform list) go" where
  "reader_Pull r addOnTarget options =
     tryM (onPackFiles (osStat (DestDir options))) (\<lambda>_.
     tryM (onRegistries (package_resolve (art_target addOnTarget) (art_Version addOnTarget))) (\<lambda>addOnPackageIndex.
     pullPackages r addOnTarget options (packages addOnPackageIndex) (packages addOnPackageIndex)))"

section \<open>package\_exporter.go\<close>

text \<open>
  \<^verbatim>\<open>ReplaceAllString\<close> with the name of the platform directory and an optional slash as the expression, for names
  without a special character of regular expressions: every occurrence from left to right is cut out.
\<close>

definition dropSlash :: "string \<Rightarrow> string" where
  "dropSlash s = (if s \<noteq> [] \<and> hd s = CHR ''/'' then tl s else s)"

function cutOut :: "string \<Rightarrow> string \<Rightarrow> string" where
  "cutOut sub s =
     (if sub = [] then s
      else case s of
        [] \<Rightarrow> []
      | c # cs \<Rightarrow>
          if take (length sub) s = sub
          then cutOut sub (dropSlash (drop (length sub) s))
          else c # cutOut sub cs)"
  by pat_completeness auto

termination
  by (relation "measure (\<lambda>(sub, s). length s)") (auto simp: dropSlash_def neq_Nil_conv)

declare cutOut.simps [simp del]

definition headerNameFunc :: "path \<Rightarrow> OciPlatform \<Rightarrow> path \<Rightarrow> string res" where
  "headerNameFunc pullDirectory platform filename =
     Ok (cutOut (GetSubdirectoryNameFor platform) (relPath pullDirectory filename))"

definition UcSwuFilePayloadName :: string where
  "UcSwuFilePayloadName = ''payload.tar''"

definition createTarForAddon :: "archiver \<Rightarrow> path \<Rightarrow> (path \<Rightarrow> string res) \<Rightarrow> (FS, ArchiveFileEntry) go" where
  "createTarForAddon a directory headerName =
     tryM (wrapErr ''Could not create tarball from directory: '' [] (Tarball a directory (\<lambda>_. True) headerName)) (\<lambda>tarFileContent.
     ret \<lparr>af_Name = UcSwuFilePayloadName, af_Body = tarFileContent\<rparr>)"

definition createSwdescriptionContent :: "string \<Rightarrow> content" where
  "createSwdescriptionContent CACHE_DROP_IN_PATH =
     (let nl = [CHR 0x0A]; tab = [CHR 0x09]; quoted = (\<lambda>t. CHR 0x22 # t @ [CHR 0x22])
      in Text (''software ='' @ nl @ ''{'' @ nl @
        tab @ ''version = '' @ quoted ''0.1.0'' @ '';'' @ nl @
        tab @ ''hardware-compatibility: [ '' @ quoted ''#RE:.*'' @ '' ];'' @ nl @
        tab @ ''bootloader_state_marker = false;'' @ nl @
        tab @ ''bootloader_transaction_marker = false;'' @ nl @ nl @
        tab @ ''files: ('' @ nl @
        tab @ tab @ ''{'' @ nl @
        tab @ tab @ tab @ ''filename = '' @ quoted UcSwuFilePayloadName @ '';'' @ nl @
        tab @ tab @ tab @ ''path = '' @ quoted CACHE_DROP_IN_PATH @ '';'' @ nl @
        tab @ tab @ tab @ ''type = '' @ quoted ''archive'' @ '';'' @ nl @
        tab @ tab @ ''}'' @ nl @ tab @ '');'' @ nl @ ''}''))"

definition exportAddonArchiveToOutputPathAsSwufile :: "archiver \<Rightarrow> string \<Rightarrow> ArchiveFileEntry \<Rightarrow> path \<Rightarrow> (FS, unit) go" where
  "exportAddonArchiveToOutputPathAsSwufile a CACHE_DROP_IN_PATH addOnArchive outputFilepath =
     wrapErr ''Can not create swu-file: '' []
       (CreateCpioArchive a outputFilepath
         [\<lparr>af_Name = ''sw-description'', af_Body = createSwdescriptionContent CACHE_DROP_IN_PATH\<rparr>, addOnArchive])"

definition exportAddonDirToOutputPathAsSwufile ::
  "archiver \<Rightarrow> string \<Rightarrow> path \<Rightarrow> path \<Rightarrow> string \<Rightarrow> (path \<Rightarrow> string res) \<Rightarrow> (FS, unit) go" where
  "exportAddonDirToOutputPathAsSwufile a CACHE_DROP_IN_PATH pulledAddOnDirPath outputDirectory filename headerName =
     tryM (wrapErr ''Could not create tar-archive: '' [] (createTarForAddon a pulledAddOnDirPath headerName)) (\<lambda>addOnArchive.
     tryM (osMkdirAll outputDirectory) (\<lambda>_.
     wrapErr ''Could not export add-on as swu-file: '' []
       (exportAddonArchiveToOutputPathAsSwufile a CACHE_DROP_IN_PATH addOnArchive (joinPath outputDirectory filename))))"

definition exporter_Export ::
  "'s PackageReader \<Rightarrow> (FS \<Rightarrow> path) \<Rightarrow> string \<Rightarrow> 's AddOnRepositoryTarget \<Rightarrow> path \<Rightarrow> string \<Rightarrow> ('s packState, unit) go" where
  "exporter_Export r tempName CACHE_DROP_IN_PATH addOnTarget parentDirectory filename =
     tryM (wrapErr ''Could not create temp-directory for export: '' [] (onPackFiles (mkdirTemp tempName))) (\<lambda>pullAddOnTempDir.
     deferM (onPackFiles (osRemoveAll pullAddOnTempDir))
       (tryM (wrapErr (''Could not store the add-on to the output path '' @ showPath pullAddOnTempDir @ '': '') []
          (reader_Pull r addOnTarget \<lparr>DestDir = pullAddOnTempDir, Extract = False\<rparr>)) (\<lambda>platforms.
        eachM (\<lambda>platform. onPackFiles
          (exportAddonDirToOutputPathAsSwufile (rd_archiver r) CACHE_DROP_IN_PATH
            (GetPullDirectory addOnTarget platform pullAddOnTempDir)
            (joinPath parentDirectory (GetSubdirectoryNameFor platform)) filename
            (headerNameFunc pullAddOnTempDir platform))) platforms)))"

section \<open>pull.go and export.go\<close>

definition getAddOnTarget ::
  "('s, 'm) pushEnv \<Rightarrow> path \<Rightarrow> string \<Rightarrow> ('s packState, 's AddOnRepositoryTarget) go" where
  "getAddOnTarget env credentialsFilepath version =
     tryM (wrapErr (''Invalid credentials file '' @ CHR 0x27 # showPath credentialsFilepath @ CHR 0x27 # '': '') []
       (onPackFiles (cr_ParseAndValidate credentialsFilepath [RepositoryNameSet]))) (\<lambda>credentials.
     let addOnHostCredentials = SetRegistryServerAddress (env_REGISTRY_ADDRESS env) credentials
     in tryM (wrapErr ''Could not initialize app host registry: '' []
          (onRegistries (InitializeRegistry (env_newRegistry env) addOnHostCredentials))) (\<lambda>addOnHostRegistry.
        tryM (wrapErr ''Could not initialize app host repository: '' []
          (onRegistries (addOnHostRegistry (cr_RepositoryName addOnHostCredentials)))) (\<lambda>addOnRepository.
        ret \<lparr>art_target = addOnRepository, art_Version = version, art_Repository = cr_RepositoryName addOnHostCredentials\<rparr>)))"

text \<open>
  The error of \<open>getAddOnTarget\<close> is not looked at, and the nil target it comes with is used: the first method
  called on it is a nil dereference, if the output directory can be opened.
\<close>

definition executePullCommand ::
  "('s, 'm) pushEnv \<Rightarrow> 's PackageReader \<Rightarrow> path \<Rightarrow> path \<Rightarrow> string \<Rightarrow> bool \<Rightarrow> ('s packState, unit) go" where
  "executePullCommand env r credentialsFilepath outputDirpath version extract =
     tryM (wrapErr (''Could not access the output path '' @ showPath outputDirpath @ '': '') []
       (onPackFiles (osStat outputDirpath))) (\<lambda>_.
     tryM (attemptM (getAddOnTarget env credentialsFilepath version)) (\<lambda>t.
     case t of
       Inl _ \<Rightarrow>
         tryM (onPackFiles (osStat outputDirpath)) (\<lambda>_.
         panicM ''invalid memory address or nil pointer dereference'')
     | Inr addOnTarget \<Rightarrow>
         tryM (reader_Pull r addOnTarget \<lparr>DestDir = outputDirpath, Extract = extract\<rparr>) (\<lambda>_. ret ())))"

definition getExportFilename :: "'s AddOnRepositoryTarget \<Rightarrow> string" where
  "getExportFilename addOnTarget =
     NormalizeCodeName (art_Repository addOnTarget) @ ''_'' @ art_Version addOnTarget @ ''.swu''"

definition executeExportCommand ::
  "('s, 'm) pushEnv \<Rightarrow> 's PackageReader \<Rightarrow> string \<Rightarrow> path \<Rightarrow> path \<Rightarrow> string \<Rightarrow> ('s packState, unit) go" where
  "executeExportCommand env r CACHE_DROP_IN_PATH credentialsFilepath outputDirpath version =
     tryM (getAddOnTarget env credentialsFilepath version) (\<lambda>addOnTarget.
     exporter_Export r (env_tempName env) CACHE_DROP_IN_PATH addOnTarget outputDirpath (getExportFilename addOnTarget))"

section \<open>Where exported files land\<close>

lemma cutOut_absent: "\<not> Contains s sub \<Longrightarrow> cutOut sub s = s"
proof (induction s)
  case Nil
  then show ?case by (simp add: cutOut.simps)
next
  case (Cons c s)
  then show ?case by (subst cutOut.simps) (auto simp: HasPrefix_def)
qed

lemma cutOut_before:
  "sub \<noteq> [] \<Longrightarrow> CHR ''/'' \<notin> set sub \<Longrightarrow> \<not> Contains pre sub \<Longrightarrow>
   cutOut sub (pre @ CHR ''/'' # s) = pre @ CHR ''/'' # cutOut sub s"
proof (induction pre)
  case Nil
  then show ?case by (subst cutOut.simps) (cases sub; auto)
next
  case (Cons c pre)
  have "take (length sub) (c # pre @ CHR ''/'' # s) \<noteq> sub"
  proof (cases "length sub \<le> Suc (length pre)")
    case True
    then have "take (length sub) ((c # pre) @ CHR ''/'' # s) = take (length sub) (c # pre)" by (subst take_append) simp
    then show ?thesis using Cons.prems(3) by (simp add: HasPrefix_def)
  next
    case False
    then have "CHR ''/'' \<in> set (take (length sub) (c # pre @ CHR ''/'' # s))" by (auto simp: take_Cons')
    then show ?thesis using Cons.prems(2) by metis
  qed
  then show ?case using Cons by (subst cutOut.simps) simp
qed

lemma cutOut_at: "sub \<noteq> [] \<Longrightarrow> cutOut sub (sub @ CHR ''/'' # s) = cutOut sub s"
  by (subst cutOut.simps) (cases sub; simp add: dropSlash_def)


lemma joinPath_segments:
  assumes "list_all cleanSeg ws" and "ws \<noteq> []"
  shows "joinPath d (Join ws ''/'') = d @ ws"
proof -
  have "Split (Join ws ''/'') (CHR ''/'') = ws" using assms by (intro Split_Join) (auto simp: list_all_iff cleanSeg_def)
  then show ?thesis using clean_fold [of ws d] assms(1) by (simp add: joinPath_def list_all_iff)
qed

text \<open>
  C24. An exported file is unpacked where the drop-in registry looks for it: the name it gets in the archive leads
  from the drop-in folder to the folder of the add-on and its version, without the folder of the platform. This
  needs that the name of the platform folder does not occur in the names of the add-on, the version or the file.
\<close>

theorem exported_files_land_in_drop_in_layout:
  assumes "list_all cleanSeg [NormalizeCodeName (art_Repository t), art_Version t, GetSubdirectoryNameFor p, file]"
    and "\<not> Contains (NormalizeCodeName (art_Repository t)) (GetSubdirectoryNameFor p)"
    and "\<not> Contains (art_Version t) (GetSubdirectoryNameFor p)" and "\<not> Contains file (GetSubdirectoryNameFor p)"
  shows "\<exists>name. headerNameFunc tmp p (GetPullDirectory t p tmp @ [file]) = Ok name
    \<and> joinPath root name = joinPath (joinPath root (NormalizeCodeName (art_Repository t))) (art_Version t) @ [file]"
proof -
  let ?r = "NormalizeCodeName (art_Repository t)" and ?s = "GetSubdirectoryNameFor p"
  have "?s \<noteq> []" "CHR ''/'' \<notin> set ?s" using assms(1) by (simp_all add: cleanSeg_def)
  then have "cutOut ?s (?r @ CHR ''/'' # art_Version t @ CHR ''/'' # ?s @ CHR ''/'' # file)
      = ?r @ CHR ''/'' # art_Version t @ CHR ''/'' # file"
    using assms(2-4) by (simp add: cutOut_before cutOut_at cutOut_absent)
  moreover have "relPath tmp (GetPullDirectory t p tmp @ [file]) = ?r @ CHR ''/'' # art_Version t @ CHR ''/'' # ?s @ CHR ''/'' # file"
    using assms(1) by (simp add: GetPullDirectory_def joinPath_clean relPath_def)
  moreover have "joinPath root (?r @ CHR ''/'' # art_Version t @ CHR ''/'' # file) = root @ [?r, art_Version t, file]"
    using joinPath_segments [of "[?r, art_Version t, file]" root] assms(1) by simp
  ultimately show ?thesis using assms(1) by (simp add: headerNameFunc_def joinPath_clean)
qed

definition sampleRepositoryTarget :: "unit AddOnRepositoryTarget" where
  "sampleRepositoryTarget =
     \<lparr>art_target = \<lparr>repo_Resolve = (\<lambda>_. fail errNotFound), repo_FetchAll = (\<lambda>_. fail errNotFound),
        repo_Fetch = (\<lambda>_. fail errNotFound), repo_MapDescriptorSize = (\<lambda>_. desc_Size)\<rparr>,
      art_Version = ''1.0-1'', art_Repository = ''acme/app''\<rparr>"

theorem exported_files_land_in_drop_in_layout_witness:
  "\<exists>name. headerNameFunc [''tmp''] \<lparr>pl_Architecture = ''arm64'', pl_OS = ''linux''\<rparr>
      (GetPullDirectory sampleRepositoryTarget \<lparr>pl_Architecture = ''arm64'', pl_OS = ''linux''\<rparr> [''tmp''] @ [''image-manifest.json'']) = Ok name
    \<and> joinPath [''drop-in''] name = [''drop-in'', ''app'', ''1.0-1'', ''image-manifest.json'']"
proof -
  let ?p = "\<lparr>pl_Architecture = ''arm64'', pl_OS = ''linux''\<rparr>" and ?t = sampleRepositoryTarget
  have n: "NormalizeCodeName (art_Repository ?t) = ''app''" by code_simp
  have c: "list_all cleanSeg [NormalizeCodeName (art_Repository ?t), art_Version ?t, GetSubdirectoryNameFor ?p, ''image-manifest.json'']"
    by code_simp
  have k: "\<not> Contains (NormalizeCodeName (art_Repository ?t)) (GetSubdirectoryNameFor ?p)"
    "\<not> Contains (art_Version ?t) (GetSubdirectoryNameFor ?p)" "\<not> Contains ''image-manifest.json'' (GetSubdirectoryNameFor ?p)"
    by code_simp+
  have j: "joinPath (joinPath [''drop-in''] ''app'') (art_Version ?t) @ [''image-manifest.json'']
      = [''drop-in'', ''app'', ''1.0-1'', ''image-manifest.json'']"
    by code_simp
  from exported_files_land_in_drop_in_layout [OF c k, of "[''tmp'']" "[''drop-in'']"] j show ?thesis by (simp add: n)
qed

end
