(* ===== verification/CommandLine.thy ===== *)
theory CommandLine
  imports PackageReader
begin

text \<open>
  The commands of the packager \<^verbatim>\<open>uc-aop\<close> with their flags: \<^verbatim>\<open>internal/aop/cmd/root.go\<close> and the constructors in
  \<^verbatim>\<open>push.go\<close>, \<^verbatim>\<open>pull.go\<close> and \<^verbatim>\<open>export.go\<close>. Finding the command of a call and parsing its flags is done by \<^verbatim>\<open>cobra\<close> and
  \<^verbatim>\<open>pflag\<close>, which are parameters; cobra refuses a call without a required flag before it runs the command.
\<close>

section \<open>Commands and flags\<close>

record cobraFlag =
  fl_Name :: string
  fl_Shorthand :: string
  fl_Default :: string
  fl_Required :: bool

record cobraCommand =
  cmd_Use :: string
  cmd_Flags :: "cobraFlag list"

definition stringFlag :: "string \<Rightarrow> string \<Rightarrow> bool \<Rightarrow> cobraFlag" where
  "stringFlag name shorthand required =
     \<lparr>fl_Name = name, fl_Shorthand = shorthand, fl_Default = [], fl_Required = required\<rparr>"

definition NewPushCommand :: cobraCommand where
  "NewPushCommand =
     \<lparr>cmd_Use = ''push'',
      cmd_Flags = [stringFlag ''source-credentials'' ''s'' True, stringFlag ''target-credentials'' ''t'' True,
        stringFlag ''manifest'' ''m'' True]\<rparr>"

definition NewPullCmd :: cobraCommand where
  "NewPullCmd =
     \<lparr>cmd_Use = ''pull'',
      cmd_Flags = [stringFlag ''target-credentials'' ''t'' True, stringFlag ''output'' ''o'' True, stringFlag ''version'' [] True,
        \<lparr>fl_Name = ''extract'', fl_Shorthand = ''x'', fl_Default = ''true'', fl_Required = False\<rparr>]\<rparr>"

definition NewExportCmd :: cobraCommand where
  "NewExportCmd =
     \<lparr>cmd_Use = ''export'',
      cmd_Flags = [stringFlag ''target-credentials'' ''t'' True, stringFlag ''output'' ''o'' False, stringFlag ''version'' [] True]\<rparr>"

text \<open>The root command; \<^verbatim>\<open>uc-aop\<close> stands for the base name of the executable.\<close>

definition rootCmd :: cobraCommand where
  "rootCmd =
     \<lparr>cmd_Use = ''uc-aop'',
      cmd_Flags = [\<lparr>fl_Name = ''version'', fl_Shorthand = [], fl_Default = ''false'', fl_Required = False\<rparr>]\<rparr>"

text \<open>
  \<open>cb_Find\<close>: the command a call names and the arguments that are left; \<open>cb_Parse\<close>: the flags a call sets, with
  their values; \<open>cb_HelpRequested\<close>: parsing the call with the flags of the root ends with \<^verbatim>\<open>pflag.ErrHelp\<close>;
  \<open>cb_Verbosity\<close>: how often the flag \<^verbatim>\<open>-v\<close> is given.
\<close>

record cobra =
  cb_Find :: "string list \<Rightarrow> (cobraCommand \<times> string list) res"
  cb_Parse :: "cobraCommand \<Rightarrow> string list \<Rightarrow> (string \<times> string) list res"
  cb_HelpRequested :: "string list \<Rightarrow> bool"
  cb_VersionRequested :: "string list \<Rightarrow> bool"
  cb_Verbosity :: "string list \<Rightarrow> int"

definition flagValue :: "cobraCommand \<Rightarrow> (string \<times> string) list \<Rightarrow> string \<Rightarrow> string" where
  "flagValue c given name =
     (case map_of given name of
        Some v \<Rightarrow> v
      | None \<Rightarrow> (case find (\<lambda>f. fl_Name f = name) (cmd_Flags c) of Some f \<Rightarrow> fl_Default f | None \<Rightarrow> []))"

definition missingFlags :: "cobraCommand \<Rightarrow> (string \<times> string) list \<Rightarrow> string list" where
  "missingFlags c given = map fl_Name (filter (\<lambda>f. fl_Required f \<and> map_of given (fl_Name f) = None) (cmd_Flags c))"

section \<open>root.go\<close>

datatype logLevel = WarnLevel | InfoLevel | DebugLevel | TraceLevel

definition setLoggingVerbosity :: "int \<Rightarrow> logLevel" where
  "setLoggingVerbosity verbosity =
     (if verbosity = 0 then WarnLevel else if verbosity = 1 then InfoLevel else if verbosity = 2 then DebugLevel else TraceLevel)"

record 's cliState =
  cli_Level :: logLevel
  cli_Pack :: "'s packState"

definition onPack :: "('s packState, 'a) go \<Rightarrow> ('s cliState, 'a) go" where
  "onPack k = onPart cli_Pack (\<lambda>x s. s\<lparr>cli_Pack := x\<rparr>) k"

definition isRootCmd :: "cobraCommand \<Rightarrow> bool" where
  "isRootCmd command \<longleftrightarrow> cmd_Use command = cmd_Use rootCmd"

definition helpOrVersionInfoRequested :: "cobra \<Rightarrow> string list \<Rightarrow> bool" where
  "helpOrVersionInfoRequested cb args \<longleftrightarrow> cb_HelpRequested cb args \<or> cb_VersionRequested cb args"

text \<open>The arguments after \<^verbatim>\<open>handleDeprecatedSyntax\<close>.\<close>

definition handleDeprecatedSyntax :: "cobra \<Rightarrow> string list \<Rightarrow> string list" where
  "handleDeprecatedSyntax cb args =
     (case cb_Find cb args of
        Ok (command, _) \<Rightarrow>
          if \<not> isRootCmd command \<or> helpOrVersionInfoRequested cb args then args else ''push'' # args
      | _ \<Rightarrow> args)"

definition withFlags ::
  "cobra \<Rightarrow> cobraCommand \<Rightarrow> string list \<Rightarrow> ((string \<Rightarrow> string) \<Rightarrow> ('s packState, unit) go) \<Rightarrow> ('s cliState, unit) go" where
  "withFlags cb c args runE =
     tryM (liftR (cb_Parse cb c args)) (\<lambda>given.
     if missingFlags c given \<noteq> [] then fail (ErrorString (''required flag(s) '' @ Join (missingFlags c given) '', '' @ '' not set''))
     else
       tryM (modifyM (\<lambda>s. s\<lparr>cli_Level := setLoggingVerbosity (cb_Verbosity cb args)\<rparr>)) (\<lambda>_.
       onPack (runE (flagValue c given))))"

definition runPush :: "('s, 'm) pushEnv \<Rightarrow> (string \<Rightarrow> string) \<Rightarrow> ('s packState, unit) go" where
  "runPush env flag =
     executePushCommand env (toPath (flag ''source-credentials'')) (toPath (flag ''target-credentials'')) (toPath (flag ''manifest''))"

definition runPull :: "('s, 'm) pushEnv \<Rightarrow> 's PackageReader \<Rightarrow> (string \<Rightarrow> string) \<Rightarrow> ('s packState, unit) go" where
  "runPull env r flag =
     executePullCommand env r (toPath (flag ''target-credentials'')) (toPath (flag ''output'')) (flag ''version'') (flag ''extract'' = ''true'')"

definition runExport :: "('s, 'm) pushEnv \<Rightarrow> 's PackageReader \<Rightarrow> string \<Rightarrow> (string \<Rightarrow> string) \<Rightarrow> ('s packState, unit) go" where
  "runExport env r CACHE_DROP_IN_PATH flag =
     executeExportCommand env r CACHE_DROP_IN_PATH (toPath (flag ''target-credentials'')) (toPath (flag ''output'')) (flag ''version'')"

text \<open>
  The result is an error where the process exits with the status 1. The root command prints the version or
  nothing.
\<close>

definition Execute ::
  "cobra \<Rightarrow> ('s, 'm) pushEnv \<Rightarrow> 's PackageReader \<Rightarrow> string \<Rightarrow> string list \<Rightarrow> ('s cliState, unit) go" where
  "Execute cb env r CACHE_DROP_IN_PATH args =
     tryM (liftR (cb_Find cb (handleDeprecatedSyntax cb args))) (\<lambda>(command, rest).
     if cmd_Use command = ''push'' then withFlags cb NewPushCommand rest (runPush env)
     else if cmd_Use command = ''pull'' then withFlags cb NewPullCmd rest (runPull env r)
     else if cmd_Use command = ''export'' then withFlags cb NewExportCmd rest (runExport env r CACHE_DROP_IN_PATH)
     else tryM (liftR (cb_Parse cb rootCmd rest)) (\<lambda>_. ret ()))"

section \<open>Calls\<close>

text \<open>The documented behaviour of \<^verbatim>\<open>Find\<close> on a call that starts with the name of a command.\<close>

definition findsPush :: "cobra \<Rightarrow> bool" where
  "findsPush cb \<longleftrightarrow> (\<forall>args. cb_Find cb (''push'' # args) = Ok (NewPushCommand, args))"

text \<open>
  A call without a command is a push. Unless it asks for help or the version, it does what the call with the
  command \<^verbatim>\<open>push\<close> in front does; and without one of the three flags of \<^verbatim>\<open>push\<close> either call is refused before a file
  or a registry is touched.
\<close>

theorem call_without_command_is_push:
  assumes "findsPush cb" and "cb_Find cb args = Ok (rootCmd, rest)" and "\<not> helpOrVersionInfoRequested cb args"
  shows "Execute cb env r cachePath args = Execute cb env r cachePath (''push'' # args)
    \<and> (\<forall>given. cb_Parse cb NewPushCommand args = Ok given \<and> \<not> {''source-credentials'', ''target-credentials'', ''manifest''} \<subseteq> fst ` set given
        \<longrightarrow> (\<exists>e. Execute cb env r cachePath args s = (Err e, s)))"
proof -
  have push_name: "cmd_Use NewPushCommand = ''push''" by (simp add: NewPushCommand_def)
  have d: "handleDeprecatedSyntax cb args = ''push'' # args"
    using assms(2,3) by (simp add: handleDeprecatedSyntax_def isRootCmd_def)
  have p: "handleDeprecatedSyntax cb (''push'' # args) = ''push'' # args"
    using assms(1) by (simp add: handleDeprecatedSyntax_def findsPush_def isRootCmd_def rootCmd_def push_name)
  have run: "Execute cb env r cachePath args = withFlags cb NewPushCommand args (runPush env)"
    using assms(1) by (simp add: Execute_def d findsPush_def tryM_pure push_name)
  have "\<exists>e. Execute cb env r cachePath args s = (Err e, s)"
    if "cb_Parse cb NewPushCommand args = Ok given"
      and "\<not> {''source-credentials'', ''target-credentials'', ''manifest''} \<subseteq> fst ` set given" for given
  proof -
    have "missingFlags NewPushCommand given \<noteq> []"
      using that(2) by (auto simp: missingFlags_def NewPushCommand_def stringFlag_def map_of_eq_None_iff)
    then show ?thesis unfolding run using that(1) by (simp add: withFlags_def tryM_pure)
  qed
  then show ?thesis using d p by (simp add: Execute_def)
qed

text \<open>A parser for calls of the form \<open>--flag value\<close>, and a call with a flag missing.\<close>

fun pairsOf :: "string list \<Rightarrow> (string \<times> string) list" where
  "pairsOf (f # v # rest) = (drop 2 f, v) # pairsOf rest"
| "pairsOf _ = []"

definition simpleCobra :: cobra where
  "simpleCobra =
     \<lparr>cb_Find = (\<lambda>args. case args of
          a # rest \<Rightarrow> if a = ''push'' then Ok (NewPushCommand, rest) else Ok (rootCmd, args)
        | [] \<Rightarrow> Ok (rootCmd, [])),
      cb_Parse = (\<lambda>_ args. Ok (pairsOf args)), cb_HelpRequested = (\<lambda>args. list_ex (\<lambda>a. a = ''--help'') args),
      cb_VersionRequested = (\<lambda>args. list_ex (\<lambda>a. a = ''--version'') args), cb_Verbosity = (\<lambda>args. 0)\<rparr>"

theorem call_without_command_is_push_witness:
  "\<forall>env r cachePath s.
     Execute simpleCobra env r cachePath [''--manifest'', ''app''] = Execute simpleCobra env r cachePath [''push'', ''--manifest'', ''app'']
     \<and> (\<exists>e. Execute simpleCobra env r cachePath [''--manifest'', ''app''] s = (Err e, s))"
proof (intro allI conjI)
  let ?args = "[''--manifest'', ''app'']"
  have h: "findsPush simpleCobra" "cb_Find simpleCobra ?args = Ok (rootCmd, ?args)" "\<not> helpOrVersionInfoRequested simpleCobra ?args"
    by (simp_all add: findsPush_def simpleCobra_def helpOrVersionInfoRequested_def)
  have g: "cb_Parse simpleCobra NewPushCommand ?args = Ok [(''manifest'', ''app'')]
      \<and> \<not> {''source-credentials'', ''target-credentials'', ''manifest''} \<subseteq> fst ` set [(''manifest'', ''app'')]"
    by (simp add: simpleCobra_def)
  show "Execute simpleCobra env r cachePath ?args = Execute simpleCobra env r cachePath [''push'', ''--manifest'', ''app'']"
    for env :: "('s, 'm) pushEnv" and r cachePath
    using call_without_command_is_push [OF h] by blast
  show "\<exists>e. Execute simpleCobra env r cachePath ?args s = (Err e, s)" for env :: "('s, 'm) pushEnv" and r cachePath s
    using call_without_command_is_push [OF h] g by blast
qed

end
