(* ===== verification/Containerd.thy ===== *)
theory Containerd
  imports Packager
begin

text \<open>
  The adapters that give \<^verbatim>\<open>containerd\<close> the images of a registry: \<^verbatim>\<open>internal/aop/registry/oci_registry_based_store.go\<close>,
  \<^verbatim>\<open>oci_repository_based_provider.go\<close> and \<^verbatim>\<open>oci_export_via_containerd.go\<close>. The exporter \<^verbatim>\<open>archive.Export\<close> is a
  parameter; it gets the two adapters and calls them back. With them the packager has its function
  \<open>exportDockerImageFunc\<close>.
\<close>

section \<open>The image store\<close>

record ociImage =
  img_Name :: string
  img_Target :: Descriptor

text \<open>\<^verbatim>\<open>log.Fatalf\<close> ends the process; the return statement behind it is not reached.\<close>

definition orFatal :: "string \<Rightarrow> ('s, 'a) go \<Rightarrow> ('s, 'a) go" where
  "orFatal msg call =
     tryM (attemptM call) (\<lambda>r. case r of Inl err \<Rightarrow> panicM (msg @ err_text err) | Inr x \<Rightarrow> ret x)"

definition store_Get :: "'s ociRegistry \<Rightarrow> string \<Rightarrow> ('s, ociImage) go" where
  "store_Get reg name =
     tryM (liftR (ToRepositoryAndTag name)) (\<lambda>(repository, tag).
     tryM (orFatal ''Could not initialize repository: '' (reg repository)) (\<lambda>ociRepository.
     tryM (repo_Resolve ociRepository tag) (\<lambda>manifest.
     ret \<lparr>img_Name = name, img_Target = manifest\<rparr>)))"

definition store_List :: "string list \<Rightarrow> ('s, ociImage list) go" where
  "store_List filters = panicM ''[List] not implemented''"

definition store_Create :: "ociImage \<Rightarrow> ('s, ociImage) go" where
  "store_Create im = panicM ''[Create] not implemented''"

definition store_Update :: "ociImage \<Rightarrow> string list \<Rightarrow> ('s, ociImage) go" where
  "store_Update im fieldpaths = panicM ''[Update] not implemented''"

definition store_Delete :: "string \<Rightarrow> ('s, unit) go" where
  "store_Delete name = panicM ''[Delete] not implemented''"

section \<open>The content provider\<close>

text \<open>A blob is read as a whole; \<open>readBytes\<close> gives the bytes of what a repository fetches.\<close>

record byteReaderAt =
  ra_reader :: "8 word list"

definition provider_ReaderAt ::
  "(reader \<Rightarrow> 8 word list res) \<Rightarrow> 's OrasRepository \<Rightarrow> Descriptor \<Rightarrow> ('s, byteReaderAt) go" where
  "provider_ReaderAt readBytes repository desc =
     tryM (repo_Fetch repository desc) (\<lambda>rc.
     tryM (liftR (readBytes rc)) (\<lambda>buff.
     ret \<lparr>ra_reader = buff\<rparr>))"

definition EOF :: goerror where
  "EOF = ErrorString ''EOF''"

text \<open>\<^verbatim>\<open>bytes.Reader.ReadAt\<close> into a buffer of \<open>n\<close> bytes: the bytes it gets and the error beside them.\<close>

definition ReadAt :: "byteReaderAt \<Rightarrow> nat \<Rightarrow> int \<Rightarrow> 8 word list \<times> goerror option" where
  "ReadAt r n off =
     (if off < 0 then ([], Some (ErrorString ''bytes.Reader.ReadAt: negative offset''))
      else if nat off \<ge> length (ra_reader r) then ([], Some EOF)
      else
        let p = take n (drop (nat off) (ra_reader r))
        in (p, if length p < n then Some EOF else None))"

definition ra_Size :: "byteReaderAt \<Rightarrow> int" where
  "ra_Size r = int (length (ra_reader r))"

definition ra_Close :: "byteReaderAt \<Rightarrow> unit res" where
  "ra_Close r = Ok ()"

section \<open>The export\<close>

type_synonym 's containerdExport =
  "(Descriptor \<Rightarrow> ('s, byteReaderAt) go) \<Rightarrow> Platform \<Rightarrow> (string \<Rightarrow> ('s, ociImage) go) \<Rightarrow> string \<Rightarrow> ('s, content option) go"

definition ExportUsingContainerd ::
  "'s containerdExport \<Rightarrow> (reader \<Rightarrow> 8 word list res) \<Rightarrow> 's ociRegistry \<Rightarrow> string \<Rightarrow> Platform \<Rightarrow> ('s, content option) go" where
  "ExportUsingContainerd archiveExport readBytes reg ref platform =
     tryM (liftR (ToRepositoryAndTag ref)) (\<lambda>(repository, _).
     tryM (orFatal ''Could not initialize repository: '' (reg repository)) (\<lambda>ociRepository.
     archiveExport (provider_ReaderAt readBytes ociRepository) platform (store_Get reg) ref))"

section \<open>What the exporter sees\<close>

text \<open>Reading a blob in consecutive pieces gives the blob; the error of the last piece tells that it is the last.\<close>

lemma ReadAt_piece: "fst (ReadAt r n (int i)) = take n (drop i (ra_reader r))"
  by (simp add: ReadAt_def Let_def)

lemma ReadAt_pieces:
  "concat (map (\<lambda>i. fst (ReadAt r n (int (i * n)))) [0..<k]) = take (k * n) (ra_reader r)"
  by (induction k) (simp_all add: ReadAt_piece add.commute flip: take_add del: of_nat_mult)

lemma ReadAt_end: "0 < n \<Longrightarrow> snd (ReadAt r n (int i)) = None \<longleftrightarrow> int (i + n) \<le> ra_Size r"
  by (auto simp: ReadAt_def ra_Size_def Let_def)

text \<open>The store names the image by its reference and targets what the tag resolves to, in the repository the blobs come from.\<close>

lemma store_Get_resolves:
  assumes "ToRepositoryAndTag ref = Ok (repository, tag)" and "reg repository s = (Ok repo, s')"
    and "repo_Resolve repo tag s' = (Ok desc, s'')"
  shows "store_Get reg ref s = (Ok \<lparr>img_Name = ref, img_Target = desc\<rparr>, s'')"
  using assms by (simp add: store_Get_def orFatal_def tryM_def attemptM_def)

text \<open>A reference without a tag is refused before any registry is asked, and so is exporting it.\<close>

lemma no_tag_is_refused:
  "CHR '':'' \<notin> set ref \<Longrightarrow> store_Get reg ref s = (Err (ErrorString (''Could not find tag: '' @ ref)), s)
     \<and> ExportUsingContainerd archiveExport readBytes reg ref platform s = (Err (ErrorString (''Could not find tag: '' @ ref)), s)"
  by (simp add: store_Get_def ExportUsingContainerd_def ToRepositoryAndTag_def Split_sepfree tryM_def liftR_def)

end
