(* ===== verification/Routes.thy ===== *)
theory Routes
  imports FileSystem
begin

text \<open>
  \<^verbatim>\<open>internal/aom/routes\<close>: the nginx configuration of an add-on's web interface
  (\<^verbatim>\<open>reverse_proxy.go\<close>) and its migration (\<^verbatim>\<open>migrate.go\<close>).

  A route is two files, a site configuration and an entry of the permission map, each enabled by a
  symbolic link; after every change nginx is reloaded through systemd. What systemd answers (package
  \<^verbatim>\<open>go-systemd\<close>, behind \<^verbatim>\<open>dbus.Factory\<close>) is the parameter \<open>rp_factory\<close>, a function of the files on
  disk.
\<close>

section \<open>Data\<close>

datatype reloadOutcome = DialFailed goerror | ReloadFailed goerror | Timeout | JobResult string

record ReverseProxy =
  rp_factory :: "FS \<Rightarrow> reloadOutcome"
  sitesAvailablePath :: path
  sitesEnabledPath :: path
  routesMapAvailablePath :: path
  routesMapEnabledPath :: path
  rp_writeToFile :: "path \<Rightarrow> content \<Rightarrow> (FS, unit) go"
  rp_deleteFile :: "path \<Rightarrow> (FS, unit) go"
  rp_createSymbolicLink :: "path \<Rightarrow> path \<Rightarrow> (FS, unit) go"
  rp_removeSymbolicLink :: "path \<Rightarrow> (FS, unit) go"

record ReverseProxyMap =
  rpm_AddOnName :: string
  rpm_AddOnTitle :: string
  rpm_To :: string
  rpm_Id :: string

record ReverseProxyHttpConf =
  rpc_AddOnName :: string
  rpc_Route :: ProxyRoute

text \<open>\<^verbatim>\<open>cmd/aom.go\<close> builds the proxy with its own file commands.\<close>

definition NewReverseProxy :: "(FS \<Rightarrow> reloadOutcome) \<Rightarrow> path \<Rightarrow> path \<Rightarrow> path \<Rightarrow> path \<Rightarrow> ReverseProxy" where
  "NewReverseProxy factory sitesAvailable sitesEnabled mapAvailable mapEnabled =
     \<lparr>rp_factory = factory, sitesAvailablePath = sitesAvailable, sitesEnabledPath = sitesEnabled,
      routesMapAvailablePath = mapAvailable, routesMapEnabledPath = mapEnabled,
      rp_writeToFile = writeToFile, rp_deleteFile = deleteFile,
      rp_createSymbolicLink = createSymbolicLink, rp_removeSymbolicLink = deleteFile\<rparr>"

definition CreatePrefixedRouteFilenameId :: "string \<Rightarrow> string \<Rightarrow> string" where
  "CreatePrefixedRouteFilenameId addOnName routeId = addOnName @ ''-'' @ routeId"

section \<open>Templates\<close>

definition nl :: char where
  "nl = CHR 0x0A"

definition textLines :: "string list \<Rightarrow> string" where
  "textLines ls = concat (map (\<lambda>l. l @ [nl]) ls)"

definition UcAomVersion :: string where
  "UcAomVersion = ''0.5.3''"

definition UcAomVersionLabel :: string where
  "UcAomVersionLabel = ''com.weidmueller.uc.aom.version''"

definition TemplateVersionV0_1_0 :: string where
  "TemplateVersionV0_1_0 = ''0.1.0''"

definition TemplateVersion :: string where
  "TemplateVersion = ''0.2.0''"

definition TemplateVersionLabel :: string where
  "TemplateVersionLabel = ''com.weidmueller.uc.aom.reverse-proxy.version''"

definition quoted :: "string \<Rightarrow> string" where
  "quoted s = CHR 0x22 # s @ [CHR 0x22]"

definition newMetaData :: "(string \<times> string) list" where
  "newMetaData = [(UcAomVersionLabel, UcAomVersion), (TemplateVersionLabel, TemplateVersion)]"

text \<open>\<^verbatim>\<open>json.Marshal\<close> of a map of plain strings: the members sorted by key.\<close>

definition metadata_ToString :: "(string \<times> string) list \<Rightarrow> string" where
  "metadata_ToString m =
     ''{'' @ Join (map (\<lambda>(k, v). quoted k @ '':'' @ quoted v) (sort_key fst m)) '','' @ ''}''"

definition reverseProxyConfigTemplate :: "ReverseProxyHttpConf \<Rightarrow> string" where
  "reverseProxyConfigTemplate c =
     (let loc = rpc_AddOnName c @ To (rpc_Route c)
      in textLines
        [[],
         ''# '' @ metadata_ToString newMetaData,
         ''location /'' @ loc @ '' {'',
         [],
         ''    return 301 $scheme://$host/'' @ loc @ ''/$request_uri;'',
         [],
         ''    location /'' @ loc @ ''/ {'',
         ''        proxy_pass '' @ From (rpc_Route c) @ ''/;'',
         [],
         ''        proxy_http_version 1.1;'',
         [],
         ''        proxy_set_header Upgrade $http_upgrade;'',
         ''        proxy_set_header Connection $connection_upgrade;'',
         [],
         ''        client_max_body_size 0;'',
         ''        client_body_timeout 30m;'',
         ''    }'',
         ''}''])"

definition reverseProxyMapTemplate :: "ReverseProxyMap \<Rightarrow> string" where
  "reverseProxyMapTemplate m =
     textLines
       [[],
        ''# '' @ metadata_ToString newMetaData,
        ''# '' @ rpm_AddOnTitle m @ '' Add-on UI'',
        ''~^/+'' @ rpm_AddOnName m @ rpm_To m @ ''.*$    '' @ rpm_Id m @ ''.access;'',
        []]"

definition NewReverseProxyHttpConf :: "string \<Rightarrow> ProxyRoute \<Rightarrow> ReverseProxyHttpConf" where
  "NewReverseProxyHttpConf name location = \<lparr>rpc_AddOnName = name, rpc_Route = location\<rparr>"

section \<open>Paths\<close>

definition getFilepath :: "path \<Rightarrow> string \<Rightarrow> path" where
  "getFilepath parent name = joinPath parent (name @ ''.http.conf'')"

definition getMapFilepath :: "path \<Rightarrow> string \<Rightarrow> path" where
  "getMapFilepath parent name = joinPath parent (name @ ''-proxy.map'')"

definition getSitesAvailableFilepath :: "ReverseProxy \<Rightarrow> string \<Rightarrow> path" where
  "getSitesAvailableFilepath r i = getFilepath (sitesAvailablePath r) i"

definition getSitesEnabledFilepath :: "ReverseProxy \<Rightarrow> string \<Rightarrow> path" where
  "getSitesEnabledFilepath r i = getFilepath (sitesEnabledPath r) i"

definition getRoutesMapAvailableFilepath :: "ReverseProxy \<Rightarrow> string \<Rightarrow> path" where
  "getRoutesMapAvailableFilepath r i = getMapFilepath (routesMapAvailablePath r) i"

definition getRoutesMapEnabledFilepath :: "ReverseProxy \<Rightarrow> string \<Rightarrow> path" where
  "getRoutesMapEnabledFilepath r i = getMapFilepath (routesMapEnabledPath r) i"

section \<open>Operations\<close>

definition reload :: "ReverseProxy \<Rightarrow> (FS, unit) go" where
  "reload r fs =
     (case rp_factory r fs of
        DialFailed e \<Rightarrow> (Err e, fs)
      | ReloadFailed e \<Rightarrow> (Err e, fs)
      | Timeout \<Rightarrow> (Err (ErrorString ''context deadline exceeded''), fs)
      | JobResult result \<Rightarrow>
          if result \<noteq> ''done''
          then (Err (ErrorString (''Restart of nginx.service returned: '' @ result)), fs)
          else (Ok (), fs))"

definition reverseProxy_Create ::
  "ReverseProxy \<Rightarrow> string \<Rightarrow> ReverseProxyMap \<Rightarrow> ReverseProxyHttpConf \<Rightarrow> (FS, unit) go" where
  "reverseProxy_Create r filenameId reverseProxyMap reverseProxyHttpConf =
     (let configFilepath = getSitesAvailableFilepath r filenameId;
          mapFilepath = getRoutesMapAvailableFilepath r filenameId;
          escapedMap = reverseProxyMap\<lparr>rpm_To := ReplaceAll (rpm_To reverseProxyMap) (CHR ''/'') ''/+''\<rparr>
      in
        tryM (rp_writeToFile r configFilepath (Text (reverseProxyConfigTemplate reverseProxyHttpConf))) (\<lambda>_.
        tryM (rp_createSymbolicLink r configFilepath (getSitesEnabledFilepath r filenameId)) (\<lambda>_.
        tryM (rp_writeToFile r mapFilepath (Text (reverseProxyMapTemplate escapedMap))) (\<lambda>_.
        tryM (rp_createSymbolicLink r mapFilepath (getRoutesMapEnabledFilepath r filenameId)) (\<lambda>_.
        reload r)))))"

definition reverseProxy_Delete :: "ReverseProxy \<Rightarrow> string \<Rightarrow> (FS, unit) go" where
  "reverseProxy_Delete r i =
     tryM (rp_removeSymbolicLink r (getSitesEnabledFilepath r i)) (\<lambda>_.
     tryM (rp_deleteFile r (getSitesAvailableFilepath r i)) (\<lambda>_.
     tryM (rp_removeSymbolicLink r (getRoutesMapEnabledFilepath r i)) (\<lambda>_.
     tryM (rp_deleteFile r (getRoutesMapAvailableFilepath r i)) (\<lambda>_.
     reload r))))"

section \<open>Migration of routes\<close>

text \<open>The interface \<^verbatim>\<open>ReverseProxyCreater\<close>, as the pair of its methods.\<close>

record 'w ReverseProxyCreater =
  rpc_Create :: "string \<Rightarrow> ReverseProxyMap \<Rightarrow> ReverseProxyHttpConf \<Rightarrow> ('w, unit) go"
  rpc_Delete :: "string \<Rightarrow> ('w, unit) go"

definition asCreater :: "ReverseProxy \<Rightarrow> FS ReverseProxyCreater" where
  "asCreater r = \<lparr>rpc_Create = reverseProxy_Create r, rpc_Delete = reverseProxy_Delete r\<rparr>"

definition migrateV0_1_0 ::
  "'w ReverseProxyCreater \<Rightarrow> string \<Rightarrow> string \<Rightarrow> string \<Rightarrow> ProxyRoute gomap \<Rightarrow> ('w, unit) go" where
  "migrateV0_1_0 proxy name title permissionId proxyRoute =
     tryM (eachM (\<lambda>(i, _). rpc_Delete proxy (CreatePrefixedRouteFilenameId name i)) (entries proxyRoute)) (\<lambda>_.
     eachM (\<lambda>(i, location).
       rpc_Create proxy (CreatePrefixedRouteFilenameId name i)
         \<lparr>rpm_AddOnName = name, rpm_AddOnTitle = title, rpm_To = To location, rpm_Id = permissionId\<rparr>
         (NewReverseProxyHttpConf name location))
       (entries proxyRoute))"

definition reverseProxyMigrator_Migrate ::
  "'w ReverseProxyCreater \<Rightarrow> string \<Rightarrow> string \<Rightarrow> string \<Rightarrow> string \<Rightarrow> ProxyRoute gomap \<Rightarrow> ('w, unit) go" where
  "reverseProxyMigrator_Migrate proxy name versionToMigrate title permissionId proxyRoute =
     (if versionToMigrate = TemplateVersionV0_1_0 then migrateV0_1_0 proxy name title permissionId proxyRoute
      else if versionToMigrate = TemplateVersion then ret ()
      else fail (ErrorString (''Template version '' @ versionToMigrate @ '' is unknown'')))"

section \<open>A file and the link that enables it\<close>

text \<open>Either neither exists, or the file does and the link, if there is one, points to it.\<close>

definition pairOK :: "path \<Rightarrow> path \<Rightarrow> FS \<Rightarrow> bool" where
  "pairOK p l fs \<longleftrightarrow>
     (node fs p = None \<and> node fs l = None) \<or>
     ((\<exists>c. node fs p = Some (File c)) \<and> (node fs l = None \<or> node fs l = Some (Link p)))"

definition removable :: "FS \<Rightarrow> path \<Rightarrow> bool" where
  "removable fs p \<longleftrightarrow> p \<noteq> [] \<and> \<not> faulty fs OpStat p \<and> \<not> faulty fs OpRemove p"

lemma writeToFile_cases:
  assumes "p \<noteq> []" and "node fs p = None" and "writeToFile p (Text c) fs = (r, fs')"
  shows "faulty fs' = faulty fs \<and> (\<forall>q. q \<noteq> p \<longrightarrow> node fs' q = node fs q) \<and>
    (r = Ok () \<and> node fs' p = Some (File (Text c)) \<or> (\<exists>e. r = Err e) \<and> (node fs' p = None \<or> (\<exists>d. node fs' p = Some (File d))))"
  using assms resolve_plain [of fs p]
  by (auto simp: writeToFile_def osOpenCreate_def tryM_def osWrite_def split: if_splits)

lemma osSymlink_cases:
  assumes "l \<noteq> []" and "osSymlink t l fs = (r, fs')" and "node fs l = None"
  shows "faulty fs' = faulty fs \<and> (\<forall>q. q \<noteq> l \<longrightarrow> node fs' q = node fs q) \<and>
    (r = Ok () \<and> node fs' l = Some (Link t) \<or> (\<exists>e. r = Err e) \<and> node fs' l = None)"
  using assms by (auto simp: osSymlink_def split: if_splits)

text \<open>Writing the file and linking it, however it ends, leaves a consistent pair.\<close>

definition putPair :: "path \<Rightarrow> path \<Rightarrow> string \<Rightarrow> (FS, unit) go" where
  "putPair p l c = tryM (writeToFile p (Text c)) (\<lambda>_. createSymbolicLink p l)"

lemma putPair_cases:
  assumes pl: "p \<noteq> []" "l \<noteq> []" "p \<noteq> l" and none: "node fs p = None" "node fs l = None"
    and run: "putPair p l c fs = (r, fs')"
  shows "faulty fs' = faulty fs \<and> (\<forall>q. q \<noteq> p \<longrightarrow> q \<noteq> l \<longrightarrow> node fs' q = node fs q) \<and> pairOK p l fs' \<and>
    (r = Ok () \<and> node fs' p = Some (File (Text c)) \<and> node fs' l = Some (Link p) \<or> (\<exists>e. r = Err e))"
proof -
  obtain r1 fs1 where w: "writeToFile p (Text c) fs = (r1, fs1)" by (cases "writeToFile p (Text c) fs")
  note w' = writeToFile_cases [OF pl(1) none(1) w]
  show ?thesis
  proof (cases "r1 = Ok ()")
    case True
    have "osSymlink p l fs1 = (r, fs')" using run w True by (simp add: putPair_def tryM_def createSymbolicLink_def)
    from osSymlink_cases [OF pl(2) this] w' pl none True show ?thesis by (auto simp: pairOK_def)
  next
    case False
    then obtain e where "r1 = Err e" using w' by auto
    with run w w' pl none show ?thesis by (auto simp: putPair_def tryM_def pairOK_def)
  qed
qed

definition dropPair :: "path \<Rightarrow> path \<Rightarrow> (FS, unit) go" where
  "dropPair p l = tryM (deleteFile l) (\<lambda>_. deleteFile p)"

lemma dropPair_restores:
  assumes "pairOK p l fs" "removable fs p" "removable fs l" "p \<noteq> l"
  shows "\<exists>fs'. dropPair p l fs = (Ok (), fs') \<and> faulty fs' = faulty fs \<and>
    (\<forall>q. node fs' q = (if q = p \<or> q = l then None else node fs q))"
proof -
  have l: "\<exists>fs1. deleteFile l fs = (Ok (), fs1) \<and> faulty fs1 = faulty fs \<and>
      (\<forall>q. node fs1 q = (if q = l then None else node fs q))"
    using assms deleteFile_removes [of l fs] deleteFile_missing [of l fs]
    by (cases "node fs l = None") (auto simp: pairOK_def removable_def)
  then obtain fs1 where fs1: "deleteFile l fs = (Ok (), fs1)" "faulty fs1 = faulty fs"
    "\<And>q. node fs1 q = (if q = l then None else node fs q)" by blast
  have p: "node fs1 p = node fs p" "p \<noteq> []" using fs1(3) assms by (auto simp: removable_def)
  have "\<exists>fs2. deleteFile p fs1 = (Ok (), fs2) \<and> faulty fs2 = faulty fs1 \<and>
      (\<forall>q. node fs2 q = (if q = p then None else node fs1 q))"
    using assms p fs1(2) deleteFile_removes [of p fs1] deleteFile_missing [of p fs1]
    by (cases "node fs1 p = None") (auto simp: pairOK_def removable_def)
  then show ?thesis using fs1 by (auto simp: dropPair_def tryM_def)
qed

lemma reload_state [simp]: "snd (reload r fs) = fs"
  by (auto simp: reload_def split: reloadOutcome.splits)

section \<open>The four files of a route\<close>

definition daemonProxy :: "ReverseProxy \<Rightarrow> bool" where
  "daemonProxy r \<longleftrightarrow>
     rp_writeToFile r = writeToFile \<and> rp_deleteFile r = deleteFile \<and>
     rp_createSymbolicLink r = createSymbolicLink \<and> rp_removeSymbolicLink r = deleteFile \<and>
     sitesAvailablePath r \<noteq> sitesEnabledPath r \<and> routesMapAvailablePath r \<noteq> routesMapEnabledPath r"

definition routePaths :: "ReverseProxy \<Rightarrow> string \<Rightarrow> path list" where
  "routePaths r i =
     [getSitesAvailableFilepath r i, getSitesEnabledFilepath r i,
      getRoutesMapAvailableFilepath r i, getRoutesMapEnabledFilepath r i]"

lemma joinPath_segment: "CHR ''/'' \<notin> set n \<Longrightarrow> n \<noteq> [] \<Longrightarrow> n \<noteq> ''.'' \<Longrightarrow> n \<noteq> ''..'' \<Longrightarrow> joinPath d n = d @ [n]"
  by (simp add: joinPath_def Split_sepfree)

lemma getFilepath_segment: "CHR ''/'' \<notin> set i \<Longrightarrow> getFilepath d i = d @ [i @ ''.http.conf'']"
proof -
  assume "CHR ''/'' \<notin> set i"
  moreover have "i @ ''.http.conf'' \<noteq> ''.''" "i @ ''.http.conf'' \<noteq> ''..''"
    by (auto dest: arg_cong [where f = length])
  ultimately show ?thesis by (simp add: getFilepath_def joinPath_segment)
qed

lemma getMapFilepath_segment: "CHR ''/'' \<notin> set i \<Longrightarrow> getMapFilepath d i = d @ [i @ ''-proxy.map'']"
proof -
  assume "CHR ''/'' \<notin> set i"
  moreover have "i @ ''-proxy.map'' \<noteq> ''.''" "i @ ''-proxy.map'' \<noteq> ''..''"
    by (auto dest: arg_cong [where f = length])
  ultimately show ?thesis by (simp add: getMapFilepath_def joinPath_segment)
qed

lemma conf_map_differ: "a @ ''.http.conf'' \<noteq> b @ ''-proxy.map''"
proof
  assume "a @ ''.http.conf'' = b @ ''-proxy.map''"
  from arg_cong [OF this, where f = last] show False by simp
qed

lemma routePaths_distinct:
  assumes "daemonProxy r" "CHR ''/'' \<notin> set i"
  shows "distinct (routePaths r i) \<and> [] \<notin> set (routePaths r i)"
  using assms conf_map_differ [of i i]
  by (auto simp: routePaths_def daemonProxy_def getSitesAvailableFilepath_def getSitesEnabledFilepath_def
      getRoutesMapAvailableFilepath_def getRoutesMapEnabledFilepath_def getFilepath_segment getMapFilepath_segment)

lemma Create_pairs:
  assumes "daemonProxy r"
  shows "reverseProxy_Create r i m h =
    tryM (putPair (getSitesAvailableFilepath r i) (getSitesEnabledFilepath r i) (reverseProxyConfigTemplate h)) (\<lambda>_.
    tryM (putPair (getRoutesMapAvailableFilepath r i) (getRoutesMapEnabledFilepath r i)
           (reverseProxyMapTemplate (m\<lparr>rpm_To := ReplaceAll (rpm_To m) (CHR ''/'') ''/+''\<rparr>))) (\<lambda>_.
    reload r))"
  using assms by (simp add: reverseProxy_Create_def daemonProxy_def putPair_def tryM_assoc Let_def)

lemma Delete_pairs:
  assumes "daemonProxy r"
  shows "reverseProxy_Delete r i =
    tryM (dropPair (getSitesAvailableFilepath r i) (getSitesEnabledFilepath r i)) (\<lambda>_.
    tryM (dropPair (getRoutesMapAvailableFilepath r i) (getRoutesMapEnabledFilepath r i)) (\<lambda>_.
    reload r))"
  using assms by (simp add: reverseProxy_Delete_def daemonProxy_def dropPair_def tryM_assoc)

text \<open>The state of a route's files between \<open>Create\<close> and \<open>Delete\<close>.\<close>

definition routeOK :: "ReverseProxy \<Rightarrow> string \<Rightarrow> FS \<Rightarrow> bool" where
  "routeOK r i fs \<longleftrightarrow>
     pairOK (getSitesAvailableFilepath r i) (getSitesEnabledFilepath r i) fs \<and>
     pairOK (getRoutesMapAvailableFilepath r i) (getRoutesMapEnabledFilepath r i) fs"

definition routeFree :: "ReverseProxy \<Rightarrow> string \<Rightarrow> FS \<Rightarrow> bool" where
  "routeFree r i fs \<longleftrightarrow> (\<forall>p\<in>set (routePaths r i). node fs p = None)"

lemma Create_routeOK:
  assumes r: "daemonProxy r" "CHR ''/'' \<notin> set i" and free: "routeFree r i fs"
    and run: "reverseProxy_Create r i m h fs = (res, fs')"
  shows "onlyIn (set (routePaths r i)) fs fs' \<and> routeOK r i fs' \<and> (\<forall>p. res \<noteq> Panic p)"
proof -
  let ?p = "getSitesAvailableFilepath r i" and ?l = "getSitesEnabledFilepath r i"
  let ?q = "getRoutesMapAvailableFilepath r i" and ?k = "getRoutesMapEnabledFilepath r i"
  have d: "?p \<noteq> []" "?l \<noteq> []" "?q \<noteq> []" "?k \<noteq> []" "?p \<noteq> ?l" "?q \<noteq> ?k" "?p \<noteq> ?q" "?p \<noteq> ?k" "?l \<noteq> ?q" "?l \<noteq> ?k"
    using routePaths_distinct [OF r] by (auto simp: routePaths_def)
  have n: "node fs ?p = None" "node fs ?l = None" "node fs ?q = None" "node fs ?k = None"
    using free by (auto simp: routeFree_def routePaths_def)
  obtain r1 fs1 where one: "putPair ?p ?l (reverseProxyConfigTemplate h) fs = (r1, fs1)"
    by (cases "putPair ?p ?l (reverseProxyConfigTemplate h) fs")
  note c1 = putPair_cases [OF d(1,2,5) n(1,2) one]
  show ?thesis
  proof (cases "r1 = Ok ()")
    case False
    then obtain e where e: "r1 = Err e" using c1 by auto
    have "res = Err e" "fs' = fs1"
      using run one e by (auto simp: Create_pairs [OF r(1)] tryM_def)
    then show ?thesis using c1 n d by (auto simp: onlyIn_def routePaths_def routeOK_def pairOK_def)
  next
    case True
    have n1: "node fs1 ?q = None" "node fs1 ?k = None" using c1 n d by auto
    let ?t = "reverseProxyMapTemplate (m\<lparr>rpm_To := ReplaceAll (rpm_To m) (CHR ''/'') ''/+''\<rparr>)"
    obtain r2 fs2 where two: "putPair ?q ?k ?t fs1 = (r2, fs2)" by (cases "putPair ?q ?k ?t fs1")
    note c2 = putPair_cases [OF d(3,4,6) n1 two]
    have "fs' = fs2 \<and> (\<forall>p. res \<noteq> Panic p)"
      using run one two True c2 reload_state [of r fs2]
      by (auto simp: Create_pairs [OF r(1)] tryM_def reload_def split: res.splits reloadOutcome.splits if_splits)
    then show ?thesis using c1 c2 d by (auto simp: onlyIn_def routePaths_def routeOK_def pairOK_def)
  qed
qed

lemma Delete_restores:
  assumes r: "daemonProxy r" "CHR ''/'' \<notin> set i" and ok: "routeOK r i fs"
    and rem: "\<forall>p\<in>set (routePaths r i). removable fs p"
  shows "\<exists>fs'. reverseProxy_Delete r i fs = reload r fs' \<and> faulty fs' = faulty fs \<and>
    (\<forall>p. node fs' p = (if p \<in> set (routePaths r i) then None else node fs p))"
proof -
  let ?p = "getSitesAvailableFilepath r i" and ?l = "getSitesEnabledFilepath r i"
  let ?q = "getRoutesMapAvailableFilepath r i" and ?k = "getRoutesMapEnabledFilepath r i"
  have d: "?p \<noteq> ?l" "?q \<noteq> ?k" "?p \<noteq> ?q" "?p \<noteq> ?k" "?l \<noteq> ?q" "?l \<noteq> ?k"
    using routePaths_distinct [OF r] by (auto simp: routePaths_def)
  have m: "removable fs ?p" "removable fs ?l" "removable fs ?q" "removable fs ?k"
    using rem by (auto simp: routePaths_def)
  from dropPair_restores [of ?p ?l fs] ok m d obtain fs1 where
    fs1: "dropPair ?p ?l fs = (Ok (), fs1)" "faulty fs1 = faulty fs"
      "\<And>q. node fs1 q = (if q = ?p \<or> q = ?l then None else node fs q)"
    by (auto simp: routeOK_def)
  have ok1: "pairOK ?q ?k fs1" using ok d fs1(3) by (auto simp: routeOK_def pairOK_def)
  from dropPair_restores [of ?q ?k fs1] ok1 m d fs1(2) obtain fs2 where
    fs2: "dropPair ?q ?k fs1 = (Ok (), fs2)" "faulty fs2 = faulty fs1"
      "\<And>x. node fs2 x = (if x = ?q \<or> x = ?k then None else node fs1 x)"
    by (auto simp: removable_def)
  show ?thesis
    by (rule exI [of _ fs2])
      (auto simp: Delete_pairs [OF r(1)] tryM_def fs1(1,2) fs2(1,2) fs1(3) fs2(3) routePaths_def)
qed

section \<open>The interface ReverseProxyCreater\<close>

text \<open>
  What the clients of the proxy rely on: a route that is absent can be created, and however the
  creation ends the route can be deleted again and nothing else has changed. The clients work on
  several routes; what they conclude is proved here once.
\<close>

locale route_store =
  fixes mk :: "'k \<Rightarrow> 'd \<Rightarrow> ('s, unit) go"
    and rm :: "'k \<Rightarrow> ('s, unit) go"
    and free ok :: "'k \<Rightarrow> 's \<Rightarrow> bool"
    and written :: "'k \<Rightarrow> 'd \<Rightarrow> 's \<Rightarrow> bool"
    and outside :: "'k set \<Rightarrow> 's \<Rightarrow> 's \<Rightarrow> bool"
    and eqv :: "'s \<Rightarrow> 's \<Rightarrow> bool"
  assumes mk_any: "free k s \<Longrightarrow> mk k d s = (r, s') \<Longrightarrow>
      ok k s' \<and> outside {k} s s' \<and> (r = Ok () \<and> written k d s' \<or> (\<exists>e. r = Err e))"
    and rm_ok: "ok k s \<Longrightarrow> \<exists>s'. rm k s = (Ok (), s') \<and> free k s' \<and> outside {k} s s'"
    and free_ok: "free k s \<Longrightarrow> ok k s"
    and outside_refl: "outside K s s"
    and outside_trans: "outside K s t \<Longrightarrow> outside K t u \<Longrightarrow> outside K s u"
    and outside_mono: "outside K s t \<Longrightarrow> K \<subseteq> L \<Longrightarrow> outside L s t"
    and outside_frame: "outside K s t \<Longrightarrow> k \<notin> K \<Longrightarrow>
      free k t = free k s \<and> ok k t = ok k s \<and> written k d t = written k d s"
    and outside_eqv: "outside K s t \<Longrightarrow> \<forall>k\<in>K. free k s \<and> free k t \<Longrightarrow> eqv s t"
begin

lemma frame_free: "outside K s t \<Longrightarrow> k \<notin> K \<Longrightarrow> free k t = free k s"
  using outside_frame by blast

lemma frame_ok: "outside K s t \<Longrightarrow> k \<notin> K \<Longrightarrow> ok k t = ok k s"
  using outside_frame by blast

lemma outside_insert:
  assumes "outside {k} s t" "outside K t u"
  shows "outside (insert k K) s u"
  by (rule outside_trans) (auto intro: outside_mono [OF assms(1)] outside_mono [OF assms(2)])

lemma mk_all:
  assumes "distinct (map fst kds)" and "\<forall>k\<in>fst ` set kds. free k s"
    and "eachM (\<lambda>(k, d). mk k d) kds s = (r, s')"
  shows "(\<forall>k\<in>fst ` set kds. ok k s') \<and> outside (fst ` set kds) s s' \<and>
    (r = Ok () \<and> (\<forall>(k, d)\<in>set kds. written k d s') \<or> (\<exists>e. r = Err e))"
  using assms
proof (induction kds arbitrary: s)
  case Nil
  then show ?case by (simp add: outside_refl)
next
  case (Cons kd kds)
  obtain k d where kd: "kd = (k, d)" by (cases kd)
  obtain r1 s1 where one: "mk k d s = (r1, s1)" by (cases "mk k d s")
  have fr: "free k s" using Cons.prems(2) kd by simp
  note m = mk_any [OF fr one]
  have k: "k \<notin> fst ` set kds" using Cons.prems(1) kd by simp
  have fr1: "\<forall>j\<in>fst ` set kds. free j s1"
  proof
    fix j assume j: "j \<in> fst ` set kds"
    then have "j \<notin> {k}" using k by blast
    from frame_free [OF _ this] m have "free j s1 = free j s" by blast
    then show "free j s1" using Cons.prems(2) j by simp
  qed
  show ?case
  proof (cases "r1 = Ok ()")
    case True
    have run: "eachM (\<lambda>(k, d). mk k d) kds s1 = (r, s')"
      using Cons.prems(3) one True kd by (simp add: tryM_def)
    have IH: "(\<forall>k\<in>fst ` set kds. ok k s') \<and> outside (fst ` set kds) s1 s' \<and>
        (r = Ok () \<and> (\<forall>(k, d)\<in>set kds. written k d s') \<or> (\<exists>e. r = Err e))"
      using Cons.IH [OF _ fr1 run] Cons.prems(1) by simp
    have "ok k s' = ok k s1" "written k d s' = written k d s1"
      using outside_frame [of "fst ` set kds" s1 s' k d] IH k by auto
    moreover have "outside (fst ` set (kd # kds)) s s'"
      using outside_insert [of k s s1 "fst ` set kds" s'] m IH kd by simp
    ultimately show ?thesis using IH m True kd by auto
  next
    case False
    then obtain e where e: "r1 = Err e" using m by auto
    then have "r = Err e" "s' = s1" using Cons.prems(3) one kd by (auto simp: tryM_def)
    then show ?thesis
      using m kd fr1 free_ok outside_mono [of "{k}" s s1 "fst ` set (kd # kds)"] by auto
  qed
qed

lemma rm_all:
  assumes "distinct ks" and "\<forall>k\<in>set ks. ok k s"
  shows "\<exists>s'. eachM rm ks s = (Ok (), s') \<and> (\<forall>k\<in>set ks. free k s') \<and> outside (set ks) s s'"
  using assms
proof (induction ks arbitrary: s)
  case Nil
  then show ?case by (simp add: outside_refl)
next
  case (Cons k ks)
  from rm_ok [of k s] Cons.prems obtain s1 where
    one: "rm k s = (Ok (), s1)" "free k s1" "outside {k} s s1" by auto
  have "ok j s1" if "j \<in> set ks" for j
    using frame_ok [OF one(3), of j] Cons.prems that by auto
  then have "\<forall>j\<in>set ks. ok j s1" by blast
  from Cons.IH [OF _ this] Cons.prems(1) obtain s2 where two: "eachM rm ks s1 = (Ok (), s2)" "\<forall>k\<in>set ks. free k s2" "outside (set ks) s1 s2"
    by auto
  have "free k s2" using frame_free [OF two(3), of k] Cons.prems(1) one(2) by auto
  moreover have "outside (set (k # ks)) s s2"
    using outside_insert [OF one(3) two(3)] by simp
  ultimately show ?case using one two by (auto simp: tryM_def)
qed

lemma undo_all:
  assumes "distinct (map fst kds)" and "\<forall>k\<in>fst ` set kds. free k s"
    and "eachM (\<lambda>(k, d). mk k d) kds s = (r, s1)"
  shows "\<exists>s2. eachM rm (map fst kds) s1 = (Ok (), s2) \<and> eqv s s2"
proof -
  note m = mk_all [OF assms]
  have "\<forall>k\<in>set (map fst kds). ok k s1" using m by simp
  from rm_all [OF assms(1) this] obtain s2 where
    two: "eachM rm (map fst kds) s1 = (Ok (), s2)" "\<forall>k\<in>fst ` set kds. free k s2" "outside (fst ` set kds) s1 s2"
    unfolding set_map by blast
  have "outside (fst ` set kds) s s2" using outside_trans m two(3) by blast
  moreover have "\<forall>k\<in>fst ` set kds. free k s \<and> free k s2" using two(2) assms(2) by simp
  ultimately have "eqv s s2" by (rule outside_eqv)
  then show ?thesis using two(1) by blast
qed

lemma replace_all:
  assumes "distinct (map fst kds)" and "\<forall>k\<in>fst ` set kds. ok k s"
    and "tryM (eachM rm (map fst kds)) (\<lambda>_. eachM (\<lambda>(k, d). mk k d) kds) s = (r, s')"
  shows "outside (fst ` set kds) s s' \<and> (r = Ok () \<and> (\<forall>(k, d)\<in>set kds. written k d s') \<or> (\<exists>e. r = Err e))"
proof -
  have "\<forall>k\<in>set (map fst kds). ok k s" using assms(2) by simp
  from rm_all [OF assms(1) this] obtain s1 where
    one: "eachM rm (map fst kds) s = (Ok (), s1)" "\<forall>k\<in>fst ` set kds. free k s1" "outside (fst ` set kds) s s1"
    unfolding set_map by blast
  have run: "eachM (\<lambda>(k, d). mk k d) kds s1 = (r, s')" using assms(3) one(1) by (simp add: tryM_def)
  from mk_all [OF assms(1) one(2) run] one(3) show ?thesis using outside_trans by blast
qed

end

text \<open>The proxy of the daemon provides the interface.\<close>

definition routeEnv :: "ReverseProxy \<Rightarrow> string \<Rightarrow> FS \<Rightarrow> bool" where
  "routeEnv r i fs \<longleftrightarrow> daemonProxy r \<and> CHR ''/'' \<notin> set i \<and>
     (\<forall>p\<in>set (routePaths r i). removable fs p) \<and> (\<forall>fs. rp_factory r fs = JobResult ''done'')"

definition routeWritten :: "ReverseProxy \<Rightarrow> string \<Rightarrow> ReverseProxyMap \<times> ReverseProxyHttpConf \<Rightarrow> FS \<Rightarrow> bool" where
  "routeWritten r i d fs \<longleftrightarrow>
     node fs (getSitesAvailableFilepath r i) = Some (File (Text (reverseProxyConfigTemplate (snd d)))) \<and>
     node fs (getSitesEnabledFilepath r i) = Some (Link (getSitesAvailableFilepath r i)) \<and>
     node fs (getRoutesMapAvailableFilepath r i) =
       Some (File (Text (reverseProxyMapTemplate
         ((fst d)\<lparr>rpm_To := ReplaceAll (rpm_To (fst d)) (CHR ''/'') ''/+''\<rparr>)))) \<and>
     node fs (getRoutesMapEnabledFilepath r i) = Some (Link (getRoutesMapAvailableFilepath r i))"

definition routeOutside :: "ReverseProxy \<Rightarrow> string set \<Rightarrow> FS \<Rightarrow> FS \<Rightarrow> bool" where
  "routeOutside r K fs fs' \<longleftrightarrow>
     onlyIn (\<Union>i \<in> {i\<in>K. CHR ''/'' \<notin> set i}. set (routePaths r i)) fs fs'"

lemma Create_written:
  assumes r: "daemonProxy r" "CHR ''/'' \<notin> set i" and free: "routeFree r i fs"
    and run: "reverseProxy_Create r i m h fs = (Ok (), fs')"
  shows "routeWritten r i (m, h) fs'"
proof -
  let ?p = "getSitesAvailableFilepath r i" and ?l = "getSitesEnabledFilepath r i"
  let ?q = "getRoutesMapAvailableFilepath r i" and ?k = "getRoutesMapEnabledFilepath r i"
  let ?t = "reverseProxyMapTemplate (m\<lparr>rpm_To := ReplaceAll (rpm_To m) (CHR ''/'') ''/+''\<rparr>)"
  have d: "?p \<noteq> []" "?l \<noteq> []" "?q \<noteq> []" "?k \<noteq> []" "?p \<noteq> ?l" "?q \<noteq> ?k" "?p \<noteq> ?q" "?p \<noteq> ?k" "?l \<noteq> ?q" "?l \<noteq> ?k"
    using routePaths_distinct [OF r] by (auto simp: routePaths_def)
  have n: "node fs ?p = None" "node fs ?l = None" "node fs ?q = None" "node fs ?k = None"
    using free by (auto simp: routeFree_def routePaths_def)
  from run obtain fs1 fs2 where
    one: "putPair ?p ?l (reverseProxyConfigTemplate h) fs = (Ok (), fs1)" and
    two: "putPair ?q ?k ?t fs1 = (Ok (), fs2)" and three: "reload r fs2 = (Ok (), fs')"
    by (auto simp: Create_pairs [OF r(1)] elim!: tryM_OkE)
  note c1 = putPair_cases [OF d(1,2,5) n(1,2) one]
  have n1: "node fs1 ?q = None" "node fs1 ?k = None" using c1 n d by auto
  note c2 = putPair_cases [OF d(3,4,6) n1 two]
  have "fs' = fs2" using three reload_state [of r fs2] by simp
  then show ?thesis using c1 c2 d by (auto simp: routeWritten_def)
qed

lemma routePaths_disjoint:
  assumes "CHR ''/'' \<notin> set i" "CHR ''/'' \<notin> set j" "i \<noteq> j"
  shows "set (routePaths r i) \<inter> set (routePaths r j) = {}"
  using assms conf_map_differ [of i j] conf_map_differ [of j i]
  by (auto simp: routePaths_def getSitesAvailableFilepath_def getSitesEnabledFilepath_def
      getRoutesMapAvailableFilepath_def getRoutesMapEnabledFilepath_def getFilepath_segment getMapFilepath_segment)

lemma routeOutside_frame:
  assumes "routeOutside r K s t" and "k \<notin> K" and "CHR ''/'' \<notin> set k" and "p \<in> set (routePaths r k)"
  shows "node t p = node s p \<and> faulty t = faulty s"
proof -
  have "p \<notin> (\<Union>i \<in> {i\<in>K. CHR ''/'' \<notin> set i}. set (routePaths r i))"
    using assms routePaths_disjoint [of k _ r] by blast
  then show ?thesis using assms(1) unfolding routeOutside_def onlyIn_def by blast
qed

lemma routeEnv_faulty: "faulty t = faulty s \<Longrightarrow> routeEnv r i t = routeEnv r i s"
  by (simp add: routeEnv_def removable_def)

interpretation proxyRoutes: route_store
  "\<lambda>i (m, h). reverseProxy_Create r i m h" "reverseProxy_Delete r"
  "\<lambda>i fs. routeEnv r i fs \<and> routeFree r i fs" "\<lambda>i fs. routeEnv r i fs \<and> routeOK r i fs"
  "\<lambda>i d fs. CHR ''/'' \<notin> set i \<and> routeWritten r i d fs" "routeOutside r" fs_eq
proof unfold_locales
  fix k s d res s'
  assume fr: "routeEnv r k s \<and> routeFree r k s"
    and run: "(case d of (m, h) \<Rightarrow> reverseProxy_Create r k m h) s = (res, s')"
  obtain m h where d: "d = (m, h)" by (cases d)
  have c: "onlyIn (set (routePaths r k)) s s' \<and> routeOK r k s' \<and> (\<forall>p. res \<noteq> Panic p)"
    using Create_routeOK [of r k s m h res s'] fr run d by (simp add: routeEnv_def)
  have w: "res = Ok () \<Longrightarrow> routeWritten r k d s'"
    using Create_written [of r k s m h s'] fr run d by (simp add: routeEnv_def)
  have "faulty s' = faulty s" using c by (simp add: onlyIn_def)
  then have e: "routeEnv r k s'" using routeEnv_faulty fr by blast
  have o: "routeOutside r {k} s s'"
    using c fr unfolding routeOutside_def routeEnv_def by (auto elim: onlyIn_mono)
  show "(routeEnv r k s' \<and> routeOK r k s') \<and> routeOutside r {k} s s' \<and>
      (res = Ok () \<and> CHR ''/'' \<notin> set k \<and> routeWritten r k d s' \<or> (\<exists>e. res = Err e))"
    using c w e o fr by (cases res) (auto simp: routeEnv_def)
next
  fix k s
  assume ok: "routeEnv r k s \<and> routeOK r k s"
  then obtain s' where s': "reverseProxy_Delete r k s = reload r s'" "faulty s' = faulty s"
    "\<And>p. node s' p = (if p \<in> set (routePaths r k) then None else node s p)"
    using Delete_restores [of r k s] by (auto simp: routeEnv_def)
  have "reload r s' = (Ok (), s')" using ok by (simp add: reload_def routeEnv_def)
  moreover have "routeEnv r k s'" using ok s'(2) routeEnv_faulty by blast
  moreover have "routeFree r k s'" using s'(3) by (simp add: routeFree_def)
  moreover have "routeOutside r {k} s s'" using s' ok by (auto simp: routeOutside_def onlyIn_def routeEnv_def)
  ultimately show "\<exists>s'. reverseProxy_Delete r k s = (Ok (), s') \<and> (routeEnv r k s' \<and> routeFree r k s') \<and>
      routeOutside r {k} s s'"
    using s'(1) by auto
next
  fix K s t k d
  assume o: "routeOutside r K s t" and k: "k \<notin> K"
  have "CHR ''/'' \<notin> set k \<Longrightarrow> p \<in> set (routePaths r k) \<Longrightarrow> node t p = node s p" for p
    using routeOutside_frame [OF o k] by blast
  moreover have "faulty t = faulty s" using o by (simp add: routeOutside_def onlyIn_def)
  ultimately show "(routeEnv r k t \<and> routeFree r k t) = (routeEnv r k s \<and> routeFree r k s) \<and>
      (routeEnv r k t \<and> routeOK r k t) = (routeEnv r k s \<and> routeOK r k s) \<and>
      (CHR ''/'' \<notin> set k \<and> routeWritten r k d t) = (CHR ''/'' \<notin> set k \<and> routeWritten r k d s)"
    using routeEnv_faulty [of t s r k]
    by (cases "CHR ''/'' \<in> set k")
      (simp_all add: routeEnv_def routeFree_def routeOK_def pairOK_def routeWritten_def routePaths_def)
next
  fix K s t
  assume o: "routeOutside r K s t"
    and fr: "\<forall>k\<in>K. (routeEnv r k s \<and> routeFree r k s) \<and> (routeEnv r k t \<and> routeFree r k t)"
  have "node t p = node s p" for p
  proof (cases "p \<in> (\<Union>i \<in> {i\<in>K. CHR ''/'' \<notin> set i}. set (routePaths r i))")
    case True
    then obtain i where "i \<in> K" "p \<in> set (routePaths r i)" by blast
    then show ?thesis using fr by (auto simp: routeFree_def)
  next
    case False
    then show ?thesis using o unfolding routeOutside_def onlyIn_def by blast
  qed
  then show "fs_eq s t" using o by (auto simp: fs_eq_def routeOutside_def onlyIn_def)
next
  fix k s
  show "routeEnv r k s \<and> routeFree r k s \<Longrightarrow> routeEnv r k s \<and> routeOK r k s"
    by (simp add: routeFree_def routeOK_def routePaths_def pairOK_def)
next
  fix K s
  show "routeOutside r K s s" by (simp add: routeOutside_def onlyIn.R_refl)
next
  fix K s t u
  show "routeOutside r K s t \<Longrightarrow> routeOutside r K t u \<Longrightarrow> routeOutside r K s u"
    unfolding routeOutside_def by (rule onlyIn.R_trans)
next
  fix K L s t
  assume "routeOutside r K s t" "K \<subseteq> L"
  then show "routeOutside r L s t" unfolding routeOutside_def by (elim onlyIn_mono) blast
qed

section \<open>Properties\<close>

text \<open>
  C34. Creating a route and deleting it again leaves the file system as it was, at whatever step the
  creation failed (a write, a link, the reload of nginx), provided the operating system lets the daemon
  remove its own files; and the creation touches no file but the four of the route.
\<close>

theorem route_create_is_undone_by_delete:
  assumes "daemonProxy r" and "CHR ''/'' \<notin> set i" and "routeFree r i fs"
    and "\<forall>p\<in>set (routePaths r i). removable fs p"
    and "reverseProxy_Create r i m h fs = (res, fs')"
  shows "onlyIn (set (routePaths r i)) fs fs' \<and> fs_eq fs (snd (reverseProxy_Delete r i fs'))"
proof -
  note c = Create_routeOK [OF assms(1,2,3,5)]
  have "\<forall>p\<in>set (routePaths r i). removable fs' p"
    using assms(4) c by (simp add: removable_def onlyIn_def)
  from Delete_restores [OF assms(1,2) _ this] c obtain fs2 where
    d: "reverseProxy_Delete r i fs' = reload r fs2" "faulty fs2 = faulty fs'"
      "\<forall>p. node fs2 p = (if p \<in> set (routePaths r i) then None else node fs' p)" by blast
  have "node fs2 p = node fs p" for p
    using d(3) c assms(3) unfolding onlyIn_def routeFree_def by (cases "p \<in> set (routePaths r i)") auto
  then have "fs_eq fs fs2" using d(2) c by (auto simp: fs_eq_def onlyIn_def)
  then show ?thesis using c d(1) reload_state [of r fs2] by simp
qed

definition sampleProxy :: ReverseProxy where
  "sampleProxy =
     NewReverseProxy (\<lambda>_. JobResult ''failed'') [''sites-available''] [''sites-enabled'']
       [''routes-available''] [''routes-enabled'']"

definition sampleFS :: FS where
  "sampleFS =
     \<lparr>nodes = map (\<lambda>d. ([d], Dir)) [''sites-available'', ''sites-enabled'', ''routes-available'', ''routes-enabled''],
      faulty = (\<lambda>_ _. False)\<rparr>"

definition sampleMap :: ReverseProxyMap where
  "sampleMap = \<lparr>rpm_AddOnName = ''app'', rpm_AddOnTitle = ''App'', rpm_To = ''/ui'', rpm_Id = ''app''\<rparr>"

definition sampleConf :: ReverseProxyHttpConf where
  "sampleConf = NewReverseProxyHttpConf ''app'' \<lparr>From = ''http://localhost:80'', To = ''/ui''\<rparr>"

lemma sample_route:
  "daemonProxy sampleProxy" "routeFree sampleProxy ''app-ui'' sampleFS"
  "\<forall>p\<in>set (routePaths sampleProxy ''app-ui''). removable sampleFS p"
  by (simp add: daemonProxy_def sampleProxy_def NewReverseProxy_def) code_simp+

theorem route_create_is_undone_by_delete_witness:
  "fs_eq sampleFS (snd (reverseProxy_Delete sampleProxy ''app-ui''
     (snd (reverseProxy_Create sampleProxy ''app-ui'' sampleMap sampleConf sampleFS))))"
proof -
  obtain res fs' where run: "reverseProxy_Create sampleProxy ''app-ui'' sampleMap sampleConf sampleFS = (res, fs')"
    by (cases "reverseProxy_Create sampleProxy ''app-ui'' sampleMap sampleConf sampleFS")
  from route_create_is_undone_by_delete [OF sample_route(1) _ sample_route(2,3) run] run show ?thesis by simp
qed

text \<open>
  Migrating the routes of template version 0.1.0: when the files of the routes are in order, the
  migration either fails with an error or leaves every route with exactly the text of the current
  templates, linked, and no other file changed. The current version needs no change, and any other
  version is refused without one.
\<close>

theorem route_migration_rewrites_all:
  assumes "distinct (map fst (entries routes))"
    and "\<forall>(i, _)\<in>set (entries routes).
           routeEnv r (CreatePrefixedRouteFilenameId name i) fs \<and> routeOK r (CreatePrefixedRouteFilenameId name i) fs"
    and "reverseProxyMigrator_Migrate (asCreater r) name v title perm routes fs = (res, fs')"
  shows "(v = TemplateVersionV0_1_0 \<longrightarrow> res = Ok () \<longrightarrow>
           (\<forall>(i, loc)\<in>set (entries routes). routeWritten r (CreatePrefixedRouteFilenameId name i)
              (\<lparr>rpm_AddOnName = name, rpm_AddOnTitle = title, rpm_To = To loc, rpm_Id = perm\<rparr>,
               NewReverseProxyHttpConf name loc) fs'))
    \<and> (\<forall>m. res \<noteq> Panic m)
    \<and> onlyIn (\<Union>i \<in> fst ` set (entries routes). set (routePaths r (CreatePrefixedRouteFilenameId name i))) fs fs'
    \<and> (v \<noteq> TemplateVersionV0_1_0 \<longrightarrow> fs' = fs \<and> (res = Ok () \<longleftrightarrow> v = TemplateVersion))"
proof (cases "v = TemplateVersionV0_1_0")
  case False
  then show ?thesis
    using assms(3) by (auto simp: reverseProxyMigrator_Migrate_def onlyIn.R_refl split: if_splits)
next
  case True
  let ?k = "\<lambda>i. CreatePrefixedRouteFilenameId name i"
  let ?d = "\<lambda>loc. (\<lparr>rpm_AddOnName = name, rpm_AddOnTitle = title, rpm_To = To loc, rpm_Id = perm\<rparr>,
               NewReverseProxyHttpConf name loc)"
  let ?kds = "map (\<lambda>(i, loc). (?k i, ?d loc)) (entries routes)"
  have dist: "distinct (map fst ?kds)"
    using assms(1) by (auto simp: distinct_map inj_on_def CreatePrefixedRouteFilenameId_def comp_def case_prod_beta)
  have run: "tryM (eachM (reverseProxy_Delete r) (map fst ?kds))
      (\<lambda>_. eachM (\<lambda>(k, d). (\<lambda>i (m, h). reverseProxy_Create r i m h) k d) ?kds) fs = (res, fs')"
    using assms(3) True
    by (simp add: reverseProxyMigrator_Migrate_def migrateV0_1_0_def asCreater_def eachM_map split_def)
  have ok: "\<forall>k\<in>fst ` set ?kds. routeEnv r k fs \<and> routeOK r k fs" using assms(2) by auto
  note all = proxyRoutes.replace_all [OF dist ok run]
  have "routeOutside r (fst ` set ?kds) fs fs'" using all by blast
  then have "onlyIn (\<Union>i \<in> fst ` set (entries routes). set (routePaths r (?k i))) fs fs'"
    unfolding routeOutside_def by (rule onlyIn_mono) (auto simp: case_prod_beta)
  then show ?thesis using all True by auto
qed

theorem route_migration_rewrites_all_witness:
  "let r = sampleProxy\<lparr>rp_factory := (\<lambda>_. JobResult ''done'')\<rparr>;
       (res, fs') = reverseProxyMigrator_Migrate (asCreater r) ''app'' ''0.1.0'' ''App'' ''app''
          (Some [(''ui'', \<lparr>From = ''http://localhost:80'', To = ''/ui''\<rparr>)]) sampleFS
   in res = Ok () \<and> routeWritten r ''app-ui'' (sampleMap, sampleConf) fs'"
proof -
  let ?r = "sampleProxy\<lparr>rp_factory := (\<lambda>_. JobResult ''done'')\<rparr>"
  let ?routes = "Some [(''ui'', \<lparr>From = ''http://localhost:80'', To = ''/ui''\<rparr>)]"
  obtain res fs' where run:
    "reverseProxyMigrator_Migrate (asCreater ?r) ''app'' ''0.1.0'' ''App'' ''app'' ?routes sampleFS = (res, fs')"
    by (cases "reverseProxyMigrator_Migrate (asCreater ?r) ''app'' ''0.1.0'' ''App'' ''app'' ?routes sampleFS")
  have ok: "fst (reverseProxyMigrator_Migrate (asCreater ?r) ''app'' ''0.1.0'' ''App'' ''app'' ?routes sampleFS) = Ok ()"
    by code_simp
  have "daemonProxy ?r" using sample_route(1) by (simp add: daemonProxy_def)
  moreover have "\<forall>p\<in>set (routePaths ?r ''app-ui''). removable sampleFS p" by code_simp
  moreover have "routeFree ?r ''app-ui'' sampleFS" by code_simp
  then have "routeOK ?r ''app-ui'' sampleFS"
    by (simp add: routeFree_def routeOK_def routePaths_def pairOK_def)
  ultimately have "routeEnv ?r ''app-ui'' sampleFS \<and> routeOK ?r ''app-ui'' sampleFS"
    by (simp add: routeEnv_def)
  then have "routeWritten ?r ''app-ui'' (sampleMap, sampleConf) fs'"
    using route_migration_rewrites_all [OF _ _ run] run ok
    by (simp add: CreatePrefixedRouteFilenameId_def TemplateVersionV0_1_0_def sampleMap_def sampleConf_def)
  then show ?thesis using run ok by simp
qed

text \<open>
  A dangling link is never repaired: when the enabling link of a site exists but its target does
  not, \<open>Delete\<close> reports no error for it and leaves it, because its existence test follows the link; and
  every later \<open>Create\<close> of that route fails on the link.
\<close>

theorem dangling_link_blocks_route:
  assumes "daemonProxy r" and "CHR ''/'' \<notin> set i"
    and "node fs (getSitesEnabledFilepath r i) = Some (Link (getSitesAvailableFilepath r i))"
    and "node fs (getSitesAvailableFilepath r i) = None"
  shows "node (snd (reverseProxy_Delete r i fs)) (getSitesEnabledFilepath r i)
           = Some (Link (getSitesAvailableFilepath r i))
    \<and> (\<exists>e. fst (reverseProxy_Create r i m h fs) = Err e)"
proof -
  let ?p = "getSitesAvailableFilepath r i" and ?l = "getSitesEnabledFilepath r i"
  let ?q = "getRoutesMapAvailableFilepath r i" and ?k = "getRoutesMapEnabledFilepath r i"
  have d: "?p \<noteq> []" "?l \<noteq> []" "?q \<noteq> []" "?k \<noteq> []" "?p \<noteq> ?l" "?l \<noteq> ?q" "?l \<noteq> ?k"
    using routePaths_distinct [OF assms(1,2)] by (auto simp: routePaths_def)
  have one: "dropPair ?p ?l fs = (Ok (), fs)"
    using deleteFile_dangling [OF assms(3,4)] deleteFile_missing [OF d(1) assms(4)]
    by (simp add: dropPair_def tryM_def)
  have two: "keeps (onlyIn {?q, ?k}) (tryM (dropPair ?q ?k) (\<lambda>_. reload r))"
    unfolding dropPair_def
    by (intro onlyIn.keeps_tryM keeps_onlyIn_mono [OF keeps_deleteFile])
      (auto simp: d keeps_def onlyIn.R_refl)
  have "onlyIn {?q, ?k} fs (snd (reverseProxy_Delete r i fs))"
    using keepsD [OF two, of fs] one by (simp add: Delete_pairs [OF assms(1)] tryM_def)
  moreover have "\<exists>e. fst (putPair ?p ?l c fs) = Err e" for c
  proof (cases "writeToFile ?p (Text c) fs")
    case (Pair r1 fs1)
    note w = writeToFile_cases [OF d(1) assms(4) Pair]
    then have "node fs1 ?l \<noteq> None" using assms(3) d(5) by auto
    then show ?thesis
      using Pair w by (auto simp: putPair_def tryM_def createSymbolicLink_def osSymlink_def)
  qed
  ultimately show ?thesis
    using assms(3) d by (auto simp: onlyIn_def Create_pairs [OF assms(1)] tryM_def split: prod.splits res.splits)
      (metis fst_conv res.distinct(1) res.distinct(5))+
qed

theorem dangling_link_blocks_route_witness:
  "\<exists>e. fst (reverseProxy_Create sampleProxy ''app-ui'' sampleMap sampleConf
     (setNode [''sites-enabled'', ''app-ui.http.conf''] (Link [''sites-available'', ''app-ui.http.conf'']) sampleFS)) = Err e"
proof -
  let ?fs = "setNode [''sites-enabled'', ''app-ui.http.conf''] (Link [''sites-available'', ''app-ui.http.conf'']) sampleFS"
  have "node ?fs (getSitesEnabledFilepath sampleProxy ''app-ui'') = Some (Link (getSitesAvailableFilepath sampleProxy ''app-ui''))"
    and "node ?fs (getSitesAvailableFilepath sampleProxy ''app-ui'') = None"
    by code_simp+
  from dangling_link_blocks_route [OF sample_route(1) _ this] show ?thesis by simp
qed

end
