(* ===== verification/DBus.thy ===== *)
theory DBus
  imports Routes
begin

text \<open>
  \<^verbatim>\<open>internal/aom/dbus\<close>: the connections the reverse proxy reloads nginx through. On a device it is systemd, behind
  \<^verbatim>\<open>go-systemd\<close>; in a development build it is a command in the Docker container that runs nginx. Both become the
  factory of \<open>Routes\<close>; systemd and the command \<^verbatim>\<open>docker\<close> are parameters.
\<close>

section \<open>wrapper\_prod.go\<close>

text \<open>
  \<open>sd_dial\<close> opens the connection; \<open>sd_ReloadUnitContext\<close> is the reload of a unit: an error, or the result that
  arrives on the channel in time, if one does.
\<close>

record systemd =
  sd_dial :: "FS \<Rightarrow> unit res"
  sd_ReloadUnitContext :: "string \<Rightarrow> string \<Rightarrow> FS \<Rightarrow> string option res"

definition systemd_mode :: string where
  "systemd_mode = ''replace''"

definition systemd_service :: string where
  "systemd_service = ''nginx.service''"

definition wrapper_ReloadUnitContext :: "systemd \<Rightarrow> FS \<Rightarrow> string option res" where
  "wrapper_ReloadUnitContext sd = sd_ReloadUnitContext sd systemd_service systemd_mode"

text \<open>The calls of \<^verbatim>\<open>reload\<close> on a connection. A panic does not come back from either library.\<close>

definition outcomeOf :: "unit res \<Rightarrow> string option res \<Rightarrow> reloadOutcome" where
  "outcomeOf connection reloaded =
     (case connection of
        Ok _ \<Rightarrow> (case reloaded of Ok (Some result) \<Rightarrow> JobResult result | Ok None \<Rightarrow> Timeout | Err e \<Rightarrow> ReloadFailed e
          | Panic p \<Rightarrow> ReloadFailed (ErrorString p))
      | Err e \<Rightarrow> DialFailed e
      | Panic p \<Rightarrow> DialFailed (ErrorString p))"

definition Initialize :: "systemd \<Rightarrow> FS \<Rightarrow> reloadOutcome" where
  "Initialize sd fs = outcomeOf (sd_dial sd fs) (wrapper_ReloadUnitContext sd fs)"

section \<open>wrapper\_dev.go\<close>

text \<open>The output of \<^verbatim>\<open>docker ps --format=\{\{.Names\}\}\<close>, and \<^verbatim>\<open>docker container exec\<close> of \<^verbatim>\<open>nginx -s reload\<close> in a container.\<close>

record dockerCommand =
  dc_ps :: "FS \<Rightarrow> string res"
  dc_reloadNginx :: "string \<Rightarrow> FS \<Rightarrow> unit res"

definition getAllRunningDockerContainerNames :: "dockerCommand \<Rightarrow> FS \<Rightarrow> string list res" where
  "getAllRunningDockerContainerNames dc fs = bind_res (dc_ps dc fs) (\<lambda>commandOut. Ok (Split commandOut (CHR 0x0A)))"

definition expectedNginxContainerSuffix :: string where
  "expectedNginxContainerSuffix = ''uc-aom-nginx''"

fun findNginx :: "string list \<Rightarrow> string" where
  "findNginx [] = []"
| "findNginx (containerName # containerNames) =
     (if Contains containerName expectedNginxContainerSuffix then containerName else findNginx containerNames)"

definition getNginxContainerName :: "dockerCommand \<Rightarrow> FS \<Rightarrow> string res" where
  "getNginxContainerName dc fs =
     bind_res (getAllRunningDockerContainerNames dc fs) (\<lambda>containerNames.
     let nginxContainerName = findNginx containerNames
     in if nginxContainerName \<noteq> [] then Ok nginxContainerName
        else Err (ErrorString (''Docker container with suffix: '' @ expectedNginxContainerSuffix)))"

definition reloadNginxContainer :: "dockerCommand \<Rightarrow> string \<Rightarrow> FS \<Rightarrow> unit res" where
  "reloadNginxContainer dc nginxContainerName fs = dc_reloadNginx dc nginxContainerName fs"

record DBusConnectionMock =
  reloadMessage :: string
  fakeWork :: nat

text \<open>
  What the goroutine sends: an error is sent as the result of the job. It arrives in time if the commands and
  \<open>fakeWork\<close> together are shorter than the timeout of the proxy; here only \<open>fakeWork\<close> is counted.
\<close>

definition mockMessage :: "DBusConnectionMock \<Rightarrow> dockerCommand \<Rightarrow> FS \<Rightarrow> string" where
  "mockMessage r dc fs =
     (case getNginxContainerName dc fs of
        Ok nginxContainerName \<Rightarrow>
          (case reloadNginxContainer dc nginxContainerName fs of
             Ok _ \<Rightarrow> reloadMessage r
           | Err e \<Rightarrow> err_text e
           | Panic p \<Rightarrow> p)
      | Err e \<Rightarrow> err_text e
      | Panic p \<Rightarrow> p)"

definition mock_ReloadUnitContext :: "DBusConnectionMock \<Rightarrow> nat \<Rightarrow> dockerCommand \<Rightarrow> FS \<Rightarrow> string option res" where
  "mock_ReloadUnitContext r timeout dc fs = Ok (if fakeWork r < timeout then Some (mockMessage r dc fs) else None)"

definition Initialize_dev :: "nat \<Rightarrow> dockerCommand \<Rightarrow> FS \<Rightarrow> reloadOutcome" where
  "Initialize_dev timeout dc fs =
     outcomeOf (Ok ()) (mock_ReloadUnitContext \<lparr>reloadMessage = ''done'', fakeWork = 0\<rparr> timeout dc fs)"

section \<open>Reloading\<close>

lemma nginx_name_nonempty: "Contains n expectedNginxContainerSuffix \<Longrightarrow> n \<noteq> []"
  by (auto simp: Contains_iff expectedNginxContainerSuffix_def)

lemma findNginx_found: "findNginx names \<noteq> [] \<longleftrightarrow> (\<exists>n\<in>set names. Contains n expectedNginxContainerSuffix)"
  by (induction names) (auto dest: nginx_name_nonempty)

lemma findNginx_first:
  "findNginx names \<noteq> [] \<Longrightarrow> \<exists>before after. names = before @ findNginx names # after
     \<and> Contains (findNginx names) expectedNginxContainerSuffix
     \<and> list_all (\<lambda>n. \<not> Contains n expectedNginxContainerSuffix) before"
proof (induction names)
  case (Cons n names)
  show ?case
  proof (cases "Contains n expectedNginxContainerSuffix")
    case True
    then show ?thesis by (rule_tac x = "[]" in exI, rule_tac x = names in exI) simp
  next
    case False
    then obtain b a where "names = b @ findNginx names # a" "Contains (findNginx names) expectedNginxContainerSuffix"
      "list_all (\<lambda>n. \<not> Contains n expectedNginxContainerSuffix) b" using Cons by auto
    then show ?thesis using False by (rule_tac x = "n # b" in exI, rule_tac x = a in exI) simp
  qed
qed simp

text \<open>
  A proxy of a development build reloads exactly if the command \<^verbatim>\<open>nginx -s reload\<close> succeeds in the first running
  container that has the text anywhere in its name.
\<close>

lemma dev_reload_succeeds_iff:
  assumes "rp_factory r = Initialize_dev timeout dc" and "0 < timeout" and "dc_ps dc fs = Ok out"
    and "\<And>n e. dc_reloadNginx dc n fs = Err e \<Longrightarrow> err_text e \<noteq> ''done''" and "\<And>n p. dc_reloadNginx dc n fs \<noteq> Panic p"
  shows "is_ok (fst (reload r fs)) \<longleftrightarrow>
    (\<exists>n\<in>set (Split out (CHR 0x0A)). Contains n expectedNginxContainerSuffix)
    \<and> is_ok (dc_reloadNginx dc (findNginx (Split out (CHR 0x0A))) fs)"
  using assms findNginx_found [of "Split out (CHR 0x0A)"]
  by (cases "dc_reloadNginx dc (findNginx (Split out (CHR 0x0A))) fs")
    (auto simp: reload_def Initialize_dev_def outcomeOf_def mock_ReloadUnitContext_def mockMessage_def getNginxContainerName_def
      getAllRunningDockerContainerNames_def reloadNginxContainer_def Let_def expectedNginxContainerSuffix_def)

end
