(* ===== verification/Transaction.thy ===== *)
theory Transaction
  imports Prelude
begin

text \<open>
  \<^verbatim>\<open>internal/aom/service/transaction.go\<close> and \<^verbatim>\<open>transaction_scheduler.go\<close>.

  The first part is the sequential view the routines of the service have of their transaction: a record
  with the flag \<open>tx_done\<close>, the rollback hooks and the affected add-on, and one function per method. It is
  what the theories \<open>Service\<close> and \<open>Server\<close> build on.

  The second part is the concurrent view: the owner of a transaction (who calls \<^verbatim>\<open>Commit\<close> and \<^verbatim>\<open>Rollback\<close>) and
  the goroutine \<^verbatim>\<open>awaitDone\<close> as a step relation, one atomic operation of the code per step (the compare and
  swap of \<^verbatim>\<open>done\<close>, one hook, the cancellation of the context, the locked section of \<^verbatim>\<open>close\<close>), and the
  scheduler over the transactions it has created.
\<close>

section \<open>Transactions, sequentially\<close>

datatype Operation = Unspecified | Installing | Deleting | Updating | Configuring

record AffectedAddOn =
  aff_Name :: string
  aff_Title :: string
  aff_Operation :: Operation

record 'w Tx =
  tx_done :: bool
  tx_ctxDone :: bool
  rollbackHooks :: "('w, unit) go list"
  affected :: "AffectedAddOn option"

text \<open>A running routine works on its transaction and on the state of the daemon.\<close>

record 'w txState =
  st_tx :: "'w Tx"
  st_world :: 'w

definition onWorld :: "('w, 'a) go \<Rightarrow> ('w txState, 'a) go" where
  "onWorld m = onPart st_world (\<lambda>w s. s\<lparr>st_world := w\<rparr>) m"

definition onTx :: "('w Tx, 'a) go \<Rightarrow> ('w txState, 'a) go" where
  "onTx m = onPart st_tx (\<lambda>t s. s\<lparr>st_tx := t\<rparr>) m"

definition BeginTx :: "'w Tx" where
  "BeginTx = \<lparr>tx_done = False, tx_ctxDone = False, rollbackHooks = [], affected = None\<rparr>"

definition IsDone :: "'w Tx \<Rightarrow> bool" where
  "IsDone tx = tx_done tx"

definition tx_AffectedAddOn :: "'w Tx \<Rightarrow> string \<Rightarrow> AffectedAddOn option" where
  "tx_AffectedAddOn tx name =
     (if IsDone tx then None
      else case affected tx of
             Some a \<Rightarrow> if aff_Name a = name then Some a else None
           | None \<Rightarrow> None)"

definition SubscribeRollbackHook :: "('w, unit) go \<Rightarrow> ('w Tx, unit) go" where
  "SubscribeRollbackHook rollback = modifyM (\<lambda>tx. tx\<lparr>rollbackHooks := rollbackHooks tx @ [rollback]\<rparr>)"

definition setAddOnContext :: "string \<Rightarrow> string \<Rightarrow> Operation \<Rightarrow> ('w Tx, unit) go" where
  "setAddOnContext name title op =
     modifyM (\<lambda>tx.
       if IsDone tx \<or> affected tx \<noteq> None then tx
       else tx\<lparr>affected := Some \<lparr>aff_Name = name, aff_Title = title, aff_Operation = op\<rparr>\<rparr>)"

definition tx_close :: "'w Tx \<Rightarrow> 'w Tx" where
  "tx_close tx = tx\<lparr>affected := None, rollbackHooks := []\<rparr>"

definition Commit :: "('w Tx, unit) go" where
  "Commit tx =
     (if tx_ctxDone tx then (Err (if tx_done tx then ErrTxDone else ErrCanceled), tx)
      else if tx_done tx then (Err ErrTxDone, tx)
      else (Ok (), tx_close (tx\<lparr>tx_done := True, tx_ctxDone := True\<rparr>)))"

text \<open>A hook returns nothing: what it does with its errors is its own business; a panic unwinds.\<close>

definition rollback :: "('w txState, unit) go" where
  "rollback s =
     (if tx_done (st_tx s) then (Err ErrTxDone, s)
      else
        tryM (onWorld (eachM ignoreM (rev (rollbackHooks (st_tx s))))) (\<lambda>_.
        modifyM (\<lambda>s. s\<lparr>st_tx := tx_close ((st_tx s)\<lparr>tx_ctxDone := True\<rparr>)\<rparr>))
        (s\<lparr>st_tx := (st_tx s)\<lparr>tx_done := True\<rparr>\<rparr>))"

definition Rollback :: "('w txState, unit) go" where
  "Rollback = rollback"

section \<open>The scheduler, sequentially\<close>

record 'w Daemon =
  scheduled :: "'w Tx option"
  daemon_world :: 'w

definition IsTransactionOpen :: "'w Tx option \<Rightarrow> bool" where
  "IsTransactionOpen tx = (case tx of Some t \<Rightarrow> \<not> IsDone t | None \<Rightarrow> False)"

definition GetTransaction :: "'w Daemon \<Rightarrow> 'w Tx option" where
  "GetTransaction d = scheduled d"

definition CreateTransaction :: "('w Daemon, unit) go" where
  "CreateTransaction d =
     (if IsTransactionOpen (scheduled d)
      then (Err (ErrorString ''TransactionScheduler: Transaction already open''), d)
      else (Ok (), d\<lparr>scheduled := Some BeginTx\<rparr>))"

text \<open>Code that holds the transaction the scheduler has just created.\<close>

definition inTx :: "('w txState, 'a) go \<Rightarrow> ('w Daemon, 'a) go" where
  "inTx m d =
     (case scheduled d of
        None \<Rightarrow> (Panic ''invalid memory address or nil pointer dereference'', d)
      | Some t \<Rightarrow>
          (case m \<lparr>st_tx = t, st_world = daemon_world d\<rparr> of
             (r, s) \<Rightarrow> (r, d\<lparr>scheduled := Some (st_tx s), daemon_world := st_world s\<rparr>)))"

lemma onWorld_run: "onWorld m s = (fst (m (st_world s)), s\<lparr>st_world := snd (m (st_world s))\<rparr>)"
  by (simp add: onWorld_def onPart_def split: prod.splits)

lemma onTx_run: "onTx m s = (fst (m (st_tx s)), s\<lparr>st_tx := snd (m (st_tx s))\<rparr>)"
  by (simp add: onTx_def onPart_def split: prod.splits)

section \<open>Transactions, concurrently\<close>

datatype result = Nil_result | TxDone_result | Canceled_result

text \<open>
  Where an actor stands: outside a method; in \<^verbatim>\<open>Commit\<close> between the look at the context and the compare and
  swap; in \<^verbatim>\<open>rollback\<close> before the read lock, and inside it with \<open>n\<close> hooks left; before the cancellation;
  before \<^verbatim>\<open>close\<close>; back from a method.
\<close>

datatype pc = Idle | AtCAS | AtLock | Hooks nat | AtCancel | AtClose | Returned result

datatype actor = Owner | Awaiter

record 'h txm =
  m_done :: bool
  m_canceled :: bool
  m_hooks :: "'h list"
  m_pc :: "actor \<Rightarrow> pc"
  m_committed :: bool
  m_taken :: "'h list"
  m_log :: "'h list"

text \<open>
  \<open>m_committed\<close>, \<open>m_taken\<close> (the hooks under the read lock) and \<open>m_log\<close> (the hooks that were run) record
  what happened; no step depends on them.
\<close>

definition newTx :: "'h txm" where
  "newTx = \<lparr>m_done = False, m_canceled = False, m_hooks = [], m_pc = (\<lambda>_. Idle),
            m_committed = False, m_taken = [], m_log = []\<rparr>"

definition setPc :: "actor \<Rightarrow> pc \<Rightarrow> 'h txm \<Rightarrow> 'h txm" where
  "setPc a p t = t\<lparr>m_pc := (m_pc t)(a := p)\<rparr>"

definition readLocked :: "'h txm \<Rightarrow> bool" where
  "readLocked t \<longleftrightarrow> (\<exists>a n. m_pc t a = Hooks n)"

inductive txStep :: "'h txm \<Rightarrow> 'h txm \<Rightarrow> bool" where
  subscribe: "m_pc t Owner = Idle \<Longrightarrow> \<not> readLocked t \<Longrightarrow> txStep t (t\<lparr>m_hooks := m_hooks t @ [h]\<rparr>)"
| commit_canceled: "m_pc t Owner = Idle \<Longrightarrow> m_canceled t \<Longrightarrow>
    txStep t (setPc Owner (Returned (if m_done t then TxDone_result else Canceled_result)) t)"
| commit_look: "m_pc t Owner = Idle \<Longrightarrow> \<not> m_canceled t \<Longrightarrow> txStep t (setPc Owner AtCAS t)"
| commit_late: "m_pc t Owner = AtCAS \<Longrightarrow> m_done t \<Longrightarrow> txStep t (setPc Owner (Returned TxDone_result) t)"
| commit_swap: "m_pc t Owner = AtCAS \<Longrightarrow> \<not> m_done t \<Longrightarrow>
    txStep t (setPc Owner AtCancel (t\<lparr>m_done := True, m_committed := True\<rparr>))"
| rollback_late: "m_pc t a = Idle \<Longrightarrow> a = Owner \<or> m_canceled t \<Longrightarrow> m_done t \<Longrightarrow>
    txStep t (setPc a (Returned TxDone_result) t)"
| rollback_swap: "m_pc t a = Idle \<Longrightarrow> a = Owner \<or> m_canceled t \<Longrightarrow> \<not> m_done t \<Longrightarrow>
    txStep t (setPc a AtLock (t\<lparr>m_done := True\<rparr>))"
| rollback_lock: "m_pc t a = AtLock \<Longrightarrow>
    txStep t (setPc a (Hooks (length (m_hooks t))) (t\<lparr>m_taken := m_hooks t\<rparr>))"
| run_hook: "m_pc t a = Hooks (Suc n) \<Longrightarrow>
    txStep t (setPc a (Hooks n) (t\<lparr>m_log := m_log t @ [m_hooks t ! n]\<rparr>))"
| rollback_unlock: "m_pc t a = Hooks 0 \<Longrightarrow> txStep t (setPc a AtCancel t)"
| cancel: "m_pc t a = AtCancel \<Longrightarrow> txStep t (setPc a AtClose (t\<lparr>m_canceled := True\<rparr>))"
| close: "m_pc t a = AtClose \<Longrightarrow> \<not> readLocked t \<Longrightarrow>
    txStep t (setPc a (Returned Nil_result) (t\<lparr>m_hooks := []\<rparr>))"
| next_call: "m_pc t Owner = Returned r \<Longrightarrow> txStep t (setPc Owner Idle t)"
| parent_canceled: "txStep t (t\<lparr>m_canceled := True\<rparr>)"

inductive_cases txStepE: "txStep t t'"

text \<open>An actor that has won the compare and swap and is not back yet.\<close>

definition inside :: "pc \<Rightarrow> bool" where
  "inside p \<longleftrightarrow> p \<in> {AtLock, AtCancel, AtClose} \<or> (\<exists>n. p = Hooks n)"

lemma inside_simps [simp]:
  "\<not> inside Idle" "\<not> inside AtCAS" "\<not> inside (Returned r)" "inside AtLock" "inside AtCancel" "inside AtClose"
  "inside (Hooks n)"
  by (simp_all add: inside_def)

definition txInv :: "'h txm \<Rightarrow> bool" where
  "txInv t \<longleftrightarrow>
     (\<forall>a. inside (m_pc t a) \<longrightarrow> m_done t) \<and>
     (\<forall>a b. inside (m_pc t a) \<longrightarrow> inside (m_pc t b) \<longrightarrow> a = b) \<and>
     (\<not> m_done t \<longrightarrow> \<not> m_committed t \<and> m_log t = [] \<and> m_taken t = []) \<and>
     (m_committed t \<longrightarrow> m_log t = [] \<and> (\<forall>a n. m_pc t a \<noteq> AtLock \<and> m_pc t a \<noteq> Hooks n)) \<and>
     (\<forall>a. m_pc t a = AtLock \<longrightarrow> m_log t = []) \<and>
     (\<forall>a n. m_pc t a = Hooks n \<longrightarrow>
        m_taken t = m_hooks t \<and> n \<le> length (m_hooks t) \<and> m_log t = rev (drop n (m_hooks t))) \<and>
     (m_done t \<and> \<not> m_committed t \<and> (\<forall>a n. m_pc t a \<noteq> AtLock \<and> m_pc t a \<noteq> Hooks n) \<longrightarrow>
        m_log t = rev (m_taken t))"

lemma txInv_new: "txInv newTx"
  by (simp add: txInv_def newTx_def)

lemma all_actors: "(\<forall>a. P a) \<longleftrightarrow> P Owner \<and> P Awaiter"
  by (metis actor.exhaust)

lemma rev_drop_step: "Suc n \<le> length xs \<Longrightarrow> rev (drop (Suc n) xs) @ [xs ! n] = rev (drop n xs)"
  by (metis Cons_nth_drop_Suc Suc_le_lessD rev.simps(2))

lemma txInv_step: "txStep t t' \<Longrightarrow> txInv t \<Longrightarrow> txInv t'"
proof (induction rule: txStep.induct)
  case (rollback_lock t a)
  then show ?case by (cases a) (auto simp: txInv_def setPc_def all_actors)
next
  case (run_hook t a n)
  then show ?case
    using rev_drop_step [of n "m_hooks t"] by (cases a) (auto simp: txInv_def setPc_def all_actors)
next
  case (rollback_late t a)
  then show ?case by (cases a) (auto simp: txInv_def setPc_def all_actors)
next
  case (rollback_swap t a)
  then show ?case by (cases a) (auto simp: txInv_def setPc_def all_actors)
next
  case (rollback_unlock t a)
  then show ?case by (cases a) (auto simp: txInv_def setPc_def all_actors)
next
  case (cancel t a)
  then show ?case by (cases a) (auto simp: txInv_def setPc_def all_actors)
next
  case (close t a)
  then show ?case by (cases a) (auto simp: txInv_def setPc_def all_actors readLocked_def)
qed (auto simp: txInv_def setPc_def all_actors readLocked_def split: if_splits)

definition txReachable :: "'h txm \<Rightarrow> bool" where
  "txReachable t \<longleftrightarrow> txStep\<^sup>*\<^sup>* newTx t"

lemma txReachable_inv: "txReachable t \<Longrightarrow> txInv t"
  unfolding txReachable_def by (induction rule: rtranclp_induct) (auto intro: txInv_new txInv_step)

section \<open>The scheduler, concurrently\<close>

text \<open>
  All transactions ever created, the last one being the field \<^verbatim>\<open>tx\<close> of the scheduler. \<^verbatim>\<open>CreateTransaction\<close> holds
  the scheduler's mutex, so that its look at the last transaction and the assignment are one step.
\<close>

inductive schedStep :: "'h txm list \<Rightarrow> 'h txm list \<Rightarrow> bool" where
  create: "ts = [] \<or> m_done (last ts) \<Longrightarrow> schedStep ts (ts @ [newTx])"
| within: "i < length ts \<Longrightarrow> txStep (ts ! i) t' \<Longrightarrow> schedStep ts (ts[i := t'])"

definition schedReachable :: "'h txm list \<Rightarrow> bool" where
  "schedReachable ts \<longleftrightarrow> schedStep\<^sup>*\<^sup>* [] ts"

lemma done_stays: "txStep t t' \<Longrightarrow> m_done t \<Longrightarrow> m_done t'"
  by (induction rule: txStep.induct) (auto simp: setPc_def)

definition schedInv :: "'h txm list \<Rightarrow> bool" where
  "schedInv ts \<longleftrightarrow> (\<forall>t\<in>set ts. txInv t) \<and> (\<forall>t\<in>set (butlast ts). m_done t)"

lemma schedInv_step: "schedStep ts ts' \<Longrightarrow> schedInv ts \<Longrightarrow> schedInv ts'"
proof (induction rule: schedStep.induct)
  case (create ts)
  then show ?case
    by (cases ts rule: rev_cases) (auto simp: schedInv_def txInv_new butlast_append)
next
  case (within i ts t')
  have inv: "\<forall>t\<in>set (ts[i := t']). txInv t"
    using within txInv_step set_update_subset_insert [of ts i t'] by (fastforce simp: schedInv_def)
  have "m_done t" if "t \<in> set (butlast (ts[i := t']))" for t
  proof -
    from that obtain k where k: "k < length ts - 1" "t = ts[i := t'] ! k"
      by (auto simp: in_set_conv_nth nth_butlast)
    have "ts ! k \<in> set (butlast ts)" using k(1) by (metis in_set_conv_nth length_butlast nth_butlast)
    then have "m_done (ts ! k)" using within.prems by (simp add: schedInv_def)
    then show ?thesis using k within.hyps done_stays by (cases "k = i") auto
  qed
  then show ?case using inv by (auto simp: schedInv_def)
qed

lemma schedReachable_inv: "schedReachable ts \<Longrightarrow> schedInv ts"
  unfolding schedReachable_def
proof (induction rule: rtranclp_induct)
  case base
  show ?case by (simp add: schedInv_def)
next
  case (step y z)
  then show ?case by (blast intro: schedInv_step)
qed

section \<open>Properties\<close>

text \<open>
  C3. The life of a transaction, whatever the interleaving of its owner with the waiting goroutine and with a
  cancelled caller: the rollback hooks run at most once each, newest first; after a successful commit none
  of them runs, and none has run; and a transaction that is done, was not committed and is not in the
  middle of its hooks has run all of them.
\<close>

theorem hooks_run_once_or_commit:
  assumes "txReachable t"
  shows "(\<exists>n. m_log t = take n (rev (m_taken t)))
    \<and> (m_committed t \<longrightarrow> m_log t = [])
    \<and> (\<not> m_done t \<longrightarrow> m_log t = [])
    \<and> (m_done t \<and> \<not> m_committed t \<and> (\<forall>a n. m_pc t a \<noteq> AtLock \<and> m_pc t a \<noteq> Hooks n) \<longrightarrow>
         m_log t = rev (m_taken t))"
proof -
  have inv: "txInv t" using txReachable_inv [OF assms] .
  have "\<exists>n. m_log t = take n (rev (m_taken t))"
  proof (cases "\<exists>a n. m_pc t a = Hooks n")
    case True
    then obtain a n where "m_pc t a = Hooks n" by blast
    then have "m_log t = rev (drop n (m_taken t))" using inv by (auto simp: txInv_def)
    then show ?thesis by (metis rev_drop)
  next
    case False
    then have "m_log t = [] \<or> m_log t = rev (m_taken t)" using inv unfolding txInv_def by blast
    then show ?thesis by (metis take0 take_all order_refl)
  qed
  then show ?thesis using inv unfolding txInv_def by blast
qed

text \<open>Carrying a rollback out on its own.\<close>

lemma run_hooks_steps:
  assumes "m_pc t a = Hooks n" and "n \<le> length (m_hooks t)"
  shows "\<exists>t'. txStep\<^sup>*\<^sup>* t t' \<and> m_pc t' = (m_pc t)(a := Hooks 0) \<and>
    m_log t' = m_log t @ rev (take n (m_hooks t)) \<and> m_hooks t' = m_hooks t \<and> m_taken t' = m_taken t \<and>
    m_done t' = m_done t \<and> m_canceled t' = m_canceled t \<and> m_committed t' = m_committed t"
  using assms
proof (induction n arbitrary: t)
  case 0
  then show ?case by (intro exI [of _ t]) auto
next
  case (Suc n)
  let ?t = "setPc a (Hooks n) (t\<lparr>m_log := m_log t @ [m_hooks t ! n]\<rparr>)"
  have s: "txStep t ?t" using Suc.prems by (intro run_hook) auto
  have pre: "m_pc ?t a = Hooks n" "n \<le> length (m_hooks ?t)" using Suc.prems by (simp_all add: setPc_def)
  obtain t' where t': "txStep\<^sup>*\<^sup>* ?t t'" "m_pc t' = (m_pc ?t)(a := Hooks 0)"
    "m_log t' = m_log ?t @ rev (take n (m_hooks ?t))" "m_hooks t' = m_hooks ?t" "m_taken t' = m_taken ?t"
    "m_done t' = m_done ?t" "m_canceled t' = m_canceled ?t" "m_committed t' = m_committed ?t"
    using Suc.IH [OF pre] by blast
  have "txStep\<^sup>*\<^sup>* t t'" using s t'(1) by (rule converse_rtranclp_into_rtranclp)
  then show ?case
    using t' Suc.prems by (intro exI [of _ t']) (auto simp: setPc_def take_Suc_conv_app_nth)
qed

lemma rollback_steps:
  assumes "txInv t" and "m_pc t Owner = Idle" and "\<not> m_done t"
  shows "\<exists>t'. txStep\<^sup>*\<^sup>* t t' \<and> m_done t' \<and> m_pc t' Owner = Hooks 0 \<and>
    m_log t' = rev (m_hooks t) \<and> \<not> inside (m_pc t' Awaiter)"
proof -
  let ?t1 = "setPc Owner AtLock (t\<lparr>m_done := True\<rparr>)"
  let ?t2 = "setPc Owner (Hooks (length (m_hooks t))) (?t1\<lparr>m_taken := m_hooks t\<rparr>)"
  have "txStep t ?t1" using assms by (intro rollback_swap) auto
  moreover have "txStep ?t1 ?t2" using rollback_lock [of ?t1 Owner] by (simp add: setPc_def)
  ultimately have s: "txStep\<^sup>*\<^sup>* t ?t2" by auto
  obtain t' where t': "txStep\<^sup>*\<^sup>* ?t2 t'" "m_pc t' = (m_pc ?t2)(Owner := Hooks 0)"
    "m_log t' = m_log ?t2 @ rev (take (length (m_hooks t)) (m_hooks ?t2))" "m_done t' = m_done ?t2"
    using run_hooks_steps [of ?t2 Owner "length (m_hooks t)"] by (auto simp: setPc_def)
  have "txStep\<^sup>*\<^sup>* t t'" using s t'(1) by (rule rtranclp_trans)
  moreover have "m_log t = []" "\<not> inside (m_pc t Awaiter)" using assms by (auto simp: txInv_def)
  ultimately show ?thesis using t' by (intro exI [of _ t']) (auto simp: setPc_def)
qed

text \<open>
  C4. A transaction that is still open can be rolled back to the end: from every reachable state in which the
  owner is outside a method and the transaction is not done there is a run in which \<^verbatim>\<open>Rollback\<close> runs all hooks
  subscribed so far, newest first, cancels the context, forgets the hooks and returns nil.
\<close>

theorem rollback_completes:
  assumes "txReachable t" and "m_pc t Owner = Idle" and "\<not> m_done t"
  shows "\<exists>t'. txStep\<^sup>*\<^sup>* t t' \<and> m_done t' \<and> m_canceled t' \<and> m_hooks t' = []
    \<and> m_log t' = rev (m_hooks t) \<and> m_pc t' Owner = Returned Nil_result"
proof -
  obtain t3 where t3: "txStep\<^sup>*\<^sup>* t t3" "m_done t3" "m_pc t3 Owner = Hooks 0" "m_log t3 = rev (m_hooks t)"
    "\<not> inside (m_pc t3 Awaiter)"
    using rollback_steps [OF txReachable_inv [OF assms(1)] assms(2,3)] by blast
  let ?t4 = "setPc Owner AtCancel t3"
  let ?t5 = "setPc Owner AtClose (?t4\<lparr>m_canceled := True\<rparr>)"
  let ?t6 = "setPc Owner (Returned Nil_result) (?t5\<lparr>m_hooks := []\<rparr>)"
  have "txStep t3 ?t4" using t3 by (intro rollback_unlock)
  moreover have "txStep ?t4 ?t5" by (intro cancel) (simp add: setPc_def)
  moreover have "\<not> readLocked ?t5"
    using t3(5) by (auto simp: readLocked_def setPc_def inside_def split: if_splits) (metis actor.exhaust)
  then have "txStep ?t5 ?t6" by (intro close) (simp_all add: setPc_def)
  ultimately have "txStep\<^sup>*\<^sup>* t3 ?t6" by auto
  with t3(1) have "txStep\<^sup>*\<^sup>* t ?t6" by (rule rtranclp_trans)
  then show ?thesis using t3 by (intro exI [of _ ?t6]) (auto simp: setPc_def)
qed

definition subscribedTx :: "nat txm" where
  "subscribedTx = newTx\<lparr>m_hooks := [1, 2]\<rparr>"

lemma subscribed_reachable: "txReachable subscribedTx"
proof -
  have n: "\<not> readLocked t" if "m_pc t = (\<lambda>_. Idle)" for t :: "nat txm" using that by (simp add: readLocked_def)
  have "txStep newTx (newTx\<lparr>m_hooks := [1 :: nat]\<rparr>)"
    using subscribe [of newTx "1 :: nat"] n by (simp add: newTx_def del: One_nat_def)
  moreover have "txStep (newTx\<lparr>m_hooks := [1 :: nat]\<rparr>) subscribedTx"
    using subscribe [of "newTx\<lparr>m_hooks := [1 :: nat]\<rparr>" 2] n
    by (simp add: newTx_def subscribedTx_def del: One_nat_def)
  ultimately show ?thesis unfolding txReachable_def by auto
qed

theorem hooks_run_once_or_commit_witness:
  "m_log subscribedTx = [] \<and> (\<exists>n. m_log subscribedTx = take n (rev (m_taken subscribedTx)))"
  using hooks_run_once_or_commit [OF subscribed_reachable] by (auto simp: subscribedTx_def newTx_def)

theorem rollback_completes_witness:
  "\<exists>t'. txStep\<^sup>*\<^sup>* subscribedTx t' \<and> m_log t' = [2, 1] \<and> m_pc t' Owner = Returned Nil_result"
  using rollback_completes [OF subscribed_reachable] by (fastforce simp: subscribedTx_def newTx_def)

text \<open>
  C5. The scheduler: of all transactions ever created at most one is open (not done), so that at most one
  routine works on the device at a time. But the transaction counts as done from the start of its rollback
  on: there are runs in which a new transaction is open while hooks of the previous one are still to be run.
\<close>

theorem one_open_transaction:
  "(\<forall>ts :: 'h txm list. schedReachable ts \<longrightarrow> length (filter (\<lambda>t. \<not> m_done t) ts) \<le> 1)
   \<and> (\<exists>ts :: 'h txm list. schedReachable ts \<and>
        (\<exists>n. m_pc (ts ! 0) Owner = Hooks (Suc n)) \<and> length ts = 2 \<and> \<not> m_done (ts ! 1))"
proof (intro conjI allI impI)
  fix ts :: "'h txm list"
  assume "schedReachable ts"
  then have "\<forall>t\<in>set (butlast ts). m_done t" using schedReachable_inv by (auto simp: schedInv_def)
  then show "length (filter (\<lambda>t. \<not> m_done t) ts) \<le> 1"
    by (cases ts rule: rev_cases) (auto simp: filter_empty_conv)
next
  let ?h = "undefined :: 'h"
  let ?t0 = "newTx :: 'h txm"
  let ?t1 = "?t0\<lparr>m_hooks := [?h]\<rparr>"
  let ?t2 = "setPc Owner AtLock (?t1\<lparr>m_done := True\<rparr>)"
  let ?t3 = "setPc Owner (Hooks 1) (?t2\<lparr>m_taken := [?h]\<rparr>)"
  have "txStep ?t0 ?t1" using subscribe [of ?t0 ?h] by (simp add: newTx_def readLocked_def)
  moreover have "txStep ?t1 ?t2" by (intro rollback_swap) (simp_all add: newTx_def)
  moreover have "txStep ?t2 ?t3" using rollback_lock [of ?t2 Owner] by (simp add: setPc_def)
  moreover have lift: "schedStep [t] [t']" if "txStep t t'" for t t' :: "'h txm"
    using within [of 0 "[t]" t'] that by simp
  moreover have "schedStep [] [?t0]" using create [of "[] :: 'h txm list"] by simp
  moreover have "schedStep [?t3] [?t3, newTx]" using create [of "[?t3]"] by (simp add: setPc_def)
  ultimately have "schedStep\<^sup>*\<^sup>* [] [?t3, newTx]"
    by (meson converse_rtranclp_into_rtranclp rtranclp.rtrancl_refl)
  then show "\<exists>ts :: 'h txm list. schedReachable ts \<and>
      (\<exists>n. m_pc (ts ! 0) Owner = Hooks (Suc n)) \<and> length ts = 2 \<and> \<not> m_done (ts ! 1)"
    unfolding schedReachable_def
    by (intro exI [of _ "[?t3, newTx]"]) (auto simp: setPc_def newTx_def)
qed

theorem one_open_transaction_witness:
  "length (filter (\<lambda>t. \<not> m_done t) [subscribedTx]) \<le> 1"
proof -
  have "schedStep\<^sup>*\<^sup>* [] ([t] :: nat txm list)" if "txStep\<^sup>*\<^sup>* newTx t" for t
    using that
  proof (induction rule: rtranclp_induct)
    case base
    then show ?case using create [of "[] :: nat txm list"] by auto
  next
    case (step y z)
    then show ?case using within [of 0 "[y]" z] by (auto intro: rtranclp.rtrancl_into_rtrancl)
  qed
  then have "schedReachable [subscribedTx]"
    using subscribed_reachable by (simp add: schedReachable_def txReachable_def)
  then show ?thesis using one_open_transaction by blast
qed

end
