(* ===== verification/Compose.thy ===== *)
theory Compose
  imports Migration
begin

text \<open>
  \<^verbatim>\<open>internal/aom/yaml\<close>: the docker-compose file of a manifest
  (\<^verbatim>\<open>get_docker_compose_from_manifest.go\<close>) and the host ports of a compose file (\<^verbatim>\<open>yaml.go\<close>).

  The YAML text that the third-party package \<^verbatim>\<open>yaml.v3\<close> writes and reads is represented by the value it
  denotes. The functions write the merged environment into the configuration they are given; the model
  returns the changed configuration.
\<close>

section \<open>Environment variables\<close>

definition toKeyValue :: "string \<Rightarrow> (string \<times> string) res" where
  "toKeyValue keyValue =
     (case SplitN2 keyValue (CHR ''='') of
        [k, v] \<Rightarrow> Ok (k, v)
      | _ \<Rightarrow> Panic ''index out of range [1] with length 1'')"

text \<open>The type assertion \<^verbatim>\<open>keyValue.(string)\<close> panics on every other type.\<close>

fun environmentEntry :: "json \<Rightarrow> (string \<times> string) res" where
  "environmentEntry (JStr s) = toKeyValue s"
| "environmentEntry _ = Panic ''interface conversion: interface {} is not string''"

definition putAll :: "(string \<times> 'v) list \<Rightarrow> (string \<times> 'v) list \<Rightarrow> (string \<times> 'v) list" where
  "putAll kvs m = foldl (\<lambda>acc (k, v). AList.update k v acc) m kvs"

definition getEnvironmentAsMapFrom :: "json gomap \<Rightarrow> (string \<times> json) list res" where
  "getEnvironmentAsMapFrom config =
     (case mget config ''environment'' of
        Some (JArr environmentAsArray) \<Rightarrow>
          bind_res (mapR environmentEntry environmentAsArray) (\<lambda>kvs.
          Ok (putAll (map (\<lambda>(k, v). (k, JStr v)) kvs) []))
      | Some (JObj environmentAsMap) \<Rightarrow>
          Ok (putAll (map (\<lambda>(k, v). (k, JStr (fmt_v v))) environmentAsMap) [])
      | _ \<Rightarrow> Ok [])"

text \<open>The value a setting contributes: its text, or the first selected item.\<close>

definition settingValue :: "Setting \<Rightarrow> string option" where
  "settingValue s =
     (case set_Select s of
        None \<Rightarrow> Some (set_Value s)
      | Some items \<Rightarrow> map_option item_Value (find item_Selected items))"

definition getDockerComposeEnvironmentMapFrom :: "Setting list \<Rightarrow> (string \<times> json) list" where
  "getDockerComposeEnvironmentMapFrom settings =
     putAll (List.map_filter (\<lambda>s. map_option (\<lambda>v. (set_Name s, JStr v)) (settingValue s)) settings) []"

definition mergeEnvironmentVariables :: "json gomap \<Rightarrow> Setting list gomap \<Rightarrow> json gomap res" where
  "mergeEnvironmentVariables config manifestSettings =
     (case mget manifestSettings ''environmentVariables'' of
        None \<Rightarrow> Ok config
      | Some settings \<Rightarrow>
          bind_res (getEnvironmentAsMapFrom config) (\<lambda>environment.
            mput config ''environment''
              (JObj (putAll (getDockerComposeEnvironmentMapFrom settings) environment))))"

section \<open>Keys in snake case\<close>

text \<open>
  \<^verbatim>\<open>ReplaceAllString\<close> with \<^verbatim>\<open>(.)([A-Z][a-z]+)\<close> and with \<^verbatim>\<open>([a-z0-9])([A-Z])\<close>: an underscore is put
  between the two groups of every match, from left to right without overlap.
\<close>

function matchFirstCap :: "string \<Rightarrow> string" where
  "matchFirstCap [] = []"
| "matchFirstCap [c] = [c]"
| "matchFirstCap (c # u # s) =
     (if c \<noteq> CHR 0x0A \<and> isUpper u \<and> takeWhile isLower s \<noteq> []
      then c # CHR ''_'' # u # takeWhile isLower s @ matchFirstCap (dropWhile isLower s)
      else c # matchFirstCap (u # s))"
  by pat_completeness auto

termination
  by (relation "measure length") (auto simp: length_dropWhile_le le_imp_less_Suc le_SucI)

fun matchAllCap :: "string \<Rightarrow> string" where
  "matchAllCap [] = []"
| "matchAllCap [c] = [c]"
| "matchAllCap (c # u # s) =
     (if (isLower c \<or> isDigit c) \<and> isUpper u
      then c # CHR ''_'' # u # matchAllCap s
      else c # matchAllCap (u # s))"

definition toSnakeCase :: "string \<Rightarrow> string" where
  "toSnakeCase str = ToLower (matchAllCap (matchFirstCap str))"

fun convertDockerSettingWithSnakeCasedKeys :: "json \<Rightarrow> json" where
  "convertDockerSettingWithSnakeCasedKeys (JObj dockerConfig) =
     JObj (putAll
       (map (\<lambda>(configKey, configSettings).
          if configKey = ''environment'' then (configKey, configSettings)
          else (toSnakeCase configKey, convertDockerSettingWithSnakeCasedKeys configSettings)) dockerConfig) [])"
| "convertDockerSettingWithSnakeCasedKeys j = j"

definition convertManifestSettings :: "(string \<times> json) list \<Rightarrow> (string \<times> json) list" where
  "convertManifestSettings composeSetting =
     map (\<lambda>(settingsName, settingsValue).
       (settingsName, convertDockerSettingWithSnakeCasedKeys settingsValue)) composeSetting"

section \<open>The compose file\<close>

definition getDockerComposeServicesFrom ::
  "Service gomap \<Rightarrow> Setting list gomap \<Rightarrow> (string \<times> json) list res" where
  "getDockerComposeServicesFrom manifestServices manifestSettings =
     mapR (\<lambda>(name, service).
         bind_res (mergeEnvironmentVariables (svc_Config service) manifestSettings) (\<lambda>config.
         Ok (name, JObj (entries config))))
       (filter (\<lambda>(_, service). svc_Type service = ''docker-compose'') (entries manifestServices))"

definition getDockerComposeEnvironmentsFrom ::
  "Environment gomap \<Rightarrow> (string \<times> EnvironmentConfig) list" where
  "getDockerComposeEnvironmentsFrom manifestEnvironments =
     map (\<lambda>(name, e). (name, env_Config e))
       (filter (\<lambda>(_, e). env_Type e = ''docker-compose'') (entries manifestEnvironments))"

text \<open>Empty settings become a nil value.\<close>

definition orNil :: "json gomap \<Rightarrow> json" where
  "orNil settings = (if entries settings = [] then JNull else JObj (entries settings))"

definition getDockerComposeVolumesFrom :: "Environment gomap \<Rightarrow> (string \<times> json) list" where
  "getDockerComposeVolumesFrom manifestEnvironments =
     putAll
       (concat (map (\<lambda>(_, c). map (\<lambda>(n, s). (n, orNil s)) (entries (Volumes c)))
         (getDockerComposeEnvironmentsFrom manifestEnvironments))) []"

definition getDockerComposeNetworksFrom :: "Environment gomap \<Rightarrow> (string \<times> json) list" where
  "getDockerComposeNetworksFrom manifestEnvironments =
     putAll
       (concat (map (\<lambda>(_, c). map (\<lambda>(n, s). (n, orNil s)) (entries (Networks c)))
         (getDockerComposeEnvironmentsFrom manifestEnvironments))) []"

record manifestToDockerCompose =
  cmp_version :: string
  cmp_services :: "(string \<times> json) list"
  cmp_volumes :: "(string \<times> json) list"
  cmp_networks :: "(string \<times> json) list"

definition MarshalYAML :: "manifestToDockerCompose \<Rightarrow> json" where
  "MarshalYAML c =
     JObj ([(''version'', JStr (cmp_version c))] @
       (if cmp_services c \<noteq> [] then [(''services'', JObj (convertManifestSettings (cmp_services c)))] else []) @
       (if cmp_volumes c \<noteq> [] then [(''volumes'', JObj (convertManifestSettings (cmp_volumes c)))] else []) @
       (if cmp_networks c \<noteq> [] then [(''networks'', JObj (convertManifestSettings (cmp_networks c)))] else []))"

definition SUPPORTED_COMPOSE_FILE_VERSION :: string where
  "SUPPORTED_COMPOSE_FILE_VERSION = ''2''"

definition GetDockerComposeFromManifest :: "Root \<Rightarrow> json res" where
  "GetDockerComposeFromManifest manifestRoot =
     bind_res (getDockerComposeServicesFrom (Services manifestRoot) (Settings manifestRoot)) (\<lambda>services.
     Ok (MarshalYAML
       \<lparr>cmp_version = SUPPORTED_COMPOSE_FILE_VERSION, cmp_services = services,
        cmp_volumes = getDockerComposeVolumesFrom (Environments manifestRoot),
        cmp_networks = getDockerComposeNetworksFrom (Environments manifestRoot)\<rparr>))"

section \<open>Host ports\<close>

definition parseHostPorts :: "string list \<Rightarrow> string list" where
  "parseHostPorts portMaps =
     List.map_filter (\<lambda>p. case Split p (CHR '':'') of [host, _] \<Rightarrow> Some host | _ \<Rightarrow> None) portMaps"

text \<open>The ports of the services of a compose file, as \<^verbatim>\<open>yaml.Unmarshal\<close> delivers them.\<close>

definition GetComposeServicesPublicPortsFrom :: "(string \<times> string list) list \<Rightarrow> string list list" where
  "GetComposeServicesPublicPortsFrom stackServices =
     map parseHostPorts
       (filter (list_ex (\<lambda>port. Contains port '':'')) (map snd stackServices))"

section \<open>Lemmas\<close>

lemma map_of_putAll: "map_of (putAll kvs m) k = (case map_of (rev kvs) k of Some v \<Rightarrow> Some v | None \<Rightarrow> map_of m k)"
proof (induction kvs arbitrary: m)
  case Nil
  then show ?case by (simp add: putAll_def)
next
  case (Cons kv kvs)
  have "putAll (kv # kvs) m = putAll kvs (AList.update (fst kv) (snd kv) m)"
    by (simp add: putAll_def case_prod_beta)
  then show ?case
    using Cons by (cases kv) (auto simp: update_conv' map_add_def split: option.splits)
qed

lemma toKeyValue_Ok: "toKeyValue s = Ok (k, v) \<longleftrightarrow> CHR ''='' \<notin> set k \<and> s = k @ CHR ''='' # v"
proof
  assume "toKeyValue s = Ok (k, v)"
  then have e: "CHR ''='' \<in> set s" "k = takeWhile (\<lambda>x. x \<noteq> CHR ''='') s" "v = tl (dropWhile (\<lambda>x. x \<noteq> CHR ''='') s)"
    by (auto simp: toKeyValue_def SplitN2_def split: if_splits)
  then obtain a b where "s = a @ CHR ''='' # b" "CHR ''='' \<notin> set a" by (meson split_list_first)
  then have "takeWhile (\<lambda>x. x \<noteq> CHR ''='') s = a" "dropWhile (\<lambda>x. x \<noteq> CHR ''='') s = CHR ''='' # b"
    by (auto simp: takeWhile_tail takeWhile_eq_all_conv [THEN iffD2] dropWhile_append dropWhile_eq_Nil_conv [THEN iffD2])
  then show "CHR ''='' \<notin> set k \<and> s = k @ CHR ''='' # v" using e by (metis \<open>CHR ''='' \<notin> set a\<close> \<open>s = a @ CHR ''='' # b\<close> list.sel(3))
next
  assume "CHR ''='' \<notin> set k \<and> s = k @ CHR ''='' # v"
  then show "toKeyValue s = Ok (k, v)" by (simp add: toKeyValue_def SplitN2_append)
qed

lemma toKeyValue_panics: "(\<exists>m. toKeyValue s = Panic m) \<longleftrightarrow> CHR ''='' \<notin> set s"
  by (simp add: toKeyValue_def SplitN2_def)

lemma toKeyValue_no_Err: "toKeyValue s \<noteq> Err e"
  by (auto simp: toKeyValue_def split: list.splits)

lemma no_upper_matchFirstCap: "\<forall>c\<in>set s. \<not> isUpper c \<Longrightarrow> matchFirstCap s = s"
  by (induction s rule: matchFirstCap.induct) auto

lemma no_upper_matchAllCap: "\<forall>c\<in>set s. \<not> isUpper c \<Longrightarrow> matchAllCap s = s"
  by (induction s rule: matchAllCap.induct) auto

lemma no_upper_ToLower: "\<forall>c\<in>set s. \<not> isUpper c \<Longrightarrow> ToLower s = s"
  by (simp add: ToLower_def lowerChar_def map_idI)

lemma toSnakeCase_no_upper: "c \<in> set (toSnakeCase s) \<Longrightarrow> \<not> isUpper c"
  using lowerChar_not_upper by (auto simp: toSnakeCase_def ToLower_def)

lemma toSnakeCase_fixed: "\<forall>c\<in>set s. \<not> isUpper c \<Longrightarrow> toSnakeCase s = s"
  by (simp add: toSnakeCase_def no_upper_matchFirstCap no_upper_matchAllCap no_upper_ToLower)

lemma putAll_fromMembers: "putAll kvs [] = fromMembers kvs"
  by (simp add: putAll_def fromMembers_def)

lemma settings_contributions:
  assumes "distinct (map set_Name xs)"
  shows "map_of (rev (List.map_filter (\<lambda>s. map_option (\<lambda>v. (set_Name s, JStr v)) (settingValue s)) xs)) k =
    (case find (\<lambda>s. set_Name s = k) xs of None \<Rightarrow> None | Some s \<Rightarrow> map_option JStr (settingValue s))"
  using assms
proof (induction xs)
  case Nil
  then show ?case by simp
next
  case (Cons x xs)
  have other: "find (\<lambda>s. set_Name s = set_Name x) xs = None"
    using Cons.prems by (auto simp: find_None_iff) (metis image_eqI)
  show ?case
    using Cons other by (cases "settingValue x") (auto simp: map_add_def split: option.splits)
qed

lemma environmentEntry_cases:
  "(\<exists>m. environmentEntry j = Panic m) \<longleftrightarrow> \<not> (\<exists>s. j = JStr s \<and> CHR ''='' \<in> set s)"
  "environmentEntry j \<noteq> Err e"
  using toKeyValue_panics by (cases j; simp add: toKeyValue_no_Err)+

lemma mapR_Panic_iff:
  assumes "\<And>x e. x \<in> set xs \<Longrightarrow> f x \<noteq> Err e"
  shows "(\<exists>m. mapR f xs = Panic m) \<longleftrightarrow> (\<exists>x\<in>set xs. \<exists>m. f x = Panic m)"
    and "mapR f xs \<noteq> Err e"
  using assms
proof (induction xs)
  case Nil
  case 1 show ?case by simp
  case 2 show ?case by simp
next
  case (Cons x xs)
  case 1
  then show ?case using Cons.IH by (cases "f x"; cases "mapR f xs") auto
  case 2
  then show ?case using Cons.IH by (cases "f x"; cases "mapR f xs") auto
qed

lemma bind_res_Panic_iff: "bind_res r k = Panic m \<longleftrightarrow> r = Panic m \<or> (\<exists>x. r = Ok x \<and> k x = Panic m)"
  by (cases r) auto

lemma bind_res_Err_iff: "bind_res r k = Err e \<longleftrightarrow> r = Err e \<or> (\<exists>x. r = Ok x \<and> k x = Err e)"
  by (cases r) auto

lemma convert_distinct_fixed:
  assumes "distinct (map fst kvs)" and "\<And>k v. (k, v) \<in> set kvs \<Longrightarrow> f (k, v) = (k, v)"
  shows "putAll (map f kvs) [] = kvs"
proof -
  have "map f kvs = kvs" by (rule map_idI) (use assms(2) in auto)
  then show ?thesis using fromMembers_distinct [OF assms(1)] by (simp add: putAll_fromMembers)
qed

lemma convert_idem:
  "convertDockerSettingWithSnakeCasedKeys (convertDockerSettingWithSnakeCasedKeys j) =
   convertDockerSettingWithSnakeCasedKeys j"
proof (induction j rule: convertDockerSettingWithSnakeCasedKeys.induct)
  case (1 kvs)
  let ?c = convertDockerSettingWithSnakeCasedKeys
  let ?f = "\<lambda>(k, v). if k = ''environment'' then (k, v) else (toSnakeCase k, ?c v)"
  have "?f (k, v) = (k, v)" if kv: "(k, v) \<in> set (putAll (map ?f kvs) [])" for k v
  proof (cases "k = ''environment''")
    case False
    have "(k, v) \<in> ?f ` set kvs" using kv set_fromMembers [of "map ?f kvs"] by (auto simp: putAll_fromMembers)
    then obtain k0 v0 where 0: "(k0, v0) \<in> set kvs" "?f (k0, v0) = (k, v)" by auto
    then have kv0: "k0 \<noteq> ''environment''" "k = toSnakeCase k0" "v = ?c v0" using False by (auto split: if_splits)
    have "toSnakeCase k = k" using toSnakeCase_fixed [of k] toSnakeCase_no_upper [of _ k0] kv0 by blast
    moreover have "?c v = v" using "1.IH" [OF 0(1) refl kv0(1)] kv0(3) by simp
    ultimately show ?thesis using False by simp
  qed simp
  then have "putAll (map ?f (putAll (map ?f kvs) [])) [] = putAll (map ?f kvs) []"
    by (intro convert_distinct_fixed) (simp_all add: putAll_fromMembers distinct_fromMembers)
  then show ?case by simp
qed simp_all

section \<open>Properties\<close>

text \<open>
  What the configuration of a service says of a variable: the last entry \<^verbatim>\<open>KEY=value\<close> of a list, cut at the first
  \<^verbatim>\<open>=\<close>, or the member of an object.
\<close>

definition declaredEntry :: "json \<Rightarrow> string \<times> string" where
  "declaredEntry j =
     (case j of JStr s \<Rightarrow> (takeWhile (\<lambda>c. c \<noteq> CHR ''='') s, tl (dropWhile (\<lambda>c. c \<noteq> CHR ''='') s)) | _ \<Rightarrow> ([], []))"

definition declaredValue :: "json gomap \<Rightarrow> string \<Rightarrow> string option" where
  "declaredValue config k =
     (case mget config ''environment'' of
        Some (JArr xs) \<Rightarrow> map_of (rev (map declaredEntry xs)) k
      | Some (JObj kvs) \<Rightarrow> map_option fmt_v (map_of (rev kvs) k)
      | _ \<Rightarrow> None)"

lemma map_of_putAll_values: "map_of (putAll (map (\<lambda>(k, v). (k, f v)) kvs) []) k = map_option f (map_of (rev kvs) k)"
  by (simp add: map_of_putAll rev_map map_of_map split: option.splits)

lemma environmentEntry_Ok: "environmentEntry j = Ok kv \<Longrightarrow> kv = declaredEntry j"
  by (cases j) (auto simp: toKeyValue_def SplitN2_def declaredEntry_def split: if_splits)

lemma environmentEntries: "mapR environmentEntry xs = Ok kvs \<Longrightarrow> kvs = map declaredEntry xs"
  by (induction xs arbitrary: kvs) (auto simp: bind_res_Ok_iff environmentEntry_Ok)

lemma declared_base:
  assumes "getEnvironmentAsMapFrom config = Ok base"
  shows "map_of base k = map_option JStr (declaredValue config k)"
  using assms environmentEntries
  by (fastforce simp: getEnvironmentAsMapFrom_def declaredValue_def bind_res_Ok_iff map_of_putAll_values
      map_of_putAll_values [of "\<lambda>v. JStr (fmt_v v)"] option.map_comp comp_def split: option.splits json.splits)

text \<open>
  C39. Merging the settings of a manifest into the environment of a service. A setting without choices defines its
  variable as its text, a setting with choices as the value of the first selected one. Every other variable, also that of
  a setting of which nothing is selected, keeps exactly the value the service configuration declares for it, in the form
  of a list or of an object, or stays undefined; and no other key of the configuration changes.
\<close>

theorem merged_environment:
  assumes "mergeEnvironmentVariables config manifestSettings = Ok config'"
    and "mget manifestSettings ''environmentVariables'' = Some settings" and "distinct (map set_Name settings)"
  shows "\<exists>env. mget config' ''environment'' = Some (JObj env)
    \<and> (\<forall>s\<in>set settings. set_Select s = None \<longrightarrow> map_of env (set_Name s) = Some (JStr (set_Value s)))
    \<and> (\<forall>s\<in>set settings. \<forall>xs x ys. set_Select s = Some (xs @ x # ys) \<and> item_Selected x \<and> (\<forall>y\<in>set xs. \<not> item_Selected y) \<longrightarrow>
         map_of env (set_Name s) = Some (JStr (item_Value x)))
    \<and> (\<forall>k. (\<forall>s\<in>set settings. set_Name s = k \<longrightarrow> (\<exists>xs. set_Select s = Some xs \<and> (\<forall>x\<in>set xs. \<not> item_Selected x))) \<longrightarrow>
         map_of env k = map_option JStr (declaredValue config k))
    \<and> (\<forall>key. key \<noteq> ''environment'' \<longrightarrow> mget config' key = mget config key)"
proof -
  let ?s = "getDockerComposeEnvironmentMapFrom settings"
  from assms(1,2) obtain base where base: "getEnvironmentAsMapFrom config = Ok base"
    and put: "mput config ''environment'' (JObj (putAll ?s base)) = Ok config'"
    by (auto simp: mergeEnvironmentVariables_def bind_res_Ok_iff)
  have ms: "map_of (rev ?s) k = (case find (\<lambda>s. set_Name s = k) settings of None \<Rightarrow> None | Some s \<Rightarrow> map_option JStr (settingValue s))" for k
  proof -
    have "distinct (map fst ?s)"
      by (simp add: getDockerComposeEnvironmentMapFrom_def putAll_fromMembers distinct_fromMembers)
    then have "map_of (rev ?s) k = map_of ?s k" by (rule map_of_rev_distinct)
    then show ?thesis
      using settings_contributions [OF assms(3), of k]
      by (simp add: getDockerComposeEnvironmentMapFrom_def map_of_putAll split: option.splits)
  qed
  have fnd: "find (\<lambda>t. set_Name t = set_Name s) settings = Some s" if "s \<in> set settings" for s
    using that assms(3) by (induction settings) auto
  have lk: "map_of (putAll ?s base) k = (case find (\<lambda>s. set_Name s = k) settings of
      None \<Rightarrow> map_of base k | Some s \<Rightarrow> (case settingValue s of None \<Rightarrow> map_of base k | Some v \<Rightarrow> Some (JStr v)))" for k
    by (auto simp: map_of_putAll ms split: option.splits)
  have set_lk: "map_of (putAll ?s base) (set_Name s) = Some (JStr v)" if "s \<in> set settings" "settingValue s = Some v" for s v
    using that fnd [of s] by (simp add: lk)
  have other_lk: "map_of (putAll ?s base) k = map_option JStr (declaredValue config k)"
    if none: "\<forall>s\<in>set settings. set_Name s = k \<longrightarrow> (\<exists>xs. set_Select s = Some xs \<and> (\<forall>x\<in>set xs. \<not> item_Selected x))" for k
  proof (cases "find (\<lambda>s. set_Name s = k) settings")
    case (Some s)
    then have "s \<in> set settings" "set_Name s = k" by (auto simp: find_Some_iff)
    with none have "settingValue s = None" by (auto simp: settingValue_def find_None_iff)
    then show ?thesis using Some by (simp add: lk declared_base [OF base])
  qed (simp add: lk declared_base [OF base])
  have chosen: "find item_Selected (xs @ x # ys) = Some x" if "item_Selected x" "\<forall>y\<in>set xs. \<not> item_Selected y" for xs x ys
    using that by (induction xs) auto
  show ?thesis
  proof (intro exI [of _ "putAll ?s base"] conjI ballI allI impI)
    fix s xs x ys
    assume "s \<in> set settings"
      and "set_Select s = Some (xs @ x # ys) \<and> item_Selected x \<and> (\<forall>y\<in>set xs. \<not> item_Selected y)"
    then show "map_of (putAll ?s base) (set_Name s) = Some (JStr (item_Value x))"
      by (intro set_lk) (simp_all add: settingValue_def chosen)
  qed (use mget_mput [OF put] set_lk other_lk in \<open>auto simp: settingValue_def\<close>)
qed

theorem merged_environment_witness:
  "\<exists>config'. mergeEnvironmentVariables (Some [(''environment'', JArr [JStr ''A=1'', JStr ''B=x=y''])])
       (Some [(''environmentVariables'', [WithTextBoxValue ''2'' (NewSettings ''A'' ''a'' True)])]) = Ok config'
     \<and> (\<exists>env. mget config' ''environment'' = Some (JObj env) \<and> map_of env ''A'' = Some (JStr ''2'')
          \<and> map_of env ''B'' = Some (JStr ''x=y''))"
proof -
  let ?c = "Some [(''environment'', JArr [JStr ''A=1'', JStr ''B=x=y''])]"
  let ?s = "WithTextBoxValue ''2'' (NewSettings ''A'' ''a'' True)"
  let ?m = "Some [(''environmentVariables'', [?s])]"
  have "is_ok (mergeEnvironmentVariables ?c ?m)" by code_simp
  then obtain c' where c': "mergeEnvironmentVariables ?c ?m = Ok c'"
    by (cases "mergeEnvironmentVariables ?c ?m") auto
  have s: "set_Select ?s = None" "set_Value ?s = ''2''" "set_Name ?s = ''A''" and b: "declaredValue ?c ''B'' = Some ''x=y''" by code_simp+
  from merged_environment [OF c', of "[?s]"] obtain env where "mget c' ''environment'' = Some (JObj env)"
    and "map_of env ''A'' = Some (JStr ''2'')" and "map_of env ''B'' = map_option JStr (declaredValue ?c ''B'')"
    using s by fastforce
  then show ?thesis using c' b by auto
qed

text \<open>
  When the merge panics, which ends the daemon: exactly when the manifest has environment settings
  and either the service has no configuration at all, or its environment is a list with an entry that
  is not a text of the form \<^verbatim>\<open>KEY=value\<close>. It never returns an error.
\<close>

theorem merge_panics_iff:
  "((\<exists>m. mergeEnvironmentVariables config manifestSettings = Panic m) \<longleftrightarrow>
      mget manifestSettings ''environmentVariables'' \<noteq> None \<and>
      (config = None \<or>
       (\<exists>xs. mget config ''environment'' = Some (JArr xs) \<and>
             (\<exists>j\<in>set xs. \<not> (\<exists>s. j = JStr s \<and> CHR ''='' \<in> set s)))))
   \<and> (\<forall>e. mergeEnvironmentVariables config manifestSettings \<noteq> Err e)"
proof -
  have noerr: "getEnvironmentAsMapFrom config \<noteq> Err e" for e
    using mapR_Panic_iff(2) [of _ environmentEntry, OF environmentEntry_cases(2)]
    by (auto simp: getEnvironmentAsMapFrom_def bind_res_Err_iff split: option.splits json.splits)
  have env: "(\<exists>m. getEnvironmentAsMapFrom config = Panic m) \<longleftrightarrow>
      (\<exists>xs. mget config ''environment'' = Some (JArr xs) \<and> (\<exists>j\<in>set xs. \<exists>m. environmentEntry j = Panic m))"
    using mapR_Panic_iff(1) [of _ environmentEntry, OF environmentEntry_cases(2)]
    by (auto simp: getEnvironmentAsMapFrom_def bind_res_Panic_iff split: option.splits json.splits)
  show ?thesis
    unfolding mergeEnvironmentVariables_def
    using env noerr environmentEntry_cases(1)
    by (cases "getEnvironmentAsMapFrom config") (auto simp: mput_def split: option.splits)
qed

text \<open>
  Keys in snake case: the conversion removes every upper-case letter, leaves a key that has none as
  it is, and converting a configuration twice is the same as converting it once, at every depth.
\<close>

theorem snake_case_conversion:
  "(\<forall>c\<in>set (toSnakeCase k). \<not> isUpper c) \<and> toSnakeCase (toSnakeCase k) = toSnakeCase k
   \<and> convertDockerSettingWithSnakeCasedKeys (convertDockerSettingWithSnakeCasedKeys j)
       = convertDockerSettingWithSnakeCasedKeys j"
  using toSnakeCase_no_upper [of _ k] toSnakeCase_fixed [of "toSnakeCase k"] convert_idem [of j] by blast

theorem snake_case_conversion_witness:
  "toSnakeCase (toSnakeCase ''networkMode'') = ''network_mode''"
proof -
  have "toSnakeCase ''networkMode'' = ''network_mode''" by code_simp
  then show ?thesis using snake_case_conversion [of "''networkMode''" JNull] by simp
qed

end
