(* ===== verification/Docker.thy ===== *)
theory Docker
  imports Compose Routes Registry
begin

text \<open>
  \<^verbatim>\<open>internal/aom/docker/stack_service.go\<close>: the add-on stacks on the Docker daemon; and
  \<^verbatim>\<open>internal/aom/status\<close> and \<^verbatim>\<open>internal/aom/env\<close>, which read the state and the environment of a running
  stack.

  The Docker client, the compose service, the compose file loader and the label type of compose-go are
  third-party code: parameters, over a state \<open>'d\<close> of the Docker daemon. What the theorems need of the
  client's \<^verbatim>\<open>ImageRemove\<close> and \<^verbatim>\<open>VolumeRemove\<close> is stated by \<open>image_removal\<close> and \<open>volume_removal\<close>, and of
  the label type by \<open>labels_add\<close>.
\<close>

section \<open>Interfaces\<close>

record Container =
  ct_ID :: string
  ct_Status :: string
  ct_Networks :: "string list option"

type_synonym labels = "string gomap"

record ProjectService =
  ps_Name :: string
  ps_Labels :: labels
  ps_CustomLabels :: labels

record Project =
  prj_Name :: string
  prj_WorkingDir :: string
  prj_ComposeFiles :: "string list"
  prj_Services :: "ProjectService list"
  prj_Volumes :: "(string \<times> labels) list"
  prj_Networks :: "(string \<times> labels) list"

record VolumeInfo =
  vi_Name :: string
  vi_Mountpoint :: string

record ImageRemoveOptions =
  iro_Force :: bool
  iro_PruneChildren :: bool

record 'd DockerClient =
  cli_ContainerList :: "string \<Rightarrow> ('d, Container list) go"
  cli_ContainerInspect :: "string \<Rightarrow> ('d, json) go"
  cli_ImageRemove :: "string \<Rightarrow> ImageRemoveOptions \<Rightarrow> ('d, unit) go"
  cli_VolumeRemove :: "string \<Rightarrow> bool \<Rightarrow> ('d, unit) go"
  cli_VolumeInspect :: "string \<Rightarrow> ('d, VolumeInfo) go"
  cli_ImageLoad :: "reader \<Rightarrow> bool \<Rightarrow> ('d, unit) go"

record CreateOptions =
  co_Services :: "string list"
  co_RemoveOrphans :: bool
  co_IgnoreOrphans :: bool
  co_Recreate :: string
  co_RecreateDependencies :: string
  co_Inherit :: bool
  co_TimeoutSeconds :: nat
  co_QuietPull :: bool

record StartOptions =
  so_Project :: "Project option"
  so_CascadeStop :: bool
  so_ExitCodeFrom :: string
  so_Wait :: bool

record 'd ComposeService =
  cs_Create :: "Project \<Rightarrow> CreateOptions \<Rightarrow> ('d, unit) go"
  cs_Up :: "Project \<Rightarrow> CreateOptions \<times> StartOptions \<Rightarrow> ('d, unit) go"
  cs_Down :: "string \<Rightarrow> ('d, unit) go"
  cs_Start :: "string \<Rightarrow> StartOptions \<Rightarrow> ('d, unit) go"
  cs_Stop :: "string \<Rightarrow> ('d, unit) go"

text \<open>What the code uses of compose-go and of \<^verbatim>\<open>compose/v2/pkg/api\<close>.\<close>

record composeLib =
  loaderLoad :: "string \<Rightarrow> json \<Rightarrow> Project res"
  NormalizeProjectName :: "string \<Rightarrow> string"
  LabelsAdd :: "labels \<Rightarrow> string \<Rightarrow> string \<Rightarrow> labels"
  ProjectLabel :: string
  ServiceLabel :: string
  VersionLabel :: string
  WorkingDirLabel :: string
  ConfigFilesLabel :: string
  OneoffLabel :: string
  ComposeVersion :: string

record 'd StackService =
  ss_cli :: "'d DockerClient"
  ss_compose :: "'d ComposeService"
  ss_lib :: composeLib

record Config =
  cfg_Env :: "string list"

record State =
  st_Status :: string
  st_Running :: bool
  st_ExitCode :: int

record ContainerInfo =
  ci_Config :: "Config option"
  ci_State :: "State option"

section \<open>Projects\<close>

definition StackVersion :: string where
  "StackVersion = ''0.2.1''"

definition UcAomStackVersionLabel :: string where
  "UcAomStackVersionLabel = ''com.weidmueller.uc.aom.stack.version''"

definition addLabels :: "composeLib \<Rightarrow> labels \<Rightarrow> labels" where
  "addLabels lib ls =
     LabelsAdd lib (LabelsAdd lib ls UcAomVersionLabel UcAomVersion) UcAomStackVersionLabel StackVersion"

definition addUcAomVersionLabel :: "composeLib \<Rightarrow> Project \<Rightarrow> Project" where
  "addUcAomVersionLabel lib project =
     project\<lparr>prj_Services := map (\<lambda>s. s\<lparr>ps_Labels := addLabels lib (ps_Labels s)\<rparr>) (prj_Services project),
             prj_Volumes := map (\<lambda>(i, ls). (i, addLabels lib ls)) (prj_Volumes project),
             prj_Networks := map (\<lambda>(i, ls). (i, addLabels lib ls)) (prj_Networks project)\<rparr>"

definition customLabels :: "composeLib \<Rightarrow> Project \<Rightarrow> ProjectService \<Rightarrow> labels" where
  "customLabels lib project s =
     Some [(ProjectLabel lib, prj_Name project), (ServiceLabel lib, ps_Name s),
           (VersionLabel lib, ComposeVersion lib), (WorkingDirLabel lib, prj_WorkingDir project),
           (ConfigFilesLabel lib, Join (prj_ComposeFiles project) '',''), (OneoffLabel lib, ''False'')]"

definition getProjectFromConfig :: "composeLib \<Rightarrow> string \<Rightarrow> json \<Rightarrow> Project res" where
  "getProjectFromConfig lib projectName yaml =
     bind_res (loaderLoad lib projectName yaml) (\<lambda>project.
     Ok (addUcAomVersionLabel lib
       (project\<lparr>prj_Services :=
          map (\<lambda>s. s\<lparr>ps_CustomLabels := customLabels lib project s\<rparr>) (prj_Services project)\<rparr>)))"

definition getCreateOptions :: CreateOptions where
  "getCreateOptions =
     \<lparr>co_Services = [], co_RemoveOrphans = True, co_IgnoreOrphans = False, co_Recreate = ''diverged'',
      co_RecreateDependencies = ''diverged'', co_Inherit = False, co_TimeoutSeconds = 10, co_QuietPull = False\<rparr>"

definition getStartOptionsWithProject :: "Project \<Rightarrow> StartOptions" where
  "getStartOptionsWithProject project =
     \<lparr>so_Project = Some project, so_CascadeStop = False, so_ExitCodeFrom = [], so_Wait = False\<rparr>"

definition getUpOptions :: "Project \<Rightarrow> CreateOptions \<times> StartOptions" where
  "getUpOptions project = (getCreateOptions, getStartOptionsWithProject project)"

section \<open>The stack service\<close>

definition normalizeStackName :: "'d StackService \<Rightarrow> string \<Rightarrow> string" where
  "normalizeStackName s stackName = NormalizeProjectName (ss_lib s) stackName"

definition createStackScopedVolumeName :: "string \<Rightarrow> string \<Rightarrow> string" where
  "createStackScopedVolumeName projectName volumename = projectName @ ''_'' @ volumename"

definition ss_CreateStackWithDockerCompose :: "'d StackService \<Rightarrow> string \<Rightarrow> json \<Rightarrow> ('d, unit) go" where
  "ss_CreateStackWithDockerCompose s stackName dockerCompose =
     tryM (liftR (getProjectFromConfig (ss_lib s) stackName dockerCompose)) (\<lambda>project.
     cs_Up (ss_compose s) project (getUpOptions project))"

definition ss_CreateStackWithoutStartWithDockerCompose :: "'d StackService \<Rightarrow> string \<Rightarrow> json \<Rightarrow> ('d, unit) go" where
  "ss_CreateStackWithoutStartWithDockerCompose s stackName dockerCompose =
     tryM (liftR (getProjectFromConfig (ss_lib s) stackName dockerCompose)) (\<lambda>project.
     cs_Create (ss_compose s) project getCreateOptions)"

definition ss_DeleteAddOnStack :: "'d StackService \<Rightarrow> string \<Rightarrow> ('d, unit) go" where
  "ss_DeleteAddOnStack s stackName = cs_Down (ss_compose s) (normalizeStackName s stackName)"

definition projectFilter :: "string \<Rightarrow> string" where
  "projectFilter projectName = ''com.docker.compose.project='' @ projectName"

definition ss_ListAllStackContainers :: "'d StackService \<Rightarrow> string \<Rightarrow> ('d, Container list) go" where
  "ss_ListAllStackContainers s stackName =
     cli_ContainerList (ss_cli s) (projectFilter (normalizeStackName s stackName))"

definition dState :: "json \<Rightarrow> State res" where
  "dState j =
     bind_res (dStruct j) (\<lambda>m.
     bind_res (dStr (member m ''Status'')) (\<lambda>st.
     bind_res (dBool (member m ''Running'')) (\<lambda>r.
     case member m ''ExitCode'' of
       JNum n \<Rightarrow> Ok \<lparr>st_Status = st, st_Running = r, st_ExitCode = n\<rparr>
     | JNull \<Rightarrow> Ok \<lparr>st_Status = st, st_Running = r, st_ExitCode = 0\<rparr>
     | _ \<Rightarrow> unmarshalTypeError)))"

definition dConfig :: "json \<Rightarrow> Config res" where
  "dConfig j =
     bind_res (dStruct j) (\<lambda>m.
     bind_res (dList dStr (member m ''Env'')) (\<lambda>e. Ok \<lparr>cfg_Env = e\<rparr>))"

definition ss_InspectContainer :: "'d StackService \<Rightarrow> string \<Rightarrow> ('d, ContainerInfo) go" where
  "ss_InspectContainer s containerId =
     tryM (cli_ContainerInspect (ss_cli s) containerId) (\<lambda>containerJSON.
     liftR
       (bind_res (dStruct containerJSON) (\<lambda>m.
        bind_res (dPtr dConfig (member m ''Config'')) (\<lambda>c.
        bind_res (dPtr dState (member m ''State'')) (\<lambda>st.
        Ok \<lparr>ci_Config = c, ci_State = st\<rparr>)))))"

definition ss_StartupStackNonBlocking :: "'d StackService \<Rightarrow> string \<Rightarrow> ('d, unit) go" where
  "ss_StartupStackNonBlocking s stackName =
     cs_Start (ss_compose s) (normalizeStackName s stackName)
       \<lparr>so_Project = None, so_CascadeStop = False, so_ExitCodeFrom = [], so_Wait = False\<rparr>"

definition ss_StopStack :: "'d StackService \<Rightarrow> string \<Rightarrow> ('d, unit) go" where
  "ss_StopStack s stackName = cs_Stop (ss_compose s) (normalizeStackName s stackName)"

definition ss_VolumeInspect :: "'d StackService \<Rightarrow> string \<Rightarrow> ('d, VolumeInfo) go" where
  "ss_VolumeInspect s volumeId = cli_VolumeInspect (ss_cli s) volumeId"

fun ss_DeleteDockerImages :: "'d StackService \<Rightarrow> string list \<Rightarrow> ('d, unit) go" where
  "ss_DeleteDockerImages s [] = ret ()"
| "ss_DeleteDockerImages s (ref # refs) =
     tryM (attemptM (cli_ImageRemove (ss_cli s) ref \<lparr>iro_Force = False, iro_PruneChildren = True\<rparr>)) (\<lambda>r.
       case r of
         Inr _ \<Rightarrow> ss_DeleteDockerImages s refs
       | Inl err \<Rightarrow>
           (case err of ErrNotFoundDocker _ \<Rightarrow> ss_DeleteDockerImages s refs | _ \<Rightarrow> fail err))"

fun removeVolumes :: "'d StackService \<Rightarrow> string \<Rightarrow> string list \<Rightarrow> ('d, unit) go" where
  "removeVolumes s projectName [] = ret ()"
| "removeVolumes s projectName (name # names) =
     tryM (attemptM (cli_VolumeRemove (ss_cli s) (createStackScopedVolumeName projectName name) False)) (\<lambda>r.
       case r of
         Inr _ \<Rightarrow> removeVolumes s projectName names
       | Inl err \<Rightarrow>
           (case err of
              ErrNotFoundDocker _ \<Rightarrow> removeVolumes s projectName names
            | ErrConflictDocker _ \<Rightarrow> removeVolumes s projectName names
            | _ \<Rightarrow> fail err))"

definition ss_RemoveUnusedVolumes :: "'d StackService \<Rightarrow> string \<Rightarrow> string list \<Rightarrow> ('d, unit) go" where
  "ss_RemoveUnusedVolumes s stackName volumeNames = removeVolumes s (normalizeStackName s stackName) volumeNames"

definition ss_ImportDockerImage :: "'d StackService \<Rightarrow> reader \<Rightarrow> ('d, unit) go" where
  "ss_ImportDockerImage s input = cli_ImageLoad (ss_cli s) input True"

text \<open>The interface the rest of the daemon sees.\<close>

record 'w StackServiceAPI =
  CreateStackWithDockerCompose :: "string \<Rightarrow> json \<Rightarrow> ('w, unit) go"
  CreateStackWithoutStartWithDockerCompose :: "string \<Rightarrow> json \<Rightarrow> ('w, unit) go"
  ListAllStackContainers :: "string \<Rightarrow> ('w, Container list) go"
  DeleteAddOnStack :: "string \<Rightarrow> ('w, unit) go"
  DeleteDockerImages :: "string list \<Rightarrow> ('w, unit) go"
  ImportDockerImage :: "reader \<Rightarrow> ('w, unit) go"
  RemoveUnusedVolumes :: "string \<Rightarrow> string list \<Rightarrow> ('w, unit) go"
  InspectContainer :: "string \<Rightarrow> ('w, ContainerInfo) go"
  StartupStackNonBlocking :: "string \<Rightarrow> ('w, unit) go"
  StopStack :: "string \<Rightarrow> ('w, unit) go"
  VolumeInspect :: "string \<Rightarrow> ('w, VolumeInfo) go"

definition NewStackService :: "'d DockerClient \<Rightarrow> 'd ComposeService \<Rightarrow> composeLib \<Rightarrow> 'd StackService" where
  "NewStackService dockerClient compose lib = \<lparr>ss_cli = dockerClient, ss_compose = compose, ss_lib = lib\<rparr>"

definition stackAPI :: "'d StackService \<Rightarrow> 'd StackServiceAPI" where
  "stackAPI s =
     \<lparr>CreateStackWithDockerCompose = ss_CreateStackWithDockerCompose s,
      CreateStackWithoutStartWithDockerCompose = ss_CreateStackWithoutStartWithDockerCompose s,
      ListAllStackContainers = ss_ListAllStackContainers s,
      DeleteAddOnStack = ss_DeleteAddOnStack s,
      DeleteDockerImages = ss_DeleteDockerImages s,
      ImportDockerImage = ss_ImportDockerImage s,
      RemoveUnusedVolumes = ss_RemoveUnusedVolumes s,
      InspectContainer = ss_InspectContainer s,
      StartupStackNonBlocking = ss_StartupStackNonBlocking s,
      StopStack = ss_StopStack s,
      VolumeInspect = ss_VolumeInspect s\<rparr>"

section \<open>Status of an add-on\<close>

datatype AddOnStatus = Starting | Running | Unhealthy | Error

definition convertContainerStatusToAddOnStatus :: "string \<Rightarrow> AddOnStatus" where
  "convertContainerStatusToAddOnStatus status =
     (let statusConverted = ToLower status
      in if HasPrefix statusConverted ''exited'' then Error
         else if Contains statusConverted ''(healthy)'' then Running
         else if Contains statusConverted ''(unhealthy)'' then Unhealthy
         else if Contains statusConverted ''(health: starting)'' then Starting
         else Running)"

fun resolveStatus :: "AddOnStatus \<Rightarrow> string list \<Rightarrow> AddOnStatus" where
  "resolveStatus addOnStatus [] = addOnStatus"
| "resolveStatus addOnStatus (c # cs) =
     (let st = convertContainerStatusToAddOnStatus c in if st \<noteq> Running then st else resolveStatus st cs)"

definition listAddOnContainersFunc :: "'w StackServiceAPI \<Rightarrow> string \<Rightarrow> ('w, string list) go" where
  "listAddOnContainersFunc stackService name =
     tryM (ListAllStackContainers stackService name) (\<lambda>stackContainers. ret (map ct_Status stackContainers))"

definition GetAddOnStatus :: "'w StackServiceAPI \<Rightarrow> string \<Rightarrow> ('w, AddOnStatus) go" where
  "GetAddOnStatus stackService name =
     tryM (listAddOnContainersFunc stackService name) (\<lambda>addOnContainers. ret (resolveStatus Error addOnContainers))"

section \<open>Environment of an add-on\<close>

definition convertContainerEnvToMap :: "string list \<Rightarrow> (string \<times> string) list" where
  "convertContainerEnvToMap environment =
     putAll (List.map_filter (\<lambda>e. case SplitN2 e (CHR ''='') of [k, v] \<Rightarrow> Some (k, v) | _ \<Rightarrow> None) environment) []"

text \<open>
  The first container that can be inspected answers. A container without a configuration would be a
  nil dereference.
\<close>

fun firstEnvironment :: "'w StackServiceAPI \<Rightarrow> string \<Rightarrow> Container list \<Rightarrow> ('w, string list) go" where
  "firstEnvironment stackService errs [] =
     (if errs \<noteq> [] then fail (ErrorString errs) else ret [])"
| "firstEnvironment stackService errs (c # cs) =
     tryM (attemptM (InspectContainer stackService (ct_ID c))) (\<lambda>r.
       case r of
         Inl err \<Rightarrow> firstEnvironment stackService (errs @ err_text err @ [nl]) cs
       | Inr info \<Rightarrow>
           (case ci_Config info of
              None \<Rightarrow> panicM ''invalid memory address or nil pointer dereference''
            | Some c \<Rightarrow> ret (cfg_Env c)))"

definition getEnvironmentFromFirstContainer :: "'w StackServiceAPI \<Rightarrow> string \<Rightarrow> ('w, string list) go" where
  "getEnvironmentFromFirstContainer stackService name =
     tryM (ListAllStackContainers stackService name) (\<lambda>stackContainers.
     firstEnvironment stackService [] stackContainers)"

definition GetAddOnEnvironment :: "'w StackServiceAPI \<Rightarrow> string \<Rightarrow> ('w, (string \<times> string) list) go" where
  "GetAddOnEnvironment stackService name =
     tryM (getEnvironmentFromFirstContainer stackService name) (\<lambda>envPayload.
     ret (convertContainerEnvToMap envPayload))"

section \<open>What is relied on of Docker\<close>

text \<open>
  \<^verbatim>\<open>ImageRemove\<close> of the Docker API: when it succeeds, or answers that there is no such image, the image
  is not there afterwards; and it adds no image.
\<close>

definition image_removal :: "'d DockerClient \<Rightarrow> ('d \<Rightarrow> string \<Rightarrow> bool) \<Rightarrow> bool" where
  "image_removal cli img \<longleftrightarrow>
     (\<forall>ref o1 d r d'. cli_ImageRemove cli ref o1 d = (r, d') \<longrightarrow>
        ((is_ok r \<or> (\<exists>m. r = Err (ErrNotFoundDocker m))) \<longrightarrow> \<not> img d' ref) \<and> (\<forall>x. img d' x \<longrightarrow> img d x))"

text \<open>
  \<^verbatim>\<open>VolumeRemove\<close> without force: it only ever removes the volume it names, never one that is in use, and
  the answers \<^emph>\<open>not found\<close> and \<^emph>\<open>conflict\<close> mean what they say.
\<close>

definition volume_removal :: "'d DockerClient \<Rightarrow> ('d \<Rightarrow> string \<Rightarrow> bool) \<Rightarrow> ('d \<Rightarrow> string \<Rightarrow> bool) \<Rightarrow> bool" where
  "volume_removal cli vol inUse \<longleftrightarrow>
     (\<forall>name d r d'. cli_VolumeRemove cli name False d = (r, d') \<longrightarrow>
        (is_ok r \<or> (\<exists>m. r = Err (ErrNotFoundDocker m)) \<longrightarrow> \<not> vol d' name) \<and>
        ((\<exists>m. r = Err (ErrConflictDocker m)) \<longrightarrow> inUse d' name) \<and>
        (\<forall>x. x \<noteq> name \<or> vol d x \<and> inUse d x \<longrightarrow> vol d' x = vol d x) \<and> (\<forall>x. inUse d' x = inUse d x))"

text \<open>\<^verbatim>\<open>Labels.Add\<close> of compose-go sets the label and keeps the others.\<close>

definition labels_add :: "composeLib \<Rightarrow> bool" where
  "labels_add lib \<longleftrightarrow>
     (\<forall>ls k v x. mget (LabelsAdd lib ls k v) x = (if x = k then Some v else mget ls x))"

lemma DeleteDockerImages_absent:
  assumes law: "image_removal (ss_cli s) img"
  shows "ss_DeleteDockerImages s refs d = (r, d') \<Longrightarrow>
    (\<forall>x. img d' x \<longrightarrow> img d x) \<and> (r = Ok () \<longrightarrow> (\<forall>ref\<in>set refs. \<not> img d' ref))"
proof (induction refs arbitrary: d)
  case Nil
  then show ?case by simp
next
  case (Cons ref refs)
  let ?o = "\<lparr>iro_Force = False, iro_PruneChildren = True\<rparr>"
  obtain r1 d1 where one: "cli_ImageRemove (ss_cli s) ref ?o d = (r1, d1)"
    by (cases "cli_ImageRemove (ss_cli s) ref ?o d")
  note l = law [unfolded image_removal_def, rule_format, OF one]
  have mono1: "\<forall>x. img d1 x \<longrightarrow> img d x" using l by blast
  show ?case
  proof (cases "is_ok r1 \<or> (\<exists>m. r1 = Err (ErrNotFoundDocker m))")
    case True
    then have "ss_DeleteDockerImages s refs d1 = (r, d')"
      using Cons.prems one by (auto simp: tryM_def attemptM_def split: res.splits goerror.splits elim: is_ok.elims)
    from Cons.IH [OF this] mono1 l True show ?thesis by auto
  next
    case False
    then have "r \<noteq> Ok () \<and> d' = d1"
      using Cons.prems one
      by (cases r1) (auto simp: tryM_def attemptM_def split: goerror.splits)
    then show ?thesis using mono1 by blast
  qed
qed

lemma removeVolumes_effect:
  assumes law: "volume_removal (ss_cli s) vol inUse"
  shows "removeVolumes s p names d = (r, d') \<Longrightarrow>
    (\<forall>x. x \<notin> createStackScopedVolumeName p ` set names \<or> vol d x \<and> inUse d x \<longrightarrow> vol d' x = vol d x) \<and>
    (\<forall>x. inUse d' x = inUse d x) \<and>
    (r = Ok () \<longrightarrow> (\<forall>n\<in>set names. \<not> vol d' (createStackScopedVolumeName p n) \<or> inUse d' (createStackScopedVolumeName p n)))"
proof (induction names arbitrary: d)
  case Nil
  then show ?case by simp
next
  case (Cons n names)
  let ?v = "createStackScopedVolumeName p n"
  obtain r1 d1 where one: "cli_VolumeRemove (ss_cli s) ?v False d = (r1, d1)"
    by (cases "cli_VolumeRemove (ss_cli s) ?v False d")
  note l = law [unfolded volume_removal_def, rule_format, OF one]
  have l1: "\<forall>x. x \<noteq> ?v \<or> vol d x \<and> inUse d x \<longrightarrow> vol d1 x = vol d x" "\<forall>x. inUse d1 x = inUse d x"
    using l by blast+
  show ?case
  proof (cases "is_ok r1 \<or> (\<exists>m. r1 = Err (ErrNotFoundDocker m)) \<or> (\<exists>m. r1 = Err (ErrConflictDocker m))")
    case True
    then have "removeVolumes s p names d1 = (r, d')"
      using Cons.prems one by (auto simp: tryM_def attemptM_def split: res.splits goerror.splits elim: is_ok.elims)
    note IH = Cons.IH [OF this]
    have "\<not> vol d1 ?v \<or> inUse d1 ?v" using True l by blast
    then have here: "\<not> vol d' ?v \<or> inUse d' ?v \<or> ?v \<in> createStackScopedVolumeName p ` set names"
      using IH by blast
    have frame: "vol d' x = vol d x"
      if "x \<notin> createStackScopedVolumeName p ` set (n # names) \<or> vol d x \<and> inUse d x" for x
    proof -
      have one: "vol d1 x = vol d x" using that l1(1) [rule_format, of x] by (cases "x = ?v") auto
      have "x \<notin> createStackScopedVolumeName p ` set names \<or> vol d1 x \<and> inUse d1 x"
        using that one l1(2) by auto
      then have "vol d' x = vol d1 x" using IH by blast
      then show ?thesis using one by simp
    qed
    show ?thesis
    proof (intro conjI allI impI ballI)
      show "inUse d' x = inUse d x" for x using IH l1(2) by simp
      show "\<not> vol d' (createStackScopedVolumeName p m) \<or> inUse d' (createStackScopedVolumeName p m)"
        if ok: "r = Ok ()" and m: "m \<in> set (n # names)" for m
        using IH ok here m by (cases "m \<in> set names") auto
    qed (rule frame)
  next
    case False
    then have "r \<noteq> Ok () \<and> d' = d1"
      using Cons.prems one
      by (cases r1) (auto simp: tryM_def attemptM_def split: goerror.splits)
    moreover have "vol d1 x = vol d x"
      if "x \<notin> createStackScopedVolumeName p ` set (n # names) \<or> vol d x \<and> inUse d x" for x
      using that l1(1) [rule_format, of x] by (cases "x = ?v") auto
    ultimately show ?thesis using l1(2) by blast
  qed
qed

section \<open>A small Docker daemon\<close>

text \<open>An instance of the client, to run the definitions on concrete states.\<close>

record miniDocker =
  mini_images :: "string list"
  mini_volumes :: "(string \<times> bool) list"

definition miniClient :: "miniDocker DockerClient" where
  "miniClient =
     \<lparr>cli_ContainerList = (\<lambda>_. ret []),
      cli_ContainerInspect = (\<lambda>_. fail (ErrNotFoundDocker ''no such container'')),
      cli_ImageRemove = (\<lambda>ref _ d.
        if ref \<in> set (mini_images d) then (Ok (), d\<lparr>mini_images := removeAll ref (mini_images d)\<rparr>)
        else (Err (ErrNotFoundDocker ''no such image''), d)),
      cli_VolumeRemove = (\<lambda>name _ d.
        case map_of (mini_volumes d) name of
          None \<Rightarrow> (Err (ErrNotFoundDocker ''no such volume''), d)
        | Some True \<Rightarrow> (Err (ErrConflictDocker ''volume is in use''), d)
        | Some False \<Rightarrow> (Ok (), d\<lparr>mini_volumes := AList.delete name (mini_volumes d)\<rparr>)),
      cli_VolumeInspect = (\<lambda>_. fail (ErrNotFoundDocker ''no such volume'')),
      cli_ImageLoad = (\<lambda>image _ d.
        case image of
          RawReader (Text name) \<Rightarrow> (Ok (), d\<lparr>mini_images := name # mini_images d\<rparr>)
        | _ \<Rightarrow> (Err (ErrorString ''invalid archive''), d))\<rparr>"

definition miniCompose :: "miniDocker ComposeService" where
  "miniCompose =
     \<lparr>cs_Create = (\<lambda>_ _. ret ()), cs_Up = (\<lambda>_ _. ret ()), cs_Down = (\<lambda>_. ret ()),
      cs_Start = (\<lambda>_ _. ret ()), cs_Stop = (\<lambda>_. ret ())\<rparr>"

definition miniLib :: composeLib where
  "miniLib =
     \<lparr>loaderLoad = (\<lambda>name yaml. Ok \<lparr>prj_Name = name, prj_WorkingDir = [], prj_ComposeFiles = [],
         prj_Services = [\<lparr>ps_Name = ''app'', ps_Labels = None, ps_CustomLabels = None\<rparr>],
         prj_Volumes = [], prj_Networks = []\<rparr>),
      NormalizeProjectName = ToLower,
      LabelsAdd = (\<lambda>ls k v. Some (AList.update k v (entries ls))),
      ProjectLabel = ''com.docker.compose.project'', ServiceLabel = ''com.docker.compose.service'',
      VersionLabel = ''com.docker.compose.version'', WorkingDirLabel = ''com.docker.compose.project.working_dir'',
      ConfigFilesLabel = ''com.docker.compose.project.config_files'', OneoffLabel = ''com.docker.compose.oneoff'',
      ComposeVersion = ''2''\<rparr>"

definition miniStack :: "miniDocker StackService" where
  "miniStack = NewStackService miniClient miniCompose miniLib"

definition mini_vol :: "miniDocker \<Rightarrow> string \<Rightarrow> bool" where
  "mini_vol d n \<longleftrightarrow> map_of (mini_volumes d) n \<noteq> None"

definition mini_inUse :: "miniDocker \<Rightarrow> string \<Rightarrow> bool" where
  "mini_inUse d n \<longleftrightarrow> map_of (mini_volumes d) n = Some True"

lemma mini_image_removal: "image_removal (ss_cli miniStack) (\<lambda>d x. x \<in> set (mini_images d))"
  by (auto simp: image_removal_def miniStack_def NewStackService_def miniClient_def split: if_splits)

lemma mini_volume_removal: "volume_removal (ss_cli miniStack) mini_vol mini_inUse"
  by (auto simp: volume_removal_def miniStack_def NewStackService_def miniClient_def mini_vol_def mini_inUse_def
      delete_conv' split: option.splits bool.splits if_splits)

section \<open>Properties\<close>

text \<open>
  Deleting the images of an add-on: when the call reports success none of the named images is left,
  whether it was there before or not; an image that is missing is no error; and no other image appears.
\<close>

theorem images_are_deleted:
  assumes "image_removal (ss_cli s) img" and "ss_DeleteDockerImages s refs d = (r, d')"
  shows "(r = Ok () \<longrightarrow> (\<forall>ref\<in>set refs. \<not> img d' ref)) \<and> (\<forall>x. img d' x \<longrightarrow> img d x)"
  using DeleteDockerImages_absent [OF assms] by blast

theorem images_are_deleted_witness:
  "''app:1'' \<notin> set (mini_images (snd (ss_DeleteDockerImages miniStack [''gone:1'', ''app:1'']
     \<lparr>mini_images = [''app:1'', ''other:2''], mini_volumes = []\<rparr>)))"
proof -
  let ?d = "\<lparr>mini_images = [''app:1'', ''other:2''], mini_volumes = []\<rparr>"
  obtain d' where run: "ss_DeleteDockerImages miniStack [''gone:1'', ''app:1''] ?d = (Ok (), d')"
    by (simp add: miniStack_def NewStackService_def miniClient_def tryM_def attemptM_def)
  from images_are_deleted [OF mini_image_removal run] run show ?thesis by simp
qed

text \<open>
  Removing the volumes of an add-on removes only volumes named by the stack and the manifest, never a
  volume that is in use, and on success every named volume is gone or still in use.
\<close>

theorem unused_volumes_are_removed:
  assumes "volume_removal (ss_cli s) vol inUse" and "ss_RemoveUnusedVolumes s stackName names d = (r, d')"
  shows "(\<forall>x. vol d x \<and> \<not> vol d' x \<longrightarrow>
            x \<in> createStackScopedVolumeName (normalizeStackName s stackName) ` set names \<and> \<not> inUse d x)
    \<and> (r = Ok () \<longrightarrow> (\<forall>n\<in>set names.
         \<not> vol d' (createStackScopedVolumeName (normalizeStackName s stackName) n) \<or>
         inUse d' (createStackScopedVolumeName (normalizeStackName s stackName) n)))"
  using removeVolumes_effect [OF assms(1) assms(2) [unfolded ss_RemoveUnusedVolumes_def]] by blast

theorem unused_volumes_are_removed_witness:
  "let d' = snd (ss_RemoveUnusedVolumes miniStack ''App'' [''data'', ''cfg'']
       \<lparr>mini_images = [], mini_volumes = [(''app_data'', True), (''app_cfg'', False), (''other'', False)]\<rparr>)
   in (\<not> mini_vol d' ''app_cfg'' \<or> mini_inUse d' ''app_cfg'') \<and> mini_vol d' ''other''"
proof -
  let ?d = "\<lparr>mini_images = [], mini_volumes = [(''app_data'', True), (''app_cfg'', False), (''other'', False)]\<rparr>"
  obtain r d' where run: "ss_RemoveUnusedVolumes miniStack ''App'' [''data'', ''cfg''] ?d = (r, d')"
    by (cases "ss_RemoveUnusedVolumes miniStack ''App'' [''data'', ''cfg''] ?d")
  have ok: "is_ok (fst (ss_RemoveUnusedVolumes miniStack ''App'' [''data'', ''cfg''] ?d))" by code_simp
  have n: "normalizeStackName miniStack ''App'' = ''app''" by code_simp
  have v: "mini_vol ?d ''other''" by code_simp
  show ?thesis
    using unused_volumes_are_removed [OF mini_volume_removal run] run ok v
    by (cases r) (auto simp: n createStackScopedVolumeName_def)
qed

text \<open>
  Every service, volume and network of a stack that is deployed carries the label of the daemon's
  version and of the stack version, so that a later start can tell which migration it needs; and every
  service the label of its project, by which its containers are found again.
\<close>

theorem deployed_project_is_labelled:
  assumes "labels_add (ss_lib s)" and "getProjectFromConfig (ss_lib s) name yaml = Ok project"
    and "ls \<in> ps_Labels ` set (prj_Services project) \<union> snd ` set (prj_Volumes project) \<union> snd ` set (prj_Networks project)"
  shows "mget ls UcAomVersionLabel = Some UcAomVersion \<and> mget ls UcAomStackVersionLabel = Some StackVersion
    \<and> (\<forall>svc\<in>set (prj_Services project). mget (ps_CustomLabels svc) (ProjectLabel (ss_lib s)) = Some (prj_Name project))"
proof -
  have add: "mget (addLabels (ss_lib s) l) UcAomVersionLabel = Some UcAomVersion"
    "mget (addLabels (ss_lib s) l) UcAomStackVersionLabel = Some StackVersion" for l
    using assms(1) by (simp_all add: labels_add_def addLabels_def UcAomVersionLabel_def UcAomStackVersionLabel_def)
  from assms(2,3) add show ?thesis
    by (auto simp: getProjectFromConfig_def bind_res_Ok_iff addUcAomVersionLabel_def customLabels_def)
qed

theorem deployed_project_is_labelled_witness:
  "mget (ps_Labels (hd (prj_Services (case getProjectFromConfig miniLib ''app'' JNull of Ok p \<Rightarrow> p)))) UcAomStackVersionLabel
     = Some ''0.2.1''"
proof -
  have law: "labels_add (ss_lib miniStack)"
    by (auto simp: labels_add_def miniStack_def NewStackService_def miniLib_def update_conv' mget_def)
  obtain p where p: "getProjectFromConfig (ss_lib miniStack) ''app'' JNull = Ok p" "prj_Services p \<noteq> []"
    by (simp add: getProjectFromConfig_def miniStack_def NewStackService_def miniLib_def addUcAomVersionLabel_def)
  then have "ps_Labels (hd (prj_Services p)) \<in> ps_Labels ` set (prj_Services p)" by simp
  then show ?thesis
    using deployed_project_is_labelled [OF law p(1)] p
    by (simp add: miniStack_def NewStackService_def StackVersion_def)
qed

text \<open>
  The status of an add-on: it counts as running exactly when it has a container and every container
  is up and not unhealthy or starting; otherwise its status is that of the first container that is not,
  and an error when there is no container.
\<close>

theorem status_is_first_not_running:
  "(resolveStatus Error cs = Running \<longleftrightarrow>
      cs \<noteq> [] \<and> list_all (\<lambda>c. convertContainerStatusToAddOnStatus c = Running) cs)
   \<and> resolveStatus Error cs =
       (case find (\<lambda>c. convertContainerStatusToAddOnStatus c \<noteq> Running) cs of
          Some c \<Rightarrow> convertContainerStatusToAddOnStatus c
        | None \<Rightarrow> if cs = [] then Error else Running)"
proof -
  have run: "resolveStatus Running xs =
      (case find (\<lambda>c. convertContainerStatusToAddOnStatus c \<noteq> Running) xs of
         Some c \<Rightarrow> convertContainerStatusToAddOnStatus c | None \<Rightarrow> Running)" for xs
    by (induction xs) (auto simp: Let_def)
  have all: "find (\<lambda>c. convertContainerStatusToAddOnStatus c \<noteq> Running) cs = None \<longleftrightarrow>
      list_all (\<lambda>c. convertContainerStatusToAddOnStatus c = Running) cs"
    by (auto simp: find_None_iff list_all_iff)
  have sel: "find (\<lambda>c. convertContainerStatusToAddOnStatus c \<noteq> Running) cs = Some c \<Longrightarrow>
      convertContainerStatusToAddOnStatus c \<noteq> Running" for c
    by (auto simp: find_Some_iff)
  have eq: "resolveStatus Error cs =
       (case find (\<lambda>c. convertContainerStatusToAddOnStatus c \<noteq> Running) cs of
          Some c \<Rightarrow> convertContainerStatusToAddOnStatus c
        | None \<Rightarrow> if cs = [] then Error else Running)"
    using run by (cases cs) (auto simp: Let_def)
  show ?thesis using eq all sel by (auto split: option.splits)
qed

text \<open>
  Reading the environment of a container back: the value of a variable is that of its last definition
  \<^verbatim>\<open>KEY=value\<close>, where everything after the first equals sign belongs to the value; entries without an
  equals sign define nothing.
\<close>

theorem environment_is_read_back:
  "map_of (convertContainerEnvToMap (es @ [k @ ''='' @ v] @ fs)) k = Some v"
  if "CHR ''='' \<notin> set k" and "\<forall>e\<in>set fs. \<not> (\<exists>w. e = k @ CHR ''='' # w)"
proof -
  let ?f = "\<lambda>e. case SplitN2 e (CHR ''='') of [k, v] \<Rightarrow> Some (k, v) | _ \<Rightarrow> None"
  have split: "?f e = Some (a, b) \<longleftrightarrow> CHR ''='' \<notin> set a \<and> e = a @ CHR ''='' # b" for e a b
    using toKeyValue_Ok [of e a b] by (auto simp: toKeyValue_def split: list.splits)
  have "(k, w) \<notin> set (List.map_filter ?f fs)" for w
    using that(2) split by (auto simp: set_map_filter)
  then have none: "map_of (rev (List.map_filter ?f fs)) k = None"
    by (cases "map_of (rev (List.map_filter ?f fs)) k") (auto dest: map_of_SomeD)
  have here: "?f (k @ CHR ''='' # v) = Some (k, v)" using split that(1) by blast
  have app: "List.map_filter f (xs @ ys) = List.map_filter f xs @ List.map_filter f ys"
    for f :: "string \<Rightarrow> (string \<times> string) option" and xs ys
    by (simp add: List.map_filter_def)
  have "List.map_filter ?f (es @ [k @ ''='' @ v] @ fs) =
      List.map_filter ?f es @ (k, v) # List.map_filter ?f fs"
    using here by (simp only: app append.simps) (simp add: List.map_filter_def)
  then show ?thesis
    using none by (simp add: convertContainerEnvToMap_def map_of_putAll map_add_def)
qed

theorem environment_is_read_back_witness:
  "map_of (convertContainerEnvToMap ([''A=1''] @ [''A'' @ ''='' @ ''x=y''] @ [''noise''])) ''A'' = Some ''x=y''"
  using environment_is_read_back [of "''A''" "[''noise'']" "[''A=1'']" "''x=y''"] by simp

end
