(* ===== verification/Iam.thy ===== *)
theory Iam
  imports Routes Migration
begin

text \<open>
  \<^verbatim>\<open>internal/aom/iam\<close>: the permission file of an add-on (\<^verbatim>\<open>iam-permission-writer.go\<close>) and the question
  whether a caller holds a permission (\<^verbatim>\<open>iam-service-client.go\<close>). The HTTP round trip to the
  authorisation service (\<^verbatim>\<open>HttpClient.Do\<close>) is the parameter \<open>httpDo\<close>.
\<close>

section \<open>Permission files\<close>

record IamPermission =
  perm_AddOnTitle :: string
  perm_Id :: string
  perm_NoAuthOpt :: bool

record IamPermissionWriter =
  iamPermissionsPath :: path
  iam_writeToFile :: "path \<Rightarrow> content \<Rightarrow> (FS, unit) go"
  iam_deleteFile :: "path \<Rightarrow> (FS, unit) go"

definition iamPermissionTemplate :: "IamPermission \<Rightarrow> string" where
  "iamPermissionTemplate p =
     textLines
       [[],
        ''{'',
        ''  '' @ quoted ''compatibility-version'' @ '': '' @ quoted ''1.0'' @ '','',
        ''  '' @ quoted ''service'' @ '': '' @ quoted ''uc-auth'' @ '','',
        ''  '' @ quoted ''group-display-name'' @ '': '' @ quoted ''Web server - Protected applications'' @ '','',
        ''  '' @ quoted ''permissions'' @ '': ['',
        ''    {'',
        ''      '' @ quoted ''id'' @ '': '' @ quoted (perm_Id p @ ''.access'') @ '','',
        ''      '' @ quoted ''display-name'' @ '': '' @ quoted (''Access to '' @ perm_AddOnTitle p) @ '','',
        ''      '' @ quoted ''no-auth-option'' @ '': '' @ (if perm_NoAuthOpt p then ''true'' else ''false''),
        ''    }'',
        ''  ]'',
        ''}'']"

definition iam_getFilepath :: "path \<Rightarrow> string \<Rightarrow> path" where
  "iam_getFilepath parent name = joinPath parent (name @ ''-proxy.json'')"

definition getPermissionsFilepath :: "IamPermissionWriter \<Rightarrow> string \<Rightarrow> path" where
  "getPermissionsFilepath w i = iam_getFilepath (iamPermissionsPath w) i"

definition NewIamPermissionWriter :: "path \<Rightarrow> IamPermissionWriter" where
  "NewIamPermissionWriter permissionsPath =
     \<lparr>iamPermissionsPath = permissionsPath, iam_writeToFile = writeToFile, iam_deleteFile = deleteFile\<rparr>"

definition iam_Create :: "IamPermissionWriter \<Rightarrow> IamPermission \<Rightarrow> (FS, unit) go" where
  "iam_Create w iamPermission =
     iam_writeToFile w (getPermissionsFilepath w (perm_Id iamPermission))
       (Text (iamPermissionTemplate iamPermission))"

definition iam_Delete :: "IamPermissionWriter \<Rightarrow> string \<Rightarrow> (FS, unit) go" where
  "iam_Delete w i = iam_deleteFile w (getPermissionsFilepath w i)"

section \<open>Asking for a permission\<close>

record permissionInput =
  Token :: string
  Permission :: string
  input_Service :: string

record IamServiceClient =
  client_Url :: string
  client_Name :: string
  client_Endpoint :: string

record httpResponse =
  StatusCode :: int
  Status :: string
  Body :: "json res"

type_synonym httpDo = "string \<Rightarrow> json \<Rightarrow> httpResponse res"

definition marshalRequest :: "permissionInput \<Rightarrow> json" where
  "marshalRequest i =
     JObj [(''input'', JObj [(''token'', JStr (Token i)), (''permission'', JStr (Permission i)),
                             (''service'', JStr (input_Service i))])]"

definition readIamServiceResponseFrom :: "json res \<Rightarrow> bool res" where
  "readIamServiceResponseFrom httpBody =
     bind_res httpBody (\<lambda>j.
     bind_res (dStruct j) (\<lambda>m.
     bind_res (dStruct (member m ''result'')) (\<lambda>result.
     dBool (member result ''allow''))))"

definition askIamServiceForPermission :: "httpDo \<Rightarrow> IamServiceClient \<Rightarrow> permissionInput \<Rightarrow> bool res" where
  "askIamServiceForPermission httpDo client request =
     bind_res (httpDo (client_Url client @ client_Endpoint client) (marshalRequest request)) (\<lambda>resp.
       if StatusCode resp = 200 then readIamServiceResponseFrom (Body resp)
       else Err (ErrorString (Status resp)))"

definition IsAllowed :: "httpDo \<Rightarrow> IamServiceClient \<Rightarrow> string \<Rightarrow> string \<Rightarrow> bool res" where
  "IsAllowed httpDo client jwt permission =
     askIamServiceForPermission httpDo client
       \<lparr>Token = jwt, Permission = permission, input_Service = client_Name client\<rparr>"

section \<open>Lemmas\<close>

lemma iam_getFilepath_segment: "CHR ''/'' \<notin> set i \<Longrightarrow> iam_getFilepath d i = d @ [i @ ''-proxy.json'']"
proof -
  assume "CHR ''/'' \<notin> set i"
  moreover have "i @ ''-proxy.json'' \<noteq> ''.''" "i @ ''-proxy.json'' \<noteq> ''..''"
    by (auto dest: arg_cong [where f = length])
  ultimately show ?thesis by (simp add: iam_getFilepath_def joinPath_segment)
qed

definition daemonWriter :: "IamPermissionWriter \<Rightarrow> bool" where
  "daemonWriter w \<longleftrightarrow> iam_writeToFile w = writeToFile \<and> iam_deleteFile w = deleteFile"

lemma permission_path_not_root: "CHR ''/'' \<notin> set i \<Longrightarrow> getPermissionsFilepath w i \<noteq> []"
  by (simp add: getPermissionsFilepath_def iam_getFilepath_segment)

lemma iam_Create_cases:
  assumes "daemonWriter w" "CHR ''/'' \<notin> set (perm_Id perm)"
    and "node fs (getPermissionsFilepath w (perm_Id perm)) = None"
    and "iam_Create w perm fs = (r, fs')"
  shows "onlyIn {getPermissionsFilepath w (perm_Id perm)} fs fs' \<and>
    (r = Ok () \<and> node fs' (getPermissionsFilepath w (perm_Id perm)) = Some (File (Text (iamPermissionTemplate perm))) \<or>
     (\<exists>e. r = Err e) \<and> (node fs' (getPermissionsFilepath w (perm_Id perm)) = None \<or>
                         (\<exists>c. node fs' (getPermissionsFilepath w (perm_Id perm)) = Some (File c))))"
  using assms writeToFile_cases [OF permission_path_not_root [OF assms(2)] assms(3)]
  by (auto simp: iam_Create_def daemonWriter_def onlyIn_def)

lemma iam_Delete_restores:
  assumes "daemonWriter w" "CHR ''/'' \<notin> set i" "removable fs (getPermissionsFilepath w i)"
    and "node fs (getPermissionsFilepath w i) = None \<or> (\<exists>c. node fs (getPermissionsFilepath w i) = Some (File c))"
  shows "\<exists>fs'. iam_Delete w i fs = (Ok (), fs') \<and> faulty fs' = faulty fs \<and>
    (\<forall>p. node fs' p = (if p = getPermissionsFilepath w i then None else node fs p))"
  using assms deleteFile_removes [of "getPermissionsFilepath w i" fs]
    deleteFile_missing [OF permission_path_not_root [OF assms(2)], of fs]
  by (cases "node fs (getPermissionsFilepath w i) = None")
    (auto simp: iam_Delete_def daemonWriter_def removable_def)

section \<open>Properties\<close>

text \<open>
  The permission file of an add-on: creating it writes the rendered template to its own file and to no
  other, and deleting it afterwards, also when the write failed half way, restores the file system.
\<close>

theorem permission_create_is_undone_by_delete:
  assumes "daemonWriter w" and "CHR ''/'' \<notin> set (perm_Id perm)"
    and "node fs (getPermissionsFilepath w (perm_Id perm)) = None"
    and "removable fs (getPermissionsFilepath w (perm_Id perm))"
    and "iam_Create w perm fs = (r, fs')"
  shows "onlyIn {getPermissionsFilepath w (perm_Id perm)} fs fs'
    \<and> (r = Ok () \<longrightarrow> node fs' (getPermissionsFilepath w (perm_Id perm)) = Some (File (Text (iamPermissionTemplate perm))))
    \<and> fst (iam_Delete w (perm_Id perm) fs') = Ok ()
    \<and> fs_eq fs (snd (iam_Delete w (perm_Id perm) fs'))"
proof -
  let ?p = "getPermissionsFilepath w (perm_Id perm)"
  note c = iam_Create_cases [OF assms(1,2,3,5)]
  have "removable fs' ?p" using c assms(4) by (auto simp: removable_def onlyIn_def)
  from iam_Delete_restores [OF assms(1,2) this] c obtain fs2 where
    d: "iam_Delete w (perm_Id perm) fs' = (Ok (), fs2)" "faulty fs2 = faulty fs'"
      "\<forall>p. node fs2 p = (if p = ?p then None else node fs' p)" by blast
  have "node fs2 p = node fs p" for p
    using d(3) c assms(3) by (cases "p = ?p") (auto simp: onlyIn_def)
  then have "fs_eq fs fs2" using d(2) c by (auto simp: fs_eq_def onlyIn_def)
  then show ?thesis using c d by auto
qed

theorem permission_create_is_undone_by_delete_witness:
  "fs_eq \<lparr>nodes = [([''iam''], Dir)], faulty = (\<lambda>_ _. False)\<rparr>
     (snd (iam_Delete (NewIamPermissionWriter [''iam'']) ''app''
       (snd (iam_Create (NewIamPermissionWriter [''iam''])
          \<lparr>perm_AddOnTitle = ''App'', perm_Id = ''app'', perm_NoAuthOpt = True\<rparr>
          \<lparr>nodes = [([''iam''], Dir)], faulty = (\<lambda>_ _. False)\<rparr>))))"
proof -
  let ?w = "NewIamPermissionWriter [''iam'']" and ?fs = "\<lparr>nodes = [([''iam''], Dir)], faulty = (\<lambda>_ _. False)\<rparr>"
  let ?perm = "\<lparr>perm_AddOnTitle = ''App'', perm_Id = ''app'', perm_NoAuthOpt = True\<rparr>"
  obtain r fs' where run: "iam_Create ?w ?perm ?fs = (r, fs')" by (cases "iam_Create ?w ?perm ?fs")
  have w: "daemonWriter ?w" by (simp add: daemonWriter_def NewIamPermissionWriter_def)
  have n: "node ?fs (getPermissionsFilepath ?w (perm_Id ?perm)) = None" by code_simp
  have m: "removable ?fs (getPermissionsFilepath ?w (perm_Id ?perm))" by code_simp
  from permission_create_is_undone_by_delete [OF w _ n m run] run show ?thesis by simp
qed

text \<open>
  C35. Authorisation fails closed: a permission counts as granted exactly when the authorisation service
  was reached, answered with status 200, and its document holds the boolean \<^verbatim>\<open>true\<close> under
  \<^verbatim>\<open>result.allow\<close> (the last member of a name counts). Every transport error, other status or malformed answer yields no permission.
\<close>

theorem IsAllowed_fails_closed:
  "IsAllowed httpDo client jwt permission = Ok True \<longleftrightarrow>
     (\<exists>resp doc result.
        httpDo (client_Url client @ client_Endpoint client)
          (marshalRequest \<lparr>Token = jwt, Permission = permission, input_Service = client_Name client\<rparr>) = Ok resp
        \<and> StatusCode resp = 200 \<and> Body resp = Ok (JObj doc)
        \<and> map_of (rev doc) ''result'' = Some (JObj result) \<and> map_of (rev result) ''allow'' = Some (JBool True))"
proof -
  have dBool_True: "dBool j = Ok True \<longleftrightarrow> j = JBool True" for j
    by (cases j) (auto simp: unmarshalTypeError_def)
  have member_JBool: "member m k = JBool True \<longleftrightarrow> map_of (rev m) k = Some (JBool True)" for m k
    by (auto simp: member_def split: option.splits)
  have dStruct_Ok: "dStruct j = Ok m \<longleftrightarrow> j = JObj m \<or> j = JNull \<and> m = []" for j m
    by (cases j) (auto simp: unmarshalTypeError_def)
  have member_JObj: "member m k = JObj o1 \<longleftrightarrow> map_of (rev m) k = Some (JObj o1)" for m k o1
    by (auto simp: member_def split: option.splits)
  show ?thesis
    by (auto simp: IsAllowed_def askIamServiceForPermission_def readIamServiceResponseFrom_def
        bind_res_Ok_iff dBool_True member_JBool dStruct_Ok member_JObj split: if_splits)
qed

end
