(* ===== verification/Capabilities.thy ===== *)
theory Capabilities
  imports Migration "HOL-Library.Word"
begin

text \<open>
  The checks an add-on must pass before it is installed: \<^verbatim>\<open>service/capabilities.go\<close>,
  \<^verbatim>\<open>service/resources.go\<close> and \<^verbatim>\<open>service/manifest_version_validator.go\<close>; the adaptation of a manifest to the
  device, \<^verbatim>\<open>service/manifest-feature-converter.go\<close>; and \<^verbatim>\<open>internal/aom/system/system.go\<close>, the device.

  The interface \<^verbatim>\<open>System\<close> is a record of what its methods answer. \<open>uOSSystem\<close> is the program's own
  implementation over what the operating system reports: the exit of the root access script and the
  result of \<^verbatim>\<open>statfs\<close>.
\<close>

section \<open>The device\<close>

record User =
  Uid :: string
  Gid :: string

record System =
  IsSshRootAccessEnabled :: "bool res"
  LookupAdminUser :: "User res"
  AvailableSpaceInBytes :: "64 word res"

datatype exitOutcome = ExitOk | ExitCode int | NotStarted goerror

record statfs =
  Bavail :: "64 word"
  Bsize :: "64 word"

definition uOSSystem_IsSshRootAccessEnabled :: "exitOutcome \<Rightarrow> bool res" where
  "uOSSystem_IsSshRootAccessEnabled cmd =
     (case cmd of
        ExitOk \<Rightarrow> Ok True
      | ExitCode c \<Rightarrow> if c = 1 then Ok False else Err (ErrorString ''exit status'')
      | NotStarted e \<Rightarrow> Err e)"

definition uOSSystem_AvailableSpaceInBytes :: "statfs res \<Rightarrow> 64 word res" where
  "uOSSystem_AvailableSpaceInBytes st = bind_res st (\<lambda>stat. Ok (Bavail stat * Bsize stat))"

definition uOSSystem_LookupAdminUser :: "string \<Rightarrow> string \<Rightarrow> User res" where
  "uOSSystem_LookupAdminUser admin_uid admin_gid = Ok \<lparr>Uid = admin_uid, Gid = admin_gid\<rparr>"

definition uOSSystem :: "exitOutcome \<Rightarrow> statfs res \<Rightarrow> string \<Rightarrow> string \<Rightarrow> System" where
  "uOSSystem cmd st admin_uid admin_gid =
     \<lparr>IsSshRootAccessEnabled = uOSSystem_IsSshRootAccessEnabled cmd,
      LookupAdminUser = uOSSystem_LookupAdminUser admin_uid admin_gid,
      AvailableSpaceInBytes = uOSSystem_AvailableSpaceInBytes st\<rparr>"

section \<open>Capabilities\<close>

record Capabilities =
  Platforms :: "string list"
  cap_system :: System
  cap_features :: "Feature list"

definition NewCapabilities :: "System \<Rightarrow> string list \<Rightarrow> Capabilities" where
  "NewCapabilities sys platform = \<lparr>Platforms = platform, cap_system = sys, cap_features = []\<rparr>"

definition WithFeatures :: "Feature list \<Rightarrow> Capabilities \<Rightarrow> Capabilities" where
  "WithFeatures features r = r\<lparr>cap_features := features\<rparr>"

text \<open>\<^verbatim>\<open>getHostPlatform\<close> asks the operating system for its host name: the parameter \<open>hostPlatform\<close>.\<close>

definition validatePlatform :: "string res \<Rightarrow> Capabilities \<Rightarrow> unit res" where
  "validatePlatform hostPlatform r =
     (case hostPlatform of
        Err e \<Rightarrow> Err (UnsupportedPlatformError (err_text e))
      | Panic m \<Rightarrow> Panic m
      | Ok hostname \<Rightarrow>
          if list_ex (\<lambda>platform. platform = hostname) (Platforms r) then Ok ()
          else Err (UnsupportedPlatformError ''The platform is not supported''))"

definition isRequired :: "Feature \<Rightarrow> bool" where
  "isRequired f \<longleftrightarrow> ft_Required f = None \<or> ft_Required f = Some True"

definition rootAccessFeature :: string where
  "rootAccessFeature = ''ucontrol.software.root_access''"

fun validateFeatures :: "System \<Rightarrow> Feature list \<Rightarrow> unit res" where
  "validateFeatures sys [] = Ok ()"
| "validateFeatures sys (feature # fs) =
     (if isRequired feature \<and> ft_Name feature = rootAccessFeature then
        bind_res (IsSshRootAccessEnabled sys) (\<lambda>returnValue.
          if returnValue then validateFeatures sys fs else Err SshRootAccessNotEnabledError)
      else validateFeatures sys fs)"

definition Capabilities_Validate :: "string res \<Rightarrow> Capabilities \<Rightarrow> unit res" where
  "Capabilities_Validate hostPlatform r =
     bind_res (validatePlatform hostPlatform r) (\<lambda>_.
       if cap_features r \<noteq> [] then validateFeatures (cap_system r) (cap_features r) else Ok ())"

definition checkCapabilities :: "string res \<Rightarrow> System \<Rightarrow> Root \<Rightarrow> unit res" where
  "checkCapabilities hostPlatform sys manifest =
     (let capabilities = NewCapabilities sys (case Platform manifest of None \<Rightarrow> [] | Some ps \<Rightarrow> ps);
          capabilities = (if Features manifest \<noteq> [] then WithFeatures (Features manifest) capabilities
                          else capabilities)
      in Capabilities_Validate hostPlatform capabilities)"

section \<open>Resources and manifest version\<close>

definition showWord :: "64 word \<Rightarrow> string" where
  "showWord w = show_nat (unat w)"

definition CheckDiskSpace :: "System \<Rightarrow> 64 word \<Rightarrow> unit res" where
  "CheckDiskSpace sys requiredSizeBytes =
     bind_res (AvailableSpaceInBytes sys) (\<lambda>availableBytes.
       if availableBytes < requiredSizeBytes then
         Err (NotEnoughDiskSpaceError
           (''Insufficient disk space. Available '' @ showWord availableBytes @
            '' (bytes), Approx Required '' @ showWord requiredSizeBytes @ '' (bytes)''))
       else Ok ())"

definition ManifestVersionValidator_Validate :: "string \<Rightarrow> unit res" where
  "ManifestVersionValidator_Validate manifestVersion =
     (if manifestVersion \<noteq> ValidManifestVersion then Err (InvalidManifestError ''Invalid manifest version'')
      else Ok ())"

section \<open>Adapting a manifest to the device\<close>

definition cloneAndAssignManifest :: "Root \<Rightarrow> Root res" where
  "cloneAndAssignManifest sourceManifest = NewFromBytes (ToBytes sourceManifest)"

text \<open>The write to the configuration of a service panics when the service has none.\<close>

definition assignUser :: "User \<Rightarrow> Environment gomap \<Rightarrow> Service \<Rightarrow> Service res" where
  "assignUser adminUser environments s =
     (if UsesLocalPublicVolume s environments then
        bind_res (mput (svc_Config s) ''user'' (JStr (Uid adminUser @ '':'' @ Gid adminUser))) (\<lambda>c.
        Ok (s\<lparr>svc_Config := c\<rparr>))
      else Ok s)"

definition assignAdminUserToLocalPublicVolumeServices :: "System \<Rightarrow> Root \<Rightarrow> Root res" where
  "assignAdminUserToLocalPublicVolumeServices sys adaptedManifest =
     bind_res (LookupAdminUser sys) (\<lambda>adminUser.
     bind_res (mapR (\<lambda>(n, s). bind_res (assignUser adminUser (Environments adaptedManifest) s) (\<lambda>s'. Ok (n, s')))
                (entries (Services adaptedManifest))) (\<lambda>kvs.
     Ok (adaptedManifest\<lparr>Services := map_option (\<lambda>_. kvs) (Services adaptedManifest)\<rparr>)))"

definition adaptFeaturesToSystem :: "System \<Rightarrow> Root \<Rightarrow> Root res" where
  "adaptFeaturesToSystem sys sourceManifest =
     (if \<not> HasLocalPublicVolumes (Environments sourceManifest) then Ok sourceManifest
      else
        bind_res (cloneAndAssignManifest sourceManifest) (\<lambda>adaptedManifest.
        assignAdminUserToLocalPublicVolumeServices sys adaptedManifest))"

section \<open>Lemmas\<close>

lemma validateFeatures_Ok_iff:
  "validateFeatures sys fs = Ok () \<longleftrightarrow>
     (\<forall>f\<in>set fs. isRequired f \<and> ft_Name f = rootAccessFeature \<longrightarrow> IsSshRootAccessEnabled sys = Ok True)"
  by (induction fs) (auto simp: bind_res_Ok_iff split: if_splits)

definition assignedUser :: "User \<Rightarrow> Environment gomap \<Rightarrow> Service \<Rightarrow> Service" where
  "assignedUser u environments s =
     (if UsesLocalPublicVolume s environments
      then s\<lparr>svc_Config := setKey ''user'' (JStr (Uid u @ '':'' @ Gid u)) (svc_Config s)\<rparr> else s)"

lemma assignUser_Ok: "assignUser u environments s = Ok (assignedUser u environments s)"
  using UsesLocalPublicVolume_volumes [of s environments]
  by (auto simp: assignUser_def assignedUser_def mput_def setKey_def)

lemma assignAdminUser_eq:
  assumes "LookupAdminUser sys = Ok u"
  shows "assignAdminUserToLocalPublicVolumeServices sys r =
    Ok (r\<lparr>Services := mapValues (assignedUser u (Environments r)) (Services r)\<rparr>)"
proof -
  have "mapR (\<lambda>(n, s). bind_res (assignUser u (Environments r) s) (\<lambda>s'. Ok (n, s'))) (entries (Services r))
      = Ok (map (\<lambda>(n, s). (n, assignedUser u (Environments r) s)) (entries (Services r)))"
    by (rule mapR_Ok) (auto simp: assignUser_Ok)
  then show ?thesis
    using assms by (cases "Services r") (simp_all add: assignAdminUserToLocalPublicVolumeServices_def mapValues_def)
qed

section \<open>Properties\<close>

text \<open>
  An add-on passes the capability check exactly when the device's platform is one of those its
  manifest lists and, if the manifest requires root access (a feature counts as required unless it says
  otherwise), root access is enabled on the device. Features the device does not know are ignored.
\<close>

theorem checkCapabilities_iff:
  "checkCapabilities hostPlatform sys manifest = Ok () \<longleftrightarrow>
     (\<exists>host platforms. hostPlatform = Ok host \<and> Platform manifest = Some platforms \<and> host \<in> set platforms)
     \<and> ((\<exists>f\<in>set (Features manifest). ft_Name f = rootAccessFeature \<and> ft_Required f \<noteq> Some False)
        \<longrightarrow> IsSshRootAccessEnabled sys = Ok True)"
proof -
  have req: "isRequired f \<longleftrightarrow> ft_Required f \<noteq> Some False" for f
    by (cases "ft_Required f") (auto simp: isRequired_def)
  show ?thesis
    by (cases "Platform manifest") (auto simp: checkCapabilities_def Capabilities_Validate_def validatePlatform_def NewCapabilities_def
        WithFeatures_def bind_res_Ok_iff list_ex_iff validateFeatures_Ok_iff req Let_def
        split: res.splits option.splits)
qed

definition sampleSystem :: System where
  "sampleSystem = uOSSystem (ExitCode 1) (Ok \<lparr>Bavail = 1000, Bsize = 4096\<rparr>) ''1000'' ''1000''"

definition sampleRoot :: Root where
  "sampleRoot =
     \<lparr>ManifestVersion = ''0.2'', root_Version = ''1.0.0-1'', Title = ''App'', Description = [], Logo = ''logo.png'',
      Services = Some [(''app'', \<lparr>svc_Type = ''docker-compose'',
        svc_Config = Some [(''image'', JStr ''app:1''), (''volumes'', JArr [JStr ''vol:/data''])]\<rparr>)],
      Environments = Some [(''e'', WithVolumes (Some [(''vol'', Some [(''driver'', JStr ''local-public'')])])
                                     (NewEnvironment ''docker-compose''))],
      Settings = None, Publish = None, root_Vendor = None, Features = [], Platform = Some [''ucm'']\<rparr>"

theorem checkCapabilities_iff_witness:
  "checkCapabilities (Ok ''ucm'') sampleSystem sampleRoot = Ok ()"
  using checkCapabilities_iff [of "Ok ''ucm''" sampleSystem sampleRoot]
  by (simp add: sampleRoot_def)

text \<open>
  The disk space check: it passes exactly when the free space the device reports is at least the
  estimated size (both 64-bit), so equality suffices; otherwise the error names both numbers.
\<close>

theorem CheckDiskSpace_iff:
  "(CheckDiskSpace sys required = Ok () \<longleftrightarrow>
      (\<exists>available. AvailableSpaceInBytes sys = Ok available \<and> unat required \<le> unat available))
   \<and> (\<forall>available. AvailableSpaceInBytes sys = Ok available \<and> unat available < unat required \<longrightarrow>
        CheckDiskSpace sys required = Err (NotEnoughDiskSpaceError
          (''Insufficient disk space. Available '' @ show_nat (unat available) @
           '' (bytes), Approx Required '' @ show_nat (unat required) @ '' (bytes)'')))"
  by (auto simp: CheckDiskSpace_def bind_res_Ok_iff showWord_def word_less_nat_alt word_le_nat_alt not_less
      split: if_splits)

theorem CheckDiskSpace_iff_witness:
  "CheckDiskSpace sampleSystem 4096000 = Ok ()"
proof -
  have "AvailableSpaceInBytes sampleSystem = Ok 4096000"
    by (simp add: sampleSystem_def uOSSystem_def uOSSystem_AvailableSpaceInBytes_def)
  then show ?thesis using CheckDiskSpace_iff [of sampleSystem 4096000] by simp
qed

text \<open>
  Adapting a manifest to the device never panics and, unless the admin user cannot be looked up,
  succeeds: it sets the user of exactly the services that mount a local public volume to the admin
  user and changes nothing else of any service.
\<close>

theorem adaptFeatures_assigns_admin:
  assumes "wfRoot m" and "LookupAdminUser sys = Ok u"
  shows "\<exists>m'. adaptFeaturesToSystem sys m = Ok m'
    \<and> (\<forall>n. mget (Services m') n = None \<longleftrightarrow> mget (Services m) n = None)
    \<and> (\<forall>n s s' key. mget (Services m) n = Some s \<and> mget (Services m') n = Some s' \<longrightarrow>
         mget (svc_Config s') key =
           (if key = ''user'' \<and> UsesLocalPublicVolume s (Environments m')
            then Some (JStr (Uid u @ '':'' @ Gid u)) else mget (svc_Config s) key))
    \<and> Title m' = Title m \<and> Features m' = Features m \<and> Publish m' = (if HasLocalPublicVolumes (Environments m) then omitMap (Publish m) else Publish m)"
proof (cases "HasLocalPublicVolumes (Environments m)")
  case False
  moreover have "\<not> UsesLocalPublicVolume s (Environments m)" for s
    using False UsesLocalPublicVolume_imp_Has by blast
  ultimately show ?thesis by (auto simp: adaptFeaturesToSystem_def)
next
  case True
  let ?c = "normRoot m"
  let ?m' = "?c\<lparr>Services := mapValues (assignedUser u (Environments ?c)) (Services ?c)\<rparr>"
  have run: "adaptFeaturesToSystem sys m = Ok ?m'"
    using True NewFromBytes_ToBytes [OF assms(1)] assignAdminUser_eq [OF assms(2), of ?c]
    by (simp add: adaptFeaturesToSystem_def cloneAndAssignManifest_def)
  have srv: "Services ?m' = mapValues (assignedUser u (Environments ?c)) (Services m)"
    by (simp add: normRoot_def)
  have look: "mget (svc_Config (assignedUser u envs s)) key =
      (if key = ''user'' \<and> UsesLocalPublicVolume s envs then Some (JStr (Uid u @ '':'' @ Gid u)) else mget (svc_Config s) key)"
    for envs s key
    using UsesLocalPublicVolume_volumes [of s envs] by (auto simp: assignedUser_def mget_setKey simp del: mget_simps)
  show ?thesis
    by (rule exI [of _ ?m']) (use run srv look True in \<open>auto simp: mget_mapValues normRoot_def\<close>)
qed

theorem adaptFeatures_assigns_admin_witness:
  "\<exists>m'. adaptFeaturesToSystem sampleSystem sampleRoot = Ok m' \<and> Title m' = ''App''"
proof -
  have "wfRoot sampleRoot" by code_simp
  moreover have "LookupAdminUser sampleSystem = Ok \<lparr>Uid = ''1000'', Gid = ''1000''\<rparr>"
    by (simp add: sampleSystem_def uOSSystem_def uOSSystem_LookupAdminUser_def)
  ultimately obtain m' where "adaptFeaturesToSystem sampleSystem sampleRoot = Ok m'" "Title m' = Title sampleRoot"
    using adaptFeatures_assigns_admin by blast
  then show ?thesis by (simp add: sampleRoot_def)
qed

end
