(* ===== verification/Service.thy ===== *)
theory Service
  imports Catalogue Transaction Docker Iam Capabilities
begin

text \<open>
  \<^verbatim>\<open>internal/aom/service/service.go\<close> and \<^verbatim>\<open>replace_transaction.go\<close>: installing, updating, configuring and
  deleting an add-on inside a transaction; \<^verbatim>\<open>addon_starter.go\<close> and \<^verbatim>\<open>addon_stopper.go\<close>.

  A routine runs on the record \<open>txState\<close>: its transaction and the state \<open>world\<close> of the device. Every
  resource it creates is preceded by a rollback hook, a closure over the resource's name, in the order of
  the code.
\<close>

section \<open>Helpers\<close>

definition ReplaceSlashesWithDashes :: "string \<Rightarrow> string" where
  "ReplaceSlashesWithDashes input = ReplaceAll input (CHR ''/'') ''-''"

definition isWordChar :: "char \<Rightarrow> bool" where
  "isWordChar c \<longleftrightarrow> isUpper c \<or> isLower c \<or> isDigit c \<or> c = CHR ''_''"

text \<open>The regular expression \<^verbatim>\<open>(?i)\bcodesys\b\<close> on ASCII text; \<open>prev\<close>: the byte before is a word character.\<close>

fun matchCodesys :: "bool \<Rightarrow> string \<Rightarrow> bool" where
  "matchCodesys prev [] = False"
| "matchCodesys prev (c # s) =
     (\<not> prev \<and> ToLower (take 7 (c # s)) = ''codesys''
        \<and> (case drop 7 (c # s) of [] \<Rightarrow> True | d # _ \<Rightarrow> \<not> isWordChar d)
      \<or> matchCodesys (isWordChar c) s)"

definition isCodesys :: "string \<Rightarrow> bool" where
  "isCodesys appName = matchCodesys False appName"

definition ErrorCodesys :: goerror where
  "ErrorCodesys = GrpcStatus Unimplemented ''Not supported for the codesys app'' None"

section \<open>The service\<close>

record ('r, 'd) AomService =
  svc_stackService :: "('r, 'd) world StackServiceAPI"
  svc_reverseProxy :: ReverseProxy
  svc_iamPermissionWriter :: IamPermissionWriter
  svc_localCatalogue :: "('r, 'd) world LocalAddOnCatalogue"
  svc_schema :: "json \<Rightarrow> string option"
  svc_GetAddOnEnvironment :: "string \<Rightarrow> (('r, 'd) world, (string \<times> string) list) go"
  svc_system :: System
  svc_hostPlatform :: "string res"
  svc_noAuthOpt :: bool

definition environmentVariables :: string where
  "environmentVariables = ''environmentVariables''"

definition isAddOnInstalled :: "('r, 'd) AomService \<Rightarrow> string \<Rightarrow> (('r, 'd) world, bool) go" where
  "isAddOnInstalled s addOnName =
     tryM (attemptM (lcat_GetAddOn (svc_localCatalogue s) addOnName)) (\<lambda>r.
       case r of
         Inr _ \<Rightarrow> ret True
       | Inl ErrorAddOnNotFound \<Rightarrow> ret False
       | Inl err \<Rightarrow> fail err)"

definition removeUnusedVolumes :: "('r, 'd) AomService \<Rightarrow> CatalogueAddOn \<Rightarrow> (('r, 'd) world, unit) go" where
  "removeUnusedVolumes s addOn =
     RemoveUnusedVolumes (svc_stackService s) (ca_Name addOn) (GetVolumeNames (Environments (ca_Manifest addOn)))"

definition createProxyRoutes ::
  "('r, 'd) AomService \<Rightarrow> string \<Rightarrow> string \<Rightarrow> string \<Rightarrow> ProxyRoute gomap \<Rightarrow> (('r, 'd) world, unit) go" where
  "createProxyRoutes s name title permissionId proxyRoute =
     (let convertedPermissionId = ReplaceSlashesWithDashes permissionId
      in eachM (\<lambda>(i, location).
           onFiles (reverseProxy_Create (svc_reverseProxy s) (CreatePrefixedRouteFilenameId name i)
             \<lparr>rpm_AddOnName = name, rpm_AddOnTitle = title, rpm_To = To location, rpm_Id = convertedPermissionId\<rparr>
             (NewReverseProxyHttpConf name location)))
         (entries proxyRoute))"

definition deleteProxyRoutes ::
  "('r, 'd) AomService \<Rightarrow> string \<Rightarrow> ProxyRoute gomap \<Rightarrow> (('r, 'd) world, unit) go" where
  "deleteProxyRoutes s name proxyRoute =
     eachM (\<lambda>(i, _). onFiles (reverseProxy_Delete (svc_reverseProxy s) (CreatePrefixedRouteFilenameId name i)))
       (entries proxyRoute)"

definition createIamPermission :: "('r, 'd) AomService \<Rightarrow> string \<Rightarrow> string \<Rightarrow> (('r, 'd) world, unit) go" where
  "createIamPermission s permissionId addOnTitle =
     onFiles (iam_Create (svc_iamPermissionWriter s)
       \<lparr>perm_AddOnTitle = addOnTitle, perm_Id = ReplaceSlashesWithDashes permissionId, perm_NoAuthOpt = svc_noAuthOpt s\<rparr>)"

definition deleteIamPermission :: "('r, 'd) AomService \<Rightarrow> string \<Rightarrow> (('r, 'd) world, unit) go" where
  "deleteIamPermission s permissionId =
     onFiles (iam_Delete (svc_iamPermissionWriter s) (ReplaceSlashesWithDashes permissionId))"

definition deleteAddOnResources ::
  "('r, 'd) AomService \<Rightarrow> CatalogueAddOn \<Rightarrow> (CatalogueAddOn \<Rightarrow> (('r, 'd) world, unit) go) \<Rightarrow>
   (('r, 'd) world, unit) go" where
  "deleteAddOnResources s addOn action =
     tryM (DeleteAddOnStack (svc_stackService s) (ca_Name addOn)) (\<lambda>_.
     tryM (DeleteDockerImages (svc_stackService s) (GetDockerImageReferences (Services (ca_Manifest addOn)))) (\<lambda>_.
     tryM (action addOn) (\<lambda>_.
     tryM (deleteProxyRoutes s (ca_Name addOn) (Publish (ca_Manifest addOn))) (\<lambda>_.
     tryM (deleteIamPermission s (ca_Name addOn)) (\<lambda>_.
     lcat_DeleteAddOn (svc_localCatalogue s) (ca_Name addOn))))))"

definition deleteAddOnExceptVolumes :: "('r, 'd) AomService \<Rightarrow> CatalogueAddOn \<Rightarrow> (('r, 'd) world, unit) go" where
  "deleteAddOnExceptVolumes s addOn = deleteAddOnResources s addOn (\<lambda>_. ret ())"

definition deleteAddOnWithVolumes :: "('r, 'd) AomService \<Rightarrow> CatalogueAddOn \<Rightarrow> (('r, 'd) world, unit) go" where
  "deleteAddOnWithVolumes s addOn = deleteAddOnResources s addOn (removeUnusedVolumes s)"

section \<open>Installing\<close>

definition subscribe_hook :: "('w, unit) go \<Rightarrow> ('w txState, unit) go" where
  "subscribe_hook hook = onTx (SubscribeRollbackHook hook)"

text \<open>
  \<^verbatim>\<open>manifest.Settings["environmentVariables"] = settings\<close>, when there are settings: a panic on a manifest
  without settings.
\<close>

definition assignSettings :: "Setting list \<Rightarrow> Root \<Rightarrow> Root res" where
  "assignSettings settings m =
     (if settings = [] then Ok m
      else bind_res (mput (Settings m) environmentVariables settings) (\<lambda>ss. Ok (m\<lparr>Settings := ss\<rparr>)))"

definition deployable :: "('r, 'd) AomService \<Rightarrow> Root \<Rightarrow> json res" where
  "deployable s m =
     bind_res (adaptFeaturesToSystem (svc_system s) m) (\<lambda>manifestToDeploy.
     GetDockerComposeFromManifest manifestToDeploy)"

definition stackHook :: "('r, 'd) AomService \<Rightarrow> CatalogueAddOn \<Rightarrow> (('r, 'd) world, unit) go" where
  "stackHook s addOn =
     tryM (ignoreM (DeleteAddOnStack (svc_stackService s) (ca_Name addOn))) (\<lambda>_.
     ignoreM (removeUnusedVolumes s addOn))"

text \<open>The routine from the pull on, and the whole of it.\<close>

definition installPulled ::
  "('r, 'd) AomService \<Rightarrow> string \<Rightarrow> string \<Rightarrow> Setting list \<Rightarrow> (('r, 'd) world txState, unit) go" where
  "installPulled s name version settings =
     tryM (onWorld (PullAddOn (svc_localCatalogue s) name version)) (\<lambda>catalogueAddOn.
     let addOn = AddOn catalogueAddOn; m = ca_Manifest addOn
     in
     tryM (liftR (CheckDiskSpace (svc_system s) (EstimatedInstallSize catalogueAddOn))) (\<lambda>_.
     tryM (liftR (Validate (svc_schema s) m)) (\<lambda>_.
     tryM (liftR (ManifestVersionValidator_Validate (ManifestVersion m))) (\<lambda>_.
     tryM (onTx (setAddOnContext (ca_Name addOn) (Title m) Installing)) (\<lambda>_.
     tryM (liftR (checkCapabilities (svc_hostPlatform s) (svc_system s) m)) (\<lambda>_.
     tryM (liftR (assignSettings settings m)) (\<lambda>m'.
     tryM (subscribe_hook (ignoreM (DeleteDockerImages (svc_stackService s) (GetDockerImageReferences (Services m'))))) (\<lambda>_.
     tryM (onWorld (eachM (ImportDockerImage (svc_stackService s)) (DockerImageData catalogueAddOn))) (\<lambda>_.
     tryM (liftR (deployable s m')) (\<lambda>dockerCompose.
     tryM (subscribe_hook (stackHook s (addOn\<lparr>ca_Manifest := m'\<rparr>))) (\<lambda>_.
     tryM (onWorld (CreateStackWithDockerCompose (svc_stackService s) (ca_Name addOn) dockerCompose)) (\<lambda>_.
     tryM (subscribe_hook (ignoreM (deleteIamPermission s (ca_Name addOn)))) (\<lambda>_.
     tryM (onWorld (createIamPermission s (ca_Name addOn) (Title m'))) (\<lambda>_.
     tryM (subscribe_hook (ignoreM (deleteProxyRoutes s (ca_Name addOn) (Publish m')))) (\<lambda>_.
     onWorld (createProxyRoutes s (ca_Name addOn) (Title m') (ca_Name addOn) (Publish m')))))))))))))))))"

definition CreateAddOnRoutine ::
  "('r, 'd) AomService \<Rightarrow> string \<Rightarrow> string \<Rightarrow> Setting list \<Rightarrow> (('r, 'd) world txState, unit) go" where
  "CreateAddOnRoutine s name version settings =
     tryM (onWorld (isAddOnInstalled s name)) (\<lambda>isInstalled.
     if isInstalled then fail ErrorAddOnAlreadyInstalled
     else
       tryM (subscribe_hook (ignoreM (lcat_DeleteAddOn (svc_localCatalogue s) name))) (\<lambda>_.
       installPulled s name version settings))"

section \<open>Replacing and deleting\<close>

definition updateSettings ::
  "('r, 'd) AomService \<Rightarrow> string \<Rightarrow> Root \<Rightarrow> Setting list \<Rightarrow> (('r, 'd) world, Setting list) go" where
  "updateSettings s name futureManifest settings =
     (if settings = [] \<and> Settings futureManifest \<noteq> None then
        tryM (svc_GetAddOnEnvironment s name) (\<lambda>currentSettings.
        let settingsOfUpdate = (case mget (Settings futureManifest) environmentVariables of None \<Rightarrow> [] | Some xs \<Rightarrow> xs)
        in ret (CombineManifestSettingsWithSettingsMap settingsOfUpdate currentSettings))
      else ret settings)"

definition updateAction ::
  "('r, 'd) AomService \<Rightarrow> CatalogueAddOn \<Rightarrow> string \<Rightarrow> Setting list \<Rightarrow> (('r, 'd) world txState, unit) go" where
  "updateAction s addOn version settings =
     tryM (onWorld (FetchManifest (svc_localCatalogue s) (ca_Name addOn) version)) (\<lambda>futureManifest.
     tryM (liftR (ManifestVersionValidator_Validate (ManifestVersion futureManifest))) (\<lambda>_.
     tryM (liftR (checkCapabilities (svc_hostPlatform s) (svc_system s) futureManifest)) (\<lambda>_.
     tryM (onWorld (updateSettings s (ca_Name addOn) futureManifest settings)) (\<lambda>settings.
     tryM (onWorld (deleteAddOnExceptVolumes s addOn)) (\<lambda>_.
     tryM (CreateAddOnRoutine s (ca_Name addOn) version settings) (\<lambda>_.
     onWorld (removeUnusedVolumes s addOn)))))))"

definition configureAction ::
  "('r, 'd) AomService \<Rightarrow> CatalogueAddOn \<Rightarrow> Setting list \<Rightarrow> (('r, 'd) world txState, unit) go" where
  "configureAction s addOn settings =
     tryM (liftR (assignSettings settings (ca_Manifest addOn))) (\<lambda>m.
     tryM (liftR (deployable s m)) (\<lambda>dockerCompose.
     tryM (onWorld (DeleteAddOnStack (svc_stackService s) (ca_Name addOn))) (\<lambda>_.
     tryM (subscribe_hook (stackHook s (addOn\<lparr>ca_Manifest := m\<rparr>))) (\<lambda>_.
     onWorld (CreateStackWithDockerCompose (svc_stackService s) (ca_Name addOn) dockerCompose)))))"

definition ReplaceAddOnRoutine ::
  "('r, 'd) AomService \<Rightarrow> string \<Rightarrow> string \<Rightarrow> Setting list \<Rightarrow> (('r, 'd) world txState, unit) go" where
  "ReplaceAddOnRoutine s name version settings =
     (if isCodesys name then fail ErrorCodesys
      else
        tryM (onWorld (lcat_GetAddOn (svc_localCatalogue s) name)) (\<lambda>addOn.
        if ca_Version addOn = version then
          tryM (onTx (setAddOnContext (ca_Name addOn) (Title (ca_Manifest addOn)) Configuring)) (\<lambda>_.
          configureAction s addOn settings)
        else
          tryM (onTx (setAddOnContext (ca_Name addOn) (Title (ca_Manifest addOn)) Updating)) (\<lambda>_.
          updateAction s addOn version settings)))"

definition DeleteAddOnRoutine :: "('r, 'd) AomService \<Rightarrow> string \<Rightarrow> (('r, 'd) world txState, unit) go" where
  "DeleteAddOnRoutine s name =
     (if isCodesys name then fail ErrorCodesys
      else
        tryM (onWorld (lcat_GetAddOn (svc_localCatalogue s) name)) (\<lambda>addOn.
        tryM (onTx (setAddOnContext (ca_Name addOn) (Title (ca_Manifest addOn)) Deleting)) (\<lambda>_.
        onWorld (deleteAddOnWithVolumes s addOn))))"

section \<open>Starting and stopping\<close>

record 'w ExternalNetworkConnector =
  Initialize :: "('w, unit) go"
  IsConnected :: "Root \<Rightarrow> bool"
  Reconnect :: "Container list \<Rightarrow> ('w, unit) go"

fun prepareAddOnsBeforeStart ::
  "'w StackServiceAPI \<Rightarrow> 'w ExternalNetworkConnector \<Rightarrow> CatalogueAddOn list \<Rightarrow> ('w, unit) go" where
  "prepareAddOnsBeforeStart stackService connector [] = ret ()"
| "prepareAddOnsBeforeStart stackService connector (addOn # addOns) =
     tryM
       (if IsConnected connector (ca_Manifest addOn) then
          ignoreM (tryM (ListAllStackContainers stackService (ca_Name addOn)) (\<lambda>addOnContainers.
            Reconnect connector addOnContainers))
        else ret ())
       (\<lambda>_. prepareAddOnsBeforeStart stackService connector addOns)"

definition startAll :: "'w StackServiceAPI \<Rightarrow> CatalogueAddOn list \<Rightarrow> ('w, unit) go" where
  "startAll stackService addOns =
     eachM (\<lambda>addOn. ignoreM (StartupStackNonBlocking stackService (ca_Name addOn))) addOns"

definition StartInstalledAddOns ::
  "'w LocalAddOnCatalogue \<Rightarrow> 'w StackServiceAPI \<Rightarrow> 'w ExternalNetworkConnector \<Rightarrow> ('w, unit) go" where
  "StartInstalledAddOns localCatalogue stackService connector =
     tryM (GetAddOns localCatalogue) (\<lambda>addOns.
     tryM (Initialize connector) (\<lambda>_.
     tryM (prepareAddOnsBeforeStart stackService connector addOns) (\<lambda>_.
     startAll stackService addOns)))"

definition stopAll :: "'w StackServiceAPI \<Rightarrow> CatalogueAddOn list \<Rightarrow> ('w, unit) go" where
  "stopAll stackService addOns = eachM (\<lambda>addOn. ignoreM (StopStack stackService (ca_Name addOn))) addOns"

definition StopInstalledAddOns :: "'w LocalAddOnCatalogue \<Rightarrow> 'w StackServiceAPI \<Rightarrow> ('w, unit) go" where
  "StopInstalledAddOns localCatalogue stackService =
     tryM (GetAddOns localCatalogue) (\<lambda>addOns. stopAll stackService addOns)"

section \<open>The stack service on the state of the device\<close>

definition worldStack :: "'d StackServiceAPI \<Rightarrow> ('r, 'd) world StackServiceAPI" where
  "worldStack a =
     \<lparr>CreateStackWithDockerCompose = (\<lambda>n y. onDocker (CreateStackWithDockerCompose a n y)),
      CreateStackWithoutStartWithDockerCompose = (\<lambda>n y. onDocker (CreateStackWithoutStartWithDockerCompose a n y)),
      ListAllStackContainers = (\<lambda>n. onDocker (ListAllStackContainers a n)),
      DeleteAddOnStack = (\<lambda>n. onDocker (DeleteAddOnStack a n)),
      DeleteDockerImages = (\<lambda>rs. onDocker (DeleteDockerImages a rs)),
      ImportDockerImage = (\<lambda>i. onDocker (ImportDockerImage a i)),
      RemoveUnusedVolumes = (\<lambda>n vs. onDocker (RemoveUnusedVolumes a n vs)),
      InspectContainer = (\<lambda>i. onDocker (InspectContainer a i)),
      StartupStackNonBlocking = (\<lambda>n. onDocker (StartupStackNonBlocking a n)),
      StopStack = (\<lambda>n. onDocker (StopStack a n)),
      VolumeInspect = (\<lambda>n. onDocker (VolumeInspect a n))\<rparr>"

section \<open>Frames\<close>

text \<open>Hooks are only ever added, and nothing but commit and rollback ends the transaction.\<close>

definition hooksGrow :: "'w txState \<Rightarrow> 'w txState \<Rightarrow> bool" where
  "hooksGrow s t \<longleftrightarrow> (\<exists>hs. rollbackHooks (st_tx t) = rollbackHooks (st_tx s) @ hs) \<and>
     tx_done (st_tx t) = tx_done (st_tx s) \<and> tx_ctxDone (st_tx t) = tx_ctxDone (st_tx s)"

interpretation hooksGrow: step_relation hooksGrow
  by unfold_locales (auto simp: hooksGrow_def)

lemma keeps_hooks:
  "keeps hooksGrow (onWorld m)" "keeps hooksGrow (subscribe_hook h)" "keeps hooksGrow (onTx (setAddOnContext n t op))"
  by (auto simp: keeps_def hooksGrow_def onWorld_run subscribe_hook_def onTx_run SubscribeRollbackHook_def
      setAddOnContext_def)

text \<open>Only files of the set \<open>S\<close> change.\<close>

definition filesIn :: "path set \<Rightarrow> ('r, 'd) world \<Rightarrow> ('r, 'd) world \<Rightarrow> bool" where
  "filesIn S w w' \<longleftrightarrow> onlyIn S (files w) (files w')"

interpretation filesIn: step_relation "filesIn S"
  by unfold_locales (auto simp: filesIn_def intro: onlyIn.R_refl onlyIn.R_trans)

lemma keeps_filesIn_docker: "keeps (filesIn S) (onDocker m)"
  by (simp add: keeps_def filesIn_def onDocker_run onlyIn.R_refl)

lemma keeps_filesIn_files: "keeps (onlyIn T) m \<Longrightarrow> T \<subseteq> S \<Longrightarrow> keeps (filesIn S) (onFiles m)"
  using keeps_onlyIn_mono [of T m S] by (simp add: keeps_def filesIn_def onFiles_run)

lemma keeps_reverseProxy_Delete:
  assumes "daemonProxy r" and "[] \<notin> set (routePaths r i)"
  shows "keeps (onlyIn (set (routePaths r i))) (reverseProxy_Delete r i)"
proof -
  have del: "keeps (onlyIn (set (routePaths r i))) (deleteFile p)" if "p \<in> set (routePaths r i)" for p
    using that assms(2) by (intro keeps_onlyIn_mono [OF keeps_deleteFile]) auto
  have rel: "keeps (onlyIn (set (routePaths r i))) (reload r)"
    by (auto simp: keeps_def reload_def onlyIn.R_refl split: reloadOutcome.splits)
  have p: "getSitesAvailableFilepath r i \<in> set (routePaths r i)" "getSitesEnabledFilepath r i \<in> set (routePaths r i)"
    "getRoutesMapAvailableFilepath r i \<in> set (routePaths r i)" "getRoutesMapEnabledFilepath r i \<in> set (routePaths r i)"
    by (simp_all add: routePaths_def)
  have "rp_deleteFile r = deleteFile" "rp_removeSymbolicLink r = deleteFile" using assms(1) by (simp_all add: daemonProxy_def)
  then show ?thesis
    unfolding reverseProxy_Delete_def by (simp only:) (intro onlyIn.keeps_tryM rel del p)
qed

text \<open>The files of the proxy and of the permissions are not inside the directory of the add-on.\<close>

definition pathsApart :: "('r, 'd) AomService \<Rightarrow> path \<Rightarrow> string \<Rightarrow> ProxyRoute gomap \<Rightarrow> bool" where
  "pathsApart s loc name routes \<longleftrightarrow>
     list_all (\<lambda>(i, _). list_all (\<lambda>q. q \<noteq> [] \<and> \<not> prefix loc q)
        (routePaths (svc_reverseProxy s) (CreatePrefixedRouteFilenameId name i))) (entries routes) \<and>
     getPermissionsFilepath (svc_iamPermissionWriter s) (ReplaceSlashesWithDashes name) \<noteq> [] \<and>
     \<not> prefix loc (getPermissionsFilepath (svc_iamPermissionWriter s) (ReplaceSlashesWithDashes name))"

lemma keeps_deleteProxyRoutes:
  assumes "daemonProxy (svc_reverseProxy s)" and "pathsApart s loc name routes"
  shows "keeps (filesIn {q. \<not> prefix loc q}) (deleteProxyRoutes s name routes)"
  unfolding deleteProxyRoutes_def
proof (rule filesIn.keeps_eachM)
  fix x assume "x \<in> set (entries routes)"
  then obtain i l where x: "x = (i, l)" "(i, l) \<in> set (entries routes)" by (metis surj_pair)
  let ?ps = "routePaths (svc_reverseProxy s) (CreatePrefixedRouteFilenameId name i)"
  have "\<forall>q\<in>set ?ps. q \<noteq> [] \<and> \<not> prefix loc q"
    using assms(2) x by (auto simp: pathsApart_def list_all_iff)
  then show "keeps (filesIn {q. \<not> prefix loc q})
      (case x of (i, _) \<Rightarrow> onFiles (reverseProxy_Delete (svc_reverseProxy s) (CreatePrefixedRouteFilenameId name i)))"
    using x by (auto intro!: keeps_filesIn_files [OF keeps_reverseProxy_Delete [OF assms(1)]])
qed

lemma keeps_deleteIamPermission:
  assumes "daemonWriter (svc_iamPermissionWriter s)" and "pathsApart s loc name routes"
  shows "keeps (filesIn {q. \<not> prefix loc q}) (deleteIamPermission s name)"
  using assms
  by (auto simp: deleteIamPermission_def iam_Delete_def daemonWriter_def pathsApart_def
      intro!: keeps_filesIn_files [OF keeps_deleteFile])

definition beforeManifest :: "('r, 'd) AomService \<Rightarrow> CatalogueAddOn \<Rightarrow> (('r, 'd) world, unit) go" where
  "beforeManifest s addOn =
     tryM (DeleteAddOnStack (svc_stackService s) (ca_Name addOn)) (\<lambda>_.
     tryM (DeleteDockerImages (svc_stackService s) (GetDockerImageReferences (Services (ca_Manifest addOn)))) (\<lambda>_.
     tryM (removeUnusedVolumes s addOn) (\<lambda>_.
     tryM (deleteProxyRoutes s (ca_Name addOn) (Publish (ca_Manifest addOn))) (\<lambda>_.
     deleteIamPermission s (ca_Name addOn)))))"

lemma deleteAddOnWithVolumes_split:
  "deleteAddOnWithVolumes s addOn =
     tryM (beforeManifest s addOn) (\<lambda>_. lcat_DeleteAddOn (svc_localCatalogue s) (ca_Name addOn))"
  by (simp add: deleteAddOnWithVolumes_def deleteAddOnResources_def beforeManifest_def tryM_assoc)

lemma keeps_beforeManifest:
  assumes "svc_stackService s = worldStack a" and "daemonProxy (svc_reverseProxy s)"
    and "daemonWriter (svc_iamPermissionWriter s)" and "pathsApart s loc (ca_Name addOn) (Publish (ca_Manifest addOn))"
  shows "keeps (filesIn {q. \<not> prefix loc q}) (beforeManifest s addOn)"
  unfolding beforeManifest_def removeUnusedVolumes_def
  using keeps_deleteProxyRoutes [OF assms(2,4)] keeps_deleteIamPermission [OF assms(3,4)] assms(1)
  by (auto simp: worldStack_def intro!: filesIn.keeps_tryM keeps_filesIn_docker)

text \<open>Looking an add-on up depends on its manifest file only.\<close>

lemma GetAddOn_single:
  assumes "node (files w') (getInstallLocation c n @ [UcImageManifestFilename]) = node (files w) (getInstallLocation c n @ [UcImageManifestFilename])"
    and "faulty (files w') = faulty (files w)" and "\<forall>t. node (files w) (getInstallLocation c n @ [UcImageManifestFilename]) \<noteq> Some (Link t)"
  shows "fst (local_GetAddOn c n w') = fst (local_GetAddOn c n w)"
proof -
  let ?p = "getInstallLocation c n @ [UcImageManifestFilename]"
  have "fst (osReadFile ?p (files w')) = fst (osReadFile ?p (files w))"
    using assms resolve_plain [of "files w" ?p] resolve_plain [of "files w'" ?p]
    by (auto simp: osReadFile_def split: option.splits node.splits)
  then have "fst (ReadManifestFrom (getInstallLocation c n) (files w')) =
      fst (ReadManifestFrom (getInstallLocation c n) (files w))"
    by (auto simp: ReadManifestFrom_def manifest_segment tryM_def split: prod.splits res.splits)
  then show ?thesis
    by (auto simp: local_GetAddOn_def tryM_def attemptM_def onFiles_run split: prod.splits res.splits goerror.splits)
qed

lemma GetAddOn_frame:
  assumes "filesIn {q. \<not> prefix (getInstallLocation c n) q} w w'"
    and "\<forall>t. node (files w) (getInstallLocation c n @ [UcImageManifestFilename]) \<noteq> Some (Link t)"
  shows "fst (local_GetAddOn c n w') = fst (local_GetAddOn c n w)"
  using assms by (intro GetAddOn_single) (auto simp: filesIn_def onlyIn_def)

section \<open>Properties\<close>

lemma isAddOnInstalled_run:
  assumes "svc_localCatalogue s = NewLocalAddOnCatalogue c"
  shows "isAddOnInstalled s n w =
    (case fst (local_GetAddOn c n w) of
       Ok _ \<Rightarrow> Ok True
     | Err ErrorAddOnNotFound \<Rightarrow> Ok False
     | Err e \<Rightarrow> Err e
     | Panic p \<Rightarrow> Panic p, w)"
  using assms local_GetAddOn_state [of c n w]
  by (cases "local_GetAddOn c n w")
    (auto simp: isAddOnInstalled_def NewLocalAddOnCatalogue_def tryM_def attemptM_def
      split: res.splits goerror.splits)

lemma keeps_installPulled: "keeps hooksGrow (installPulled s n v settings)"
  unfolding installPulled_def Let_def
  by (intro hooksGrow.keeps_tryM hooksGrow.keeps_pure keeps_hooks)

lemma keeps_CreateAddOnRoutine: "keeps hooksGrow (CreateAddOnRoutine s n v settings)"
  unfolding CreateAddOnRoutine_def
  by (intro hooksGrow.keeps_tryM hooksGrow.keeps_if hooksGrow.keeps_pure keeps_hooks keeps_installPulled)

lemma keeps_DeleteAddOnRoutine: "keeps hooksGrow (DeleteAddOnRoutine s n)"
  unfolding DeleteAddOnRoutine_def
  by (intro hooksGrow.keeps_tryM hooksGrow.keeps_if hooksGrow.keeps_pure keeps_hooks)

lemma keeps_ReplaceAddOnRoutine: "keeps hooksGrow (ReplaceAddOnRoutine s n v settings)"
  unfolding ReplaceAddOnRoutine_def configureAction_def updateAction_def
  by (intro hooksGrow.keeps_tryM hooksGrow.keeps_if hooksGrow.keeps_pure keeps_hooks keeps_CreateAddOnRoutine)

text \<open>How the routine ends when the look-up does not answer that the add-on is missing.\<close>

fun refusal :: "'a res \<Rightarrow> unit res" where
  "refusal (Ok _) = Err ErrorAddOnAlreadyInstalled"
| "refusal (Err e) = Err e"
| "refusal (Panic p) = Panic p"

lemma CreateAddOnRoutine_hooks:
  assumes "svc_localCatalogue s = NewLocalAddOnCatalogue c"
    and "CreateAddOnRoutine s n v settings st = (r, st')"
  shows "(st' = st \<and> r = refusal (fst (local_GetAddOn c n (st_world st))) \<and>
            fst (local_GetAddOn c n (st_world st)) \<noteq> Err ErrorAddOnNotFound)
    \<or> (fst (local_GetAddOn c n (st_world st)) = Err ErrorAddOnNotFound \<and> (\<exists>hs. rollbackHooks (st_tx st') =
         rollbackHooks (st_tx st) @ ignoreM (lcat_DeleteAddOn (svc_localCatalogue s) n) # hs \<and>
         tx_done (st_tx st') = tx_done (st_tx st)))"
proof (cases "fst (local_GetAddOn c n (st_world st)) = Err ErrorAddOnNotFound")
  case False
  then show ?thesis
    using assms(2) isAddOnInstalled_run [OF assms(1)]
    by (cases "fst (local_GetAddOn c n (st_world st))")
      (auto simp: CreateAddOnRoutine_def tryM_def onWorld_run split: goerror.splits)
next
  case True
  let ?h = "ignoreM (lcat_DeleteAddOn (svc_localCatalogue s) n)"
  have run: "onWorld (isAddOnInstalled s n) st = (Ok False, st)"
    using True isAddOnInstalled_run [OF assms(1)] by (simp add: onWorld_run)
  obtain st1 where sub: "subscribe_hook ?h st = (Ok (), st1)"
    and st1: "rollbackHooks (st_tx st1) = rollbackHooks (st_tx st) @ [?h]" "tx_done (st_tx st1) = tx_done (st_tx st)"
    by (simp add: subscribe_hook_def onTx_run SubscribeRollbackHook_def)
  have k: "installPulled s n v settings st1 = (r, st')"
    using assms(2) by (simp add: CreateAddOnRoutine_def tryM_def run sub)
  have "hooksGrow st1 st'" using keeps_run [OF keeps_installPulled k] .
  then show ?thesis
    using True st1 by (auto simp: hooksGrow_def)
qed

lemma rollback_Ok:
  assumes "rollback st = (Ok (), st')"
  shows "\<not> tx_done (st_tx st)" and "tx_done (st_tx st')" and "rollbackHooks (st_tx st') = []"
    and "eachM ignoreM (rev (rollbackHooks (st_tx st))) (st_world st) = (Ok (), st_world st')"
  using assms
  by (auto simp: rollback_def onWorld_run tryM_def tx_close_def prod_eq_iff split: prod.splits res.splits if_splits)

lemma eachM_last:
  assumes "eachM f (xs @ [x]) w = (Ok (), w')"
  obtains w1 where "f x w1 = (Ok (), w')"
  using assms by (auto simp: eachM_append elim!: tryM_OkE)

lemma ignoreM_state: "ignoreM m w = (Ok (), w') \<Longrightarrow> m w = (fst (m w), w')"
  using snd_ignoreM [of m w] by (metis prod.collapse snd_conv)

definition ended :: "'a res \<Rightarrow> bool" where
  "ended r \<longleftrightarrow> (\<forall>p. r \<noteq> Panic p)"

lemma ignoreM_ended: "m s = (r, s') \<Longrightarrow> ended r \<Longrightarrow> ignoreM m s = (Ok (), s')"
  by (auto simp: ended_def intro: ignoreM_run)

lemma ended_ignoreM [simp]: "ended (fst (ignoreM m s)) \<longleftrightarrow> ended (fst (m s))"
  by (auto simp: ended_def ignoreM_def attemptM_def tryM_def split: prod.splits res.splits)

lemma ignoreM_Ok_ended: "ignoreM m s = (Ok (), s') \<Longrightarrow> ended (fst (m s))"
  using ended_ignoreM [of m s] by (simp add: ended_def)

lemma rollback_ends_with:
  assumes "rollbackHooks (st_tx st) = ignoreM del # hs" and "rollback st = (Ok (), st')"
  obtains w1 where "del w1 = (fst (del w1), st_world st')" and "ended (fst (del w1))"
proof -
  have "eachM ignoreM (rev hs @ [ignoreM del]) (st_world st) = (Ok (), st_world st')"
    using rollback_Ok(4) [OF assms(2)] assms(1) by simp
  then obtain w1 where *: "ignoreM (ignoreM del) w1 = (Ok (), st_world st')" by (rule eachM_last)
  from * have "snd (del w1) = st_world st'" by (metis snd_conv snd_ignoreM)
  moreover have "ended (fst (del w1))" using ignoreM_Ok_ended [OF *] by (simp add: ended_ignoreM)
  ultimately show thesis using that [of w1] by (metis prod.collapse)
qed

lemma rollback_nothing: "rollbackHooks (st_tx st) = [] \<Longrightarrow> rollback st = (Ok (), st') \<Longrightarrow> st_world st' = st_world st"
  using rollback_Ok(4) [of st st'] by simp

text \<open>
  C1. A failed installation is undone: when the routine fails in a fresh transaction and the rollback runs
  through, then either the look-up itself refused the installation and nothing had been touched, or the
  rollback ends with the deletion of the add-on's directory, and if that succeeds the add-on is not installed
  afterwards. In both cases the transaction is done and its hooks are forgotten.
\<close>

theorem failed_install_is_rolled_back:
  assumes "svc_localCatalogue s = NewLocalAddOnCatalogue c"
    and "CreateAddOnRoutine s n v settings \<lparr>st_tx = BeginTx, st_world = w\<rparr> = (Err e, st)"
    and "rollback st = (Ok (), st')"
  shows "tx_done (st_tx st') \<and> rollbackHooks (st_tx st') = []
    \<and> (fst (lcat_GetAddOn (svc_localCatalogue s) n w) \<noteq> Err ErrorAddOnNotFound \<longrightarrow> st_world st' = w)
    \<and> (fst (lcat_GetAddOn (svc_localCatalogue s) n w) = Err ErrorAddOnNotFound \<longrightarrow>
         (\<exists>w1 r. lcat_DeleteAddOn (svc_localCatalogue s) n w1 = (r, st_world st')
            \<and> (r = Ok () \<longrightarrow> (\<forall>a. fst (lcat_GetAddOn (svc_localCatalogue s) n (st_world st')) \<noteq> Ok a))))"
proof -
  let ?del = "lcat_DeleteAddOn (NewLocalAddOnCatalogue c) n"
  have get: "lcat_GetAddOn (NewLocalAddOnCatalogue c) n = local_GetAddOn c n" by (simp add: NewLocalAddOnCatalogue_def)
  note rb = rollback_Ok [OF assms(3)]
  from CreateAddOnRoutine_hooks [OF assms(1,2)]
  consider (refused) "st_world st = w" "rollbackHooks (st_tx st) = []" "fst (local_GetAddOn c n w) \<noteq> Err ErrorAddOnNotFound"
    | (begun) hs where "rollbackHooks (st_tx st) = ignoreM ?del # hs" "fst (local_GetAddOn c n w) = Err ErrorAddOnNotFound"
    using assms(1) by (auto simp: BeginTx_def)
  then show ?thesis
  proof cases
    case refused
    then show ?thesis using rb get assms(1) by simp
  next
    case begun
    obtain w1 where d: "?del w1 = (fst (?del w1), st_world st')" by (rule rollback_ends_with [OF begun(1) assms(3)])
    have "fst (?del w1) = Ok () \<longrightarrow> (\<forall>a. fst (lcat_GetAddOn (NewLocalAddOnCatalogue c) n (st_world st')) \<noteq> Ok a)"
      using installed.delete_gone [of c n w1] d by (metis)
    then show ?thesis using rb(2,3) begun get assms(1) d by auto
  qed
qed

text \<open>A service to run the definitions on: the small Docker daemon, an almost empty disk.\<close>

definition sampleService :: "(unit, miniDocker) AomService" where
  "sampleService =
     \<lparr>svc_stackService = worldStack (stackAPI miniStack),
      svc_reverseProxy = sampleProxy\<lparr>rp_factory := (\<lambda>_. JobResult ''done'')\<rparr>,
      svc_iamPermissionWriter = NewIamPermissionWriter [''iam''],
      svc_localCatalogue = NewLocalAddOnCatalogue sampleCatalogue,
      svc_schema = (\<lambda>_. None), svc_GetAddOnEnvironment = (\<lambda>_. ret []),
      svc_system = sampleSystem\<lparr>AvailableSpaceInBytes := Err (ErrorString ''statfs'')\<rparr>,
      svc_hostPlatform = Ok ''ucm'', svc_noAuthOpt = True\<rparr>"

definition deviceWorld :: "(path \<times> node) list \<Rightarrow> (unit, miniDocker) world" where
  "deviceWorld ns =
     \<lparr>files = \<lparr>nodes = map (\<lambda>d. ([d], Dir)) [''inst'', ''tmp'', ''iam''] @ ns, faulty = (\<lambda>_ _. False)\<rparr>,
      images = [], remote = (), docker = \<lparr>mini_images = [], mini_volumes = []\<rparr>\<rparr>"

definition deviceWithApp :: "(unit, miniDocker) world" where
  "deviceWithApp =
     deviceWorld [([''inst'', ''app''], Dir),
       ([''inst'', ''app'', UcImageManifestFilename], File (mlc_Manifest sampleLayerContent))]"

theorem failed_install_is_rolled_back_witness:
  "let st = snd (CreateAddOnRoutine sampleService ''app'' ''1.0.0-1'' [] \<lparr>st_tx = BeginTx, st_world = deviceWorld []\<rparr>);
       st' = snd (rollback st)
   in tx_done (st_tx st') \<and> rollbackHooks (st_tx st') = []"
proof -
  let ?run = "CreateAddOnRoutine sampleService ''app'' ''1.0.0-1'' [] \<lparr>st_tx = BeginTx, st_world = deviceWorld []\<rparr>"
  have "case ?run of (Err _, st) \<Rightarrow> is_ok (fst (rollback st)) | _ \<Rightarrow> False" by code_simp
  then obtain e st where run: "?run = (Err e, st)" and rok: "is_ok (fst (rollback st))"
    by (auto split: prod.splits res.splits)
  obtain st' where rb: "rollback st = (Ok (), st')" using rok by (cases "rollback st"; cases "fst (rollback st)") auto
  have c: "svc_localCatalogue sampleService = NewLocalAddOnCatalogue sampleCatalogue" by (simp add: sampleService_def)
  show ?thesis using failed_install_is_rolled_back [OF c run rb] run rb by simp
qed

text \<open>
  C11. Requests the routines refuse change nothing, neither the device nor the transaction: installing what is
  installed, and replacing or deleting what is missing or is the codesys runtime.
\<close>

theorem refused_requests_change_nothing:
  assumes "svc_localCatalogue s = NewLocalAddOnCatalogue c"
  shows "(is_ok (fst (lcat_GetAddOn (svc_localCatalogue s) n (st_world st))) \<longrightarrow>
      CreateAddOnRoutine s n v settings st = (Err ErrorAddOnAlreadyInstalled, st))
    \<and> (isCodesys n \<longrightarrow> ReplaceAddOnRoutine s n v settings st = (Err ErrorCodesys, st)
         \<and> DeleteAddOnRoutine s n st = (Err ErrorCodesys, st))
    \<and> (\<not> isCodesys n \<and> fst (lcat_GetAddOn (svc_localCatalogue s) n (st_world st)) = Err err \<longrightarrow>
         ReplaceAddOnRoutine s n v settings st = (Err err, st) \<and> DeleteAddOnRoutine s n st = (Err err, st))"
proof -
  have get: "lcat_GetAddOn (svc_localCatalogue s) n w = (fst (local_GetAddOn c n w), w)" for w
    using assms local_GetAddOn_state [of c n w] by (simp add: NewLocalAddOnCatalogue_def prod_eq_iff)
  have "CreateAddOnRoutine s n v settings st = (Err ErrorAddOnAlreadyInstalled, st)"
    if "is_ok (fst (local_GetAddOn c n (st_world st)))"
    using CreateAddOnRoutine_hooks [OF assms, of n v settings st] that
    by (cases "CreateAddOnRoutine s n v settings st"; cases "fst (local_GetAddOn c n (st_world st))") auto
  then show ?thesis
    using get by (auto simp: ReplaceAddOnRoutine_def DeleteAddOnRoutine_def tryM_def onWorld_run)
qed

theorem refused_requests_change_nothing_witness:
  "CreateAddOnRoutine sampleService ''app'' ''2.0'' [] \<lparr>st_tx = BeginTx, st_world = deviceWithApp\<rparr>
     = (Err ErrorAddOnAlreadyInstalled, \<lparr>st_tx = BeginTx, st_world = deviceWithApp\<rparr>)
   \<and> DeleteAddOnRoutine sampleService ''My CODESYS app'' \<lparr>st_tx = BeginTx, st_world = deviceWithApp\<rparr>
     = (Err ErrorCodesys, \<lparr>st_tx = BeginTx, st_world = deviceWithApp\<rparr>)"
proof -
  have c: "svc_localCatalogue sampleService = NewLocalAddOnCatalogue sampleCatalogue" by (simp add: sampleService_def)
  have ik: "is_ok (fst (lcat_GetAddOn (svc_localCatalogue sampleService) ''app'' deviceWithApp)) \<and> isCodesys ''My CODESYS app''"
    by code_simp
  show ?thesis
    using refused_requests_change_nothing [OF c, of "''app''" "\<lparr>st_tx = BeginTx, st_world = deviceWithApp\<rparr>" "''2.0''" "[]"]
      refused_requests_change_nothing [OF c, of "''My CODESYS app''" "\<lparr>st_tx = BeginTx, st_world = deviceWithApp\<rparr>"] ik
    by simp
qed

text \<open>
  C6. Deleting an add-on removes its manifest last: on success the add-on is not found any more; when an
  earlier step fails, whichever it is, the catalogue still has the add-on unchanged, so that the deletion can
  be repeated. (The stack service works on the Docker daemon, and the files of the proxy and of the permissions lie
  outside the add-on's directory, whose removal the file system does not refuse.)
\<close>

theorem delete_removes_manifest_last:
  assumes "svc_localCatalogue s = NewLocalAddOnCatalogue c" and "svc_stackService s = worldStack a"
    and "daemonProxy (svc_reverseProxy s)" and "daemonWriter (svc_iamPermissionWriter s)"
    and "\<forall>addOn. fst (local_GetAddOn c n w) = Ok addOn \<longrightarrow>
           pathsApart s (getInstallLocation c n) n (Publish (ca_Manifest addOn))"
    and "\<forall>t. node (files w) (getInstallLocation c n @ [UcImageManifestFilename]) \<noteq> Some (Link t)"
    and "\<forall>q. prefix (getInstallLocation c n) q \<longrightarrow> \<not> faulty (files w) OpRemove q"
    and "DeleteAddOnRoutine s n \<lparr>st_tx = BeginTx, st_world = w\<rparr> = (r, st)"
  shows "(r = Ok () \<longrightarrow> (\<forall>x. fst (local_GetAddOn c n (st_world st)) \<noteq> Ok x))
    \<and> (\<forall>e. r = Err e \<longrightarrow> fst (local_GetAddOn c n (st_world st)) = fst (local_GetAddOn c n w))"
proof -
  let ?loc = "getInstallLocation c n"
  have get: "lcat_GetAddOn (svc_localCatalogue s) n w = (fst (local_GetAddOn c n w), w)" for w
    using assms(1) local_GetAddOn_state [of c n w] by (simp add: NewLocalAddOnCatalogue_def prod_eq_iff)
  show ?thesis
  proof (cases "\<exists>addOn. \<not> isCodesys n \<and> fst (local_GetAddOn c n w) = Ok addOn")
    case False
    then have "st_world st = w \<and> r \<noteq> Ok ()"
      using assms(8) get
      by (cases "fst (local_GetAddOn c n w)") (auto simp: DeleteAddOnRoutine_def tryM_def onWorld_run split: if_splits)
    then show ?thesis by simp
  next
    case True
    then obtain addOn where a: "\<not> isCodesys n" "fst (local_GetAddOn c n w) = Ok addOn" by blast
    have nm: "ca_Name addOn = n" using local_GetAddOn_OkD(2) [OF a(2)] .
    have run: "deleteAddOnWithVolumes s addOn w = (r, st_world st)"
      using assms(8) get a by (auto simp: DeleteAddOnRoutine_def tryM_def onWorld_run onTx_run setAddOnContext_def)
    obtain r1 w1 where pre: "beforeManifest s addOn w = (r1, w1)" by (cases "beforeManifest s addOn w")
    have fr: "filesIn {q. \<not> prefix ?loc q} w w1"
      using keeps_run [OF keeps_beforeManifest [OF assms(2,3,4)] pre] assms(5) a(2) nm by simp
    have "faulty (files w1) = faulty (files w)" using fr by (simp add: filesIn_def onlyIn_def)
    then have ok: "fst (local_DeleteAddOn c n w1) = Ok ()"
      using assms(7) by (simp add: local_DeleteAddOn_def onFiles_run osRemoveAll_deletes deletable_tree)
    have run': "tryM (beforeManifest s addOn) (\<lambda>_. local_DeleteAddOn c n) w = (r, st_world st)"
      using run nm assms(1) by (simp add: deleteAddOnWithVolumes_split NewLocalAddOnCatalogue_def)
    show ?thesis
    proof (cases "r1 = Ok ()")
      case True
      then have d: "local_DeleteAddOn c n w1 = (r, st_world st)" using run' pre by (simp add: tryM_def)
      then show ?thesis using ok local_DeleteAddOn_gone [of c n w1 "st_world st"] by auto
    next
      case False
      then have "st_world st = w1" "r \<noteq> Ok ()" using run' pre by (auto simp: tryM_def split: res.splits)
      then show ?thesis using GetAddOn_frame [OF fr assms(6)] by simp
    qed
  qed
qed

theorem delete_removes_manifest_last_witness:
  "\<not> is_ok (fst (local_GetAddOn sampleCatalogue ''app''
      (st_world (snd (DeleteAddOnRoutine sampleService ''app'' \<lparr>st_tx = BeginTx, st_world = deviceWithApp\<rparr>)))))"
proof -
  let ?run = "DeleteAddOnRoutine sampleService ''app'' \<lparr>st_tx = BeginTx, st_world = deviceWithApp\<rparr>"
  have ok: "is_ok (fst ?run)" by code_simp
  obtain st where run: "?run = (Ok (), st)" using ok by (cases ?run; cases "fst ?run") auto
  have c: "svc_localCatalogue sampleService = NewLocalAddOnCatalogue sampleCatalogue"
    "svc_stackService sampleService = worldStack (stackAPI miniStack)"
    "daemonProxy (svc_reverseProxy sampleService)" "daemonWriter (svc_iamPermissionWriter sampleService)"
    by (simp_all add: sampleService_def daemonProxy_def sampleProxy_def NewReverseProxy_def daemonWriter_def
        NewIamPermissionWriter_def)
  have loc: "getInstallLocation (sampleCatalogue :: (unit, miniDocker) localAddOnCatalogue) ''app'' = [''inst'', ''app'']"
    by code_simp
  have "case fst (local_GetAddOn sampleCatalogue ''app'' deviceWithApp) of
      Ok addOn \<Rightarrow> pathsApart sampleService [''inst'', ''app''] ''app'' (Publish (ca_Manifest addOn)) | _ \<Rightarrow> True"
    by code_simp
  then have p: "\<forall>addOn. fst (local_GetAddOn sampleCatalogue ''app'' deviceWithApp) = Ok addOn \<longrightarrow>
      pathsApart sampleService (getInstallLocation (sampleCatalogue :: (unit, miniDocker) localAddOnCatalogue) ''app'') ''app''
        (Publish (ca_Manifest addOn))"
    by (auto simp: loc split: res.splits)
  have l: "\<forall>t. node (files deviceWithApp)
      (getInstallLocation (sampleCatalogue :: (unit, miniDocker) localAddOnCatalogue) ''app'' @ [UcImageManifestFilename])
      \<noteq> Some (Link t)"
    by (simp add: loc deviceWithApp_def deviceWorld_def node_def)
  have f: "\<forall>q. prefix (getInstallLocation (sampleCatalogue :: (unit, miniDocker) localAddOnCatalogue) ''app'') q \<longrightarrow>
      \<not> faulty (files deviceWithApp) OpRemove q"
    by (simp add: deviceWithApp_def deviceWorld_def)
  show ?thesis
    using delete_removes_manifest_last [OF c p l f run] run
    by (cases "fst (local_GetAddOn sampleCatalogue ''app'' (st_world st))") auto
qed

definition wordBefore :: "bool \<Rightarrow> string \<Rightarrow> bool" where
  "wordBefore prev a \<longleftrightarrow> (if a = [] then prev else isWordChar (last a))"

lemma matchCodesys_iff:
  "matchCodesys prev s \<longleftrightarrow>
     (\<exists>a w b. s = a @ w @ b \<and> ToLower w = ''codesys'' \<and> \<not> wordBefore prev a \<and> (b = [] \<or> \<not> isWordChar (hd b)))"
    (is "_ \<longleftrightarrow> ?R prev s")
proof (induction prev s rule: matchCodesys.induct)
  case (1 prev)
  then show ?case by (auto simp: ToLower_def)
next
  case (2 prev c s)
  have here: "(\<exists>w b. c # s = w @ b \<and> ToLower w = ''codesys'' \<and> (b = [] \<or> \<not> isWordChar (hd b))) \<longleftrightarrow>
      ToLower (take 7 (c # s)) = ''codesys'' \<and> (case drop 7 (c # s) of [] \<Rightarrow> True | d # _ \<Rightarrow> \<not> isWordChar d)" (is "?L \<longleftrightarrow> ?H")
  proof
    assume ?L
    then obtain w b where wb: "c # s = w @ b" "ToLower w = ''codesys''" "b = [] \<or> \<not> isWordChar (hd b)" by blast
    then have "length w = length ''codesys''" unfolding ToLower_def by (metis length_map)
    then have l: "length w = 7" by simp
    have "take 7 (c # s) = w" "drop 7 (c # s) = b" unfolding wb(1) using l by simp_all
    then show ?H using wb(2,3) by (auto split: list.splits)
  next
    assume ?H
    then show ?L
      by (intro exI [of _ "take 7 (c # s)"] exI [of _ "drop 7 (c # s)"]) (auto split: list.splits)
  qed
  have "?R prev (c # s) \<longleftrightarrow> \<not> prev \<and> ?L \<or> ?R (isWordChar c) s" (is "?A \<longleftrightarrow> ?B")
  proof
    assume ?A
    then obtain a w b where r: "c # s = a @ w @ b" "ToLower w = ''codesys''" "\<not> wordBefore prev a" "b = [] \<or> \<not> isWordChar (hd b)"
      by blast
    show ?B
    proof (cases a)
      case Nil
      then have "\<not> prev" "c # s = w @ b" using r(1,3) by (simp_all add: wordBefore_def)
      then show ?thesis using r(2,4) by blast
    next
      case (Cons x a')
      then have "s = a' @ w @ b" "\<not> wordBefore (isWordChar c) a'" using r(1,3) by (auto simp: wordBefore_def)
      then show ?thesis using r(2,4) by blast
    qed
  next
    assume ?B
    then show ?A
    proof
      assume "\<not> prev \<and> ?L"
      moreover have "\<not> prev \<Longrightarrow> \<not> wordBefore prev []" by (simp add: wordBefore_def)
      ultimately show ?A by (metis append_Nil)
    next
      assume "?R (isWordChar c) s"
      then obtain a w b where r: "s = a @ w @ b" "ToLower w = ''codesys''" "\<not> wordBefore (isWordChar c) a" "b = [] \<or> \<not> isWordChar (hd b)"
        by blast
      have "\<not> wordBefore prev (c # a)" using r(3) by (auto simp: wordBefore_def)
      with r show ?A by (metis append_Cons)
    qed
  qed
  then show ?case using here 2 by (simp only: matchCodesys.simps)
qed

definition boundaryBefore :: "string \<Rightarrow> bool" where
  "boundaryBefore a \<longleftrightarrow> a = [] \<or> \<not> isWordChar (last a)"

definition boundaryAfter :: "string \<Rightarrow> bool" where
  "boundaryAfter b \<longleftrightarrow> b = [] \<or> \<not> isWordChar (hd b)"

text \<open>
  The recogniser of the codesys runtime agrees with the regular expression of the code: a name is refused
  exactly when it contains the word codesys, in any case, with no word character right before or after it.
\<close>

theorem isCodesys_is_regexp:
  "isCodesys s \<longleftrightarrow>
     (\<exists>a w b. s = a @ w @ b \<and> ToLower w = ''codesys'' \<and> boundaryBefore a \<and> boundaryAfter b)"
  unfolding isCodesys_def matchCodesys_iff wordBefore_def boundaryBefore_def boundaryAfter_def by (metis (full_types))

end
