(* ===== verification/Server.thy ===== *)
theory Server
  imports Service
begin

text \<open>
  \<^verbatim>\<open>internal/aom/server\<close>: the gRPC service of the daemon, \<^verbatim>\<open>server.go\<close>, \<^verbatim>\<open>grpc_error_spec.go\<close> and \<^verbatim>\<open>helper.go\<close>.

  A handler runs on the record \<open>Daemon\<close> (the scheduler's transaction and the state of the device). It returns the
  message it sends last, or the status it ends with; the heart beats it sends meanwhile carry no data and
  are left out, as is the result of \<^verbatim>\<open>stream.Send\<close> where the code only logs it. The generated messages are not
  part of the repository: only their fields that the server touches are modelled, and a status that is cast
  from the status resolver is kept as \<open>FromResolver\<close>.
\<close>

section \<open>Messages\<close>

datatype settingOneof = TextBox string | DropDownList "Item list" | NoOneof

record GrpcSetting =
  gs_Name :: string
  gs_Label :: string
  gs_Required :: bool
  gs_Oneof :: settingOneof

datatype GrpcAddOnStatus = FromResolver AddOnStatus | ERROR | INSTALLING | DELETING | UPDATING

record GrpcAddOn =
  ga_Name :: string
  ga_Title :: string
  ga_Version :: string
  ga_Description :: string
  ga_Location :: string
  ga_Logo :: string
  ga_AvailableVersions :: "string list"
  ga_Vendor :: "Vendor option"
  ga_Settings :: "GrpcSetting list"
  ga_Status :: "GrpcAddOnStatus option"

datatype AddOnView = BASIC | FULL

datatype AddOnFilter = FILTER_UNSPECIFIED | CATALOGUE | INSTALLED | OtherFilter

definition emptyAddOn :: GrpcAddOn where
  "emptyAddOn =
     \<lparr>ga_Name = [], ga_Title = [], ga_Version = [], ga_Description = [], ga_Location = [], ga_Logo = [],
      ga_AvailableVersions = [], ga_Vendor = None, ga_Settings = [], ga_Status = None\<rparr>"

section \<open>helper.go\<close>

text \<open>The metadata of a call: the values per (lower-case) key.\<close>

type_synonym incoming = "(string \<times> string list) list option"

definition bearerTokenPrefix :: string where
  "bearerTokenPrefix = ''Bearer ''"

definition parseBearerTokenFrom :: "string \<Rightarrow> string" where
  "parseBearerTokenFrom tokenToParse =
     (if \<not> HasPrefix tokenToParse bearerTokenPrefix then [] else TrimPrefix tokenToParse bearerTokenPrefix)"

definition getJsonWebTokenFrom :: "incoming \<Rightarrow> string" where
  "getJsonWebTokenFrom ctx =
     (case ctx of
        None \<Rightarrow> []
      | Some md \<Rightarrow>
          (case map_of md ''authorization'' of
             Some (v # _) \<Rightarrow> parseBearerTokenFrom v
           | _ \<Rightarrow> []))"

section \<open>grpc_error_spec.go\<close>

definition status_Error :: "code \<Rightarrow> string \<Rightarrow> goerror" where
  "status_Error c m = GrpcStatus c m None"

definition createInvalidArgumentGrpcStatusErrorWithReasonAndError :: "string \<Rightarrow> goerror \<Rightarrow> goerror" where
  "createInvalidArgumentGrpcStatusErrorWithReasonAndError reason err =
     GrpcStatus InvalidArgument (err_text err) (Some reason)"

definition createResourceExhaustedGrpcStatusWithReasonAndError :: "string \<Rightarrow> goerror \<Rightarrow> goerror" where
  "createResourceExhaustedGrpcStatusWithReasonAndError reason err =
     GrpcStatus ResourceExhausted (err_text err) (Some reason)"

definition ConvertToGrpcUnsupportedPlatformError :: "goerror \<Rightarrow> goerror" where
  "ConvertToGrpcUnsupportedPlatformError =
     createInvalidArgumentGrpcStatusErrorWithReasonAndError ''UNSUPPORTED_PLATFORM''"

definition ConvertToGrpcInvalidManifestVersionError :: "goerror \<Rightarrow> goerror" where
  "ConvertToGrpcInvalidManifestVersionError =
     createInvalidArgumentGrpcStatusErrorWithReasonAndError ''INVALID_MANIFEST_VERSION''"

definition ConvertToGrpcRemoteRegistryConnectionError :: "goerror \<Rightarrow> goerror" where
  "ConvertToGrpcRemoteRegistryConnectionError =
     createInvalidArgumentGrpcStatusErrorWithReasonAndError ''REMOTE_REGISTRY_CONNECTION_PROBLEM''"

definition ConvertToGrpcUpdateDowngradeError :: "goerror \<Rightarrow> goerror" where
  "ConvertToGrpcUpdateDowngradeError =
     createInvalidArgumentGrpcStatusErrorWithReasonAndError ''UPDATE_DOWNGRADE_ERROR''"

definition ConvertToGrpcRootAccessNotEnabledError :: "goerror \<Rightarrow> goerror" where
  "ConvertToGrpcRootAccessNotEnabledError =
     createInvalidArgumentGrpcStatusErrorWithReasonAndError ''FEATURE_ROOT_ACCESS_NOT_ENABLED''"

definition ConvertToGrpcNotEnoughDiskSpaceError :: "goerror \<Rightarrow> goerror" where
  "ConvertToGrpcNotEnoughDiskSpaceError =
     createResourceExhaustedGrpcStatusWithReasonAndError ''NOT_ENOUGH_DISK_SPACE''"

fun convertToGrpcError :: "goerror \<Rightarrow> goerror" where
  "convertToGrpcError ErrorAddOnAlreadyInstalled = status_Error AlreadyExists (err_text ErrorAddOnAlreadyInstalled)"
| "convertToGrpcError (InvalidManifestError m) = ConvertToGrpcInvalidManifestVersionError (InvalidManifestError m)"
| "convertToGrpcError (UnsupportedPlatformError m) = ConvertToGrpcUnsupportedPlatformError (UnsupportedPlatformError m)"
| "convertToGrpcError SshRootAccessNotEnabledError = ConvertToGrpcRootAccessNotEnabledError SshRootAccessNotEnabledError"
| "convertToGrpcError (NotEnoughDiskSpaceError m) = ConvertToGrpcNotEnoughDiskSpaceError (NotEnoughDiskSpaceError m)"
| "convertToGrpcError err = status_Error FailedPrecondition (err_text err)"

section \<open>Conversions\<close>

definition mapSettingToGrpcSetting :: "Setting list \<Rightarrow> GrpcSetting list" where
  "mapSettingToGrpcSetting settings =
     map (\<lambda>setting.
       \<lparr>gs_Name = set_Name setting, gs_Label = set_Label setting, gs_Required = set_Required setting,
        gs_Oneof = (case set_Select setting of
           None \<Rightarrow> TextBox (set_Value setting)
         | Some items \<Rightarrow> DropDownList items)\<rparr>) settings"

definition mapGrpcSettingToSetting :: "GrpcSetting list \<Rightarrow> Setting list" where
  "mapGrpcSettingToSetting grpcSettings =
     map (\<lambda>grpcSetting.
       let setting = NewSettings (gs_Name grpcSetting) (gs_Label grpcSetting) (gs_Required grpcSetting)
       in case gs_Oneof grpcSetting of
            TextBox v \<Rightarrow> setting\<lparr>set_Value := v\<rparr>
          | DropDownList items \<Rightarrow> setting\<lparr>set_Select := (if items = [] then None else Some items)\<rparr>
          | NoOneof \<Rightarrow> setting) grpcSettings"

definition getLogoPath :: "string \<Rightarrow> string \<Rightarrow> string \<Rightarrow> string" where
  "getLogoPath base repositoryName logoFilename =
     showPath (joinPath (joinPath (toPath base) repositoryName) logoFilename)"

definition getIndex :: "string list \<Rightarrow> string \<Rightarrow> int" where
  "getIndex addOnVersions version =
     (if version = [] then int (length addOnVersions) - 1
      else
        (let i = length (takeWhile (\<lambda>v. v \<noteq> version) addOnVersions)
         in if i < length addOnVersions then int i else - 1))"

definition getAddOnVendor :: "Root \<Rightarrow> Vendor option" where
  "getAddOnVendor addOnManifest = root_Vendor addOnManifest"

definition transformCatalogueAddOnToGrpcAddOn ::
  "CatalogueAddOn \<Rightarrow> string list \<Rightarrow> AddOnView \<Rightarrow> string \<Rightarrow> GrpcAddOn" where
  "transformCatalogueAddOnToGrpcAddOn catalogueAddOn catalogueAddOnVersions view logoPathPrefix =
     (let m = ca_Manifest catalogueAddOn;
          location = foldl (\<lambda>_ (_, publishLocation). CHR ''/'' # ca_Name catalogueAddOn @ To publishLocation) []
            (entries (Publish m));
          addOn = emptyAddOn\<lparr>ga_Name := ca_Name catalogueAddOn, ga_Title := Title m, ga_Version := root_Version m,
            ga_Description := Description m, ga_Location := location,
            ga_Logo := getLogoPath logoPathPrefix (ca_Name catalogueAddOn) (Logo m),
            ga_AvailableVersions := catalogueAddOnVersions, ga_Vendor := getAddOnVendor m\<rparr>
      in if view = FULL then
           addOn\<lparr>ga_Settings := mapSettingToGrpcSetting
             (case mget (Settings m) environmentVariables of None \<Rightarrow> [] | Some xs \<Rightarrow> xs)\<rparr>
         else addOn)"

definition transformCatalogueAddOnsToGrpcAddOns :: "CatalogueAddOn list \<Rightarrow> string \<Rightarrow> GrpcAddOn list" where
  "transformCatalogueAddOnsToGrpcAddOns catalogueAddOns logoPathPrefix =
     map (\<lambda>addOn. transformCatalogueAddOnToGrpcAddOn addOn [] BASIC logoPathPrefix) catalogueAddOns"

section \<open>The server\<close>

record ('r, 'd, 'v) AddOnServer =
  srv_service :: "('r, 'd) AomService"
  addonsAssetsLocalPath :: string
  addonsAssetsRemotePath :: string
  srv_localCatalogue :: "('r, 'd) world LocalAddOnCatalogue"
  srv_remoteCatalogue :: "('r, 'd) world RemoteAddOnCatalogue"
  iamServiceUcAomClient :: "string \<Rightarrow> string \<Rightarrow> bool res"
  iamServiceUcAuthClient :: "string \<Rightarrow> string \<Rightarrow> bool res"
  srv_GetAddOnStatus :: "string \<Rightarrow> (('r, 'd) world, AddOnStatus) go"
  srv_GetAddOnEnvironment :: "string \<Rightarrow> (('r, 'd) world, (string \<times> string) list) go"
  srv_versions :: "'v version_api"

definition onDevice :: "('w, 'a) go \<Rightarrow> ('w Daemon, 'a) go" where
  "onDevice m = onPart daemon_world (\<lambda>w d. d\<lparr>daemon_world := w\<rparr>) m"

definition isAllowedToManageAddons :: "('r, 'd, 'v) AddOnServer \<Rightarrow> incoming \<Rightarrow> bool res" where
  "isAllowedToManageAddons s ctx = iamServiceUcAomClient s (getJsonWebTokenFrom ctx) ''add-ons.manage''"

definition isAllowedToAccessAddon :: "('r, 'd, 'v) AddOnServer \<Rightarrow> incoming \<Rightarrow> string \<Rightarrow> bool res" where
  "isAllowedToAccessAddon s ctx permissionId =
     iamServiceUcAuthClient s (getJsonWebTokenFrom ctx) (ReplaceSlashesWithDashes permissionId @ ''.access'')"

definition filterAddOnsWithPermission ::
  "('r, 'd, 'v) AddOnServer \<Rightarrow> CatalogueAddOn list \<Rightarrow> incoming \<Rightarrow> CatalogueAddOn list res" where
  "filterAddOnsWithPermission s catalogueAddOns ctx =
     bind_res (mapR (\<lambda>addOn. bind_res (isAllowedToAccessAddon s ctx (ca_Name addOn)) (\<lambda>allowed. Ok (addOn, allowed)))
       catalogueAddOns) (\<lambda>xs.
     Ok (map fst (filter snd xs)))"

definition mapErr :: "(goerror \<Rightarrow> goerror) \<Rightarrow> ('s, 'a) go \<Rightarrow> ('s, 'a) go" where
  "mapErr f m = tryM (attemptM m) (\<lambda>r. case r of Inl e \<Rightarrow> fail (f e) | Inr x \<Rightarrow> ret x)"

definition failedPrecondition :: "goerror \<Rightarrow> goerror" where
  "failedPrecondition e = status_Error FailedPrecondition (err_text e)"

definition initializeTransaction :: "('w Daemon, unit) go" where
  "initializeTransaction = CreateTransaction"

definition tryGetAddOnInTransaction :: "'w Daemon \<Rightarrow> string \<Rightarrow> GrpcAddOn option" where
  "tryGetAddOnInTransaction d name =
     (case scheduled d of
        Some tx \<Rightarrow>
          if \<not> IsTransactionOpen (Some tx) then None
          else
            (case tx_AffectedAddOn tx name of
               None \<Rightarrow> None
             | Some a \<Rightarrow>
                 let status = (case aff_Operation a of
                       Installing \<Rightarrow> INSTALLING
                     | Deleting \<Rightarrow> DELETING
                     | Updating \<Rightarrow> UPDATING
                     | _ \<Rightarrow> ERROR)
                 in Some (emptyAddOn\<lparr>ga_Name := aff_Name a, ga_Title := aff_Title a, ga_Status := Some status\<rparr>))
      | None \<Rightarrow> None)"

definition transformWithStatus ::
  "('r, 'd, 'v) AddOnServer \<Rightarrow> CatalogueAddOn \<Rightarrow> string list \<Rightarrow> AddOnView \<Rightarrow> string \<Rightarrow>
   (('r, 'd) world, GrpcAddOn) go" where
  "transformWithStatus s catalogueAddOn versions view logoPathPrefix =
     (let addOn = transformCatalogueAddOnToGrpcAddOn catalogueAddOn versions view logoPathPrefix
      in tryM (srv_GetAddOnStatus s (ga_Name addOn)) (\<lambda>status. ret (addOn\<lparr>ga_Status := Some (FromResolver status)\<rparr>)))"

fun withStatuses :: "('r, 'd, 'v) AddOnServer \<Rightarrow> GrpcAddOn list \<Rightarrow> (('r, 'd) world Daemon, GrpcAddOn list) go" where
  "withStatuses s [] = ret []"
| "withStatuses s (addOn # addOns) =
     tryM (getM (\<lambda>d. tryGetAddOnInTransaction d (ga_Name addOn))) (\<lambda>replacement.
     tryM
       (case replacement of
          Some r \<Rightarrow> ret r
        | None \<Rightarrow>
            tryM (onDevice (srv_GetAddOnStatus s (ga_Name addOn))) (\<lambda>status.
            ret (addOn\<lparr>ga_Status := Some (FromResolver status)\<rparr>))) (\<lambda>x.
     tryM (withStatuses s addOns) (\<lambda>xs. ret (x # xs))))"

definition transformCatalogueAddOnsToGrpcAddOnsWithStatus ::
  "('r, 'd, 'v) AddOnServer \<Rightarrow> CatalogueAddOn list \<Rightarrow> string \<Rightarrow> (('r, 'd) world Daemon, GrpcAddOn list) go" where
  "transformCatalogueAddOnsToGrpcAddOnsWithStatus s catalogueAddOns logoPathPrefix =
     withStatuses s (transformCatalogueAddOnsToGrpcAddOns catalogueAddOns logoPathPrefix)"

fun currentValue :: "(string \<times> string) list \<Rightarrow> GrpcSetting \<Rightarrow> GrpcSetting" where
  "currentValue environmentMap setting =
     (case map_of environmentMap (gs_Name setting) of
        None \<Rightarrow> setting
      | Some v \<Rightarrow>
          (case gs_Oneof setting of
             TextBox _ \<Rightarrow> setting\<lparr>gs_Oneof := TextBox v\<rparr>
           | DropDownList items \<Rightarrow>
               setting\<lparr>gs_Oneof := DropDownList (map (\<lambda>i. i\<lparr>item_Selected := (item_Value i = v)\<rparr>) items)\<rparr>
           | NoOneof \<Rightarrow> setting))"

definition setCurrentEnvironmentValues ::
  "('r, 'd, 'v) AddOnServer \<Rightarrow> GrpcAddOn \<Rightarrow> (('r, 'd) world, GrpcAddOn) go" where
  "setCurrentEnvironmentValues s addOn =
     (if ga_Settings addOn = [] then ret addOn
      else
        tryM (srv_GetAddOnEnvironment s (ga_Name addOn)) (\<lambda>environmentMap.
        ret (addOn\<lparr>ga_Settings := map (currentValue environmentMap) (ga_Settings addOn)\<rparr>)))"

definition isValidUpdate :: "('r, 'd, 'v) AddOnServer \<Rightarrow> GrpcAddOn \<Rightarrow> (('r, 'd) world, unit) go" where
  "isValidUpdate s addOn =
     tryM (lcat_GetAddOn (srv_localCatalogue s) (ga_Name addOn)) (\<lambda>currentAddOn.
       if \<not> GreaterThanOrEqual (srv_versions s) (ga_Version addOn) (ca_Version currentAddOn) then
         fail (ConvertToGrpcUpdateDowngradeError (ErrorString
           (''Requested version '' @ ga_Version addOn @
            '' needs to be greater than or equal to the current version '' @ ca_Version currentAddOn @ ''.'')))
       else ret ())"

section \<open>Handlers that change the device\<close>

text \<open>
  The operation runs in a goroutine of its own: a panic there ends the process, before the deferred
  \<^verbatim>\<open>tx.Rollback()\<close>. What follows the operation runs in the handler, in front of the deferred call.
\<close>

definition withRollback :: "('w txState, 'a) go \<Rightarrow> ('a \<Rightarrow> ('w txState, 'b) go) \<Rightarrow> ('w txState, 'b) go" where
  "withRollback operation k s =
     (case operation s of
        (Panic p, s') \<Rightarrow> (Panic p, s')
      | (r, s') \<Rightarrow> deferM Rollback (tryM (liftR r) k) s')"

definition permissionDenied :: goerror where
  "permissionDenied = status_Error PermissionDenied ''Insufficient permission.''"

definition inTransaction :: "('w txState, 'a) go \<Rightarrow> ('w Daemon, 'a) go" where
  "inTransaction m =
     tryM (mapErr (\<lambda>err. status_Error Unavailable (err_text err)) initializeTransaction) (\<lambda>_. inTx m)"

definition commitOrFail :: "('w txState, unit) go" where
  "commitOrFail = mapErr failedPrecondition (onTx Commit)"

text \<open>A request without an add-on is a nil dereference.\<close>

definition derefAddOn :: "GrpcAddOn option \<Rightarrow> ('s, GrpcAddOn) go" where
  "derefAddOn a =
     (case a of None \<Rightarrow> panicM ''invalid memory address or nil pointer dereference'' | Some x \<Rightarrow> ret x)"

definition handle_CreateAddOn ::
  "('r, 'd, 'v) AddOnServer \<Rightarrow> incoming \<Rightarrow> GrpcAddOn option \<Rightarrow> (('r, 'd) world Daemon, GrpcAddOn option) go" where
  "handle_CreateAddOn s ctx addOn =
     tryM (liftR (isAllowedToManageAddons s ctx)) (\<lambda>allowed.
     if \<not> allowed then fail permissionDenied
     else
       inTransaction
         (withRollback
           (tryM (derefAddOn addOn) (\<lambda>a.
            mapErr convertToGrpcError
              (CreateAddOnRoutine (srv_service s) (ga_Name a) (ga_Version a) (mapGrpcSettingToSetting (ga_Settings a)))))
           (\<lambda>_. tryM commitOrFail (\<lambda>_. ret addOn))))"

definition handle_DeleteAddOn ::
  "('r, 'd, 'v) AddOnServer \<Rightarrow> incoming \<Rightarrow> string \<Rightarrow> (('r, 'd) world Daemon, unit) go" where
  "handle_DeleteAddOn s ctx name =
     tryM (liftR (isAllowedToManageAddons s ctx)) (\<lambda>allowed.
     if \<not> allowed then fail permissionDenied
     else
       inTransaction
         (withRollback (mapErr failedPrecondition (DeleteAddOnRoutine (srv_service s) name)) (\<lambda>_. commitOrFail)))"

definition handle_UpdateAddOn ::
  "('r, 'd, 'v) AddOnServer \<Rightarrow> incoming \<Rightarrow> GrpcAddOn option \<Rightarrow> (('r, 'd) world Daemon, GrpcAddOn) go" where
  "handle_UpdateAddOn s ctx request =
     tryM (liftR (isAllowedToManageAddons s ctx)) (\<lambda>allowed.
     if \<not> allowed then fail permissionDenied
     else
       tryM (derefAddOn request) (\<lambda>addOn.
       tryM (onDevice (isValidUpdate s addOn)) (\<lambda>_.
       inTransaction
         (withRollback
           (mapErr convertToGrpcError
             (ReplaceAddOnRoutine (srv_service s) (ga_Name addOn) (ga_Version addOn)
               (mapGrpcSettingToSetting (ga_Settings addOn))))
           (\<lambda>_.
             tryM (onWorld (mapErr failedPrecondition (lcat_GetAddOn (srv_localCatalogue s) (ga_Name addOn)))) (\<lambda>catalogueAddOn.
             tryM (onWorld (mapErr failedPrecondition
                    (transformWithStatus s catalogueAddOn [] FULL (addonsAssetsLocalPath s)))) (\<lambda>addOnWithStatus.
             tryM (onWorld (mapErr failedPrecondition (setCurrentEnvironmentValues s addOnWithStatus))) (\<lambda>addOnWithStatus.
             tryM commitOrFail (\<lambda>_. ret addOnWithStatus)))))))))"

section \<open>Handlers that read\<close>

definition getInstalledAddOn :: "('r, 'd, 'v) AddOnServer \<Rightarrow> string \<Rightarrow> (('r, 'd) world Daemon, GrpcAddOn) go" where
  "getInstalledAddOn s name =
     tryM (getM (\<lambda>d. tryGetAddOnInTransaction d name)) (\<lambda>t.
       case t of
         Some addOn \<Rightarrow> ret addOn
       | None \<Rightarrow>
           onDevice
             (tryM (mapErr (\<lambda>err. status_Error (if err = ErrorAddOnNotFound then NotFound else FailedPrecondition) (err_text err))
                     (lcat_GetAddOn (srv_localCatalogue s) name)) (\<lambda>catalogueAddOn.
              tryM (transformWithStatus s catalogueAddOn [] FULL (addonsAssetsLocalPath s)) (\<lambda>addOnWithStatus.
              setCurrentEnvironmentValues s addOnWithStatus))))"

definition getCatalogueAddOn ::
  "('r, 'd, 'v) AddOnServer \<Rightarrow> string \<Rightarrow> string \<Rightarrow> AddOnView \<Rightarrow> (('r, 'd) world, GrpcAddOn) go" where
  "getCatalogueAddOn s name version view =
     tryM (mapErr failedPrecondition (GetAddOnVersions (srv_remoteCatalogue s) name)) (\<lambda>versions.
     let index = getIndex versions version
     in if index = - 1 then fail (status_Error FailedPrecondition (''Version '' @ CHR 0x27 # version @ CHR 0x27 # '' not found''))
        else
          tryM (mapErr failedPrecondition (remote_GetAddOn (srv_remoteCatalogue s) name (versions ! nat index))) (\<lambda>catalogueAddOn.
          ret (transformCatalogueAddOnToGrpcAddOn catalogueAddOn versions view (addonsAssetsRemotePath s))))"

definition handle_GetAddOn ::
  "('r, 'd, 'v) AddOnServer \<Rightarrow> AddOnFilter \<Rightarrow> string \<Rightarrow> string \<Rightarrow> AddOnView \<Rightarrow> (('r, 'd) world Daemon, GrpcAddOn) go" where
  "handle_GetAddOn s filter' name version view =
     (case filter' of
        INSTALLED \<Rightarrow> getInstalledAddOn s name
      | OtherFilter \<Rightarrow> fail (status_Error Unimplemented ''Unknown Filter.'')
      | _ \<Rightarrow> onDevice (getCatalogueAddOn s name version view))"

definition listInstalledAddOns ::
  "('r, 'd, 'v) AddOnServer \<Rightarrow> incoming \<Rightarrow> (('r, 'd) world Daemon, GrpcAddOn list) go" where
  "listInstalledAddOns s ctx =
     mapErr failedPrecondition
       (tryM (onDevice (GetAddOns (srv_localCatalogue s))) (\<lambda>installedAddOns.
        tryM (liftR (isAllowedToManageAddons s ctx)) (\<lambda>allowed.
        tryM (if \<not> allowed then liftR (filterAddOnsWithPermission s installedAddOns ctx) else ret installedAddOns) (\<lambda>shown.
        transformCatalogueAddOnsToGrpcAddOnsWithStatus s shown (addonsAssetsLocalPath s)))))"

definition listCatalogueAddOns :: "('r, 'd, 'v) AddOnServer \<Rightarrow> (('r, 'd) world, GrpcAddOn list) go" where
  "listCatalogueAddOns s =
     tryM (mapErr (\<lambda>err. case err of
              RemoteRegistryConnectionError m \<Rightarrow> ConvertToGrpcRemoteRegistryConnectionError err
            | _ \<Rightarrow> failedPrecondition err)
            (GetLatestAddOns (srv_remoteCatalogue s))) (\<lambda>catalogueAddOns.
     ret (transformCatalogueAddOnsToGrpcAddOns
       (filter (\<lambda>addOn. is_ok (Validate (svc_schema (srv_service s)) (ca_Manifest addOn))) catalogueAddOns)
       (addonsAssetsRemotePath s)))"

text \<open>Here the result of sending, \<open>send\<close>, is the result of the handler.\<close>

definition handle_ListAddOns ::
  "('r, 'd, 'v) AddOnServer \<Rightarrow> (GrpcAddOn list \<Rightarrow> unit res) \<Rightarrow> incoming \<Rightarrow> AddOnFilter \<Rightarrow>
   (('r, 'd) world Daemon, GrpcAddOn list) go" where
  "handle_ListAddOns s send ctx filter' =
     (case filter' of
        OtherFilter \<Rightarrow> fail (status_Error Unimplemented ''Unknown Filter.'')
      | INSTALLED \<Rightarrow>
          tryM (listInstalledAddOns s ctx) (\<lambda>addOns. tryM (liftR (send addOns)) (\<lambda>_. ret addOns))
      | _ \<Rightarrow>
          tryM (onDevice (listCatalogueAddOns s)) (\<lambda>addOns. tryM (liftR (send addOns)) (\<lambda>_. ret addOns)))"

section \<open>Lemmas\<close>

lemma onDevice_run: "onDevice m d = (fst (m (daemon_world d)), d\<lparr>daemon_world := snd (m (daemon_world d))\<rparr>)"
  by (simp add: onDevice_def onPart_def split: prod.splits)

lemma Rollback_done: "tx_done (st_tx s) \<Longrightarrow> Rollback s = (Err ErrTxDone, s)"
  by (simp add: Rollback_def rollback_def)

lemma Rollback_ends: "Rollback s = (r, s') \<Longrightarrow> tx_done (st_tx s')"
  by (auto simp: Rollback_def rollback_def tryM_def onWorld_run tx_close_def split: if_splits res.splits prod.splits)

lemma mapErr_run:
  "mapErr f m s = (case m s of (Ok x, s') \<Rightarrow> (Ok x, s') | (Err e, s') \<Rightarrow> (Err (f e), s') | (Panic p, s') \<Rightarrow> (Panic p, s'))"
  by (auto simp: mapErr_def tryM_def attemptM_def split: prod.splits res.splits)

lemma keeps_mapErr: "keeps hooksGrow m \<Longrightarrow> keeps hooksGrow (mapErr f m)"
  unfolding mapErr_def
  by (intro hooksGrow.keeps_tryM hooksGrow.keeps_attemptM) (auto intro: hooksGrow.keeps_pure split: sum.splits)

lemma commitOrFail_open:
  assumes "\<not> tx_done (st_tx s)" and "\<not> tx_ctxDone (st_tx s)"
  shows "\<exists>t. commitOrFail s = (Ok (), s\<lparr>st_tx := t\<rparr>) \<and> tx_done t"
  using assms by (auto simp: commitOrFail_def mapErr_run onTx_run Commit_def tx_close_def)

text \<open>However the body of a handler ends, short of a crash, its transaction is done.\<close>

lemma withRollback_done:
  assumes "withRollback op k s = (r, s')" and "\<forall>p. r \<noteq> Panic p"
  shows "tx_done (st_tx s')"
  using assms Rollback_ends
  by (auto simp: withRollback_def deferM_def split: prod.splits res.splits)

lemma inTransaction_run:
  "inTransaction m d =
     (if IsTransactionOpen (scheduled d)
      then (Err (status_Error Unavailable ''TransactionScheduler: Transaction already open''), d)
      else (case m \<lparr>st_tx = BeginTx, st_world = daemon_world d\<rparr> of
              (r, s) \<Rightarrow> (r, d\<lparr>scheduled := Some (st_tx s), daemon_world := st_world s\<rparr>)))"
  by (auto simp: inTransaction_def initializeTransaction_def mapErr_run CreateTransaction_def tryM_def inTx_def
      split: prod.splits)

lemma inTransaction_open:
  assumes "inTransaction (withRollback op k) d = (r, d')" and "\<forall>p. r \<noteq> Panic p"
  shows "IsTransactionOpen (scheduled d') = IsTransactionOpen (scheduled d)"
proof (cases "IsTransactionOpen (scheduled d)")
  case True
  then show ?thesis using assms(1) by (simp add: inTransaction_run)
next
  case False
  obtain r1 s1 where m: "withRollback op k \<lparr>st_tx = BeginTx, st_world = daemon_world d\<rparr> = (r1, s1)"
    by (cases "withRollback op k \<lparr>st_tx = BeginTx, st_world = daemon_world d\<rparr>")
  then have "r1 = r" "d' = d\<lparr>scheduled := Some (st_tx s1), daemon_world := st_world s1\<rparr>"
    using assms(1) False by (simp_all add: inTransaction_run)
  then show ?thesis
    using False withRollback_done [OF m] assms(2) by (simp add: IsTransactionOpen_def IsDone_def)
qed

lemma permitted_subset:
  assumes "filterAddOnsWithPermission s as ctx = Ok shown"
  shows "set shown \<subseteq> {a \<in> set as. isAllowedToAccessAddon s ctx (ca_Name a) = Ok True}"
proof
  fix a assume "a \<in> set shown"
  with assms obtain ys where ys: "(a, True) \<in> set ys"
    "list_all2 (\<lambda>x y. bind_res (isAllowedToAccessAddon s ctx (ca_Name x)) (\<lambda>allowed. Ok (x, allowed)) = Ok y) as ys"
    by (auto simp: filterAddOnsWithPermission_def bind_res_Ok_iff mapR_Ok_iff)
  then obtain i where "i < length ys" "ys ! i = (a, True)" by (auto simp: in_set_conv_nth)
  then have "i < length as" "as ! i = a" "isAllowedToAccessAddon s ctx (ca_Name a) = Ok True"
    using list_all2_nthD2 [OF ys(2)] list_all2_lengthD [OF ys(2)] by (fastforce simp: bind_res_Ok_iff)+
  then show "a \<in> {a \<in> set as. isAllowedToAccessAddon s ctx (ca_Name a) = Ok True}" by auto
qed

section \<open>Properties\<close>

text \<open>
  C25. Nobody changes the device without the permission to manage add-ons: when the authorisation service does
  not grant it, the three handlers that change something end at once, with its error or with the status
  PermissionDenied, and neither the device nor the scheduler has changed.
\<close>

theorem unauthorised_requests_change_nothing:
  assumes "isAllowedToManageAddons s ctx \<noteq> Ok True"
  shows "snd (handle_CreateAddOn s ctx a d) = d \<and> snd (handle_DeleteAddOn s ctx n d) = d
    \<and> snd (handle_UpdateAddOn s ctx a d) = d
    \<and> \<not> is_ok (fst (handle_CreateAddOn s ctx a d)) \<and> \<not> is_ok (fst (handle_DeleteAddOn s ctx n d))
    \<and> \<not> is_ok (fst (handle_UpdateAddOn s ctx a d))
    \<and> (isAllowedToManageAddons s ctx = Ok False \<longrightarrow>
         fst (handle_CreateAddOn s ctx a d) = Err permissionDenied \<and> fst (handle_DeleteAddOn s ctx n d) = Err permissionDenied
         \<and> fst (handle_UpdateAddOn s ctx a d) = Err permissionDenied)"
  using assms
  by (cases "isAllowedToManageAddons s ctx")
    (simp_all add: handle_CreateAddOn_def handle_DeleteAddOn_def handle_UpdateAddOn_def tryM_pure)

text \<open>
  C2. Installing over the network is all or nothing, as far as the rollback goes: a request that is answered
  with success ran the whole routine, and no hook was run; one that is answered with an error, after the
  transaction was opened, left the device in the state in which the routine failed and all subscribed hooks
  were run, and the error is the routine's, converted. In both cases no transaction is left open.
\<close>

theorem install_commits_or_rolls_back:
  assumes "isAllowedToManageAddons s ctx = Ok True" and "\<not> IsTransactionOpen (scheduled d)"
    and "handle_CreateAddOn s ctx (Some a) d = (r, d')" and "\<forall>p. r \<noteq> Panic p"
  shows "\<not> IsTransactionOpen (scheduled d')
    \<and> (\<exists>r0 st. CreateAddOnRoutine (srv_service s) (ga_Name a) (ga_Version a) (mapGrpcSettingToSetting (ga_Settings a))
           \<lparr>st_tx = BeginTx, st_world = daemon_world d\<rparr> = (r0, st)
         \<and> (case r0 of
              Ok _ \<Rightarrow> r = Ok (Some a) \<and> daemon_world d' = st_world st
            | Err e \<Rightarrow> r = Err (convertToGrpcError e) \<and> daemon_world d' = st_world (snd (rollback st))
            | Panic _ \<Rightarrow> False))"
proof -
  let ?st0 = "\<lparr>st_tx = BeginTx, st_world = daemon_world d\<rparr>"
  let ?op = "CreateAddOnRoutine (srv_service s) (ga_Name a) (ga_Version a) (mapGrpcSettingToSetting (ga_Settings a))"
  obtain r0 st where op: "?op ?st0 = (r0, st)" by (cases "?op ?st0")
  have g: "\<not> tx_done (st_tx st)" "\<not> tx_ctxDone (st_tx st)"
    using keeps_run [OF keeps_CreateAddOnRoutine op] by (auto simp: hooksGrow_def BeginTx_def)
  obtain t where t: "commitOrFail st = (Ok (), st\<lparr>st_tx := t\<rparr>)" "tx_done t" using commitOrFail_open [OF g] by blast
  have run: "inTransaction (withRollback (mapErr convertToGrpcError ?op) (\<lambda>_. tryM commitOrFail (\<lambda>_. ret (Some a)))) d = (r, d')"
    using assms(1,3) by (simp add: handle_CreateAddOn_def derefAddOn_def tryM_pure)
  have "\<not> IsTransactionOpen (scheduled d')" using inTransaction_open [OF run assms(4)] assms(2) by simp
  moreover have "case r0 of
      Ok _ \<Rightarrow> r = Ok (Some a) \<and> daemon_world d' = st_world st
    | Err e \<Rightarrow> r = Err (convertToGrpcError e) \<and> daemon_world d' = st_world (snd (rollback st))
    | Panic _ \<Rightarrow> False"
    using run assms(2,4) op t Rollback_done [of "st\<lparr>st_tx := t\<rparr>"]
    by (cases r0)
      (auto simp: inTransaction_run mapErr_run tryM_def withRollback_def deferM_def Rollback_def
        split: prod.splits res.splits)
  ultimately show ?thesis using op by blast
qed

text \<open>
  C26. The list of installed add-ons shown to somebody who may not manage add-ons contains only installed
  add-ons which the authorisation service grants access to, one by one; and whatever is listed is installed.
\<close>

theorem listing_shows_only_permitted:
  assumes "handle_ListAddOns s send ctx INSTALLED d = (Ok xs, d')"
  shows "\<exists>as d1. onDevice (GetAddOns (srv_localCatalogue s)) d = (Ok as, d1)
    \<and> (\<forall>x\<in>set xs. \<exists>a\<in>set as. ga_Name x = ca_Name a
         \<and> (isAllowedToManageAddons s ctx = Ok True \<or> isAllowedToAccessAddon s ctx (ca_Name a) = Ok True))"
proof -
  from assms obtain as d1 allowed shown d2 where as: "onDevice (GetAddOns (srv_localCatalogue s)) d = (Ok as, d1)"
    and al: "isAllowedToManageAddons s ctx = Ok allowed"
    and sh: "(if \<not> allowed then filterAddOnsWithPermission s as ctx else Ok as) = Ok shown"
    and st: "withStatuses s (transformCatalogueAddOnsToGrpcAddOns shown (addonsAssetsLocalPath s)) d1 = (Ok xs, d2)"
    by (auto simp: handle_ListAddOns_def listInstalledAddOns_def transformCatalogueAddOnsToGrpcAddOnsWithStatus_def
        mapErr_run elim!: tryM_OkE split: prod.splits res.splits if_splits)
  have names: "map ga_Name xs = map ga_Name ys" if "withStatuses s ys d1 = (Ok xs, d2)" for ys d1
    using that
  proof (induction ys arbitrary: xs d1)
    case Nil
    then show ?case by simp
  next
    case (Cons y ys)
    have rep: "tryGetAddOnInTransaction dd n = Some q \<Longrightarrow> ga_Name q = n" for dd :: "('a, 'b) world Daemon" and n q
      by (auto simp: tryGetAddOnInTransaction_def tx_AffectedAddOn_def emptyAddOn_def Let_def
          split: option.splits if_splits)
    from Cons.prems show ?case
      by (auto elim!: tryM_OkE dest!: Cons.IH rep split: option.splits)
  qed
  have sub: "set shown \<subseteq> {a \<in> set as. allowed \<or> isAllowedToAccessAddon s ctx (ca_Name a) = Ok True}"
    using sh permitted_subset [of s as ctx shown] by (auto split: if_splits)
  have "map ga_Name xs = map ca_Name shown"
    using names [OF st]
    by (simp add: transformCatalogueAddOnsToGrpcAddOns_def transformCatalogueAddOnToGrpcAddOn_def Let_def comp_def)
  then have "ga_Name ` set xs = ca_Name ` set shown" by (metis list.set_map)
  then have "\<forall>x\<in>set xs. \<exists>a\<in>set shown. ga_Name x = ca_Name a" by (auto simp: image_iff set_eq_iff)
  then have "\<forall>x\<in>set xs. \<exists>a\<in>set as. ga_Name x = ca_Name a
      \<and> (isAllowedToManageAddons s ctx = Ok True \<or> isAllowedToAccessAddon s ctx (ca_Name a) = Ok True)"
    using al sub by (cases allowed) fastforce+
  then show ?thesis using as by blast
qed

text \<open>
  C32. No downgrade: when the requested version is older than the installed one, in the order of versions, the
  update is refused with the reason UPDATE\_DOWNGRADE\_ERROR before a transaction is opened, and nothing
  has changed.
\<close>

theorem downgrade_is_refused:
  assumes "isAllowedToManageAddons s ctx = Ok True" and "srv_localCatalogue s = NewLocalAddOnCatalogue c"
    and "fst (local_GetAddOn c (ga_Name a) (daemon_world d)) = Ok cur"
    and "ordered_versions (srv_versions s)" and "readable (srv_versions s) (ga_Version a)"
    and "readable (srv_versions s) (ca_Version cur)" and "Less (srv_versions s) (ga_Version a) (ca_Version cur)"
  shows "\<exists>m. handle_UpdateAddOn s ctx (Some a) d = (Err (GrpcStatus InvalidArgument m (Some ''UPDATE_DOWNGRADE_ERROR'')), d)"
proof -
  have swo: "strict_weak_order (Less (srv_versions s)) {ga_Version a, ca_Version cur}"
    using assms(4-6) by (intro Less_strict_weak_order) auto
  have "\<not> Less (srv_versions s) (ca_Version cur) (ga_Version a)" "ga_Version a \<noteq> ca_Version cur"
    using strict_weak_order_asym [OF swo] assms(7) by auto
  then have v: "\<not> GreaterThanOrEqual (srv_versions s) (ga_Version a) (ca_Version cur)"
    by (simp add: GreaterThanOrEqual_def GreaterThan_iff_Less)
  have "local_GetAddOn c (ga_Name a) (daemon_world d) = (Ok cur, daemon_world d)"
    using assms(3) by (simp add: prod_eq_iff)
  then show ?thesis
    using assms(1,2) v
    by (simp add: handle_UpdateAddOn_def tryM_pure derefAddOn_def onDevice_run isValidUpdate_def NewLocalAddOnCatalogue_def
        tryM_def ConvertToGrpcUpdateDowngradeError_def createInvalidArgumentGrpcStatusErrorWithReasonAndError_def)
qed

section \<open>Witnesses\<close>

definition sampleServer :: "(string \<Rightarrow> bool) \<Rightarrow> (unit, miniDocker, nat list) AddOnServer" where
  "sampleServer valid =
     \<lparr>srv_service = sampleService, addonsAssetsLocalPath = ''/add-ons/assets'', addonsAssetsRemotePath = ''/add-ons/assets-remote'',
      srv_localCatalogue = NewLocalAddOnCatalogue sampleCatalogue,
      srv_remoteCatalogue = NewORASRemoteAddOnCatalogue dotted_version_api
        \<lparr>rc_Root = [''tmp''], rc_registry = manifestRegistry, rc_sha1 = (\<lambda>_. Ok ''0123456789'')\<rparr>,
      iamServiceUcAomClient = (\<lambda>jwt _. Ok (valid jwt)), iamServiceUcAuthClient = (\<lambda>_ p. Ok (p = ''app.access'')),
      srv_GetAddOnStatus = (\<lambda>_. ret Running), srv_GetAddOnEnvironment = (\<lambda>_. ret []),
      srv_versions = dotted_version_api\<rparr>"

definition sampleDaemon :: "(unit, miniDocker) world \<Rightarrow> (unit, miniDocker) world Daemon" where
  "sampleDaemon w = \<lparr>scheduled = None, daemon_world = w\<rparr>"

definition sampleCall :: incoming where
  "sampleCall = Some [(''authorization'', [''Bearer secret''])]"

theorem unauthorised_requests_change_nothing_witness:
  "handle_DeleteAddOn (sampleServer (\<lambda>_. False)) sampleCall ''app'' (sampleDaemon deviceWithApp)
     = (Err permissionDenied, sampleDaemon deviceWithApp)"
proof -
  have "isAllowedToManageAddons (sampleServer (\<lambda>_. False)) sampleCall = Ok False"
    by (simp add: isAllowedToManageAddons_def sampleServer_def)
  then show ?thesis
    using unauthorised_requests_change_nothing [of "sampleServer (\<lambda>_. False)" sampleCall None "sampleDaemon deviceWithApp" "''app''"]
    by (simp add: prod_eq_iff)
qed

theorem install_commits_or_rolls_back_witness:
  "\<not> IsTransactionOpen (scheduled (snd (handle_CreateAddOn (sampleServer (\<lambda>jwt. jwt = ''secret'')) sampleCall
      (Some (emptyAddOn\<lparr>ga_Name := ''app'', ga_Version := ''1.0.0-1''\<rparr>)) (sampleDaemon (deviceWorld [])))))"
proof -
  let ?a = "emptyAddOn\<lparr>ga_Name := ''app'', ga_Version := ''1.0.0-1''\<rparr>"
  let ?s = "sampleServer (\<lambda>jwt. jwt = ''secret'')"
  let ?run = "handle_CreateAddOn ?s sampleCall (Some ?a) (sampleDaemon (deviceWorld []))"
  have al: "isAllowedToManageAddons ?s sampleCall = Ok True \<and> (case fst ?run of Panic _ \<Rightarrow> False | _ \<Rightarrow> True)" by code_simp
  obtain r d' where run: "?run = (r, d')" by (cases ?run)
  have op: "\<not> IsTransactionOpen (scheduled (sampleDaemon (deviceWorld [])))"
    by (simp add: sampleDaemon_def IsTransactionOpen_def)
  have "\<forall>p. r \<noteq> Panic p" using al run by auto
  from install_commits_or_rolls_back [OF conjunct1 [OF al] op run this] run show ?thesis by simp
qed

theorem listing_shows_only_permitted_witness:
  "list_all (\<lambda>x. ga_Name x = ''app'')
    (case fst (handle_ListAddOns (sampleServer (\<lambda>_. False)) (\<lambda>_. Ok ()) sampleCall INSTALLED (sampleDaemon deviceWithApp))
      of Ok xs \<Rightarrow> xs)"
proof -
  let ?s = "sampleServer (\<lambda>_. False)"
  let ?run = "handle_ListAddOns ?s (\<lambda>_. Ok ()) sampleCall INSTALLED (sampleDaemon deviceWithApp)"
  have "is_ok (fst ?run)" by code_simp
  then obtain xs d' where run: "?run = (Ok xs, d')" by (cases ?run; cases "fst ?run") auto
  have g: "case fst (GetAddOns (NewLocalAddOnCatalogue sampleCatalogue) deviceWithApp) of
      Ok as \<Rightarrow> list_all (\<lambda>a. ca_Name a = ''app'') as | _ \<Rightarrow> True" by code_simp
  from listing_shows_only_permitted [OF run] obtain as d1
    where as: "onDevice (GetAddOns (srv_localCatalogue ?s)) (sampleDaemon deviceWithApp) = (Ok as, d1)"
      and xs: "\<forall>x\<in>set xs. \<exists>a\<in>set as. ga_Name x = ca_Name a" by blast
  have "list_all (\<lambda>a. ca_Name a = ''app'') as"
    using g as by (simp add: onDevice_run sampleServer_def sampleDaemon_def)
  then show ?thesis using xs run by (auto simp: list_all_iff)
qed

theorem downgrade_is_refused_witness:
  "snd (handle_UpdateAddOn (sampleServer (\<lambda>jwt. jwt = ''secret'')) sampleCall
      (Some (emptyAddOn\<lparr>ga_Name := ''app'', ga_Version := ''0.9.0-1''\<rparr>)) (sampleDaemon deviceWithApp))
     = sampleDaemon deviceWithApp"
proof -
  let ?a = "emptyAddOn\<lparr>ga_Name := ''app'', ga_Version := ''0.9.0-1''\<rparr>"
  let ?s = "sampleServer (\<lambda>jwt. jwt = ''secret'')"
  have al: "isAllowedToManageAddons ?s sampleCall = Ok True" by code_simp
  have c: "srv_localCatalogue ?s = NewLocalAddOnCatalogue sampleCatalogue" by (simp add: sampleServer_def)
  have g: "case fst (local_GetAddOn sampleCatalogue (ga_Name ?a) (daemon_world (sampleDaemon deviceWithApp))) of
      Ok cur \<Rightarrow> ca_Version cur = ''1.0.0-1'' | _ \<Rightarrow> False" by code_simp
  obtain cur where cur: "fst (local_GetAddOn sampleCatalogue (ga_Name ?a) (daemon_world (sampleDaemon deviceWithApp))) = Ok cur"
    "ca_Version cur = ''1.0.0-1''" using g by (auto split: res.splits)
  have v: "ordered_versions (srv_versions ?s)" using ordered_dotted by (simp add: sampleServer_def)
  have l: "readable dotted_version_api ''0.9.0-1''" "readable dotted_version_api ''1.0.0-1''"
    "Less dotted_version_api ''0.9.0-1'' ''1.0.0-1''" by code_simp+
  have r: "readable (srv_versions ?s) (ga_Version ?a)" "readable (srv_versions ?s) (ca_Version cur)"
    "Less (srv_versions ?s) (ga_Version ?a) (ca_Version cur)"
    using l cur(2) by (simp_all add: sampleServer_def)
  from downgrade_is_refused [OF al c cur(1) v r] show ?thesis by auto
qed

end
