(* ===== verification/HeartBeat.thy ===== *)
theory HeartBeat
  imports Server
begin

text \<open>
  \<^verbatim>\<open>ApplyOperationWithHeartBeat\<close> of \<^verbatim>\<open>internal/aom/utils/utils.go\<close> runs an operation in a goroutine and sends signs of
  life on the stream of the caller meanwhile. Here the two goroutines are a step relation; its outcomes are those
  of one function with the number of beats as an argument. With it the handler that lists add-ons has its
  stream, and \<^verbatim>\<open>internal/cli/cmd/list.go\<close> reads that stream.
\<close>

section \<open>An operation with heart beats\<close>

text \<open>
  The operation works on the device, the call back on the stream of the caller; the two share nothing. A panic of
  the operation is in a goroutine that does not recover: the process ends, so no step follows.
\<close>

datatype 'a mainPc = M_FirstBeat | M_Spawn | M_Select | M_Returned "'a res"

datatype 'a operationPc = O_NotStarted | O_Running | O_Sending "'a res" | O_Ended | O_Crashed

record ('s, 't, 'a) beatSystem =
  hb_main :: "'a mainPc"
  hb_operation :: "'a operationPc"
  hb_device :: 's
  hb_stream :: 't

inductive beatStep ::
  "('s, 'a) go \<Rightarrow> ('t \<Rightarrow> 't) \<Rightarrow> ('s, 't, 'a) beatSystem \<Rightarrow> ('s, 't, 'a) beatSystem \<Rightarrow> bool"
  for operation :: "('s, 'a) go" and heartBeatCallback :: "'t \<Rightarrow> 't" where
  first_beat: "hb_main x = M_FirstBeat \<Longrightarrow>
    beatStep operation heartBeatCallback x (x\<lparr>hb_main := M_Spawn, hb_stream := heartBeatCallback (hb_stream x)\<rparr>)"
| spawn: "hb_main x = M_Spawn \<Longrightarrow>
    beatStep operation heartBeatCallback x (x\<lparr>hb_main := M_Select, hb_operation := O_Running\<rparr>)"
| operate: "hb_operation x = O_Running \<Longrightarrow> operation (hb_device x) = (r, d) \<Longrightarrow>
    beatStep operation heartBeatCallback x
      (x\<lparr>hb_operation := (case r of Panic _ \<Rightarrow> O_Crashed | _ \<Rightarrow> O_Sending r), hb_device := d\<rparr>)"
| tick: "hb_main x = M_Select \<Longrightarrow> hb_operation x \<noteq> O_Crashed \<Longrightarrow>
    beatStep operation heartBeatCallback x (x\<lparr>hb_stream := heartBeatCallback (hb_stream x)\<rparr>)"
| receive: "hb_main x = M_Select \<Longrightarrow> hb_operation x = O_Sending r \<Longrightarrow>
    beatStep operation heartBeatCallback x (x\<lparr>hb_main := M_Returned r, hb_operation := O_Ended\<rparr>)"

definition beatStart :: "'s \<Rightarrow> 't \<Rightarrow> ('s, 't, 'a) beatSystem" where
  "beatStart d t = \<lparr>hb_main = M_FirstBeat, hb_operation = O_NotStarted, hb_device = d, hb_stream = t\<rparr>"

definition ApplyOperationWithHeartBeat ::
  "('s, 'a) go \<Rightarrow> ('t \<Rightarrow> 't) \<Rightarrow> 's \<times> 't \<Rightarrow> ('s, 't, 'a) beatSystem \<Rightarrow> bool" where
  "ApplyOperationWithHeartBeat operation heartBeatCallback = (\<lambda>(d, t). (beatStep operation heartBeatCallback)\<^sup>*\<^sup>* (beatStart d t))"

text \<open>The same with a given number of beats after the first.\<close>

definition withHeartBeats :: "nat \<Rightarrow> ('t \<Rightarrow> 't) \<Rightarrow> ('s, 'a) go \<Rightarrow> ('s \<times> 't, 'a) go" where
  "withHeartBeats k heartBeatCallback operation =
     (\<lambda>(d, t). let (r, d') = operation d in (r, (d', (heartBeatCallback ^^ Suc k) t)))"

definition beatInv :: "('s, 'a) go \<Rightarrow> ('t \<Rightarrow> 't) \<Rightarrow> 's \<Rightarrow> 't \<Rightarrow> ('s, 't, 'a) beatSystem \<Rightarrow> bool" where
  "beatInv operation beat d t x \<longleftrightarrow>
     (case hb_main x of
        M_FirstBeat \<Rightarrow> x = beatStart d t
      | M_Spawn \<Rightarrow> hb_operation x = O_NotStarted \<and> hb_device x = d \<and> hb_stream x = beat t
      | M_Select \<Rightarrow> (\<exists>k. hb_stream x = (beat ^^ Suc k) t) \<and>
          (case hb_operation x of
             O_Running \<Rightarrow> hb_device x = d
           | O_Sending r \<Rightarrow> operation d = (r, hb_device x) \<and> (\<forall>p. r \<noteq> Panic p)
           | O_Crashed \<Rightarrow> \<exists>p. operation d = (Panic p, hb_device x)
           | _ \<Rightarrow> False)
      | M_Returned r \<Rightarrow> hb_operation x = O_Ended \<and> (\<exists>k. hb_stream x = (beat ^^ Suc k) t) \<and> operation d = (r, hb_device x)
          \<and> (\<forall>p. r \<noteq> Panic p))"

lemma beatInv_step: "beatStep operation beat x y \<Longrightarrow> beatInv operation beat d t x \<Longrightarrow> beatInv operation beat d t y"
proof (induction rule: beatStep.induct)
  case (first_beat x)
  then show ?case by (simp add: beatInv_def beatStart_def)
next
  case (spawn x)
  then show ?case by (auto simp: beatInv_def intro: exI [of _ 0])
next
  case (operate x r d')
  then show ?case by (cases r) (auto simp: beatInv_def beatStart_def split: mainPc.splits)
next
  case (tick x)
  then obtain k where "hb_stream x = (beat ^^ Suc k) t" by (auto simp: beatInv_def)
  then have "beat (hb_stream x) = (beat ^^ Suc (Suc k)) t" by simp
  then show ?case using tick by (auto simp: beatInv_def split: operationPc.splits simp del: funpow.simps)
next
  case (receive x r)
  then show ?case by (auto simp: beatInv_def)
qed

lemma beatInv_reachable: "ApplyOperationWithHeartBeat operation beat (d, t) x \<Longrightarrow> beatInv operation beat d t x"
  unfolding ApplyOperationWithHeartBeat_def prod.case
proof (induction rule: rtranclp_induct)
  case base
  show ?case by (simp add: beatInv_def beatStart_def)
next
  case (step y z)
  show ?case by (rule beatInv_step [OF step.hyps(2) step.IH])
qed

lemma ticks_reachable:
  "hb_main x = M_Select \<Longrightarrow> hb_operation x \<noteq> O_Crashed \<Longrightarrow>
     (beatStep operation beat)\<^sup>*\<^sup>* x (x\<lparr>hb_stream := (beat ^^ k) (hb_stream x)\<rparr>)"
proof (induction k)
  case (Suc k)
  let ?y = "x\<lparr>hb_stream := (beat ^^ k) (hb_stream x)\<rparr>"
  from beatStep.tick [of ?y operation beat] Suc show ?case by (simp add: rtranclp.rtrancl_into_rtrancl)
qed simp

lemma operation_reachable:
  assumes "operation d = (r, d')" and "\<not> (\<exists>p. r = Panic p)"
  shows "ApplyOperationWithHeartBeat operation beat (d, t)
    \<lparr>hb_main = M_Returned r, hb_operation = O_Ended, hb_device = d', hb_stream = (beat ^^ Suc k) t\<rparr>"
proof -
  let ?x = "\<lparr>hb_main = M_Spawn, hb_operation = O_NotStarted, hb_device = d, hb_stream = beat t\<rparr>"
  let ?x1 = "\<lparr>hb_main = M_Select, hb_operation = O_Running, hb_device = d, hb_stream = beat t\<rparr>"
  let ?x2 = "\<lparr>hb_main = M_Select, hb_operation = O_Running, hb_device = d, hb_stream = (beat ^^ k) (beat t)\<rparr>"
  let ?x3 = "\<lparr>hb_main = M_Select, hb_operation = O_Sending r, hb_device = d', hb_stream = (beat ^^ k) (beat t)\<rparr>"
  have "beatStep operation beat (beatStart d t) ?x"
    using beatStep.first_beat [of "beatStart d t" operation beat] by (simp add: beatStart_def)
  moreover have "beatStep operation beat ?x ?x1" using beatStep.spawn [of ?x operation beat] by simp
  moreover have "(beatStep operation beat)\<^sup>*\<^sup>* ?x1 ?x2" using ticks_reachable [of ?x1 operation beat k] by simp
  moreover have "beatStep operation beat ?x2 ?x3"
    using beatStep.operate [of ?x2 operation r d' beat] assms by (cases r) auto
  moreover have "beatStep operation beat ?x3
      \<lparr>hb_main = M_Returned r, hb_operation = O_Ended, hb_device = d', hb_stream = (beat ^^ Suc k) t\<rparr>"
    using beatStep.receive [of ?x3 r operation beat] by (simp add: funpow_swap1)
  ultimately show ?thesis
    unfolding ApplyOperationWithHeartBeat_def prod.case
    by (meson converse_rtranclp_into_rtranclp rtranclp.rtrancl_into_rtrancl rtranclp_trans)
qed

text \<open>
  C27. An operation with heart beats returns what the operation returns, leaves the device as the operation does,
  and has sent one beat at the start and any number of further ones, and nothing else: these are exactly the
  outcomes over all interleavings of the two goroutines.
\<close>

theorem heart_beats_only_add_beats:
  "(\<exists>x. ApplyOperationWithHeartBeat operation heartBeatCallback (d, t) x
      \<and> hb_main x = M_Returned r \<and> hb_device x = d' \<and> hb_stream x = t')
    \<longleftrightarrow> (\<exists>k. withHeartBeats k heartBeatCallback operation (d, t) = (r, (d', t'))) \<and> \<not> (\<exists>p. r = Panic p)"
proof (intro iffI, goal_cases)
  case 1
  then obtain x where "ApplyOperationWithHeartBeat operation heartBeatCallback (d, t) x"
    and x: "hb_main x = M_Returned r" "hb_device x = d'" "hb_stream x = t'" by blast
  from beatInv_reachable [OF this(1)] x show ?case by (auto simp: beatInv_def withHeartBeats_def)
next
  case 2
  then obtain k where "operation d = (r, d')" "t' = (heartBeatCallback ^^ Suc k) t" "\<And>p. r \<noteq> Panic p"
    unfolding withHeartBeats_def Let_def by (auto simp: prod_eq_iff split: prod.splits)
  then show ?case using operation_reachable [of operation d r d' heartBeatCallback t k] by fastforce
qed

section \<open>The handler ListAddOns and its stream\<close>

text \<open>
  A message of the stream is the list of add-ons of a \<^verbatim>\<open>ListAddOnsResponse\<close>; a sign of life is an empty one. Whether
  a message gets through is the parameter \<open>send\<close>; the result of sending a sign of life is dropped.
\<close>

definition stream_Send :: "(GrpcAddOn list \<Rightarrow> unit res) \<Rightarrow> GrpcAddOn list \<Rightarrow> (GrpcAddOn list list, unit) go" where
  "stream_Send send m messages = (send m, if is_ok (send m) then messages @ [m] else messages)"

definition listHeartBeat :: "(GrpcAddOn list \<Rightarrow> unit res) \<Rightarrow> GrpcAddOn list list \<Rightarrow> GrpcAddOn list list" where
  "listHeartBeat send messages = snd (stream_Send send [] messages)"

definition stream_ListAddOns ::
  "nat \<Rightarrow> ('r, 'd, 'v) AddOnServer \<Rightarrow> (GrpcAddOn list \<Rightarrow> unit res) \<Rightarrow> incoming \<Rightarrow> AddOnFilter \<Rightarrow>
   (('r, 'd) world Daemon \<times> GrpcAddOn list list, unit) go" where
  "stream_ListAddOns beats s send ctx filter' =
     (case filter' of
        OtherFilter \<Rightarrow> fail (status_Error Unimplemented ''Unknown Filter.'')
      | INSTALLED \<Rightarrow>
          tryM (withHeartBeats beats (listHeartBeat send) (listInstalledAddOns s ctx)) (\<lambda>addOns.
            onPart snd (\<lambda>t (d, _). (d, t)) (stream_Send send addOns))
      | _ \<Rightarrow>
          tryM (withHeartBeats beats (listHeartBeat send) (onDevice (listCatalogueAddOns s))) (\<lambda>addOns.
            onPart snd (\<lambda>t (d, _). (d, t)) (stream_Send send addOns)))"

section \<open>The client\<close>

text \<open>
  \<^verbatim>\<open>runList\<close>: what it prints, and the error it exits with. The stream delivers its messages in their order, then
  the end or the error of the handler.
\<close>

fun receiveLoop :: "'a list list \<Rightarrow> goerror option \<Rightarrow> 'a list list \<Rightarrow> 'a list list \<times> goerror option" where
  "receiveLoop [] ending printed =
     (printed, map_option (\<lambda>err. ErrorString (''Receiving  AddOn list failed: '' @ err_text err)) ending)"
| "receiveLoop (m # ms) ending printed = receiveLoop ms ending (if length m > 0 then printed @ [m] else printed)"

definition runList :: "('a list list \<times> goerror option) res \<Rightarrow> 'a list list \<times> goerror option" where
  "runList call =
     (case call of
        Ok (messages, ending) \<Rightarrow> receiveLoop messages ending []
      | Err err \<Rightarrow> ([], Some (ErrorString (''Requesting AddOn list failed:: '' @ err_text err)))
      | Panic p \<Rightarrow> ([], Some (ErrorString p)))"

text \<open>\<^verbatim>\<open>internal/cli/cli.go\<close>: what the top level command answers when no command of the client is named.\<close>

definition topLevel_RunE :: "string list \<Rightarrow> unit res" where
  "topLevel_RunE args =
     (case args of
        [] \<Rightarrow> Err (ErrorString ''Please use a command'')
      | a # _ \<Rightarrow> Err (ErrorString (''uc-aom: '' @ CHR 0x27 # a @ CHR 0x27 # '' is not a uc-aom command.'' @ CHR 0x0A # ''See '' @
          CHR 0x27 # ''uc-aom --help'' @ [CHR 0x27])))"

lemma receiveLoop_filter:
  "receiveLoop ms ending printed = (printed @ filter (\<lambda>m. m \<noteq> []) ms,
     map_option (\<lambda>err. ErrorString (''Receiving  AddOn list failed: '' @ err_text err)) ending)"
  by (induction ms arbitrary: printed) auto

lemma heartBeats: "(listHeartBeat send ^^ n) t = t @ (if is_ok (send []) then replicate n [] else [])"
proof (induction n)
  case (Suc n)
  then show ?case by (cases "is_ok (send [])") (simp_all add: listHeartBeat_def stream_Send_def replicate_append_same)
qed simp

text \<open>What arrives at a client: the messages, and the error of the handler; a panic breaks the stream off.\<close>

definition delivered ::
  "(('r, 'd) world Daemon \<times> GrpcAddOn list list, unit) go \<Rightarrow> ('r, 'd) world Daemon \<Rightarrow> (GrpcAddOn list list \<times> goerror option) res" where
  "delivered handler d =
     (case handler (d, []) of
        (Ok _, (_, messages)) \<Rightarrow> Ok (messages, None)
      | (Err e, (_, messages)) \<Rightarrow> Ok (messages, Some e)
      | (Panic p, (_, messages)) \<Rightarrow> Ok (messages, Some (ErrorString p)))"

text \<open>
  Listing through the client. However many signs of life the handler sends while it works, the client prints
  the add-ons of the answer once, and nothing when there are none; when the handler fails it prints no add-on and
  ends with the error. The device is in the state the handler without a stream leaves.
\<close>

theorem client_prints_the_list_once:
  "(case handle_ListAddOns s (\<lambda>_. Ok ()) ctx filter' d of
      (Ok addOns, d') \<Rightarrow> runList (delivered (stream_ListAddOns beats s (\<lambda>_. Ok ()) ctx filter') d)
          = (if addOns = [] then [] else [addOns], None)
          \<and> fst (snd (stream_ListAddOns beats s (\<lambda>_. Ok ()) ctx filter' (d, []))) = d'
    | (Err e, d') \<Rightarrow> runList (delivered (stream_ListAddOns beats s (\<lambda>_. Ok ()) ctx filter') d)
          = ([], Some (ErrorString (''Receiving  AddOn list failed: '' @ err_text e)))
          \<and> fst (snd (stream_ListAddOns beats s (\<lambda>_. Ok ()) ctx filter' (d, []))) = d'
    | (Panic p, _) \<Rightarrow> fst (stream_ListAddOns beats s (\<lambda>_. Ok ()) ctx filter' (d, [])) = Panic p)"
  by (cases filter')
    (simp_all add: handle_ListAddOns_def stream_ListAddOns_def delivered_def runList_def withHeartBeats_def tryM_def
      onPart_def stream_Send_def heartBeats receiveLoop_filter Let_def split: prod.splits res.splits del: funpow.simps)

theorem client_prints_the_list_once_witness:
  "\<exists>addOns. runList (delivered (stream_ListAddOns 3 (sampleServer (\<lambda>jwt. jwt = ''secret'')) (\<lambda>_. Ok ()) sampleCall INSTALLED)
       (sampleDaemon deviceWithApp)) = ([addOns], None) \<and> map ga_Name addOns = [''app'']"
proof -
  let ?s = "sampleServer (\<lambda>jwt. jwt = ''secret'')"
  have g: "case fst (handle_ListAddOns ?s (\<lambda>_. Ok ()) sampleCall INSTALLED (sampleDaemon deviceWithApp)) of
      Ok addOns \<Rightarrow> map ga_Name addOns = [''app''] | _ \<Rightarrow> False" by code_simp
  then obtain addOns d where run: "handle_ListAddOns ?s (\<lambda>_. Ok ()) sampleCall INSTALLED (sampleDaemon deviceWithApp) = (Ok addOns, d)"
    "map ga_Name addOns = [''app'']"
    by (auto simp: prod_eq_iff split: res.splits)
  from client_prints_the_list_once [where s = ?s and ctx = sampleCall and filter' = INSTALLED and d = "sampleDaemon deviceWithApp"
      and beats = 3] run show ?thesis by (auto split: if_splits)
qed

end
