(* ===== verification/PackageDelivery.thy ===== *)
theory PackageDelivery
  imports PackageReader
begin

text \<open>
  From the packager to the reader: what the theory \<open>Packager\<close> creates is what \<open>PackageReader\<close> resolves, with
  the manifest layer as the device reads it and all Docker images the manifest refers to. \<open>targetRepository\<close> is
  the view on a store that the decorator of \<^verbatim>\<open>oci_target_decorator.go\<close> gives.
\<close>

definition targetRepository :: "'m Target \<Rightarrow> 'm OrasRepository" where
  "targetRepository t =
     \<lparr>repo_Resolve = tgt_Resolve t,
      repo_FetchAll = (\<lambda>d. tryM (tgt_Fetch t d) (\<lambda>rd.
        liftR (case rd of RawReader c \<Rightarrow> contentJson c | ManifestReader _ \<Rightarrow> unmarshalTypeError))),
      repo_Fetch = tgt_Fetch t, repo_MapDescriptorSize = (\<lambda>_. desc_Size)\<rparr>"

section \<open>The images in the builder\<close>

definition titleOf :: "Descriptor \<Rightarrow> string option" where
  "titleOf d = mget (desc_Annotations d) AnnotationTitle"

definition imageTuple :: "codec \<Rightarrow> DescriptorBlobTuple \<Rightarrow> bool" where
  "imageTuple c t \<longleftrightarrow> addressed c t \<and> wfDesc (dbt_Desc t) \<and> desc_MediaType (dbt_Desc t) = MediaTypeImageLayer"

definition imagesOK :: "codec \<Rightarrow> GraphBuilder \<Rightarrow> bool" where
  "imagesOK c b \<longleftrightarrow> distinct (map fst (DockerImages b)) \<and>
     (\<forall>key ts. map_of (DockerImages b) key = Some ts \<longrightarrow> list_all (imageTuple c) ts)"

definition hasImage :: "string \<Rightarrow> GraphBuilder \<Rightarrow> bool" where
  "hasImage ref b \<longleftrightarrow>
     (\<exists>key ts t. map_of (DockerImages b) key = Some ts \<and> t \<in> set ts \<and> titleOf (dbt_Desc t) = Some ref)"

definition builderGrows :: "codec \<Rightarrow> GraphBuilder \<Rightarrow> GraphBuilder \<Rightarrow> bool" where
  "builderGrows c a b \<longleftrightarrow> (\<exists>ds. b = a\<lparr>DockerImages := ds\<rparr>) \<and> (imagesOK c a \<longrightarrow> imagesOK c b) \<and>
     (\<forall>ref. hasImage ref a \<longrightarrow> hasImage ref b)"

lemma builderGrows_refl: "builderGrows c b b"
  unfolding builderGrows_def by (intro conjI exI [of _ "DockerImages b"]) simp_all

lemma builderGrows_trans: "builderGrows c x y \<Longrightarrow> builderGrows c y z \<Longrightarrow> builderGrows c x z"
  by (auto simp: builderGrows_def)

lemma AppendDockerImage_grows:
  assumes "AppendDockerImage c blob platform [AnnotationTitle, ref] b = Ok b'"
  shows "builderGrows c b b' \<and> hasImage ref b'"
proof -
  let ?k = "FromOCIPlatform platform"
  obtain d where d: "createDescriptorFromBlob c MediaTypeImageLayer blob [AnnotationTitle, ref] = Ok d"
    and b': "b' = b\<lparr>DockerImages := AList.update ?k (layersFor b ?k @ [\<lparr>dbt_Desc = d, dbt_Platform = None, dbt_Blob = blob\<rparr>])
      (DockerImages b)\<rparr>"
    using assms unfolding AppendDockerImage_def Let_def bind_res_Ok_iff by (elim exE conjE) (rule that, assumption, simp)
  have t: "titleOf d = Some ref" using d by (auto simp: createDescriptorFromBlob_def titleOf_def)
  have new: "map_of (DockerImages b') = (map_of (DockerImages b))(?k \<mapsto> layersFor b ?k @ [\<lparr>dbt_Desc = d, dbt_Platform = None, dbt_Blob = blob\<rparr>])"
    by (simp add: b' update_conv')
  have "hasImage ref b'" unfolding hasImage_def new using t
    by (intro exI [of _ ?k] exI [of _ "layersFor b ?k @ [\<lparr>dbt_Desc = d, dbt_Platform = None, dbt_Blob = blob\<rparr>]"]
        exI [of _ "\<lparr>dbt_Desc = d, dbt_Platform = None, dbt_Blob = blob\<rparr>"]) simp
  moreover have "imageTuple c \<lparr>dbt_Desc = d, dbt_Platform = None, dbt_Blob = blob\<rparr>"
    using createDescriptor_addressed [OF d] by (simp add: imageTuple_def addressed_def)
  then have "imagesOK c b \<longrightarrow> imagesOK c b'"
    using new by (auto simp: imagesOK_def b' distinct_update layersFor_def split: option.split)
  moreover have "hasImage ref' b'" if old: "hasImage ref' b" for ref'
  proof -
    obtain k ts x where k: "map_of (DockerImages b) k = Some ts" "x \<in> set ts" "titleOf (dbt_Desc x) = Some ref'"
      using old by (auto simp: hasImage_def)
    show ?thesis unfolding hasImage_def new using k
      by (intro exI [of _ k] exI [of _ "if k = ?k then ts @ [\<lparr>dbt_Desc = d, dbt_Platform = None, dbt_Blob = blob\<rparr>] else ts"] exI [of _ x])
        (auto simp: layersFor_def)
  qed
  ultimately show ?thesis using b' by (auto simp: builderGrows_def)
qed

lemma appendPlatforms_grows:
  assumes "\<And>p s. fst (exportDockerImageFunc r ref p s) \<noteq> Ok None"
  shows "appendPlatforms r ref ps b s = (Ok (b', stop), s') \<Longrightarrow>
    builderGrows (pc_codec r) b b' \<and> \<not> stop \<and> (ps \<noteq> [] \<longrightarrow> hasImage ref b')"
proof (induction ps arbitrary: b s)
  case Nil
  then show ?case by (simp add: ret_def builderGrows_refl)
next
  case (Cons p ps)
  from Cons.prems obtain bytes s1 where e: "exportDockerImageFunc r ref p s = (Ok bytes, s1)"
    and k: "(case bytes of None \<Rightarrow> ret (b, True) | Some x \<Rightarrow>
      tryM (liftR (AppendDockerImage (pc_codec r) (RawReader x) p [AnnotationTitle, ref] b))
        (\<lambda>builder'. appendPlatforms r ref ps builder')) s1 = (Ok (b', stop), s')"
    by (auto elim!: tryM_OkE)
  from e assms [of p s] obtain x where x: "bytes = Some x" by (cases bytes) auto
  with k obtain b1 where one: "AppendDockerImage (pc_codec r) (RawReader x) p [AnnotationTitle, ref] b = Ok b1"
    and rest: "appendPlatforms r ref ps b1 s1 = (Ok (b', stop), s')"
    by (auto elim!: tryM_OkE simp: liftR_def)
  note a = AppendDockerImage_grows [OF one]
  from Cons.IH [OF rest] a show ?case by (auto simp: builderGrows_def)
qed

lemma appendDockerImages_grows:
  assumes "\<And>ref p s. fst (exportDockerImageFunc r ref p s) \<noteq> Ok None"
  shows "appendDockerImages r reg refs b s = (Ok b', s') \<Longrightarrow>
    builderGrows (pc_codec r) b b' \<and> (\<forall>ref\<in>set refs. hasImage ref b')"
proof (induction refs arbitrary: b s)
  case Nil
  then show ?case by (simp add: ret_def builderGrows_refl)
next
  case (Cons ref refs)
  from Cons.prems obtain ps s1 b1 stop s2 where ps: "ps \<noteq> []" and one: "appendPlatforms r ref ps b s1 = (Ok (b1, stop), s2)"
    and rest: "(if stop then ret b1 else appendDockerImages r reg refs b1) s2 = (Ok b', s')"
    by (auto elim!: tryM_OkE simp: fail_def split: if_splits)
  note a = appendPlatforms_grows [OF assms one]
  then have "appendDockerImages r reg refs b1 s2 = (Ok b', s')" using rest by simp
  from Cons.IH [OF this] a ps show ?case
    by (auto simp: builderGrows_def)
qed

section \<open>Reading a stored package\<close>

lemma layers_by_media_type:
  "descriptorsFor mt (createLayersMediaTypeMap layers) = filter (\<lambda>d. desc_MediaType d = mt) layers"
proof (induction layers rule: rev_induct)
  case Nil
  then show ?case by (simp add: createLayersMediaTypeMap_def descriptorsFor_def)
next
  case (snoc d layers)
  have "createLayersMediaTypeMap (layers @ [d]) = AList.update (desc_MediaType d)
      (descriptorsFor (desc_MediaType d) (createLayersMediaTypeMap layers) @ [d]) (createLayersMediaTypeMap layers)"
    by (simp add: createLayersMediaTypeMap_def)
  then show ?case using snoc by (auto simp: descriptorsFor_def update_conv')
qed

lemma FetchAll_stored:
  assumes "content_store t blobs tags" and "blobs m (desc_Digest d) = Some (RawReader (Doc j))"
  shows "repo_FetchAll (targetRepository t) d m = (Ok j, m)"
  using store_read(1) [OF assms(1)] assms(2) by (simp add: targetRepository_def tryM_run liftR_def)

lemma dOciManifest_eImageManifest:
  assumes "wfDesc cfg" and "list_all wfDesc layers"
  shows "dOciManifest (eImageManifest cfg layers)
    = Ok \<lparr>im_Config = normDesc cfg, im_Layers = map normDesc layers, om_SchemaVersion = 2\<rparr>"
  unfolding dOciManifest_def dImageManifest_eImageManifest [OF assms]
  by (simp add: eImageManifest_def)

lemma dOciImage_eImageConfig:
  "dOciImage (eImageConfig created author p)
    = Ok \<lparr>ic_Architecture = plat_Architecture p, ic_OS = plat_OS p, oi_Author = author\<rparr>"
  by (simp add: dOciImage_def dImageConfig_def eImageConfig_def)

text \<open>The package the reader makes of a stored image manifest.\<close>

definition packageOf :: "string \<Rightarrow> DescriptorBlobTuple \<Rightarrow> DescriptorBlobTuple list \<Rightarrow> addOnOCIPackage \<Rightarrow> bool" where
  "packageOf author uc ts p \<longleftrightarrow>
     im_Layers (OciImageManifest p) = map (normDesc \<circ> dbt_Desc) (uc # ts) \<and> om_SchemaVersion (OciImageManifest p) = 2 \<and>
     desc_MediaType (ie_Descriptor (OciImageManifestDescriptor p)) = MediaTypeImageManifest \<and>
     oi_Author (OciConfiguration p) = author \<and>
     OciImageManifestLayersMap p = createLayersMediaTypeMap (map (normDesc \<circ> dbt_Desc) (uc # ts))"

lemma resolvePackage_stored:
  assumes store: "content_store t blobs tags" and p: "platformStored c blobs m author uc (key, ts) im"
    and wf: "list_all wfDesc (map dbt_Desc (uc # ts))"
  shows "\<exists>p. resolvePackage (targetRepository t)
      \<lparr>ie_Descriptor = normDesc (dbt_Desc im), ie_Platform = map_option ociPlatform (dbt_Platform im)\<rparr> m = (Ok [p], m)
    \<and> packageOf author uc ts p"
proof -
  obtain cfg pl where im: "dbt_Blob im = RawReader (Doc (eImageManifest (dbt_Desc cfg) (map dbt_Desc (uc # ts))))"
      "dbt_Blob cfg = RawReader (Doc (eImageConfig (nowUTC c) author pl))"
      "desc_MediaType (dbt_Desc im) = MediaTypeImageManifest" "wfDesc (dbt_Desc cfg)"
    and st: "list_all (inStore c blobs m) (cfg # im # ts)"
    using p by (auto simp: platformStored_def)
  have 1: "fetchAddOnOciImageManifest (targetRepository t) (normDesc (dbt_Desc im)) m =
      (Ok \<lparr>im_Config = normDesc (dbt_Desc cfg), im_Layers = map (normDesc \<circ> dbt_Desc) (uc # ts), om_SchemaVersion = 2\<rparr>, m)"
    using FetchAll_stored [OF store, of m "normDesc (dbt_Desc im)"] st im dOciManifest_eImageManifest [OF im(4) wf]
    by (simp add: fetchAddOnOciImageManifest_def tryM_run inStore_def liftR_def)
  have 2: "fetchAddOnOciConfiguration (targetRepository t) (normDesc (dbt_Desc cfg)) m =
      (Ok \<lparr>ic_Architecture = plat_Architecture pl, ic_OS = plat_OS pl, oi_Author = author\<rparr>, m)"
    using FetchAll_stored [OF store, of m "normDesc (dbt_Desc cfg)"] st im(2)
    by (simp add: fetchAddOnOciConfiguration_def tryM_run inStore_def liftR_def dOciImage_eImageConfig)
  show ?thesis
    using im(3) by (simp add: resolvePackage_def tryM_def attemptM_def 1 [simplified] 2 ret_def packageOf_def)
qed

lemma resolvePackages_stored:
  assumes store: "content_store t blobs tags" and "list_all2 (platformStored c blobs m author uc) xs ims"
    and "list_all (\<lambda>(_, ts). list_all wfDesc (map dbt_Desc (uc # ts))) xs"
  shows "\<exists>ps. resolvePackages (targetRepository t)
      (map (\<lambda>im. \<lparr>ie_Descriptor = normDesc (dbt_Desc im), ie_Platform = map_option ociPlatform (dbt_Platform im)\<rparr>) ims) m = (Ok ps, m)
    \<and> list_all2 (\<lambda>(_, ts). packageOf author uc ts) xs ps"
  using assms(2,3)
proof (induction xs ims rule: list_all2_induct)
  case Nil
  then show ?case by (simp add: ret_def)
next
  case (Cons x xs im ims)
  obtain key ts where x: "x = (key, ts)" by (cases x)
  from resolvePackage_stored [OF store, of c m author uc key ts im] Cons x obtain p where
    p: "resolvePackage (targetRepository t)
      \<lparr>ie_Descriptor = normDesc (dbt_Desc im), ie_Platform = map_option ociPlatform (dbt_Platform im)\<rparr> m = (Ok [p], m)"
    "packageOf author uc ts p" by auto
  from Cons obtain ps where "resolvePackages (targetRepository t)
      (map (\<lambda>im. \<lparr>ie_Descriptor = normDesc (dbt_Desc im), ie_Platform = map_option ociPlatform (dbt_Platform im)\<rparr>) ims) m = (Ok ps, m)"
    "list_all2 (\<lambda>(_, ts). packageOf author uc ts) xs ps" by auto
  with p x show ?case by (simp add: tryM_run ret_def)
qed

section \<open>The created package\<close>

lemma CreateOciArtifact_OkE:
  assumes "CreateOciArtifact r manifest reg st = (Ok (Some t), st')"
  obtains b0 b b' m fs s s' where
    "appendManifestAndLogo r (Logo (am_Root manifest)) (am_manifestDirPath manifest)
      (CreateUcManifestAnnotationsV1_0 (root_Version (am_Root manifest)) (ManifestVersion (am_Root manifest)))
      (WithAuthor (pc_author r) (NewGraphBuilder (root_Version (am_Root manifest)))) (ps_files st) = (Ok b0, fs)"
    and "appendDockerImages r reg (GetDockerImageReferences (Services (am_Root manifest))) b0 s = (Ok b, s')"
    and "BuildAndTag (pc_codec r) (pc_memory r) (b, memoryNew (pc_memory r)) = (Ok (), (b', m))"
    and "t = \<lparr>decorate = m, AddOnVersion = root_Version (am_Root manifest)\<rparr>"
proof -
  let ?build = "\<lambda>b. BuildAndTag (pc_codec r) (pc_memory r) (b, memoryNew (pc_memory r))"
  from assms obtain b0 s1 b s2 where
    1: "onPackFiles (appendManifestAndLogo r (Logo (am_Root manifest)) (am_manifestDirPath manifest)
      (CreateUcManifestAnnotationsV1_0 (root_Version (am_Root manifest)) (ManifestVersion (am_Root manifest)))
      (WithAuthor (pc_author r) (NewGraphBuilder (root_Version (am_Root manifest))))) st = (Ok b0, s1)"
    and 2: "onRegistries (appendDockerImages r reg (GetDockerImageReferences (Services (am_Root manifest))) b0) s1 = (Ok b, s2)"
    and 3: "(case ?build b of
        (Ok _, (_, orasTarget)) \<Rightarrow> ret (Some \<lparr>decorate = orasTarget, AddOnVersion = root_Version (am_Root manifest)\<rparr>)
      | (Err _, _) \<Rightarrow> ret None | (Panic p, _) \<Rightarrow> panicM p) s2 = (Ok (Some t), st')"
    unfolding CreateOciArtifact_def Let_def by (elim tryM_OkE) (rule that, assumption+)
  obtain b' m where "?build b = (Ok (), (b', m))" "t = \<lparr>decorate = m, AddOnVersion = root_Version (am_Root manifest)\<rparr>"
    using 3 by (auto simp: ret_def panicM_def split: prod.splits res.splits)
  with 1 2 show ?thesis by (intro that) (auto simp: onPackFiles_run onRegistries_run prod_eq_iff)
qed

lemma appendManifestAndLogo_Ok:
  assumes run: "appendManifestAndLogo r logo d ann (WithAuthor author (NewGraphBuilder version)) fs = (Ok b0, fs')"
    and dir: "flatDir fs d" "node fs (d @ [UcImageManifestFilename]) = Some (File m)" "node fs (d @ [logo]) = Some (File l)"
      "logo \<noteq> UcImageManifestFilename"
    and law: "\<And>es. untar (gzipTarBytes (pc_archiver r) es) = Ok (map (\<lambda>e. (te_Name e, te_Body e)) es)"
  obtains u layer where "b0 = (WithAuthor author (NewGraphBuilder version))\<lparr>UcManifestTuple := Some u\<rparr>"
    and "addressed (pc_codec r) u" and "wfDesc (dbt_Desc u)" and "desc_MediaType (dbt_Desc u) = UcImageLayerMediaType"
    and "dbt_Blob u = RawReader layer"
    and "Decompress untar layer = Ok (ManifestReader \<lparr>mlc_Manifest = m, mlc_Logo = l, mlc_LogoName = logo\<rparr>)"
proof -
  have pred: "pc_predicate logo = (\<lambda>p. last p = UcImageManifestFilename \<or> last p = logo)"
    by (simp add: pc_predicate_def Let_def fun_eq_iff)
  obtain layer where layer: "GzipTarball (pc_archiver r) d (pc_predicate logo) fs = (Ok layer, fs)"
    "Decompress untar layer = Ok (ManifestReader \<lparr>mlc_Manifest = m, mlc_Logo = l, mlc_LogoName = logo\<rparr>)"
    using layer_is_read_back [OF dir law] unfolding pred by blast
  then have "AppendUcManifest (pc_codec r) (RawReader layer) ann (WithAuthor author (NewGraphBuilder version)) = Ok b0"
    using run by (simp add: appendManifestAndLogo_def tryM_run liftR_def)
  then obtain desc where "createDescriptorFromBlob (pc_codec r) UcImageLayerMediaType (RawReader layer) ann = Ok desc"
    and "b0 = (WithAuthor author (NewGraphBuilder version))\<lparr>UcManifestTuple :=
      Some \<lparr>dbt_Desc = desc, dbt_Platform = None, dbt_Blob = RawReader layer\<rparr>\<rparr>"
    by (auto simp: AppendUcManifest_def bind_res_Ok_iff)
  with layer(2) show ?thesis
    by (intro that [of "\<lparr>dbt_Desc = desc, dbt_Platform = None, dbt_Blob = RawReader layer\<rparr>" layer])
      (auto simp: addressed_def dest: createDescriptor_addressed)
qed

text \<open>A package in a store is resolved into one package per platform.\<close>

lemma stored_package_resolves:
  assumes store: "content_store t blobs tags" and tag: "tags m version = Some (dbt_Desc index)"
    and index: "inStore c blobs m index"
      "dbt_Blob index = RawReader (Doc (eIndex (map (\<lambda>im. (dbt_Desc im, dbt_Platform im)) ims)))"
    and ims: "list_all2 (platformStored c blobs m author uc) xs ims"
    and wf: "list_all (\<lambda>(_, ts). list_all wfDesc (map dbt_Desc (uc # ts))) xs"
  shows "\<exists>idx. package_resolve (targetRepository t) version m = (Ok idx, m)
    \<and> list_all2 (\<lambda>(_, ts). packageOf author uc ts) xs (packages idx)"
proof -
  have r: "repo_Resolve (targetRepository t) version m = (Ok (dbt_Desc index), m)"
    using store_read(2) [OF store] tag by (simp add: targetRepository_def)
  have "wfDesc (dbt_Desc im)" if "im \<in> set ims" for im
  proof -
    from that obtain i where i: "i < length ims" "im = ims ! i" by (auto simp: in_set_conv_nth)
    then have "platformStored c blobs m author uc (xs ! i) im" using list_all2_nthD2 [OF ims] by simp
    then show ?thesis by (cases "xs ! i") (auto simp: platformStored_def)
  qed
  then have w: "list_all (\<lambda>(d, p). wfDesc d) (map (\<lambda>im. (dbt_Desc im, dbt_Platform im)) ims)" by (auto simp: list_all_iff)
  have f: "FetchImageIndex (targetRepository t) (dbt_Desc index) m =
      (Ok (map (\<lambda>im. \<lparr>ie_Descriptor = normDesc (dbt_Desc im), ie_Platform = map_option ociPlatform (dbt_Platform im)\<rparr>) ims), m)"
    using FetchAll_stored [OF store, of m "dbt_Desc index"] index index_manifests [OF w]
    by (simp add: FetchImageIndex_def tryM_run inStore_def liftR_def comp_def)
  from resolvePackages_stored [OF store ims wf] obtain ps where
    ps: "resolvePackages (targetRepository t)
      (map (\<lambda>im. \<lparr>ie_Descriptor = normDesc (dbt_Desc im), ie_Platform = map_option ociPlatform (dbt_Platform im)\<rparr>) ims) m = (Ok ps, m)"
    "list_all2 (\<lambda>(_, ts). packageOf author uc ts) xs ps" by blast
  then show ?thesis by (simp add: package_resolve_def tryM_run r f ret_def)
qed

lemma titleOf_normDesc [simp]: "titleOf (normDesc d) = titleOf d"
  by (simp add: titleOf_def normDesc_def omitMap_def mget_def split: option.split)

lemma packageOf_layers:
  assumes "packageOf author uc ts p" and "desc_MediaType (dbt_Desc uc) = UcImageLayerMediaType"
  shows "GetAddOnManifestDescriptor p = Ok (normDesc (dbt_Desc uc))"
    and "x \<in> set ts \<Longrightarrow> desc_MediaType (dbt_Desc x) = MediaTypeImageLayer \<Longrightarrow>
      normDesc (dbt_Desc x) \<in> set (GetAllDockerImageDescriptors p)"
  using assms
  by (simp_all add: packageOf_def GetAddOnManifestDescriptor_def GetAllAddOnManifestDescriptors_def
      GetAllDockerImageDescriptors_def layers_by_media_type)

lemma packages_layers:
  assumes ps: "list_all2 (\<lambda>(_, ts). packageOf author u ts) (DockerImages b) ps"
    and u: "desc_MediaType (dbt_Desc u) = UcImageLayerMediaType" and ok: "imagesOK c b"
  shows "list_all (\<lambda>p. GetAddOnManifestDescriptor p = Ok (normDesc (dbt_Desc u))) ps"
    and "hasImage ref b \<Longrightarrow> list_ex (\<lambda>p. list_ex (\<lambda>desc. titleOf desc = Some ref) (GetAllDockerImageDescriptors p)) ps"
proof -
  have "\<exists>ts. packageOf author u ts p" if "p \<in> set ps" for p
    using ps that by (metis (mono_tags, lifting) case_prod_beta in_set_conv_nth list_all2_nthD2)
  then show "list_all (\<lambda>p. GetAddOnManifestDescriptor p = Ok (normDesc (dbt_Desc u))) ps"
    using packageOf_layers(1) [OF _ u] by (auto simp: list_all_iff)
next
  assume "hasImage ref b"
  then obtain key ts x where x: "map_of (DockerImages b) key = Some ts" "x \<in> set ts" "titleOf (dbt_Desc x) = Some ref"
    by (auto simp: hasImage_def)
  then obtain i where "i < length (DockerImages b)" "DockerImages b ! i = (key, ts)" by (metis in_set_conv_nth map_of_SomeD)
  then have p: "ps ! i \<in> set ps" "packageOf author u ts (ps ! i)"
    using list_all2_nthD [OF ps] list_all2_lengthD [OF ps] by force+
  have "desc_MediaType (dbt_Desc x) = MediaTypeImageLayer" using ok x by (auto simp: imagesOK_def list_all_iff imageTuple_def)
  from packageOf_layers(2) [OF p(2) u x(2) this] x(3) p(1)
  show "list_ex (\<lambda>p. list_ex (\<lambda>desc. titleOf desc = Some ref) (GetAllDockerImageDescriptors p)) ps"
    by (auto simp: list_ex_iff intro!: bexI [of _ "ps ! i"] bexI [of _ "normDesc (dbt_Desc x)"])
qed

text \<open>
  C21. A package is delivered as it was made: when the packager has created one from a directory with a manifest and
  its logo, its version resolves, for every platform the device reads exactly this manifest and this logo from the
  layer of the add-on, and every Docker image the manifest refers to is, under its reference, a layer of the
  package. The export of an image must not come back empty.
\<close>

theorem created_package_is_delivered:
  assumes store: "content_store (pc_memory r) blobs tags" and inj: "inj (FromBytes (pc_codec r))"
    and exports: "\<And>ref p s. fst (exportDockerImageFunc r ref p s) \<noteq> Ok None"
    and dir: "flatDir (ps_files st) d" "node (ps_files st) (d @ [UcImageManifestFilename]) = Some (File mf)"
      "node (ps_files st) (d @ [logo]) = Some (File lg)" "logo \<noteq> UcImageManifestFilename"
    and law: "\<And>es. untar (gzipTarBytes (pc_archiver r) es) = Ok (map (\<lambda>e. (te_Name e, te_Body e)) es)"
    and run: "CreateOciArtifact r \<lparr>am_Root = root, am_manifestDirPath = d\<rparr> reg st = (Ok (Some t), st')"
    and logo: "logo = Logo root"
  shows "\<exists>idx. package_resolve (targetRepository (pc_memory r)) (AddOnVersion t) (decorate t) = (Ok idx, decorate t)
    \<and> list_all (\<lambda>p. \<exists>desc layer. GetAddOnManifestDescriptor p = Ok desc
         \<and> tgt_Fetch (pc_memory r) desc (decorate t) = (Ok (RawReader layer), decorate t)
         \<and> Decompress untar layer = Ok (ManifestReader \<lparr>mlc_Manifest = mf, mlc_Logo = lg, mlc_LogoName = logo\<rparr>)) (packages idx)
    \<and> list_all (\<lambda>ref. list_ex (\<lambda>p. list_ex (\<lambda>desc. titleOf desc = Some ref) (GetAllDockerImageDescriptors p)) (packages idx))
         (GetDockerImageReferences (Services root))"
proof -
  let ?c = "pc_codec r" and ?refs = "GetDockerImageReferences (Services root)"
  obtain b0 b b' m fs s s' where
    ap: "appendManifestAndLogo r logo d (CreateUcManifestAnnotationsV1_0 (root_Version root) (ManifestVersion root))
      (WithAuthor (pc_author r) (NewGraphBuilder (root_Version root))) (ps_files st) = (Ok b0, fs)"
    and im: "appendDockerImages r reg ?refs b0 s = (Ok b, s')"
    and build: "BuildAndTag ?c (pc_memory r) (b, memoryNew (pc_memory r)) = (Ok (), (b', m))"
    and t: "t = \<lparr>decorate = m, AddOnVersion = root_Version root\<rparr>"
    by (rule CreateOciArtifact_OkE [OF run]) (rule that, simp_all add: logo)
  obtain u layer where b0: "b0 = (WithAuthor (pc_author r) (NewGraphBuilder (root_Version root)))\<lparr>UcManifestTuple := Some u\<rparr>"
    and u: "addressed ?c u" "wfDesc (dbt_Desc u)" "desc_MediaType (dbt_Desc u) = UcImageLayerMediaType" "dbt_Blob u = RawReader layer"
    and layer: "Decompress untar layer = Ok (ManifestReader \<lparr>mlc_Manifest = mf, mlc_Logo = lg, mlc_LogoName = logo\<rparr>)"
    using appendManifestAndLogo_Ok [OF ap dir law] by blast
  have g: "builderGrows ?c b0 b" "\<forall>ref\<in>set ?refs. hasImage ref b"
    using appendDockerImages_grows [OF exports im] by simp_all
  obtain ds where b: "b = b0\<lparr>DockerImages := ds\<rparr>" using g(1) by (auto simp: builderGrows_def)
  have "imagesOK ?c b0" by (simp add: b0 imagesOK_def WithAuthor_def NewGraphBuilder_def)
  then have ok: "imagesOK ?c b" using g(1) by (simp add: builderGrows_def)
  then have dist: "distinct (map fst (DockerImages b))" by (simp add: imagesOK_def)
  have tuples: "list_all (imageTuple ?c) ts" if "(key, ts) \<in> set (DockerImages b)" for key ts
    using ok that by (simp add: imagesOK_def)
  have addr: "list_all (\<lambda>(_, ts). list_all (addressed ?c) ts) (DockerImages b)"
    and wf: "list_all (\<lambda>(_, ts). list_all wfDesc (map dbt_Desc (u # ts))) (DockerImages b)"
    using tuples u(2) by (auto simp: list_all_iff imageTuple_def)
  have start: "UcManifestTuple b = Some u" "ImageManifestTuples b = []" "gb_Tag b = root_Version root"
    by (simp_all add: b b0 WithAuthor_def NewGraphBuilder_def)
  obtain index ims where index: "tags m (root_Version root) = Some (dbt_Desc index)"
      "dbt_Blob index = RawReader (Doc (eIndex (map (\<lambda>im. (dbt_Desc im, dbt_Platform im)) ims)))"
      "inStore ?c blobs m index" and ims: "list_all2 (platformStored ?c blobs m (gb_author b) u) (DockerImages b) ims"
    and su: "inStore ?c blobs m u"
    using built_package [OF store inj start(1) u(1) start(2) dist addr build] start(3) by auto
  from stored_package_resolves [OF store index(1,3,2) ims wf] obtain idx
    where idx: "package_resolve (targetRepository (pc_memory r)) (root_Version root) m = (Ok idx, m)"
      and ps: "list_all2 (\<lambda>(_, ts). packageOf (gb_author b) u ts) (DockerImages b) (packages idx)" by blast
  have fetch: "tgt_Fetch (pc_memory r) (normDesc (dbt_Desc u)) m = (Ok (RawReader layer), m)"
    using store_read(1) [OF store] su u(4) by (simp add: inStore_def)
  note layers = packages_layers [OF ps u(3) ok]
  show ?thesis
    using idx layers(1) layers(2) g(2) fetch layer t by (intro exI [of _ idx]) (simp add: list_all_iff)
qed

text \<open>The developer's package, with digests that do not collide.\<close>

definition sampleRoot :: Root where
  "sampleRoot = asRoot (case unmarshalV01 manifestWithLogo of Ok x \<Rightarrow> x)"

definition sampleCreator :: "(unit, mapStore) PackageCreator" where
  "sampleCreator = (env_creator samplePush)\<lparr>pc_codec := numberingCodec\<rparr>"

definition sampleHub :: "unit ociRegistry" where
  "sampleHub = (\<lambda>_. ret
     \<lparr>repo_Resolve = (\<lambda>_. ret (\<lparr>desc_MediaType = [], desc_Digest = [], desc_Size = 0, desc_Annotations = None\<rparr>)),
      repo_FetchAll = (\<lambda>_. fail errNotFound),
      repo_Fetch = (\<lambda>_. ret (RawReader (Doc (JObj [(''manifests'', JArr [JObj [(''platform'',
        JObj [(''os'', JStr ''linux''), (''architecture'', JStr ''arm64'')])]])])))),
      repo_MapDescriptorSize = (\<lambda>_. desc_Size)\<rparr>)"

lemma sampleRoot_parts:
  "Logo sampleRoot = ''logo.png''" "GetDockerImageReferences (Services sampleRoot) = [''app:1'']"
  by code_simp+

lemma sample_platforms: "getSupportedPlatforms sampleHub ''app:1'' () = (Ok [samplePlatform], ())"
  by code_simp

lemma flat_developer: "flatDir (ps_files developer) [''app'']"
  by (auto simp: flatDir_def developer_def node_def strict_prefix_def prefix_def split: if_splits)

lemma developer_nodes:
  "node (ps_files developer) ([''app''] @ [UcImageManifestFilename]) = Some (File (Doc manifestWithLogo))"
  "node (ps_files developer) ([''app''] @ [''logo.png'']) = Some (File (Text ''picture''))"
  by (simp_all add: developer_def node_def UcImageManifestFilename_def)

lemma sampleCreator_parts:
  "exportDockerImageFunc sampleCreator ref p = ret (Some (Text ref))" "pc_archiver sampleCreator = sampleArchiver"
  "pc_codec sampleCreator = numberingCodec" "pc_memory sampleCreator = mapTarget"
  by (simp_all add: sampleCreator_def samplePush_def)

lemma sample_creation_runs:
  "\<exists>t st'. CreateOciArtifact sampleCreator \<lparr>am_Root = sampleRoot, am_manifestDirPath = [''app'']\<rparr> sampleHub developer = (Ok (Some t), st')"
proof -
  let ?r = sampleCreator and ?b = "WithAuthor (pc_author sampleCreator) (NewGraphBuilder (root_Version sampleRoot))"
  let ?ann = "CreateUcManifestAnnotationsV1_0 (root_Version sampleRoot) (ManifestVersion sampleRoot)"
  have pred: "pc_predicate ''logo.png'' = (\<lambda>p. last p = UcImageManifestFilename \<or> last p = ''logo.png'')"
    by (simp add: pc_predicate_def Let_def fun_eq_iff)
  obtain layer where layer: "GzipTarball sampleArchiver [''app''] (pc_predicate ''logo.png'') (ps_files developer) = (Ok layer, ps_files developer)"
    using layer_is_read_back [OF flat_developer developer_nodes _ untar_sample] unfolding pred
    by (auto simp: UcImageManifestFilename_def)
  obtain b0 where b0: "AppendUcManifest numberingCodec (RawReader layer) ?ann ?b = Ok b0"
    "UcManifestTuple b0 \<noteq> None" "DockerImages b0 = []" "ImageManifestTuples b0 = []"
    by (simp add: AppendUcManifest_def createDescriptorFromBlob_def CreateUcManifestAnnotationsV1_0_def WithAuthor_def NewGraphBuilder_def)
  have ap: "appendManifestAndLogo ?r ''logo.png'' [''app''] ?ann ?b (ps_files developer) = (Ok b0, ps_files developer)"
    using layer b0(1) by (simp add: appendManifestAndLogo_def sampleCreator_parts tryM_run liftR_def)
  obtain b t where b: "AppendDockerImage numberingCodec (RawReader (Text ''app:1'')) samplePlatform [AnnotationTitle, ''app:1''] b0 = Ok b"
    "b = b0\<lparr>DockerImages := [(FromOCIPlatform samplePlatform, [t])]\<rparr>"
    using b0(3) by (simp add: AppendDockerImage_def createDescriptorFromBlob_def layersFor_def Let_def)
  have im: "appendDockerImages ?r sampleHub [''app:1''] b0 () = (Ok b, ())"
    using b(1) by (simp add: tryM_run sample_platforms sampleCreator_parts ret_def liftR_def)
  have k: "ToOCIPlatform (FromOCIPlatform samplePlatform) = Ok samplePlatform" by code_simp
  obtain b' m where bt: "BuildAndTag numberingCodec mapTarget (b, memoryNew mapTarget) = (Ok (), (b', m))"
    using mapTarget_builds [of b _ "FromOCIPlatform samplePlatform" t samplePlatform numberingCodec "memoryNew mapTarget"] b0(2,4) b(2) k
    by auto
  have reg: "ps_registries developer = ()" by simp
  show ?thesis
    using ap im bt
    by (simp add: CreateOciArtifact_def sampleRoot_parts sampleCreator_parts tryM_run onPackFiles_run onRegistries_run Let_def ret_def)
qed

theorem created_package_is_delivered_witness:
  "\<exists>t st' idx. CreateOciArtifact sampleCreator \<lparr>am_Root = sampleRoot, am_manifestDirPath = [''app'']\<rparr> sampleHub developer = (Ok (Some t), st')
     \<and> package_resolve (targetRepository mapTarget) (AddOnVersion t) (decorate t) = (Ok idx, decorate t)
     \<and> list_ex (\<lambda>p. list_ex (\<lambda>desc. titleOf desc = Some ''app:1'') (GetAllDockerImageDescriptors p)) (packages idx)"
proof -
  obtain t st' where run:
    "CreateOciArtifact sampleCreator \<lparr>am_Root = sampleRoot, am_manifestDirPath = [''app'']\<rparr> sampleHub developer = (Ok (Some t), st')"
    using sample_creation_runs by blast
  have c: "content_store (pc_memory sampleCreator) fst snd" "inj (FromBytes (pc_codec sampleCreator))"
    by (simp_all add: sampleCreator_parts content_mapTarget inj_numbering)
  have e: "fst (exportDockerImageFunc sampleCreator ref p s) \<noteq> Ok None" for ref p s
    by (simp add: sampleCreator_parts ret_def)
  have l: "sampleUntar (gzipTarBytes (pc_archiver sampleCreator) es) = Ok (map (\<lambda>e. (te_Name e, te_Body e)) es)" for es
    by (simp add: sampleCreator_parts untar_sample)
  have n: "''logo.png'' \<noteq> UcImageManifestFilename" by code_simp
  from created_package_is_delivered [OF c e flat_developer developer_nodes n l run sampleRoot_parts(1) [symmetric]] obtain idx where
    "package_resolve (targetRepository (pc_memory sampleCreator)) (AddOnVersion t) (decorate t) = (Ok idx, decorate t)"
    "list_all (\<lambda>ref. list_ex (\<lambda>p. list_ex (\<lambda>desc. titleOf desc = Some ref) (GetAllDockerImageDescriptors p)) (packages idx))
       (GetDockerImageReferences (Services sampleRoot))"
    by blast
  with run show ?thesis
    unfolding sampleRoot_parts(2) sampleCreator_parts(4) by (intro exI [of _ t] exI [of _ st'] exI [of _ idx]) simp
qed

end
