(* ===== verification/PackageMigration.thy ===== *)
theory PackageMigration
  imports GraphBuilder
begin

text \<open>
  \<^verbatim>\<open>internal/aom/registry/oras_addon_migrate_repository.go\<close>: a view on a repository that turns packages of the
  first format (a single image manifest) into packages of format 1.0 (an image index) while they are pulled.
  Only the add-on manifest is fetched and rewritten; each Docker image is represented by a small blob, and the
  view maps its descriptor back to the image of the source.

  The state is the source repository, the in-memory store of migrated packages and the map of descriptors.
  \<^verbatim>\<open>oras.Copy\<close> is third-party code and a parameter; \<open>graph_copy\<close> states what is used of it. The text that
  \<^verbatim>\<open>%v\<close> prints for a descriptor is the parameter \<open>mr_showDesc\<close>.
\<close>

section \<open>State\<close>

record ('s, 'm) migState =
  ms_source :: 's
  ms_storage :: 'm
  dockerImageSourceDescriptorMap :: "(string \<times> Descriptor) list"

record ('s, 'm) orasAddonMigrateRepository =
  mr_source :: "'s OrasRepository"
  mr_target :: "'m Target"
  mr_untar :: "content \<Rightarrow> (string \<times> content) list res"
  mr_codec :: codec
  mr_copy :: "'m \<Rightarrow> string \<Rightarrow> ('m, Descriptor) go"
  mr_showDesc :: "Descriptor \<Rightarrow> string"

definition onSource :: "('s, 'a) go \<Rightarrow> (('s, 'm) migState, 'a) go" where
  "onSource k = onPart ms_source (\<lambda>x s. s\<lparr>ms_source := x\<rparr>) k"

definition onStorage :: "('m, 'a) go \<Rightarrow> (('s, 'm) migState, 'a) go" where
  "onStorage k = onPart ms_storage (\<lambda>x s. s\<lparr>ms_storage := x\<rparr>) k"

section \<open>Reading\<close>

definition isDummyDockerImageDescriptor :: "('s, 'm) migState \<Rightarrow> Descriptor \<Rightarrow> Descriptor option" where
  "isDummyDockerImageDescriptor s desc = map_of (dockerImageSourceDescriptorMap s) (desc_Digest desc)"

definition mig_MapDescriptorSize :: "('s, 'm) migState \<Rightarrow> Descriptor \<Rightarrow> 64 word" where
  "mig_MapDescriptorSize s desc =
     (case isDummyDockerImageDescriptor s desc of
        Some orginalDockerImageDesc \<Rightarrow> desc_Size orginalDockerImageDesc
      | None \<Rightarrow> desc_Size desc)"

definition mig_Exists :: "('s, 'm) orasAddonMigrateRepository \<Rightarrow> Descriptor \<Rightarrow> (('s, 'm) migState, bool) go" where
  "mig_Exists m target = onStorage (tgt_Exists (mr_target m) target)"

text \<open>What the source delivers are bytes; a reader of decompressed content is not a gzip stream.\<close>

definition fetchAndDecompressUcManifestTarget ::
  "('s, 'm) orasAddonMigrateRepository \<Rightarrow> Descriptor \<Rightarrow> (('s, 'm) migState, reader) go" where
  "fetchAndDecompressUcManifestTarget m ucManifestTarget =
     tryM (onSource (repo_Fetch (mr_source m) ucManifestTarget)) (\<lambda>layerReader.
     liftR (case layerReader of
              RawReader layer \<Rightarrow> Decompress (mr_untar m) layer
            | ManifestReader _ \<Rightarrow> Err (ErrorString ''gzip: invalid header'')))"

definition mig_Fetch :: "('s, 'm) orasAddonMigrateRepository \<Rightarrow> Descriptor \<Rightarrow> (('s, 'm) migState, reader) go" where
  "mig_Fetch m target =
     tryM (mig_Exists m target) (\<lambda>exists.
     if exists then
       tryM (getM (\<lambda>s. isDummyDockerImageDescriptor s target)) (\<lambda>dummy.
       case dummy of
         Some orginalDockerImageDesc \<Rightarrow> onSource (repo_Fetch (mr_source m) orginalDockerImageDesc)
       | None \<Rightarrow> onStorage (tgt_Fetch (mr_target m) target))
     else if \<not> IsUcImageLayerMediaType (desc_MediaType target) then onSource (repo_Fetch (mr_source m) target)
     else fetchAndDecompressUcManifestTarget m target)"

definition mig_Push :: "('s, 'a) go" where
  "mig_Push = fail (ErrorString ''unsupported'')"

definition hasTagBeenMigrated :: "('s, 'm) orasAddonMigrateRepository \<Rightarrow> string \<Rightarrow> (('s, 'm) migState, bool) go" where
  "hasTagBeenMigrated m tag =
     tryM (attemptM (onStorage (tgt_Resolve (mr_target m) tag))) (\<lambda>r.
     ret (case r of Inl err \<Rightarrow> err \<noteq> errNotFound | Inr _ \<Rightarrow> True))"

text \<open>\<^verbatim>\<open>content.FetchAll\<close> on this view, for the documents of a package.\<close>

definition mig_FetchAll :: "('s, 'm) orasAddonMigrateRepository \<Rightarrow> Descriptor \<Rightarrow> (('s, 'm) migState, json) go" where
  "mig_FetchAll m desc =
     tryM (mig_Exists m desc) (\<lambda>exists.
     if exists then
       tryM (mig_Fetch m desc) (\<lambda>rd.
       liftR (case rd of RawReader c \<Rightarrow> contentJson c | ManifestReader _ \<Rightarrow> unmarshalTypeError))
     else onSource (repo_FetchAll (mr_source m) desc))"

section \<open>Migrating\<close>

definition PackageVersionV1_0 :: string where
  "PackageVersionV1_0 = ''1.0''"

definition FetchImageConfig :: "'s OrasRepository \<Rightarrow> Descriptor \<Rightarrow> ('s, ImageConfig) go" where
  "FetchImageConfig repository desc = tryM (repo_FetchAll repository desc) (\<lambda>j. liftR (dImageConfig j))"

definition resolvePlatformFromImageConfig ::
  "('s, 'm) orasAddonMigrateRepository \<Rightarrow> Descriptor \<Rightarrow> (('s, 'm) migState, Platform) go" where
  "resolvePlatformFromImageConfig m configDescriptor =
     tryM (wrapErr ''oraswrapper.FetchImageConfig(): Unexpected err: '' ('', desc: '' @ mr_showDesc m configDescriptor)
       (onSource (FetchImageConfig (mr_source m) configDescriptor))) (\<lambda>imageConfigBlob.
     ret \<lparr>plat_OS = ic_OS imageConfigBlob, plat_Architecture = ic_Architecture imageConfigBlob, plat_Variant = []\<rparr>)"

text \<open>The bytes of the digest, the lowest byte of the size and the lowest byte of the index.\<close>

definition dummyDockerBlob :: "Descriptor \<Rightarrow> nat \<Rightarrow> reader" where
  "dummyDockerBlob dockerImageLayerDesc index =
     RawReader (Text (desc_Digest dockerImageLayerDesc @ [char_of (unat (desc_Size dockerImageLayerDesc)), char_of index]))"

fun createAndAppendDummyDockerImage ::
  "codec \<Rightarrow> Platform \<Rightarrow> nat \<Rightarrow> Descriptor list \<Rightarrow> GraphBuilder \<times> (string \<times> Descriptor) list \<Rightarrow>
   (GraphBuilder \<times> (string \<times> Descriptor) list) res" where
  "createAndAppendDummyDockerImage c platform index [] s = Ok s"
| "createAndAppendDummyDockerImage c platform index (dockerImageLayerDesc # rest) (builder, descs) =
     bind_res (AppendDockerImage c (dummyDockerBlob dockerImageLayerDesc index) platform [] builder) (\<lambda>builder'.
     let tuples = layersFor builder' (FromOCIPlatform platform)
     in if index < length tuples then
          createAndAppendDummyDockerImage c platform (Suc index) rest
            (builder', AList.update (desc_Digest (dbt_Desc (tuples ! index))) dockerImageLayerDesc descs)
        else Panic ''index out of range'')"

text \<open>The layers behind the first; a manifest without layers cannot have passed \<open>getUcImageLayer\<close>.\<close>

definition migrateImageManifestDescV0_to_V1_0 ::
  "('s, 'm) orasAddonMigrateRepository \<Rightarrow> Descriptor \<Rightarrow> string \<Rightarrow> (('s, 'm) migState, Descriptor) go" where
  "migrateImageManifestDescV0_to_V1_0 m desc tag =
     tryM (wrapErr ''oraswrapper.FetchImageManifest(): Unexpected err: '' ('', desc: '' @ mr_showDesc m desc)
       (onSource (FetchImageManifest (mr_source m) desc))) (\<lambda>imageManifestBlob.
     tryM (wrapErr ''getUcImageLayer(): Unexpected err: '' [] (liftR (getUcImageLayer imageManifestBlob))) (\<lambda>ucImageDescLayer.
     tryM (wrapErr ''content.FetchAll(): Unexpected err: '' ('', desc: '' @ mr_showDesc m ucImageDescLayer)
       (fetchAndDecompressUcManifestTarget m ucImageDescLayer)) (\<lambda>rc.
     tryM (wrapErr ''UnmarshalDecompress(): Unexpected err: '' [] (liftR (UnmarshalDecompressedContent rc))) (\<lambda>content.
     tryM (wrapErr ''manifest.MigrateUcManifest(): Unexpected err: '' ('', desc: '' @ mr_showDesc m ucImageDescLayer)
       (liftR (bind_res (contentJson (mlc_Manifest content)) (MigrateUcManifest v01_ValidManifestVersion)))) (\<lambda>migrated.
     tryM (liftR (AppendUcManifest (mr_codec m) (ManifestReader (content\<lparr>mlc_Manifest := Doc migrated\<rparr>))
       (CreateUcManifestAnnotationsV1_0 tag ValidManifestVersion) (NewGraphBuilder tag))) (\<lambda>builder.
     tryM (wrapErr ''builder.BuildAndTag(): Unexpected err: '' []
       (resolvePlatformFromImageConfig m (im_Config imageManifestBlob))) (\<lambda>platform.
     tryM (\<lambda>s. case createAndAppendDummyDockerImage (mr_codec m) platform 0 (tl (im_Layers imageManifestBlob))
              (builder, dockerImageSourceDescriptorMap s) of
            Ok (b, descs) \<Rightarrow> (Ok b, s\<lparr>dockerImageSourceDescriptorMap := descs\<rparr>)
          | Err e \<Rightarrow> (Err e, s)
          | Panic p \<Rightarrow> (Panic p, s)) (\<lambda>builder.
     tryM (wrapErr ''builder.BuildAndTag(): Unexpected err: '' []
       (liftR (case BuildAndTag (mr_codec m) (mr_target m) (builder, memoryNew (mr_target m)) of
                 (Ok _, (_, store)) \<Rightarrow> Ok store | (Err e, _) \<Rightarrow> Err e | (Panic p, _) \<Rightarrow> Panic p))) (\<lambda>addOnTarget.
     onStorage (mr_copy m addOnTarget tag))))))))))"

definition migrateImageIndexDesc ::
  "('s, 'm) orasAddonMigrateRepository \<Rightarrow> Descriptor \<Rightarrow> string \<Rightarrow> (('s, 'm) migState, Descriptor) go" where
  "migrateImageIndexDesc m desc tag =
     tryM (wrapErr ''[FetchImageIndex]: '' [] (onSource (tryM (repo_FetchAll (mr_source m) desc) (\<lambda>j.
       liftR (bind_res (dStruct j) (\<lambda>ob. bind_res (dList dIndexEntry (member ob ''manifests'')) (\<lambda>_.
         dMap dStr (member ob ''annotations'')))))))) (\<lambda>annotations.
     case mget annotations AnnotationVersion of
       Some version \<Rightarrow>
         if version = PackageVersionV1_0 then ret desc
         else fail (ErrorString (''Unexpected package version: '' @ CHR 0x27 # version @ [CHR 0x27]))
     | None \<Rightarrow> fail (ErrorString (''Missing annotation version in descriptor: '' @ mr_showDesc m desc)))"

definition mig_migrate ::
  "('s, 'm) orasAddonMigrateRepository \<Rightarrow> Descriptor \<Rightarrow> string \<Rightarrow> (('s, 'm) migState, Descriptor) go" where
  "mig_migrate m desc tag =
     (if desc_MediaType desc = MediaTypeImageManifest then migrateImageManifestDescV0_to_V1_0 m desc tag
      else if desc_MediaType desc = MediaTypeImageIndex then migrateImageIndexDesc m desc tag
      else fail (ErrorString (''Unexpected mediatype: '' @ CHR 0x27 # desc_MediaType desc @ [CHR 0x27])))"

definition mig_Resolve :: "('s, 'm) orasAddonMigrateRepository \<Rightarrow> string \<Rightarrow> (('s, 'm) migState, Descriptor) go" where
  "mig_Resolve m tag =
     tryM (hasTagBeenMigrated m tag) (\<lambda>migrated.
     if migrated then onStorage (tgt_Resolve (mr_target m) tag)
     else
       tryM (onSource (repo_Resolve (mr_source m) tag)) (\<lambda>desc.
       mig_migrate m desc tag))"

definition NewOrasAddonMigrateRepository ::
  "('s, 'm) orasAddonMigrateRepository \<Rightarrow> ('s, 'm) migState OrasRepository" where
  "NewOrasAddonMigrateRepository m =
     \<lparr>repo_Resolve = mig_Resolve m, repo_FetchAll = mig_FetchAll m, repo_Fetch = mig_Fetch m,
      repo_MapDescriptorSize = mig_MapDescriptorSize\<rparr>"

section \<open>The dummies stand for the images\<close>

lemma dummy_blobs_differ: "i < j \<Longrightarrow> j < 256 \<Longrightarrow> dummyDockerBlob d i \<noteq> dummyDockerBlob e j"
proof -
  assume "i < j" "j < 256"
  then have "(char_of i :: char) \<noteq> char_of j"
    by (metis mod_less nat_less_le less_trans of_char_of)
  then show ?thesis by (simp add: dummyDockerBlob_def)
qed

text \<open>
  After \<open>n\<close> layers: the builder holds one tuple per layer, with the digest of its dummy, and the map leads from
  each of these digests to the layer.
\<close>

definition dummiesUpTo ::
  "codec \<Rightarrow> Platform \<Rightarrow> Descriptor list \<Rightarrow> nat \<Rightarrow> GraphBuilder \<times> (string \<times> Descriptor) list \<Rightarrow> bool" where
  "dummiesUpTo c platform layers n = (\<lambda>(b, descs).
     length (layersFor b (FromOCIPlatform platform)) = n \<and>
     (\<forall>i<n. dbt_Blob (layersFor b (FromOCIPlatform platform) ! i) = dummyDockerBlob (layers ! i) i
        \<and> addressed c (layersFor b (FromOCIPlatform platform) ! i)
        \<and> map_of descs (desc_Digest (dbt_Desc (layersFor b (FromOCIPlatform platform) ! i))) = Some (layers ! i)))"

lemma layersFor_append:
  assumes "AppendDockerImage c blob platform [] b = Ok b'"
  shows "layersFor b' (FromOCIPlatform platform) = layersFor b (FromOCIPlatform platform) @
      [\<lparr>dbt_Desc = \<lparr>desc_MediaType = MediaTypeImageLayer, desc_Digest = FromBytes c blob, desc_Size = blobLen c blob,
         desc_Annotations = Some []\<rparr>, dbt_Platform = None, dbt_Blob = blob\<rparr>]"
  using assms
  by (auto simp: AppendDockerImage_def createDescriptorFromBlob_def Let_def layersFor_def update_conv')

lemma dummiesUpTo_append:
  assumes inj: "inj (FromBytes c)" and "n < length layers" and "n < 256" and inv: "dummiesUpTo c platform layers n (b, descs)"
    and ap: "AppendDockerImage c (dummyDockerBlob (layers ! n) n) platform [] b = Ok b'"
  shows "dummiesUpTo c platform layers (Suc n)
    (b', AList.update (desc_Digest (dbt_Desc (layersFor b' (FromOCIPlatform platform) ! n))) (layers ! n) descs)"
    and "n < length (layersFor b' (FromOCIPlatform platform))"
proof -
  let ?k = "FromOCIPlatform platform"
  let ?t = "\<lparr>dbt_Desc = \<lparr>desc_MediaType = MediaTypeImageLayer, desc_Digest = FromBytes c (dummyDockerBlob (layers ! n) n),
      desc_Size = blobLen c (dummyDockerBlob (layers ! n) n), desc_Annotations = Some []\<rparr>,
    dbt_Platform = None, dbt_Blob = dummyDockerBlob (layers ! n) n\<rparr>"
  have l: "layersFor b' ?k = layersFor b ?k @ [?t]"
    using ap by (rule layersFor_append)
  have len: "length (layersFor b ?k) = n" using inv by (simp add: dummiesUpTo_def)
  show "n < length (layersFor b' ?k)" using l len by simp
  have old: "dbt_Blob (layersFor b ?k ! i) = dummyDockerBlob (layers ! i) i" "addressed c (layersFor b ?k ! i)"
    "map_of descs (desc_Digest (dbt_Desc (layersFor b ?k ! i))) = Some (layers ! i)" if "i < n" for i
    using inv that by (auto simp: dummiesUpTo_def)
  have diff: "desc_Digest (dbt_Desc (layersFor b ?k ! i)) \<noteq> FromBytes c (dummyDockerBlob (layers ! n) n)" if "i < n" for i
    using old(1,2) [OF that] dummy_blobs_differ [OF that assms(3)] injD [OF inj] by (metis addressed_def)
  show "dummiesUpTo c platform layers (Suc n) (b', AList.update (desc_Digest (dbt_Desc (layersFor b' ?k ! n))) (layers ! n) descs)"
    using l len old diff
    by (auto simp: dummiesUpTo_def less_Suc_eq nth_append update_conv' addressed_def)
qed

lemma createDummies:
  assumes inj: "inj (FromBytes c)" and "length layers \<le> 256"
  shows "createAndAppendDummyDockerImage c platform n (drop n layers) (b, descs) = Ok (b', descs') \<Longrightarrow>
    n \<le> length layers \<Longrightarrow> dummiesUpTo c platform layers n (b, descs) \<Longrightarrow>
    dummiesUpTo c platform layers (length layers) (b', descs')"
proof (induction "length layers - n" arbitrary: n b descs)
  case 0
  then show ?case by simp
next
  case (Suc k)
  then have n: "n < length layers" "n < 256" using assms(2) by simp_all
  then have d: "drop n layers = layers ! n # drop (Suc n) layers" by (simp add: Cons_nth_drop_Suc)
  from Suc.prems(1) d obtain b1 where ap: "AppendDockerImage c (dummyDockerBlob (layers ! n) n) platform [] b = Ok b1"
    by (auto simp: bind_res_Ok_iff)
  note step = dummiesUpTo_append [OF inj n Suc.prems(3) ap]
  show ?case
    using Suc.prems(1) d ap step(2) Suc.hyps(2) n
    by (intro Suc.hyps(1) [OF _ _ _ step(1)]) simp_all
qed


text \<open>Everything else in the builder stays, and every key of the map is the digest of a dummy.\<close>

definition dummyKeys :: "codec \<Rightarrow> (string \<times> Descriptor) list \<Rightarrow> bool" where
  "dummyKeys c descs \<longleftrightarrow> (\<forall>k d. map_of descs k = Some d \<longrightarrow> (\<exists>e i. k = FromBytes c (dummyDockerBlob e i)))"

definition onePlatform :: "string \<Rightarrow> GraphBuilder \<Rightarrow> bool" where
  "onePlatform key b \<longleftrightarrow> DockerImages b = [] \<or> DockerImages b = [(key, layersFor b key)]"

lemma AppendDockerImage_Ok:
  assumes "AppendDockerImage c blob platform [] b = Ok b'" and "onePlatform (FromOCIPlatform platform) b"
  shows "\<exists>ts. b' = b\<lparr>DockerImages := [(FromOCIPlatform platform, ts)]\<rparr>"
  using assms
  by (auto simp: AppendDockerImage_def createDescriptorFromBlob_def Let_def onePlatform_def)

lemma dummyKeys_update:
  "dummyKeys c descs \<Longrightarrow> dummyKeys c (AList.update (FromBytes c (dummyDockerBlob e i)) d descs)"
  by (auto simp: dummyKeys_def update_conv' split: if_splits)

definition plainLayers :: "GraphBuilder \<Rightarrow> string \<Rightarrow> bool" where
  "plainLayers b key = list_all (\<lambda>t. desc_Annotations (dbt_Desc t) = Some []) (layersFor b key)"

lemma createDummies_frame:
  assumes "createAndAppendDummyDockerImage c platform n layers (b, descs) = Ok (b', descs')"
    and "onePlatform (FromOCIPlatform platform) b" and "dummyKeys c descs" and "plainLayers b (FromOCIPlatform platform)"
    and "length (layersFor b (FromOCIPlatform platform)) = n"
  shows "\<exists>ts. b' = b\<lparr>DockerImages := ts\<rparr> \<and> onePlatform (FromOCIPlatform platform) b'
    \<and> dummyKeys c descs' \<and> plainLayers b' (FromOCIPlatform platform)"
  using assms
proof (induction layers arbitrary: n b descs)
  case Nil
  then show ?case by (auto intro!: exI [of _ "DockerImages b"])
next
  case (Cons layer layers)
  let ?k = "FromOCIPlatform platform"
  from Cons.prems(1) obtain b1 where ap: "AppendDockerImage c (dummyDockerBlob layer n) platform [] b = Ok b1"
    by (auto simp: bind_res_Ok_iff)
  note a = layersFor_append [OF ap]
  obtain ts where b1: "b1 = b\<lparr>DockerImages := [(?k, ts)]\<rparr>" using AppendDockerImage_Ok [OF ap Cons.prems(2)] by blast
  have l: "layersFor b1 ?k ! n = \<lparr>dbt_Desc = \<lparr>desc_MediaType = MediaTypeImageLayer,
      desc_Digest = FromBytes c (dummyDockerBlob layer n), desc_Size = blobLen c (dummyDockerBlob layer n),
      desc_Annotations = Some []\<rparr>, dbt_Platform = None, dbt_Blob = dummyDockerBlob layer n\<rparr>"
    "length (layersFor b1 ?k) = Suc n" using a Cons.prems(5) by (auto simp: nth_append)
  have "\<exists>ts. b' = b1\<lparr>DockerImages := ts\<rparr> \<and> onePlatform ?k b' \<and> dummyKeys c descs' \<and> plainLayers b' ?k"
  proof (rule Cons.IH)
    show "createAndAppendDummyDockerImage c platform (Suc n) layers
        (b1, AList.update (FromBytes c (dummyDockerBlob layer n)) layer descs) = Ok (b', descs')"
      using Cons.prems(1) ap l by simp
    show "onePlatform ?k b1" using b1 by (simp add: onePlatform_def layersFor_def)
    show "dummyKeys c (AList.update (FromBytes c (dummyDockerBlob layer n)) layer descs)"
      using Cons.prems(3) by (rule dummyKeys_update)
    show "plainLayers b1 ?k" using a Cons.prems(4) by (simp add: plainLayers_def)
    show "length (layersFor b1 ?k) = Suc n" by (fact l(2))
  qed
  then show ?case using b1 by auto
qed

section \<open>The migrated package\<close>

text \<open>
  \<^verbatim>\<open>oras.Copy\<close> walks the graph below a descriptor: the successors of an index are its manifests, those of a manifest
  its configuration and its layers. It does not copy what the destination has, so the destination has to be closed
  under successors; its blobs lie under their own digests because the store verifies them when they are pushed.
\<close>

definition successors :: "(string \<Rightarrow> reader option) \<Rightarrow> Descriptor \<Rightarrow> Descriptor list" where
  "successors bs d =
     (case bs (desc_Digest d) of
        Some (RawReader (Doc j)) \<Rightarrow>
          if desc_MediaType d = MediaTypeImageManifest then
            (case dImageManifest j of Ok im \<Rightarrow> im_Config im # im_Layers im | _ \<Rightarrow> [])
          else if desc_MediaType d = MediaTypeImageIndex then
            (case bind_res (dStruct j) (\<lambda>m. dList dIndexEntry (member m ''manifests'')) of
               Ok es \<Rightarrow> map ie_Descriptor es | _ \<Rightarrow> [])
          else []
      | _ \<Rightarrow> [])"

inductive inGraph :: "(string \<Rightarrow> reader option) \<Rightarrow> Descriptor \<Rightarrow> Descriptor \<Rightarrow> bool" for bs root where
  root: "inGraph bs root root"
| succ: "inGraph bs root d \<Longrightarrow> e \<in> set (successors bs d) \<Longrightarrow> inGraph bs root e"

definition closedStore :: "codec \<Rightarrow> (string \<Rightarrow> reader option) \<Rightarrow> bool" where
  "closedStore c bs \<longleftrightarrow> (\<forall>h b. bs h = Some b \<longrightarrow> FromBytes c b = h) \<and>
     (\<forall>d e. bs (desc_Digest d) \<noteq> None \<longrightarrow> e \<in> set (successors bs d) \<longrightarrow> bs (desc_Digest e) \<noteq> None)"

definition graph_copy ::
  "codec \<Rightarrow> ('m \<Rightarrow> string \<Rightarrow> reader option) \<Rightarrow> ('m \<Rightarrow> string \<Rightarrow> Descriptor option) \<Rightarrow>
   ('m \<Rightarrow> string \<Rightarrow> ('m, Descriptor) go) \<Rightarrow> bool" where
  "graph_copy c blobs tags cp \<longleftrightarrow>
     (\<forall>src tag dst d dst'. cp src tag dst = (Ok d, dst') \<longrightarrow> tags src tag = Some d \<and> tags dst' = (tags dst)(tag \<mapsto> d) \<and>
        (closedStore c (blobs dst) \<longrightarrow> (\<forall>e b. inGraph (blobs src) d e \<longrightarrow> blobs src (desc_Digest e) = Some b \<longrightarrow>
           FromBytes c b = desc_Digest e \<longrightarrow> blobs dst' (desc_Digest e) = Some b)))"

lemma onSource_OkE:
  assumes "onSource k s = (Ok x, s')"
  obtains y where "k (ms_source s) = (Ok x, y)" and "s' = s\<lparr>ms_source := y\<rparr>"
  using assms by (auto simp: onSource_def onPart_def split: prod.splits)

lemma onStorage_run: "onStorage k s = (fst (k (ms_storage s)), s\<lparr>ms_storage := snd (k (ms_storage s))\<rparr>)"
  by (simp add: onStorage_def onPart_def split: prod.splits)

lemma fetchAndDecompress_OkE:
  assumes "fetchAndDecompressUcManifestTarget m d s = (Ok x, s')"
  obtains y where "s' = s\<lparr>ms_source := y\<rparr>"
  using assms by (auto simp: fetchAndDecompressUcManifestTarget_def elim!: tryM_OkE onSource_OkE split: reader.splits)

lemma resolvePlatform_OkE:
  assumes "resolvePlatformFromImageConfig m d s = (Ok x, s')"
  obtains y where "s' = s\<lparr>ms_source := y\<rparr>"
  using assms by (auto simp: resolvePlatformFromImageConfig_def elim!: tryM_OkE wrapErr_OkE onSource_OkE)

text \<open>A migration that succeeds, step by step.\<close>

lemma migrateImageManifest_OkE:
  assumes "migrateImageManifestDescV0_to_V1_0 m desc tag st = (Ok idx, st')"
  obtains im content j j' builder platform b b' store storage src descs
  where "fst (FetchImageManifest (mr_source m) desc (ms_source st)) = Ok im"
    and "mlc_Manifest content = Doc j" and "MigrateUcManifest v01_ValidManifestVersion j = Ok j'"
    and "AppendUcManifest (mr_codec m) (ManifestReader (content\<lparr>mlc_Manifest := Doc j'\<rparr>))
      (CreateUcManifestAnnotationsV1_0 tag ValidManifestVersion) (NewGraphBuilder tag) = Ok builder"
    and "createAndAppendDummyDockerImage (mr_codec m) platform 0 (tl (im_Layers im)) (builder, dockerImageSourceDescriptorMap st)
      = Ok (b, descs)"
    and "BuildAndTag (mr_codec m) (mr_target m) (b, memoryNew (mr_target m)) = (Ok (), (b', store))"
    and "mr_copy m store tag (ms_storage st) = (Ok idx, storage)"
    and "st' = \<lparr>ms_source = src, ms_storage = storage, dockerImageSourceDescriptorMap = descs\<rparr>"
proof -
  let ?append = "\<lambda>builder platform im s. case createAndAppendDummyDockerImage (mr_codec m) platform 0 (tl (im_Layers im))
      (builder, dockerImageSourceDescriptorMap s) of
    Ok (b, descs) \<Rightarrow> (Ok b, s\<lparr>dockerImageSourceDescriptorMap := descs\<rparr>) | Err e \<Rightarrow> (Err e, s) | Panic p \<Rightarrow> (Panic p, s)"
  let ?build = "\<lambda>b. case BuildAndTag (mr_codec m) (mr_target m) (b, memoryNew (mr_target m)) of
    (Ok _, (_, store)) \<Rightarrow> Ok store | (Err e, _) \<Rightarrow> Err e | (Panic p, _) \<Rightarrow> Panic p"
  from assms obtain im s1 uc s2 rc s3 content s4 j' s5 builder s6 platform s7 b s8 store s9 where
    1: "onSource (FetchImageManifest (mr_source m) desc) st = (Ok im, s1)"
    and 2: "liftR (getUcImageLayer im) s1 = (Ok uc, s2)"
    and 3: "fetchAndDecompressUcManifestTarget m uc s2 = (Ok rc, s3)"
    and 4: "liftR (UnmarshalDecompressedContent rc) s3 = (Ok content, s4)"
    and 5: "liftR (bind_res (contentJson (mlc_Manifest content)) (MigrateUcManifest v01_ValidManifestVersion)) s4 = (Ok j', s5)"
    and 6: "liftR (AppendUcManifest (mr_codec m) (ManifestReader (content\<lparr>mlc_Manifest := Doc j'\<rparr>))
      (CreateUcManifestAnnotationsV1_0 tag ValidManifestVersion) (NewGraphBuilder tag)) s5 = (Ok builder, s6)"
    and 7: "resolvePlatformFromImageConfig m (im_Config im) s6 = (Ok platform, s7)"
    and 8: "?append builder platform im s7 = (Ok b, s8)"
    and 9: "liftR (?build b) s8 = (Ok store, s9)"
    and 10: "onStorage (mr_copy m store tag) s9 = (Ok idx, st')"
    unfolding migrateImageManifestDescV0_to_V1_0_def
    by (elim tryM_OkE wrapErr_OkE) (rule that, assumption+)
  obtain src where s7: "s7 = st\<lparr>ms_source := src\<rparr>"
    using 1 2 3 4 5 6 7
    by (auto elim!: onSource_OkE fetchAndDecompress_OkE resolvePlatform_OkE simp: liftR_def)
  obtain descs where d: "createAndAppendDummyDockerImage (mr_codec m) platform 0 (tl (im_Layers im))
      (builder, dockerImageSourceDescriptorMap st) = Ok (b, descs)" and s8: "s8 = s7\<lparr>dockerImageSourceDescriptorMap := descs\<rparr>"
    using 8 s7 by (auto split: res.splits prod.splits)
  obtain b' where bt: "BuildAndTag (mr_codec m) (mr_target m) (b, memoryNew (mr_target m)) = (Ok (), (b', store))" and s9: "s9 = s8"
    using 9 by (auto simp: liftR_def split: res.splits prod.splits)
  obtain j where j: "mlc_Manifest content = Doc j" "MigrateUcManifest v01_ValidManifestVersion j = Ok j'"
    using 5 by (cases "mlc_Manifest content") (simp_all add: liftR_def)
  obtain storage where "mr_copy m store tag (ms_storage st) = (Ok idx, storage)"
    and "st' = \<lparr>ms_source = src, ms_storage = storage, dockerImageSourceDescriptorMap = descs\<rparr>"
    using 10 s9 s8 s7 by (cases st) (auto simp: onStorage_run prod_eq_iff)
  with 1 6 d bt j show ?thesis by (intro that) (auto simp: liftR_def elim!: onSource_OkE)
qed

text \<open>The builder when the dummies are in it.\<close>

lemma builder_with_dummies:
  assumes inj: "inj (FromBytes c)" and layers: "layers \<noteq> []" "length layers \<le> 256" and keys: "dummyKeys c descs0"
    and uc: "AppendUcManifest c blob ann (NewGraphBuilder tag) = Ok builder"
    and run: "createAndAppendDummyDockerImage c platform 0 layers (builder, descs0) = Ok (b, descs)"
  obtains u ts where "UcManifestTuple b = Some u" and "addressed c u" and "dbt_Blob u = blob" and "wfDesc (dbt_Desc u)"
    and "desc_MediaType (dbt_Desc u) = UcImageLayerMediaType" and "ImageManifestTuples b = []" and "gb_Tag b = tag"
    and "DockerImages b = [(FromOCIPlatform platform, ts)]" and "length ts = length layers" and "dummyKeys c descs"
    and "\<And>i. i < length layers \<Longrightarrow> addressed c (ts ! i) \<and> wfDesc (dbt_Desc (ts ! i))
      \<and> map_of descs (desc_Digest (dbt_Desc (ts ! i))) = Some (layers ! i)"
proof -
  let ?k = "FromOCIPlatform platform"
  obtain u where u: "builder = (NewGraphBuilder tag)\<lparr>UcManifestTuple := Some u\<rparr>" "addressed c u" "dbt_Blob u = blob"
    "wfDesc (dbt_Desc u)" "desc_MediaType (dbt_Desc u) = UcImageLayerMediaType"
    using uc by (auto simp: AppendUcManifest_def bind_res_Ok_iff addressed_def dest: createDescriptor_addressed)
  have start: "onePlatform ?k builder" "plainLayers builder ?k" "length (layersFor builder ?k) = 0"
    "dummiesUpTo c platform layers 0 (builder, descs0)"
    using u(1) by (simp_all add: onePlatform_def plainLayers_def layersFor_def dummiesUpTo_def NewGraphBuilder_def)
  have d: "dummiesUpTo c platform layers (length layers) (b, descs)"
    using createDummies [OF inj layers(2), of platform 0 builder descs0] run start(4) by simp
  from createDummies_frame [OF run start(1) keys start(2,3)] obtain ts0
    where f: "b = builder\<lparr>DockerImages := ts0\<rparr>" "onePlatform ?k b" "dummyKeys c descs" "plainLayers b ?k" by blast
  have len: "length (layersFor b ?k) = length layers" using d by (simp add: dummiesUpTo_def)
  have one: "DockerImages b = [(?k, layersFor b ?k)]"
    using f(2) len layers(1) by (auto simp: onePlatform_def layersFor_def)
  show ?thesis
  proof (rule that [of u "layersFor b ?k"])
    fix i
    assume i: "i < length layers"
    have "desc_Annotations (dbt_Desc (layersFor b ?k ! i)) = Some []"
      using f(4) i len by (simp add: plainLayers_def list_all_length)
    then show "addressed c (layersFor b ?k ! i) \<and> wfDesc (dbt_Desc (layersFor b ?k ! i))
        \<and> map_of descs (desc_Digest (dbt_Desc (layersFor b ?k ! i))) = Some (layers ! i)"
      using d i by (simp add: dummiesUpTo_def wfDesc_def wfMap_def)
  qed (use u f(1,3) one len in \<open>simp_all add: NewGraphBuilder_def\<close>)
qed

text \<open>Reading through the view.\<close>

lemma not_dummy:
  assumes "inj (FromBytes c)" and "dummyKeys c (dockerImageSourceDescriptorMap s)" and "desc_Digest d = FromBytes c b"
    and "\<And>t. b \<noteq> RawReader (Text t)"
  shows "isDummyDockerImageDescriptor s d = None"
proof (rule ccontr)
  assume "isDummyDockerImageDescriptor s d \<noteq> None"
  then obtain e i where "desc_Digest d = FromBytes c (dummyDockerBlob e i)"
    using assms(2) by (auto simp: isDummyDockerImageDescriptor_def dummyKeys_def)
  then have "b = dummyDockerBlob e i" using assms(3) injD [OF assms(1)] by metis
  then show False using assms(4) by (simp add: dummyDockerBlob_def)
qed

lemma mig_Exists_stored:
  assumes "content_store (mr_target m) blobs tags" and "blobs (ms_storage s) (desc_Digest d) = Some b"
  shows "mig_Exists m d s = (Ok True, s)"
  using store_read(3) [OF assms(1)] assms(2) by (simp add: mig_Exists_def onStorage_run)

lemma mig_Fetch_stored:
  assumes "content_store (mr_target m) blobs tags" and "blobs (ms_storage s) (desc_Digest d) = Some b"
  shows "mig_Fetch m d s =
    (case isDummyDockerImageDescriptor s d of Some original \<Rightarrow> onSource (repo_Fetch (mr_source m) original) s | None \<Rightarrow> (Ok b, s))"
  using store_read(1) [OF assms(1)] assms(2) mig_Exists_stored [OF assms]
  by (simp add: mig_Fetch_def onStorage_run tryM_run getM_def split: option.splits)

lemma mig_FetchAll_stored:
  assumes "content_store (mr_target m) blobs tags" and "blobs (ms_storage s) (desc_Digest d) = Some (RawReader (Doc j))"
    and "isDummyDockerImageDescriptor s d = None"
  shows "mig_FetchAll m d s = (Ok j, s)"
  using mig_Exists_stored [OF assms(1,2)] mig_Fetch_stored [OF assms(1,2)] assms(3)
  by (simp add: mig_FetchAll_def tryM_run liftR_def)

lemma mig_Resolve_migrated:
  assumes "content_store (mr_target m) blobs tags" and "tags (ms_storage s) tag = Some d"
  shows "mig_Resolve m tag s = (Ok d, s)"
  using store_read(2) [OF assms(1)] assms(2)
  by (simp add: mig_Resolve_def hasTagBeenMigrated_def attemptM_def onStorage_run tryM_def)

text \<open>The blobs of a one-platform package, below its index.\<close>

lemma package_graph:
  assumes idx: "desc_MediaType index = MediaTypeImageIndex"
      "bs (desc_Digest index) = Some (RawReader (Doc (eIndex [(dbt_Desc im, dbt_Platform im)])))"
    and im: "bs (desc_Digest (dbt_Desc im)) = Some (RawReader (Doc (eImageManifest cfg layers)))"
      "desc_MediaType (dbt_Desc im) = MediaTypeImageManifest"
    and wf: "wfDesc (dbt_Desc im)" "wfDesc cfg" "list_all wfDesc layers"
  shows "inGraph bs index (normDesc (dbt_Desc im))" and "d \<in> set (cfg # layers) \<Longrightarrow> inGraph bs index (normDesc d)"
proof -
  have "successors bs index = [normDesc (dbt_Desc im)]"
    using idx index_manifests [of "[(dbt_Desc im, dbt_Platform im)]"] wf(1)
    by (simp add: successors_def MediaTypeImageIndex_def MediaTypeImageManifest_def)
  then show m: "inGraph bs index (normDesc (dbt_Desc im))"
    using inGraph.succ [OF inGraph.root] by (metis list.set_intros(1))
  have "successors bs (normDesc (dbt_Desc im)) = map normDesc (cfg # layers)"
    using im dImageManifest_eImageManifest [OF wf(2,3)] by (simp add: successors_def normDesc_def)
  then show "inGraph bs index (normDesc d)" if "d \<in> set (cfg # layers)"
    using that by (intro inGraph.succ [OF m]) auto
qed

text \<open>What the storage holds after the package has been built and copied.\<close>

lemma copied_package:
  assumes store: "content_store t blobs tags" and copy: "graph_copy c blobs tags cp" and inj: "inj (FromBytes c)"
    and closed: "closedStore c (blobs st)"
    and u: "UcManifestTuple b = Some u" "addressed c u" "wfDesc (dbt_Desc u)" "ImageManifestTuples b = []" "gb_Tag b = tag"
    and di: "DockerImages b = [(key, ts)]" "list_all (\<lambda>t. addressed c t \<and> wfDesc (dbt_Desc t)) ts"
    and build: "BuildAndTag c t (b, m0) = (Ok (), (b', built))" and cp: "cp built tag st = (Ok idx, st')"
  obtains it p and cfg :: DescriptorBlobTuple where "idx = dbt_Desc it" and "tags st' tag = Some idx"
    and "dbt_Blob it = RawReader (Doc (eIndex [(dbt_Desc p, dbt_Platform p)]))"
    and "dbt_Blob p = RawReader (Doc (eImageManifest (dbt_Desc cfg) (map dbt_Desc (u # ts))))"
    and "wfDesc (dbt_Desc p)" and "wfDesc (dbt_Desc cfg)" and "list_all (inStore c blobs st') (it # p # u # ts)"
proof -
  note cl = copy [unfolded graph_copy_def, rule_format, OF cp]
  have all: "list_all (addressed c) ts" "list_all wfDesc (map dbt_Desc (u # ts))"
    using di(2) u(3) by (auto simp: list_all_iff)
  obtain it p where it: "idx = dbt_Desc it" "desc_MediaType idx = MediaTypeImageIndex" "inStore c blobs built it"
      "dbt_Blob it = RawReader (Doc (eIndex [(dbt_Desc p, dbt_Platform p)]))"
    and p: "platformStored c blobs built (gb_author b) u (key, ts) p" and su: "inStore c blobs built u"
    using built_package [OF store inj u(1,2,4) _ _ build] di(1) all(1) cl u(5)
    by (auto simp: list_all2_Cons1)
  obtain cfg where cfg: "dbt_Blob p = RawReader (Doc (eImageManifest (dbt_Desc cfg) (map dbt_Desc (u # ts))))"
      "desc_MediaType (dbt_Desc p) = MediaTypeImageManifest" "wfDesc (dbt_Desc p)" "wfDesc (dbt_Desc cfg)"
      "list_all (inStore c blobs built) (cfg # p # ts)"
    using p by (auto simp: platformStored_def)
  note g = package_graph [of idx "blobs built" p "dbt_Desc cfg" "map dbt_Desc (u # ts)"]
  have graph: "inGraph (blobs built) idx (normDesc (dbt_Desc t))" if "t \<in> set (p # u # ts)" for t
    using that g it cfg all(2) by (auto simp: inStore_def)
  have copied: "inStore c blobs st' t" if "t \<in> set (it # p # u # ts)" for t
  proof -
    have s: "inStore c blobs built t" using that it(3) su cfg(5) by (auto simp: list_all_iff)
    have "\<exists>e. inGraph (blobs built) idx e \<and> desc_Digest e = desc_Digest (dbt_Desc t)"
    proof (cases "t = it")
      case True
      then show ?thesis using inGraph.root [of "blobs built" idx] it(1) by blast
    next
      case False
      then show ?thesis using that graph [of t] by (intro exI [of _ "normDesc (dbt_Desc t)"]) simp
    qed
    with s cl closed show ?thesis by (auto simp: inStore_def addressed_def)
  qed
  show ?thesis using it(1,4) cl cfg(1,3,4) copied by (intro that [of it p cfg]) (auto simp: list_all_iff)
qed

text \<open>What the view serves when its storage holds such a package: the documents as stored, the dummies as the images.\<close>

lemma served_documents:
  assumes store: "content_store (mr_target m) blobs tags" and inj: "inj (FromBytes c)"
    and keys: "dummyKeys c (dockerImageSourceDescriptorMap s)"
    and it: "dbt_Blob it = RawReader (Doc (eIndex [(dbt_Desc p, dbt_Platform p)]))"
    and p: "dbt_Blob p = RawReader (Doc (eImageManifest cfg (map dbt_Desc (u # ts))))" "wfDesc (dbt_Desc p)" "wfDesc cfg"
    and u: "dbt_Blob u = ManifestReader content" "list_all wfDesc (map dbt_Desc (u # ts))"
    and stored: "list_all (inStore c blobs (ms_storage s)) [it, p, u]"
  shows "FetchImageIndex (NewOrasAddonMigrateRepository m) (dbt_Desc it) s
      = (Ok [\<lparr>ie_Descriptor = normDesc (dbt_Desc p), ie_Platform = map_option ociPlatform (dbt_Platform p)\<rparr>], s)"
    and "FetchImageManifest (NewOrasAddonMigrateRepository m) (normDesc (dbt_Desc p)) s
      = (Ok \<lparr>im_Config = normDesc cfg, im_Layers = normDesc (dbt_Desc u) # map (normDesc \<circ> dbt_Desc) ts\<rparr>, s)"
    and "mig_Fetch m (normDesc (dbt_Desc u)) s = (Ok (ManifestReader content), s)"
proof -
  have nodum: "isDummyDockerImageDescriptor s d = None" if "t \<in> {it, p, u}" "desc_Digest d = desc_Digest (dbt_Desc t)" for t d
  proof (rule not_dummy [OF inj keys])
    show "desc_Digest d = FromBytes c (dbt_Blob t)" using that stored by (auto simp: inStore_def addressed_def)
    show "dbt_Blob t \<noteq> RawReader (Text x)" for x using that(1) it p(1) u(1) by auto
  qed
  have "mig_FetchAll m (dbt_Desc it) s = (Ok (eIndex [(dbt_Desc p, dbt_Platform p)]), s)"
    using it stored nodum [of it] by (intro mig_FetchAll_stored [OF store]) (simp_all add: inStore_def)
  then show "FetchImageIndex (NewOrasAddonMigrateRepository m) (dbt_Desc it) s
      = (Ok [\<lparr>ie_Descriptor = normDesc (dbt_Desc p), ie_Platform = map_option ociPlatform (dbt_Platform p)\<rparr>], s)"
    using index_manifests [of "[(dbt_Desc p, dbt_Platform p)]"] p(2)
    by (simp add: FetchImageIndex_def NewOrasAddonMigrateRepository_def tryM_run liftR_def)
  have "mig_FetchAll m (normDesc (dbt_Desc p)) s = (Ok (eImageManifest cfg (map dbt_Desc (u # ts))), s)"
    using p(1) stored nodum [of p] by (intro mig_FetchAll_stored [OF store]) (simp_all add: inStore_def)
  then show "FetchImageManifest (NewOrasAddonMigrateRepository m) (normDesc (dbt_Desc p)) s
      = (Ok \<lparr>im_Config = normDesc cfg, im_Layers = normDesc (dbt_Desc u) # map (normDesc \<circ> dbt_Desc) ts\<rparr>, s)"
    using dImageManifest_eImageManifest [OF p(3) u(2)]
    by (simp add: FetchImageManifest_def NewOrasAddonMigrateRepository_def tryM_run liftR_def)
  show "mig_Fetch m (normDesc (dbt_Desc u)) s = (Ok (ManifestReader content), s)"
    using mig_Fetch_stored [OF store, of s "normDesc (dbt_Desc u)"] stored u(1) nodum [of u "normDesc (dbt_Desc u)"]
    by (simp add: inStore_def)
qed

lemma served_images:
  assumes store: "content_store (mr_target m) blobs tags" and len: "length ts = length layers"
    and ts: "\<And>i. i < length layers \<Longrightarrow>
      map_of (dockerImageSourceDescriptorMap s) (desc_Digest (dbt_Desc (ts ! i))) = Some (layers ! i)"
    and stored: "list_all (inStore c blobs (ms_storage s)) ts"
  shows "list_all2 (\<lambda>d layer. mig_MapDescriptorSize s d = desc_Size layer
    \<and> mig_Fetch m d s = onSource (repo_Fetch (mr_source m) layer) s) (map (normDesc \<circ> dbt_Desc) ts) layers"
proof (intro list_all2_all_nthI)
  fix i
  assume "i < length (map (normDesc \<circ> dbt_Desc) ts)"
  then have i: "i < length ts" by simp
  let ?d = "normDesc (dbt_Desc (ts ! i))"
  have "isDummyDockerImageDescriptor s ?d = Some (layers ! i)"
    using ts i len by (simp add: isDummyDockerImageDescriptor_def)
  moreover have "blobs (ms_storage s) (desc_Digest ?d) = Some (dbt_Blob (ts ! i))"
    using stored i by (simp add: inStore_def list_all_length)
  ultimately show "mig_MapDescriptorSize s (map (normDesc \<circ> dbt_Desc) ts ! i) = desc_Size (layers ! i)
      \<and> mig_Fetch m (map (normDesc \<circ> dbt_Desc) ts ! i) s = onSource (repo_Fetch (mr_source m) (layers ! i)) s"
    using mig_Fetch_stored [OF store, of s ?d] i by (simp add: mig_MapDescriptorSize_def)
qed (simp add: len)

text \<open>
  C19. A package of the first format that has been migrated is served as a package of format 1.0: its tag
  resolves to an index with one image manifest; the first layer of this is the migrated add-on manifest, and the
  other layers, one per Docker image and in the same order, have the size of the image they stand for and are
  fetched from the source as that image.
\<close>

theorem migrated_package_delivers_original_images:
  assumes store: "content_store (mr_target m) blobs tags" and copy: "graph_copy (mr_codec m) blobs tags (mr_copy m)"
    and inj: "inj (FromBytes (mr_codec m))" and closed: "closedStore (mr_codec m) (blobs (ms_storage st))"
    and keys: "dummyKeys (mr_codec m) (dockerImageSourceDescriptorMap st)"
    and im: "fst (FetchImageManifest (mr_source m) desc (ms_source st)) = Ok im"
    and layers: "tl (im_Layers im) \<noteq> []" "length (tl (im_Layers im)) \<le> 256"
    and run: "migrateImageManifestDescV0_to_V1_0 m desc tag st = (Ok idx, st')"
  shows "mig_Resolve m tag st' = (Ok idx, st') \<and>
    (\<exists>entry im' uc ds content j j'. FetchImageIndex (NewOrasAddonMigrateRepository m) idx st' = (Ok [entry], st')
      \<and> FetchImageManifest (NewOrasAddonMigrateRepository m) (ie_Descriptor entry) st' = (Ok im', st')
      \<and> im_Layers im' = uc # ds \<and> IsUcImageLayerMediaType (desc_MediaType uc)
      \<and> mlc_Manifest content = Doc j \<and> MigrateUcManifest v01_ValidManifestVersion j = Ok j'
      \<and> mig_Fetch m uc st' = (Ok (ManifestReader (content\<lparr>mlc_Manifest := Doc j'\<rparr>)), st')
      \<and> list_all2 (\<lambda>d layer. mig_MapDescriptorSize st' d = desc_Size layer
           \<and> mig_Fetch m d st' = onSource (repo_Fetch (mr_source m) layer) st') ds (tl (im_Layers im)))"
proof -
  let ?c = "mr_codec m"
  obtain content j j' builder platform b b' built storage src descs
    where j: "mlc_Manifest content = Doc j" "MigrateUcManifest v01_ValidManifestVersion j = Ok j'"
      and uc: "AppendUcManifest ?c (ManifestReader (content\<lparr>mlc_Manifest := Doc j'\<rparr>))
        (CreateUcManifestAnnotationsV1_0 tag ValidManifestVersion) (NewGraphBuilder tag) = Ok builder"
      and dummies: "createAndAppendDummyDockerImage ?c platform 0 (tl (im_Layers im)) (builder, dockerImageSourceDescriptorMap st)
        = Ok (b, descs)"
      and build: "BuildAndTag ?c (mr_target m) (b, memoryNew (mr_target m)) = (Ok (), (b', built))"
      and cp: "mr_copy m built tag (ms_storage st) = (Ok idx, storage)"
      and st': "st' = \<lparr>ms_source = src, ms_storage = storage, dockerImageSourceDescriptorMap = descs\<rparr>"
    using migrateImageManifest_OkE [OF run] im by (metis res.inject(1))
  obtain u ts where u: "UcManifestTuple b = Some u" "addressed ?c u"
      "dbt_Blob u = ManifestReader (content\<lparr>mlc_Manifest := Doc j'\<rparr>)" "wfDesc (dbt_Desc u)"
      "desc_MediaType (dbt_Desc u) = UcImageLayerMediaType" "ImageManifestTuples b = []" "gb_Tag b = tag"
    and di: "DockerImages b = [(FromOCIPlatform platform, ts)]" "length ts = length (tl (im_Layers im))" "dummyKeys ?c descs"
    and ts: "\<And>i. i < length (tl (im_Layers im)) \<Longrightarrow> addressed ?c (ts ! i) \<and> wfDesc (dbt_Desc (ts ! i))
      \<and> map_of descs (desc_Digest (dbt_Desc (ts ! i))) = Some (tl (im_Layers im) ! i)"
    using builder_with_dummies [OF inj layers keys uc dummies] by blast
  have all: "list_all (\<lambda>t. addressed ?c t \<and> wfDesc (dbt_Desc t)) ts" using ts di(2) by (simp add: list_all_length)
  obtain it p and cfg :: DescriptorBlobTuple where it: "idx = dbt_Desc it" "tags storage tag = Some idx"
      "dbt_Blob it = RawReader (Doc (eIndex [(dbt_Desc p, dbt_Platform p)]))"
    and p: "dbt_Blob p = RawReader (Doc (eImageManifest (dbt_Desc cfg) (map dbt_Desc (u # ts))))"
      "wfDesc (dbt_Desc p)" "wfDesc (dbt_Desc cfg)" and stored: "list_all (inStore ?c blobs storage) (it # p # u # ts)"
    by (rule copied_package [OF store copy inj closed u(1,2,4,6,7) di(1) all build cp]) (rule that, assumption+)
  have wf: "list_all wfDesc (map dbt_Desc (u # ts))" using all u(4) by (auto simp: list_all_iff)
  have keys': "dummyKeys ?c (dockerImageSourceDescriptorMap st')" using di(3) st' by simp
  have st: "list_all (inStore ?c blobs (ms_storage st')) [it, p, u]" "list_all (inStore ?c blobs (ms_storage st')) ts"
    using stored st' by simp_all
  note docs = served_documents [OF store inj keys' it(3) p u(3) wf st(1)]
  note images = served_images [OF store di(2) _ st(2)]
  have "mig_Resolve m tag st' = (Ok idx, st')" using mig_Resolve_migrated [OF store] it(2) st' by simp
  moreover have "list_all2 (\<lambda>d layer. mig_MapDescriptorSize st' d = desc_Size layer
      \<and> mig_Fetch m d st' = onSource (repo_Fetch (mr_source m) layer) st') (map (normDesc \<circ> dbt_Desc) ts) (tl (im_Layers im))"
    using ts st' by (intro images) simp
  ultimately show ?thesis
    using docs it(1) j u(5)
    by (intro conjI exI [of _ "\<lparr>ie_Descriptor = normDesc (dbt_Desc p), ie_Platform = map_option ociPlatform (dbt_Platform p)\<rparr>"]
        exI [of _ "\<lparr>im_Config = normDesc (dbt_Desc cfg), im_Layers = normDesc (dbt_Desc u) # map (normDesc \<circ> dbt_Desc) ts\<rparr>"]
        exI [of _ "normDesc (dbt_Desc u)"] exI [of _ "map (normDesc \<circ> dbt_Desc) ts"] exI [of _ content] exI [of _ j] exI [of _ j'])
      (simp_all add: IsUcImageLayerMediaType_def)
qed

text \<open>A source with one package of the first format, with one Docker image of 700 bytes.\<close>

definition sampleLayers :: "Descriptor list" where
  "sampleLayers =
     [\<lparr>desc_MediaType = UcImageLayerMediaType, desc_Digest = ''u'', desc_Size = 1, desc_Annotations = None\<rparr>,
      \<lparr>desc_MediaType = MediaTypeImageLayer, desc_Digest = ''i'', desc_Size = 700, desc_Annotations = None\<rparr>]"

definition sampleDesc :: "string \<Rightarrow> Descriptor" where
  "sampleDesc digest = \<lparr>desc_MediaType = MediaTypeImageManifest, desc_Digest = digest, desc_Size = 1, desc_Annotations = None\<rparr>"

lemma sampleDesc_digest [simp]: "desc_Digest (sampleDesc digest) = digest"
  by (simp add: sampleDesc_def)

definition sampleSource :: "unit OrasRepository" where
  "sampleSource =
     \<lparr>repo_Resolve = (\<lambda>_. ret (sampleDesc ''m'')),
      repo_FetchAll = (\<lambda>d. ret (if desc_Digest d = ''m'' then eImageManifest (sampleDesc ''c'') sampleLayers
        else JObj [(''architecture'', JStr ''arm64''), (''os'', JStr ''linux'')])),
      repo_Fetch = (\<lambda>d. ret (RawReader (Text (desc_Digest d)))),
      repo_MapDescriptorSize = (\<lambda>_. desc_Size)\<rparr>"

definition copyMaps :: "mapStore \<Rightarrow> string \<Rightarrow> (mapStore, Descriptor) go" where
  "copyMaps src tag dst =
     (case snd src tag of
        None \<Rightarrow> (Err errNotFound, dst)
      | Some d \<Rightarrow> (Ok d, (fst dst ++ fst src, (snd dst)(tag \<mapsto> d))))"

definition sampleMigrateRepository :: "(unit, mapStore) orasAddonMigrateRepository" where
  "sampleMigrateRepository =
     \<lparr>mr_source = sampleSource, mr_target = mapTarget, mr_untar = (\<lambda>_. Ok [(UcImageManifestFilename, Doc sampleV01)]),
      mr_codec = numberingCodec, mr_copy = copyMaps, mr_showDesc = desc_Digest\<rparr>"

definition newView :: "(unit, mapStore) migState" where
  "newView = \<lparr>ms_source = (), ms_storage = memoryNew mapTarget, dockerImageSourceDescriptorMap = []\<rparr>"

lemma graph_copyMaps: "graph_copy c fst snd copyMaps"
  by (auto simp: graph_copy_def copyMaps_def map_add_def split: option.splits)

lemma closedStore_new: "closedStore c (fst (memoryNew mapTarget))"
  by (simp add: closedStore_def mapTarget_def)

lemma sample_manifest:
  "FetchImageManifest sampleSource (sampleDesc ''m'') () = (Ok \<lparr>im_Config = sampleDesc ''c'', im_Layers = sampleLayers\<rparr>, ())"
proof -
  have "list_all wfDesc sampleLayers" "wfDesc (sampleDesc ''c'')" "map normDesc sampleLayers = sampleLayers"
    "normDesc (sampleDesc ''c'') = sampleDesc ''c''"
    by (simp_all add: sampleLayers_def sampleDesc_def wfDesc_def wfMap_def normDesc_def omitMap_def)
  then show ?thesis
    using dImageManifest_eImageManifest [of "sampleDesc ''c''" sampleLayers]
    by (simp add: FetchImageManifest_def sampleSource_def liftR_def tryM_def ret_def)
qed

lemma sample_migration_runs:
  "\<exists>idx st'. migrateImageManifestDescV0_to_V1_0 sampleMigrateRepository (sampleDesc ''m'') ''1.0-1'' newView = (Ok idx, st')"
proof -
  let ?m = sampleMigrateRepository and ?im = "\<lparr>im_Config = sampleDesc ''c'', im_Layers = sampleLayers\<rparr>"
  let ?p = "\<lparr>plat_OS = ''linux'', plat_Architecture = ''arm64'', plat_Variant = []\<rparr>"
  have "is_ok (MigrateUcManifest v01_ValidManifestVersion sampleV01)" by code_simp
  then obtain new where new: "MigrateUcManifest v01_ValidManifestVersion sampleV01 = Ok new"
    by (cases "MigrateUcManifest v01_ValidManifestVersion sampleV01") auto
  let ?content = "\<lparr>mlc_Manifest = Doc sampleV01, mlc_Logo = Text [], mlc_LogoName = []\<rparr>"
  have 1: "onSource (FetchImageManifest (mr_source ?m) (sampleDesc ''m'')) newView = (Ok ?im, newView)"
    using sample_manifest
    by (simp add: onSource_def onPart_def sampleMigrateRepository_def newView_def)
  have 2: "getUcImageLayer ?im = Ok (hd sampleLayers)"
    by (simp add: getUcImageLayer_def sampleLayers_def IsUcImageLayerMediaType_def)
  have 3: "fetchAndDecompressUcManifestTarget ?m (hd sampleLayers) newView = (Ok (ManifestReader ?content), newView)"
    by (simp add: fetchAndDecompressUcManifestTarget_def onSource_def onPart_def sampleMigrateRepository_def sampleSource_def
        newView_def tryM_def liftR_def Decompress_def readLogoAndManifestFromTar_def ret_def)
  have 4: "resolvePlatformFromImageConfig ?m (sampleDesc ''c'') newView = (Ok ?p, newView)"
    by (simp add: resolvePlatformFromImageConfig_def FetchImageConfig_def onSource_def onPart_def sampleMigrateRepository_def
        sampleSource_def newView_def wrapErr_def attemptM_def tryM_def liftR_def ret_def dImageConfig_def member_def)
  have sel: "mr_codec ?m = numberingCodec" "mr_target ?m = mapTarget" "mr_copy ?m = copyMaps"
    "dockerImageSourceDescriptorMap newView = []"
    by (simp_all add: sampleMigrateRepository_def newView_def)
  obtain builder where ap: "AppendUcManifest numberingCodec (ManifestReader \<lparr>mlc_Manifest = Doc new, mlc_Logo = Text [], mlc_LogoName = []\<rparr>)
      (CreateUcManifestAnnotationsV1_0 ''1.0-1'' ValidManifestVersion) (NewGraphBuilder ''1.0-1'') = Ok builder"
    "UcManifestTuple builder \<noteq> None" "ImageManifestTuples builder = []" "DockerImages builder = []" "gb_Tag builder = ''1.0-1''"
    by (simp add: AppendUcManifest_def createDescriptorFromBlob_def CreateUcManifestAnnotationsV1_0_def NewGraphBuilder_def)
  obtain b descs t where d: "createAndAppendDummyDockerImage numberingCodec ?p 0 (tl sampleLayers) (builder, []) = Ok (b, descs)"
    "b = builder\<lparr>DockerImages := [(FromOCIPlatform ?p, [t])]\<rparr>"
    using ap(4)
    by (simp add: sampleLayers_def AppendDockerImage_def createDescriptorFromBlob_def layersFor_def Let_def)
  have k: "ToOCIPlatform (FromOCIPlatform ?p) = Ok ?p" by code_simp
  obtain b' built idx where bt: "BuildAndTag numberingCodec mapTarget (b, memoryNew mapTarget) = (Ok (), (b', built))"
    "snd built ''1.0-1'' = Some idx"
    using mapTarget_builds [of b _ "FromOCIPlatform ?p" t ?p numberingCodec "memoryNew mapTarget"] ap(2,3,5) d(2) k by auto
  show ?thesis
    unfolding migrateImageManifestDescV0_to_V1_0_def
    using new d(1) bt
    by (simp add: tryM_run wrapErr_Ok [THEN iffD2] 1 2 3 4 ap(1) liftR_def sel onStorage_run copyMaps_def)
qed

theorem migrated_package_delivers_original_images_witness:
  "\<exists>idx st' d. migrateImageManifestDescV0_to_V1_0 sampleMigrateRepository (sampleDesc ''m'') ''1.0-1'' newView = (Ok idx, st')
     \<and> mig_Resolve sampleMigrateRepository ''1.0-1'' st' = (Ok idx, st') \<and> mig_MapDescriptorSize st' d = 700
     \<and> fst (mig_Fetch sampleMigrateRepository d st') = Ok (RawReader (Text ''i''))"
proof -
  obtain idx st' where run:
    "migrateImageManifestDescV0_to_V1_0 sampleMigrateRepository (sampleDesc ''m'') ''1.0-1'' newView = (Ok idx, st')"
    using sample_migration_runs by blast
  have im: "fst (FetchImageManifest (mr_source sampleMigrateRepository) (sampleDesc ''m'') (ms_source newView)) =
      Ok \<lparr>im_Config = sampleDesc ''c'', im_Layers = sampleLayers\<rparr>"
    by (simp add: sampleMigrateRepository_def sample_manifest)
  have m: "content_store (mr_target sampleMigrateRepository) fst snd"
      "graph_copy (mr_codec sampleMigrateRepository) fst snd (mr_copy sampleMigrateRepository)"
      "inj (FromBytes (mr_codec sampleMigrateRepository))"
      "closedStore (mr_codec sampleMigrateRepository) (fst (ms_storage newView))"
      "dummyKeys (mr_codec sampleMigrateRepository) (dockerImageSourceDescriptorMap newView)"
    by (simp_all add: sampleMigrateRepository_def content_mapTarget graph_copyMaps inj_numbering closedStore_new newView_def dummyKeys_def)
  from migrated_package_delivers_original_images [OF m im _ _ run] run show ?thesis
    by (fastforce simp: sampleLayers_def list_all2_Cons2 onSource_def onPart_def sampleMigrateRepository_def sampleSource_def ret_def)
qed

end
