(* ===== verification/IndexBuilder.thy ===== *)
theory IndexBuilder
  imports PackageDelivery PackageMigration
begin

text \<open>
  \<^verbatim>\<open>internal/aop/packager/oras_graph_builder.go\<close>: the builder the packager had before \<^verbatim>\<open>pkg/oras-wrapper\<close>. It makes
  the same image manifests, but its index carries no package version. The theorem says what that means for
  packages of either builder that lie in a registry when a device asks for them.

  The map of the Docker images is keyed by pointers to platforms: a key is an address with the platform it
  points to. The author text comes from \<^verbatim>\<open>company.ShortAuthorInfo\<close> and is the parameter \<open>author\<close>.
\<close>

section \<open>The builder\<close>

type_synonym platformPtr = "nat \<times> Platform"

record indexOrasGraphBuilder =
  manifestLogo :: "DescriptorBlobTuple option"
  ig_dockerImages :: "(platformPtr \<times> DescriptorBlobTuple list) list"
  ig_tag :: string

definition NewIndexOrasGraphBuilder :: "string \<Rightarrow> indexOrasGraphBuilder" where
  "NewIndexOrasGraphBuilder tag = \<lparr>manifestLogo = None, ig_dockerImages = [], ig_tag = tag\<rparr>"

definition AppendManifestAndLogo ::
  "codec \<Rightarrow> string \<Rightarrow> reader \<Rightarrow> string list \<Rightarrow> indexOrasGraphBuilder \<Rightarrow> indexOrasGraphBuilder res" where
  "AppendManifestAndLogo c mediaType blob annotations r =
     bind_res (createDescriptorFromBlob c mediaType blob annotations) (\<lambda>descriptor.
     Ok (r\<lparr>manifestLogo := Some \<lparr>dbt_Desc = descriptor, dbt_Platform = None, dbt_Blob = blob\<rparr>\<rparr>))"

definition ig_AppendDockerImage ::
  "codec \<Rightarrow> string \<Rightarrow> reader \<Rightarrow> platformPtr \<Rightarrow> string list \<Rightarrow> indexOrasGraphBuilder \<Rightarrow> indexOrasGraphBuilder res" where
  "ig_AppendDockerImage c mediaType blob platform annotations r =
     bind_res (createDescriptorFromBlob c mediaType blob annotations) (\<lambda>descriptor.
     let dockerImageTuple = \<lparr>dbt_Desc = descriptor, dbt_Platform = None, dbt_Blob = blob\<rparr>;
         currentLayerTuples = (case map_of (ig_dockerImages r) platform of None \<Rightarrow> [] | Some ts \<Rightarrow> ts)
     in Ok (r\<lparr>ig_dockerImages := AList.update platform (currentLayerTuples @ [dockerImageTuple]) (ig_dockerImages r)\<rparr>))"

definition createImageConfigTuple :: "codec \<Rightarrow> string \<Rightarrow> Platform \<Rightarrow> DescriptorBlobTuple res" where
  "createImageConfigTuple c author platform =
     (let imageConfigJSON = RawReader (Doc (eImageConfig (nowUTC c) author platform))
      in bind_res (createDescriptorFromBlob c UcConfigMediaType imageConfigJSON [AnnotationTitle, UcConfigAnnotationTitle])
           (\<lambda>descriptor. Ok \<lparr>dbt_Desc = descriptor, dbt_Platform = None, dbt_Blob = imageConfigJSON\<rparr>))"

definition createImageManifestTuple :: "codec \<Rightarrow> Descriptor \<Rightarrow> Descriptor list \<Rightarrow> DescriptorBlobTuple res" where
  "createImageManifestTuple c config layers =
     (let manifestJSON = RawReader (Doc (eImageManifest config layers))
      in bind_res (createDescriptorFromBlob c MediaTypeImageManifest manifestJSON []) (\<lambda>descriptor.
         Ok \<lparr>dbt_Desc = descriptor, dbt_Platform = None, dbt_Blob = manifestJSON\<rparr>))"

definition createImageConfigTupleAndImageManifestTuple ::
  "codec \<Rightarrow> string \<Rightarrow> Platform \<Rightarrow> DescriptorBlobTuple \<Rightarrow> DescriptorBlobTuple list \<Rightarrow>
   (DescriptorBlobTuple \<times> DescriptorBlobTuple) res" where
  "createImageConfigTupleAndImageManifestTuple c author platform logo dockerImages =
     bind_res (createImageConfigTuple c author platform) (\<lambda>imageConfigBlob.
     bind_res (createImageManifestTuple c (dbt_Desc imageConfigBlob) (dbt_Desc logo # map dbt_Desc dockerImages)) (\<lambda>imageManifestBlob.
     Ok (imageConfigBlob, imageManifestBlob)))"

definition eIndexWithoutVersion :: "(Descriptor \<times> Platform option) list \<Rightarrow> json" where
  "eIndexWithoutVersion manifests =
     obj [(''schemaVersion'', Some (JNum 2)), (''manifests'', Some (JArr (map eDescriptor manifests)))]"

definition createManifestIndexTuple :: "codec \<Rightarrow> DescriptorBlobTuple list \<Rightarrow> DescriptorBlobTuple res" where
  "createManifestIndexTuple c imageManifests =
     (let indexJSON = RawReader (Doc (eIndexWithoutVersion (map (\<lambda>im. (dbt_Desc im, dbt_Platform im)) imageManifests)))
      in bind_res (createDescriptorFromBlob c MediaTypeImageIndex indexJSON []) (\<lambda>descriptor.
         Ok \<lparr>dbt_Desc = descriptor, dbt_Platform = None, dbt_Blob = indexJSON\<rparr>))"

text \<open>
  The loop body for one platform. The results of pushing the configuration and the image manifest, and later
  that of the index, are not assigned: the tests that follow look at an error of a call before.
\<close>

definition ig_buildPlatform ::
  "codec \<Rightarrow> string \<Rightarrow> 'm Target \<Rightarrow> DescriptorBlobTuple \<Rightarrow> platformPtr \<times> DescriptorBlobTuple list \<Rightarrow> ('m, DescriptorBlobTuple) go" where
  "ig_buildPlatform c author src logo = (\<lambda>((ptr, platform), blobs).
     tryM (liftR (createImageConfigTupleAndImageManifestTuple c author platform logo blobs)) (\<lambda>(imageConfigTuple, im).
     let imageManifestTuple = im\<lparr>dbt_Platform := Some platform\<rparr> in
     tryM (PushAll src blobs) (\<lambda>_.
     tryM (ignoreM (PushAll src [imageConfigTuple])) (\<lambda>_.
     tryM (ignoreM (PushAll src [imageManifestTuple])) (\<lambda>_.
     ret imageManifestTuple)))))"

fun ig_buildPlatforms ::
  "codec \<Rightarrow> string \<Rightarrow> 'm Target \<Rightarrow> DescriptorBlobTuple \<Rightarrow> (platformPtr \<times> DescriptorBlobTuple list) list \<Rightarrow>
   ('m, DescriptorBlobTuple list) go" where
  "ig_buildPlatforms c author src logo [] = ret []"
| "ig_buildPlatforms c author src logo (x # xs) =
     tryM (ig_buildPlatform c author src logo x) (\<lambda>imageManifestTuple.
     tryM (ig_buildPlatforms c author src logo xs) (\<lambda>imageManifestTuples.
     ret (imageManifestTuple # imageManifestTuples)))"

text \<open>A builder without manifest and logo dereferences nil when it pushes them.\<close>

definition BuildAndTagOrasTarget ::
  "codec \<Rightarrow> string \<Rightarrow> 'm Target \<Rightarrow> indexOrasGraphBuilder \<Rightarrow> 'm TargetDecorator res" where
  "BuildAndTagOrasTarget c author src r =
     fst ((case manifestLogo r of
        None \<Rightarrow> panicM ''invalid memory address or nil pointer dereference''
      | Some logo \<Rightarrow>
          tryM (PushAll src [logo]) (\<lambda>_.
          tryM (ig_buildPlatforms c author src logo (ig_dockerImages r)) (\<lambda>imageManifestTuples.
          tryM (liftR (createManifestIndexTuple c imageManifestTuples)) (\<lambda>imageManifestIndexTuple.
          tryM (ignoreM (PushAll src [imageManifestIndexTuple])) (\<lambda>_.
          tryM (tgt_Tag src (dbt_Desc imageManifestIndexTuple) (ig_tag r)) (\<lambda>_.
          tryM (getM id) (\<lambda>m. ret \<lparr>decorate = m, AddOnVersion = ig_tag r\<rparr>)))))))
        (memoryNew src))"

section \<open>What appending keeps\<close>

definition ig_addressed :: "codec \<Rightarrow> indexOrasGraphBuilder \<Rightarrow> bool" where
  "ig_addressed c r \<longleftrightarrow> (\<forall>l. manifestLogo r = Some l \<longrightarrow> addressed c l) \<and>
     (\<forall>(p, ts) \<in> set (ig_dockerImages r). list_all (addressed c) ts)"

lemma ig_addressed_New: "ig_addressed c (NewIndexOrasGraphBuilder tag)"
  by (simp add: ig_addressed_def NewIndexOrasGraphBuilder_def)

lemma in_set_update: "x \<in> set (AList.update k v al) \<Longrightarrow> x = (k, v) \<or> x \<in> set al"
  by (induction al) (auto split: if_splits)

lemma ig_addressed_Append:
  assumes "ig_addressed c r"
  shows "AppendManifestAndLogo c mt b ann r = Ok r' \<Longrightarrow> ig_addressed c r'"
    and "ig_AppendDockerImage c mt b p ann r = Ok r' \<Longrightarrow> ig_addressed c r'"
proof -
  assume "AppendManifestAndLogo c mt b ann r = Ok r'"
  then show "ig_addressed c r'"
    using assms createDescriptor_addressed [of c mt b ann]
    by (auto simp: AppendManifestAndLogo_def bind_res_Ok_iff ig_addressed_def addressed_def)
next
  assume run: "ig_AppendDockerImage c mt b p ann r = Ok r'"
  then obtain d where d: "createDescriptorFromBlob c mt b ann = Ok d"
    by (auto simp: ig_AppendDockerImage_def bind_res_Ok_iff Let_def)
  let ?ts = "(case map_of (ig_dockerImages r) p of None \<Rightarrow> [] | Some ts \<Rightarrow> ts) @
    [\<lparr>dbt_Desc = d, dbt_Platform = None, dbt_Blob = b\<rparr>]"
  have r': "r' = r\<lparr>ig_dockerImages := AList.update p ?ts (ig_dockerImages r)\<rparr>"
    using run d by (simp add: ig_AppendDockerImage_def Let_def)
  have "list_all (addressed c) ?ts"
    using assms createDescriptor_addressed [OF d]
    by (auto simp: ig_addressed_def addressed_def dest: map_of_SomeD split: option.splits)
  then show "ig_addressed c r'"
    using assms by (auto simp: r' ig_addressed_def dest: in_set_update)
qed

section \<open>The package in the store\<close>

lemma ig_tuples_addressed:
  "createImageConfigTupleAndImageManifestTuple c author p logo ts = Ok (cfg, im) \<Longrightarrow> addressed c cfg \<and> addressed c im"
  by (auto simp: createImageConfigTupleAndImageManifestTuple_def createImageConfigTuple_def createImageManifestTuple_def
      bind_res_Ok_iff Let_def addressed_def dest!: createDescriptor_addressed)

lemma keeps_ig_buildPlatforms:
  assumes store: "content_store t blobs tags" and inj: "inj (FromBytes c)"
  shows "\<forall>(p, ts)\<in>set xs. list_all (addressed c) ts \<Longrightarrow>
    keeps (storeGrows c blobs tags) (ig_buildPlatforms c author t logo xs)"
proof (induction xs)
  case Nil
  then show ?case by (simp add: grows.keeps_pure)
next
  case (Cons x xs)
  obtain ptr p ts where x: "x = ((ptr, p), ts)" by (cases x) auto
  have "keeps (storeGrows c blobs tags) (ig_buildPlatform c author t logo x)"
  proof (cases "createImageConfigTupleAndImageManifestTuple c author p logo ts")
    case (Ok cim)
    obtain cfg im where cim: "cim = (cfg, im)" by (cases cim)
    have "addressed c cfg" "addressed c (im\<lparr>dbt_Platform := Some p\<rparr>)"
      using ig_tuples_addressed [of c author p logo ts cfg im] Ok cim by (auto simp: addressed_def)
    then show ?thesis
      using Cons.prems x Ok cim
      by (auto simp: ig_buildPlatform_def Let_def tryM_pure
          intro!: grows.keeps_tryM grows.keeps_ignoreM grows.keeps_pure keeps_PushAll [OF store inj])
  qed (simp_all add: ig_buildPlatform_def x tryM_pure grows.keeps_pure)
  then show ?case using Cons by (simp, intro grows.keeps_tryM) (auto intro: grows.keeps_pure)
qed

lemma ig_buildPlatforms_wf:
  "ig_buildPlatforms c author t logo xs m = (Ok ims, m') \<Longrightarrow> list_all (\<lambda>im. wfDesc (dbt_Desc im)) ims"
proof (induction xs arbitrary: m ims m')
  case (Cons x xs)
  obtain ptr p ts where x: "x = ((ptr, p), ts)" by (cases x) auto
  from Cons.prems obtain im m1 ims' m2 where im: "ig_buildPlatform c author t logo x m = (Ok im, m1)"
    and rest: "ig_buildPlatforms c author t logo xs m1 = (Ok ims', m2)" and ims: "ims = im # ims'" by (auto elim!: tryM_OkE)
  from im obtain cfg im0 where "createImageConfigTupleAndImageManifestTuple c author p logo ts = Ok (cfg, im0)"
    and "im = im0\<lparr>dbt_Platform := Some p\<rparr>"
    by (auto simp: ig_buildPlatform_def x Let_def elim!: tryM_OkE)
  then have "wfDesc (dbt_Desc im)"
    by (auto simp: createImageConfigTupleAndImageManifestTuple_def createImageManifestTuple_def bind_res_Ok_iff Let_def
        dest!: createDescriptor_addressed)
  then show ?case using Cons.IH [OF rest] ims by simp
qed simp

text \<open>What a package of this builder is in the store: a tagged index without a version.\<close>

lemma ig_built:
  assumes store: "content_store t blobs tags" and inj: "inj (FromBytes c)" and inv: "ig_addressed c r"
    and run: "BuildAndTagOrasTarget c author t r = Ok target"
  shows "\<exists>idx (ims :: DescriptorBlobTuple list). tags (decorate target) (ig_tag r) = Some idx \<and> desc_MediaType idx = MediaTypeImageIndex \<and> wfDesc idx
    \<and> AddOnVersion target = ig_tag r
    \<and> blobs (decorate target) (desc_Digest idx)
        = Some (RawReader (Doc (eIndexWithoutVersion (map (\<lambda>im. (dbt_Desc im, dbt_Platform im)) ims))))
    \<and> list_all (\<lambda>im. wfDesc (dbt_Desc im)) ims"
proof -
  let ?m0 = "memoryNew t"
  from run obtain logo m where l: "manifestLogo r = Some logo"
    and run: "tryM (PushAll t [logo]) (\<lambda>_. tryM (ig_buildPlatforms c author t logo (ig_dockerImages r)) (\<lambda>ims.
      tryM (liftR (createManifestIndexTuple c ims)) (\<lambda>idx. tryM (ignoreM (PushAll t [idx])) (\<lambda>_.
      tryM (tgt_Tag t (dbt_Desc idx) (ig_tag r)) (\<lambda>_. tryM (getM id) (\<lambda>m. ret \<lparr>decorate = m, AddOnVersion = ig_tag r\<rparr>))))))
      ?m0 = (Ok target, m)"
    unfolding BuildAndTagOrasTarget_def by (auto simp: prod_eq_iff split: option.splits)
  from run obtain m1 ims m2 idx m3 where p1: "PushAll t [logo] ?m0 = (Ok (), m1)"
    and loop: "ig_buildPlatforms c author t logo (ig_dockerImages r) m1 = (Ok ims, m2)"
    and idx: "createManifestIndexTuple c ims = Ok idx" and pi: "snd (PushAll t [idx] m2) = m3"
    and tag: "tgt_Tag t (dbt_Desc idx) (ig_tag r) m3 = (Ok (), m)" and target: "target = \<lparr>decorate = m, AddOnVersion = ig_tag r\<rparr>"
    by (auto elim!: tryM_OkE) (metis snd_conv snd_ignoreM)
  have a: "addressed c logo" "\<forall>(p, ts)\<in>set (ig_dockerImages r). list_all (addressed c) ts"
    using inv l by (auto simp: ig_addressed_def)
  let ?doc = "RawReader (Doc (eIndexWithoutVersion (map (\<lambda>im. (dbt_Desc im, dbt_Platform im)) ims)))"
  have i: "dbt_Blob idx = ?doc" "addressed c idx" "desc_MediaType (dbt_Desc idx) = MediaTypeImageIndex" "wfDesc (dbt_Desc idx)"
    using idx by (auto simp: createManifestIndexTuple_def Let_def bind_res_Ok_iff addressed_def dest!: createDescriptor_addressed)
  have g1: "storeGrows c blobs tags ?m0 m1" using PushAll_inStore [OF store inj p1] a(1) by simp
  have g2: "storeGrows c blobs tags m1 m2" using keeps_run [OF keeps_ig_buildPlatforms [OF store inj a(2)] loop] .
  have g3: "storeGrows c blobs tags m2 m3"
    using keepsD [OF keeps_PushAll [OF store inj], of "[idx]" m2] i(2) pi by simp
  have "storeGrows c blobs tags ?m0 m3" using grows.R_trans [OF g1 grows.R_trans [OF g2 g3]] .
  then have own: "FromBytes c b = h" if "blobs m3 h = Some b" for h b
    using that store_read(4) [OF store] by (auto simp: storeGrows_def)
  note tg = store_tag [OF store tag]
  then obtain b where b: "blobs m3 (desc_Digest (dbt_Desc idx)) = Some b" by blast
  have "b = ?doc" using own [OF b] i(1,2) injD [OF inj] by (simp add: addressed_def)
  then have "tags (decorate target) (ig_tag r) = Some (dbt_Desc idx) \<and> desc_MediaType (dbt_Desc idx) = MediaTypeImageIndex
    \<and> wfDesc (dbt_Desc idx) \<and> AddOnVersion target = ig_tag r \<and> blobs (decorate target) (desc_Digest (dbt_Desc idx)) = Some ?doc
    \<and> list_all (\<lambda>im. wfDesc (dbt_Desc im)) ims"
    using tg b i(3,4) target ig_buildPlatforms_wf [OF loop] by simp
  then show ?thesis by blast
qed

section \<open>What a device accepts\<close>

lemma index_without_version:
  assumes "list_all (\<lambda>(d, p). wfDesc d) es"
  shows "bind_res (dStruct (eIndexWithoutVersion es)) (\<lambda>ob. bind_res (dList dIndexEntry (member ob ''manifests'')) (\<lambda>_.
    dMap dStr (member ob ''annotations''))) = Ok None"
proof -
  have m: "dStruct (eIndex es) = Ok (present [(''schemaVersion'', Some (JNum 2)), (''manifests'', Some (JArr (map eDescriptor es))),
      (''annotations'', Some (JObj [(AnnotationVersion, JStr UcPackageVersion)]))])"
    "dStruct (eIndexWithoutVersion es)
      = Ok (present [(''schemaVersion'', Some (JNum 2)), (''manifests'', Some (JArr (map eDescriptor es)))])"
    by (simp_all add: eIndex_def eIndexWithoutVersion_def obj_def)
  from index_manifests [OF assms] obtain x where "dList dIndexEntry (JArr (map eDescriptor es)) = Ok x"
    unfolding m(1) by (simp add: orNull_def)
  then show ?thesis unfolding m(2) by (simp add: orNull_def)
qed

lemma index_with_version:
  assumes "list_all (\<lambda>(d, p). wfDesc d) es"
  shows "bind_res (dStruct (eIndex es)) (\<lambda>ob. bind_res (dList dIndexEntry (member ob ''manifests'')) (\<lambda>_.
    dMap dStr (member ob ''annotations''))) = Ok (Some [(AnnotationVersion, UcPackageVersion)])"
proof -
  have m: "dStruct (eIndex es) = Ok (present [(''schemaVersion'', Some (JNum 2)), (''manifests'', Some (JArr (map eDescriptor es))),
      (''annotations'', Some (JObj [(AnnotationVersion, JStr UcPackageVersion)]))])"
    by (simp add: eIndex_def obj_def)
  from index_manifests [OF assms] obtain x where "dList dIndexEntry (JArr (map eDescriptor es)) = Ok x"
    unfolding m by (simp add: orNull_def)
  then show ?thesis unfolding m by (simp add: orNull_def fromMembers_def)
qed

text \<open>A view on a store that has not migrated the tag yet.\<close>

definition viewOf ::
  "('m, 'n) orasAddonMigrateRepository \<Rightarrow> 'm Target \<Rightarrow> ('n \<Rightarrow> string \<Rightarrow> Descriptor option) \<Rightarrow> string \<Rightarrow>
   ('m, 'n) migState \<Rightarrow> bool" where
  "viewOf v t tags tag st \<longleftrightarrow> mr_source v = targetRepository t \<and>
     (\<forall>n. tgt_Resolve (mr_target v) tag n = (case tags n tag of Some d \<Rightarrow> Ok d | None \<Rightarrow> Err errNotFound, n)) \<and>
     tags (ms_storage st) tag = None"

lemma wrapErr_run: "m s = (Ok x, s') \<Longrightarrow> wrapErr t u m s = (Ok x, s')"
  by (simp add: wrapErr_Ok)

lemma onSource_same: "k (ms_source st) = (r, ms_source st) \<Longrightarrow> onSource k st = (r, st)"
  by (simp add: onSource_def onPart_def)

lemma onStorage_same: "k (ms_storage st) = (r, ms_storage st) \<Longrightarrow> onStorage k st = (r, st)"
  by (simp add: onStorage_def onPart_def)

lemma resolve_index:
  assumes store: "content_store t blobs tags" and view: "viewOf v t tags' tag st"
    and idx: "tags (ms_source st) tag = Some idx" "desc_MediaType idx = MediaTypeImageIndex"
    and doc: "blobs (ms_source st) (desc_Digest idx) = Some (RawReader (Doc j))"
    and ann: "bind_res (dStruct j) (\<lambda>ob. bind_res (dList dIndexEntry (member ob ''manifests'')) (\<lambda>_.
      dMap dStr (member ob ''annotations''))) = Ok annotations"
  shows "mig_Resolve v tag st =
    (case mget annotations AnnotationVersion of
       Some version \<Rightarrow> if version = PackageVersionV1_0 then Ok idx
         else Err (ErrorString (''Unexpected package version: '' @ CHR 0x27 # version @ [CHR 0x27]))
     | None \<Rightarrow> Err (ErrorString (''Missing annotation version in descriptor: '' @ mr_showDesc v idx)), st)"
proof -
  have 1: "hasTagBeenMigrated v tag st = (Ok False, st)"
    using view by (simp add: hasTagBeenMigrated_def viewOf_def onStorage_same attemptM_def tryM_def)
  have s: "mr_source v = targetRepository t" using view by (simp add: viewOf_def)
  have 2: "onSource (repo_Resolve (mr_source v) tag) st = (Ok idx, st)"
    using store_read(2) [OF store] idx(1) by (intro onSource_same) (simp add: s targetRepository_def)
  have 3: "wrapErr a b (onSource (tryM (repo_FetchAll (mr_source v) idx) (\<lambda>j. liftR (bind_res (dStruct j)
      (\<lambda>ob. bind_res (dList dIndexEntry (member ob ''manifests'')) (\<lambda>_. dMap dStr (member ob ''annotations''))))))) st
      = (Ok annotations, st)" for a b
    using ann by (intro wrapErr_run onSource_same) (simp add: s tryM_def FetchAll_stored [OF store doc])
  have ne: "MediaTypeImageIndex \<noteq> MediaTypeImageManifest" by (simp add: MediaTypeImageIndex_def MediaTypeImageManifest_def)
  show ?thesis
    using 1 2 idx(2) ne
    by (simp add: mig_Resolve_def tryM_run(1) mig_migrate_def migrateImageIndexDesc_def 3
        split: option.splits)
qed

text \<open>
  C22. A device accepts exactly the packages of the current builder: the tag of a package that \<^verbatim>\<open>pkg/oras-wrapper\<close>
  has built resolves to its index, and the tag of one of the superseded builder is refused because its index names no
  package version. Neither changes the view or the registry.
\<close>

theorem only_current_packages_are_accepted:
  assumes "content_store t blobs tags" and "inj (FromBytes c)"
  shows "(BuildAndTag c t (b, m0) = (Ok (), (b', m)) \<and> UcManifestTuple b = Some uc \<and> addressed c uc \<and> ImageManifestTuples b = []
      \<and> distinct (map fst (DockerImages b)) \<and> list_all (\<lambda>(_, ts). list_all (addressed c) ts) (DockerImages b)
      \<and> viewOf v t tags' (gb_Tag b) st \<and> ms_source st = m \<longrightarrow>
      (\<exists>idx. mig_Resolve v (gb_Tag b) st = (Ok idx, st) \<and> tags m (gb_Tag b) = Some idx))
    \<and> (BuildAndTagOrasTarget c author t r = Ok target \<and> ig_addressed c r
      \<and> viewOf v t tags' (AddOnVersion target) st \<and> ms_source st = decorate target \<longrightarrow>
      (\<exists>d. mig_Resolve v (AddOnVersion target) st
        = (Err (ErrorString (''Missing annotation version in descriptor: '' @ mr_showDesc v d)), st)))"
proof (safe, goal_cases)
  case 1
  from built_package [OF assms 1(2-6) 1(1)] obtain index ims
    where i: "tags (ms_source st) (gb_Tag b) = Some (dbt_Desc index)" "desc_MediaType (dbt_Desc index) = MediaTypeImageIndex"
      "dbt_Blob index = RawReader (Doc (eIndex (map (\<lambda>im. (dbt_Desc im, dbt_Platform im)) ims)))"
      "list_all2 (platformStored c blobs (ms_source st) (gb_author b) uc) (DockerImages b) ims"
      "inStore c blobs (ms_source st) index" using 1 by auto
  have wf: "list_all (\<lambda>(d, p). wfDesc d) (map (\<lambda>im. (dbt_Desc im, dbt_Platform im)) ims)"
    using i(4) by (auto simp: list_all_iff list_all2_conv_all_nth in_set_conv_nth platformStored_def split_def)
  show ?case
    using resolve_index [OF assms(1) 1(7) i(1,2) _ index_with_version [OF wf]] i(1,3,5)
    by (simp add: inStore_def mget_def UcPackageVersion_def PackageVersionV1_0_def)
next
  case 2
  from ig_built [OF assms 2(2,1)] obtain idx and ims :: "DescriptorBlobTuple list"
    where i: "tags (ms_source st) (ig_tag r) = Some idx" "desc_MediaType idx = MediaTypeImageIndex"
      "AddOnVersion target = ig_tag r"
      "blobs (ms_source st) (desc_Digest idx) = Some (RawReader (Doc (eIndexWithoutVersion (map (\<lambda>im. (dbt_Desc im, dbt_Platform im)) ims))))"
      "list_all (\<lambda>im. wfDesc (dbt_Desc im)) ims" using 2(4) by auto
  have wf: "list_all (\<lambda>(d, p). wfDesc d) (map (\<lambda>im. (dbt_Desc im, dbt_Platform im)) ims)" using i(5) by (simp add: list_all_iff)
  show ?case
    using resolve_index [OF assms(1) 2(3) [unfolded i(3)] i(1,2,4) index_without_version [OF wf]] i(3)
    by (auto simp: mget_def)
qed

text \<open>The two builders on the same manifest and image, and a device in front of either package.\<close>

definition supersededBuilder :: "indexOrasGraphBuilder res" where
  "supersededBuilder =
     bind_res (AppendManifestAndLogo numberingCodec UcImageLayerMediaType (RawReader (Text ''manifest'')) [AnnotationTitle, ''app'']
       (NewIndexOrasGraphBuilder ''1.0'')) (\<lambda>r.
     ig_AppendDockerImage numberingCodec MediaTypeImageLayer (RawReader (Text ''image'')) (1, samplePlatform) [] r)"

definition sampleView :: "(mapStore, mapStore) orasAddonMigrateRepository" where
  "sampleView =
     \<lparr>mr_source = targetRepository mapTarget, mr_target = mapTarget, mr_untar = (\<lambda>_. Ok []), mr_codec = numberingCodec,
      mr_copy = copyMaps, mr_showDesc = desc_MediaType\<rparr>"

definition viewState :: "mapStore \<Rightarrow> (mapStore, mapStore) migState" where
  "viewState m = \<lparr>ms_source = m, ms_storage = memoryNew mapTarget, dockerImageSourceDescriptorMap = []\<rparr>"

lemma viewOf_sample: "viewOf sampleView mapTarget snd tag (viewState m)"
  by (simp add: viewOf_def sampleView_def viewState_def mapTarget_def)

lemma supersededBuilder_builds:
  "\<exists>r target. supersededBuilder = Ok r \<and> ig_addressed numberingCodec r \<and> AddOnVersion target = ''1.0''
     \<and> BuildAndTagOrasTarget numberingCodec ''author'' mapTarget r = Ok target"
proof -
  obtain r l t where r: "supersededBuilder = Ok r" "manifestLogo r = Some l" "ig_tag r = ''1.0''"
    "ig_dockerImages r = [((1, samplePlatform), [t])]"
    by (simp add: supersededBuilder_def AppendManifestAndLogo_def ig_AppendDockerImage_def createDescriptorFromBlob_def
        NewIndexOrasGraphBuilder_def)
  from r(1) obtain r1 where r1: "AppendManifestAndLogo numberingCodec UcImageLayerMediaType (RawReader (Text ''manifest''))
      [AnnotationTitle, ''app''] (NewIndexOrasGraphBuilder ''1.0'') = Ok r1"
    and r2: "ig_AppendDockerImage numberingCodec MediaTypeImageLayer (RawReader (Text ''image'')) (1, samplePlatform) [] r1 = Ok r"
    unfolding supersededBuilder_def bind_res_Ok_iff by (elim exE conjE)
  have "ig_addressed numberingCodec r"
    by (rule ig_addressed_Append(2) [OF ig_addressed_Append(1) [OF ig_addressed_New r1] r2])
  moreover have "\<exists>target. BuildAndTagOrasTarget numberingCodec ''author'' mapTarget r = Ok target \<and> AddOnVersion target = ''1.0''"
    using r(2-4)
    by (simp add: BuildAndTagOrasTarget_def ig_buildPlatform_def createImageConfigTupleAndImageManifestTuple_def
        createImageConfigTuple_def createImageManifestTuple_def createManifestIndexTuple_def createDescriptorFromBlob_def
        PushAll_def mapTarget_def tryM_def ignoreM_def attemptM_def Let_def split_def)
  ultimately show ?thesis using r(1) by blast
qed

theorem only_current_packages_are_accepted_witness:
  "\<exists>r target b b' m. supersededBuilder = Ok r \<and> BuildAndTagOrasTarget numberingCodec ''author'' mapTarget r = Ok target
     \<and> \<not> is_ok (fst (mig_Resolve sampleView ''1.0'' (viewState (decorate target))))
     \<and> sampleBuilder = Ok b \<and> BuildAndTag numberingCodec mapTarget (b, memoryNew mapTarget) = (Ok (), (b', m))
     \<and> is_ok (fst (mig_Resolve sampleView ''1.0'' (viewState m)))"
proof -
  obtain r target where old: "supersededBuilder = Ok r" "ig_addressed numberingCodec r" "AddOnVersion target = ''1.0''"
    "BuildAndTagOrasTarget numberingCodec ''author'' mapTarget r = Ok target"
    using supersededBuilder_builds by blast
  obtain b uc im where b: "sampleBuilder = Ok b" "UcManifestTuple b = Some uc" "addressed numberingCodec uc" "gb_Tag b = ''1.0''"
    "ImageManifestTuples b = []" "DockerImages b = [(FromOCIPlatform samplePlatform, [im])]" "addressed numberingCodec im"
    by (simp add: sampleBuilder_def AppendUcManifest_def AppendDockerImage_def createDescriptorFromBlob_def NewGraphBuilder_def
        layersFor_def addressed_def)
  have p: "ToOCIPlatform (FromOCIPlatform samplePlatform) = Ok samplePlatform" by code_simp
  obtain b' m where run: "BuildAndTag numberingCodec mapTarget (b, memoryNew mapTarget) = (Ok (), (b', m))"
    using mapTarget_builds [OF b(2,5,6) p] by blast
  note both = only_current_packages_are_accepted [OF content_mapTarget inj_numbering, where v = sampleView and tags' = snd]
  have src: "ms_source (viewState x) = x" for x by (simp add: viewState_def)
  note refused = mp [OF conjunct2 [OF both [where st = "viewState (decorate target)"]], OF conjI [OF old(4) conjI [OF old(2)
      conjI [OF viewOf_sample src]]]]
  have "list_all (\<lambda>(_, ts). list_all (addressed numberingCodec) ts) (DockerImages b)" "distinct (map fst (DockerImages b))"
    by (simp_all add: b(6,7))
  note accepted = mp [OF conjunct1 [OF both [where st = "viewState m"]], OF conjI [OF run conjI [OF b(2) conjI [OF b(3)
      conjI [OF b(5) conjI [OF this(2) conjI [OF this(1) conjI [OF viewOf_sample src]]]]]]]]
  from refused accepted have "\<not> is_ok (fst (mig_Resolve sampleView ''1.0'' (viewState (decorate target))))"
    "is_ok (fst (mig_Resolve sampleView ''1.0'' (viewState m)))"
    unfolding old(3) b(4) by force+
  then show ?thesis using old(1,4) b(1) run by blast
qed

end
