(* ===== verification/Isolation.thy ===== *)
theory Isolation
  imports Server
begin

text \<open>
  What the routines of one add-on do to the others. An add-on is installed when its manifest file is there
  (\<^verbatim>\<open>GetAddOn\<close> of \<^verbatim>\<open>aom/catalogue/local-catalogue.go\<close>), so the question is which of the paths a routine works on
  can be the manifest file \<open>P\<close> of another add-on: names and ids come from requests and from packages, and
  \<^verbatim>\<open>filepath.Join\<close> follows the dots in them.
\<close>

section \<open>A file nobody writes to\<close>

text \<open>No symbolic link leads to \<open>P\<close>, and then the calls leave the node of \<open>P\<close> alone and make no such link.\<close>

definition unlinked :: "path \<Rightarrow> FS \<Rightarrow> bool" where
  "unlinked P fs \<longleftrightarrow> (\<forall>l. node fs l \<noteq> Some (Link P))"

definition untouched :: "path \<Rightarrow> FS \<Rightarrow> FS \<Rightarrow> bool" where
  "untouched P a b \<longleftrightarrow> faulty b = faulty a \<and> (unlinked P a \<longrightarrow> unlinked P b \<and> node b P = node a P)"

interpretation untouched: step_relation "untouched P"
  by unfold_locales (auto simp: untouched_def)

lemma keeps_untouched_reads: "keeps (=) m \<Longrightarrow> keeps (untouched P) m"
  using untouched.R_refl by (simp add: keeps_def)

lemma follow_avoids: "unlinked P fs \<Longrightarrow> p \<noteq> P \<Longrightarrow> follow n fs p = Some (q, r) \<Longrightarrow> q \<noteq> P"
proof (induction n fs p rule: follow.induct)
  case (2 n fs p)
  then show ?case by (auto simp: unlinked_def split: option.splits node.splits)
qed simp

lemma untouched_setNode: "q \<noteq> [] \<Longrightarrow> q \<noteq> P \<Longrightarrow> n \<noteq> Link P \<Longrightarrow> untouched P fs (setNode q n fs)"
  by (auto simp: untouched_def unlinked_def)

lemma untouched_delNode: "q \<noteq> [] \<Longrightarrow> q \<noteq> P \<Longrightarrow> untouched P fs (delNode q fs)"
  by (auto simp: untouched_def unlinked_def)

lemma osOpenCreate_avoids:
  assumes "unlinked P fs" and "p \<noteq> P" and "osOpenCreate p fs = (Ok q, fs')"
  shows "q \<noteq> P \<and> q \<noteq> [] \<and> untouched P fs fs'"
proof -
  obtain r where q: "resolve fs p = Some (q, r)"
    using assms(3) by (auto simp: osOpenCreate_def split: if_splits option.splits node.splits)
  then have "q \<noteq> P" using follow_avoids [OF assms(1,2)] by (simp add: resolve_def)
  moreover have "q \<noteq> []"
    using assms(3) q follow_final [of 40 fs p q r] by (auto simp: osOpenCreate_def resolve_def split: if_splits option.splits node.splits)
  ultimately show ?thesis
    using assms(3) untouched_setNode [of q P] untouched.R_refl
    by (auto simp: osOpenCreate_def split: if_splits option.splits node.splits)
qed

lemma untouched_osWrite: "q \<noteq> [] \<Longrightarrow> q \<noteq> P \<Longrightarrow> untouched P fs (snd (osWrite q c fs))"
  using untouched_setNode [of q P] untouched.R_refl by (auto simp: osWrite_def split: option.splits node.splits)

lemma untouched_opened:
  assumes "p \<noteq> P" and "\<And>q. q \<noteq> [] \<Longrightarrow> q \<noteq> P \<Longrightarrow> keeps (untouched P) (k q)" and "\<And>q. keeps (same faulty) (k q)"
  shows "keeps (untouched P) (tryM (osOpenCreate p) k)"
  unfolding keeps_def
proof
  fix fs
  obtain r fs1 where o: "osOpenCreate p fs = (r, fs1)" by (cases "osOpenCreate p fs")
  have f: "faulty fs1 = faulty fs"
    using o by (auto simp: osOpenCreate_def split: if_splits option.splits node.splits)
  show "untouched P fs (snd (tryM (osOpenCreate p) k fs))"
  proof (cases "unlinked P fs \<and> (\<exists>q. r = Ok q)")
    case True
    then obtain q where q: "r = Ok q" and u: "unlinked P fs" by blast
    from osOpenCreate_avoids [OF u assms(1)] o q have "q \<noteq> P" "q \<noteq> []" "untouched P fs fs1" by auto
    with assms(2) [of q] o q show ?thesis by (auto simp: tryM_def keeps_def intro: untouched.R_trans)
  next
    case False
    have "faulty (snd (tryM (osOpenCreate p) k fs)) = faulty fs"
      using f o assms(3) by (auto simp: tryM_def keeps_def same_def split: res.splits)
    moreover have "fs1 = fs" if "\<forall>q. r \<noteq> Ok q"
      using o that by (auto simp: osOpenCreate_def split: if_splits option.splits node.splits)
    ultimately show ?thesis using False o untouched.R_refl [of P fs]
      by (cases r) (auto simp: untouched_def tryM_def)
  qed
qed

lemma same_faulty_write: "keeps (same faulty) (osWrite q c)" "keeps (same faulty) (osTruncate q)"
  by (auto simp: keeps_def same_def osWrite_def osTruncate_def split: option.splits node.splits)

lemma keeps_untouched_osTruncate: "q \<noteq> [] \<Longrightarrow> q \<noteq> P \<Longrightarrow> keeps (untouched P) (osTruncate q)"
  by (simp add: osTruncate_def keeps_def untouched_setNode)

lemma keeps_untouched_write:
  assumes "p \<noteq> P"
  shows "keeps (untouched P) (osWriteFile p c)" and "keeps (untouched P) (writeToFile p c)"
  unfolding osWriteFile_def writeToFile_def
  by (intro untouched_opened [OF assms] untouched.keeps_tryM same.keeps_tryM same_faulty_write keeps_untouched_osTruncate;
      simp add: keeps_def untouched_osWrite)+

lemma keeps_untouched_osRemove: "p \<noteq> P \<Longrightarrow> keeps (untouched P) (osRemove p)"
  using untouched.R_refl untouched_delNode [of p P]
  by (cases "p = []") (auto simp: keeps_def osRemove_def split: option.splits node.splits)

lemma keeps_untouched_deleteFile: "p \<noteq> P \<Longrightarrow> keeps (untouched P) (deleteFile p)"
  unfolding deleteFile_def
  by (intro untouched.keeps_tryM untouched.keeps_attemptM)
    (auto simp: keeps_def [of _ "osStat p"] untouched.R_refl intro: untouched.keeps_pure keeps_untouched_osRemove split: sum.splits)

lemma keeps_untouched_osSymlink: "l \<noteq> P \<Longrightarrow> t \<noteq> P \<Longrightarrow> keeps (untouched P) (osSymlink t l)"
  using untouched.R_refl by (cases "l = []") (auto simp: keeps_def osSymlink_def intro: untouched_setNode)

lemma keeps_untouched_osRemoveAll: "\<not> prefix p P \<Longrightarrow> keeps (untouched P) (osRemoveAll p)"
  by (auto simp: keeps_def untouched_def unlinked_def osRemoveAll_outside dest: osRemoveAll_keeps)

lemma keeps_untouched_MkDirAll: "\<not> prefix P p \<Longrightarrow> keeps (untouched P) (MkDirAll p)"
  unfolding MkDirAll_def osMkdirAll_def
proof (rule untouched.keeps_eachM)
  fix q assume "\<not> prefix P p" and "q \<in> set (prefixes p)"
  then have "q \<noteq> P" by auto
  then show "keeps (untouched P) (osMkdir q)"
    using untouched.R_refl untouched_setNode [of q P Dir] by (cases "q = []") (auto simp: keeps_def osMkdir_def)
qed

section \<open>Where a name can lead\<close>

text \<open>Whatever precedes a suffix without a slash, the joined path ends in it.\<close>

lemma last_Split_suffix: "CHR ''/'' \<notin> set suf \<Longrightarrow> \<exists>z. last (Split (x @ suf) (CHR ''/'')) = z @ suf"
proof (induction x)
  case Nil
  then show ?case by (simp add: Split_sepfree)
next
  case (Cons a x)
  then obtain z where z: "last (Split (x @ suf) (CHR ''/'')) = z @ suf" by blast
  then show ?case
    using Split_not_Nil [of "x @ suf" "CHR ''/''"]
    by (cases "Split (x @ suf) (CHR ''/'')") (auto intro: exI [of _ "a # z"])
qed

lemma last_joinPath:
  assumes "CHR ''/'' \<notin> set suf" and "c \<in> set suf" and "c \<noteq> CHR ''.''"
  shows "\<exists>z. last (joinPath d (x @ suf)) = z @ suf"
proof -
  obtain z where z: "last (Split (x @ suf) (CHR ''/'')) = z @ suf" using last_Split_suffix [OF assms(1)] by blast
  obtain ws w where s: "Split (x @ suf) (CHR ''/'') = ws @ [w]" by (metis append_butlast_last_id Split_not_Nil)
  have w: "w = z @ suf" using s z by simp
  have "w \<noteq> []" "w \<noteq> ''.''" "w \<noteq> ''..''"
    using w assms(2,3) by (auto simp: append_eq_Cons_conv dest!: arg_cong [where f = set])
  then show ?thesis using w by (auto simp: joinPath_def s)
qed

text \<open>The manifest file of an add-on is none of the files named after a suffix of the daemon.\<close>

definition manifestAt :: "path \<Rightarrow> path" where
  "manifestAt loc = loc @ [UcImageManifestFilename]"

lemma manifest_suffix:
  assumes "CHR ''/'' \<notin> set suf" and "c \<in> set suf" and "c \<noteq> CHR ''.''" and "\<And>z. z @ suf \<noteq> UcImageManifestFilename"
  shows "joinPath d (x @ suf) \<noteq> manifestAt loc"
proof
  assume "joinPath d (x @ suf) = manifestAt loc"
  then show False using last_joinPath [OF assms(1-3), of d x] assms(4) by (simp add: manifestAt_def) metis
qed

lemma no_dash: "CHR ''-'' \<notin> set UcImageManifestFilename"
  by (simp add: UcImageManifestFilename_def)

lemma dash_suffix: "CHR ''-'' \<in> set suf \<Longrightarrow> z @ suf \<noteq> UcImageManifestFilename"
  using no_dash by (metis UnCI set_append)

lemma conf_suffix: "z @ ''.http.conf'' \<noteq> UcImageManifestFilename"
  by (rule notI, drule arg_cong [where f = last]) (simp add: UcImageManifestFilename_def)

lemma routePaths_avoid: "p \<in> set (routePaths r i) \<Longrightarrow> p \<noteq> manifestAt loc"
proof -
  have "getFilepath d i \<noteq> manifestAt loc" "getMapFilepath d i \<noteq> manifestAt loc" for d
    using manifest_suffix [of "''.http.conf''" "CHR ''h''" d i loc, OF _ _ _ conf_suffix]
      manifest_suffix [of "''-proxy.map''" "CHR ''-''" d i loc, OF _ _ _ dash_suffix]
    by (simp_all add: getFilepath_def getMapFilepath_def)
  then have "list_all (\<lambda>p. p \<noteq> manifestAt loc) (routePaths r i)"
    by (simp add: routePaths_def getSitesAvailableFilepath_def getSitesEnabledFilepath_def getRoutesMapAvailableFilepath_def
        getRoutesMapEnabledFilepath_def)
  then show "p \<in> set (routePaths r i) \<Longrightarrow> p \<noteq> manifestAt loc" by (simp add: list_all_iff)
qed

lemma permission_avoids: "getPermissionsFilepath w i \<noteq> manifestAt loc"
  using manifest_suffix [of "''-proxy.json''" "CHR ''-''" _ i loc, OF _ _ _ dash_suffix]
  by (simp add: getPermissionsFilepath_def iam_getFilepath_def)

lemma Ext_no_slash: "CHR ''/'' \<notin> set (Ext f)"
  using set_takeWhileD by (fastforce simp: Ext_def Let_def)

lemma logo_avoids: "CHR ''/'' \<notin> set hash \<Longrightarrow> joinPath d (addHashToFilename f hash) \<noteq> manifestAt loc"
  using manifest_suffix [of "''-'' @ hash @ Ext f" "CHR ''-''" d "take (length f - length (Ext f)) f" loc, OF _ _ _ dash_suffix]
    Ext_no_slash [of f] by (simp add: addHashToFilename_def Let_def)

section \<open>The calls of the service\<close>

text \<open>The manifest file of the add-on at \<open>loc\<close> on the state of the device.\<close>

definition apart :: "path \<Rightarrow> ('r, 'd) world \<Rightarrow> ('r, 'd) world \<Rightarrow> bool" where
  "apart loc w w' \<longleftrightarrow> untouched (manifestAt loc) (files w) (files w')"

interpretation apart: step_relation "apart loc"
  by unfold_locales (auto simp: apart_def intro: untouched.R_refl untouched.R_trans)

lemma apart_same: "same files w w' \<Longrightarrow> apart loc w w'"
  using untouched.R_refl by (simp add: same_def apart_def)

lemma keeps_apart_same: "keeps (same files) m \<Longrightarrow> keeps (apart loc) m"
  unfolding keeps_def using apart_same by blast

lemma keeps_apart_docker: "keeps (apart loc) (onDocker m)"
  by (intro keeps_apart_same keeps_onDocker)

lemma keeps_apart_files: "keeps (untouched (manifestAt loc)) m \<Longrightarrow> keeps (apart loc) (onFiles m)"
  by (simp add: keeps_def apart_def onFiles_run)

lemma keeps_untouched_reload: "keeps (untouched P) (reload r)"
  using untouched.R_refl by (auto simp: keeps_def reload_def split: reloadOutcome.splits)

lemma routePath_members:
  "getSitesAvailableFilepath r i \<in> set (routePaths r i)" "getSitesEnabledFilepath r i \<in> set (routePaths r i)"
  "getRoutesMapAvailableFilepath r i \<in> set (routePaths r i)" "getRoutesMapEnabledFilepath r i \<in> set (routePaths r i)"
  by (simp_all add: routePaths_def)

lemmas routePath_avoid = routePath_members [THEN routePaths_avoid]

lemma keeps_apart_routes:
  assumes "daemonProxy (svc_reverseProxy s)"
  shows "keeps (apart loc) (createProxyRoutes s name title perm routes)" and "keeps (apart loc) (deleteProxyRoutes s name routes)"
proof -
  have "keeps (untouched (manifestAt loc)) (reverseProxy_Create (svc_reverseProxy s) i m h)"
    "keeps (untouched (manifestAt loc)) (reverseProxy_Delete (svc_reverseProxy s) i)" for i m h
    using assms
    by (auto simp: daemonProxy_def reverseProxy_Create_def reverseProxy_Delete_def Let_def createSymbolicLink_def routePath_avoid
        intro!: untouched.keeps_tryM keeps_untouched_reload keeps_untouched_write keeps_untouched_deleteFile
          keeps_untouched_osSymlink)
  then show "keeps (apart loc) (createProxyRoutes s name title perm routes)" "keeps (apart loc) (deleteProxyRoutes s name routes)"
    by (auto simp: createProxyRoutes_def deleteProxyRoutes_def Let_def intro!: apart.keeps_eachM keeps_apart_files)
qed

lemma keeps_apart_permission:
  assumes "daemonWriter (svc_iamPermissionWriter s)"
  shows "keeps (apart loc) (createIamPermission s i title)" and "keeps (apart loc) (deleteIamPermission s i)"
  using assms
  by (auto simp: createIamPermission_def deleteIamPermission_def iam_Create_def iam_Delete_def daemonWriter_def permission_avoids
      intro!: keeps_apart_files keeps_untouched_write keeps_untouched_deleteFile)

lemma keeps_apart_stack:
  "keeps (apart loc) (CreateStackWithDockerCompose (worldStack a) n y)" "keeps (apart loc) (DeleteAddOnStack (worldStack a) n)"
  "keeps (apart loc) (DeleteDockerImages (worldStack a) rs)" "keeps (apart loc) (ImportDockerImage (worldStack a) i)"
  "keeps (apart loc) (RemoveUnusedVolumes (worldStack a) n vs)"
  by (simp_all add: worldStack_def keeps_apart_docker)

text \<open>The directory \<open>d\<close> is neither above nor below the manifest file of the add-on at \<open>loc\<close>.\<close>

definition aside :: "path \<Rightarrow> path \<Rightarrow> bool" where
  "aside loc d \<longleftrightarrow> \<not> prefix d (manifestAt loc) \<and> \<not> prefix (manifestAt loc) d"

lemma keeps_apart_layer:
  assumes "aside loc d" and "\<forall>x h. sha1 x = Ok h \<longrightarrow> CHR ''/'' \<notin> set h"
  shows "keeps (untouched (manifestAt loc)) (WriteUcManifestContentToDestination sha1 rd d)"
proof -
  let ?P = "manifestAt loc"
  have "d @ [UcImageManifestFilename] \<noteq> ?P" using assms(1) by (metis aside_def prefixI)
  then have m: "joinPath d UcImageManifestFilename \<noteq> ?P" by (simp add: manifest_segment)
  have w: "keeps (untouched ?P) (writeOrRemove d (WriteFileToDestination f x d))" if "joinPath d f \<noteq> ?P" for f x
    using that assms(1) keeps_untouched_write(1) [OF that]
    by (auto simp: writeOrRemove_def WriteFileToDestination_def aside_def
        intro!: untouched.keeps_rules keeps_untouched_osRemoveAll split: sum.splits)
  have l: "CHR ''/'' \<notin> set h" if "GetShortHashFromWithCustomHashFunc sha1 x = Ok h" for x h
    using that assms(2) by (auto simp: GetShortHashFromWithCustomHashFunc_def bind_res_Ok_iff split: if_splits dest: in_set_takeD)
  have mk: "keeps (untouched ?P) (MkDirAll d)" using assms(1) by (intro keeps_untouched_MkDirAll) (simp add: aside_def)
  show ?thesis
    unfolding WriteUcManifestContentToDestination_def
  proof (rule untouched.keeps_tryM [OF untouched.keeps_pure(4)])
    fix layer
    show "keeps (untouched ?P) (tryM (liftR (GetShortHashFromWithCustomHashFunc sha1 (mlc_Logo layer)))
      (\<lambda>hash. let newLogoName = addHashToFilename (mlc_LogoName layer) hash
        in tryM (liftR (changeLogoInManifest (mlc_Manifest layer) newLogoName)) (\<lambda>manifestRawChanged.
           tryM (MkDirAll d) (\<lambda>_.
           tryM (writeOrRemove d (WriteFileToDestination UcImageManifestFilename manifestRawChanged d)) (\<lambda>_.
           writeOrRemove d (WriteFileToDestination newLogoName (mlc_Logo layer) d))))))"
      by (cases "GetShortHashFromWithCustomHashFunc sha1 (mlc_Logo layer)")
        (auto simp: Let_def tryM_pure logo_avoids [OF l] keeps_def [of _ "tryM (liftR (Err _)) _"]
          keeps_def [of _ "tryM (liftR (Panic _)) _"] tryM_def [of "liftR (Err _)"] tryM_def [of "liftR (Panic _)"] untouched.R_refl
          intro!: untouched.keeps_tryM untouched.keeps_pure mk w m)
  qed
qed

interpretation apartOnDevice: device_relation "apart loc"
  by unfold_locales (rule apart_same)

section \<open>The catalogue of installed add-ons\<close>

lemma keeps_apart_action:
  assumes "aside loc d" and "\<forall>x h. sha1 x = Ok h \<longrightarrow> CHR ''/'' \<notin> set h"
  shows "keeps (apart loc) (accumulatorAction sha1 d rd mt)"
  unfolding accumulatorAction_def
  using keeps_apart_files [OF keeps_apart_layer [OF assms]]
  by (auto simp: apart_same same_def intro!: apart.keeps_modifyM apart.keeps_ignoreM)

text \<open>What the catalogue must be for the add-on at \<open>loc\<close> to be safe from the add-on \<open>n\<close>.\<close>

definition separate :: "('r, 'd) localAddOnCatalogue \<Rightarrow> string \<Rightarrow> path \<Rightarrow> bool" where
  "separate c n loc \<longleftrightarrow>
     pulling_registry (lc_registry c) \<and> (\<forall>x h. lc_sha1 c x = Ok h \<longrightarrow> CHR ''/'' \<notin> set h) \<and>
     (\<forall>fs. aside loc (lc_tempName c fs)) \<and> aside loc (getInstallLocation c n)"

lemma keeps_apart_pull:
  assumes "separate c n loc" and "aside loc d"
  shows "keeps (apart loc) (Pull (lc_registry c) n v (NewAcceptAllManifestLayerProcessor (accumulatorAction (lc_sha1 c) d)))"
    and "keeps (apart loc) (Pull (lc_registry c) n v (NewUcImageLayerProcessor (accumulatorAction (lc_sha1 c) d)))"
  using assms
  by (auto simp: separate_def NewAcceptAllManifestLayerProcessor_def NewUcImageLayerProcessor_def
      intro!: pulling_registry.pull_frame apartOnDevice.device_relation_axioms keeps_apart_action)

lemma keeps_apart_catalogue:
  assumes "separate c n loc"
  shows "keeps (apart loc) (PullAddOn (NewLocalAddOnCatalogue c) n v)"
    and "keeps (apart loc) (lcat_DeleteAddOn (NewLocalAddOnCatalogue c) n)"
    and "keeps (apart loc) (lcat_GetAddOn (NewLocalAddOnCatalogue c) m)"
proof -
  have a: "aside loc (getInstallLocation c n)" using assms by (simp add: separate_def)
  have get: "keeps (apart loc) (local_GetAddOn c m)" for m
    by (rule keeps_imp [OF keeps_local_GetAddOn]) (simp add: apart.R_refl)
  have del: "keeps (apart loc) (onFiles (osRemoveAll (getInstallLocation c n)))"
    using a by (intro keeps_apart_files keeps_untouched_osRemoveAll) (simp add: aside_def)
  show "keeps (apart loc) (lcat_GetAddOn (NewLocalAddOnCatalogue c) m)" by (simp add: NewLocalAddOnCatalogue_def get)
  show "keeps (apart loc) (lcat_DeleteAddOn (NewLocalAddOnCatalogue c) n)"
    by (simp add: NewLocalAddOnCatalogue_def local_DeleteAddOn_def del)
  show "keeps (apart loc) (PullAddOn (NewLocalAddOnCatalogue c) n v)"
    using keeps_apart_pull(1) [OF assms a]
    by (auto simp: NewLocalAddOnCatalogue_def local_PullAddOn_def Let_def apart_same same_def
        intro!: apart.keeps_tryM del get apart.keeps_pure apart.keeps_modifyM)
qed

lemma keeps_apart_FetchManifest:
  fixes c :: "('r, 'd) localAddOnCatalogue"
  assumes "separate c n loc"
  shows "keeps (apart loc) (FetchManifest (NewLocalAddOnCatalogue c) n v)"
  unfolding keeps_def
proof
  fix w :: "('r, 'd) world"
  let ?d = "lc_tempName c (files w)"
  have d: "aside loc ?d" using assms by (simp add: separate_def)
  let ?k = "\<lambda>dir. deferM (onFiles (osRemoveAll dir))
       (tryM (Pull (lc_registry c) n v (NewUcImageLayerProcessor (accumulatorAction (lc_sha1 c) dir))) (\<lambda>_.
        onFiles (ReadManifestFrom dir)))"
  have rm: "keeps (apart loc) (onFiles (osRemoveAll ?d))"
    using d by (intro keeps_apart_files keeps_untouched_osRemoveAll) (simp add: aside_def)
  have "keeps (apart loc) (?k ?d)"
    by (intro apart.keeps_deferM apart.keeps_tryM rm keeps_apart_pull(2) [OF assms d] keeps_apart_files
        keeps_untouched_reads keeps_ReadManifestFrom)
  moreover have "?d \<noteq> []" "?d \<noteq> manifestAt loc" using d by (auto simp: aside_def)
  then have "apart loc w (snd (onFiles (mkdirTemp (lc_tempName c)) w))"
    using untouched_setNode [of ?d "manifestAt loc" Dir] untouched.R_refl
    by (auto simp: onFiles_run mkdirTemp_def Let_def apart_def)
  moreover have "fst (onFiles (mkdirTemp (lc_tempName c)) w) = Ok x \<Longrightarrow> x = ?d" for x
    by (auto simp: onFiles_run mkdirTemp_def Let_def split: if_splits)
  ultimately show "apart loc w (snd (FetchManifest (NewLocalAddOnCatalogue c) n v w))"
    by (auto simp: NewLocalAddOnCatalogue_def local_FetchManifest_def tryM_def [of "onFiles (mkdirTemp _)"] keeps_def
        split: prod.splits res.splits intro: apart.R_trans)
qed

section \<open>The routines\<close>

text \<open>A routine keeps \<open>P\<close>, and so do all hooks it subscribes.\<close>

definition hooksApart :: "path \<Rightarrow> ('r, 'd) world txState \<Rightarrow> ('r, 'd) world txState \<Rightarrow> bool" where
  "hooksApart loc st st' \<longleftrightarrow> apart loc (st_world st) (st_world st') \<and>
     (list_all (keeps (apart loc)) (rollbackHooks (st_tx st)) \<longrightarrow> list_all (keeps (apart loc)) (rollbackHooks (st_tx st')))"

interpretation hooksApart: step_relation "hooksApart loc"
  by unfold_locales (auto simp: hooksApart_def apart.R_refl intro: apart.R_trans)

lemma keeps_hooksApart:
  "keeps (apart loc) m \<Longrightarrow> keeps (hooksApart loc) (onWorld m)"
  "keeps (apart loc) h \<Longrightarrow> keeps (hooksApart loc) (subscribe_hook h)"
  "keeps (hooksApart loc) (onTx (setAddOnContext n t op))"
  by (auto simp: keeps_def hooksApart_def onWorld_run subscribe_hook_def onTx_run SubscribeRollbackHook_def apart.R_refl
      setAddOnContext_def)

text \<open>A service as the daemon builds it, whose catalogue keeps the add-on at \<open>loc\<close> apart from \<open>n\<close>.\<close>

definition daemonService :: "('r, 'd) AomService \<Rightarrow> ('r, 'd) localAddOnCatalogue \<Rightarrow> string \<Rightarrow> path \<Rightarrow> bool" where
  "daemonService s c n loc \<longleftrightarrow>
     svc_localCatalogue s = NewLocalAddOnCatalogue c \<and> (\<exists>a. svc_stackService s = worldStack a) \<and>
     daemonProxy (svc_reverseProxy s) \<and> daemonWriter (svc_iamPermissionWriter s) \<and>
     (\<forall>n. keeps (same files) (svc_GetAddOnEnvironment s n)) \<and> separate c n loc"

lemma keeps_apart_service:
  assumes "daemonService s c n loc"
  shows "keeps (apart loc) (PullAddOn (svc_localCatalogue s) n v)"
    and "keeps (apart loc) (lcat_DeleteAddOn (svc_localCatalogue s) n)"
    and "keeps (apart loc) (lcat_GetAddOn (svc_localCatalogue s) m)"
    and "keeps (apart loc) (FetchManifest (svc_localCatalogue s) n v)"
    and "keeps (apart loc) (createProxyRoutes s name title perm routes)"
    and "keeps (apart loc) (deleteProxyRoutes s name routes)"
    and "keeps (apart loc) (createIamPermission s i title)"
    and "keeps (apart loc) (deleteIamPermission s i)"
    and "keeps (apart loc) (CreateStackWithDockerCompose (svc_stackService s) m y)"
    and "keeps (apart loc) (DeleteAddOnStack (svc_stackService s) m)"
    and "keeps (apart loc) (DeleteDockerImages (svc_stackService s) rs)"
    and "keeps (apart loc) (ImportDockerImage (svc_stackService s) rd)"
    and "keeps (apart loc) (removeUnusedVolumes s a)"
    and "keeps (apart loc) (svc_GetAddOnEnvironment s m)"
  using assms
  by (auto simp: daemonService_def removeUnusedVolumes_def keeps_apart_catalogue keeps_apart_FetchManifest keeps_apart_routes
      keeps_apart_permission keeps_apart_stack keeps_apart_same)

lemma keeps_apart_stackHook:
  assumes "daemonService s c n loc"
  shows "keeps (apart loc) (stackHook s a)"
  unfolding stackHook_def
  by (intro apart.keeps_tryM apart.keeps_ignoreM keeps_apart_service [OF assms])

lemma keeps_hooksApart_Create:
  assumes "daemonService s c n loc"
  shows "keeps (hooksApart loc) (CreateAddOnRoutine s n v settings)"
proof -
  note k = keeps_apart_service [OF assms]
  have i: "keeps (apart loc) (isAddOnInstalled s n)"
    unfolding isAddOnInstalled_def
    by (auto intro!: apart.keeps_tryM apart.keeps_attemptM apart.keeps_pure k split: sum.splits goerror.splits)
  have p: "keeps (hooksApart loc) (installPulled s n v settings)"
    unfolding installPulled_def Let_def
    by (intro hooksApart.keeps_tryM hooksApart.keeps_pure keeps_hooksApart apart.keeps_ignoreM apart.keeps_eachM k
        keeps_apart_stackHook [OF assms])
  show ?thesis
    unfolding CreateAddOnRoutine_def
    by (intro hooksApart.keeps_tryM hooksApart.keeps_if hooksApart.keeps_pure keeps_hooksApart apart.keeps_ignoreM i p k)
qed

lemma keeps_apart_delete:
  assumes "daemonService s c n loc" and "ca_Name a = n"
  shows "keeps (apart loc) (deleteAddOnWithVolumes s a)" and "keeps (apart loc) (deleteAddOnExceptVolumes s a)"
  unfolding deleteAddOnWithVolumes_def deleteAddOnExceptVolumes_def deleteAddOnResources_def assms(2)
  by (intro apart.keeps_tryM apart.keeps_pure keeps_apart_service [OF assms(1)])+

text \<open>The add-on that was looked up has the name that was asked for.\<close>

lemma keeps_hooksApart_lookup:
  assumes "daemonService s c n loc" and "\<And>a. ca_Name a = n \<Longrightarrow> keeps (hooksApart loc) (k a)"
  shows "keeps (hooksApart loc) (tryM (onWorld (lcat_GetAddOn (svc_localCatalogue s) n)) k)"
  unfolding keeps_def
proof
  fix st
  have c: "svc_localCatalogue s = NewLocalAddOnCatalogue c" using assms(1) by (simp add: daemonService_def)
  have g: "onWorld (lcat_GetAddOn (svc_localCatalogue s) n) st = (fst (local_GetAddOn c n (st_world st)), st)"
    using c by (simp add: onWorld_run NewLocalAddOnCatalogue_def)
  show "hooksApart loc st (snd (tryM (onWorld (lcat_GetAddOn (svc_localCatalogue s) n)) k st))"
    using local_GetAddOn_OkD(2) [of c n "st_world st"] assms(2)
    by (cases "fst (local_GetAddOn c n (st_world st))") (simp_all add: tryM_def g keeps_def hooksApart.R_refl)
qed

lemma keeps_hooksApart_Delete:
  assumes "daemonService s c n loc"
  shows "keeps (hooksApart loc) (DeleteAddOnRoutine s n)"
  unfolding DeleteAddOnRoutine_def
  by (intro hooksApart.keeps_if hooksApart.keeps_pure keeps_hooksApart_lookup [OF assms] hooksApart.keeps_tryM keeps_hooksApart
      keeps_apart_delete [OF assms])

lemma keeps_hooksApart_Replace:
  assumes "daemonService s c n loc"
  shows "keeps (hooksApart loc) (ReplaceAddOnRoutine s n v settings)"
proof -
  note k = keeps_apart_service [OF assms]
  have set: "keeps (apart loc) (updateSettings s n m ss)" for m ss
    unfolding updateSettings_def Let_def by (intro apart.keeps_if apart.keeps_tryM apart.keeps_pure k)
  have conf: "keeps (hooksApart loc) (configureAction s a settings)" for a
    unfolding configureAction_def
    by (intro hooksApart.keeps_tryM hooksApart.keeps_pure keeps_hooksApart k keeps_apart_stackHook [OF assms])
  have upd: "keeps (hooksApart loc) (updateAction s a v settings)" if "ca_Name a = n" for a
    unfolding updateAction_def that
    by (intro hooksApart.keeps_tryM hooksApart.keeps_pure keeps_hooksApart set k keeps_apart_delete(2) [OF assms that]
        keeps_hooksApart_Create [OF assms])
  show ?thesis
    unfolding ReplaceAddOnRoutine_def
    by (intro hooksApart.keeps_if hooksApart.keeps_pure keeps_hooksApart_lookup [OF assms] hooksApart.keeps_tryM keeps_hooksApart
        conf upd)
qed

section \<open>Properties\<close>

text \<open>With an untouched manifest file the look-up gives what it gave.\<close>

lemma apart_GetAddOn:
  assumes "apart (getInstallLocation c m) w w'" and "unlinked (manifestAt (getInstallLocation c m)) (files w)"
    and "\<forall>t. node (files w) (manifestAt (getInstallLocation c m)) \<noteq> Some (Link t)"
  shows "fst (local_GetAddOn c m w') = fst (local_GetAddOn c m w)"
  using assms
  by (intro GetAddOn_single) (auto simp: apart_def untouched_def manifestAt_def)

lemma keeps_apart_rollback:
  assumes "list_all (keeps (apart loc)) (rollbackHooks (st_tx st))"
  shows "apart loc (st_world st) (st_world (snd (rollback st)))"
proof -
  have "keeps (apart loc) (eachM ignoreM (rev (rollbackHooks (st_tx st))))"
    using assms by (intro apart.keeps_eachM apart.keeps_ignoreM) (simp add: list_all_iff)
  from keepsD [OF this, of "st_world st"] show ?thesis
    by (auto simp: rollback_def tryM_def onWorld_run apart.R_refl split: prod.splits res.splits)
qed

text \<open>
  C7. The other add-ons stay installed: whatever version, settings and package a routine is called with, however it
  ends and also after a rollback, an add-on whose manifest file is neither below the directory of the named add-on nor
  above it is found exactly as before. No name of a logo, no id of a route and no title can be chosen so that the
  files they lead to are the manifest of another add-on.
\<close>

theorem other_addons_stay_installed:
  assumes "daemonService s c n (getInstallLocation c m)"
    and "unlinked (manifestAt (getInstallLocation c m)) (files w)"
    and "\<forall>t. node (files w) (manifestAt (getInstallLocation c m)) \<noteq> Some (Link t)"
    and "routine \<in> {CreateAddOnRoutine s n v settings, ReplaceAddOnRoutine s n v settings, DeleteAddOnRoutine s n}"
    and "routine \<lparr>st_tx = BeginTx, st_world = w\<rparr> = (r, st)"
  shows "fst (local_GetAddOn c m (st_world st)) = fst (local_GetAddOn c m w)
    \<and> fst (local_GetAddOn c m (st_world (snd (rollback st)))) = fst (local_GetAddOn c m w)"
proof -
  let ?loc = "getInstallLocation c m"
  have "keeps (hooksApart ?loc) routine"
    using assms(4) keeps_hooksApart_Create [OF assms(1)] keeps_hooksApart_Replace [OF assms(1)] keeps_hooksApart_Delete [OF assms(1)]
    by auto
  from keeps_run [OF this assms(5)] have a: "apart ?loc w (st_world st)"
    and h: "list_all (keeps (apart ?loc)) (rollbackHooks (st_tx st))" by (simp_all add: hooksApart_def BeginTx_def)
  from a keeps_apart_rollback [OF h] have "apart ?loc w (st_world (snd (rollback st)))" by (rule apart.R_trans)
  then show ?thesis using a apart_GetAddOn [OF _ assms(2,3)] by blast
qed

text \<open>A device with the add-on \<open>tool\<close>, on which \<open>app\<close> is installed.\<close>

definition deviceWithTool :: "(unit, miniDocker) world" where
  "deviceWithTool =
     deviceWorld [([''inst'', ''tool''], Dir),
       ([''inst'', ''tool'', UcImageManifestFilename], File (mlc_Manifest sampleLayerContent))]"

lemma manifestRegistry_pulls: "pulling_registry (manifestRegistry :: ('r, 'd) world AddOnRegistry)"
proof unfold_locales
  show "keeps (same files) (Repositories (manifestRegistry :: ('r, 'd) world AddOnRegistry))"
    "keeps (same files) (Tags (manifestRegistry :: ('r, 'd) world AddOnRegistry) n)" for n
    by (simp_all add: manifestRegistry_def same.keeps_pure)
  fix R :: "('r, 'd) world \<Rightarrow> ('r, 'd) world \<Rightarrow> bool" and p :: "('r, 'd) world Processor" and n v
  assume R: "device_relation R" and a: "\<And>rd mt. keeps R (Action p rd mt)"
  have s: "step_relation R" using R by (simp add: device_relation_def)
  show "keeps R (Pull manifestRegistry n v p)"
    by (simp add: manifestRegistry_def step_relation.keeps_tryM [OF s] a step_relation.keeps_pure [OF s])
qed

lemma sample_separate:
  "daemonService sampleService sampleCatalogue ''app''
     (getInstallLocation (sampleCatalogue :: (unit, miniDocker) localAddOnCatalogue) ''tool'')"
proof -
  have loc: "getInstallLocation (sampleCatalogue :: (unit, miniDocker) localAddOnCatalogue) n = joinPath [''inst''] n" for n
    by (simp add: getInstallLocation_def sampleCatalogue_def)
  have a: "aside (joinPath [''inst''] ''tool'') (joinPath [''inst''] ''app'')" "aside (joinPath [''inst''] ''tool'') [''tmp'', ''1-manifest'']"
    by code_simp+
  show ?thesis
    using a manifestRegistry_pulls
    by (auto simp: loc daemonService_def separate_def sampleService_def sampleCatalogue_def getInstallLocation_def
        daemonProxy_def sampleProxy_def NewReverseProxy_def daemonWriter_def NewIamPermissionWriter_def same.keeps_pure)
qed

theorem other_addons_stay_installed_witness:
  "let st = snd (CreateAddOnRoutine sampleService ''app'' ''1.0.0-1'' [] \<lparr>st_tx = BeginTx, st_world = deviceWithTool\<rparr>)
   in is_ok (fst (local_GetAddOn sampleCatalogue ''tool'' (st_world st)))
      \<and> is_ok (fst (local_GetAddOn sampleCatalogue ''tool'' (st_world (snd (rollback st)))))"
proof -
  let ?c = "sampleCatalogue :: (unit, miniDocker) localAddOnCatalogue"
  let ?routine = "CreateAddOnRoutine sampleService ''app'' ''1.0.0-1'' []"
  obtain r st where run: "?routine \<lparr>st_tx = BeginTx, st_world = deviceWithTool\<rparr> = (r, st)" by fastforce
  have loc: "manifestAt (getInstallLocation ?c ''tool'') = [''inst'', ''tool'', UcImageManifestFilename]" by code_simp
  have u: "unlinked (manifestAt (getInstallLocation ?c ''tool'')) (files deviceWithTool)"
    by (auto simp: unlinked_def deviceWithTool_def deviceWorld_def node_def dest: map_of_SomeD)
  have p: "\<forall>t. node (files deviceWithTool) (manifestAt (getInstallLocation ?c ''tool'')) \<noteq> Some (Link t)"
    unfolding loc by (simp add: deviceWithTool_def deviceWorld_def node_def UcImageManifestFilename_def)
  have "is_ok (fst (local_GetAddOn ?c ''tool'' deviceWithTool))" by code_simp
  with other_addons_stay_installed [of sampleService ?c "''app''" "''tool''" deviceWithTool ?routine "''1.0.0-1''" "[]" r st,
      OF sample_separate u p _ run] run
  show ?thesis by simp
qed

section \<open>The directory a name leads to\<close>

lemma unknown_pull:
  assumes "lc_registry c = NewCodeNameAdapterRegistry (NewORASAddOnRegistry overflow r)"
    and "fst (oras_Repositories r (remote w)) = Ok rs" and "n \<notin> NormalizeCodeName ` set rs"
    and "\<forall>q. prefix (getInstallLocation c n) q \<longrightarrow> \<not> faulty (files w) OpRemove q"
  shows "\<exists>w'. local_PullAddOn c n v w = (Err (ErrorString ''Not Found''), w')
    \<and> files w' = delTree (getInstallLocation c n) (files w)"
proof -
  have rm: "osRemoveAll (getInstallLocation c n) (files w) = (Ok (), delTree (getInstallLocation c n) (files w))"
    using assms(4) by (intro osRemoveAll_deletes deletable_tree) blast
  have "find (\<lambda>x. NormalizeCodeName x = n) rs = None" using assms(3) by (auto simp: find_None_iff)
  then show ?thesis
    using assms(1,2)
    by (simp add: local_PullAddOn_def Let_def tryM_def onFiles_run rm modifyM_def NewCodeNameAdapterRegistry_def codeName_Pull_def
        getRepositoryWithCodeName_def NewORASAddOnRegistry_def onRemote_run)
qed

lemma unknown_install:
  assumes "svc_localCatalogue s = NewLocalAddOnCatalogue c" and "fst (local_GetAddOn c n w) = Err ErrorAddOnNotFound"
    and "local_PullAddOn c n v w = (Err e, w')"
  shows "CreateAddOnRoutine s n v settings \<lparr>st_tx = BeginTx, st_world = w\<rparr> =
    (Err e, \<lparr>st_tx = BeginTx\<lparr>rollbackHooks := [ignoreM (lcat_DeleteAddOn (svc_localCatalogue s) n)]\<rparr>, st_world = w'\<rparr>)"
  using assms(3) isAddOnInstalled_run [OF assms(1), of n w] assms(1,2)
  by (simp add: CreateAddOnRoutine_def installPulled_def Let_def tryM_def onWorld_run subscribe_hook_def onTx_run
      SubscribeRollbackHook_def modifyM_def BeginTx_def NewLocalAddOnCatalogue_def)

lemma delTree_twice [simp]: "delTree p (delTree p fs) = delTree p fs"
  by (simp add: delTree_def)

lemma osRemoveAll_deleted: "osRemoveAll p (delTree p fs) = (Ok (), delTree p fs)"
  by (auto simp: osRemoveAll_def undeletable_def list_ex_iff delTree_def)

definition nameless :: GrpcAddOn where
  "nameless = emptyAddOn\<lparr>ga_Version := ''1.0.0-1''\<rparr>"

text \<open>
  C8. A permitted request to install an add-on no registry has is answered with \<^verbatim>\<open>Not Found\<close>, but first everything below
  the path its name leads to is deleted, and nothing checks the name: the empty name leads to the directory of all
  installed add-ons, and dots lead above it.
\<close>

theorem unknown_name_deletes_its_directory:
  assumes "svc_localCatalogue (srv_service s) = NewLocalAddOnCatalogue c"
    and "lc_registry c = NewCodeNameAdapterRegistry (NewORASAddOnRegistry overflow r)"
    and "isAllowedToManageAddons s ctx = Ok True" and "\<not> IsTransactionOpen (scheduled d)"
    and "fst (local_GetAddOn c (ga_Name a) (daemon_world d)) = Err ErrorAddOnNotFound"
    and "fst (oras_Repositories r (remote (daemon_world d))) = Ok rs" and "ga_Name a \<notin> NormalizeCodeName ` set rs"
    and "\<forall>q. prefix (getInstallLocation c (ga_Name a)) q \<longrightarrow> \<not> faulty (files (daemon_world d)) OpRemove q"
  shows "\<exists>d'. handle_CreateAddOn s ctx (Some a) d = (Err (status_Error FailedPrecondition ''Not Found''), d')
    \<and> files (daemon_world d') = delTree (getInstallLocation c (ga_Name a)) (files (daemon_world d))
    \<and> (\<forall>m x. prefix (getInstallLocation c (ga_Name a)) (getInstallLocation c m) \<longrightarrow>
         fst (local_GetAddOn c m (daemon_world d')) \<noteq> Ok x)"
proof -
  let ?n = "ga_Name a" and ?v = "ga_Version a" and ?ss = "mapGrpcSettingToSetting (ga_Settings a)"
  let ?loc = "getInstallLocation c ?n" and ?w = "daemon_world d"
  obtain w' where pull: "local_PullAddOn c ?n ?v ?w = (Err (ErrorString ''Not Found''), w')" and w': "files w' = delTree ?loc (files ?w)"
    using unknown_pull [OF assms(2,6,7,8)] by blast
  let ?h = "ignoreM (lcat_DeleteAddOn (NewLocalAddOnCatalogue c) ?n)"
  let ?st = "\<lparr>st_tx = BeginTx\<lparr>rollbackHooks := [?h]\<rparr>, st_world = w'\<rparr>"
  have run: "CreateAddOnRoutine (srv_service s) ?n ?v ?ss \<lparr>st_tx = BeginTx, st_world = ?w\<rparr> = (Err (ErrorString ''Not Found''), ?st)"
    using unknown_install [OF assms(1,5) pull] assms(1) by simp
  have del: "lcat_DeleteAddOn (NewLocalAddOnCatalogue c) ?n w' = (Ok (), w')"
    using w' by (simp add: NewLocalAddOnCatalogue_def local_DeleteAddOn_def onFiles_run osRemoveAll_deleted)
  have "?h w' = (Ok (), w')" by (rule ignoreM_ended, rule del) (simp add: ended_def)
  then have "ignoreM ?h w' = (Ok (), w')" by (rule ignoreM_ended) (simp add: ended_def)
  then obtain st1 where rb: "Rollback ?st = (Ok (), st1)" "st_world st1 = w'"
    by (simp add: Rollback_def rollback_def BeginTx_def tryM_def onWorld_run modifyM_def)
  have "\<exists>d'. handle_CreateAddOn s ctx (Some a) d = (Err (status_Error FailedPrecondition ''Not Found''), d') \<and> daemon_world d' = w'"
    using assms(3,4) rb
    by (auto simp: handle_CreateAddOn_def tryM_pure inTransaction_def initializeTransaction_def CreateTransaction_def mapErr_def
        attemptM_def inTx_def withRollback_def derefAddOn_def run deferM_def tryM_def split: prod.splits res.splits)
  moreover have "fst (local_GetAddOn c m w') \<noteq> Ok x" if "prefix ?loc (getInstallLocation c m)" for m x
  proof
    assume "fst (local_GetAddOn c m w') = Ok x"
    then have "fst (ReadManifestFrom (getInstallLocation c m) (files w')) = Ok (ca_Manifest x)" by (rule local_GetAddOn_OkD)
    moreover have "node (files w') (getInstallLocation c m @ [UcImageManifestFilename]) = None"
      using that w' by (simp add: node_delTree_below)
    ultimately show False using ReadManifestFrom_missing by blast
  qed
  ultimately show ?thesis using w' by blast
qed

text \<open>Two installed add-ons, a registry that offers a third, and a request that names none.\<close>

definition deviceWithBoth :: "(unit, miniDocker) world" where
  "deviceWithBoth =
     deviceWorld (concat (map (\<lambda>n. [([''inst'', n], Dir),
       ([''inst'', n, UcImageManifestFilename], File (mlc_Manifest sampleLayerContent))]) [''app'', ''tool'']))"

definition remoteRegistry :: "unit ORASAddOnRegistry" where
  "remoteRegistry =
     \<lparr>remoteRepositories = ret [''acme/chart''], remoteTags = (\<lambda>_. ret [''1.0.0-1'']),
      getRepositoryCallback = (\<lambda>_. fail (ErrorString ''unreachable'')), oras_architecture = ''arm'', oras_os = ''linux''\<rparr>"

definition connectedCatalogue :: "(unit, miniDocker) localAddOnCatalogue" where
  "connectedCatalogue =
     sampleCatalogue\<lparr>lc_registry := NewCodeNameAdapterRegistry (NewORASAddOnRegistry (\<lambda>_. 0) remoteRegistry)\<rparr>"

definition connectedServer :: "(unit, miniDocker, nat list) AddOnServer" where
  "connectedServer =
     (sampleServer (\<lambda>jwt. jwt = ''secret''))
       \<lparr>srv_service := sampleService\<lparr>svc_localCatalogue := NewLocalAddOnCatalogue connectedCatalogue\<rparr>\<rparr>"

theorem unknown_name_deletes_its_directory_witness:
  "is_ok (fst (local_GetAddOn connectedCatalogue ''app'' deviceWithBoth))
   \<and> (let (r, d') = handle_CreateAddOn connectedServer sampleCall (Some nameless) (sampleDaemon deviceWithBoth)
      in r = Err (status_Error FailedPrecondition ''Not Found'')
        \<and> \<not> is_ok (fst (local_GetAddOn connectedCatalogue ''app'' (daemon_world d')))
        \<and> \<not> is_ok (fst (local_GetAddOn connectedCatalogue ''tool'' (daemon_world d'))))"
proof -
  let ?d = "sampleDaemon deviceWithBoth"
  have s: "svc_localCatalogue (srv_service connectedServer) = NewLocalAddOnCatalogue connectedCatalogue"
    "lc_registry connectedCatalogue = NewCodeNameAdapterRegistry (NewORASAddOnRegistry (\<lambda>_. 0) remoteRegistry)"
    by (simp_all add: connectedServer_def connectedCatalogue_def)
  have i: "isAllowedToManageAddons connectedServer sampleCall = Ok True" by code_simp
  have o: "\<not> IsTransactionOpen (scheduled ?d)" by (simp add: sampleDaemon_def IsTransactionOpen_def)
  have g: "fst (local_GetAddOn connectedCatalogue (ga_Name nameless) (daemon_world ?d)) = Err ErrorAddOnNotFound" by code_simp
  have rs: "fst (oras_Repositories remoteRegistry (remote (daemon_world ?d))) = Ok [''acme/chart'']" by code_simp
  have n: "ga_Name nameless \<notin> NormalizeCodeName ` set [''acme/chart'']" by code_simp
  have f: "\<forall>q. prefix (getInstallLocation connectedCatalogue (ga_Name nameless)) q \<longrightarrow> \<not> faulty (files (daemon_world ?d)) OpRemove q"
    by (simp add: sampleDaemon_def deviceWithBoth_def deviceWorld_def)
  have l: "list_all (\<lambda>m. prefix (getInstallLocation connectedCatalogue (ga_Name nameless)) (getInstallLocation connectedCatalogue m))
      [''app'', ''tool'']" by code_simp
  have a: "is_ok (fst (local_GetAddOn connectedCatalogue ''app'' deviceWithBoth))" by code_simp
  obtain d' where "handle_CreateAddOn connectedServer sampleCall (Some nameless) ?d = (Err (status_Error FailedPrecondition ''Not Found''), d')"
    and gone: "\<forall>m\<in>{''app'', ''tool''}. \<forall>x. fst (local_GetAddOn connectedCatalogue m (daemon_world d')) \<noteq> Ok x"
    using unknown_name_deletes_its_directory [OF s i o g rs n f] l by auto
  moreover have "\<not> is_ok y" if "\<forall>x. y \<noteq> Ok x" for y :: "CatalogueAddOn res" using that by (cases y) simp_all
  ultimately show ?thesis using a by (simp add: Let_def)
qed

text \<open>
  The logo of a package can still leave the directory of its add-on: the name of the archive's entry is joined to the
  directory as it is. It becomes a file beside the manifest of another add-on, and outlives the deletion of its own.
\<close>

theorem logo_leaves_its_directory:
  "node (snd (WriteUcManifestContentToDestination (\<lambda>_. Ok ''0123456789'')
      (ManifestReader (sampleLayerContent\<lparr>mlc_LogoName := ''../tool/logo.png''\<rparr>)) [''inst'', ''app''] (files deviceWithTool)))
    [''inst'', ''tool'', ''logo-01234.png''] = Some (File (Text ''png''))"
  by code_simp

end
