(* ===== verification/MigratingRegistry.thy ===== *)
theory MigratingRegistry
  imports PackageMigration
begin

text \<open>
  \<^verbatim>\<open>GetRepositoryWithMigration\<close> and \<^verbatim>\<open>NewORASAddOnRegistry\<close> of \<^verbatim>\<open>internal/aom/registry/oras_addon_registry.go\<close>: the
  registry the daemon pulls from. Every repository is wrapped once in the view of \<open>PackageMigration\<close>; the views, with
  the packages they have migrated, live in a map as long as the process does.

  The state is the remote registry and that map. What \<^verbatim>\<open>NewOrasAddonMigrateRepository\<close> needs of third-party code is the
  parameter \<open>proto\<close>, a view whose source is still to be set.
\<close>

section \<open>The map of views\<close>

record ('s, 'm) cachedView =
  cv_repository :: "('s, 'm) orasAddonMigrateRepository"
  cv_storage :: 'm
  cv_descriptors :: "(string \<times> Descriptor) list"

record ('s, 'm) facade =
  fc_source :: 's
  registryFascade :: "(string \<times> ('s, 'm) cachedView) list"

text \<open>What \<^verbatim>\<open>remote.NewRegistry\<close> makes of an address, once its client options are set.\<close>

record 's remoteRegistry =
  rr_Repositories :: "('s, string list) go"
  rr_Tags :: "'s OrasRepository \<Rightarrow> ('s, string list) go"
  rr_Repository :: "string \<Rightarrow> ('s, 's OrasRepository) go"

definition onRegistry :: "('s, 'a) go \<Rightarrow> (('s, 'm) facade, 'a) go" where
  "onRegistry k = onPart fc_source (\<lambda>x f. f\<lparr>fc_source := x\<rparr>) k"

definition viewState :: "('s, 'm) facade \<Rightarrow> ('s, 'm) cachedView \<Rightarrow> ('s, 'm) migState" where
  "viewState f v = \<lparr>ms_source = fc_source f, ms_storage = cv_storage v, dockerImageSourceDescriptorMap = cv_descriptors v\<rparr>"

text \<open>
  A call on the view of a repository. The map holds pointers and nothing is taken out of it again, so the view the
  caller has got is the one under the name.
\<close>

definition onView ::
  "string \<Rightarrow> (('s, 'm) orasAddonMigrateRepository \<Rightarrow> (('s, 'm) migState, 'a) go) \<Rightarrow> (('s, 'm) facade, 'a) go" where
  "onView name k f =
     (case map_of (registryFascade f) name of
        None \<Rightarrow> (Panic ''invalid memory address or nil pointer dereference'', f)
      | Some v \<Rightarrow>
          (case k (cv_repository v) (viewState f v) of
             (r, s) \<Rightarrow> (r, f\<lparr>fc_source := ms_source s, registryFascade := AList.update name
               (v\<lparr>cv_storage := ms_storage s, cv_descriptors := dockerImageSourceDescriptorMap s\<rparr>) (registryFascade f)\<rparr>)))"

definition viewOf :: "string \<Rightarrow> ('s, 'm) facade OrasRepository" where
  "viewOf name =
     \<lparr>repo_Resolve = (\<lambda>tag. onView name (\<lambda>m. repo_Resolve (NewOrasAddonMigrateRepository m) tag)),
      repo_FetchAll = (\<lambda>d. onView name (\<lambda>m. repo_FetchAll (NewOrasAddonMigrateRepository m) d)),
      repo_Fetch = (\<lambda>d. onView name (\<lambda>m. repo_Fetch (NewOrasAddonMigrateRepository m) d)),
      repo_MapDescriptorSize = (\<lambda>f d.
        case map_of (registryFascade f) name of
          Some v \<Rightarrow> repo_MapDescriptorSize (NewOrasAddonMigrateRepository (cv_repository v)) (viewState f v) d
        | None \<Rightarrow> desc_Size d)\<rparr>"

definition GetRepositoryWithMigration ::
  "('s, 'm) orasAddonMigrateRepository \<Rightarrow> 's remoteRegistry \<Rightarrow> string \<Rightarrow>
   (('s, 'm) facade, ('s, 'm) facade OrasRepository) go" where
  "GetRepositoryWithMigration proto registry name =
     tryM (getM (\<lambda>f. map_of (registryFascade f) name)) (\<lambda>target.
     case target of
       Some _ \<Rightarrow> ret (viewOf name)
     | None \<Rightarrow>
         tryM (onRegistry (rr_Repository registry name)) (\<lambda>source.
         let v = \<lparr>cv_repository = proto\<lparr>mr_source := source\<rparr>, cv_storage = memoryNew (mr_target proto), cv_descriptors = []\<rparr>
         in tryM (modifyM (\<lambda>f. f\<lparr>registryFascade := AList.update name v (registryFascade f)\<rparr>)) (\<lambda>_.
            ret (viewOf name))))"

definition getTagsFromRemoteRepository :: "'s remoteRegistry \<Rightarrow> string \<Rightarrow> ('s, string list) go" where
  "getTagsFromRemoteRepository registry name =
     tryM (rr_Repository registry name) (\<lambda>repository. rr_Tags registry repository)"

definition orasRegistryOn ::
  "('s, 'm) orasAddonMigrateRepository \<Rightarrow> 's remoteRegistry \<Rightarrow> string \<Rightarrow> string \<Rightarrow> ('s, 'm) facade ORASAddOnRegistry" where
  "orasRegistryOn proto registry architecture os =
     \<lparr>remoteRepositories = onRegistry (rr_Repositories registry),
      remoteTags = (\<lambda>name. onRegistry (getTagsFromRemoteRepository registry name)),
      getRepositoryCallback = GetRepositoryWithMigration proto registry, oras_architecture = architecture, oras_os = os\<rparr>"

section \<open>Lemmas\<close>

lemma onRegistry_run: "onRegistry k f = (fst (k (fc_source f)), f\<lparr>fc_source := snd (k (fc_source f))\<rparr>)"
  by (simp add: onRegistry_def onPart_def split: prod.splits)

lemma onView_run:
  assumes "map_of (registryFascade f) name = Some v" and "k (cv_repository v) (viewState f v) = (r, s)"
  shows "onView name k f = (r, f\<lparr>fc_source := ms_source s, registryFascade := AList.update name
    (v\<lparr>cv_storage := ms_storage s, cv_descriptors := dockerImageSourceDescriptorMap s\<rparr>) (registryFascade f)\<rparr>)"
  using assms by (simp add: onView_def)

text \<open>A name that has been asked for is in the map, and is not asked for again.\<close>

lemma cached_repository:
  "map_of (registryFascade f) name = Some v \<Longrightarrow> GetRepositoryWithMigration proto registry name f = (Ok (viewOf name), f)"
  by (simp add: GetRepositoryWithMigration_def tryM_def getM_def)

text \<open>The view that is made of \<open>proto\<close> for a name that is new.\<close>

lemma GetRepository_new:
  assumes "map_of (registryFascade f) name = None" and "rr_Repository registry name (fc_source f) = (Ok source, x)"
  shows "GetRepositoryWithMigration proto registry name f = (Ok (viewOf name), f\<lparr>fc_source := x, registryFascade :=
    AList.update name \<lparr>cv_repository = proto\<lparr>mr_source := source\<rparr>, cv_storage = memoryNew (mr_target proto), cv_descriptors = []\<rparr>
      (registryFascade f)\<rparr>)"
  using assms by (simp add: GetRepositoryWithMigration_def tryM_def getM_def onRegistry_run modifyM_def Let_def ret_def)

lemma GetRepository_fails:
  assumes "map_of (registryFascade f) name = None" and "\<not> is_ok (fst (rr_Repository registry name (fc_source f)))"
  shows "\<exists>x. GetRepositoryWithMigration proto registry name f = (x, f\<lparr>fc_source := snd (rr_Repository registry name (fc_source f))\<rparr>)
    \<and> \<not> is_ok x"
  using assms by (auto simp: GetRepositoryWithMigration_def tryM_def getM_def onRegistry_run split: res.splits)

lemma GetRepository_Ok: "GetRepositoryWithMigration proto registry name f = (Ok repo, f') \<Longrightarrow> repo = viewOf name"
  by (auto simp: GetRepositoryWithMigration_def Let_def ret_def elim!: tryM_OkE split: option.splits)

text \<open>All views are made of \<open>proto\<close>.\<close>

definition madeOf :: "('s, 'm) orasAddonMigrateRepository \<Rightarrow> ('s, 'm) facade \<Rightarrow> bool" where
  "madeOf proto f \<longleftrightarrow>
     (\<forall>name v. map_of (registryFascade f) name = Some v \<longrightarrow> (\<exists>source. cv_repository v = proto\<lparr>mr_source := source\<rparr>))"

lemma migration_stores_tag:
  assumes "graph_copy (mr_codec m) blobs tags (mr_copy m)" and "migrateImageManifestDescV0_to_V1_0 m desc tag s = (Ok d, s')"
  shows "tags (ms_storage s') tag = Some d"
proof -
  from migrateImageManifest_OkE [OF assms(2)] obtain store storage src descs where
    "mr_copy m store tag (ms_storage s) = (Ok d, storage)"
    and "s' = \<lparr>ms_source = src, ms_storage = storage, dockerImageSourceDescriptorMap = descs\<rparr>" by metis
  then show ?thesis using assms(1) by (auto simp: graph_copy_def)
qed

text \<open>A tag that is not in the store is migrated.\<close>

lemma mig_Resolve_new:
  assumes "content_store (mr_target m) blobs tags" and "tags (ms_storage s) tag = None"
  shows "mig_Resolve m tag s = tryM (onSource (repo_Resolve (mr_source m) tag)) (\<lambda>desc. mig_migrate m desc tag) s"
proof -
  have "hasTagBeenMigrated m tag s = (Ok False, s)"
    using assms(2) store_read(2) [OF assms(1)] by (simp add: hasTagBeenMigrated_def attemptM_def onStorage_run tryM_def)
  then show ?thesis by (simp add: mig_Resolve_def tryM_def [of "hasTagBeenMigrated m tag"])
qed

text \<open>
  A successful look-up of a tag: it had been migrated, or it is migrated now, or the source has just answered
  with an index of the current package version, which passes through.
\<close>

definition currentIndex :: "json \<Rightarrow> bool" where
  "currentIndex j \<longleftrightarrow> (\<exists>ob es annotations. dStruct j = Ok ob \<and> dList dIndexEntry (member ob ''manifests'') = Ok es
     \<and> dMap dStr (member ob ''annotations'') = Ok annotations \<and> mget annotations AnnotationVersion = Some PackageVersionV1_0)"

definition servedIndex :: "'s OrasRepository \<Rightarrow> string \<Rightarrow> 's \<Rightarrow> Descriptor \<Rightarrow> 's \<Rightarrow> bool" where
  "servedIndex source tag x d y \<longleftrightarrow> desc_MediaType d = MediaTypeImageIndex \<and>
     (\<exists>z j. repo_Resolve source tag x = (Ok d, z) \<and> repo_FetchAll source d z = (Ok j, y) \<and> currentIndex j)"

lemma migrateImageIndexDesc_OkE:
  assumes "migrateImageIndexDesc m desc tag s = (Ok d, s')"
  obtains j y where "d = desc" and "s' = s\<lparr>ms_source := y\<rparr>" and "repo_FetchAll (mr_source m) desc (ms_source s) = (Ok j, y)"
    and "currentIndex j"
proof -
  let ?read = "tryM (repo_FetchAll (mr_source m) desc) (\<lambda>j. liftR (bind_res (dStruct j) (\<lambda>ob.
    bind_res (dList dIndexEntry (member ob ''manifests'')) (\<lambda>_. dMap dStr (member ob ''annotations'')))))"
  obtain annotations s1 where read: "onSource ?read s = (Ok annotations, s1)"
    and rest: "mget annotations AnnotationVersion = Some PackageVersionV1_0" "d = desc" "s' = s1"
    using assms by (auto simp: migrateImageIndexDesc_def ret_def elim!: tryM_OkE wrapErr_OkE split: option.splits if_splits)
  from read obtain y where "?read (ms_source s) = (Ok annotations, y)" and s1: "s1 = s\<lparr>ms_source := y\<rparr>" by (rule onSource_OkE)
  then obtain j where "repo_FetchAll (mr_source m) desc (ms_source s) = (Ok j, y)" and "currentIndex j"
    using rest(1) by (auto simp: currentIndex_def liftR_def bind_res_Ok_iff elim!: tryM_OkE)
  then show thesis using rest(2,3) s1 by (intro that [of y j]) simp_all
qed

lemma mig_Resolve_OkE:
  assumes "content_store (mr_target m) blobs tags" and "graph_copy (mr_codec m) blobs tags (mr_copy m)"
    and "mig_Resolve m tag s = (Ok d, s')"
  shows "tags (ms_storage s') tag = Some d \<or> servedIndex (mr_source m) tag (ms_source s) d (ms_source s')"
proof (cases "tags (ms_storage s) tag")
  case (Some d')
  then show ?thesis using mig_Resolve_migrated [OF assms(1) Some] assms(3) by simp
next
  case None
  with assms(3) obtain desc s1 where mig: "mig_migrate m desc tag s1 = (Ok d, s')"
    and "onSource (repo_Resolve (mr_source m) tag) s = (Ok desc, s1)"
    by (auto simp: mig_Resolve_new [OF assms(1)] elim!: tryM_OkE)
  then obtain z where z: "repo_Resolve (mr_source m) tag (ms_source s) = (Ok desc, z)" and s1: "s1 = s\<lparr>ms_source := z\<rparr>"
    by (auto elim: onSource_OkE)
  from mig consider "migrateImageManifestDescV0_to_V1_0 m desc tag s1 = (Ok d, s')"
    | "desc_MediaType desc = MediaTypeImageIndex" "migrateImageIndexDesc m desc tag s1 = (Ok d, s')"
    by (auto simp: mig_migrate_def split: if_splits)
  then show ?thesis
  proof cases
    case 1
    then show ?thesis using migration_stores_tag [OF assms(2)] by blast
  next
    case 2
    then show ?thesis using z s1 by (auto simp: servedIndex_def elim!: migrateImageIndexDesc_OkE)
  qed
qed

section \<open>What the views keep\<close>

text \<open>The other tags of the store.\<close>

definition otherTags :: "('m \<Rightarrow> string \<Rightarrow> Descriptor option) \<Rightarrow> string \<Rightarrow> ('s, 'm) migState \<Rightarrow> ('s, 'm) migState \<Rightarrow> bool" where
  "otherTags tags tag s s' \<longleftrightarrow> (\<forall>t. t \<noteq> tag \<longrightarrow> tags (ms_storage s') t = tags (ms_storage s) t)"

interpretation otherTags: step_relation "otherTags tags tag"
  by unfold_locales (simp_all add: otherTags_def)

text \<open>\<^verbatim>\<open>oras.Copy\<close> sets the tag when everything is copied; a copy that fails has set none.\<close>

definition copy_tags_last :: "('m \<Rightarrow> string \<Rightarrow> Descriptor option) \<Rightarrow> ('m \<Rightarrow> string \<Rightarrow> ('m, Descriptor) go) \<Rightarrow> bool" where
  "copy_tags_last tags cp \<longleftrightarrow> (\<forall>src tag dst r dst'. cp src tag dst = (r, dst') \<longrightarrow> \<not> is_ok r \<longrightarrow> tags dst' = tags dst)"

definition lawful ::
  "('s, 'm) orasAddonMigrateRepository \<Rightarrow> ('m \<Rightarrow> string \<Rightarrow> reader option) \<Rightarrow> ('m \<Rightarrow> string \<Rightarrow> Descriptor option) \<Rightarrow> bool" where
  "lawful m blobs tags \<longleftrightarrow> content_store (mr_target m) blobs tags \<and> graph_copy (mr_codec m) blobs tags (mr_copy m) \<and>
     copy_tags_last tags (mr_copy m)"

lemma lawful_source [simp]: "lawful (m\<lparr>mr_source := source\<rparr>) blobs tags \<longleftrightarrow> lawful m blobs tags"
  by (simp add: lawful_def)

text \<open>What is said of the store only, a call on the source keeps.\<close>

lemma keeps_onSource: "(\<And>s x. R s (s\<lparr>ms_source := x\<rparr>)) \<Longrightarrow> keeps R (onSource k)"
  by (simp add: keeps_def onSource_def onPart_def split: prod.splits)

lemma others_source: "keeps (otherTags tags tag) (onSource k)"
  by (rule keeps_onSource) (simp add: otherTags_def)

lemma madeOf_lawful:
  assumes "lawful proto blobs tags" and "madeOf proto f" and "map_of (registryFascade f) name = Some v"
  shows "lawful (cv_repository v) blobs tags"
proof -
  obtain source where "cv_repository v = proto\<lparr>mr_source := source\<rparr>" using assms(2,3) unfolding madeOf_def by blast
  then show ?thesis using assms(1) by simp
qed

lemma keeps_migrateImageManifest:
  assumes "lawful m blobs tags"
  shows "keeps (otherTags tags tag) (migrateImageManifestDescV0_to_V1_0 m desc tag)"
proof -
  have copy: "keeps (otherTags tags tag) (onStorage (mr_copy m store tag))" for store
    unfolding keeps_def
  proof
    fix s
    show "otherTags tags tag s (snd (onStorage (mr_copy m store tag) s))"
      using assms
      by (cases "mr_copy m store tag (ms_storage s)"; cases "fst (mr_copy m store tag (ms_storage s))")
        (auto simp: otherTags_def onStorage_run lawful_def graph_copy_def copy_tags_last_def)
  qed
  have dummies: "keeps (otherTags tags tag) (\<lambda>s. case g s of Ok (b, descs) \<Rightarrow> (Ok b, s\<lparr>dockerImageSourceDescriptorMap := descs\<rparr>)
      | Err e \<Rightarrow> (Err e, s) | Panic p \<Rightarrow> (Panic p, s))" for g :: "_ \<Rightarrow> (GraphBuilder \<times> _) res"
    by (auto simp: keeps_def otherTags_def split: res.splits prod.splits)
  show ?thesis
    unfolding migrateImageManifestDescV0_to_V1_0_def fetchAndDecompressUcManifestTarget_def resolvePlatformFromImageConfig_def
    by (intro otherTags.keeps_tryM keeps_wrapErr others_source otherTags.keeps_pure copy dummies)
qed

lemma keeps_migrate:
  assumes "lawful m blobs tags"
  shows "keeps (otherTags tags tag) (mig_migrate m desc tag)"
proof -
  have "keeps (otherTags tags tag) (migrateImageIndexDesc m desc tag)"
    unfolding migrateImageIndexDesc_def
    by (intro otherTags.keeps_tryM keeps_wrapErr others_source) (auto intro: otherTags.keeps_pure split: option.splits)
  then show ?thesis
    unfolding mig_migrate_def using assms by (simp add: keeps_migrateImageManifest otherTags.keeps_pure)
qed

text \<open>No call on a view takes back a tag or leads it elsewhere.\<close>

definition tagsStay :: "('m \<Rightarrow> string \<Rightarrow> Descriptor option) \<Rightarrow> ('s, 'm) migState \<Rightarrow> ('s, 'm) migState \<Rightarrow> bool" where
  "tagsStay tags s s' \<longleftrightarrow> (\<forall>t d. tags (ms_storage s) t = Some d \<longrightarrow> tags (ms_storage s') t = Some d)"

interpretation tagsStay: step_relation "tagsStay tags"
  by unfold_locales (simp_all add: tagsStay_def)

lemma stay_source: "keeps (tagsStay tags) (onSource k)"
  by (rule keeps_onSource) (simp add: tagsStay_def)

lemma stay_Exists: "lawful m blobs tags \<Longrightarrow> keeps (tagsStay tags) (mig_Exists m d)"
  using store_read(3) [of "mr_target m" blobs tags] by (simp add: keeps_def tagsStay_def mig_Exists_def onStorage_run lawful_def)

lemma stay_Fetch:
  assumes "lawful m blobs tags"
  shows "keeps (tagsStay tags) (mig_Fetch m d)"
proof -
  have "keeps (tagsStay tags) (onStorage (tgt_Fetch (mr_target m) d))"
    using assms store_read(1) [of "mr_target m" blobs tags] by (simp add: keeps_def tagsStay_def onStorage_run lawful_def)
  then show ?thesis
    unfolding mig_Fetch_def fetchAndDecompressUcManifestTarget_def
    by (auto intro!: tagsStay.keeps_rules stay_source stay_Exists [OF assms] split: option.splits reader.splits)
qed

lemma stay_FetchAll: "lawful m blobs tags \<Longrightarrow> keeps (tagsStay tags) (mig_FetchAll m d)"
  unfolding mig_FetchAll_def by (intro tagsStay.keeps_rules stay_source stay_Exists stay_Fetch)

lemma stay_Resolve:
  assumes "lawful m blobs tags"
  shows "keeps (tagsStay tags) (mig_Resolve m tag)"
  unfolding keeps_def
proof
  fix s
  have c: "content_store (mr_target m) blobs tags" using assms by (simp add: lawful_def)
  show "tagsStay tags s (snd (mig_Resolve m tag s))"
  proof (cases "tags (ms_storage s) tag")
    case (Some d)
    then show ?thesis using mig_Resolve_migrated [OF c] by (simp add: tagsStay.R_refl)
  next
    case None
    let ?k = "tryM (onSource (repo_Resolve (mr_source m) tag)) (\<lambda>desc. mig_migrate m desc tag)"
    have "keeps (otherTags tags tag) ?k"
      by (intro otherTags.keeps_tryM others_source keeps_migrate [OF assms])
    then have "otherTags tags tag s (snd (?k s))" by (rule keepsD)
    then show ?thesis
      unfolding mig_Resolve_new [OF c None] otherTags_def tagsStay_def using None by (metis option.distinct(1))
  qed
qed

section \<open>What the registry keeps\<close>

text \<open>Every view stays, with the tags it has migrated.\<close>

definition viewsStay ::
  "('s, 'm) orasAddonMigrateRepository \<Rightarrow> ('m \<Rightarrow> string \<Rightarrow> reader option) \<Rightarrow> ('m \<Rightarrow> string \<Rightarrow> Descriptor option) \<Rightarrow>
   ('s, 'm) facade \<Rightarrow> ('s, 'm) facade \<Rightarrow> bool" where
  "viewsStay proto blobs tags f f' \<longleftrightarrow> (lawful proto blobs tags \<and> madeOf proto f \<longrightarrow> madeOf proto f' \<and>
     (\<forall>name v. map_of (registryFascade f) name = Some v \<longrightarrow>
        (\<exists>v'. map_of (registryFascade f') name = Some v' \<and>
           (\<forall>t d. tags (cv_storage v) t = Some d \<longrightarrow> tags (cv_storage v') t = Some d))))"

interpretation viewsStay: step_relation "viewsStay proto blobs tags"
proof unfold_locales
  show "viewsStay proto blobs tags f f" for f by (simp add: viewsStay_def)
  show "viewsStay proto blobs tags f h" if "viewsStay proto blobs tags f g" "viewsStay proto blobs tags g h" for f g h
    using that unfolding viewsStay_def by (metis (no_types, lifting))
qed

lemma stay_onRegistry: "keeps (viewsStay proto blobs tags) (onRegistry k)"
  by (simp add: keeps_def viewsStay_def madeOf_def onRegistry_run)

lemma stay_onView:
  assumes "\<And>m. lawful m blobs tags \<Longrightarrow> keeps (tagsStay tags) (k m)"
  shows "keeps (viewsStay proto blobs tags) (onView name k)"
  unfolding keeps_def
proof
  fix f :: "('a, 'b) facade"
  show "viewsStay proto blobs tags f (snd (onView name k f))"
  proof (cases "map_of (registryFascade f) name")
    case None
    then show ?thesis by (simp add: onView_def viewsStay_def)
  next
    case (Some v)
    obtain r s where k: "k (cv_repository v) (viewState f v) = (r, s)" by fastforce
    let ?v = "v\<lparr>cv_storage := ms_storage s, cv_descriptors := dockerImageSourceDescriptorMap s\<rparr>"
    have f': "snd (onView name k f) = f\<lparr>fc_source := ms_source s, registryFascade := AList.update name ?v (registryFascade f)\<rparr>"
      using Some k by (simp add: onView_def)
    have "tags (ms_storage s) t = Some d"
      if "lawful proto blobs tags" "madeOf proto f" "tags (cv_storage v) t = Some d" for t d
    proof -
      from keeps_run [OF assms [OF madeOf_lawful [OF that(1,2) Some]] k] show ?thesis using that(3) by (simp add: tagsStay_def viewState_def)
    qed
    then show ?thesis unfolding viewsStay_def f' using Some by (auto simp: madeOf_def update_conv')
  qed
qed

lemma stay_viewOf:
  "keeps (viewsStay proto blobs tags) (repo_Resolve (viewOf name) tag)"
  "keeps (viewsStay proto blobs tags) (repo_FetchAll (viewOf name) d)"
  "keeps (viewsStay proto blobs tags) (repo_Fetch (viewOf name) d)"
  by (simp_all add: viewOf_def NewOrasAddonMigrateRepository_def stay_onView stay_Resolve stay_FetchAll stay_Fetch)

lemma stay_GetRepository: "keeps (viewsStay proto blobs tags) (GetRepositoryWithMigration proto registry name)"
  unfolding keeps_def
proof
  fix f :: "('a, 'b) facade"
  obtain r x where s: "rr_Repository registry name (fc_source f) = (r, x)" by fastforce
  show "viewsStay proto blobs tags f (snd (GetRepositoryWithMigration proto registry name f))"
  proof (cases "map_of (registryFascade f) name")
    case (Some v)
    then show ?thesis by (simp add: cached_repository viewsStay_def)
  next
    case None
    then show ?thesis
      using s GetRepository_new [OF None, of registry _ x proto] GetRepository_fails [OF None, of registry proto]
      by (cases r) (auto simp: viewsStay_def madeOf_def update_conv')
  qed
qed

section \<open>The registry as a client of its repositories\<close>

text \<open>
  The daemon asks the registry through the calls of \<open>ORASAddOnRegistry\<close>; what the repositories and the views keep,
  each of these calls keeps.
\<close>

definition keptRepository :: "('r \<Rightarrow> 'r \<Rightarrow> bool) \<Rightarrow> 'r OrasRepository \<Rightarrow> bool" where
  "keptRepository Q repo \<longleftrightarrow>
     (\<forall>tag. keeps Q (repo_Resolve repo tag)) \<and> (\<forall>d. keeps Q (repo_FetchAll repo d)) \<and> (\<forall>d. keeps Q (repo_Fetch repo d))"

definition remoteSide :: "('r \<Rightarrow> 'r \<Rightarrow> bool) \<Rightarrow> ('r, 'd) world \<Rightarrow> ('r, 'd) world \<Rightarrow> bool" where
  "remoteSide Q w w' \<longleftrightarrow> Q (remote w) (remote w')"

locale remote_contract = step_relation Q
  for Q :: "'r \<Rightarrow> 'r \<Rightarrow> bool" +
  fixes r :: "'r ORASAddOnRegistry"
  assumes lists_keep: "keeps Q (remoteRepositories r)"
    and tags_keep: "keeps Q (remoteTags r n)"
    and callback_keeps: "keeps Q (getRepositoryCallback r n)"
    and views_keep: "getRepositoryCallback r n s = (Ok repo, s') \<Longrightarrow> keptRepository Q repo"
begin

lemma lifted: "step_relation (remoteSide Q)"
  by unfold_locales (auto simp: remoteSide_def intro: R_refl R_trans)

lemma lift: "keeps Q m \<Longrightarrow> keeps (remoteSide Q) (onRemote m)"
  by (simp add: keeps_def remoteSide_def onRemote_run)

lemma keeps_deserialize: "keptRepository Q repo \<Longrightarrow> keeps Q (deserializeImageManifest r repo tag)"
proof -
  assume repo: "keptRepository Q repo"
  have "keeps Q (findSupportedManifest r repo es)" for es
    using repo by (induction es)
      (auto simp: FetchImageManifest_def keptRepository_def intro!: keeps_pure keeps_tryM split: option.splits)
  with repo show ?thesis
    by (auto simp: deserializeImageManifest_def FetchImageIndex_def keptRepository_def intro!: keeps_pure keeps_tryM)
qed

lemma keeps_onlyAddOnTags: "keptRepository Q repo \<Longrightarrow> keeps Q (onlyAddOnTags r repo ts)"
proof -
  assume repo: "keptRepository Q repo"
  have "keeps Q (filterAddOnTags r repo ts)"
    by (induction ts) (auto simp: validateIsAddOn_def intro!: keeps_pure keeps_tryM keeps_attemptM keeps_deserialize [OF repo]
      split: sum.splits bool.splits)
  then show ?thesis unfolding onlyAddOnTags_def by (intro keeps_tryM keeps_if keeps_pure)
qed

lemma keeps_callback_then:
  assumes "\<And>repo. keptRepository Q repo \<Longrightarrow> keeps Q (k repo)"
  shows "keeps Q (tryM (getRepositoryCallback r n) k)"
  unfolding keeps_def
proof
  fix s
  obtain x s' where c: "getRepositoryCallback r n s = (x, s')" by fastforce
  show "Q s (snd (tryM (getRepositoryCallback r n) k s))"
    using keeps_run [OF callback_keeps c] c keepsD [OF assms [OF views_keep]]
    by (cases x) (auto simp: tryM_def intro: R_trans)
qed

lemma keeps_oras_Repositories: "keeps Q (oras_Repositories r)"
proof -
  have "keeps Q (retryLoop n err (remoteRepositories r))" for n err
    by (induction n arbitrary: err) (auto intro!: keeps_pure keeps_tryM keeps_attemptM lists_keep split: option.splits sum.splits)
  then show ?thesis
    unfolding oras_Repositories_def Retry_def by (auto intro!: keeps_tryM keeps_pure split: option.splits)
qed

lemma keeps_oras_Tags: "keeps Q (oras_Tags r n)"
  unfolding oras_Tags_def by (intro keeps_callback_then keeps_tryM tags_keep keeps_onlyAddOnTags)

lemma keeps_orasLayers:
  assumes "keptRepository Q repo" and "\<And>rd mt. keeps (remoteSide Q) (Action p rd mt)"
  shows "keeps (remoteSide Q) (orasLayers repo p ls)"
proof -
  have "keeps (remoteSide Q) (onRemote (repo_Fetch repo d))" for d
    using assms(1) by (auto simp: keptRepository_def intro: lift)
  then show ?thesis
    by (induction ls) (auto intro!: step_relation.keeps_pure [OF lifted] step_relation.keeps_tryM [OF lifted]
        step_relation.keeps_attemptM [OF lifted] assms(2) split: sum.splits)
qed

lemma keeps_oras_Pull:
  assumes "\<And>rd mt. keeps (remoteSide Q) (Action p rd mt)"
  shows "keeps (remoteSide Q) (oras_Pull overflow r n v p)"
  unfolding keeps_def
proof
  fix w :: "('r, 'a) world"
  let ?k = "\<lambda>repo. tryM (onRemote (deserializeImageManifest r repo v)) (\<lambda>imageManifest.
    tryM (orasLayers repo p (im_Layers imageManifest)) (\<lambda>_.
    tryM (onRemote (getM (repo_MapDescriptorSize repo))) (\<lambda>mapSize.
    ret (estimatedInstallSizeBytes overflow (cumulativeLayerSize mapSize (im_Layers imageManifest))))))"
  have k: "keeps (remoteSide Q) (?k repo)" if "keptRepository Q repo" for repo
    by (intro step_relation.keeps_tryM [OF lifted] lift keeps_deserialize keeps_orasLayers that assms
        step_relation.keeps_pure [OF lifted] keeps_pure)
  obtain x s' where c: "getRepositoryCallback r n (remote w) = (x, s')" by fastforce
  have "remoteSide Q w (w\<lparr>remote := s'\<rparr>)" using keeps_run [OF callback_keeps c] by (simp add: remoteSide_def)
  then show "remoteSide Q w (snd (oras_Pull overflow r n v p w))"
    using c keepsD [OF k [OF views_keep], of _ _ _ _ "w\<lparr>remote := s'\<rparr>"]
    unfolding oras_Pull_def
    by (cases x) (auto simp: tryM_run(1) [of "onRemote (getRepositoryCallback r n)"] tryM_run(2,3) onRemote_run
        intro: step_relation.R_trans [OF lifted])
qed

text \<open>The registry as the catalogues use it, behind the adapter of the code names.\<close>

lemma keeps_device_registry:
  fixes overflow
  defines "reg \<equiv> NewCodeNameAdapterRegistry (NewORASAddOnRegistry overflow r)"
  shows "keeps (remoteSide Q) (Repositories reg)" and "keeps (remoteSide Q) (Tags reg n)"
    and "(\<And>rd mt. keeps (remoteSide Q) (Action p rd mt)) \<Longrightarrow> keeps (remoteSide Q) (Pull reg n v p)"
proof -
  have l: "keeps (remoteSide Q) (Repositories (NewORASAddOnRegistry overflow r))"
    by (simp add: NewORASAddOnRegistry_def lift keeps_oras_Repositories)
  then have n: "keeps (remoteSide Q) (getRepositoryWithCodeName (NewORASAddOnRegistry overflow r) n)" for n
    unfolding getRepositoryWithCodeName_def
    by (auto intro!: step_relation.keeps_tryM [OF lifted] step_relation.keeps_pure [OF lifted] split: option.splits)
  show "keeps (remoteSide Q) (Repositories reg)"
    by (simp add: reg_def NewCodeNameAdapterRegistry_def codeName_Repositories_def step_relation.keeps_tryM [OF lifted]
        step_relation.keeps_pure [OF lifted] l)
  have t: "keeps (remoteSide Q) (Tags (NewORASAddOnRegistry overflow r) n)" for n
    by (simp add: NewORASAddOnRegistry_def lift keeps_oras_Tags)
  show "keeps (remoteSide Q) (Tags reg n)"
    unfolding reg_def NewCodeNameAdapterRegistry_def codeName_Tags_def
    by (simp, intro step_relation.keeps_tryM [OF lifted] n t)
  assume p: "\<And>rd mt. keeps (remoteSide Q) (Action p rd mt)"
  have "keeps (remoteSide Q) (Pull (NewORASAddOnRegistry overflow r) n v p)" for n
    by (simp add: NewORASAddOnRegistry_def keeps_oras_Pull p)
  then show "keeps (remoteSide Q) (Pull reg n v p)"
    unfolding reg_def NewCodeNameAdapterRegistry_def codeName_Pull_def
    by (simp, intro step_relation.keeps_tryM [OF lifted] n)
qed

end

interpretation migrating: remote_contract "viewsStay proto blobs tags" "orasRegistryOn proto registry arch os"
proof unfold_locales
  show "keptRepository (viewsStay proto blobs tags) repo"
    if "getRepositoryCallback (orasRegistryOn proto registry arch os) n s = (Ok repo, s')" for n s s' repo
    using GetRepository_Ok [of proto registry n s repo s'] that by (simp add: orasRegistryOn_def keptRepository_def stay_viewOf)
qed (simp_all add: orasRegistryOn_def stay_onRegistry stay_GetRepository)

section \<open>Properties\<close>

text \<open>The look-up of a tag, as \<^verbatim>\<open>Pull\<close> and \<^verbatim>\<open>Tags\<close> do it.\<close>

definition lookupTag ::
  "('s, 'm) orasAddonMigrateRepository \<Rightarrow> 's remoteRegistry \<Rightarrow> string \<Rightarrow> string \<Rightarrow> (('s, 'm) facade, Descriptor) go" where
  "lookupTag proto registry name tag = tryM (GetRepositoryWithMigration proto registry name) (\<lambda>repo. repo_Resolve repo tag)"

text \<open>
  The life of the daemon, as far as the registry sees it: it is asked, or something else happens on the device or in
  the remote registry, which may take packages away or replace them.
\<close>

inductive registryStep :: "(('s, 'm) facade, 'd) world AddOnRegistry \<Rightarrow> (('s, 'm) facade, 'd) world \<Rightarrow> (('s, 'm) facade, 'd) world \<Rightarrow> bool"
  for reg where
  listed: "Repositories reg w = (x, w') \<Longrightarrow> registryStep reg w w'"
| tagged: "Tags reg n w = (x, w') \<Longrightarrow> registryStep reg w w'"
| pulled: "(\<And>rd mt. keeps (same remote) (Action p rd mt)) \<Longrightarrow> Pull reg n v p w = (x, w') \<Longrightarrow> registryStep reg w w'"
| elsewhere: "registryFascade (remote w') = registryFascade (remote w) \<Longrightarrow> registryStep reg w w'"

definition migrated ::
  "('m \<Rightarrow> string \<Rightarrow> Descriptor option) \<Rightarrow> string \<Rightarrow> string \<Rightarrow> Descriptor \<Rightarrow> ('s, 'm) facade \<Rightarrow> bool" where
  "migrated tags name tag d f \<longleftrightarrow> (\<exists>v. map_of (registryFascade f) name = Some v \<and> tags (cv_storage v) tag = Some d)"

lemma migrated_lookup:
  assumes "lawful proto blobs tags" and "madeOf proto f" and "migrated tags name tag d f"
  shows "fst (lookupTag proto registry name tag f) = Ok d"
proof -
  obtain v where v: "map_of (registryFascade f) name = Some v" "tags (cv_storage v) tag = Some d"
    using assms(3) by (auto simp: migrated_def)
  have "content_store (mr_target (cv_repository v)) blobs tags"
    using madeOf_lawful [OF assms(1,2) v(1)] by (simp add: lawful_def)
  then have "mig_Resolve (cv_repository v) tag (viewState f v) = (Ok d, viewState f v)"
    by (rule mig_Resolve_migrated) (simp add: viewState_def v(2))
  then show ?thesis
    using v(1) by (simp add: lookupTag_def tryM_def cached_repository viewOf_def onView_def NewOrasAddonMigrateRepository_def)
qed

text \<open>The state of the remote registry in which a look-up asks for the tag: a new repository is asked for first.\<close>

definition askedIn :: "'s remoteRegistry \<Rightarrow> string \<Rightarrow> ('s, 'm) facade \<Rightarrow> 's" where
  "askedIn registry name f =
     (case map_of (registryFascade f) name of
        Some _ \<Rightarrow> fc_source f | None \<Rightarrow> snd (rr_Repository registry name (fc_source f)))"

lemma GetRepository_source:
  assumes "GetRepositoryWithMigration proto registry name f = (Ok repo, f0)"
  shows "fc_source f0 = askedIn registry name f"
proof (cases "map_of (registryFascade f) name")
  case None
  obtain r x where s: "rr_Repository registry name (fc_source f) = (r, x)" by fastforce
  then show ?thesis
    using assms None GetRepository_new [OF None, of registry _ x proto] GetRepository_fails [OF None, of registry proto]
    by (cases r) (auto simp: askedIn_def)
next
  case (Some v)
  then show ?thesis using assms by (simp add: cached_repository askedIn_def)
qed

lemma lookup_migrates:
  assumes "lawful proto blobs tags" and "madeOf proto f" and "lookupTag proto registry name tag f = (Ok d, f1)"
  obtains "migrated tags name tag d f1"
  | v where "map_of (registryFascade f1) name = Some v"
    and "servedIndex (mr_source (cv_repository v)) tag (askedIn registry name f) d (fc_source f1)"
proof -
  obtain repo f0 where get: "GetRepositoryWithMigration proto registry name f = (Ok repo, f0)"
    and res: "repo_Resolve repo tag f0 = (Ok d, f1)"
    using assms(3) by (auto simp: lookupTag_def elim!: tryM_OkE)
  have repo: "repo = viewOf name" using get by (rule GetRepository_Ok)
  have made: "madeOf proto f0" using keeps_run [OF stay_GetRepository get] assms(1,2) by (auto simp: viewsStay_def)
  obtain v where v: "map_of (registryFascade f0) name = Some v"
    using res by (cases "map_of (registryFascade f0) name") (simp_all add: repo viewOf_def onView_def)
  obtain s' where mig: "mig_Resolve (cv_repository v) tag (viewState f0 v) = (Ok d, s')"
    and f1: "f1 = f0\<lparr>fc_source := ms_source s', registryFascade := AList.update name
      (v\<lparr>cv_storage := ms_storage s', cv_descriptors := dockerImageSourceDescriptorMap s'\<rparr>) (registryFascade f0)\<rparr>"
    using res v by (auto simp: repo viewOf_def onView_def NewOrasAddonMigrateRepository_def split: prod.splits)
  have "content_store (mr_target (cv_repository v)) blobs tags"
    "graph_copy (mr_codec (cv_repository v)) blobs tags (mr_copy (cv_repository v))"
    using madeOf_lawful [OF assms(1) made v] by (simp_all add: lawful_def)
  from mig_Resolve_OkE [OF this mig]
  consider "tags (ms_storage s') tag = Some d"
    | "servedIndex (mr_source (cv_repository v)) tag (askedIn registry name f) d (ms_source s')"
    by (auto simp: viewState_def GetRepository_source [OF get])
  then show thesis
    by cases (use that in \<open>auto simp: f1 migrated_def update_conv'\<close>)
qed

lemma migrated_stays:
  assumes "lawful proto blobs tags" and "madeOf proto f" and "viewsStay proto blobs tags f f'" and "migrated tags name tag d f"
  shows "madeOf proto f' \<and> migrated tags name tag d f'"
  using assms unfolding viewsStay_def migrated_def by blast

text \<open>Whatever happens, what has been migrated stays.\<close>

lemma registryStep_stays:
  assumes "registryStep (NewCodeNameAdapterRegistry (NewORASAddOnRegistry overflow (orasRegistryOn proto registry arch os))) w w'"
  shows "viewsStay proto blobs tags (remote w) (remote w')"
  using assms
proof cases
  case (listed x)
  then show ?thesis using keeps_run [OF migrating.keeps_device_registry(1)] by (simp add: remoteSide_def)
next
  case (tagged n x)
  then show ?thesis using keeps_run [OF migrating.keeps_device_registry(2)] by (simp add: remoteSide_def)
next
  case (pulled p n v x)
  have "keeps (remoteSide (viewsStay proto blobs tags)) (Action p rd mt)" for rd mt
    using pulled(1) by (rule keeps_imp) (simp add: same_def remoteSide_def viewsStay.R_refl)
  from keeps_run [OF migrating.keeps_device_registry(3) [OF this] pulled(2)] show ?thesis by (simp add: remoteSide_def)
next
  case elsewhere
  then show ?thesis by (simp add: viewsStay_def madeOf_def)
qed

text \<open>
  C20. A package of the first format stays what it was when the daemon first looked at its tag. After a successful
  look-up, and whatever the daemon asks its registry and whatever happens to the device and to the remote registry
  from then on, until the process ends, the tag is answered with the same descriptor. The only other case is that at
  this very look-up the remote registry resolved the tag to that descriptor and served under it an index that carries
  the current package version: it needs no migration, is passed through and not kept.
\<close>

theorem migrated_tag_is_pinned:
  assumes "lawful proto blobs tags" and "madeOf proto (remote w)"
    and "lookupTag proto registry name tag (remote w) = (Ok d, f)"
    and "(registryStep (NewCodeNameAdapterRegistry (NewORASAddOnRegistry overflow (orasRegistryOn proto registry arch os))))\<^sup>*\<^sup>*
      (w\<lparr>remote := f\<rparr>) w'"
  shows "fst (lookupTag proto registry name tag (remote w')) = Ok d
    \<or> (\<exists>v. map_of (registryFascade f) name = Some v
        \<and> servedIndex (mr_source (cv_repository v)) tag (askedIn registry name (remote w)) d (fc_source f))"
proof -
  have "keeps (viewsStay proto blobs tags) (tryM (getRepositoryCallback (orasRegistryOn proto registry arch os) name)
      (\<lambda>repo. repo_Resolve repo tag))"
    by (rule migrating.keeps_callback_then) (simp add: keptRepository_def)
  then have look: "keeps (viewsStay proto blobs tags) (lookupTag proto registry name tag)"
    by (simp add: lookupTag_def orasRegistryOn_def)
  have made: "madeOf proto f"
    using keeps_run [OF look assms(3)] assms(1,2) by (simp add: viewsStay_def)
  from assms(4) have stay: "viewsStay proto blobs tags f (remote w')"
    by (induction) (auto intro: viewsStay.R_refl viewsStay.R_trans registryStep_stays)
  from assms(1-3) show ?thesis
  proof (rule lookup_migrates, goal_cases)
    case 1
    then show ?case using migrated_stays [OF assms(1) made stay] migrated_lookup [OF assms(1)] by blast
  qed blast
qed

text \<open>A registry with the package of the first format, which the theory \<open>PackageMigration\<close> migrates.\<close>

definition sampleRemote :: "unit remoteRegistry" where
  "sampleRemote =
     \<lparr>rr_Repositories = ret [''acme/app''], rr_Tags = (\<lambda>_. ret [''1.0-1'']), rr_Repository = (\<lambda>_. ret sampleSource)\<rparr>"

lemma sampleDesc_type: "desc_MediaType (sampleDesc k) \<noteq> MediaTypeImageIndex"
  by (simp add: sampleDesc_def MediaTypeImageManifest_def MediaTypeImageIndex_def)

lemma sample_lookup:
  obtains idx f1 where
    "lookupTag sampleMigrateRepository sampleRemote ''acme/app'' ''1.0-1'' \<lparr>fc_source = (), registryFascade = []\<rparr> = (Ok idx, f1)"
    and "\<And>v. map_of (registryFascade f1) ''acme/app'' = Some v \<Longrightarrow> mr_source (cv_repository v) = sampleSource"
proof -
  let ?m = sampleMigrateRepository
  define f v f0 where "f = (\<lparr>fc_source = (), registryFascade = []\<rparr> :: (unit, mapStore) facade)"
    and "v = \<lparr>cv_repository = ?m, cv_storage = memoryNew mapTarget, cv_descriptors = []\<rparr>"
    and "f0 = (\<lparr>fc_source = (), registryFascade = [(''acme/app'', v)]\<rparr> :: (unit, mapStore) facade)"
  note d = this
  have get: "GetRepositoryWithMigration ?m sampleRemote ''acme/app'' f = (Ok (viewOf ''acme/app''), f0)"
    by (simp add: GetRepositoryWithMigration_def tryM_def getM_def onRegistry_run sampleRemote_def modifyM_def Let_def
        sampleMigrateRepository_def ret_def d)
  obtain idx st' where run: "migrateImageManifestDescV0_to_V1_0 ?m (sampleDesc ''m'') ''1.0-1'' newView = (Ok idx, st')"
    using sample_migration_runs by blast
  have "mig_Resolve ?m ''1.0-1'' newView = (Ok idx, st')"
    using run by (simp add: mig_Resolve_def hasTagBeenMigrated_def attemptM_def onStorage_run tryM_def newView_def
        sampleMigrateRepository_def onSource_def onPart_def sampleSource_def mapTarget_def mig_migrate_def sampleDesc_def ret_def)
  moreover have "viewState f0 v = newView" "map_of (registryFascade f0) ''acme/app'' = Some v" "cv_repository v = ?m"
    by (simp_all add: viewState_def newView_def d)
  moreover have "mr_source ?m = sampleSource" by (simp add: sampleMigrateRepository_def)
  ultimately show thesis
    using get by (intro that [of idx "snd (lookupTag ?m sampleRemote ''acme/app'' ''1.0-1'' f)"])
      (auto simp: lookupTag_def tryM_def viewOf_def Let_def onView_def NewOrasAddonMigrateRepository_def update_conv' simp flip: d(1))
qed

definition sampleDevice :: "((unit, mapStore) facade, unit) world" where
  "sampleDevice = \<lparr>files = \<lparr>nodes = [], faulty = (\<lambda>_ _. False)\<rparr>, images = [],
     remote = \<lparr>fc_source = (), registryFascade = []\<rparr>, docker = ()\<rparr>"

text \<open>The daemon looks at the tag, lists the tags of the repository, and looks again.\<close>

theorem migrated_tag_is_pinned_witness:
  "\<exists>d f. lookupTag sampleMigrateRepository sampleRemote ''acme/app'' ''1.0-1'' (remote sampleDevice) = (Ok d, f) \<and>
     fst (lookupTag sampleMigrateRepository sampleRemote ''acme/app'' ''1.0-1'' (remote (snd
       (Tags (NewCodeNameAdapterRegistry (NewORASAddOnRegistry (\<lambda>_. 0) (orasRegistryOn sampleMigrateRepository sampleRemote ''arm'' ''linux'')))
         ''acme/app'' (sampleDevice\<lparr>remote := f\<rparr>))))) = Ok d"
proof -
  let ?m = sampleMigrateRepository and ?r = "remote sampleDevice"
  let ?reg = "NewCodeNameAdapterRegistry (NewORASAddOnRegistry (\<lambda>_. 0) (orasRegistryOn ?m sampleRemote ''arm'' ''linux''))"
  have c: "lawful ?m fst snd" "madeOf ?m ?r"
    by (simp_all add: lawful_def copy_tags_last_def copyMaps_def sampleMigrateRepository_def content_mapTarget graph_copyMaps
        madeOf_def sampleDevice_def split: option.splits)
  obtain idx f where l: "lookupTag ?m sampleRemote ''acme/app'' ''1.0-1'' ?r = (Ok idx, f)"
    and src: "\<And>v. map_of (registryFascade f) ''acme/app'' = Some v \<Longrightarrow> mr_source (cv_repository v) = sampleSource"
    using sample_lookup by (auto simp: sampleDevice_def)
  have "fst (repo_Resolve sampleSource ''1.0-1'' x) = Ok (sampleDesc ''m'')" for x by (simp add: sampleSource_def ret_def)
  then have "\<not> servedIndex sampleSource ''1.0-1'' x d y" for x y d
    using sampleDesc_type by (auto simp: servedIndex_def)
  with src have index: "\<nexists>v. map_of (registryFascade f) ''acme/app'' = Some v \<and>
      servedIndex (mr_source (cv_repository v)) ''1.0-1'' (askedIn sampleRemote ''acme/app'' ?r) idx (fc_source f)"
    by auto
  have "registryStep ?reg (sampleDevice\<lparr>remote := f\<rparr>) (snd (Tags ?reg ''acme/app'' (sampleDevice\<lparr>remote := f\<rparr>)))"
    by (rule tagged) (rule surjective_pairing)
  then have steps: "(registryStep ?reg)\<^sup>*\<^sup>* (sampleDevice\<lparr>remote := f\<rparr>) (snd (Tags ?reg ''acme/app'' (sampleDevice\<lparr>remote := f\<rparr>)))"
    by blast
  from migrated_tag_is_pinned [OF c l steps] index l show ?thesis by blast
qed

end
