(* ===== verification/FileServer.thy ===== *)
theory FileServer
  imports Server
begin

text \<open>
  \<^verbatim>\<open>internal/aom/fileserver\<close>: installing the packages that were put into the drop-in folder, at the start of the
  daemon and whenever \<^verbatim>\<open>swupdate\<close> reports a success on its socket.
\<close>

section \<open>fileserver.go\<close>

record 'w FileServer =
  fs_CreateAddOnRoutine :: "string \<Rightarrow> string \<Rightarrow> ('w Daemon, unit) go"
  fs_UpdateAddOnRoutine :: "string \<Rightarrow> string \<Rightarrow> ('w Daemon, unit) go"
  fs_registry :: "'w AddOnRegistry"
  fs_localCatalogue :: "'w LocalAddOnCatalogue"

text \<open>
  The two routines of \<^verbatim>\<open>addOnCreator\<close>: a transaction of their own, with a deferred rollback in the same
  goroutine.
\<close>

definition ownTransaction :: "('w txState, unit) go \<Rightarrow> ('w Daemon, unit) go" where
  "ownTransaction routine =
     tryM CreateTransaction (\<lambda>_.
     inTx (deferM Rollback (tryM routine (\<lambda>_. onTx Commit))))"

definition creator_CreateAddOnRoutine ::
  "('r, 'd) AomService \<Rightarrow> string \<Rightarrow> string \<Rightarrow> (('r, 'd) world Daemon, unit) go" where
  "creator_CreateAddOnRoutine s repository version = ownTransaction (CreateAddOnRoutine s repository version [])"

definition creator_UpdateAddOnRoutine ::
  "('r, 'd) AomService \<Rightarrow> string \<Rightarrow> string \<Rightarrow> (('r, 'd) world Daemon, unit) go" where
  "creator_UpdateAddOnRoutine s repository version = ownTransaction (ReplaceAddOnRoutine s repository version [])"

definition NewFileServerWithTransactionSchedular ::
  "('r, 'd) AomService \<Rightarrow> ('r, 'd) world AddOnRegistry \<Rightarrow> ('r, 'd) world LocalAddOnCatalogue \<Rightarrow> ('r, 'd) world FileServer" where
  "NewFileServerWithTransactionSchedular s registry localCatalogue =
     \<lparr>fs_CreateAddOnRoutine = creator_CreateAddOnRoutine s, fs_UpdateAddOnRoutine = creator_UpdateAddOnRoutine s,
      fs_registry = registry, fs_localCatalogue = localCatalogue\<rparr>"

definition fs_isValidUpdate :: "'v version_api \<Rightarrow> 'w FileServer \<Rightarrow> string \<Rightarrow> string \<Rightarrow> ('w Daemon, unit) go" where
  "fs_isValidUpdate api s repository version =
     tryM (onDevice (lcat_GetAddOn (fs_localCatalogue s) repository)) (\<lambda>currentAddOn.
       if \<not> GreaterThan api version (ca_Version currentAddOn) then
         fail (ErrorString (''Requested version '' @ version @ '' needs to be greater than the current version '' @
           ca_Version currentAddOn @ ''.''))
       else ret ())"

definition tryToUpdateAddon :: "'v version_api \<Rightarrow> 'w FileServer \<Rightarrow> string \<Rightarrow> string \<Rightarrow> ('w Daemon, unit) go" where
  "tryToUpdateAddon api s repository version =
     tryM (fs_isValidUpdate api s repository version) (\<lambda>_. fs_UpdateAddOnRoutine s repository version)"

text \<open>Errors of one package are logged only; a panic of a routine unwinds.\<close>

definition installDropIn :: "'v version_api \<Rightarrow> 'w FileServer \<Rightarrow> string \<Rightarrow> string \<Rightarrow> ('w Daemon, unit) go" where
  "installDropIn api s repository version =
     ignoreM
       (tryM (attemptM (fs_CreateAddOnRoutine s repository version)) (\<lambda>r.
          case r of
            Inl ErrorAddOnAlreadyInstalled \<Rightarrow> tryToUpdateAddon api s repository version
          | Inl err \<Rightarrow> fail err
          | Inr _ \<Rightarrow> ret ()))"

text \<open>
  The loop: the packages it has tried, in order, whose deferred deletions run when the function returns, the
  last one first. A deletion deferred before a panic would run too; the process ends then anyway.
\<close>

fun dropInLoop ::
  "'v version_api \<Rightarrow> 'w FileServer \<Rightarrow> string list \<Rightarrow> ('w Daemon, (string \<times> string) list) go" where
  "dropInLoop api s [] = ret []"
| "dropInLoop api s (repository # repositories) =
     tryM (attemptM (onDevice (Tags (fs_registry s) repository))) (\<lambda>t.
       case t of
         Inl _ \<Rightarrow> dropInLoop api s repositories
       | Inr tags \<Rightarrow>
           if tags = [] then dropInLoop api s repositories
           else
             (let version = last (sort_Sort (Less api) tags)
              in
                tryM (installDropIn api s repository version) (\<lambda>_.
                tryM (dropInLoop api s repositories) (\<lambda>deferred.
                ret ((repository, version) # deferred)))))"

definition InstallAllDropInAddOns :: "'v version_api \<Rightarrow> 'w FileServer \<Rightarrow> ('w Daemon, unit) go" where
  "InstallAllDropInAddOns api s =
     tryM (onDevice (Repositories (fs_registry s))) (\<lambda>repositories.
       if repositories = [] then ret ()
       else
         tryM (dropInLoop api s repositories) (\<lambda>deferred.
         eachM (\<lambda>(repository, version). ignoreM (onDevice (RegistryDelete (fs_registry s) repository version)))
           (rev deferred)))"

section \<open>The watcher\<close>

text \<open>
  \<^verbatim>\<open>swupdate_watcher.go\<close>: the status of a progress message is the 64-bit little-endian number behind the 32-bit
  magic number of the message.
\<close>

definition littleEndian :: "8 word list \<Rightarrow> 64 word" where
  "littleEndian bs = foldr (\<lambda>b acc. acc * 256 + ucast b) bs 0"

definition messageStatus :: "8 word list \<Rightarrow> 64 word" where
  "messageStatus buf = littleEndian (take 8 (drop 4 buf))"

definition SUCCESS :: "64 word" where
  "SUCCESS = 3"

definition connectionAttempts :: nat where
  "connectionAttempts = 5"

text \<open>\<^verbatim>\<open>net.Dial\<close> is the parameter \<open>dial\<close>, called until it answers or the attempts are used up.\<close>

fun connectLoop :: "nat \<Rightarrow> goerror option \<Rightarrow> ('s, unit) go \<Rightarrow> ('s, unit) go" where
  "connectLoop 0 err dial = (case err of None \<Rightarrow> ret () | Some e \<Rightarrow> fail e)"
| "connectLoop (Suc n) err dial =
     tryM (attemptM dial) (\<lambda>r. case r of Inr _ \<Rightarrow> ret () | Inl e \<Rightarrow> connectLoop n (Some e) dial)"

definition watcher_Connect :: "('s, unit) go \<Rightarrow> ('s, unit) go" where
  "watcher_Connect dial = connectLoop connectionAttempts None dial"

text \<open>What the goroutine of \<^verbatim>\<open>StartSWUpdateWatcher\<close> receives, one case of its \<^verbatim>\<open>select\<close> after the other.\<close>

datatype watchEvent = StatusMessage "8 word list" | ReadError | StopRequest

fun watchLoop ::
  "'v version_api \<Rightarrow> 'w FileServer \<Rightarrow> ('w Daemon, unit) go \<Rightarrow> watchEvent list \<Rightarrow> ('w Daemon, unit) go" where
  "watchLoop api s dial [] = ret ()"
| "watchLoop api s dial (e # es) =
     (case e of
        StatusMessage buf \<Rightarrow>
          if messageStatus buf = SUCCESS
          then tryM (ignoreM (InstallAllDropInAddOns api s)) (\<lambda>_. watchLoop api s dial es)
          else watchLoop api s dial es
      | ReadError \<Rightarrow>
          tryM (attemptM (watcher_Connect dial)) (\<lambda>r.
            case r of Inl _ \<Rightarrow> ret () | Inr _ \<Rightarrow> watchLoop api s dial es)
      | StopRequest \<Rightarrow> ret ())"

definition StartSWUpdateWatcher ::
  "'v version_api \<Rightarrow> 'w FileServer \<Rightarrow> ('w Daemon, unit) go \<Rightarrow> watchEvent list \<Rightarrow> ('w Daemon, unit) go" where
  "StartSWUpdateWatcher api s dial events =
     tryM (watcher_Connect dial) (\<lambda>_. watchLoop api s dial events)"

section \<open>Transactions of the file server\<close>

text \<open>No transaction is left open: a relation between the daemon before and after a call.\<close>

definition staysClosed :: "'w Daemon \<Rightarrow> 'w Daemon \<Rightarrow> bool" where
  "staysClosed d d' \<longleftrightarrow> (IsTransactionOpen (scheduled d') \<longrightarrow> IsTransactionOpen (scheduled d))"

interpretation closed: step_relation staysClosed
  by unfold_locales (auto simp: staysClosed_def)

lemma closed_onDevice: "keeps staysClosed (onDevice m)"
  by (simp add: keeps_def onDevice_run staysClosed_def)

lemma inTx_run:
  "scheduled d = Some t \<Longrightarrow> inTx m d =
     (let (r, s) = m \<lparr>st_tx = t, st_world = daemon_world d\<rparr> in (r, d\<lparr>scheduled := Some (st_tx s), daemon_world := st_world s\<rparr>))"
  by (simp add: inTx_def split_def Let_def)

lemma closed_ownTransaction: "keeps staysClosed (ownTransaction m)"
  unfolding keeps_def
proof
  fix d
  have "tx_done (st_tx (snd (deferM Rollback k s)))" for s and k :: "('a txState, unit) go"
    using Rollback_ends [of "snd (k s)"] by (metis snd_deferM prod.collapse)
  then show "staysClosed d (snd (ownTransaction m d))"
    by (cases "IsTransactionOpen (scheduled d)")
      (simp_all add: ownTransaction_def CreateTransaction_def tryM_def staysClosed_def inTx_run split_def Let_def IsTransactionOpen_def IsDone_def)
qed

lemma closed_installDropIn:
  "keeps staysClosed (installDropIn api (NewFileServerWithTransactionSchedular s reg cat) n v)"
proof -
  have "keeps staysClosed (tryToUpdateAddon api (NewFileServerWithTransactionSchedular s reg cat) n v)"
    unfolding tryToUpdateAddon_def fs_isValidUpdate_def
    by (intro closed.keeps_tryM closed_onDevice closed.keeps_if closed.keeps_pure)
      (simp add: NewFileServerWithTransactionSchedular_def creator_UpdateAddOnRoutine_def closed_ownTransaction)
  moreover have "keeps staysClosed (creator_CreateAddOnRoutine s n v)"
    by (simp add: creator_CreateAddOnRoutine_def closed_ownTransaction)
  ultimately show ?thesis
    unfolding installDropIn_def
    by (intro closed.keeps_ignoreM closed.keeps_tryM closed.keeps_attemptM)
      (auto simp: NewFileServerWithTransactionSchedular_def intro: closed.keeps_pure split: sum.splits goerror.splits)
qed

lemma closed_dropInLoop:
  "keeps staysClosed (dropInLoop api (NewFileServerWithTransactionSchedular s reg cat) repositories)"
proof (induction repositories)
  case Nil
  then show ?case by (simp add: closed.keeps_pure)
next
  case (Cons r rs)
  have "keeps staysClosed (case t of Inl _ \<Rightarrow> dropInLoop api (NewFileServerWithTransactionSchedular s reg cat) rs
      | Inr tags \<Rightarrow> if tags = [] then dropInLoop api (NewFileServerWithTransactionSchedular s reg cat) rs
        else (let version = last (sort_Sort (Less api) tags)
          in tryM (installDropIn api (NewFileServerWithTransactionSchedular s reg cat) r version) (\<lambda>_.
             tryM (dropInLoop api (NewFileServerWithTransactionSchedular s reg cat) rs) (\<lambda>deferred.
             ret ((r, version) # deferred)))))" for t :: "goerror + string list"
    using Cons.IH
    by (auto simp: Let_def intro!: closed.keeps_tryM closed_installDropIn closed.keeps_pure split: sum.splits)
  then show ?case by (simp only: dropInLoop.simps) (intro closed.keeps_tryM closed.keeps_attemptM closed_onDevice)
qed

lemma closed_InstallAllDropInAddOns:
  "keeps staysClosed (InstallAllDropInAddOns api (NewFileServerWithTransactionSchedular s reg cat))"
  unfolding InstallAllDropInAddOns_def
  by (intro closed.keeps_tryM closed.keeps_if closed.keeps_eachM closed_onDevice closed_dropInLoop closed.keeps_pure)
    (auto intro: closed.keeps_ignoreM closed_onDevice)

text \<open>
  Installing everything in the drop-in folder, however it ends and whatever fails in a package: if no
  transaction was open before, none is open afterwards, so the requests of users are not blocked by it.
\<close>

theorem drop_ins_leave_no_transaction_open:
  assumes "\<not> IsTransactionOpen (scheduled d)"
    and "InstallAllDropInAddOns api (NewFileServerWithTransactionSchedular s reg cat) d = (r, d')"
  shows "\<not> IsTransactionOpen (scheduled d')"
  using keeps_run [OF closed_InstallAllDropInAddOns assms(2)] assms(1) by (simp add: staysClosed_def)


definition sampleFileServer :: "(unit, miniDocker) world FileServer" where
  "sampleFileServer =
     NewFileServerWithTransactionSchedular sampleService manifestRegistry (NewLocalAddOnCatalogue sampleCatalogue)"

theorem drop_ins_leave_no_transaction_open_witness:
  "\<not> IsTransactionOpen (scheduled (snd (InstallAllDropInAddOns dotted_version_api sampleFileServer (sampleDaemon (deviceWorld [])))))"
proof -
  have "\<not> IsTransactionOpen (scheduled (sampleDaemon (deviceWorld [])))"
    by (simp add: sampleDaemon_def IsTransactionOpen_def)
  from drop_ins_leave_no_transaction_open [OF this] show ?thesis
    unfolding sampleFileServer_def by (metis prod.collapse)
qed


end
