(* ===== verification/PortainerApi.thy ===== *)
theory PortainerApi
  imports Docker
begin

text \<open>
  The part of the generated client below \<^verbatim>\<open>internal/aom/docker/v0_1/portainer/client\<close> that the daemon calls: for each of
  the five calls the parameters and how they are written to a request, the operation that is submitted, and how the
  answer is read, with the models of \<^verbatim>\<open>portainer/models\<close> that are read or written.

  The runtime of \<^verbatim>\<open>go-openapi\<close> is third-party code. A request, of type \<open>'q\<close>, is only changed through the setters
  \<open>ClientRequest\<close>; \<open>Submit\<close> is what the transport does with an operation, on a state \<open>'s\<close>. What the properties need of it
  is \<open>http_transport\<close>. The setters of the parameters that the daemon does not call are left out.
\<close>

section \<open>models\<close>

record AuthAuthenticatePayload =
  pl_Password :: "string option"
  pl_Username :: "string option"

record PortainerPair =
  pair_Name :: string
  pair_Value :: string

record PortainerTeamResourceAccess =
  tra_AccessLevel :: "64 word"
  tra_TeamID :: "64 word"

record PortainerUserResourceAccess =
  ura_AccessLevel :: "64 word"
  ura_UserID :: "64 word"

record PortainerResourceControl =
  rsc_AccessLevel :: "64 word"
  rsc_AdministratorsOnly :: bool
  rsc_ID :: "64 word"
  rsc_OwnerID :: "64 word"
  rsc_Public :: bool
  rsc_ResourceID :: string
  rsc_SubResourceIds :: "string list"
  rsc_System :: bool
  rsc_TeamAccesses :: "PortainerTeamResourceAccess option list"
  rsc_Type :: "64 word"
  rsc_UserAccesses :: "PortainerUserResourceAccess option list"

record PortainerStack =
  st_EndpointID :: "64 word"
  st_EntryPoint :: string
  st_Env :: "PortainerPair option list"
  st_ID :: "64 word"
  st_Name :: string
  st_ResourceControl :: "PortainerResourceControl option"
  st_Status :: "64 word"
  st_SwarmID :: string
  st_Type :: "64 word"
  st_CreatedBy :: string
  st_CreationDate :: "64 word"
  st_ProjectPath :: string
  st_UpdateDate :: "64 word"
  st_UpdatedBy :: string

text \<open>The JSON form of what is sent; a required field that is nil is \<^verbatim>\<open>null\<close>.\<close>

definition eAuthPayload :: "AuthAuthenticatePayload \<Rightarrow> json" where
  "eAuthPayload m =
     JObj [(''password'', case pl_Password m of None \<Rightarrow> JNull | Some p \<Rightarrow> JStr p),
           (''username'', case pl_Username m of None \<Rightarrow> JNull | Some u \<Rightarrow> JStr u)]"

text \<open>What is read.\<close>

definition dAuthResponse :: "json \<Rightarrow> string res" where
  "dAuthResponse j = bind_res (dStruct j) (\<lambda>m. dStr (member m ''jwt''))"

definition dPortainerStatus :: "json \<Rightarrow> string res" where
  "dPortainerStatus j = bind_res (dStruct j) (\<lambda>m. dStr (member m ''Version''))"

definition dPair :: "json \<Rightarrow> PortainerPair res" where
  "dPair j =
     bind_res (dStruct j) (\<lambda>m.
     bind_res (dStr (member m ''name'')) (\<lambda>n.
     bind_res (dStr (member m ''value'')) (\<lambda>v.
     Ok \<lparr>pair_Name = n, pair_Value = v\<rparr>)))"

definition dTeamAccess :: "json \<Rightarrow> PortainerTeamResourceAccess res" where
  "dTeamAccess j =
     bind_res (dStruct j) (\<lambda>m.
     bind_res (dInt64 (member m ''AccessLevel'')) (\<lambda>a.
     bind_res (dInt64 (member m ''TeamId'')) (\<lambda>t.
     Ok \<lparr>tra_AccessLevel = a, tra_TeamID = t\<rparr>)))"

definition dUserAccess :: "json \<Rightarrow> PortainerUserResourceAccess res" where
  "dUserAccess j =
     bind_res (dStruct j) (\<lambda>m.
     bind_res (dInt64 (member m ''AccessLevel'')) (\<lambda>a.
     bind_res (dInt64 (member m ''UserId'')) (\<lambda>u.
     Ok \<lparr>ura_AccessLevel = a, ura_UserID = u\<rparr>)))"

definition dResourceControl :: "json \<Rightarrow> PortainerResourceControl res" where
  "dResourceControl j =
     bind_res (dStruct j) (\<lambda>m.
     bind_res (dInt64 (member m ''AccessLevel'')) (\<lambda>al.
     bind_res (dBool (member m ''AdministratorsOnly'')) (\<lambda>ao.
     bind_res (dInt64 (member m ''Id'')) (\<lambda>i.
     bind_res (dInt64 (member m ''OwnerId'')) (\<lambda>ow.
     bind_res (dBool (member m ''Public'')) (\<lambda>pu.
     bind_res (dStr (member m ''ResourceId'')) (\<lambda>ri.
     bind_res (dList dStr (member m ''SubResourceIds'')) (\<lambda>sr.
     bind_res (dBool (member m ''System'')) (\<lambda>sy.
     bind_res (dList (dPtr dTeamAccess) (member m ''TeamAccesses'')) (\<lambda>ta.
     bind_res (dInt64 (member m ''Type'')) (\<lambda>ty.
     bind_res (dList (dPtr dUserAccess) (member m ''UserAccesses'')) (\<lambda>ua.
     Ok \<lparr>rsc_AccessLevel = al, rsc_AdministratorsOnly = ao, rsc_ID = i, rsc_OwnerID = ow, rsc_Public = pu, rsc_ResourceID = ri,
         rsc_SubResourceIds = sr, rsc_System = sy, rsc_TeamAccesses = ta, rsc_Type = ty, rsc_UserAccesses = ua\<rparr>))))))))))))"

definition dPortainerStack :: "json \<Rightarrow> PortainerStack res" where
  "dPortainerStack j =
     bind_res (dStruct j) (\<lambda>m.
     bind_res (dInt64 (member m ''EndpointId'')) (\<lambda>e.
     bind_res (dStr (member m ''EntryPoint'')) (\<lambda>ep.
     bind_res (dList (dPtr dPair) (member m ''Env'')) (\<lambda>env.
     bind_res (dInt64 (member m ''Id'')) (\<lambda>i.
     bind_res (dStr (member m ''Name'')) (\<lambda>n.
     bind_res (dPtr dResourceControl (member m ''ResourceControl'')) (\<lambda>rc.
     bind_res (dInt64 (member m ''Status'')) (\<lambda>st.
     bind_res (dStr (member m ''SwarmId'')) (\<lambda>sw.
     bind_res (dInt64 (member m ''Type'')) (\<lambda>ty.
     bind_res (dStr (member m ''createdBy'')) (\<lambda>cb.
     bind_res (dInt64 (member m ''creationDate'')) (\<lambda>cd.
     bind_res (dStr (member m ''projectPath'')) (\<lambda>pp.
     bind_res (dInt64 (member m ''updateDate'')) (\<lambda>ud.
     bind_res (dStr (member m ''updatedBy'')) (\<lambda>ub.
     Ok \<lparr>st_EndpointID = e, st_EntryPoint = ep, st_Env = env, st_ID = i, st_Name = n, st_ResourceControl = rc, st_Status = st,
         st_SwarmID = sw, st_Type = ty, st_CreatedBy = cb, st_CreationDate = cd, st_ProjectPath = pp, st_UpdateDate = ud,
         st_UpdatedBy = ub\<rparr>)))))))))))))))"

section \<open>Requests and answers\<close>

text \<open>Times are nanoseconds. A context and a client are told apart by a number; the calls of the daemon pass none.\<close>

record 'q ClientRequest =
  SetTimeout :: "int \<Rightarrow> ('q, unit) go"
  SetQueryParam :: "string \<Rightarrow> string \<Rightarrow> ('q, unit) go"
  SetPathParam :: "string \<Rightarrow> string \<Rightarrow> ('q, unit) go"
  SetBodyParam :: "json \<Rightarrow> ('q, unit) go"

text \<open>What the consumer finds in the body: nothing (\<^verbatim>\<open>io.EOF\<close>), a document, or an error of its own.\<close>

datatype body = NoBody | JSONBody json | BrokenBody goerror

record response =
  resp_Code :: nat
  resp_Body :: body

fun consume :: "(json \<Rightarrow> 'a res) \<Rightarrow> 'a \<Rightarrow> body \<Rightarrow> 'a res" where
  "consume decode zero NoBody = Ok zero"
| "consume decode zero (JSONBody j) = decode j"
| "consume decode zero (BrokenBody e) = Err e"

datatype apiResult =
    AuthenticateUserOK string
  | LogoutNoContent
  | StackDeleteNoContent
  | StackListOK "PortainerStack option list"
  | StackListNoContent
  | StatusInspectOK string

fun goType :: "apiResult \<Rightarrow> string" where
  "goType (AuthenticateUserOK _) = ''*auth.AuthenticateUserOK''"
| "goType LogoutNoContent = ''*auth.LogoutNoContent''"
| "goType StackDeleteNoContent = ''*stacks.StackDeleteNoContent''"
| "goType (StackListOK _) = ''*stacks.StackListOK''"
| "goType StackListNoContent = ''*stacks.StackListNoContent''"
| "goType (StatusInspectOK _) = ''*status.StatusInspectOK''"

text \<open>What the generated code takes from the runtime.\<close>

record openapi =
  DefaultTimeout :: int
  NewAPIError :: "string \<Rightarrow> response \<Rightarrow> goerror"

definition undefinedStatus :: "openapi \<Rightarrow> response \<Rightarrow> 'a res" where
  "undefinedStatus rt resp = Err (NewAPIError rt
     ''response status code does not match any response statuses defined for this endpoint in the swagger spec'' resp)"

record ('s, 'q) ClientOperation =
  op_ID :: string
  op_Method :: string
  op_PathPattern :: string
  op_ProducesMediaTypes :: "string list"
  op_ConsumesMediaTypes :: "string list"
  op_Schemes :: "string list"
  op_Params :: "'q ClientRequest \<Rightarrow> ('q, unit) go"
  op_Reader :: "response \<Rightarrow> apiResult res"
  op_AuthInfo :: "('q \<Rightarrow> ('s, 'q) go) option"
  op_Context :: "nat option"
  op_Client :: "nat option"

text \<open>All operations are made with the same media types and schemes.\<close>

definition jsonOperation ::
  "string \<Rightarrow> string \<Rightarrow> string \<Rightarrow> ('q ClientRequest \<Rightarrow> ('q, unit) go) \<Rightarrow> (response \<Rightarrow> apiResult res) \<Rightarrow>
   ('q \<Rightarrow> ('s, 'q) go) option \<Rightarrow> nat option \<Rightarrow> nat option \<Rightarrow> ('s, 'q) ClientOperation" where
  "jsonOperation i method pathPattern params rd authInfo ctx client =
     \<lparr>op_ID = i, op_Method = method, op_PathPattern = pathPattern, op_ProducesMediaTypes = [''application/json''],
      op_ConsumesMediaTypes = [''application/json''], op_Schemes = [''http'', ''https''], op_Params = params, op_Reader = rd,
      op_AuthInfo = authInfo, op_Context = ctx, op_Client = client\<rparr>"

type_synonym ('s, 'q) submit = "('s, 'q) ClientOperation \<Rightarrow> ('s, apiResult) go"
type_synonym ('s, 'q) options = "(('s, 'q) ClientOperation \<Rightarrow> ('s, 'q) ClientOperation) list"

definition unexpectedSuccess :: "string \<Rightarrow> apiResult \<Rightarrow> ('s, 'a) go" where
  "unexpectedSuccess call result = panicM (''unexpected success response for '' @ call @
     '': API contract not enforced by server. Client expected to get an error, but got: '' @ goType result)"

section \<open>client/auth\<close>

record AuthenticateUserParams =
  aup_Body :: "AuthAuthenticatePayload option"
  aup_timeout :: int
  aup_Context :: "nat option"
  aup_HTTPClient :: "nat option"

definition NewAuthenticateUserParams :: "openapi \<Rightarrow> AuthenticateUserParams" where
  "NewAuthenticateUserParams rt = \<lparr>aup_Body = None, aup_timeout = DefaultTimeout rt, aup_Context = None, aup_HTTPClient = None\<rparr>"

text \<open>This constructor leaves the time-out at its zero value.\<close>

definition NewAuthenticateUserParamsWithContext :: "nat \<Rightarrow> AuthenticateUserParams" where
  "NewAuthenticateUserParamsWithContext ctx = \<lparr>aup_Body = None, aup_timeout = 0, aup_Context = Some ctx, aup_HTTPClient = None\<rparr>"

definition WithBody :: "AuthAuthenticatePayload option \<Rightarrow> AuthenticateUserParams \<Rightarrow> AuthenticateUserParams" where
  "WithBody body params = params\<lparr>aup_Body := body\<rparr>"

definition AuthenticateUserParams_WriteToRequest :: "AuthenticateUserParams \<Rightarrow> 'q ClientRequest \<Rightarrow> ('q, unit) go" where
  "AuthenticateUserParams_WriteToRequest params r =
     tryM (SetTimeout r (aup_timeout params)) (\<lambda>_.
     case aup_Body params of
       None \<Rightarrow> ret ()
     | Some body \<Rightarrow> SetBodyParam r (eAuthPayload body))"

definition AuthenticateUserOK_readResponse :: "response \<Rightarrow> apiResult res" where
  "AuthenticateUserOK_readResponse resp = bind_res (consume dAuthResponse [] (resp_Body resp)) (\<lambda>payload. Ok (AuthenticateUserOK payload))"

datatype authenticateUserError =
  AuthenticateUserBadRequest | AuthenticateUserUnprocessableEntity | AuthenticateUserInternalServerError

fun authenticateUserError_Error :: "authenticateUserError \<Rightarrow> string" where
  "authenticateUserError_Error AuthenticateUserBadRequest = ''[POST /auth][400] authenticateUserBadRequest ''"
| "authenticateUserError_Error AuthenticateUserUnprocessableEntity = ''[POST /auth][422] authenticateUserUnprocessableEntity ''"
| "authenticateUserError_Error AuthenticateUserInternalServerError = ''[POST /auth][500] authenticateUserInternalServerError ''"

definition AuthenticateUserReader :: "openapi \<Rightarrow> response \<Rightarrow> apiResult res" where
  "AuthenticateUserReader rt resp =
     (let failed = (\<lambda>e. Err (ErrorString (authenticateUserError_Error e))); code = resp_Code resp
      in if code = 200 then AuthenticateUserOK_readResponse resp
         else if code = 400 then failed AuthenticateUserBadRequest
         else if code = 422 then failed AuthenticateUserUnprocessableEntity
         else if code = 500 then failed AuthenticateUserInternalServerError
         else undefinedStatus rt resp)"

definition AuthenticateUser ::
  "openapi \<Rightarrow> ('s, 'q) submit \<Rightarrow> AuthenticateUserParams option \<Rightarrow> ('s, 'q) options \<Rightarrow> ('s, string) go" where
  "AuthenticateUser rt submit params opts =
     (let params = (case params of None \<Rightarrow> NewAuthenticateUserParams rt | Some p \<Rightarrow> p);
          op = jsonOperation ''AuthenticateUser'' ''POST'' ''/auth'' (AuthenticateUserParams_WriteToRequest params)
            (AuthenticateUserReader rt) None (aup_Context params) (aup_HTTPClient params)
      in tryM (submit (foldl (\<lambda>op opt. opt op) op opts)) (\<lambda>result.
         case result of
           AuthenticateUserOK success \<Rightarrow> ret success
         | _ \<Rightarrow> unexpectedSuccess ''AuthenticateUser'' result))"

record LogoutParams =
  lop_timeout :: int
  lop_Context :: "nat option"
  lop_HTTPClient :: "nat option"

definition NewLogoutParams :: "openapi \<Rightarrow> LogoutParams" where
  "NewLogoutParams rt = \<lparr>lop_timeout = DefaultTimeout rt, lop_Context = None, lop_HTTPClient = None\<rparr>"

definition LogoutParams_WriteToRequest :: "LogoutParams \<Rightarrow> 'q ClientRequest \<Rightarrow> ('q, unit) go" where
  "LogoutParams_WriteToRequest params r = tryM (SetTimeout r (lop_timeout params)) (\<lambda>_. ret ())"

definition LogoutReader :: "openapi \<Rightarrow> response \<Rightarrow> apiResult res" where
  "LogoutReader rt resp = (if resp_Code resp = 204 then Ok LogoutNoContent else undefinedStatus rt resp)"

definition rest_Logout ::
  "openapi \<Rightarrow> ('s, 'q) submit \<Rightarrow> LogoutParams option \<Rightarrow> ('q \<Rightarrow> ('s, 'q) go) option \<Rightarrow> ('s, 'q) options \<Rightarrow> ('s, unit) go" where
  "rest_Logout rt submit params authInfo opts =
     (let params = (case params of None \<Rightarrow> NewLogoutParams rt | Some p \<Rightarrow> p);
          op = jsonOperation ''logout'' ''POST'' ''/auth/logout'' (LogoutParams_WriteToRequest params) (LogoutReader rt)
            authInfo (lop_Context params) (lop_HTTPClient params)
      in tryM (submit (foldl (\<lambda>op opt. opt op) op opts)) (\<lambda>result.
         case result of
           LogoutNoContent \<Rightarrow> ret ()
         | _ \<Rightarrow> unexpectedSuccess ''logout'' result))"

section \<open>client/status\<close>

record StatusInspectParams =
  sip_timeout :: int
  sip_Context :: "nat option"
  sip_HTTPClient :: "nat option"

definition NewStatusInspectParams :: "openapi \<Rightarrow> StatusInspectParams" where
  "NewStatusInspectParams rt = \<lparr>sip_timeout = DefaultTimeout rt, sip_Context = None, sip_HTTPClient = None\<rparr>"

definition StatusInspectParams_WriteToRequest :: "StatusInspectParams \<Rightarrow> 'q ClientRequest \<Rightarrow> ('q, unit) go" where
  "StatusInspectParams_WriteToRequest params r = tryM (SetTimeout r (sip_timeout params)) (\<lambda>_. ret ())"

definition StatusInspectOK_readResponse :: "response \<Rightarrow> apiResult res" where
  "StatusInspectOK_readResponse resp = bind_res (consume dPortainerStatus [] (resp_Body resp)) (\<lambda>payload. Ok (StatusInspectOK payload))"

definition StatusInspectReader :: "openapi \<Rightarrow> response \<Rightarrow> apiResult res" where
  "StatusInspectReader rt resp =
     (if resp_Code resp = 200 then StatusInspectOK_readResponse resp
      else undefinedStatus rt resp)"

definition StatusInspect ::
  "openapi \<Rightarrow> ('s, 'q) submit \<Rightarrow> StatusInspectParams option \<Rightarrow> ('s, 'q) options \<Rightarrow> ('s, string) go" where
  "StatusInspect rt submit params opts =
     (let params = (case params of None \<Rightarrow> NewStatusInspectParams rt | Some p \<Rightarrow> p);
          op = jsonOperation ''StatusInspect'' ''GET'' ''/status'' (StatusInspectParams_WriteToRequest params)
            (StatusInspectReader rt) None (sip_Context params) (sip_HTTPClient params)
      in tryM (submit (foldl (\<lambda>op opt. opt op) op opts)) (\<lambda>result.
         case result of
           StatusInspectOK success \<Rightarrow> ret success
         | _ \<Rightarrow> unexpectedSuccess ''StatusInspect'' result))"

section \<open>client/stacks\<close>

definition FormatInt64 :: "64 word \<Rightarrow> string" where
  "FormatInt64 i = (if sint i < 0 then ''-'' else []) @ show_nat (nat \<bar>sint i\<bar>)"

definition FormatBool :: "bool \<Rightarrow> string" where
  "FormatBool b = (if b then ''true'' else ''false'')"

text \<open>A query parameter that is set is written when its text is not empty.\<close>

definition writeQueryParam :: "'q ClientRequest \<Rightarrow> string \<Rightarrow> string option \<Rightarrow> ('q, unit) go" where
  "writeQueryParam r name v =
     (case v of
        None \<Rightarrow> ret ()
      | Some q \<Rightarrow> if q \<noteq> [] then SetQueryParam r name q else ret ())"

record StackListParams =
  slp_Filters :: "string option"
  slp_timeout :: int
  slp_Context :: "nat option"
  slp_HTTPClient :: "nat option"

definition NewStackListParams :: "openapi \<Rightarrow> StackListParams" where
  "NewStackListParams rt = \<lparr>slp_Filters = None, slp_timeout = DefaultTimeout rt, slp_Context = None, slp_HTTPClient = None\<rparr>"

definition WithFilters :: "string option \<Rightarrow> StackListParams \<Rightarrow> StackListParams" where
  "WithFilters filters params = params\<lparr>slp_Filters := filters\<rparr>"

definition StackListParams_WriteToRequest :: "StackListParams \<Rightarrow> 'q ClientRequest \<Rightarrow> ('q, unit) go" where
  "StackListParams_WriteToRequest params r =
     tryM (SetTimeout r (slp_timeout params)) (\<lambda>_.
     tryM (writeQueryParam r ''filters'' (slp_Filters params)) (\<lambda>_. ret ()))"

datatype stackListError = StackListBadRequest | StackListInternalServerError

fun stackListError_Error :: "stackListError \<Rightarrow> string" where
  "stackListError_Error StackListBadRequest = ''[GET /stacks][400] stackListBadRequest ''"
| "stackListError_Error StackListInternalServerError = ''[GET /stacks][500] stackListInternalServerError ''"

text \<open>The payload is a slice of pointers: an element that is \<^verbatim>\<open>null\<close> in the answer is nil.\<close>

definition StackListOK_readResponse :: "response \<Rightarrow> apiResult res" where
  "StackListOK_readResponse resp = bind_res (consume (dList (dPtr dPortainerStack)) [] (resp_Body resp)) (\<lambda>payload. Ok (StackListOK payload))"

definition StackListReader :: "openapi \<Rightarrow> response \<Rightarrow> apiResult res" where
  "StackListReader rt resp =
     (let failed = (\<lambda>e. Err (ErrorString (stackListError_Error e))); code = resp_Code resp
      in if code = 200 then StackListOK_readResponse resp
         else if code = 204 then Ok StackListNoContent
         else if code = 400 then failed StackListBadRequest
         else if code = 500 then failed StackListInternalServerError
         else undefinedStatus rt resp)"

text \<open>The call returns two pointers, of which one is nil; \<open>None\<close> stands for the answer without content.\<close>

definition StackList ::
  "openapi \<Rightarrow> ('s, 'q) submit \<Rightarrow> StackListParams option \<Rightarrow> ('q \<Rightarrow> ('s, 'q) go) option \<Rightarrow> ('s, 'q) options \<Rightarrow>
   ('s, PortainerStack option list option) go" where
  "StackList rt submit params authInfo opts =
     (let params = (case params of None \<Rightarrow> NewStackListParams rt | Some p \<Rightarrow> p);
          op = jsonOperation ''StackList'' ''GET'' ''/stacks'' (StackListParams_WriteToRequest params) (StackListReader rt)
            authInfo (slp_Context params) (slp_HTTPClient params)
      in tryM (submit (foldl (\<lambda>op opt. opt op) op opts)) (\<lambda>result.
         case result of
           StackListOK payload \<Rightarrow> ret (Some payload)
         | StackListNoContent \<Rightarrow> ret None
         | _ \<Rightarrow> unexpectedSuccess ''stacks'' result))"

record StackDeleteParams =
  sdp_EndpointID :: "64 word option"
  sdp_External :: "bool option"
  sdp_ID :: "64 word"
  sdp_timeout :: int
  sdp_Context :: "nat option"
  sdp_HTTPClient :: "nat option"

definition NewStackDeleteParamsWithTimeout :: "int \<Rightarrow> StackDeleteParams" where
  "NewStackDeleteParamsWithTimeout timeout =
     \<lparr>sdp_EndpointID = None, sdp_External = None, sdp_ID = 0, sdp_timeout = timeout, sdp_Context = None, sdp_HTTPClient = None\<rparr>"

definition NewStackDeleteParams :: "openapi \<Rightarrow> StackDeleteParams" where
  "NewStackDeleteParams rt = \<lparr>sdp_EndpointID = None, sdp_External = None, sdp_ID = 0, sdp_timeout = DefaultTimeout rt,
     sdp_Context = None, sdp_HTTPClient = None\<rparr>"

definition WithEndpointID :: "64 word option \<Rightarrow> StackDeleteParams \<Rightarrow> StackDeleteParams" where
  "WithEndpointID endpointID params = params\<lparr>sdp_EndpointID := endpointID\<rparr>"

definition WithID :: "64 word \<Rightarrow> StackDeleteParams \<Rightarrow> StackDeleteParams" where
  "WithID i params = params\<lparr>sdp_ID := i\<rparr>"

definition StackDeleteParams_WriteToRequest :: "StackDeleteParams \<Rightarrow> 'q ClientRequest \<Rightarrow> ('q, unit) go" where
  "StackDeleteParams_WriteToRequest params r =
     tryM (SetTimeout r (sdp_timeout params)) (\<lambda>_.
     tryM (writeQueryParam r ''endpointId'' (map_option FormatInt64 (sdp_EndpointID params))) (\<lambda>_.
     tryM (writeQueryParam r ''external'' (map_option FormatBool (sdp_External params))) (\<lambda>_.
     tryM (SetPathParam r ''id'' (FormatInt64 (sdp_ID params))) (\<lambda>_. ret ()))))"

datatype stackDeleteError =
  StackDeleteBadRequest | StackDeleteForbidden | StackDeleteNotFound | StackDeleteInternalServerError

fun stackDeleteError_Error :: "stackDeleteError \<Rightarrow> string" where
  "stackDeleteError_Error StackDeleteBadRequest = ''[DELETE /stacks/{id}][400] stackDeleteBadRequest ''"
| "stackDeleteError_Error StackDeleteForbidden = ''[DELETE /stacks/{id}][403] stackDeleteForbidden ''"
| "stackDeleteError_Error StackDeleteNotFound = ''[DELETE /stacks/{id}][404] stackDeleteNotFound ''"
| "stackDeleteError_Error StackDeleteInternalServerError = ''[DELETE /stacks/{id}][500] stackDeleteInternalServerError ''"

definition StackDeleteReader :: "openapi \<Rightarrow> response \<Rightarrow> apiResult res" where
  "StackDeleteReader rt resp =
     (let failed = (\<lambda>e. Err (ErrorString (stackDeleteError_Error e))); code = resp_Code resp
      in if code = 204 then Ok StackDeleteNoContent
         else if code = 400 then failed StackDeleteBadRequest
         else if code = 403 then failed StackDeleteForbidden
         else if code = 404 then failed StackDeleteNotFound
         else if code = 500 then failed StackDeleteInternalServerError
         else undefinedStatus rt resp)"

definition StackDelete ::
  "openapi \<Rightarrow> ('s, 'q) submit \<Rightarrow> StackDeleteParams option \<Rightarrow> ('q \<Rightarrow> ('s, 'q) go) option \<Rightarrow> ('s, 'q) options \<Rightarrow> ('s, unit) go" where
  "StackDelete rt submit params authInfo opts =
     (let params = (case params of None \<Rightarrow> NewStackDeleteParams rt | Some p \<Rightarrow> p);
          op = jsonOperation ''StackDelete'' ''DELETE'' ''/stacks/{id}'' (StackDeleteParams_WriteToRequest params)
            (StackDeleteReader rt) authInfo (sdp_Context params) (sdp_HTTPClient params)
      in tryM (submit (foldl (\<lambda>op opt. opt op) op opts)) (\<lambda>result.
         case result of
           StackDeleteNoContent \<Rightarrow> ret ()
         | _ \<Rightarrow> unexpectedSuccess ''StackDelete'' result))"

section \<open>client/portainer\_c\_e\_api\_client.go\<close>

definition DefaultBasePath :: string where
  "DefaultBasePath = ''/api''"

text \<open>The client is the five calls over one transport.\<close>

record ('s, 'q) PortainerCEAPI =
  api_AuthenticateUser :: "AuthenticateUserParams option \<Rightarrow> ('s, 'q) options \<Rightarrow> ('s, string) go"
  api_Logout :: "LogoutParams option \<Rightarrow> ('q \<Rightarrow> ('s, 'q) go) option \<Rightarrow> ('s, 'q) options \<Rightarrow> ('s, unit) go"
  api_StackDelete :: "StackDeleteParams option \<Rightarrow> ('q \<Rightarrow> ('s, 'q) go) option \<Rightarrow> ('s, 'q) options \<Rightarrow> ('s, unit) go"
  api_StackList :: "StackListParams option \<Rightarrow> ('q \<Rightarrow> ('s, 'q) go) option \<Rightarrow> ('s, 'q) options \<Rightarrow>
    ('s, PortainerStack option list option) go"
  api_StatusInspect :: "StatusInspectParams option \<Rightarrow> ('s, 'q) options \<Rightarrow> ('s, string) go"

definition NewPortainerCEAPI :: "openapi \<Rightarrow> ('s, 'q) submit \<Rightarrow> ('s, 'q) PortainerCEAPI" where
  "NewPortainerCEAPI rt submit =
     \<lparr>api_AuthenticateUser = AuthenticateUser rt submit, api_Logout = rest_Logout rt submit,
      api_StackDelete = StackDelete rt submit, api_StackList = StackList rt submit, api_StatusInspect = StatusInspect rt submit\<rparr>"

section \<open>The transport\<close>

definition writeTo :: "('q, unit) go \<Rightarrow> 'q \<Rightarrow> 'q res" where
  "writeTo m q = (case m q of (Ok _, q') \<Rightarrow> Ok q' | (Err e, _) \<Rightarrow> Err e | (Panic p, _) \<Rightarrow> Panic p)"

text \<open>
  \<^verbatim>\<open>runtime.ClientTransport\<close>: a request is made of the method and the path, the parameters write to it, then the
  authentication does, it is sent, and the reader reads the answer.
\<close>

definition http_transport ::
  "'q ClientRequest \<Rightarrow> (string \<Rightarrow> string \<Rightarrow> 'q) \<Rightarrow> ('q \<Rightarrow> ('s, response) go) \<Rightarrow> ('s, 'q) submit \<Rightarrow> bool" where
  "http_transport setters newRequest exchange submit \<longleftrightarrow>
     (\<forall>op. submit op =
       tryM (liftR (writeTo (op_Params op setters) (newRequest (op_Method op) (op_PathPattern op)))) (\<lambda>req.
       tryM (case op_AuthInfo op of None \<Rightarrow> ret req | Some w \<Rightarrow> w req) (\<lambda>req.
       tryM (exchange req) (\<lambda>resp.
       liftR (op_Reader op resp)))))"

end
