(* ===== verification/Portainer.thy ===== *)
theory Portainer
  imports PortainerApi
begin

text \<open>
  \<^verbatim>\<open>internal/aom/docker/v0_1\<close>: the client of the Portainer service, on which uc-aom before 0.4.0 kept its
  stacks. It is used only while such an installation is migrated.

  It calls the generated client of \<open>PortainerApi\<close>. The JWT parser, the clock and the writer of a bearer token are
  third-party code, the record \<open>sessionLib\<close>. The server works on the state \<open>'d\<close> of the Docker daemon.
\<close>

section \<open>portainer\_helper.go\<close>

definition normalChar :: "char \<Rightarrow> bool" where
  "normalChar c \<longleftrightarrow> isLower c \<or> isDigit c"

definition NormalizeName :: "string \<Rightarrow> string" where
  "NormalizeName name = filter normalChar (ToLower name)"

section \<open>portainer\_credentials.go\<close>

record PortainerUserCredentials =
  Username :: string
  Password :: string

definition isSpace :: "char \<Rightarrow> bool" where
  "isSpace c \<longleftrightarrow> c \<in> {CHR 0x09, CHR 0x0A, CHR 0x0B, CHR 0x0C, CHR 0x0D, CHR '' ''}"

definition TrimSpace :: "string \<Rightarrow> string" where
  "TrimSpace s = rev (dropWhile isSpace (rev (dropWhile isSpace s)))"

text \<open>
  \<^verbatim>\<open>bufio.ScanLines\<close>: lines end at a newline, the end of the file ends the last one, a carriage return before
  the end of the line is dropped. A line that does not fit into the scanner's buffer of 64 KiB ends the scan
  with an error.
\<close>

definition dropCR :: "string \<Rightarrow> string" where
  "dropCR l = (if l \<noteq> [] \<and> last l = CHR 0x0D then butlast l else l)"

definition maxScanTokenSize :: nat where
  "maxScanTokenSize = 65536"

definition scanLines :: "string \<Rightarrow> string list" where
  "scanLines s = (let ls = Split s nl in if last ls = [] then butlast ls else ls)"

definition propertyOf :: "string \<Rightarrow> (string \<times> string) option" where
  "propertyOf line =
     (case SplitN2 line (CHR ''='') of
        [k, v] \<Rightarrow> (let key = TrimSpace k in if key \<noteq> [] then Some (key, TrimSpace v) else None)
      | _ \<Rightarrow> None)"

text \<open>\<^verbatim>\<open>log.Fatal\<close> ends the process.\<close>

definition createPropertiesMap :: "string \<Rightarrow> (string \<times> string) list res" where
  "createPropertiesMap text =
     (if list_ex (\<lambda>l. length l \<ge> maxScanTokenSize) (scanLines text)
      then Panic ''bufio.Scanner: token too long''
      else Ok (putAll (List.map_filter (\<lambda>l. propertyOf (dropCR l)) (scanLines text)) []))"

definition property :: "(string \<times> string) list \<Rightarrow> string \<Rightarrow> string" where
  "property props k = (case map_of props k of None \<Rightarrow> [] | Some v \<Rightarrow> v)"

text \<open>The text of a file; \<open>render\<close> is the text of a file that holds a JSON document.\<close>

fun contentText :: "(json \<Rightarrow> string) \<Rightarrow> content \<Rightarrow> string" where
  "contentText render (Text s) = s"
| "contentText render (Doc j) = render j"

definition readPortainerCredentials :: "(json \<Rightarrow> string) \<Rightarrow> path \<Rightarrow> (FS, PortainerUserCredentials) go" where
  "readPortainerCredentials render portainerFilepath =
     tryM (osReadFile portainerFilepath) (\<lambda>content.
     tryM (liftR (createPropertiesMap (contentText render content))) (\<lambda>props.
     ret \<lparr>Username = property props ''PORTAINER_LOCAL_ADMIN_USER'',
          Password = property props ''PORTAINER_LOCAL_ADMIN_PW''\<rparr>))"

definition GetPortainerCredentials :: "(json \<Rightarrow> string) \<Rightarrow> path \<Rightarrow> (FS, PortainerUserCredentials) go" where
  "GetPortainerCredentials render portainerFilepath = readPortainerCredentials render portainerFilepath"

section \<open>auth\_info\_writer\_wrapper.go\<close>

text \<open>Times are nanoseconds. The callback of the wrapper is an argument of its methods.\<close>

record ('d, 'q) sessionLib =
  ParseUnverified :: "string \<Rightarrow> int option res"
  timeNow :: "'d \<Rightarrow> int"
  BearerToken :: "string \<Rightarrow> ('q, unit) go"

record ClientAuthInfoWriterWrapper =
  authInfoWriter :: "string option"
  auth_credentials :: PortainerUserCredentials
  expTime :: int

type_synonym 'd session = "'d \<times> ClientAuthInfoWriterWrapper"
type_synonym ('d, 'q) authUsersCallback =
  "AuthenticateUserParams option \<Rightarrow> ('d session, 'q) options \<Rightarrow> ('d session, string) go"

definition backgroundContext :: nat where
  "backgroundContext = 0"

text \<open>A token without an expiry is a nil dereference, after the token has been stored.\<close>

definition authenticate :: "('d, 'q) sessionLib \<Rightarrow> ('d, 'q) authUsersCallback \<Rightarrow> ('d session, unit) go" where
  "authenticate lib authUsers =
     tryM (getM (\<lambda>s. auth_credentials (snd s))) (\<lambda>creds.
     let client_data = WithBody (Some \<lparr>pl_Password = Some (Password creds), pl_Username = Some (Username creds)\<rparr>)
           (NewAuthenticateUserParamsWithContext backgroundContext)
     in
     tryM (authUsers (Some client_data) []) (\<lambda>tokenString.
     tryM (liftR (ParseUnverified lib tokenString)) (\<lambda>expiresAt.
     tryM (modifyM (\<lambda>(d, c). (d, c\<lparr>authInfoWriter := Some tokenString\<rparr>))) (\<lambda>_.
     case expiresAt of
       None \<Rightarrow> panicM ''invalid memory address or nil pointer dereference''
     | Some t \<Rightarrow> modifyM (\<lambda>(d, c). (d, c\<lparr>expTime := t\<rparr>))))))"

definition NewClientAuthInfoWriterWrapper ::
  "('d, 'q) sessionLib \<Rightarrow> PortainerUserCredentials \<Rightarrow> ('d, 'q) authUsersCallback \<Rightarrow> ('d, ClientAuthInfoWriterWrapper) go" where
  "NewClientAuthInfoWriterWrapper lib credentials authUsers d =
     (case authenticate lib authUsers (d, \<lparr>authInfoWriter = None, auth_credentials = credentials, expTime = timeNow lib d\<rparr>) of
        (Ok _, (d', c)) \<Rightarrow> (Ok c, d')
      | (Err e, (d', c)) \<Rightarrow> (Err e, d')
      | (Panic p, (d', c)) \<Rightarrow> (Panic p, d'))"

definition timeWindow :: int where
  "timeWindow = 30 * 60 * 1000000000"

definition isTokenExpired :: "('d, 'q) sessionLib \<Rightarrow> 'd session \<Rightarrow> bool" where
  "isTokenExpired lib s \<longleftrightarrow> expTime (snd s) < timeNow lib (fst s) + timeWindow"

text \<open>The writer puts the token into the request.\<close>

definition AuthenticateRequest :: "('d, 'q) sessionLib \<Rightarrow> ('d, 'q) authUsersCallback \<Rightarrow> 'q \<Rightarrow> ('d session, 'q) go" where
  "AuthenticateRequest lib authUsers req =
     tryM (getM (isTokenExpired lib)) (\<lambda>expired.
     tryM (if expired then authenticate lib authUsers else ret ()) (\<lambda>_.
     tryM (getM (\<lambda>s. authInfoWriter (snd s))) (\<lambda>w.
     case w of
       None \<Rightarrow> panicM ''invalid memory address or nil pointer dereference''
     | Some token \<Rightarrow> liftR (writeTo (BearerToken lib token) req))))"

section \<open>portainer\_client.go\<close>

record ('d, 'q) portainerClientService =
  portainerClient :: "('d session, 'q) PortainerCEAPI"
  clientAuthInfoWriter :: "'q \<Rightarrow> ('d session, 'q) go"
  endpointID :: "64 word"
  pcs_timeout :: int

definition client_Logout :: "openapi \<Rightarrow> ('d, 'q) portainerClientService \<Rightarrow> ('d session, unit) go" where
  "client_Logout rt c = api_Logout (portainerClient c) (Some (NewLogoutParams rt)) (Some (clientAuthInfoWriter c)) []"

definition endpointFilter :: "64 word \<Rightarrow> string" where
  "endpointFilter endpoint = CHR ''{'' # quoted ''EndpointID'' @ '':'' @ FormatInt64 endpoint @ ''}''"

text \<open>The loop reads the name of every element: a nil one is a nil dereference.\<close>

fun findStackId :: "string \<Rightarrow> PortainerStack option list \<Rightarrow> 64 word res" where
  "findStackId name [] = Err (ErrNotExist ''file does not exist'')"
| "findStackId name (None # items) = Panic ''invalid memory address or nil pointer dereference''"
| "findStackId name (Some item # items) = (if st_Name item = name then Ok (st_ID item) else findStackId name items)"

definition getPortainerStackId :: "openapi \<Rightarrow> ('d, 'q) portainerClientService \<Rightarrow> string \<Rightarrow> ('d session, 64 word) go" where
  "getPortainerStackId rt c name =
     (let params = WithFilters (Some (endpointFilter (endpointID c))) (NewStackListParams rt)
      in tryM (api_StackList (portainerClient c) (Some params) (Some (clientAuthInfoWriter c)) []) (\<lambda>resp.
         case resp of
           None \<Rightarrow> fail (ErrNotExist ''file does not exist'')
         | Some payload \<Rightarrow> liftR (findStackId (NormalizeName name) payload)))"

definition client_DeleteAddOnStack :: "openapi \<Rightarrow> ('d, 'q) portainerClientService \<Rightarrow> string \<Rightarrow> ('d session, unit) go" where
  "client_DeleteAddOnStack rt c stackName =
     tryM (attemptM (getPortainerStackId rt c stackName)) (\<lambda>r.
       case r of
         Inl (ErrNotExist _) \<Rightarrow> ret ()
       | Inl err \<Rightarrow> fail err
       | Inr i \<Rightarrow>
           api_StackDelete (portainerClient c)
             (Some (WithEndpointID (Some (endpointID c)) (WithID i (NewStackDeleteParamsWithTimeout (pcs_timeout c)))))
             (Some (clientAuthInfoWriter c)) [])"

record 's PortainerClientService =
  pcs_DeleteAddOnStack :: "string \<Rightarrow> ('s, unit) go"
  pcs_Logout :: "('s, unit) go"

definition NewPortainerClientService ::
  "openapi \<Rightarrow> ('d session, 'q) PortainerCEAPI \<Rightarrow> ('q \<Rightarrow> ('d session, 'q) go) \<Rightarrow> 64 word \<Rightarrow> int \<Rightarrow> 'd session PortainerClientService" where
  "NewPortainerClientService rt api writer endpointId timeout =
     (let c = \<lparr>portainerClient = api, clientAuthInfoWriter = writer, endpointID = endpointId, pcs_timeout = timeout\<rparr>
      in \<lparr>pcs_DeleteAddOnStack = client_DeleteAddOnStack rt c, pcs_Logout = client_Logout rt c\<rparr>)"

section \<open>v0\_1/portainer.go\<close>

definition v01_StackVersion :: string where
  "v01_StackVersion = ''0.1''"

definition portainerTimeout :: int where
  "portainerTimeout = 60 * 60 * 1000000000"

text \<open>\<^verbatim>\<open>httptransport.New\<close> is the parameter \<open>newTransport\<close>: the host, the base path and the schemes.\<close>

definition createPortainerAPIClientAt ::
  "openapi \<Rightarrow> (string \<Rightarrow> string \<Rightarrow> string list \<Rightarrow> ('s, 'q) submit) \<Rightarrow> string \<Rightarrow> ('s, 'q) PortainerCEAPI" where
  "createPortainerAPIClientAt rt newTransport host = NewPortainerCEAPI rt (newTransport host DefaultBasePath [''http''])"

fun statusTries :: "nat \<Rightarrow> goerror option \<Rightarrow> ('s, 'q) PortainerCEAPI \<Rightarrow> ('s, string option) go" where
  "statusTries 0 err api = (case err of None \<Rightarrow> ret None | Some e \<Rightarrow> fail e)"
| "statusTries (Suc n) err api =
     tryM (attemptM (api_StatusInspect api None [])) (\<lambda>r.
       case r of Inr status \<Rightarrow> ret (Some status) | Inl errStatus \<Rightarrow> statusTries n (Some errStatus) api)"

definition tryGetPortainerStatus :: "('s, 'q) PortainerCEAPI \<Rightarrow> ('s, string option) go" where
  "tryGetPortainerStatus api = statusTries 5 None api"

text \<open>A call before there is a wrapper; without authentication it takes no part in the call.\<close>

definition beforeSession :: "('d session, 'a) go \<Rightarrow> ('d, 'a) go" where
  "beforeSession m d =
     (case m (d, \<lparr>authInfoWriter = None, auth_credentials = \<lparr>Username = [], Password = []\<rparr>, expTime = 0\<rparr>) of (r, s) \<Rightarrow> (r, fst s))"

text \<open>
  A status that could not be read is logged, and then the version is read from it. The result is the client, and the
  wrapper it shares with its calls.
\<close>

definition ConnectToPortainer ::
  "openapi \<Rightarrow> ('d, 'q) sessionLib \<Rightarrow> (string \<Rightarrow> string \<Rightarrow> string list \<Rightarrow> ('d session, 'q) submit) \<Rightarrow> (json \<Rightarrow> string) \<Rightarrow>
   string \<Rightarrow> path \<Rightarrow> (('r, 'd) world, ClientAuthInfoWriterWrapper \<times> 'd session PortainerClientService) go" where
  "ConnectToPortainer rt lib newTransport render portainerHost credentialsPath =
     (let api = createPortainerAPIClientAt rt newTransport portainerHost in
     tryM (attemptM (onDocker (beforeSession (tryGetPortainerStatus api)))) (\<lambda>status.
       case status of
         Inr (Some version) \<Rightarrow>
           tryM (onFiles (GetPortainerCredentials render credentialsPath)) (\<lambda>portainerCredentials.
           tryM (onDocker (NewClientAuthInfoWriterWrapper lib portainerCredentials (api_AuthenticateUser api))) (\<lambda>clientAuthInfoWrapper.
           ret (clientAuthInfoWrapper, NewPortainerClientService rt api (AuthenticateRequest lib (api_AuthenticateUser api)) 1
             portainerTimeout)))
       | _ \<Rightarrow> panicM ''invalid memory address or nil pointer dereference''))"

section \<open>Lemmas\<close>

lemma lower_normal: "normalChar c \<Longrightarrow> lowerChar c = c"
  by (auto simp: normalChar_def lowerChar_def isUpper_def isLower_def isDigit_def less_eq_char_def)

lemma NormalizeName_fixed: "list_all normalChar s \<Longrightarrow> NormalizeName s = s"
proof (induction s)
  case Nil
  then show ?case by (simp add: NormalizeName_def ToLower_def)
next
  case (Cons c s)
  then have "lowerChar c = c" "normalChar c" using lower_normal by simp_all
  then show ?case using Cons by (simp add: NormalizeName_def ToLower_def)
qed

lemma NormalizeName_normal: "list_all normalChar (NormalizeName s)"
  by (simp add: NormalizeName_def list_all_iff)

lemma statusTries_fail:
  "\<forall>d. \<exists>e d'. api_StatusInspect api None [] d = (Err e, d') \<Longrightarrow> n > 0 \<or> err \<noteq> None \<Longrightarrow>
     \<exists>e d'. statusTries n err api d = (Err e, d')"
proof (induction n arbitrary: err d)
  case 0
  then show ?case by auto
next
  case (Suc n)
  obtain e d' where "api_StatusInspect api None [] d = (Err e, d')" using Suc.prems by blast
  then show ?case using Suc.IH [of "Some e" d'] Suc.prems by (simp add: tryM_def attemptM_def)
qed

lemma connect_panics_without_portainer:
  assumes "\<forall>s. \<exists>e s'. api_StatusInspect (createPortainerAPIClientAt rt newTransport host) None [] s = (Err e, s')"
  shows "\<exists>d'. ConnectToPortainer rt lib newTransport render host p w
    = (Panic ''invalid memory address or nil pointer dereference'', w\<lparr>docker := d'\<rparr>)"
proof -
  obtain e d' where "beforeSession (tryGetPortainerStatus (createPortainerAPIClientAt rt newTransport host)) (docker w) = (Err e, d')"
    using statusTries_fail [OF assms, of 5 None] unfolding beforeSession_def tryGetPortainerStatus_def
    by (metis (no_types, lifting) case_prod_conv zero_less_numeral)
  then show ?thesis
    by (intro exI [of _ d']) (simp add: ConnectToPortainer_def Let_def tryM_def attemptM_def onDocker_run)
qed

text \<open>A call of a session that has been answered: with a token that is good for another half an hour or that was fetched for it.\<close>

definition answered ::
  "('d, 'q) sessionLib \<Rightarrow> ('d, 'q) authUsersCallback \<Rightarrow> ('q \<Rightarrow> ('d session, response) go) \<Rightarrow> 'q res \<Rightarrow>
   'd session \<Rightarrow> response \<Rightarrow> 'd session \<Rightarrow> bool" where
  "answered lib authUsers exchange written s resp s' \<longleftrightarrow>
     (\<exists>t token q req. (if isTokenExpired lib s then authenticate lib authUsers s = (Ok (), t) else t = s) \<and>
        authInfoWriter (snd t) = Some token \<and> written = Ok q \<and> writeTo (BearerToken lib token) q = Ok req \<and>
        exchange req t = (Ok resp, s'))"

lemma AuthenticateRequest_OkE:
  assumes "AuthenticateRequest lib authUsers q s = (Ok req, t)"
  obtains token where "if isTokenExpired lib s then authenticate lib authUsers s = (Ok (), t) else t = s"
    and "authInfoWriter (snd t) = Some token" and "writeTo (BearerToken lib token) q = Ok req"
  using assms
  by (auto simp: AuthenticateRequest_def getM_def ret_def liftR_def elim!: tryM_OkE split: option.splits if_splits)

lemma submit_OkE:
  assumes "http_transport setters newRequest exchange submit"
    and "submit (jsonOperation i method pathPattern params rd (Some (AuthenticateRequest lib authUsers)) ctx client) s = (Ok x, s')"
  obtains resp where "answered lib authUsers exchange (writeTo (params setters) (newRequest method pathPattern)) s resp s'"
    and "rd resp = Ok x"
proof -
  let ?w = "writeTo (params setters) (newRequest method pathPattern)"
  obtain q req t resp where "?w = Ok q" and auth: "AuthenticateRequest lib authUsers q s = (Ok req, t)"
    and "exchange req t = (Ok resp, s')" and "rd resp = Ok x"
    using assms by (auto simp: http_transport_def jsonOperation_def liftR_def elim!: tryM_OkE)
  moreover obtain token where "if isTokenExpired lib s then authenticate lib authUsers s = (Ok (), t) else t = s"
    and "authInfoWriter (snd t) = Some token" and "writeTo (BearerToken lib token) q = Ok req"
    using auth by (rule AuthenticateRequest_OkE)
  ultimately have "answered lib authUsers exchange ?w s resp s'" unfolding answered_def by blast
  then show thesis using \<open>rd resp = Ok x\<close> by (rule that)
qed

lemma StackList_OkE:
  assumes "http_transport setters newRequest exchange submit"
    and "StackList rt submit (Some params) (Some (AuthenticateRequest lib authUsers)) [] s = (Ok x, s')"
  obtains resp where
    "answered lib authUsers exchange (writeTo (StackListParams_WriteToRequest params setters) (newRequest ''GET'' ''/stacks'')) s resp s'"
    and "x = None \<and> resp_Code resp = 204 \<or>
      resp_Code resp = 200 \<and> (\<exists>stacks. x = Some stacks \<and> consume (dList (dPtr dPortainerStack)) [] (resp_Body resp) = Ok stacks)"
proof -
  obtain result t where sub: "submit (jsonOperation ''StackList'' ''GET'' ''/stacks'' (StackListParams_WriteToRequest params)
      (StackListReader rt) (Some (AuthenticateRequest lib authUsers)) (slp_Context params) (slp_HTTPClient params)) s = (Ok result, t)"
    and res: "x = None \<and> result = StackListNoContent \<and> t = s' \<or> (\<exists>p. x = Some p \<and> result = StackListOK p \<and> t = s')"
    using assms(2) by (auto simp: StackList_def unexpectedSuccess_def ret_def elim!: tryM_OkE split: apiResult.splits)
  from submit_OkE [OF assms(1) sub] obtain resp where
    a: "answered lib authUsers exchange (writeTo (StackListParams_WriteToRequest params setters) (newRequest ''GET'' ''/stacks'')) s resp t"
    and r: "StackListReader rt resp = Ok result" .
  show thesis
    using a r res by (intro that [of resp])
      (auto simp: StackListReader_def StackListOK_readResponse_def undefinedStatus_def Let_def bind_res_Ok_iff split: if_splits)
qed

lemma StackDelete_OkE:
  assumes "http_transport setters newRequest exchange submit"
    and "StackDelete rt submit (Some params) (Some (AuthenticateRequest lib authUsers)) [] s = (Ok x, s')"
  obtains resp where
    "answered lib authUsers exchange
      (writeTo (StackDeleteParams_WriteToRequest params setters) (newRequest ''DELETE'' ''/stacks/{id}'')) s resp s'"
    and "resp_Code resp = 204"
proof -
  obtain result where sub: "submit (jsonOperation ''StackDelete'' ''DELETE'' ''/stacks/{id}'' (StackDeleteParams_WriteToRequest params)
      (StackDeleteReader rt) (Some (AuthenticateRequest lib authUsers)) (sdp_Context params) (sdp_HTTPClient params)) s = (Ok result, s')"
    and res: "result = StackDeleteNoContent"
    using assms(2) by (auto simp: StackDelete_def unexpectedSuccess_def ret_def elim!: tryM_OkE split: apiResult.splits)
  from submit_OkE [OF assms(1) sub] obtain resp where
    a: "answered lib authUsers exchange
      (writeTo (StackDeleteParams_WriteToRequest params setters) (newRequest ''DELETE'' ''/stacks/{id}'')) s resp s'"
    and r: "StackDeleteReader rt resp = Ok result" .
  then show thesis
    by (intro that [of resp]) (auto simp: StackDeleteReader_def undefinedStatus_def Let_def split: if_splits)
qed

section \<open>Properties\<close>

lemma findStackId_Err:
  "findStackId n stacks = Err e \<Longrightarrow> e = ErrNotExist ''file does not exist'' \<and> Some n \<notin> set (map (map_option st_Name) stacks)"
  by (induction n stacks rule: findStackId.induct) (auto split: if_splits)

lemma client_DeleteAddOnStack_OkE:
  assumes "client_DeleteAddOnStack rt c name s = (Ok (), s')"
  obtains (missing) t where "getPortainerStackId rt c name s = (Err (ErrNotExist t), s')"
  | (found) i s1 where "getPortainerStackId rt c name s = (Ok i, s1)"
    and "api_StackDelete (portainerClient c)
      (Some (WithEndpointID (Some (endpointID c)) (WithID i (NewStackDeleteParamsWithTimeout (pcs_timeout c)))))
      (Some (clientAuthInfoWriter c)) [] s1 = (Ok (), s')"
  using assms by (auto simp: client_DeleteAddOnStack_def tryM_def attemptM_def split: prod.splits res.splits goerror.splits)

abbreviation listStacks :: "openapi \<Rightarrow> ('d, 'q) portainerClientService \<Rightarrow> ('d session, PortainerStack option list option) go" where
  "listStacks rt c \<equiv> api_StackList (portainerClient c) (Some (WithFilters (Some (endpointFilter (endpointID c))) (NewStackListParams rt)))
     (Some (clientAuthInfoWriter c)) []"

lemma getPortainerStackId_foundE:
  assumes "getPortainerStackId rt c name s = (Ok i, s1)"
  obtains stacks where "listStacks rt c s = (Ok (Some stacks), s1)" and "findStackId (NormalizeName name) stacks = Ok i"
  using assms by (auto simp: getPortainerStackId_def liftR_def elim!: tryM_OkE split: option.splits)

lemma getPortainerStackId_missingE:
  assumes "getPortainerStackId rt c name s = (Err (ErrNotExist t), s1)"
  obtains "listStacks rt c s = (Err (ErrNotExist t), s1)"
  | "listStacks rt c s = (Ok None, s1)"
  | stacks where "listStacks rt c s = (Ok (Some stacks), s1)" and "Some (NormalizeName name) \<notin> set (map (map_option st_Name) stacks)"
  using assms findStackId_Err
  by (auto simp: getPortainerStackId_def liftR_def elim!: tryM_ErrE split: option.splits)

text \<open>The two requests of a deletion, as they are before the token is written to them.\<close>

definition listRequest :: "openapi \<Rightarrow> 'q ClientRequest \<Rightarrow> (string \<Rightarrow> string \<Rightarrow> 'q) \<Rightarrow> 64 word \<Rightarrow> 'q res" where
  "listRequest rt setters newRequest endpoint =
     writeTo (StackListParams_WriteToRequest (WithFilters (Some (endpointFilter endpoint)) (NewStackListParams rt)) setters)
       (newRequest ''GET'' ''/stacks'')"

definition deleteRequest :: "'q ClientRequest \<Rightarrow> (string \<Rightarrow> string \<Rightarrow> 'q) \<Rightarrow> 64 word \<Rightarrow> int \<Rightarrow> 64 word \<Rightarrow> 'q res" where
  "deleteRequest setters newRequest endpoint timeout i =
     writeTo (StackDeleteParams_WriteToRequest (WithEndpointID (Some endpoint) (WithID i (NewStackDeleteParamsWithTimeout timeout))) setters)
       (newRequest ''DELETE'' ''/stacks/{id}'')"

text \<open>
  C13. What it means that the deletion of an add-on's stack returns without an error. One of three things has happened,
  and nothing else was sent: the list of stacks was answered and has no stack with the normalised name (no content, or a
  list without it); or the first stack with that name was taken from the list and the server has answered 204 to
  the deletion of exactly its identifier; or the listing itself failed with an error that counts as
  \<^verbatim>\<open>fs.ErrNotExist\<close>, such as a missing file of the transport, which the code takes for a missing stack. A request that
  was answered carried a token that was good for another half an hour, or fetched for the request.
\<close>

theorem deletion_reported_as_done:
  assumes "http_transport setters newRequest exchange submit"
    and "pcs_DeleteAddOnStack (NewPortainerClientService rt (NewPortainerCEAPI rt submit) (AuthenticateRequest lib (AuthenticateUser rt submit))
      endpoint timeout) name s = (Ok (), s')"
  shows "(\<exists>t. StackList rt submit (Some (WithFilters (Some (endpointFilter endpoint)) (NewStackListParams rt)))
        (Some (AuthenticateRequest lib (AuthenticateUser rt submit))) [] s = (Err (ErrNotExist t), s')) \<or>
    (\<exists>resp s1. answered lib (AuthenticateUser rt submit) exchange (listRequest rt setters newRequest endpoint) s resp s1 \<and>
      (resp_Code resp = 204 \<and> s' = s1 \<or>
       resp_Code resp = 200 \<and> (\<exists>stacks. consume (dList (dPtr dPortainerStack)) [] (resp_Body resp) = Ok stacks \<and>
         (Some (NormalizeName name) \<notin> set (map (map_option st_Name) stacks) \<and> s' = s1 \<or>
          (\<exists>i del. findStackId (NormalizeName name) stacks = Ok i \<and> resp_Code del = 204 \<and>
            answered lib (AuthenticateUser rt submit) exchange (deleteRequest setters newRequest endpoint timeout i) s1 del s')))))"
proof -
  let ?c = "\<lparr>portainerClient = NewPortainerCEAPI rt submit, clientAuthInfoWriter = AuthenticateRequest lib (AuthenticateUser rt submit),
    endpointID = endpoint, pcs_timeout = timeout\<rparr>"
  have api: "listStacks rt ?c = StackList rt submit (Some (WithFilters (Some (endpointFilter endpoint)) (NewStackListParams rt)))
      (Some (AuthenticateRequest lib (AuthenticateUser rt submit))) []" by (simp add: NewPortainerCEAPI_def)
  have list: "\<exists>resp. answered lib (AuthenticateUser rt submit) exchange (listRequest rt setters newRequest endpoint) s resp t \<and>
      (x = None \<and> resp_Code resp = 204 \<or> resp_Code resp = 200 \<and>
        (\<exists>stacks. x = Some stacks \<and> consume (dList (dPtr dPortainerStack)) [] (resp_Body resp) = Ok stacks))"
    if "listStacks rt ?c s = (Ok x, t)" for x t
    unfolding listRequest_def by (rule StackList_OkE [OF assms(1) that [unfolded api]]) blast
  have "client_DeleteAddOnStack rt ?c name s = (Ok (), s')"
    using assms(2) by (simp add: NewPortainerClientService_def Let_def)
  then show ?thesis
  proof (cases rule: client_DeleteAddOnStack_OkE)
    case (missing t)
    then show ?thesis
    proof (cases rule: getPortainerStackId_missingE)
      case 1
      then show ?thesis unfolding api by blast
    next
      case 2
      then show ?thesis using list by blast
    next
      case (3 stacks)
      then show ?thesis using list by blast
    qed
  next
    case (found i s1)
    from found(1) obtain stacks where s: "listStacks rt ?c s = (Ok (Some stacks), s1)"
      and i: "findStackId (NormalizeName name) stacks = Ok i" by (rule getPortainerStackId_foundE)
    have "StackDelete rt submit (Some (WithEndpointID (Some endpoint) (WithID i (NewStackDeleteParamsWithTimeout timeout))))
        (Some (AuthenticateRequest lib (AuthenticateUser rt submit))) [] s1 = (Ok (), s')"
      using found(2) by (simp add: NewPortainerCEAPI_def)
    from StackDelete_OkE [OF assms(1) this] obtain resp' where
      "answered lib (AuthenticateUser rt submit) exchange (deleteRequest setters newRequest endpoint timeout i) s1 resp' s'"
      and "resp_Code resp' = 204" unfolding deleteRequest_def by blast
    then show ?thesis using i list [OF s] by blast
  qed
qed

text \<open>A server with one stack; a request is the list of what was written to it, and the server notes the requests.\<close>

type_synonym sampleRequest = "(string \<times> string) list"

definition sampleSetters :: "sampleRequest ClientRequest" where
  "sampleSetters =
     \<lparr>SetTimeout = (\<lambda>_. ret ()), SetQueryParam = (\<lambda>n v. modifyM (\<lambda>q. q @ [(n, v)])),
      SetPathParam = (\<lambda>n v. modifyM (\<lambda>q. q @ [(n, v)])), SetBodyParam = (\<lambda>_. ret ())\<rparr>"

definition sampleNewRequest :: "string \<Rightarrow> string \<Rightarrow> sampleRequest" where
  "sampleNewRequest method pathPattern = [(method, pathPattern)]"

definition sampleAnswer :: "sampleRequest \<Rightarrow> response" where
  "sampleAnswer req =
     (if fst (hd req) = ''GET'' then
        \<lparr>resp_Code = 200, resp_Body = JSONBody (JArr [JObj [(''Id'', JNum 7), (''Name'', JStr ''acmeapp'')]])\<rparr>
      else if fst (hd req) = ''DELETE'' then \<lparr>resp_Code = 204, resp_Body = NoBody\<rparr>
      else \<lparr>resp_Code = 200, resp_Body = JSONBody (JObj [(''jwt'', JStr ''t0'')])\<rparr>)"

definition sampleExchange :: "sampleRequest \<Rightarrow> (sampleRequest list session, response) go" where
  "sampleExchange req = (\<lambda>(d, c). (Ok (sampleAnswer req), (d @ [req], c)))"

definition sampleSubmit :: "(sampleRequest list session, sampleRequest) submit" where
  "sampleSubmit op =
     tryM (liftR (writeTo (op_Params op sampleSetters) (sampleNewRequest (op_Method op) (op_PathPattern op)))) (\<lambda>req.
     tryM (case op_AuthInfo op of None \<Rightarrow> ret req | Some w \<Rightarrow> w req) (\<lambda>req.
     tryM (sampleExchange req) (\<lambda>resp.
     liftR (op_Reader op resp))))"

definition sampleRuntime :: openapi where
  "sampleRuntime = \<lparr>DefaultTimeout = 30000000000, NewAPIError = (\<lambda>t _. ErrorString t)\<rparr>"

definition sampleSessionLib :: "(sampleRequest list, sampleRequest) sessionLib" where
  "sampleSessionLib =
     \<lparr>ParseUnverified = (\<lambda>_. Ok (Some (2 * timeWindow))), timeNow = (\<lambda>_. 0),
      BearerToken = (\<lambda>t. modifyM (\<lambda>q. q @ [(''Authorization'', ''Bearer '' @ t)]))\<rparr>"

definition samplePortainer :: "sampleRequest list session PortainerClientService" where
  "samplePortainer = NewPortainerClientService sampleRuntime (NewPortainerCEAPI sampleRuntime sampleSubmit)
     (AuthenticateRequest sampleSessionLib (AuthenticateUser sampleRuntime sampleSubmit)) 1 portainerTimeout"

definition newSession :: "sampleRequest list session" where
  "newSession = ([], \<lparr>authInfoWriter = None, auth_credentials = \<lparr>Username = ''admin'', Password = ''pw''\<rparr>, expTime = 0\<rparr>)"

definition deletedSession :: "sampleRequest list session" where
  "deletedSession =
     ([[(''POST'', ''/auth'')],
       [(''GET'', ''/stacks''), (''filters'', CHR ''{'' # quoted ''EndpointID'' @ '':1}''), (''Authorization'', ''Bearer t0'')],
       [(''DELETE'', ''/stacks/{id}''), (''endpointId'', ''1''), (''id'', ''7''), (''Authorization'', ''Bearer t0'')]],
      \<lparr>authInfoWriter = Some ''t0'', auth_credentials = \<lparr>Username = ''admin'', Password = ''pw''\<rparr>, expTime = 2 * timeWindow\<rparr>)"

lemma samplePortainer_run: "pcs_DeleteAddOnStack samplePortainer ''Acme-App'' newSession = (Ok (), deletedSession)"
  by code_simp

lemma sample_answered:
  assumes "answered sampleSessionLib authUsers sampleExchange (Ok q) s resp s'" and "q \<noteq> []"
  shows "resp = sampleAnswer q"
  using assms
  by (auto simp: answered_def sampleExchange_def sampleSessionLib_def writeTo_def modifyM_def sampleAnswer_def split: prod.splits)

theorem deletion_reported_as_done_witness:
  "\<exists>s1 del. resp_Code del = 204 \<and> answered sampleSessionLib (AuthenticateUser sampleRuntime sampleSubmit) sampleExchange
     (deleteRequest sampleSetters sampleNewRequest 1 portainerTimeout 7) s1 del deletedSession"
proof -
  have t: "http_transport sampleSetters sampleNewRequest sampleExchange sampleSubmit"
    by (simp add: http_transport_def sampleSubmit_def)
  have ok: "is_ok (fst (StackList sampleRuntime sampleSubmit (Some (WithFilters (Some (endpointFilter 1)) (NewStackListParams sampleRuntime)))
      (Some (AuthenticateRequest sampleSessionLib (AuthenticateUser sampleRuntime sampleSubmit))) [] newSession))" by code_simp
  obtain q where q: "listRequest sampleRuntime sampleSetters sampleNewRequest 1 = Ok q" "q \<noteq> []"
    and a: "resp_Code (sampleAnswer q) = 200" "bind_res (consume (dList (dPtr dPortainerStack)) [] (resp_Body (sampleAnswer q)))
      (findStackId (NormalizeName ''Acme-App'')) = Ok 7"
  proof
    show "listRequest sampleRuntime sampleSetters sampleNewRequest 1
        = Ok [(''GET'', ''/stacks''), (''filters'', CHR ''{'' # quoted ''EndpointID'' @ '':1}'')]" by code_simp
  qed (simp, code_simp, code_simp)
  have found: "findStackId n stacks \<noteq> Ok i" if "Some n \<notin> set (map (map_option st_Name) stacks)" for n i stacks
    using that by (induction n stacks rule: findStackId.induct) auto
  have r: "resp_Code resp = 200 \<and> bind_res (consume (dList (dPtr dPortainerStack)) [] (resp_Body resp))
      (findStackId (NormalizeName ''Acme-App'')) = Ok 7"
    if "answered sampleSessionLib authUsers sampleExchange (Ok q) s resp s'" for authUsers s resp s'
    using sample_answered [OF that q(2)] a by simp
  show ?thesis
    using deletion_reported_as_done [OF t samplePortainer_run [unfolded samplePortainer_def], unfolded q(1)] ok found
    by (auto dest!: r simp: bind_res_Ok_iff) blast
qed

end
