(* ===== verification/StackMigration.thy ===== *)
theory StackMigration
  imports Service Portainer
begin

text \<open>
  \<^verbatim>\<open>internal/aom/docker/migrate.go\<close>: a stack of Portainer becomes a stack of the compose service, with the data
  of its volumes.

  The names \<^verbatim>\<open>os.MkdirTemp\<close> invents and \<^verbatim>\<open>copy.DirCopy\<close> of the Docker engine are parameters; what is used of
  the latter is stated by \<open>directory_copy\<close>.
\<close>

section \<open>docker/migrate.go\<close>

record ('r, 'd) stackMigrator =
  sm_stackService :: "'d StackServiceAPI"
  connectToPortainer :: "(('r, 'd) world, ClientAuthInfoWriterWrapper \<times> 'd session PortainerClientService) go"
  sm_cacheDirectory :: path
  sm_tempName :: "string \<Rightarrow> FS \<Rightarrow> path"
  DirCopy :: "path \<Rightarrow> path \<Rightarrow> (FS, unit) go"

text \<open>The name of a directory entry is one segment.\<close>

definition removeContentOf :: "path \<Rightarrow> (FS, unit) go" where
  "removeContentOf parentDir =
     tryM (osReadDir parentDir) (\<lambda>dir.
     eachM (\<lambda>(name, _). osRemoveAll (parentDir @ [name])) dir)"

text \<open>The file operations for one volume, from mount point to mount point through the cache directory.\<close>

definition moveThrough :: "(path \<Rightarrow> path \<Rightarrow> (FS, unit) go) \<Rightarrow> path \<Rightarrow> path \<Rightarrow> path \<Rightarrow> (FS, unit) go" where
  "moveThrough copy cacheDir old new =
     tryM (wrapErr (''Unexpected Error copy from '' @ showPath old @ '' to '' @ showPath cacheDir @ '': '') '' ''
       (copy old cacheDir)) (\<lambda>_.
     tryM (wrapErr (''Unexpected removeContentOf '' @ showPath old @ '': '') '' '' (removeContentOf old)) (\<lambda>_.
     tryM (wrapErr (''Unexpected removeContentOf '' @ showPath new @ '': '') '' '' (removeContentOf new)) (\<lambda>_.
     tryM (wrapErr (''Unexpected Error copy from '' @ showPath cacheDir @ '' to '' @ showPath new @ '': '') '' ''
       (copy cacheDir new)) (\<lambda>_.
     wrapErr (''Unexpected RemoveAll('' @ showPath cacheDir @ ''): '') '' '' (osRemoveAll cacheDir)))))"

definition moveVolumeData :: "('r, 'd) stackMigrator \<Rightarrow> string \<Rightarrow> path \<Rightarrow> path \<Rightarrow> (FS, unit) go" where
  "moveVolumeData m netStackVolumeName old new =
     tryM (wrapErr (''Unexpected Error while create cache directory ''
         @ showPath (joinPath (sm_cacheDirectory m) (netStackVolumeName @ ''_*'')) @ '': '') '' ''
       (mkdirTemp (sm_tempName m netStackVolumeName))) (\<lambda>cacheDir.
     moveThrough (DirCopy m) cacheDir old new)"

definition migrateVolume :: "('r, 'd) stackMigrator \<Rightarrow> string \<Rightarrow> string \<Rightarrow> string \<Rightarrow> (('r, 'd) world, unit) go" where
  "migrateVolume m stackName portainerStackName volumeName =
     tryM (onDocker (VolumeInspect (sm_stackService m) (createStackScopedVolumeName portainerStackName volumeName)))
       (\<lambda>portainerVolumeInfo.
     let netStackVolumeName = createStackScopedVolumeName stackName volumeName
     in tryM (onDocker (VolumeInspect (sm_stackService m) netStackVolumeName)) (\<lambda>volumeInfo.
        onFiles (moveVolumeData m netStackVolumeName (toPath (vi_Mountpoint portainerVolumeInfo))
          (toPath (vi_Mountpoint volumeInfo)))))"

definition migratePortainerVolumeData ::
  "('r, 'd) stackMigrator \<Rightarrow> string \<Rightarrow> string \<Rightarrow> string list \<Rightarrow> (('r, 'd) world, unit) go" where
  "migratePortainerVolumeData m stackName portainerStackName volumeNames =
     eachM (migrateVolume m stackName portainerStackName) volumeNames"

text \<open>
  The Portainer client lives for one call of \<open>MigrateStack\<close>: its state is threaded beside the state of the
  device.
\<close>

definition onClient :: "('d session, 'a) go \<Rightarrow> (('r, 'd) world \<times> ClientAuthInfoWriterWrapper, 'a) go" where
  "onClient k = onPart (\<lambda>(w, c). (docker w, c)) (\<lambda>(d, c) (w, _). (w\<lparr>docker := d\<rparr>, c)) k"

definition onDeviceOf :: "('w, 'a) go \<Rightarrow> ('w \<times> ClientAuthInfoWriterWrapper, 'a) go" where
  "onDeviceOf k = onPart fst (\<lambda>w s. (w, snd s)) k"

definition inSession :: "ClientAuthInfoWriterWrapper \<Rightarrow> ('w \<times> ClientAuthInfoWriterWrapper, 'a) go \<Rightarrow> ('w, 'a) go" where
  "inSession c k w = (case k (w, c) of (r, (w', _)) \<Rightarrow> (r, w'))"

definition assignMigrationSettings :: "Setting list \<Rightarrow> Root \<Rightarrow> Root" where
  "assignMigrationSettings settings manifest =
     (if settings = [] then manifest
      else manifest\<lparr>Settings := Some (AList.update environmentVariables settings (entries (Settings manifest)))\<rparr>)"

definition createMigratedStack ::
  "('r, 'd) stackMigrator \<Rightarrow> string \<Rightarrow> Root \<Rightarrow> (('r, 'd) world, unit) go" where
  "createMigratedStack m name manifest =
     tryM (liftR (GetDockerComposeFromManifest manifest)) (\<lambda>dockerCompose.
     tryM (onDocker (CreateStackWithoutStartWithDockerCompose (sm_stackService m) name dockerCompose)) (\<lambda>_.
     let volumeNames = GetVolumeNames (Environments manifest);
         normalizedPortainerStackName = NormalizeName name
     in tryM (migratePortainerVolumeData m name normalizedPortainerStackName volumeNames) (\<lambda>_.
        onDocker (RemoveUnusedVolumes (sm_stackService m) normalizedPortainerStackName volumeNames))))"

definition MigrateStack ::
  "('r, 'd) stackMigrator \<Rightarrow> string \<Rightarrow> string \<Rightarrow> Root \<Rightarrow> Setting list \<Rightarrow> (('r, 'd) world, unit) go" where
  "MigrateStack m name versionToMigrate manifest settings =
     (if versionToMigrate = v01_StackVersion then
        tryM (connectToPortainer m) (\<lambda>(session, portainerClient).
        inSession session
          (deferM (ignoreM (onClient (pcs_Logout portainerClient)))
            (tryM (onClient (pcs_DeleteAddOnStack portainerClient name)) (\<lambda>_.
             onDeviceOf (createMigratedStack m name (assignMigrationSettings settings manifest))))))
      else if versionToMigrate = StackVersion then ret ()
      else fail (ErrorString (''Stack version '' @ versionToMigrate @ '' is unknown'')))"

section \<open>Lemmas on files\<close>

text \<open>Every entry but the root lies in a directory.\<close>

definition treeOK :: "FS \<Rightarrow> bool" where
  "treeOK fs \<longleftrightarrow> (\<forall>p. p \<noteq> [] \<longrightarrow> node fs p \<noteq> None \<longrightarrow> node fs (butlast p) = Some Dir)"

text \<open>The same entries, with the same content, below two directories; and nothing below a directory.\<close>

definition sameContent :: "FS \<Rightarrow> path \<Rightarrow> FS \<Rightarrow> path \<Rightarrow> bool" where
  "sameContent fs d fs' d' \<longleftrightarrow> (\<forall>q. q \<noteq> [] \<longrightarrow> node fs' (d' @ q) = node fs (d @ q))"

definition emptyDir :: "FS \<Rightarrow> path \<Rightarrow> bool" where
  "emptyDir fs d \<longleftrightarrow> (\<forall>q. q \<noteq> [] \<longrightarrow> node fs (d @ q) = None)"

lemma removeEach_Ok:
  "eachM (\<lambda>(name, _). osRemoveAll (d @ [name])) es fs = (Ok (), fs') \<Longrightarrow>
     node fs' q = (if \<exists>n\<in>fst ` set es. prefix (d @ [n]) q then None else node fs q)"
proof (induction es arbitrary: fs)
  case Nil
  then show ?case by simp
next
  case (Cons e es)
  obtain n x where e: "e = (n, x)" by (cases e)
  from Cons.prems e have "osRemoveAll (d @ [n]) fs = (Ok (), delTree (d @ [n]) fs)"
    "eachM (\<lambda>(name, _). osRemoveAll (d @ [name])) es (delTree (d @ [n]) fs) = (Ok (), fs')"
    by (auto elim!: tryM_OkE dest: osRemoveAll_Ok)
  then show ?case using Cons.IH [of "delTree (d @ [n]) fs"] e by auto
qed

lemma keeps_removeContentOf: "keeps (onlyIn {q. strict_prefix d q}) (removeContentOf d)"
proof -
  have r: "keeps (onlyIn {q. strict_prefix d q}) (osRemoveAll (d @ [n]))" for n
    by (rule keeps_onlyIn_mono [OF keeps_osRemoveAll]) (auto simp: prefix_def strict_prefix_def)
  have "keeps (onlyIn {q. strict_prefix d q}) (osReadDir d)"
    using keeps_reads(1) [of d] by (simp add: keeps_def onlyIn.R_refl)
  then show ?thesis
    unfolding removeContentOf_def by (intro onlyIn.keeps_tryM onlyIn.keeps_eachM) (auto simp: r)
qed

lemma tree_first_segment:
  assumes "treeOK fs" and "node fs (d @ n # q) \<noteq> None"
  shows "node fs (d @ [n]) \<noteq> None"
  using assms(2)
proof (induction q rule: rev_induct)
  case Nil
  then show ?case by simp
next
  case (snoc x q)
  then have "node fs (butlast (d @ n # q @ [x])) = Some Dir"
    using assms(1) by (simp add: treeOK_def)
  then have "node fs (d @ n # q) = Some Dir" by (simp add: butlast_append)
  then show ?case using snoc.IH by simp
qed

lemma removeContentOf_empties:
  assumes "treeOK fs0" and same: "sameContent fs0 d fs d" and run: "removeContentOf d fs = (Ok (), fs')"
  shows "emptyDir fs' d"
  unfolding emptyDir_def
proof (intro allI impI)
  fix q :: path
  assume "q \<noteq> []"
  then obtain n r where q: "q = n # r" by (cases q) auto
  from run obtain es where es: "osReadDir d fs = (Ok es, fs)"
    and del: "eachM (\<lambda>(name, _). osRemoveAll (d @ [name])) es fs = (Ok (), fs')"
    using keepsD [OF keeps_reads(1)] by (auto simp: removeContentOf_def elim!: tryM_OkE) (metis snd_conv)
  show "node fs' (d @ q) = None"
  proof (cases "node fs (d @ q) = None")
    case True
    then show ?thesis using removeEach_Ok [OF del, of "d @ q"] by simp
  next
    case False
    then have "node fs0 (d @ n # r) \<noteq> None" using same q by (simp add: sameContent_def)
    then have "node fs (d @ [n]) \<noteq> None"
      using tree_first_segment [OF assms(1)] same by (metis sameContent_def not_Cons_self2)
    then have "d @ [n] \<in> set (map fst (nodes fs))"
      by (auto simp: node_def dest!: map_of_SomeD split: if_splits) (metis image_eqI fst_conv)
    then have "n \<in> fst ` set es"
      using es by (auto simp: osReadDir_def below_def strict_prefix_def image_iff split: if_splits)
        (force simp: image_iff)
    then show ?thesis using removeEach_Ok [OF del, of "d @ q"] q by auto
  qed
qed

section \<open>Volume data\<close>

text \<open>
  What is used of \<^verbatim>\<open>copy.DirCopy\<close>: into an empty directory elsewhere it copies every entry or fails, and it
  writes nowhere else.
\<close>

definition apart :: "path \<Rightarrow> path \<Rightarrow> bool" where
  "apart a b \<longleftrightarrow> \<not> prefix a b \<and> \<not> prefix b a"

definition directory_copy :: "(path \<Rightarrow> path \<Rightarrow> (FS, unit) go) \<Rightarrow> bool" where
  "directory_copy copy \<longleftrightarrow>
     (\<forall>src dst fs fs'. copy src dst fs = (Ok (), fs') \<longrightarrow> emptyDir fs dst \<longrightarrow> apart src dst
        \<longrightarrow> sameContent fs src fs' dst) \<and>
     (\<forall>src dst. keeps (onlyIn {q. strict_prefix dst q}) (copy src dst))"

lemma apart_sym: "apart a b \<Longrightarrow> apart b a"
  by (simp add: apart_def)

lemma apart_below: "apart a b \<Longrightarrow> \<not> prefix a (b @ q)"
  unfolding apart_def by (metis prefix_prefix prefix_same_cases prefixI)

text \<open>A call that writes only below \<open>b\<close> leaves the entries below \<open>a\<close> alone.\<close>

lemma onlyIn_sameContent:
  assumes "onlyIn S fs fs'" and "\<And>q. q \<noteq> [] \<Longrightarrow> a @ q \<notin> S"
  shows "sameContent fs a fs' a"
  using assms by (simp add: onlyIn_def sameContent_def)

lemma onlyIn_below_sameContent:
  assumes "onlyIn {q. strict_prefix b q} fs fs'" and "apart a b"
  shows "sameContent fs a fs' a"
  using assms(1) by (rule onlyIn_sameContent) (use apart_below [OF apart_sym [OF assms(2)]] in \<open>auto simp: strict_prefix_def\<close>)

lemma sameContent_trans: "sameContent f a g b \<Longrightarrow> sameContent g b h c \<Longrightarrow> sameContent f a h c"
  by (simp add: sameContent_def)

lemma sameContent_refl [simp]: "sameContent f a f a"
  by (simp add: sameContent_def)

lemma sameContent_empty: "sameContent f a g b \<Longrightarrow> emptyDir f a \<Longrightarrow> emptyDir g b"
  by (simp add: sameContent_def emptyDir_def)

lemma mkdirTemp_Ok:
  assumes "mkdirTemp t fs = (Ok c, fs')" and "treeOK fs"
  shows "c = t fs \<and> c \<noteq> [] \<and> node fs c = None \<and> fs' = setNode c Dir fs \<and> emptyDir fs' c \<and> onlyIn {c} fs fs'"
proof -
  have c: "c = t fs" "node fs c = None" "fs' = setNode c Dir fs" "c \<noteq> []"
    using assms(1) by (auto simp: mkdirTemp_def Let_def split: if_splits)
  have "node fs (c @ q) = None" if "q \<noteq> []" for q
  proof (rule ccontr)
    assume "node fs (c @ q) \<noteq> None"
    with that have "node fs (c @ hd q # tl q) \<noteq> None" by simp
    from tree_first_segment [OF assms(2) this] have "node fs (butlast (c @ [hd q])) = Some Dir"
      using assms(2) unfolding treeOK_def by blast
    with c(2) show False by simp
  qed
  then show ?thesis using c by (auto simp: emptyDir_def onlyIn_def)
qed

text \<open>The two halves of the move: out of the old volume into the cache, out of the cache into the new volume.\<close>

lemma move_out:
  assumes "directory_copy copy" and "treeOK fs0" and "sameContent fs0 old fs old" and "emptyDir fs c" and "apart old c"
    and "copy old c fs = (Ok (), fs1)" and "removeContentOf old fs1 = (r, fs2)"
  shows "sameContent fs0 old fs2 c \<and> (r = Ok () \<longrightarrow> emptyDir fs2 old)"
proof -
  have o1: "onlyIn {q. strict_prefix c q} fs fs1"
    using assms(1,6) keepsD [of _ "copy old c" fs] by (simp add: directory_copy_def) (metis snd_conv)
  have s1: "sameContent fs old fs1 c"
    using assms(1,4,5,6) by (auto simp: directory_copy_def)
  have o2: "onlyIn {q. strict_prefix old q} fs1 fs2" using keeps_run [OF keeps_removeContentOf assms(7)] .
  have old1: "sameContent fs0 old fs1 old"
    using assms(3) onlyIn_below_sameContent [OF o1 assms(5)] by (rule sameContent_trans)
  have "sameContent fs1 c fs2 c" using onlyIn_below_sameContent [OF o2 apart_sym [OF assms(5)]] .
  then have "sameContent fs0 old fs2 c" using s1 assms(3) sameContent_trans by blast
  moreover have "r = Ok () \<Longrightarrow> emptyDir fs2 old"
    using removeContentOf_empties [OF assms(2) old1] assms(7) by simp
  ultimately show ?thesis by blast
qed

lemma moveThrough_frame:
  assumes "directory_copy copy" and "c \<noteq> []"
  shows "keeps (onlyIn ({q. prefix c q} \<union> {q. strict_prefix old q} \<union> {q. strict_prefix new q})) (moveThrough copy c old new)"
    (is "keeps (onlyIn ?S) _")
proof -
  have cp: "keeps (onlyIn ?S) (copy a b)" if "b \<in> {c, new}" for a b
  proof -
    have "keeps (onlyIn {q. strict_prefix b q}) (copy a b)" using assms(1) by (simp add: directory_copy_def)
    then show ?thesis using that by (rule_tac keeps_onlyIn_mono) (auto simp: strict_prefix_def)
  qed
  have rm: "keeps (onlyIn ?S) (removeContentOf d)" if "d \<in> {old, new}" for d
    using that by (intro keeps_onlyIn_mono [OF keeps_removeContentOf]) auto
  have ra: "keeps (onlyIn ?S) (osRemoveAll c)"
    by (rule keeps_onlyIn_mono [OF keeps_osRemoveAll [OF assms(2)]]) auto
  show ?thesis
    unfolding moveThrough_def by (intro onlyIn.keeps_tryM keeps_wrapErr cp rm ra) auto
qed

lemma wrapped_run:
  "m s = (Ok x, s') \<Longrightarrow> tryM (wrapErr t u m) k s = k x s'"
  "m s = (q, s') \<Longrightarrow> \<not> is_ok q \<Longrightarrow> tryM (wrapErr t u m) k s = (r, s'') \<Longrightarrow> s'' = s' \<and> \<not> is_ok r"
  by (cases q; auto simp: tryM_def wrapErr_def attemptM_def)+

text \<open>The second half, once the data is in the cache directory and nowhere else.\<close>

lemma move_in:
  assumes dc: "directory_copy copy" and tree: "treeOK fs0" and new: "sameContent fs0 new fs new"
    and ap: "apart old new" "apart old c" "apart new c" and held: "sameContent fs0 old fs c" and old: "emptyDir fs old"
    and run: "tryM (wrapErr t1 u1 (removeContentOf new)) (\<lambda>_.
      tryM (wrapErr t2 u2 (copy c new)) (\<lambda>_. wrapErr t3 u3 (osRemoveAll c))) fs = (r, fs')"
  shows "(\<exists>d\<in>{c, new}. sameContent fs0 old fs' d) \<and>
    (r = Ok () \<longrightarrow> sameContent fs0 old fs' new \<and> emptyDir fs' old \<and> node fs' c = None)"
proof -
  obtain r4 f4 where r4: "removeContentOf new fs = (r4, f4)" by fastforce
  have o4: "onlyIn {q. strict_prefix new q} fs f4" using keeps_run [OF keeps_removeContentOf r4] .
  have c4: "sameContent fs0 old f4 c"
    using held onlyIn_below_sameContent [OF o4 apart_sym [OF ap(3)]] by (rule sameContent_trans)
  have e4: "emptyDir f4 old" using onlyIn_below_sameContent [OF o4 ap(1)] old by (rule sameContent_empty)
  obtain r5 f5 where r5: "copy c new f4 = (r5, f5)" by fastforce
  have "keeps (onlyIn {q. strict_prefix new q}) (copy c new)" using dc by (simp add: directory_copy_def)
  then have o5: "onlyIn {q. strict_prefix new q} f4 f5" using keeps_run r5 by metis
  have c5: "sameContent fs0 old f5 c"
    using c4 onlyIn_below_sameContent [OF o5 apart_sym [OF ap(3)]] by (rule sameContent_trans)
  have e5: "emptyDir f5 old" using onlyIn_below_sameContent [OF o5 ap(1)] e4 by (rule sameContent_empty)
  show ?thesis
  proof (cases "is_ok r4 \<and> is_ok r5")
    case False
    then consider "\<not> is_ok r4" | "r4 = Ok ()" "\<not> is_ok r5" by (cases r4) auto
    then show ?thesis
    proof cases
      case 1
      from wrapped_run(2) [of "removeContentOf new", OF r4 1 run] c4 show ?thesis by auto
    next
      case 2
      from run have "tryM (wrapErr t2 u2 (copy c new)) (\<lambda>_. wrapErr t3 u3 (osRemoveAll c)) f4 = (r, fs')"
        by (simp add: wrapped_run(1) r4 2(1))
      from wrapped_run(2) [of "copy c new", OF r5 2(2) this] c5 show ?thesis by auto
    qed
  next
    case True
    then have ok: "r4 = Ok ()" "r5 = Ok ()" by (cases r4; cases r5; simp)+
    have "emptyDir f4 new" using removeContentOf_empties [OF tree new] r4 ok by simp
    then have n5: "sameContent fs0 old f5 new"
      using dc r5 ok ap(3) c4 sameContent_trans apart_sym unfolding directory_copy_def by blast
    have last: "wrapErr t3 u3 (osRemoveAll c) f5 = (r, fs')"
      using run by (simp add: wrapped_run(1) r4 r5 ok)
    have fs': "fs' = snd (osRemoveAll c f5)" using last snd_wrapErr [of t3 u3 "osRemoveAll c" f5] by simp
    have others: "sameContent f5 d fs' d" if "apart d c" for d
      using apart_below [OF apart_sym [OF that]] by (simp add: fs' sameContent_def osRemoveAll_outside)
    have moved: "sameContent fs0 old fs' new" using n5 others [OF ap(3)] by (rule sameContent_trans)
    have empty: "emptyDir fs' old" using others [OF ap(2)] e5 by (rule sameContent_empty)
    have "node fs' c = None" if "r = Ok ()"
    proof -
      have "c \<noteq> []" using ap(2) by (auto simp: apart_def)
      moreover have "fs' = delTree c f5" using last that osRemoveAll_Ok by (simp add: wrapErr_Ok)
      ultimately show ?thesis by simp
    qed
    then show ?thesis using moved empty by blast
  qed
qed

lemma moveThrough_keeps_data:
  assumes dc: "directory_copy copy" and tree: "treeOK fs0"
    and same: "sameContent fs0 old fs old" "sameContent fs0 new fs new" and empty: "emptyDir fs c"
    and ap: "apart old new" "apart old c" "apart new c"
    and run: "moveThrough copy c old new fs = (r, fs')"
  shows "(\<exists>d\<in>{old, c, new}. sameContent fs0 old fs' d) \<and>
    (r = Ok () \<longrightarrow> sameContent fs0 old fs' new \<and> emptyDir fs' old \<and> node fs' c = None)"
proof -
  obtain r2 f2 where r2: "copy old c fs = (r2, f2)" by fastforce
  have "keeps (onlyIn {q. strict_prefix c q}) (copy old c)" using dc by (simp add: directory_copy_def)
  then have o2: "onlyIn {q. strict_prefix c q} fs f2" using keeps_run r2 by metis
  obtain r3 f3 where r3: "removeContentOf old f2 = (r3, f3)" by fastforce
  have o3: "onlyIn {q. strict_prefix old q} f2 f3" using keeps_run [OF keeps_removeContentOf r3] .
  have new3: "sameContent fs0 new f3 new"
    using same(2) onlyIn_below_sameContent [OF o2 ap(3)] onlyIn_below_sameContent [OF o3 apart_sym [OF ap(1)]]
    by (blast intro: sameContent_trans)
  consider "\<not> is_ok r2" | "r2 = Ok ()" "\<not> is_ok r3" | "r2 = Ok ()" "r3 = Ok ()" by (cases r2; cases r3) auto
  then show ?thesis
  proof cases
    case 1
    have "sameContent fs0 old f2 old"
      using same(1) onlyIn_below_sameContent [OF o2 ap(2)] by (rule sameContent_trans)
    then show ?thesis
      using wrapped_run(2) [of "copy old c", OF r2 1 run [unfolded moveThrough_def]] by auto
  next
    case 2
    have "sameContent fs0 old f3 c" using move_out [OF dc tree same(1) empty ap(2) _ r3] r2 2 by simp
    moreover have "fs' = f3 \<and> \<not> is_ok r"
      using run by (intro wrapped_run(2) [of "removeContentOf old", OF r3 2(2)])
        (simp add: moveThrough_def wrapped_run(1) r2 2(1))
    ultimately show ?thesis by auto
  next
    case 3
    have "sameContent fs0 old f3 c" "emptyDir f3 old" using move_out [OF dc tree same(1) empty ap(2) _ r3] r2 3 by simp_all
    from move_in [OF dc tree new3 ap this] show ?thesis
      using run by (auto simp: moveThrough_def wrapped_run(1) r2 r3 3)
  qed
qed

lemma move_runs:
  assumes "moveVolumeData m n old new fs = (r, fs')"
  obtains "fs' = fs" and "\<not> is_ok r"
  | f1 where "mkdirTemp (sm_tempName m n) fs = (Ok (sm_tempName m n fs), f1)"
      and "moveThrough (DirCopy m) (sm_tempName m n fs) old new f1 = (r, fs')"
proof (cases "mkdirTemp (sm_tempName m n) fs")
  case (Pair rc f1)
  then have cases: "f1 = fs \<and> \<not> is_ok rc \<or> rc = Ok (sm_tempName m n fs)"
    by (auto simp: mkdirTemp_def Let_def split: if_splits)
  show ?thesis
  proof (cases "is_ok rc")
    case True
    then have "moveThrough (DirCopy m) (sm_tempName m n fs) old new f1 = (r, fs')"
      using assms cases by (auto simp: moveVolumeData_def wrapped_run(1) Pair)
    then show ?thesis using that(2) Pair cases True by auto
  next
    case False
    then show ?thesis
      using that(1) cases wrapped_run(2) [of "mkdirTemp (sm_tempName m n)", OF Pair False assms [unfolded moveVolumeData_def]]
      by auto
  qed
qed

text \<open>
  C12. Moving the data of a volume of the Portainer stack into the volume of the new stack, whatever fails on
  the way: everything the old volume held is afterwards still there, entry by entry, below the old mount
  point, below the cache directory or below the new mount point. On success it is below the new mount point,
  the old volume is empty and the cache directory is gone. Nothing else on the device is touched.
\<close>

theorem volume_data_is_never_lost:
  assumes "directory_copy (DirCopy m)" and "treeOK fs"
    and "apart old new" and "apart old (sm_tempName m n fs)" and "apart new (sm_tempName m n fs)"
    and "moveVolumeData m n old new fs = (r, fs')"
  shows "(\<exists>d\<in>{old, sm_tempName m n fs, new}. sameContent fs old fs' d)
    \<and> (r = Ok () \<longrightarrow> sameContent fs old fs' new \<and> emptyDir fs' old \<and> node fs' (sm_tempName m n fs) = None)
    \<and> onlyIn ({q. prefix (sm_tempName m n fs) q} \<union> {q. strict_prefix old q} \<union> {q. strict_prefix new q}) fs fs'"
proof -
  let ?c = "sm_tempName m n fs"
  have ne: "?c \<noteq> []" using assms(4) by (auto simp: apart_def)
  from assms(6) show ?thesis
  proof (rule move_runs)
    assume "fs' = fs" "\<not> is_ok r"
    then show ?thesis by (auto simp: onlyIn.R_refl)
  next
    fix f1
    assume mk: "mkdirTemp (sm_tempName m n) fs = (Ok ?c, f1)"
      and go: "moveThrough (DirCopy m) ?c old new f1 = (r, fs')"
    have f1: "emptyDir f1 ?c" "onlyIn {?c} fs f1" using mkdirTemp_Ok [OF mk assms(2)] by blast+
    have kept: "sameContent fs d f1 d" if "apart d ?c" for d
      using f1(2) apart_below [OF apart_sym [OF that]] by (intro onlyIn_sameContent) (auto, metis prefix_order.refl)
    have "onlyIn ({q. prefix ?c q} \<union> {q. strict_prefix old q} \<union> {q. strict_prefix new q}) fs f1"
      using f1(2) by (rule onlyIn_mono) auto
    then show ?thesis
      using moveThrough_keeps_data [OF assms(1,2) kept [OF assms(4)] kept [OF assms(5)] f1(1) assms(3,4,5) go]
        onlyIn.R_trans keeps_run [OF moveThrough_frame [OF assms(1) ne] go] by blast
  qed
qed

section \<open>Which files a migration writes\<close>

definition worldIn :: "path set \<Rightarrow> ('r, 'd) world \<Rightarrow> ('r, 'd) world \<Rightarrow> bool" where
  "worldIn V a b \<longleftrightarrow> onlyIn V (files a) (files b)"

interpretation worldIn: step_relation "worldIn V"
  by unfold_locales (auto simp: worldIn_def intro: onlyIn.R_refl onlyIn.R_trans)

definition sessionIn ::
  "path set \<Rightarrow> ('r, 'd) world \<times> ClientAuthInfoWriterWrapper \<Rightarrow> ('r, 'd) world \<times> ClientAuthInfoWriterWrapper \<Rightarrow> bool" where
  "sessionIn V a b \<longleftrightarrow> worldIn V (fst a) (fst b)"

interpretation sessionIn: step_relation "sessionIn V"
  by unfold_locales (auto simp: sessionIn_def intro: worldIn.R_refl worldIn.R_trans)

lemma worldIn_docker: "keeps (worldIn V) (onDocker m)"
  by (simp add: keeps_def worldIn_def onDocker_run onlyIn.R_refl)

lemma worldIn_files: "keeps (onlyIn V) m \<Longrightarrow> keeps (worldIn V) (onFiles m)"
  by (simp add: keeps_def worldIn_def onFiles_run)

lemma sessionIn_client: "keeps (sessionIn V) (onClient k)"
  by (auto simp: keeps_def sessionIn_def worldIn_def onClient_def onPart_def onlyIn.R_refl split: prod.splits)

lemma sessionIn_device: "keeps (worldIn V) k \<Longrightarrow> keeps (sessionIn V) (onDeviceOf k)"
  unfolding keeps_def sessionIn_def onDeviceOf_def onPart_def
  by (auto split: prod.splits) (metis snd_conv)

lemma worldIn_session: "keeps (sessionIn V) k \<Longrightarrow> keeps (worldIn V) (inSession c k)"
  unfolding keeps_def sessionIn_def inSession_def
  by (auto split: prod.splits) (metis fst_conv snd_conv)

text \<open>
  The mount points of volumes and the cache lie in \<open>V\<close>, and connecting to Portainer writes no file.
\<close>

definition volumesIn :: "path set \<Rightarrow> ('r, 'd) stackMigrator \<Rightarrow> bool" where
  "volumesIn V m \<longleftrightarrow>
     (\<forall>n d i. fst (VolumeInspect (sm_stackService m) n d) = Ok i \<longrightarrow> {q. strict_prefix (toPath (vi_Mountpoint i)) q} \<subseteq> V) \<and>
     (\<forall>n fs. sm_tempName m n fs \<noteq> [] \<and> {q. prefix (sm_tempName m n fs) q} \<subseteq> V) \<and>
     directory_copy (DirCopy m) \<and> keeps (worldIn {}) (connectToPortainer m)"

lemma moveVolumeData_in:
  assumes "volumesIn V m" and "{q. strict_prefix old q} \<subseteq> V" and "{q. strict_prefix new q} \<subseteq> V"
  shows "keeps (onlyIn V) (moveVolumeData m n old new)"
  unfolding keeps_def
proof
  fix fs
  let ?c = "sm_tempName m n fs"
  obtain r fs' where run: "moveVolumeData m n old new fs = (r, fs')" by fastforce
  have V: "?c \<noteq> []" "{q. prefix ?c q} \<union> {q. strict_prefix old q} \<union> {q. strict_prefix new q} \<subseteq> V" "directory_copy (DirCopy m)"
    using assms by (auto simp: volumesIn_def)
  from run show "onlyIn V fs (snd (moveVolumeData m n old new fs))"
  proof (rule move_runs)
    assume "fs' = fs"
    then show ?thesis using run by (simp add: onlyIn.R_refl)
  next
    fix f1
    assume mk: "mkdirTemp (sm_tempName m n) fs = (Ok ?c, f1)" and go: "moveThrough (DirCopy m) ?c old new f1 = (r, fs')"
    have "onlyIn V fs f1"
      using mk V(1,2) by (auto simp: mkdirTemp_def Let_def onlyIn_def split: if_splits)
    moreover have "onlyIn V f1 fs'"
      using keeps_run [OF moveThrough_frame [OF V(3,1)] go] V(2) by (rule onlyIn_mono)
    ultimately show ?thesis using run onlyIn.R_trans by (metis snd_conv)
  qed
qed

lemma migrateVolume_in:
  assumes "volumesIn V m"
  shows "keeps (worldIn V) (migrateVolume m a b v)"
  unfolding keeps_def
proof
  fix w
  have V: "{q. strict_prefix (toPath (vi_Mountpoint i)) q} \<subseteq> V"
    if "fst (VolumeInspect (sm_stackService m) n d) = Ok i" for n d i
    using assms that unfolding volumesIn_def by blast
  note frame = keepsD [OF moveVolumeData_in [OF assms V V]]
  show "worldIn V w (snd (migrateVolume m a b v w))"
    using frame
    by (auto simp: migrateVolume_def Let_def tryM_def onDocker_run onFiles_run worldIn_def onlyIn.R_refl split: prod.splits res.splits)
qed

lemma MigrateStack_in:
  assumes "volumesIn V m"
  shows "keeps (worldIn V) (MigrateStack m name v manifest settings)"
proof -
  have con: "keeps (worldIn V) (connectToPortainer m)"
    using assms onlyIn_mono [of "{}" _ _ V] by (auto simp: volumesIn_def keeps_def worldIn_def)
  have cr: "keeps (worldIn V) (createMigratedStack m name x)" for x
    unfolding createMigratedStack_def migratePortainerVolumeData_def Let_def
    by (intro worldIn.keeps_tryM worldIn.keeps_eachM worldIn.keeps_pure worldIn_docker migrateVolume_in assms)
  show ?thesis
    unfolding MigrateStack_def case_prod_beta
    by (intro worldIn.keeps_if worldIn.keeps_tryM con worldIn_session sessionIn.keeps_deferM sessionIn.keeps_ignoreM
        sessionIn.keeps_tryM sessionIn_client sessionIn_device cr worldIn.keeps_pure)
qed

text \<open>\<open>ConnectToPortainer\<close> itself only reads.\<close>

lemma ConnectToPortainer_reads: "keeps (worldIn {}) (ConnectToPortainer rt lib newTransport render host p)"
proof -
  have "keeps (onlyIn {}) (GetPortainerCredentials render p)"
  proof -
    have "keeps (=) (GetPortainerCredentials render p)"
      unfolding GetPortainerCredentials_def readPortainerCredentials_def by (intro reads.keeps_rules keeps_reads)
    then show ?thesis by (auto simp: keeps_def onlyIn.R_refl)
  qed
  then show ?thesis
    unfolding ConnectToPortainer_def Let_def
    by (intro worldIn.keeps_tryM worldIn.keeps_attemptM worldIn_docker)
      (auto intro!: worldIn.keeps_tryM worldIn_files worldIn_docker worldIn.keeps_pure split: sum.splits option.splits)
qed

section \<open>A copy to run the definitions with\<close>

definition copyTree :: "path \<Rightarrow> path \<Rightarrow> (FS, unit) go" where
  "copyTree src dst fs =
     (if node fs src = Some Dir
      then (Ok (), fs\<lparr>nodes := map (\<lambda>(q, n). (dst @ drop (length src) q, n)) (filter (\<lambda>(q, _). strict_prefix src q) (nodes fs))
                        @ nodes fs\<rparr>)
      else (Err (errNoEnt ''open'' src), fs))"

lemma map_of_moved:
  "q \<noteq> [] \<Longrightarrow> map_of (map (\<lambda>(q, n). (dst @ drop (length src) q, n)) (filter (\<lambda>(q, _). strict_prefix src q) xs)) (dst @ q)
     = map_of xs (src @ q)"
  by (induction xs) (auto simp: strict_prefix_def prefix_def, metis)

lemma map_of_moved_other:
  "\<not> strict_prefix dst p \<Longrightarrow>
   map_of (map (\<lambda>(q, n). (dst @ drop (length src) q, n)) (filter (\<lambda>(q, _). strict_prefix src q) xs)) p = None"
  by (induction xs) (auto simp: strict_prefix_def prefix_def)

lemma directory_copyTree: "directory_copy copyTree"
  unfolding directory_copy_def
proof (intro conjI allI impI)
  fix src dst fs fs'
  assume run: "copyTree src dst fs = (Ok (), fs')" and e: "emptyDir fs dst"
  have "node fs' (dst @ q) = node fs (src @ q)" if "q \<noteq> []" for q
    using run e that map_of_moved [OF that, of dst src "nodes fs"]
    by (auto simp: copyTree_def node_def emptyDir_def map_add_def split: if_splits option.splits)
  then show "sameContent fs src fs' dst" by (simp add: sameContent_def)
next
  fix src dst
  show "keeps (onlyIn {q. strict_prefix dst q}) (copyTree src dst)"
  proof -
    have "node (s\<lparr>nodes := map (\<lambda>(q, n). (dst @ drop (length src) q, n)) (filter (\<lambda>(q, _). strict_prefix src q) (nodes s))
        @ nodes s\<rparr>) p = node s p" if "\<not> strict_prefix dst p" for s p
      by (simp add: node_def map_add_def map_of_moved_other [OF that])
    then show ?thesis by (auto simp: keeps_def copyTree_def onlyIn_def)
  qed
qed

lemma treeOK_nodes: "list_all (\<lambda>(p, _). p \<noteq> [] \<longrightarrow> node fs (butlast p) = Some Dir) (nodes fs) \<Longrightarrow> treeOK fs"
  by (auto simp: treeOK_def list_all_iff node_def dest!: map_of_SomeD split: if_splits)

definition sampleStackMigrator :: "(unit, miniDocker) stackMigrator" where
  "sampleStackMigrator =
     \<lparr>sm_stackService = stackAPI miniStack,
      connectToPortainer =
        ret (\<lparr>authInfoWriter = Some ''token'', auth_credentials = \<lparr>Username = ''admin'', Password = []\<rparr>, expTime = 0\<rparr>,
          \<lparr>pcs_DeleteAddOnStack = (\<lambda>_. ret ()), pcs_Logout = ret ()\<rparr>),
      sm_cacheDirectory = [''cache''], sm_tempName = (\<lambda>n _. [''cache'', n @ ''1'']), DirCopy = copyTree\<rparr>"

definition volumeFS :: FS where
  "volumeFS =
     \<lparr>nodes = [([''cache''], Dir), ([''old''], Dir), ([''new''], Dir), ([''old'', ''db''], Dir),
        ([''old'', ''db'', ''data''], File (Text ''42'')), ([''new'', ''default.conf''], File (Text []))],
      faulty = (\<lambda>_ _. False)\<rparr>"

theorem volume_data_is_never_lost_witness:
  "node (snd (moveVolumeData sampleStackMigrator ''app_data'' [''old''] [''new''] volumeFS)) [''new'', ''db'', ''data'']
     = Some (File (Text ''42''))"
proof -
  let ?run = "moveVolumeData sampleStackMigrator ''app_data'' [''old''] [''new''] volumeFS"
  have t: "treeOK volumeFS" by (rule treeOK_nodes) code_simp
  have a: "apart [''old''] [''new'']" "apart [''old''] (sm_tempName sampleStackMigrator ''app_data'' volumeFS)"
    "apart [''new''] (sm_tempName sampleStackMigrator ''app_data'' volumeFS)" by code_simp+
  have c: "directory_copy (DirCopy sampleStackMigrator)"
    using directory_copyTree by (simp add: sampleStackMigrator_def)
  obtain r fs' where run: "?run = (r, fs')" by fastforce
  have "is_ok (fst ?run)" by code_simp
  then have "r = Ok ()" using run by (cases r) auto
  then have "sameContent volumeFS [''old''] fs' [''new'']"
    using volume_data_is_never_lost [OF c t a run] by blast
  then have "node fs' ([''new''] @ [''db'', ''data'']) = node volumeFS ([''old''] @ [''db'', ''data''])"
    unfolding sameContent_def by blast
  then show ?thesis using run by (simp add: volumeFS_def node_def)
qed

end
