(* ===== verification/Migrate.thy ===== *)
theory Migrate
  imports StackMigration
begin

text \<open>
  \<^verbatim>\<open>internal/aom/migrate\<close>: the migration of an installation at the start of the daemon. A release file says
  which version of the daemon ran last; without one the version is read off the installed manifests. The
  steps from there to the current version are run for every installed add-on.
\<close>

section \<open>os.Rename\<close>

definition osRename :: "path \<Rightarrow> path \<Rightarrow> (FS, unit) go" where
  "osRename old new fs =
     (if faulty fs OpRemove old \<or> faulty fs OpOpen new then (Err (errOs ''rename'' old ''permission denied''), fs)
      else if node fs (butlast new) \<noteq> Some Dir then (Err (errNoEnt ''rename'' old), fs)
      else case node fs old of
        None \<Rightarrow> (Err (errNoEnt ''rename'' old), fs)
      | Some Dir \<Rightarrow>
          if node fs new \<noteq> None then (Err (errOs ''rename'' old ''file exists''), fs)
          else (Ok (), fs\<lparr>nodes := map (\<lambda>(q, n). (if prefix old q then new @ drop (length old) q else q, n)) (nodes fs)\<rparr>)
      | Some n \<Rightarrow>
          if node fs new = Some Dir then (Err (errOs ''rename'' old ''file exists''), fs)
          else if old = new then (Ok (), fs)
          else (Ok (), setNode new n (delNode old fs)))"

section \<open>migrate/local-fs-registry.go\<close>

definition createInstallFilePathWith :: "path \<Rightarrow> string \<Rightarrow> string \<Rightarrow> path" where
  "createInstallFilePathWith root repository filename = joinPath (joinPath root repository) filename"

definition fs_Repositories :: "path \<Rightarrow> (FS, string list) go" where
  "fs_Repositories root = GetManifestsDirectories root"

definition fs_Fetch :: "path \<Rightarrow> string \<Rightarrow> (FS, content) go" where
  "fs_Fetch root repository = osReadFile (createInstallFilePathWith root repository UcImageManifestFilename)"

definition fs_Push :: "path \<Rightarrow> string \<Rightarrow> content \<Rightarrow> (FS, unit) go" where
  "fs_Push root repository content =
     (let tempFilename = ''.'' @ UcImageManifestFilename;
          tempFilePath = createInstallFilePathWith root repository tempFilename
      in
        tryM (osWriteFile tempFilePath content) (\<lambda>_.
        osRename tempFilePath (createInstallFilePathWith root repository UcImageManifestFilename)))"

text \<open>The manifest version and the bytes of an installed manifest.\<close>

definition fetchManifestFrom :: "path \<Rightarrow> string \<Rightarrow> (FS, string \<times> json) go" where
  "fetchManifestFrom root repository =
     tryM (fs_Fetch root repository) (\<lambda>content.
     liftR
       (bind_res (contentJson content) (\<lambda>manifestAsBytes.
        bind_res (UnmarshalManifestVersionFrom manifestAsBytes) (\<lambda>manifestVersion.
        Ok (manifestVersion, manifestAsBytes)))))"

section \<open>migrate/version-resolver.go\<close>

definition currentVersion :: string where
  "currentVersion = UcAomVersion"

definition releaseFilename :: string where
  "releaseFilename = ''release.json''"

record aomVersionResolver =
  localStateDir :: path
  vr_root :: path

definition marshalRelease :: "string \<Rightarrow> content" where
  "marshalRelease version = Doc (JObj [(''version'', JStr version)])"

definition unmarshalRelease :: "content \<Rightarrow> string res" where
  "unmarshalRelease c =
     bind_res (contentJson c) (\<lambda>j.
     bind_res (dStruct j) (\<lambda>m. dStr (member m ''version'')))"

definition updateVersion :: "aomVersionResolver \<Rightarrow> string \<Rightarrow> (FS, unit) go" where
  "updateVersion r version = WriteFileToDestination releaseFilename (marshalRelease version) (localStateDir r)"

definition resolveVersionBasedOn :: "aomVersionResolver \<Rightarrow> string list \<Rightarrow> (FS, string) go" where
  "resolveVersionBasedOn r repositories =
     (case repositories of
        [] \<Rightarrow> fail (ErrorString ''Could not resolve version from installed add-ons.'')
      | repositoryName # _ \<Rightarrow>
          tryM (wrapErr ''Unexpected error while fetch manifest: '' ''.'' (fetchManifestFrom (vr_root r) repositoryName))
            (\<lambda>(manifestVersion, _).
             if manifestVersion = v01_ValidManifestVersion then ret ''0.3.2''
             else if manifestVersion = ValidManifestVersion then ret ''0.4.0''
             else fail (ErrorString (''Unknown version manifest version '' @ manifestVersion @ ''.''))))"

definition getVersion :: "aomVersionResolver \<Rightarrow> (FS, string) go" where
  "getVersion r =
     tryM (attemptM (osReadFile (joinPath (localStateDir r) releaseFilename))) (\<lambda>fileContent.
       case fileContent of
         Inl (ErrNotExist _) \<Rightarrow>
           tryM (fs_Repositories (vr_root r)) (\<lambda>installedRepositories.
           if installedRepositories = [] then
             tryM (updateVersion r currentVersion) (\<lambda>_. ret currentVersion)
           else
             tryM (resolveVersionBasedOn r installedRepositories) (\<lambda>resolvedVersion.
             tryM (updateVersion r resolvedVersion) (\<lambda>_. ret resolvedVersion)))
       | Inl err \<Rightarrow> fail err
       | Inr content \<Rightarrow> liftR (unmarshalRelease content))"

section \<open>migrate/migrate.go\<close>

record ('r, 'd) installAddonMigrator =
  im_root :: path
  im_stackService :: "'d StackServiceAPI"
  im_stackMigrator :: "('r, 'd) stackMigrator"
  im_routesMigrator :: "FS ReverseProxyCreater"
  im_versionResolver :: aomVersionResolver

definition migrateAddOnFromV0_5_2 :: "('r, 'd) installAddonMigrator \<Rightarrow> string \<Rightarrow> (('r, 'd) world, unit) go" where
  "migrateAddOnFromV0_5_2 m repositoryName =
     tryM (onFiles (fetchManifestFrom (im_root m) repositoryName)) (\<lambda>(_, manifestAsBytes).
     tryM (liftR (NewFromBytes manifestAsBytes)) (\<lambda>manifest.
     let permissionId = ReplaceSlashesWithDashes repositoryName
     in onFiles (reverseProxyMigrator_Migrate (im_routesMigrator m) repositoryName TemplateVersionV0_1_0
          (Title manifest) permissionId (Publish manifest))))"

definition migrateFromV0_5_2 :: "('r, 'd) installAddonMigrator \<Rightarrow> (('r, 'd) world, unit) go" where
  "migrateFromV0_5_2 m =
     tryM (onFiles (fs_Repositories (im_root m))) (\<lambda>installedAddOnRepositories.
     eachM (migrateAddOnFromV0_5_2 m) installedAddOnRepositories)"

definition getSettingsForReplaceRoutine ::
  "('r, 'd) installAddonMigrator \<Rightarrow> Root \<Rightarrow> string \<Rightarrow> (('r, 'd) world, Setting list) go" where
  "getSettingsForReplaceRoutine m migratedManifest repositoryName =
     (let manifestSettings = (case mget (Settings migratedManifest) environmentVariables of None \<Rightarrow> [] | Some xs \<Rightarrow> xs)
      in if manifestSettings = [] then ret manifestSettings
         else
           tryM (onDocker (GetAddOnEnvironment (im_stackService m) repositoryName)) (\<lambda>currentSettings.
           ret (CombineManifestSettingsWithSettingsMap manifestSettings currentSettings)))"

definition migrateAddOnFromV0_3_2 :: "('r, 'd) installAddonMigrator \<Rightarrow> string \<Rightarrow> (('r, 'd) world, unit) go" where
  "migrateAddOnFromV0_3_2 m repositoryName =
     tryM (onFiles (fetchManifestFrom (im_root m) repositoryName)) (\<lambda>(manifestVersion, manifestAsBytes).
     tryM (liftR (MigrateUcManifest manifestVersion manifestAsBytes)) (\<lambda>migratedManifestAsBytes.
     tryM (liftR (NewFromBytes migratedManifestAsBytes)) (\<lambda>migratedManifest.
     tryM (getSettingsForReplaceRoutine m migratedManifest (NormalizeName repositoryName)) (\<lambda>settings.
     tryM (MigrateStack (im_stackMigrator m) repositoryName v01_StackVersion migratedManifest settings) (\<lambda>_.
     onFiles (fs_Push (im_root m) repositoryName (Doc migratedManifestAsBytes)))))))"

definition migrateFromV0_3_2 :: "('r, 'd) installAddonMigrator \<Rightarrow> (('r, 'd) world, unit) go" where
  "migrateFromV0_3_2 m =
     tryM (onFiles (fs_Repositories (im_root m))) (\<lambda>installedAddOnRepositories.
     eachM (migrateAddOnFromV0_3_2 m) installedAddOnRepositories)"

text \<open>The \<^verbatim>\<open>switch\<close> with its fallthroughs.\<close>

definition migrationSteps :: "('r, 'd) installAddonMigrator \<Rightarrow> string \<Rightarrow> (('r, 'd) world, unit) go" where
  "migrationSteps m previousVersion =
     (if previousVersion = ''0.3.2'' then tryM (migrateFromV0_3_2 m) (\<lambda>_. migrateFromV0_5_2 m)
      else if previousVersion \<in> {''0.4.0'', ''0.5.0'', ''0.5.1'', ''0.5.2''} then migrateFromV0_5_2 m
      else fail (ErrorString (''No migration step for: '' @ previousVersion @ '', current version is ''
             @ currentVersion @ ''.'')))"

definition migrator_Migrate :: "('r, 'd) installAddonMigrator \<Rightarrow> (('r, 'd) world, unit) go" where
  "migrator_Migrate m =
     tryM (wrapErr ''Error while getVersion: '' [] (onFiles (getVersion (im_versionResolver m)))) (\<lambda>previousVersion.
     if previousVersion = currentVersion then ret ()
     else
       tryM (migrationSteps m previousVersion) (\<lambda>_.
       ignoreM (onFiles (updateVersion (im_versionResolver m) currentVersion))))"

definition NewInstallAddOnMigrator ::
  "path \<Rightarrow> path \<Rightarrow> 'd StackServiceAPI \<Rightarrow> ('r, 'd) stackMigrator \<Rightarrow> FS ReverseProxyCreater \<Rightarrow> ('r, 'd) installAddonMigrator" where
  "NewInstallAddOnMigrator root stateDir stackService stackMigrator reverseProxy =
     \<lparr>im_root = root, im_stackService = stackService, im_stackMigrator = stackMigrator,
      im_routesMigrator = reverseProxy, im_versionResolver = \<lparr>localStateDir = stateDir, vr_root = root\<rparr>\<rparr>"

section \<open>The manifest is replaced in one step\<close>

lemma install_segment: "cleanSeg f \<Longrightarrow> createInstallFilePathWith root n f = joinPath root n @ [f]"
  by (simp add: createInstallFilePathWith_def joinPath_clean)

lemma manifest_files_clean [simp]: "cleanSeg UcImageManifestFilename" "cleanSeg (CHR ''.'' # UcImageManifestFilename)"
  by (simp_all add: cleanSeg_def UcImageManifestFilename_def)

abbreviation manifestFile :: "path \<Rightarrow> string \<Rightarrow> path" where
  "manifestFile root n \<equiv> joinPath root n @ [UcImageManifestFilename]"

abbreviation tempManifestFile :: "path \<Rightarrow> string \<Rightarrow> path" where
  "tempManifestFile root n \<equiv> joinPath root n @ [CHR ''.'' # UcImageManifestFilename]"

definition plainFile :: "FS \<Rightarrow> path \<Rightarrow> bool" where
  "plainFile fs p \<longleftrightarrow> node fs p = None \<or> (\<exists>c. node fs p = Some (File c))"

lemma keeps_osWriteFile:
  assumes "p \<noteq> []" and "plainFile fs p"
  shows "onlyIn {p} fs (snd (osWriteFile p c fs)) \<and> plainFile (snd (osWriteFile p c fs)) p"
proof -
  have "resolve fs p = Some (p, node fs p)"
    using assms(2) by (intro resolve_plain) (auto simp: plainFile_def)
  then show ?thesis
    using assms
    by (cases "faulty fs OpWrite p")
      (auto simp: osWriteFile_def osOpenCreate_def osTruncate_def osWrite_def tryM_def onlyIn_def plainFile_def
        split: option.splits)
qed

lemma osRename_file:
  assumes "old \<noteq> []" and "new \<noteq> []" and "old \<noteq> new" and "node fs old = Some (File c)" and "osRename old new fs = (r, fs')"
  shows "r = Ok () \<and> fs' = setNode new (File c) (delNode old fs) \<or> \<not> is_ok r \<and> fs' = fs"
  using assms by (auto simp: osRename_def split: if_splits)

lemma Push_cases:
  assumes "plainFile fs (tempManifestFile root n)" and "fs_Push root n c fs = (r, fs')"
  shows "onlyIn {manifestFile root n, tempManifestFile root n} fs fs' \<and>
    node fs' (manifestFile root n) = (if is_ok r then Some (File c) else node fs (manifestFile root n))"
proof -
  let ?m = "manifestFile root n" and ?t = "tempManifestFile root n"
  obtain r1 f1 where w: "osWriteFile ?t c fs = (r1, f1)" by fastforce
  have f1: "onlyIn {?t} fs f1" using keeps_osWriteFile [OF _ assms(1), of c] w by simp
  have push: "fs_Push root n c fs = tryM (osWriteFile ?t c) (\<lambda>_. osRename ?t ?m) fs"
    by (simp add: fs_Push_def install_segment Let_def)
  show ?thesis
  proof (cases "r1 = Ok ()")
    case True
    have "node f1 ?t = Some (File c)"
      using osWriteFile_Ok(1) [of ?t fs c f1 ?t] assms(1) w True by (simp add: plainFile_def)
    moreover have "osRename ?t ?m f1 = (r, fs')" using assms(2) push w True by (simp add: tryM_def)
    ultimately have "r = Ok () \<and> fs' = setNode ?m (File c) (delNode ?t f1) \<or> \<not> is_ok r \<and> fs' = f1"
      by (intro osRename_file) auto
    then show ?thesis using f1 by (auto simp: onlyIn_def)
  next
    case False
    then have "fs' = f1 \<and> \<not> is_ok r" using assms(2) push w by (cases r1) (auto simp: tryM_def)
    then show ?thesis using f1 by (auto simp: onlyIn_def)
  qed
qed

section \<open>Every manifest is upgraded\<close>

definition upgradedFile :: "FS \<Rightarrow> FS \<Rightarrow> path \<Rightarrow> bool" where
  "upgradedFile fs fs' p \<longleftrightarrow>
     (\<exists>v old new. node fs p = Some (File (Doc old)) \<and> UnmarshalManifestVersionFrom old = Ok v
        \<and> MigrateUcManifest v old = Ok new \<and> node fs' p = Some (File (Doc new)))"

text \<open>The manifests of an installation are plain files outside the volumes and the cache.\<close>

definition installedOutside :: "path set \<Rightarrow> path \<Rightarrow> FS \<Rightarrow> string \<Rightarrow> bool" where
  "installedOutside V root fs n \<longleftrightarrow>
     manifestFile root n \<notin> V \<and> tempManifestFile root n \<notin> V
     \<and> plainFile fs (manifestFile root n) \<and> plainFile fs (tempManifestFile root n)"

lemma fetch_plain:
  assumes "plainFile fs (manifestFile root n)" and "fetchManifestFrom root n fs = (Ok (v, j), fs')"
  shows "node fs (manifestFile root n) = Some (File (Doc j)) \<and> UnmarshalManifestVersionFrom j = Ok v \<and> fs' = fs"
proof -
  have "resolve fs (manifestFile root n) = Some (manifestFile root n, node fs (manifestFile root n))"
    using assms(1) by (intro resolve_plain) (auto simp: plainFile_def)
  then show ?thesis
    using assms
    by (auto simp: fetchManifestFrom_def fs_Fetch_def install_segment osReadFile_def plainFile_def bind_res_Ok_iff
        elim!: tryM_OkE contentJson.elims split: if_splits)
qed

lemma keeps_fetch: "keeps (onlyIn V) (fetchManifestFrom root n)"
proof -
  have "keeps (=) (fetchManifestFrom root n)"
    unfolding fetchManifestFrom_def fs_Fetch_def by (intro reads.keeps_rules keeps_reads)
  then show ?thesis by (auto simp: keeps_def onlyIn.R_refl)
qed

lemma keeps_settings: "keeps (worldIn V) (getSettingsForReplaceRoutine m manifest n)"
  unfolding getSettingsForReplaceRoutine_def Let_def
  by (intro worldIn.keeps_if worldIn.keeps_pure worldIn.keeps_tryM worldIn_docker)

lemma migrateAddOn_step:
  assumes V: "volumesIn V (im_stackMigrator m)" and at: "installedOutside V (im_root m) (files w) n"
    and run: "migrateAddOnFromV0_3_2 m n w = (Ok (), w')"
  shows "upgradedFile (files w) (files w') (manifestFile (im_root m) n)
    \<and> worldIn (V \<union> {manifestFile (im_root m) n, tempManifestFile (im_root m) n}) w w'"
proof -
  let ?m = "manifestFile (im_root m) n" and ?t = "tempManifestFile (im_root m) n"
  from run obtain v old w1 new root settings w2 w3 where
    f: "onFiles (fetchManifestFrom (im_root m) n) w = (Ok (v, old), w1)" and mig: "MigrateUcManifest v old = Ok new"
    and st: "getSettingsForReplaceRoutine m root (NormalizeName n) w1 = (Ok settings, w2)"
    and ms: "MigrateStack (im_stackMigrator m) n v01_StackVersion root settings w2 = (Ok (), w3)"
    and pu: "onFiles (fs_Push (im_root m) n (Doc new)) w3 = (Ok (), w')"
    unfolding migrateAddOnFromV0_3_2_def by (auto elim!: tryM_OkE)
  have fm: "node (files w) ?m = Some (File (Doc old))" "UnmarshalManifestVersionFrom old = Ok v" "files w1 = files w"
    using f fetch_plain [of "files w" "im_root m" n v old] at
    by (auto simp: onFiles_run installedOutside_def prod_eq_iff)
  have w3: "onlyIn V (files w) (files w3)"
    using keeps_run [OF keeps_settings st] keeps_run [OF MigrateStack_in [OF V] ms] fm(3) onlyIn.R_trans
    unfolding worldIn_def by (metis (full_types))
  have "plainFile (files w3) ?t" using w3 at by (simp add: onlyIn_def installedOutside_def plainFile_def)
  then have p: "onlyIn {?m, ?t} (files w3) (files w')" "node (files w') ?m = Some (File (Doc new))"
    using Push_cases [of "files w3" "im_root m" n "Doc new" "Ok ()" "files w'"] pu
    by (auto simp: onFiles_run prod_eq_iff)
  have "onlyIn (V \<union> {?m, ?t}) (files w) (files w')"
    by (rule onlyIn.R_trans [OF onlyIn_mono [OF w3] onlyIn_mono [OF p(1)]]) auto
  then show ?thesis using fm mig p(2) by (auto simp: upgradedFile_def worldIn_def)
qed

lemma migrateAddOns_upgrade:
  assumes V: "volumesIn V (im_stackMigrator m)"
  shows "eachM (migrateAddOnFromV0_3_2 m) ns w = (Ok (), w') \<Longrightarrow>
    list_all (installedOutside V (im_root m) (files w)) ns \<Longrightarrow> distinct (map (joinPath (im_root m)) ns) \<Longrightarrow>
    worldIn (V \<union> (\<Union>n\<in>set ns. {manifestFile (im_root m) n, tempManifestFile (im_root m) n})) w w'
    \<and> list_all (\<lambda>n. upgradedFile (files w) (files w') (manifestFile (im_root m) n)) ns"
proof (induction ns arbitrary: w)
  case Nil
  then show ?case by (auto simp: worldIn_def onlyIn.R_refl)
next
  case (Cons n ns)
  let ?m = "\<lambda>n. manifestFile (im_root m) n" and ?t = "\<lambda>n. tempManifestFile (im_root m) n"
  let ?A = "V \<union> (\<Union>n\<in>set ns. {?m n, ?t n})"
  from Cons.prems obtain w1 where one: "migrateAddOnFromV0_3_2 m n w = (Ok (), w1)"
    and rest: "eachM (migrateAddOnFromV0_3_2 m) ns w1 = (Ok (), w')" by (auto elim!: tryM_OkE)
  have at: "installedOutside V (im_root m) (files w) n" using Cons.prems by simp
  note s1 = migrateAddOn_step [OF V at one]
  have same: "node (files w1) p = node (files w) p" if "k \<in> set ns" "p \<in> {?m k, ?t k}" for k p
  proof -
    have "joinPath (im_root m) k \<noteq> joinPath (im_root m) n" using imageI [OF that(1), of "joinPath (im_root m)"] Cons.prems(3) by auto
    moreover have "p \<notin> V" using Cons.prems(2) that by (auto simp: installedOutside_def list_all_iff)
    ultimately have "p \<notin> V \<union> {?m n, ?t n}" using that(2) by auto
    then show ?thesis using s1 by (simp add: worldIn_def onlyIn_def)
  qed
  have "list_all (installedOutside V (im_root m) (files w1)) ns"
    using Cons.prems(2) same by (auto simp: list_all_iff installedOutside_def plainFile_def)
  from Cons.IH [OF rest this] Cons.prems(3)
  have ih: "worldIn ?A w1 w'" "list_all (\<lambda>n. upgradedFile (files w1) (files w') (?m n)) ns" by simp_all
  have "?m n \<notin> ?A" using Cons.prems(3) at by (auto simp: installedOutside_def)
  then have "node (files w') (?m n) = node (files w1) (?m n)" using ih(1) by (simp add: worldIn_def onlyIn_def)
  moreover have "list_all (\<lambda>n. upgradedFile (files w) (files w') (?m n)) ns"
    using ih(2) same by (auto simp: list_all_iff upgradedFile_def)
  moreover have "worldIn (V \<union> (\<Union>n\<in>set (n # ns). {?m n, ?t n})) w w'"
  proof -
    have "worldIn (V \<union> (\<Union>n\<in>set (n # ns). {?m n, ?t n})) w w1" "worldIn (V \<union> (\<Union>n\<in>set (n # ns). {?m n, ?t n})) w1 w'"
      using s1 ih(1) unfolding worldIn_def by (auto elim!: onlyIn_mono)
    then show ?thesis by (rule worldIn.R_trans)
  qed
  ultimately show ?case using s1 by (auto simp: upgradedFile_def)
qed

text \<open>
  C14. Migrating an installation of version 0.3.2: when the step succeeds, the manifest of every installed add-on
  is the migrated form of the manifest it had, and no file changed but these manifests (and their temporary
  names) and what lies in volumes and in the cache.
\<close>

theorem installed_manifests_are_upgraded:
  assumes "volumesIn V (im_stackMigrator m)" and "fs_Repositories (im_root m) (files w) = (Ok ns, files w)"
    and "list_all (installedOutside V (im_root m) (files w)) ns" and "distinct (map (joinPath (im_root m)) ns)"
    and "migrateFromV0_3_2 m w = (Ok (), w')"
  shows "list_all (\<lambda>n. upgradedFile (files w) (files w') (manifestFile (im_root m) n)) ns
    \<and> worldIn (V \<union> (\<Union>n\<in>set ns. {manifestFile (im_root m) n, tempManifestFile (im_root m) n})) w w'"
proof -
  have "eachM (migrateAddOnFromV0_3_2 m) ns w = (Ok (), w')"
    using assms(2,5) by (simp add: migrateFromV0_3_2_def tryM_def onFiles_run)
  from migrateAddOns_upgrade [OF assms(1) this assms(3,4)] show ?thesis by blast
qed

section \<open>A migration is not repeated\<close>

abbreviation releasePath :: "aomVersionResolver \<Rightarrow> path" where
  "releasePath r \<equiv> localStateDir r @ [releaseFilename]"

lemma release_segment: "joinPath d releaseFilename = d @ [releaseFilename]"
  by (rule joinPath_clean) (simp add: cleanSeg_def releaseFilename_def)

lemma release_roundtrip: "unmarshalRelease (marshalRelease v) = Ok v"
  by (simp add: unmarshalRelease_def marshalRelease_def member_def)

text \<open>
  Wherever the release file is a regular file after a write that the file system does not refuse, the write
  has succeeded: it neither follows a link nor stops at a directory.
\<close>

lemma written_release:
  assumes "updateVersion r v fs = (res, fs')" and "node fs' (releasePath r) = Some (File c)"
    and "\<not> faulty fs' OpOpen (releasePath r)" and "\<not> faulty fs' OpWrite (releasePath r)"
  shows "c = marshalRelease v"
proof (cases "\<exists>t. node fs (releasePath r) = Some (Link t)")
  case True
  then obtain t where t: "node fs (releasePath r) = Some (Link t)" by blast
  have keep: "node fs' (releasePath r) = Some (Link t)"
  proof (cases "resolve fs (releasePath r)")
    case None
    then show ?thesis
      using assms(1) t by (auto simp: updateVersion_def WriteFileToDestination_def release_segment osWriteFile_def
          osOpenCreate_def tryM_def split: if_splits)
  next
    case (Some qn)
    obtain q n where qn: "qn = (q, n)" by (cases qn)
    have "node fs q = n" "q \<noteq> releasePath r"
      using follow_final [of 40 fs "releasePath r" q n] Some qn t by (auto simp: resolve_def)
    moreover have "q \<noteq> [] \<or> n = Some Dir" using \<open>node fs q = n\<close> by (cases "q = []") auto
    ultimately show ?thesis
      using assms(1) t Some qn
      by (auto simp: updateVersion_def WriteFileToDestination_def release_segment osWriteFile_def osOpenCreate_def
          osTruncate_def osWrite_def tryM_def split: if_splits option.splits node.splits)
  qed
  then show ?thesis using assms(2) by simp
next
  case False
  then have "resolve fs (releasePath r) = Some (releasePath r, node fs (releasePath r))" by (intro resolve_plain) auto
  then show ?thesis
    using assms
    by (auto simp: updateVersion_def WriteFileToDestination_def release_segment osWriteFile_def osOpenCreate_def
        osTruncate_def osWrite_def tryM_def marshalRelease_def split: option.splits node.splits if_splits)
qed

lemma getVersion_current:
  assumes "node fs (releasePath r) = Some (File c)" and "\<not> faulty fs OpOpen (releasePath r)"
  shows "getVersion r fs = (unmarshalRelease c, fs)"
  using osReadFile_file [OF assms]
  by (simp add: getVersion_def release_segment tryM_def attemptM_def)

text \<open>The release file tells the version that \<open>getVersion\<close> returned.\<close>

lemma getVersion_recorded:
  assumes "getVersion r fs = (Ok v, fs')" and "node fs' (releasePath r) = Some (File c)"
    and "\<not> faulty fs' OpOpen (releasePath r)" and "\<not> faulty fs' OpWrite (releasePath r)"
  shows "unmarshalRelease c = Ok v"
proof -
  obtain rd f1 where rd: "osReadFile (releasePath r) fs = (rd, f1)" by fastforce
  have f1: "f1 = fs" using rd osReadFile_state [of "releasePath r" fs] by simp
  show ?thesis
  proof (cases rd)
    case (Ok c0)
    then have v: "unmarshalRelease c0 = Ok v" "fs' = fs"
      using assms(1) rd f1 by (simp_all add: getVersion_def release_segment tryM_def attemptM_def)
    then have "osReadFile (releasePath r) fs = (Ok c, fs)" using osReadFile_file assms(2,3) by simp
    then show ?thesis using v rd Ok by simp
  next
    case (Err e)
    with assms(1) rd obtain m where e: "e = ErrNotExist m"
      by (cases e) (auto simp: getVersion_def release_segment tryM_def attemptM_def)
    with assms(1) rd Err f1 have "\<exists>f2. updateVersion r v f2 = (Ok (), fs')"
      by (auto simp: getVersion_def release_segment tryM_run(1) attemptM_def elim!: tryM_OkE split: if_splits)
        (metis (full_types))+
    then show ?thesis using written_release assms(2-4) release_roundtrip by metis
  next
    case (Panic p)
    then show ?thesis using assms(1) rd by (simp add: getVersion_def release_segment tryM_def attemptM_def)
  qed
qed

text \<open>
  C15. A migration that succeeded is not repeated: when the release file is afterwards a regular file the
  daemon may read and write, the next start finds the current version in it and changes nothing. The result
  of the final write is not looked at by the code; it is part of the statement that the write cannot have
  failed then.
\<close>

theorem migration_runs_once:
  assumes "migrator_Migrate m w = (Ok (), w')"
    and "node (files w') (releasePath (im_versionResolver m)) = Some (File c)"
    and "\<not> faulty (files w') OpOpen (releasePath (im_versionResolver m))"
    and "\<not> faulty (files w') OpWrite (releasePath (im_versionResolver m))"
  shows "unmarshalRelease c = Ok currentVersion \<and> migrator_Migrate m w' = (Ok (), w')"
proof -
  let ?r = "im_versionResolver m"
  from assms(1) obtain v w1 where v: "onFiles (getVersion ?r) w = (Ok v, w1)"
    and rest: "(if v = currentVersion then ret ()
      else tryM (migrationSteps m v) (\<lambda>_. ignoreM (onFiles (updateVersion ?r currentVersion)))) w1 = (Ok (), w')"
    unfolding migrator_Migrate_def by (auto elim!: tryM_OkE simp: wrapErr_Ok)
  have cur: "unmarshalRelease c = Ok currentVersion"
  proof (cases "v = currentVersion")
    case True
    then have "w1 = w'" "getVersion ?r (files w) = (Ok currentVersion, files w')"
      using rest v by (auto simp: onFiles_run prod_eq_iff)
    then show ?thesis using getVersion_recorded assms(2-4) by blast
  next
    case False
    with rest obtain w2 where "ignoreM (onFiles (updateVersion ?r currentVersion)) w2 = (Ok (), w')"
      by (auto elim!: tryM_OkE)
    then have "files w' = snd (updateVersion ?r currentVersion (files w2))"
      using snd_ignoreM [of "onFiles (updateVersion ?r currentVersion)" w2] by (simp add: onFiles_run)
    then obtain res where "updateVersion ?r currentVersion (files w2) = (res, files w')" by (metis prod.collapse)
    from written_release [OF this assms(2-4)] show ?thesis using release_roundtrip by simp
  qed
  have "onFiles (getVersion ?r) w' = (Ok currentVersion, w')"
    using getVersion_current [OF assms(2,3)] cur by (simp add: onFiles_run)
  then show ?thesis using cur by (simp add: migrator_Migrate_def tryM_def wrapErr_Ok [THEN iffD2])
qed

section \<open>An installation to migrate\<close>

definition sampleMigrator :: "(unit, miniDocker) installAddonMigrator" where
  "sampleMigrator =
     NewInstallAddOnMigrator [''inst''] [''state''] (stackAPI miniStack) sampleStackMigrator
       (asCreater (sampleProxy\<lparr>rp_factory := (\<lambda>_. JobResult ''done'')\<rparr>))"

definition oldDevice :: "(unit, miniDocker) world" where
  "oldDevice = deviceWorld [([''inst'', ''app''], Dir), ([''state''], Dir),
     ([''inst'', ''app'', UcImageManifestFilename], File (Doc sampleV01))]"

lemma sample_volumesIn: "volumesIn {q. prefix [''cache''] q} sampleStackMigrator"
  using directory_copyTree
  by (auto simp: volumesIn_def sampleStackMigrator_def stackAPI_def ss_VolumeInspect_def miniStack_def NewStackService_def
      miniClient_def worldIn.keeps_pure prefix_def)

theorem installed_manifests_are_upgraded_witness:
  "upgradedFile (files oldDevice) (files (snd (migrateFromV0_3_2 sampleMigrator oldDevice)))
     [''inst'', ''app'', UcImageManifestFilename]"
proof -
  let ?m = sampleMigrator and ?V = "{q. prefix [''cache''] q}"
  have r: "im_root ?m = [''inst'']" "im_stackMigrator ?m = sampleStackMigrator"
    by (simp_all add: sampleMigrator_def NewInstallAddOnMigrator_def)
  have j: "joinPath [''inst''] ''app'' = [''inst'', ''app'']" by code_simp
  have "fst (fs_Repositories [''inst''] (files oldDevice)) = Ok [''app'']" by code_simp
  then have repos: "fs_Repositories (im_root ?m) (files oldDevice) = (Ok [''app''], files oldDevice)"
    unfolding r fs_Repositories_def by (rule keeps_reads_run [OF keeps_GetManifestsDirectories])
  have at: "list_all (installedOutside ?V (im_root ?m) (files oldDevice)) [''app'']"
    by (simp add: installedOutside_def r j plainFile_def node_def oldDevice_def deviceWorld_def UcImageManifestFilename_def)
  have "is_ok (fst (migrateFromV0_3_2 ?m oldDevice))" by code_simp
  then obtain w' where run: "migrateFromV0_3_2 ?m oldDevice = (Ok (), w')"
    by (cases "migrateFromV0_3_2 ?m oldDevice"; cases "fst (migrateFromV0_3_2 ?m oldDevice)") auto
  from installed_manifests_are_upgraded [OF _ repos at _ run] sample_volumesIn run
  show ?thesis by (simp add: r j)
qed

theorem migration_runs_once_witness:
  "migrator_Migrate sampleMigrator (snd (migrator_Migrate sampleMigrator oldDevice))
     = (Ok (), snd (migrator_Migrate sampleMigrator oldDevice))"
proof -
  let ?run = "migrator_Migrate sampleMigrator oldDevice"
  let ?p = "releasePath (im_versionResolver sampleMigrator)"
  have "case ?run of (r, w') \<Rightarrow> is_ok r \<and> (case node (files w') ?p of Some (File c) \<Rightarrow> True | _ \<Rightarrow> False) \<and>
      \<not> faulty (files w') OpOpen ?p \<and> \<not> faulty (files w') OpWrite ?p" by code_simp
  then obtain w' c where run: "?run = (Ok (), w')" and c: "node (files w') ?p = Some (File c)"
    and f: "\<not> faulty (files w') OpOpen ?p" "\<not> faulty (files w') OpWrite ?p"
    by (cases ?run; cases "fst ?run") (auto split: option.splits node.splits)
  from migration_runs_once [OF run c f] run show ?thesis by simp
qed

end
