(* ===== verification/Network.thy ===== *)
theory Network
  imports Service
begin

text \<open>
  \<^verbatim>\<open>internal/aom/network/external_network.go\<close>: the bridge network \<^verbatim>\<open>internal-bridge\<close> is created anew once per
  start of the daemon, and the containers that were connected to it are connected to the new one.

  The network part of the Docker client is third-party code and a parameter, over the state \<open>'d\<close> of the Docker
  daemon; the connector's own state is the identifier of the network it has created.
\<close>

record 'd NetworkClient =
  net_Inspect :: "string \<Rightarrow> ('d, string list) go"
  net_ContainerStop :: "string \<Rightarrow> ('d, unit) go"
  net_Remove :: "string \<Rightarrow> ('d, unit) go"
  net_Create :: "string \<Rightarrow> (string \<times> string) list \<Rightarrow> ('d, string) go"
  net_Connect :: "string \<Rightarrow> string \<Rightarrow> string list \<Rightarrow> ('d, unit) go"
  net_ContainerNetworks :: "string \<Rightarrow> ('d, (string \<times> string list option) list option) go"

record 'd bridgeState =
  newInitializedInternalBridgeId :: string
  bridge_docker :: 'd

definition onBridgeDocker :: "('d, 'a) go \<Rightarrow> ('d bridgeState, 'a) go" where
  "onBridgeDocker m = onPart bridge_docker (\<lambda>d s. s\<lparr>bridge_docker := d\<rparr>) m"

definition internalBridgeNetworkName :: string where
  "internalBridgeNetworkName = ''docker1''"

definition networkNotFoundText :: string where
  "networkNotFoundText = ''No such network: '' @ InternalAddOnNetworkName"

text \<open>\<^verbatim>\<open>errors.Is(newNetworkNotFoundDockerdError(), err)\<close> asks the method \<^verbatim>\<open>Is\<close> of its first argument.\<close>

definition isNetworkNotFound :: "goerror \<Rightarrow> bool" where
  "isNetworkNotFound err = Contains (err_text err) networkNotFoundText"

definition isInitialized :: "'d bridgeState \<Rightarrow> bool" where
  "isInitialized s \<longleftrightarrow> newInitializedInternalBridgeId s \<noteq> []"

definition removeInternalBridgeNetworkIfExist :: "'d NetworkClient \<Rightarrow> ('d, unit) go" where
  "removeInternalBridgeNetworkIfExist c =
     tryM (attemptM (net_Inspect c InternalAddOnNetworkName)) (\<lambda>r.
       case r of
         Inl err \<Rightarrow> if isNetworkNotFound err then ret () else fail err
       | Inr connectedAndStartedContainers \<Rightarrow>
           tryM (eachM (net_ContainerStop c) connectedAndStartedContainers) (\<lambda>_.
           net_Remove c InternalAddOnNetworkName))"

definition createNewInternalBridgeNetwork :: "'d NetworkClient \<Rightarrow> ('d, string) go" where
  "createNewInternalBridgeNetwork c =
     net_Create c InternalAddOnNetworkName
       [(''com.docker.network.bridge.default_bridge'', ''false''),
        (''com.docker.network.bridge.enable_icc'', ''true''),
        (''com.docker.network.bridge.enable_ip_masquerade'', ''true''),
        (''com.docker.network.bridge.host_binding_ipv4'', ''0.0.0.0''),
        (''com.docker.network.bridge.name'', internalBridgeNetworkName)]"

text \<open>On a failed creation the identifier is assigned the empty string the call returns.\<close>

definition recreateInternalBridgeNetwork :: "'d NetworkClient \<Rightarrow> ('d bridgeState, unit) go" where
  "recreateInternalBridgeNetwork c =
     tryM (onBridgeDocker (removeInternalBridgeNetworkIfExist c)) (\<lambda>_.
     tryM (attemptM (onBridgeDocker (createNewInternalBridgeNetwork c))) (\<lambda>r.
       case r of
         Inl err \<Rightarrow> tryM (modifyM (\<lambda>s. s\<lparr>newInitializedInternalBridgeId := []\<rparr>)) (\<lambda>_. fail err)
       | Inr i \<Rightarrow> modifyM (\<lambda>s. s\<lparr>newInitializedInternalBridgeId := i\<rparr>)))"

definition bridge_Initialize :: "'d NetworkClient \<Rightarrow> ('d bridgeState, unit) go" where
  "bridge_Initialize c =
     tryM (getM isInitialized) (\<lambda>b. if \<not> b then recreateInternalBridgeNetwork c else ret ())"

definition bridge_IsConnected :: "Root \<Rightarrow> bool" where
  "bridge_IsConnected manifest =
     list_ex (\<lambda>(_, e).
       list_ex (\<lambda>(_, networkConfig). mget networkConfig ''name'' = Some (JStr InternalAddOnNetworkName))
         (entries (Networks (env_Config e))))
       (entries (Environments manifest))"

definition isConnectedToInternalBridge :: "Container \<Rightarrow> bool" where
  "isConnectedToInternalBridge container =
     (case ct_Networks container of None \<Rightarrow> False | Some ns \<Rightarrow> InternalAddOnNetworkName \<in> set ns)"

definition getPreviousContainerNetworkAliases :: "'d NetworkClient \<Rightarrow> string \<Rightarrow> ('d, string list) go" where
  "getPreviousContainerNetworkAliases c containerID =
     tryM (net_ContainerNetworks c containerID) (\<lambda>n.
     ret (case n of
            None \<Rightarrow> []
          | Some networks \<Rightarrow>
              (case map_of networks InternalAddOnNetworkName of
                 Some (Some aliases) \<Rightarrow> aliases
               | _ \<Rightarrow> [])))"

definition reconnectContainer :: "'d NetworkClient \<Rightarrow> string \<Rightarrow> ('d bridgeState, unit) go" where
  "reconnectContainer c containerID =
     tryM (onBridgeDocker (getPreviousContainerNetworkAliases c containerID)) (\<lambda>aliases.
     tryM (getM newInitializedInternalBridgeId) (\<lambda>i.
     onBridgeDocker (net_Connect c i containerID aliases)))"

definition bridge_Reconnect :: "'d NetworkClient \<Rightarrow> Container list \<Rightarrow> ('d bridgeState, unit) go" where
  "bridge_Reconnect c containers =
     eachM (\<lambda>ct. if isConnectedToInternalBridge ct then reconnectContainer c (ct_ID ct) else ret ()) containers"

definition NewInternalBridgeNetworkConnector :: "'d NetworkClient \<Rightarrow> 'd bridgeState ExternalNetworkConnector" where
  "NewInternalBridgeNetworkConnector c =
     \<lparr>Initialize = bridge_Initialize c, IsConnected = bridge_IsConnected, Reconnect = bridge_Reconnect c\<rparr>"

section \<open>The network is created once\<close>

lemma onBridgeDocker_run:
  "onBridgeDocker m s = (fst (m (bridge_docker s)), s\<lparr>bridge_docker := snd (m (bridge_docker s))\<rparr>)"
  by (simp add: onBridgeDocker_def onPart_def split: prod.splits)

text \<open>
  The bridge network is created once per start of the daemon: after a successful \<^verbatim>\<open>Initialize\<close> every further
  one does nothing, provided Docker never answers a creation with an empty identifier.
\<close>

theorem bridge_is_created_once:
  assumes "bridge_Initialize c s = (Ok (), s')" and "\<forall>d n os. fst (net_Create c n os d) \<noteq> Ok []"
  shows "isInitialized s' \<and> bridge_Initialize c s' = (Ok (), s')"
proof -
  have i: "isInitialized s'"
  proof (cases "isInitialized s")
    case True
    then show ?thesis using assms(1) by (simp add: bridge_Initialize_def tryM_def)
  next
    case False
    then show ?thesis
      using assms
      by (auto simp: bridge_Initialize_def recreateInternalBridgeNetwork_def isInitialized_def tryM_def attemptM_def
          onBridgeDocker_run createNewInternalBridgeNetwork_def split: prod.splits res.splits)
  qed
  then show ?thesis by (simp add: bridge_Initialize_def tryM_def)
qed

definition emptyNetwork :: "nat NetworkClient" where
  "emptyNetwork =
     \<lparr>net_Inspect = (\<lambda>_ d. (Err (ErrorString (''Error: '' @ networkNotFoundText)), d)), net_ContainerStop = (\<lambda>_. ret ()),
      net_Remove = (\<lambda>_. ret ()), net_Create = (\<lambda>_ _ d. (Ok (CHR ''n'' # show_nat d), Suc d)),
      net_Connect = (\<lambda>_ _ _. ret ()), net_ContainerNetworks = (\<lambda>_. ret None)\<rparr>"

theorem bridge_is_created_once_witness:
  "let s' = snd (bridge_Initialize emptyNetwork \<lparr>newInitializedInternalBridgeId = [], bridge_docker = 0\<rparr>)
   in bridge_Initialize emptyNetwork s' = (Ok (), s')"
proof -
  let ?s = "\<lparr>newInitializedInternalBridgeId = [], bridge_docker = 0\<rparr> :: nat bridgeState"
  have "is_ok (fst (bridge_Initialize emptyNetwork ?s))" by code_simp
  then obtain s' where run: "bridge_Initialize emptyNetwork ?s = (Ok (), s')"
    by (cases "bridge_Initialize emptyNetwork ?s"; cases "fst (bridge_Initialize emptyNetwork ?s)") auto
  have "\<forall>d n os. fst (net_Create emptyNetwork n os d) \<noteq> Ok []" by (simp add: emptyNetwork_def)
  from bridge_is_created_once [OF run this] run show ?thesis by (simp add: Let_def)
qed

end
