(* ===== verification/VolumeDriver.thy ===== *)
theory VolumeDriver
  imports FileSystem Migration
begin

text \<open>
  \<^verbatim>\<open>internal/aom/docker/driver-helpers.go\<close>, \<^verbatim>\<open>local-public-driver.go\<close> and
  \<^verbatim>\<open>local-public-access-driver.go\<close>: the two Docker volume plugins the daemon serves. Each keeps a map from
  volume names to mount points, guarded by a mutex, and saves it to a state file after every change, so
  that the volumes survive a restart.

  The state is the driver's map together with the file system. The requests of the plugin interface
  run one at a time.
\<close>

section \<open>Helpers\<close>

record driverState =
  volumesDir :: path
  drv_volumes :: "string gomap"
  drv_stateFilePath :: path
  dfs :: FS

definition onFS :: "(FS, 'a) go \<Rightarrow> (driverState, 'a) go" where
  "onFS m = onPart dfs (\<lambda>fs s. s\<lparr>dfs := fs\<rparr>) m"

definition saveData :: "string gomap \<Rightarrow> json" where
  "saveData vs = obj [(''state'', Some (eMap JStr vs))]"

definition saveState :: "path \<Rightarrow> string gomap \<Rightarrow> (FS, unit) go" where
  "saveState p vs = osWriteFile p (Doc (saveData vs))"

text \<open>The map found in the state file; an unreadable file counts as an empty map.\<close>

definition decodeState :: "content \<Rightarrow> string gomap res" where
  "decodeState c =
     (case c of
        Text _ \<Rightarrow> Err (ErrorString ''invalid character'')
      | Doc j \<Rightarrow> bind_res (dStruct j) (\<lambda>m. dMap dStr (member m ''state'')))"

definition findExistingVolumesFromStateFile :: "path \<Rightarrow> FS \<Rightarrow> goerror option \<times> string gomap" where
  "findExistingVolumesFromStateFile p fs =
     (case fst (osReadFile p fs) of
        Err e \<Rightarrow> (Some e, Some [])
      | Panic m \<Rightarrow> (None, Some [])
      | Ok c \<Rightarrow>
          (case decodeState c of
             Err e \<Rightarrow> (Some e, Some [])
           | Panic m \<Rightarrow> (None, Some [])
           | Ok vs \<Rightarrow> (None, vs)))"

text \<open>A missing key of a Go map reads as the empty text.\<close>

definition mountpointOf :: "string gomap \<Rightarrow> string \<Rightarrow> string" where
  "mountpointOf vs name = (case mget vs name of None \<Rightarrow> [] | Some m \<Rightarrow> m)"

definition drv_exists :: "string gomap \<Rightarrow> string \<Rightarrow> bool" where
  "drv_exists vs name \<longleftrightarrow> mountpointOf vs name \<noteq> []"

record Volume =
  vol_Name :: string
  vol_Mountpoint :: string

definition getVolume :: "string gomap \<Rightarrow> string \<Rightarrow> Volume" where
  "getVolume vs name = \<lparr>vol_Name = name, vol_Mountpoint = mountpointOf vs name\<rparr>"

definition getVolumes :: "string gomap \<Rightarrow> Volume list" where
  "getVolumes vs = map (\<lambda>(name, _). getVolume vs name) (entries vs)"

definition noSuchVolume :: "string \<Rightarrow> goerror" where
  "noSuchVolume name = ErrorString (''No volume found with the name '' @ name)"

definition volumeExists :: "string \<Rightarrow> goerror" where
  "volumeExists name = ErrorString (''The volume '' @ name @ '' already exists'')"

section \<open>The driver local-public\<close>

definition driverStart :: "path \<Rightarrow> path \<Rightarrow> string \<Rightarrow> FS \<Rightarrow> driverState" where
  "driverStart stateDir volDir stateFile fs =
     (let fs1 = snd (tryM (ignoreM (osMkdir volDir)) (\<lambda>_. ignoreM (osChown volDir)) fs);
          stateFilePath = joinPath stateDir stateFile
      in \<lparr>volumesDir = volDir,
          drv_volumes = snd (findExistingVolumesFromStateFile stateFilePath fs1),
          drv_stateFilePath = stateFilePath, dfs = fs1\<rparr>)"

definition newLocalPublicDriver :: "path \<Rightarrow> path \<Rightarrow> FS \<Rightarrow> driverState" where
  "newLocalPublicDriver stateDir volDir fs =
     driverStart stateDir volDir (LocalPublicVolumeDriverName @ ''.json'') fs"

definition localPublic_Get :: "string \<Rightarrow> (driverState, Volume) go" where
  "localPublic_Get name s =
     (if drv_exists (drv_volumes s) name then (Ok (getVolume (drv_volumes s) name), s)
      else (Err (noSuchVolume name), s))"

definition localPublic_List :: "(driverState, Volume list) go" where
  "localPublic_List s = (Ok (getVolumes (drv_volumes s)), s)"

definition putVolume :: "string \<Rightarrow> string \<Rightarrow> (driverState, unit) go" where
  "putVolume name mountpoint s =
     (case mput (drv_volumes s) name mountpoint of
        Ok vs \<Rightarrow> (Ok (), s\<lparr>drv_volumes := vs\<rparr>)
      | Err e \<Rightarrow> (Err e, s)
      | Panic m \<Rightarrow> (Panic m, s))"

definition localPublic_Create :: "string \<Rightarrow> (driverState, unit) go" where
  "localPublic_Create name s =
     (let mountpoint = joinPath (volumesDir s) name
      in if drv_exists (drv_volumes s) name then (Err (volumeExists name), s)
         else
           tryM (onFS (osMkdirAll mountpoint)) (\<lambda>_.
           tryM (onFS (osChown mountpoint)) (\<lambda>_.
           tryM (putVolume name (showPath mountpoint)) (\<lambda>_.
           tryM (getM drv_volumes) (\<lambda>vs.
           ignoreM (onFS (saveState (drv_stateFilePath s) vs)))))) s)"

definition localPublic_Remove :: "string \<Rightarrow> (driverState, unit) go" where
  "localPublic_Remove name s =
     (if \<not> drv_exists (drv_volumes s) name then (Ok (), s)
      else
        tryM (ignoreM (onFS (osRemoveAll (toPath (mountpointOf (drv_volumes s) name))))) (\<lambda>_.
        tryM (modifyM (\<lambda>s. s\<lparr>drv_volumes := mdelete name (drv_volumes s)\<rparr>)) (\<lambda>_.
        tryM (getM drv_volumes) (\<lambda>vs.
        onFS (saveState (drv_stateFilePath s) vs)))) s)"

definition localPublic_Mount :: "string \<Rightarrow> (driverState, string) go" where
  "localPublic_Mount name s = (Ok (mountpointOf (drv_volumes s) name), s)"

definition localPublic_Path :: "string \<Rightarrow> (driverState, string) go" where
  "localPublic_Path name s = (Ok (mountpointOf (drv_volumes s) name), s)"

definition localPublic_Unmount :: "string \<Rightarrow> (driverState, unit) go" where
  "localPublic_Unmount name = ret ()"

section \<open>The driver local-public-access\<close>

text \<open>Every volume of this driver is mounted at the directory of the public volumes itself.\<close>

definition newLocalPublicAccessDriver :: "path \<Rightarrow> path \<Rightarrow> FS \<Rightarrow> driverState" where
  "newLocalPublicAccessDriver stateDir volDir fs =
     driverStart stateDir volDir (LocalPublicVolumeAccessDriverName @ ''.json'') fs"

definition localPublicAccess_Get :: "string \<Rightarrow> (driverState, Volume) go" where
  "localPublicAccess_Get name s =
     (if drv_exists (drv_volumes s) name then (Ok (getVolume (drv_volumes s) name), s)
      else (Err (noSuchVolume name), s))"

definition localPublicAccess_List :: "(driverState, Volume list) go" where
  "localPublicAccess_List s = (Ok (getVolumes (drv_volumes s)), s)"

definition localPublicAccess_Create :: "string \<Rightarrow> (driverState, unit) go" where
  "localPublicAccess_Create name s =
     (if drv_exists (drv_volumes s) name then (Err (volumeExists name), s)
      else
        tryM (putVolume name (showPath (volumesDir s))) (\<lambda>_.
        tryM (getM drv_volumes) (\<lambda>vs.
        ignoreM (onFS (saveState (drv_stateFilePath s) vs)))) s)"

definition localPublicAccess_Remove :: "string \<Rightarrow> (driverState, unit) go" where
  "localPublicAccess_Remove name s =
     (if \<not> drv_exists (drv_volumes s) name then (Ok (), s)
      else
        tryM (modifyM (\<lambda>s. s\<lparr>drv_volumes := mdelete name (drv_volumes s)\<rparr>)) (\<lambda>_.
        tryM (getM drv_volumes) (\<lambda>vs.
        ignoreM (onFS (saveState (drv_stateFilePath s) vs)))) s)"

definition localPublicAccess_Mount :: "string \<Rightarrow> (driverState, string) go" where
  "localPublicAccess_Mount name s = (Ok (mountpointOf (drv_volumes s) name), s)"

definition localPublicAccess_Path :: "string \<Rightarrow> (driverState, string) go" where
  "localPublicAccess_Path name s = (Ok (mountpointOf (drv_volumes s) name), s)"

definition createLocalCapabilitiesResponse :: string where
  "createLocalCapabilitiesResponse = ''local''"

section \<open>The state file\<close>

lemma onFS_run: "onFS m s = (fst (m (dfs s)), s\<lparr>dfs := snd (m (dfs s))\<rparr>)"
  by (simp add: onFS_def onPart_def split: prod.splits)

lemma decode_saveData: "wfMap vs \<Longrightarrow> decodeState (Doc (saveData vs)) = Ok vs"
  using dMap_eMap [of vs dStr JStr id] by (simp add: decodeState_def saveData_def)

text \<open>The saved map is the map in memory.\<close>

definition saved :: "driverState \<Rightarrow> bool" where
  "saved s \<longleftrightarrow> node (dfs s) (drv_stateFilePath s) = Some (File (Doc (saveData (drv_volumes s))))"

definition stateWritable :: "driverState \<Rightarrow> bool" where
  "stateWritable s \<longleftrightarrow> writable (dfs s) (drv_stateFilePath s)"

lemma saveState_saved:
  assumes "stateWritable s"
  shows "\<exists>s'. onFS (saveState (drv_stateFilePath s) (drv_volumes s)) s = (Ok (), s') \<and>
    saved s' \<and> drv_volumes s' = drv_volumes s \<and> drv_stateFilePath s' = drv_stateFilePath s \<and>
    volumesDir s' = volumesDir s \<and> faulty (dfs s') = faulty (dfs s) \<and>
    (\<forall>q. q \<noteq> drv_stateFilePath s \<longrightarrow> node (dfs s') q = node (dfs s) q)"
  using osWriteFile_run [of "dfs s" "drv_stateFilePath s" "Doc (saveData (drv_volumes s))"] assms
  by (auto simp: stateWritable_def onFS_run saveState_def saved_def)

lemma restart_reads_saved:
  assumes "saved s" "wfMap (drv_volumes s)" "\<not> faulty (dfs s) OpOpen (drv_stateFilePath s)"
  shows "findExistingVolumesFromStateFile (drv_stateFilePath s) (dfs s) = (None, drv_volumes s)"
  using assms decode_saveData [OF assms(2)]
  by (simp add: findExistingVolumesFromStateFile_def saved_def osReadFile_file)

section \<open>The plugin interface\<close>

text \<open>
  What Docker may rely on: a driver's volumes change only by a successful creation of a new name or by a
  removal. A history of requests therefore determines the set of volumes.
\<close>

datatype volreq = CreateReq string | RemoveReq string

fun serve ::
  "(string \<Rightarrow> ('s, unit) go) \<Rightarrow> (string \<Rightarrow> ('s, unit) go) \<Rightarrow> volreq list \<Rightarrow> 's \<Rightarrow> (volreq \<times> bool) list \<times> 's" where
  "serve create remove [] s = ([], s)"
| "serve create remove (CreateReq n # rs) s =
     (let (r, s') = create n s; (tr, s'') = serve create remove rs s' in ((CreateReq n, is_ok r) # tr, s''))"
| "serve create remove (RemoveReq n # rs) s =
     (let (r, s') = remove n s; (tr, s'') = serve create remove rs s' in ((RemoveReq n, is_ok r) # tr, s''))"

fun specStep :: "string set \<Rightarrow> volreq \<times> bool \<Rightarrow> string set" where
  "specStep S (CreateReq n, ok) = (if ok then insert n S else S)"
| "specStep S (RemoveReq n, ok) = S - {n}"

locale volume_plugin =
  fixes create remove :: "string \<Rightarrow> ('s, unit) go"
    and inv :: "'s \<Rightarrow> bool" and names :: "'s \<Rightarrow> string set"
  assumes create_new: "inv s \<Longrightarrow> n \<notin> names s \<Longrightarrow>
      inv (snd (create n s)) \<and>
      names (snd (create n s)) = (if is_ok (fst (create n s)) then insert n (names s) else names s)"
    and create_old: "inv s \<Longrightarrow> n \<in> names s \<Longrightarrow> snd (create n s) = s \<and> \<not> is_ok (fst (create n s))"
    and remove_any: "inv s \<Longrightarrow> inv (snd (remove n s)) \<and> names (snd (remove n s)) = names s - {n}"
begin

lemma serve_refines:
  "inv s \<Longrightarrow> inv (snd (serve create remove rs s)) \<and>
     names (snd (serve create remove rs s)) = foldl specStep (names s) (fst (serve create remove rs s))"
proof (induction rs arbitrary: s)
  case Nil
  then show ?case by simp
next
  case (Cons req rs)
  show ?case
  proof (cases req)
    case (CreateReq n)
    obtain x s' where x: "create n s = (x, s')" by (cases "create n s")
    have "inv s'" and nm: "names s' = specStep (names s) (CreateReq n, is_ok x)"
      using create_new [OF Cons.prems, of n] create_old [OF Cons.prems, of n] x Cons.prems
      by (cases "n \<in> names s"; auto)+
    moreover obtain tr s'' where "serve create remove rs s' = (tr, s'')" by (cases "serve create remove rs s'")
    ultimately show ?thesis using Cons.IH [of s'] CreateReq x by simp
  next
    case (RemoveReq n)
    obtain x s' where x: "remove n s = (x, s')" by (cases "remove n s")
    have "inv s'" and nm: "names s' = specStep (names s) (RemoveReq n, is_ok x)"
      using remove_any [OF Cons.prems, of n] x by auto
    moreover obtain tr s'' where "serve create remove rs s' = (tr, s'')" by (cases "serve create remove rs s'")
    ultimately show ?thesis using Cons.IH [of s'] RemoveReq x by simp
  qed
qed

end

text \<open>The map is made, its keys are distinct, and no mount point is empty.\<close>

definition drvInv :: "driverState \<Rightarrow> bool" where
  "drvInv s \<longleftrightarrow> drv_volumes s \<noteq> None \<and> wfMap (drv_volumes s) \<and> list_all (\<lambda>(_, m). m \<noteq> []) (entries (drv_volumes s))"

definition drvNames :: "driverState \<Rightarrow> string set" where
  "drvNames s = {n. drv_exists (drv_volumes s) n}"

lemma showPath_nonempty [simp]: "showPath p \<noteq> []"
  by (simp add: showPath_def)

lemma mountpointOf_put: "mput vs n m = Ok vs' \<Longrightarrow> mountpointOf vs' k = (if k = n then m else mountpointOf vs k)"
  by (simp add: mountpointOf_def mget_mput)

lemma mountpointOf_delete: "mountpointOf (mdelete n vs) k = (if k = n then [] else mountpointOf vs k)"
  by (simp add: mountpointOf_def mget_mdelete)

lemma drvInv_put:
  assumes "drvInv s" "m \<noteq> []" "mput (drv_volumes s) n m = Ok vs"
  shows "drvInv (s\<lparr>drv_volumes := vs, dfs := fs\<rparr>)"
proof -
  from assms obtain kvs where kvs: "drv_volumes s = Some kvs" "vs = Some (AList.update n m kvs)"
    by (auto simp: drvInv_def mput_def)
  show ?thesis
    using assms kvs set_update_subset [of n m kvs]
    by (auto simp: drvInv_def wfMap_def distinct_update list_all_iff)
qed

lemma drvInv_delete:
  assumes "drvInv s"
  shows "drvInv (s\<lparr>drv_volumes := mdelete n (drv_volumes s), dfs := fs\<rparr>)"
proof -
  from assms obtain kvs where kvs: "drv_volumes s = Some kvs" by (auto simp: drvInv_def)
  have "set (AList.delete n kvs) \<subseteq> set kvs" by (auto simp: AList.delete_eq)
  then show ?thesis
    using assms kvs by (auto simp: drvInv_def wfMap_def distinct_delete list_all_iff mdelete_def)
qed

lemma drvInv_dfs [simp]: "drvInv (s\<lparr>dfs := fs\<rparr>) = drvInv s" "drvNames (s\<lparr>dfs := fs\<rparr>) = drvNames s"
  by (simp_all add: drvInv_def drvNames_def)

lemma no_panic_os [simp]:
  "fst (osMkdirAll p fs) \<noteq> Panic m" "fst (osChown p fs) \<noteq> Panic m" "fst (osRemoveAll p fs) \<noteq> Panic m"
  "fst (osWriteFile p c fs) \<noteq> Panic m"
proof -
  have "fst (eachM osMkdir ps fs) \<noteq> Panic m" for ps fs
    by (induction ps arbitrary: fs) (auto simp: tryM_def osMkdir_def split: prod.splits res.splits)
  then show "fst (osMkdirAll p fs) \<noteq> Panic m" by (simp add: osMkdirAll_def)
qed (auto simp: osChown_def osRemoveAll_def osWriteFile_def tryM_def osOpenCreate_def osTruncate_def osWrite_def
    split: option.splits node.splits prod.splits)

lemma ignore_onFS:
  assumes "\<And>fs m'. fst (m fs) \<noteq> Panic m'"
  shows "ignoreM (onFS m) s = (Ok (), s\<lparr>dfs := snd (m (dfs s))\<rparr>)"
  using assms [of "dfs s"] by (intro ignoreM_run [OF onFS_run]) auto

lemma putVolume_run:
  assumes "drvInv s"
  obtains vs where "mput (drv_volumes s) n m = Ok vs" "putVolume n m s = (Ok (), s\<lparr>drv_volumes := vs\<rparr>)"
  using assms by (auto simp: drvInv_def putVolume_def mput_def)

lemma localPublic_Create_cases:
  assumes i: "drvInv s" and new: "\<not> drv_exists (drv_volumes s) n"
  obtains (failed) e fs where "localPublic_Create n s = (Err e, s\<lparr>dfs := fs\<rparr>)"
  | (created) vs fs1 fs2 where
      "localPublic_Create n s = (Ok (), s\<lparr>drv_volumes := vs, dfs := fs2\<rparr>)"
      "mput (drv_volumes s) n (showPath (joinPath (volumesDir s) n)) = Ok vs"
      "osMkdirAll (joinPath (volumesDir s) n) (dfs s) = (Ok (), fs1)"
      "fs2 = snd (saveState (drv_stateFilePath s) vs fs1)"
proof -
  let ?m = "joinPath (volumesDir s) n"
  obtain r1 fs1 where one: "osMkdirAll ?m (dfs s) = (r1, fs1)" by (cases "osMkdirAll ?m (dfs s)")
  show ?thesis
  proof (cases r1)
    case (Ok u)
    obtain r2 where two: "osChown ?m fs1 = (r2, fs1)" using osChown_state [of ?m fs1] by (cases "osChown ?m fs1") auto
    show ?thesis
    proof (cases r2)
      case ok2: (Ok u2)
      have i': "drvInv (s\<lparr>dfs := fs1\<rparr>)" using i by simp
      from putVolume_run [OF i', of n "showPath ?m"] obtain vs where
        vs: "mput (drv_volumes s) n (showPath ?m) = Ok vs"
        "putVolume n (showPath ?m) (s\<lparr>dfs := fs1\<rparr>) = (Ok (), s\<lparr>dfs := fs1, drv_volumes := vs\<rparr>)" by auto
      have "localPublic_Create n s =
          (Ok (), s\<lparr>drv_volumes := vs, dfs := snd (saveState (drv_stateFilePath s) vs fs1)\<rparr>)"
        using new one two Ok ok2 vs(2)
        by (simp add: localPublic_Create_def Let_def tryM_def onFS_run ignore_onFS saveState_def)
      with vs one Ok created show ?thesis by simp
    next
      case (Err e)
      then show ?thesis
        using new one two Ok by (intro failed [of e fs1]) (simp add: localPublic_Create_def Let_def tryM_def onFS_run)
    next
      case (Panic p)
      then show ?thesis using two no_panic_os(2) [of ?m fs1 p] by simp
    qed
  next
    case (Err e)
    then show ?thesis
      using new one by (intro failed [of e fs1]) (simp add: localPublic_Create_def Let_def tryM_def onFS_run)
  next
    case (Panic p)
    then show ?thesis using one no_panic_os(1) [of ?m "dfs s" p] by simp
  qed
qed

lemma localPublic_Remove_run:
  assumes "drv_exists (drv_volumes s) n"
  shows "localPublic_Remove n s =
    onFS (saveState (drv_stateFilePath s) (mdelete n (drv_volumes s)))
      (s\<lparr>dfs := snd (osRemoveAll (toPath (mountpointOf (drv_volumes s) n)) (dfs s)),
         drv_volumes := mdelete n (drv_volumes s)\<rparr>)"
  using assms by (simp add: localPublic_Remove_def tryM_def ignore_onFS)

interpretation localPublic: volume_plugin localPublic_Create localPublic_Remove drvInv drvNames
proof unfold_locales
  fix s n
  assume i: "drvInv s" and new: "n \<notin> drvNames s"
  then have ne: "\<not> drv_exists (drv_volumes s) n" by (simp add: drvNames_def)
  show "drvInv (snd (localPublic_Create n s)) \<and> drvNames (snd (localPublic_Create n s)) =
      (if is_ok (fst (localPublic_Create n s)) then insert n (drvNames s) else drvNames s)"
  proof (cases rule: localPublic_Create_cases [OF i ne])
    case (1 e fs)
    then show ?thesis using i by simp
  next
    case (2 vs fs1 fs2)
    then show ?thesis
      using drvInv_put [OF i _ 2(2)] mountpointOf_put [OF 2(2)] by (auto simp: drvNames_def drv_exists_def)
  qed
next
  fix s n
  assume "drvInv s" "n \<in> drvNames s"
  then show "snd (localPublic_Create n s) = s \<and> \<not> is_ok (fst (localPublic_Create n s))"
    by (simp add: drvNames_def localPublic_Create_def Let_def)
next
  fix s n
  assume i: "drvInv s"
  show "drvInv (snd (localPublic_Remove n s)) \<and> drvNames (snd (localPublic_Remove n s)) = drvNames s - {n}"
  proof (cases "drv_exists (drv_volumes s) n")
    case True
    then show ?thesis
      using drvInv_delete [OF i, where n = n] mountpointOf_delete [of n "drv_volumes s"]
      by (auto simp: localPublic_Remove_run onFS_run drvNames_def drv_exists_def drvInv_def split: if_splits)
  next
    case False
    then show ?thesis using i by (auto simp: localPublic_Remove_def drvNames_def)
  qed
qed

lemma localPublicAccess_Create_run:
  assumes "drvInv s" "\<not> drv_exists (drv_volumes s) n"
  obtains vs where "mput (drv_volumes s) n (showPath (volumesDir s)) = Ok vs"
    "localPublicAccess_Create n s =
       (Ok (), s\<lparr>drv_volumes := vs, dfs := snd (saveState (drv_stateFilePath s) vs (dfs s))\<rparr>)"
proof -
  from putVolume_run [OF assms(1), of n "showPath (volumesDir s)"] obtain vs where
    vs: "mput (drv_volumes s) n (showPath (volumesDir s)) = Ok vs"
    "putVolume n (showPath (volumesDir s)) s = (Ok (), s\<lparr>drv_volumes := vs\<rparr>)" by auto
  then show ?thesis
    using that assms(2) by (simp add: localPublicAccess_Create_def tryM_def ignore_onFS saveState_def)
qed

lemma localPublicAccess_Remove_run:
  assumes "drv_exists (drv_volumes s) n"
  shows "localPublicAccess_Remove n s =
    (Ok (), s\<lparr>drv_volumes := mdelete n (drv_volumes s),
              dfs := snd (saveState (drv_stateFilePath s) (mdelete n (drv_volumes s)) (dfs s))\<rparr>)"
  using assms by (simp add: localPublicAccess_Remove_def tryM_def ignore_onFS saveState_def)

interpretation localPublicAccess: volume_plugin localPublicAccess_Create localPublicAccess_Remove drvInv drvNames
proof unfold_locales
  fix s n
  assume i: "drvInv s" and new: "n \<notin> drvNames s"
  then have ne: "\<not> drv_exists (drv_volumes s) n" by (simp add: drvNames_def)
  from localPublicAccess_Create_run [OF i ne] obtain vs where
    vs: "mput (drv_volumes s) n (showPath (volumesDir s)) = Ok vs"
    "localPublicAccess_Create n s =
       (Ok (), s\<lparr>drv_volumes := vs, dfs := snd (saveState (drv_stateFilePath s) vs (dfs s))\<rparr>)" by blast
  show "drvInv (snd (localPublicAccess_Create n s)) \<and> drvNames (snd (localPublicAccess_Create n s)) =
      (if is_ok (fst (localPublicAccess_Create n s)) then insert n (drvNames s) else drvNames s)"
    using drvInv_put [OF i _ vs(1)] mountpointOf_put [OF vs(1)] vs(2)
    by (auto simp: drvNames_def drv_exists_def)
next
  fix s n
  assume "drvInv s" "n \<in> drvNames s"
  then show "snd (localPublicAccess_Create n s) = s \<and> \<not> is_ok (fst (localPublicAccess_Create n s))"
    by (simp add: drvNames_def localPublicAccess_Create_def)
next
  fix s n
  assume i: "drvInv s"
  show "drvInv (snd (localPublicAccess_Remove n s)) \<and> drvNames (snd (localPublicAccess_Remove n s)) = drvNames s - {n}"
  proof (cases "drv_exists (drv_volumes s) n")
    case True
    then show ?thesis
      using drvInv_delete [OF i, where n = n] mountpointOf_delete [of n "drv_volumes s"]
      by (auto simp: localPublicAccess_Remove_run drvNames_def drv_exists_def split: if_splits)
  next
    case False
    then show ?thesis using i by (auto simp: localPublicAccess_Remove_def drvNames_def)
  qed
qed

section \<open>Properties\<close>

text \<open>
  C33. Both volume drivers implement the same specification: after any history of creations and removals
  the volumes a driver knows are exactly those whose last request that took effect was a successful
  creation, and the driver's map stays well formed (made, distinct names, no empty mount point).
\<close>

theorem volume_history:
  assumes "drvInv s"
  shows "drvInv (snd (serve localPublic_Create localPublic_Remove rs s))
    \<and> drvNames (snd (serve localPublic_Create localPublic_Remove rs s))
        = foldl specStep (drvNames s) (fst (serve localPublic_Create localPublic_Remove rs s))
    \<and> drvInv (snd (serve localPublicAccess_Create localPublicAccess_Remove rs s))
    \<and> drvNames (snd (serve localPublicAccess_Create localPublicAccess_Remove rs s))
        = foldl specStep (drvNames s) (fst (serve localPublicAccess_Create localPublicAccess_Remove rs s))"
  using localPublic.serve_refines [OF assms] localPublicAccess.serve_refines [OF assms] by blast

definition sampleDriver :: driverState where
  "sampleDriver =
     newLocalPublicDriver [''state''] [''volumes''] \<lparr>nodes = [([''state''], Dir)], faulty = (\<lambda>_ _. False)\<rparr>"

lemma sampleDriver_inv: "drvInv sampleDriver"
proof -
  have "drv_volumes sampleDriver = Some []" by code_simp
  then show ?thesis by (simp add: drvInv_def wfMap_def)
qed

theorem volume_history_witness:
  "drvNames (snd (serve localPublic_Create localPublic_Remove
     [CreateReq ''a'', CreateReq ''b'', RemoveReq ''a'', CreateReq ''b''] sampleDriver)) = {''b''}"
proof -
  let ?rs = "[CreateReq ''a'', CreateReq ''b'', RemoveReq ''a'', CreateReq ''b'']"
  have tr: "fst (serve localPublic_Create localPublic_Remove ?rs sampleDriver) =
      [(CreateReq ''a'', True), (CreateReq ''b'', True), (RemoveReq ''a'', True), (CreateReq ''b'', False)]"
    by code_simp
  have "drv_volumes sampleDriver = Some []" by code_simp
  then have "drvNames sampleDriver = {}" by (simp add: drvNames_def drv_exists_def mountpointOf_def)
  then show ?thesis using volume_history [OF sampleDriver_inv, of ?rs] tr by auto
qed

lemma localPublic_Create_saved:
  assumes i: "drvInv s" and w: "stateWritable s"
    and apart: "\<not> prefix (drv_stateFilePath s) (joinPath (volumesDir s) n)"
    and run: "localPublic_Create n s = (Ok (), s')"
  shows "saved s' \<and> drvInv s' \<and> drv_stateFilePath s' = drv_stateFilePath s \<and> faulty (dfs s') = faulty (dfs s)"
proof -
  let ?m = "joinPath (volumesDir s) n"
  have ne: "\<not> drv_exists (drv_volumes s) n"
    using run by (auto simp: localPublic_Create_def Let_def split: if_splits)
  show ?thesis
  proof (cases rule: localPublic_Create_cases [OF i ne])
    case (1 e fs)
    then show ?thesis using run by simp
  next
    case (2 vs fs1 fs2)
    have ext: "extends (dfs s) fs1" using keeps_run [OF keeps_osMkdirAll(1) 2(3)] .
    have only: "onlyIn {q. q \<noteq> [] \<and> prefix q ?m} (dfs s) fs1" using keeps_run [OF keeps_osMkdirAll(2) 2(3)] .
    let ?s1 = "s\<lparr>drv_volumes := vs, dfs := fs1\<rparr>"
    have "stateWritable ?s1"
      using w ext only apart by (auto simp: stateWritable_def writable_def extends_def onlyIn_def)
    from saveState_saved [OF this] obtain s2 where
      s2: "onFS (saveState (drv_stateFilePath s) vs) ?s1 = (Ok (), s2)" "saved s2"
        "drv_stateFilePath s2 = drv_stateFilePath s" "faulty (dfs s2) = faulty fs1" by auto
    have "s' = s2" using run 2(1,4) s2(1) by (simp add: onFS_run)
    then show ?thesis
      using s2 ext drvInv_put [OF i _ 2(2)] run 2(1) by (auto simp: extends_def)
  qed
qed

lemma localPublic_Remove_saved:
  assumes i: "drvInv s" and w: "stateWritable s" and ex: "drv_exists (drv_volumes s) n"
    and apart: "\<not> prefix (toPath (mountpointOf (drv_volumes s) n)) (drv_stateFilePath s)"
      "toPath (mountpointOf (drv_volumes s) n) \<noteq> []"
  shows "\<exists>s'. localPublic_Remove n s = (Ok (), s') \<and> saved s' \<and> drvInv s' \<and>
    drv_stateFilePath s' = drv_stateFilePath s \<and> faulty (dfs s') = faulty (dfs s)"
proof -
  let ?m = "toPath (mountpointOf (drv_volumes s) n)"
  let ?fs1 = "snd (osRemoveAll ?m (dfs s))"
  let ?s1 = "s\<lparr>dfs := ?fs1, drv_volumes := mdelete n (drv_volumes s)\<rparr>"
  have only: "onlyIn {q. prefix ?m q} (dfs s) ?fs1" using keepsD [OF keeps_osRemoveAll [OF apart(2)]] .
  have "\<not> prefix ?m (butlast (drv_stateFilePath s))"
    using apart(1) by (metis prefix_order.trans prefixeq_butlast)
  then have "stateWritable ?s1"
    using w only apart(1) by (auto simp: stateWritable_def writable_def onlyIn_def)
  from saveState_saved [OF this] obtain s2 where
    s2: "onFS (saveState (drv_stateFilePath s) (mdelete n (drv_volumes s))) ?s1 = (Ok (), s2)" "saved s2"
      "drv_volumes s2 = mdelete n (drv_volumes s)"
      "drv_stateFilePath s2 = drv_stateFilePath s" "faulty (dfs s2) = faulty ?fs1" by auto
  moreover have "drvInv s2"
    using drvInv_delete [OF i, where n = n and fs = "dfs s2"] s2(3) by (simp add: drvInv_def)
  ultimately show ?thesis using only by (auto simp: localPublic_Remove_run [OF ex] onlyIn_def)
qed

text \<open>
  Volumes survive a restart: after a successful creation or removal by the driver
  \<^verbatim>\<open>local-public\<close>, whose state file can be written and does not lie in the volume, a driver started anew
  reads back exactly the map of the running one.
\<close>

theorem volumes_survive_restart:
  assumes "drvInv s" and "stateWritable s"
    and "\<not> prefix (drv_stateFilePath s) (joinPath (volumesDir s) n)"
    and "drv_exists (drv_volumes s) n \<Longrightarrow>
           toPath (mountpointOf (drv_volumes s) n) \<noteq> [] \<and>
           \<not> prefix (toPath (mountpointOf (drv_volumes s) n)) (drv_stateFilePath s)"
    and "req = localPublic_Create n \<or> req = localPublic_Remove n \<and> drv_exists (drv_volumes s) n"
    and "req s = (Ok (), s')"
  shows "findExistingVolumesFromStateFile (drv_stateFilePath s) (dfs s') = (None, drv_volumes s')"
proof -
  have "saved s' \<and> drvInv s' \<and> drv_stateFilePath s' = drv_stateFilePath s \<and> faulty (dfs s') = faulty (dfs s)"
    using assms localPublic_Create_saved [OF assms(1,2,3)] localPublic_Remove_saved [OF assms(1,2)] by fastforce
  moreover have "\<not> faulty (dfs s) OpOpen (drv_stateFilePath s)"
    using assms(2) by (simp add: stateWritable_def writable_def)
  ultimately show ?thesis using restart_reads_saved [of s'] by (simp add: drvInv_def)
qed

theorem volumes_survive_restart_witness:
  "findExistingVolumesFromStateFile [''state'', ''local-public.json'']
     (dfs (snd (localPublic_Create ''data'' sampleDriver))) = (None, Some [(''data'', ''/volumes/data'')])"
proof -
  have p: "drv_stateFilePath sampleDriver = [''state'', ''local-public.json'']" by code_simp
  have d: "joinPath (volumesDir sampleDriver) ''data'' = [''volumes'', ''data'']" by code_simp
  have dirs: "node (dfs sampleDriver) [''state''] = Some Dir" "node (dfs sampleDriver) [''state'', ''local-public.json''] = None"
    by code_simp+
  have fa: "faulty (dfs sampleDriver) = (\<lambda>_ _. False)"
    by (simp add: sampleDriver_def newLocalPublicDriver_def driverStart_def Let_def ignoreM_def attemptM_def
        tryM_def osMkdir_def osChown_def node_def setNode_def)
  have w: "stateWritable sampleDriver"
    using dirs fa by (simp add: stateWritable_def writable_def p)
  have ne: "\<not> drv_exists (drv_volumes sampleDriver) ''data''" by code_simp
  obtain s' where run: "localPublic_Create ''data'' sampleDriver = (Ok (), s')"
  proof -
    have "is_ok (fst (localPublic_Create ''data'' sampleDriver))" by code_simp
    then show ?thesis using that
      by (cases "localPublic_Create ''data'' sampleDriver"; cases "fst (localPublic_Create ''data'' sampleDriver)") auto
  qed
  have v: "drv_volumes (snd (localPublic_Create ''data'' sampleDriver)) = Some [(''data'', ''/volumes/data'')]"
    by code_simp
  have ap: "\<not> prefix (drv_stateFilePath sampleDriver) (joinPath (volumesDir sampleDriver) ''data'')"
    by (simp add: p d)
  show ?thesis
    using volumes_survive_restart [OF sampleDriver_inv w ap, of "localPublic_Create ''data''" s'] run ne v p by simp
qed

end
