(* ===== verification/Startup.thy ===== *)
theory Startup
  imports FileServer MigratingRegistry Migrate Network VolumeDriver
begin

text \<open>
  The start of the daemon: \<^verbatim>\<open>internal/aom/cmd/aom.go\<close>, with the constructors it calls and the part of
  \<^verbatim>\<open>internal/aom/docker/driver-helpers.go\<close> that serves the volume plugins.

  The state is the daemon with the scheduler, whose Docker part carries the memory of the bridge connector, and
  the list of the plugins that were handed to the plugin library. The paths the process reads from its
  environment are the record \<open>startConfig\<close>; everything outside the repository is a field of \<open>platform\<close>.
\<close>

section \<open>The environment of the process\<close>

record startConfig =
  cfg_CacheDropIn :: path
  cfg_PersistenceDropIn :: path
  cfg_AssetsInstall :: path
  cfg_AssetsTmp :: path
  cfg_StateDirectory :: path
  cfg_PublicVolumes :: path
  cfg_DevCredentialsRoot :: path
  cfg_RelCredentialsRoot :: path
  cfg_SitesAvailable :: path
  cfg_SitesEnabled :: path
  cfg_RoutesMapAvailable :: path
  cfg_RoutesMapEnabled :: path
  cfg_IamPermissions :: path
  cfg_AssetsLocalUrl :: string
  cfg_AssetsRemoteUrl :: string
  cfg_IamUrl :: string
  cfg_IamServiceUcAom :: string
  cfg_IamServiceUcAuth :: string
  cfg_IamEndpoint :: string
  cfg_PortainerHost :: string
  cfg_PortainerEnvFile :: path
  cfg_Architecture :: string
  cfg_OS :: string
  cfg_AdminUid :: string
  cfg_AdminGid :: string
  cfg_NoAuthOpt :: bool

text \<open>
  The values the packages take from the environment when the process starts, with the defaults of the
  production build; \<open>lookupEnv\<close> is \<^verbatim>\<open>os.LookupEnv\<close>.
\<close>

definition GetEnv :: "(string \<Rightarrow> string option) \<Rightarrow> string \<Rightarrow> string \<Rightarrow> string" where
  "GetEnv lookupEnv key fallback = (case lookupEnv key of Some value \<Rightarrow> value | None \<Rightarrow> fallback)"

definition GetEnvBool :: "(string \<Rightarrow> string option) \<Rightarrow> string \<Rightarrow> bool \<Rightarrow> bool" where
  "GetEnvBool lookupEnv key fallback = (case lookupEnv key of Some value \<Rightarrow> value = ''true'' | None \<Rightarrow> fallback)"

definition startConfigFrom :: "(string \<Rightarrow> string option) \<Rightarrow> string \<Rightarrow> string \<Rightarrow> startConfig" where
  "startConfigFrom lookupEnv architecture os =
     (let env = GetEnv lookupEnv;
          pathOf = (\<lambda>key fallback. toPath (env key fallback));
          stateDirectory = env ''STATE_DIRECTORY'' ''/var/lib/uc-aom'';
          cacheDirectory = env ''CACHE_DIRECTORY'' ''/var/cache/uc-aom/''
      in \<lparr>cfg_CacheDropIn = pathOf ''CACHE_DROP_IN_PATH'' (showPath (joinPath (toPath cacheDirectory) DROP_IN_FOLDER_NAME)),
          cfg_PersistenceDropIn =
            pathOf ''PERSISTENCE_DROP_IN_PATH'' (showPath (joinPath (toPath stateDirectory) DROP_IN_FOLDER_NAME)),
          cfg_AssetsInstall = pathOf ''ASSETS_INSTALL_PATH'' ''/var/lib/uc-aom'',
          cfg_AssetsTmp = pathOf ''ASSETS_TMP_PATH'' ''/var/run/uc-aom'',
          cfg_StateDirectory = toPath stateDirectory,
          cfg_PublicVolumes =
            pathOf ''PUBLIC_VOLUMES_PATH'' (showPath (joinPath (toPath stateDirectory) ''volumes-public'')),
          cfg_DevCredentialsRoot = pathOf ''DEV_CREDENTIALS_ROOT'' ''/var/lib/uc-aom'',
          cfg_RelCredentialsRoot = pathOf ''REL_CREDENTIALS_ROOT'' ''/usr/share/uc-aom'',
          cfg_SitesAvailable = pathOf ''SITES_AVAILABLE_PATH'' ''/var/lib/nginx/user-sites-available'',
          cfg_SitesEnabled = pathOf ''SITES_ENABLED_PATH'' ''/var/lib/nginx/user-sites-enabled'',
          cfg_RoutesMapAvailable = pathOf ''ROUTES_MAP_AVAILABLE_PATH'' ''/var/lib/nginx/user-routes-available'',
          cfg_RoutesMapEnabled = pathOf ''ROUTES_MAP_ENABLED_PATH'' ''/var/lib/nginx/user-routes-enabled'',
          cfg_IamPermissions = pathOf ''IAM_PERMISSION_PATH'' ''/var/lib/uc-iam/permissions'',
          cfg_AssetsLocalUrl = env ''URL_ASSETS_ROOT'' ''/add-ons/assets'',
          cfg_AssetsRemoteUrl = env ''URL_ASSETS_REMOTE_ROOT'' ''/add-ons/assets-remote'',
          cfg_IamUrl = env ''IAM_AUTH_URL'' ''http://127.0.0.1:49155'',
          cfg_IamServiceUcAom = env ''IAM_AUTH_SERVICE_UCAOM'' ''uc-aom'',
          cfg_IamServiceUcAuth = env ''IAM_AUTH_SERVICE_UCAUTH'' ''uc-auth'',
          cfg_IamEndpoint = env ''IAM_AUTH_ENDPOINT'' ''/v1/data/service/authz'',
          cfg_PortainerHost = env ''PORTAINER_CE_URI'' ''portainer-service:9000'',
          cfg_PortainerEnvFile = pathOf ''PORTAINER_CE_ENV_FILEPATH'' ''/var/lib/portainer-ce/portainer.env'',
          cfg_Architecture = architecture, cfg_OS = os,
          cfg_AdminUid = env ''ADMIN_UID'' ''1000'', cfg_AdminGid = env ''ADMIN_GID'' ''1000'',
          cfg_NoAuthOpt = GetEnvBool lookupEnv ''IAM_AUTH_NO_AUTH_OPT'' True\<rparr>)"

text \<open>The client options that turn what \<^verbatim>\<open>remote.NewRegistry\<close> returns into a registry that can be asked.\<close>

record clientOptions =
  co_Username :: string
  co_Password :: string
  PlainHTTP :: bool

text \<open>The command line interface of Docker: its API client, and what the compose service makes of it.\<close>

record 'd dockerCli =
  dc_client :: "'d DockerClient"
  dc_network :: "'d NetworkClient"
  dc_compose :: "'d ComposeService"
  dc_lib :: composeLib

record ('s, 'm, 'd, 'q, 'v) platform =
  pf_NewRegistry :: "string \<Rightarrow> (clientOptions \<Rightarrow> 's remoteRegistry) res"
  pf_packages :: "('s, 'm) orasAddonMigrateRepository"
  pf_NewDockerCli :: "'d dockerCli res"
  pf_InitializeCli :: "unit res"
  pf_LookupRoot :: "User res"
  pf_NewValidator :: "(json \<Rightarrow> string option) res"
  pf_reload :: "FS \<Rightarrow> reloadOutcome"
  pf_sshCheck :: exitOutcome
  pf_statfs :: "statfs res"
  pf_hostPlatform :: "string res"
  pf_httpDo :: httpDo
  pf_untar :: "content \<Rightarrow> (string \<times> content) list res"
  pf_overflow :: "nat \<Rightarrow> 64 word"
  pf_sha1 :: "content \<Rightarrow> string res"
  pf_tempName :: "FS \<Rightarrow> path"
  pf_openapi :: openapi
  pf_newTransport :: "string \<Rightarrow> string \<Rightarrow> string list \<Rightarrow> ('d bridgeState session, 'q) submit"
  pf_session :: "('d bridgeState, 'q) sessionLib"
  pf_render :: "json \<Rightarrow> string"
  pf_cacheDirectory :: path
  pf_volumeTempName :: "string \<Rightarrow> FS \<Rightarrow> path"
  pf_DirCopy :: "path \<Rightarrow> path \<Rightarrow> (FS, unit) go"
  pf_dialSwupdate :: "((('s, 'm) facade, 'd bridgeState) world, unit) go"
  pf_versions :: "'v version_api"

section \<open>Constructors\<close>

text \<open>\<^verbatim>\<open>registry.InitializeRegistry\<close>: without user name and password the connection is not encrypted.\<close>

definition InitializeDeviceRegistry :: "(string \<Rightarrow> (clientOptions \<Rightarrow> 'r remoteRegistry) res) \<Rightarrow> Credentials \<Rightarrow> 'r remoteRegistry res" where
  "InitializeDeviceRegistry newRegistry credentials =
     bind_res (newRegistry (cred_ServerAddress credentials)) (\<lambda>reg.
     Ok (reg \<lparr>co_Username = cred_Username credentials, co_Password = cred_Password credentials,
              PlainHTTP = IsInsecureServer credentials\<rparr>))"

definition NewDockerCli :: "('s, 'm, 'd, 'q, 'v) platform \<Rightarrow> 'd dockerCli res" where
  "NewDockerCli p =
     bind_res (pf_NewDockerCli p) (\<lambda>dockerCli.
     bind_res (pf_InitializeCli p) (\<lambda>_.
     Ok dockerCli))"

definition NewIamServiceClient :: "string \<Rightarrow> string \<Rightarrow> string \<Rightarrow> IamServiceClient" where
  "NewIamServiceClient url name endpoint = \<lparr>client_Url = url, client_Name = name, client_Endpoint = endpoint\<rparr>"

definition NewStackMigrator ::
  "startConfig \<Rightarrow> ('s, 'm, 'd, 'q, 'v) platform \<Rightarrow> 'd bridgeState StackServiceAPI \<Rightarrow>
   (('s, 'm) facade, 'd bridgeState) stackMigrator" where
  "NewStackMigrator cfg p stackService =
     \<lparr>sm_stackService = stackService, connectToPortainer = ConnectToPortainer (pf_openapi p) (pf_session p) (pf_newTransport p)
        (pf_render p) (cfg_PortainerHost cfg) (cfg_PortainerEnvFile cfg),
      sm_cacheDirectory = pf_cacheDirectory p, sm_tempName = pf_volumeTempName p, DirCopy = pf_DirCopy p\<rparr>"

definition NewService ::
  "startConfig \<Rightarrow> ('s, 'm, 'd, 'q, 'v) platform \<Rightarrow> (('s, 'm) facade, 'd bridgeState) world StackServiceAPI \<Rightarrow> ReverseProxy \<Rightarrow>
   IamPermissionWriter \<Rightarrow> (('s, 'm) facade, 'd bridgeState) world LocalAddOnCatalogue \<Rightarrow> (json \<Rightarrow> string option) \<Rightarrow> System \<Rightarrow>
   (('s, 'm) facade, 'd bridgeState) AomService" where
  "NewService cfg p stackService reverseProxy iamPermissionWriter localCatalogue validator sys =
     \<lparr>svc_stackService = stackService, svc_reverseProxy = reverseProxy, svc_iamPermissionWriter = iamPermissionWriter,
      svc_localCatalogue = localCatalogue, svc_schema = validator,
      svc_GetAddOnEnvironment = GetAddOnEnvironment stackService, svc_system = sys,
      svc_hostPlatform = pf_hostPlatform p, svc_noAuthOpt = cfg_NoAuthOpt cfg\<rparr>"

definition NewServer ::
  "startConfig \<Rightarrow> ('s, 'm, 'd, 'q, 'v) platform \<Rightarrow> (('s, 'm) facade, 'd bridgeState) AomService \<Rightarrow>
   (('s, 'm) facade, 'd bridgeState) world LocalAddOnCatalogue \<Rightarrow>
   (('s, 'm) facade, 'd bridgeState) world RemoteAddOnCatalogue \<Rightarrow> IamServiceClient \<Rightarrow> IamServiceClient \<Rightarrow>
   (('s, 'm) facade, 'd bridgeState) world StackServiceAPI \<Rightarrow> (('s, 'm) facade, 'd bridgeState, 'v) AddOnServer" where
  "NewServer cfg p service localCatalogue remoteCatalogue iamUcAom iamUcAuth stackService =
     \<lparr>srv_service = service, addonsAssetsLocalPath = cfg_AssetsLocalUrl cfg, addonsAssetsRemotePath = cfg_AssetsRemoteUrl cfg,
      srv_localCatalogue = localCatalogue, srv_remoteCatalogue = remoteCatalogue,
      iamServiceUcAomClient = IsAllowed (pf_httpDo p) iamUcAom, iamServiceUcAuthClient = IsAllowed (pf_httpDo p) iamUcAuth,
      srv_GetAddOnStatus = GetAddOnStatus stackService, srv_GetAddOnEnvironment = GetAddOnEnvironment stackService,
      srv_versions = pf_versions p\<rparr>"

section \<open>The bridge connector on the state of the device\<close>

text \<open>
  The connector and the stack service use the same Docker client. Its memory, the identifier of the network it
  has created, is a field of the connector in the code; here it stands beside the state of Docker.
\<close>

definition bridgeStack :: "'d StackServiceAPI \<Rightarrow> 'd bridgeState StackServiceAPI" where
  "bridgeStack a =
     \<lparr>CreateStackWithDockerCompose = (\<lambda>n y. onBridgeDocker (CreateStackWithDockerCompose a n y)),
      CreateStackWithoutStartWithDockerCompose = (\<lambda>n y. onBridgeDocker (CreateStackWithoutStartWithDockerCompose a n y)),
      ListAllStackContainers = (\<lambda>n. onBridgeDocker (ListAllStackContainers a n)),
      DeleteAddOnStack = (\<lambda>n. onBridgeDocker (DeleteAddOnStack a n)),
      DeleteDockerImages = (\<lambda>rs. onBridgeDocker (DeleteDockerImages a rs)),
      ImportDockerImage = (\<lambda>i. onBridgeDocker (ImportDockerImage a i)),
      RemoveUnusedVolumes = (\<lambda>n vs. onBridgeDocker (RemoveUnusedVolumes a n vs)),
      InspectContainer = (\<lambda>i. onBridgeDocker (InspectContainer a i)),
      StartupStackNonBlocking = (\<lambda>n. onBridgeDocker (StartupStackNonBlocking a n)),
      StopStack = (\<lambda>n. onBridgeDocker (StopStack a n)),
      VolumeInspect = (\<lambda>n. onBridgeDocker (VolumeInspect a n))\<rparr>"

definition worldConnector :: "'d ExternalNetworkConnector \<Rightarrow> ('r, 'd) world ExternalNetworkConnector" where
  "worldConnector c =
     \<lparr>Initialize = onDocker (Initialize c), IsConnected = IsConnected c, Reconnect = (\<lambda>cs. onDocker (Reconnect c cs))\<rparr>"

section \<open>The volume plugins\<close>

record ('r, 'd) boot =
  boot_daemon :: "('r, 'd bridgeState) world Daemon"
  plugins :: "(string \<times> driverState) list"

definition onBoot :: "(('r, 'd bridgeState) world Daemon, 'a) go \<Rightarrow> (('r, 'd) boot, 'a) go" where
  "onBoot m = onPart boot_daemon (\<lambda>d s. s\<lparr>boot_daemon := d\<rparr>) m"

definition onBootDevice :: "(('r, 'd bridgeState) world, 'a) go \<Rightarrow> (('r, 'd) boot, 'a) go" where
  "onBootDevice m = onBoot (onDevice m)"

text \<open>\<^verbatim>\<open>strconv.Atoi\<close>: an optional sign and decimal digits, within 64 bits.\<close>

definition Atoi :: "string \<Rightarrow> int option" where
  "Atoi s =
     (let (neg, ds) = (case s of CHR ''-'' # t \<Rightarrow> (True, t) | CHR ''+'' # t \<Rightarrow> (False, t) | _ \<Rightarrow> (False, s));
          n = foldl (\<lambda>acc c. 10 * acc + (of_char c - 48)) 0 ds;
          v = (if neg then - n else n)
      in if ds \<noteq> [] \<and> list_all isDigit ds \<and> - (2 ^ 63) \<le> v \<and> v < 2 ^ 63 then Some v else None)"

text \<open>
  The library serves a plugin from a goroutine of its own; the error of that goroutine is only logged. The
  driver is recorded as it is when it starts to serve.
\<close>

definition serveDockerVolumesDriver :: "User res \<Rightarrow> driverState \<Rightarrow> string \<Rightarrow> (('r, 'd) boot, unit) go" where
  "serveDockerVolumesDriver lookupRoot driver driverName =
     tryM (liftR lookupRoot) (\<lambda>u.
       case Atoi (Gid u) of
         None \<Rightarrow> fail (ErrorString (''strconv.Atoi: parsing '' @ quoted (Gid u) @ '': invalid syntax''))
       | Some gid \<Rightarrow> modifyM (\<lambda>s. s\<lparr>plugins := plugins s @ [(driverName, driver)]\<rparr>))"

definition createDriver :: "(FS \<Rightarrow> driverState) \<Rightarrow> (('r, 'd) boot, driverState) go" where
  "createDriver newDriver = onBootDevice (onFiles (\<lambda>fs. let driver = newDriver fs in (Ok driver, dfs driver)))"

definition CreateAndServelocalPublicAccessVolumesDriver :: "startConfig \<Rightarrow> User res \<Rightarrow> (('r, 'd) boot, unit) go" where
  "CreateAndServelocalPublicAccessVolumesDriver cfg lookupRoot =
     tryM (createDriver (newLocalPublicAccessDriver (cfg_StateDirectory cfg) (cfg_PublicVolumes cfg))) (\<lambda>driver.
     serveDockerVolumesDriver lookupRoot driver LocalPublicVolumeAccessDriverName)"

definition CreateAndServeLocalPublicVolumesDriver :: "startConfig \<Rightarrow> User res \<Rightarrow> (('r, 'd) boot, unit) go" where
  "CreateAndServeLocalPublicVolumesDriver cfg lookupRoot =
     tryM (createDriver (newLocalPublicDriver (cfg_StateDirectory cfg) (cfg_PublicVolumes cfg))) (\<lambda>driver.
     serveDockerVolumesDriver lookupRoot driver LocalPublicVolumeDriverName)"

section \<open>cmd/aom.go\<close>

definition Setup :: "startConfig \<Rightarrow> (FS, unit) go" where
  "Setup cfg =
     tryM (osMkdirAll (cfg_CacheDropIn cfg)) (\<lambda>_.
     tryM (osMkdirAll (cfg_PersistenceDropIn cfg)) (\<lambda>_.
     tryM (osStat (cfg_AssetsInstall cfg)) (\<lambda>_.
     tryM (osStat (cfg_AssetsTmp cfg)) (\<lambda>_.
     ret ()))))"

definition installedCatalogue ::
  "startConfig \<Rightarrow> ('s, 'm, 'd, 'q, 'v) platform \<Rightarrow> (('s, 'm) facade, 'd bridgeState) world AddOnRegistry \<Rightarrow> (('s, 'm) facade, 'd bridgeState) localAddOnCatalogue" where
  "installedCatalogue cfg p addOnRegistry =
     \<lparr>lc_Root = cfg_AssetsInstall cfg, lc_registry = addOnRegistry, lc_sha1 = pf_sha1 p, lc_tempName = pf_tempName p\<rparr>"

text \<open>The file server of a drop-in folder; the code has the two folders in two functions with the same body.\<close>

definition fileServerOn ::
  "path \<Rightarrow> startConfig \<Rightarrow> ('s, 'm, 'd, 'q, 'v) platform \<Rightarrow> (('s, 'm) facade, 'd bridgeState) world StackServiceAPI \<Rightarrow> ReverseProxy \<Rightarrow>
   IamPermissionWriter \<Rightarrow> (json \<Rightarrow> string option) \<Rightarrow> System \<Rightarrow> (('s, 'm) facade, 'd bridgeState) world FileServer" where
  "fileServerOn dropIn cfg p stackService reverseProxy iamPermissionWriter validator sys =
     (let dropInAddOnRegistry = NewDropInAddOnRegistry (pf_untar p) (pf_overflow p) dropIn (cfg_Architecture cfg) (cfg_OS cfg);
          localCatalogue = NewLocalAddOnCatalogue (installedCatalogue cfg p dropInAddOnRegistry);
          serviceForDropIn = NewService cfg p stackService reverseProxy iamPermissionWriter localCatalogue validator sys
      in NewFileServerWithTransactionSchedular serviceForDropIn dropInAddOnRegistry localCatalogue)"

definition installAllDropInAddOnsInPersistenceFolder ::
  "startConfig \<Rightarrow> ('s, 'm, 'd, 'q, 'v) platform \<Rightarrow> (('s, 'm) facade, 'd bridgeState) world StackServiceAPI \<Rightarrow> ReverseProxy \<Rightarrow>
   IamPermissionWriter \<Rightarrow> (json \<Rightarrow> string option) \<Rightarrow> System \<Rightarrow> ((('s, 'm) facade, 'd bridgeState) world Daemon, unit) go" where
  "installAllDropInAddOnsInPersistenceFolder cfg p stackService reverseProxy iamPermissionWriter validator sys =
     ignoreM (InstallAllDropInAddOns (pf_versions p)
       (fileServerOn (cfg_PersistenceDropIn cfg) cfg p stackService reverseProxy iamPermissionWriter validator sys))"

definition createFileServer ::
  "startConfig \<Rightarrow> ('s, 'm, 'd, 'q, 'v) platform \<Rightarrow> (('s, 'm) facade, 'd bridgeState) world StackServiceAPI \<Rightarrow> ReverseProxy \<Rightarrow>
   IamPermissionWriter \<Rightarrow> (json \<Rightarrow> string option) \<Rightarrow> System \<Rightarrow> (('s, 'm) facade, 'd bridgeState) world FileServer" where
  "createFileServer cfg p stackService reverseProxy iamPermissionWriter validator sys =
     fileServerOn (cfg_CacheDropIn cfg) cfg p stackService reverseProxy iamPermissionWriter validator sys"

text \<open>Every start makes a connector that has not created its network yet.\<close>

definition startAllInstalledAddOns ::
  "('r, 'd bridgeState) world LocalAddOnCatalogue \<Rightarrow> ('r, 'd bridgeState) world StackServiceAPI \<Rightarrow> 'd NetworkClient \<Rightarrow>
   (('r, 'd bridgeState) world, unit) go" where
  "startAllInstalledAddOns localCatalogue stackService dockerCli =
     tryM (onDocker (modifyM (\<lambda>s. s\<lparr>newInitializedInternalBridgeId := []\<rparr>))) (\<lambda>_.
     StartInstalledAddOns localCatalogue stackService (worldConnector (NewInternalBridgeNetworkConnector dockerCli)))"

definition migrateInstalledAddOns ::
  "startConfig \<Rightarrow> ('s, 'm, 'd, 'q, 'v) platform \<Rightarrow> 'd bridgeState StackServiceAPI \<Rightarrow> ReverseProxy \<Rightarrow> ((('s, 'm) facade, 'd bridgeState) world, unit) go" where
  "migrateInstalledAddOns cfg p stackService reverseProxy =
     migrator_Migrate (NewInstallAddOnMigrator (cfg_AssetsInstall cfg) (cfg_StateDirectory cfg) stackService
       (NewStackMigrator cfg p stackService) (asCreater reverseProxy))"

text \<open>\<^verbatim>\<open>log.Fatalf\<close> ends the process, as a panic of the main goroutine does.\<close>

definition fatalOnError :: "string \<Rightarrow> ('s, 'a) go \<Rightarrow> ('s, 'a) go" where
  "fatalOnError msg m =
     tryM (attemptM m) (\<lambda>r. case r of Inl err \<Rightarrow> panicM (msg @ err_text err) | Inr x \<Rightarrow> ret x)"

text \<open>
  \<^verbatim>\<open>Run\<close> up to the call of \<^verbatim>\<open>Serve\<close>, which blocks: the result is the server that is registered then. No message of
  \<^verbatim>\<open>swupdate\<close> has arrived yet; the loop over the later ones is \<open>watchLoop\<close>.
\<close>

definition Run ::
  "startConfig \<Rightarrow> ('s, 'm, 'd, 'q, 'v) platform \<Rightarrow> ((('s, 'm) facade, 'd) boot, (('s, 'm) facade, 'd bridgeState, 'v) AddOnServer) go" where
  "Run cfg p =
     tryM (fatalOnError ''Error ''
       (onBootDevice (onFiles (GetRegistryCredentials (cfg_DevCredentialsRoot cfg) (cfg_RelCredentialsRoot cfg)))))
       (\<lambda>registryCredentials.
     tryM (fatalOnError ''Unable to initialize ORAS registry: '' (liftR (InitializeDeviceRegistry (pf_NewRegistry p) registryCredentials)))
       (\<lambda>orasRegistry.
     let addOnRegistry = NewCodeNameAdapterRegistry (NewORASAddOnRegistry (pf_overflow p)
           (orasRegistryOn (pf_packages p) orasRegistry (cfg_Architecture cfg) (cfg_OS cfg)));
         orasRemote = NewORASRemoteAddOnCatalogue (pf_versions p)
           \<lparr>rc_Root = cfg_AssetsTmp cfg, rc_registry = addOnRegistry, rc_sha1 = pf_sha1 p\<rparr>;
         localCatalogue = NewLocalAddOnCatalogue (installedCatalogue cfg p addOnRegistry);
         reverseProxy = NewReverseProxy (pf_reload p) (cfg_SitesAvailable cfg) (cfg_SitesEnabled cfg)
           (cfg_RoutesMapAvailable cfg) (cfg_RoutesMapEnabled cfg);
         iamUcAom = NewIamServiceClient (cfg_IamUrl cfg) (cfg_IamServiceUcAom cfg) (cfg_IamEndpoint cfg);
         iamUcAuth = NewIamServiceClient (cfg_IamUrl cfg) (cfg_IamServiceUcAuth cfg) (cfg_IamEndpoint cfg)
     in
     tryM (liftR (NewDockerCli p)) (\<lambda>dockerCli.
     let stackService = bridgeStack (stackAPI (NewStackService (dc_client dockerCli) (dc_compose dockerCli) (dc_lib dockerCli)));
         deviceStack = worldStack stackService
     in
     tryM (onBootDevice (StopInstalledAddOns localCatalogue deviceStack)) (\<lambda>_.
     let iamPermissionWriter = NewIamPermissionWriter (cfg_IamPermissions cfg) in
     tryM (liftR (pf_NewValidator p)) (\<lambda>manifestValidator.
     let sys = uOSSystem (pf_sshCheck p) (pf_statfs p) (cfg_AdminUid cfg) (cfg_AdminGid cfg) in
     tryM (liftR (LookupAdminUser sys)) (\<lambda>adminUser.
     tryM (CreateAndServelocalPublicAccessVolumesDriver cfg (pf_LookupRoot p)) (\<lambda>_.
     tryM (CreateAndServeLocalPublicVolumesDriver cfg (pf_LookupRoot p)) (\<lambda>_.
     let service = NewService cfg p deviceStack reverseProxy iamPermissionWriter localCatalogue manifestValidator sys in
     tryM (onBootDevice (migrateInstalledAddOns cfg p stackService reverseProxy)) (\<lambda>_.
     tryM (onBootDevice (startAllInstalledAddOns localCatalogue deviceStack (dc_network dockerCli))) (\<lambda>_.
     tryM (onBoot (installAllDropInAddOnsInPersistenceFolder cfg p deviceStack reverseProxy iamPermissionWriter
         manifestValidator sys)) (\<lambda>_.
     let fileServer = createFileServer cfg p deviceStack reverseProxy iamPermissionWriter manifestValidator sys in
     tryM (onBoot (InstallAllDropInAddOns (pf_versions p) fileServer)) (\<lambda>_.
     tryM (onBoot (StartSWUpdateWatcher (pf_versions p) fileServer (onDevice (pf_dialSwupdate p)) [])) (\<lambda>_.
     ret (NewServer cfg p service localCatalogue orasRemote iamUcAom iamUcAuth deviceStack))))))))))))))"

text \<open>
  \<^verbatim>\<open>src/cmd/uc-aomd/main.go\<close>: the process, from the address it listens on; \<open>listen\<close> is \<^verbatim>\<open>net.Listen\<close>. Every error ends it.
\<close>

definition daemon_main ::
  "(string \<Rightarrow> string option) \<Rightarrow> (string \<Rightarrow> unit res) \<Rightarrow> startConfig \<Rightarrow> ('s, 'm, 'd, 'q, 'v) platform \<Rightarrow>
   ((('s, 'm) facade, 'd) boot, (('s, 'm) facade, 'd bridgeState, 'v) AddOnServer) go" where
  "daemon_main lookupEnv listen cfg p =
     tryM (fatalOnError ''Grpc port error: '' (liftR (listen (GetEnv lookupEnv ''GRPC_SERVER_URI'' ''uc-aom:3800'')))) (\<lambda>_.
     tryM (fatalOnError ''Aom.Setup() failed with error: '' (onBootDevice (onFiles (Setup cfg)))) (\<lambda>_.
     fatalOnError ''Server exited with error: '' (Run cfg p)))"

lemma fatalOnError_never_Err: "fst (fatalOnError t m s) \<noteq> Err e"
  by (auto simp: fatalOnError_def tryM_def attemptM_def split: prod.splits res.splits sum.splits)

lemma tryM_never_Err: "(\<And>s e. fst (m s) \<noteq> Err e) \<Longrightarrow> (\<And>x s. fst (k x s) \<noteq> Err e) \<Longrightarrow> fst (tryM m k s) \<noteq> Err e"
  by (cases "m s", cases "fst (m s)") (auto simp: tryM_def, metis fst_conv)

lemma daemon_main_never_Err: "fst (daemon_main lookupEnv listen cfg p s) \<noteq> Err e"
  unfolding daemon_main_def by (intro tryM_never_Err fatalOnError_never_Err)

section \<open>Frames of the start\<close>

abbreviation bootFiles :: "('r, 'd) boot \<Rightarrow> FS" where
  "bootFiles s \<equiv> files (daemon_world (boot_daemon s))"

lemma onBoot_run: "onBoot m s = (fst (m (boot_daemon s)), s\<lparr>boot_daemon := snd (m (boot_daemon s))\<rparr>)"
  by (simp add: onBoot_def onPart_def split: prod.splits)

lemma onBootDevice_run:
  "onBootDevice m s = (fst (m (daemon_world (boot_daemon s))),
     s\<lparr>boot_daemon := (boot_daemon s)\<lparr>daemon_world := snd (m (daemon_world (boot_daemon s)))\<rparr>\<rparr>)"
  by (simp add: onBootDevice_def onBoot_run onDevice_run)

text \<open>No transaction is opened and left open.\<close>

definition bootClosed :: "('r, 'd) boot \<Rightarrow> ('r, 'd) boot \<Rightarrow> bool" where
  "bootClosed s s' \<longleftrightarrow> staysClosed (boot_daemon s) (boot_daemon s')"

interpretation bootClosed: step_relation bootClosed
  by unfold_locales (auto simp: bootClosed_def intro: closed.R_refl closed.R_trans)

lemma bootClosed_onBoot: "keeps staysClosed m \<Longrightarrow> keeps bootClosed (onBoot m)"
  by (simp add: keeps_def bootClosed_def onBoot_run)

lemma bootClosed_device: "keeps bootClosed (onBootDevice m)"
  by (simp add: keeps_def bootClosed_def onBootDevice_run staysClosed_def)

text \<open>Files are only added, and the plugins stay as they are.\<close>

definition bootExtends :: "('r, 'd) boot \<Rightarrow> ('r, 'd) boot \<Rightarrow> bool" where
  "bootExtends s s' \<longleftrightarrow> extends (bootFiles s) (bootFiles s')"

interpretation bootExtends: step_relation bootExtends
  by unfold_locales (auto simp: bootExtends_def intro: extends.R_refl extends.R_trans)

lemma bootExtends_reads: "keeps (same files) m \<Longrightarrow> keeps bootExtends (onBootDevice m)"
  by (simp add: keeps_def bootExtends_def onBootDevice_run same_def extends.R_refl)

lemma samePlugins_onBoot: "keeps (same plugins) (onBoot m)" "keeps (same plugins) (onBootDevice n)"
  by (simp_all add: keeps_def same_def onBoot_run onBootDevice_run)

lemma same_of_reads: "keeps (=) m \<Longrightarrow> keeps (same f) m"
  by (simp add: keeps_def same_def)

lemma keeps_fatalOnError: "step_relation R \<Longrightarrow> keeps R m \<Longrightarrow> keeps R (fatalOnError t m)"
  unfolding fatalOnError_def
  by (intro step_relation.keeps_tryM step_relation.keeps_attemptM) (auto intro: step_relation.keeps_pure split: sum.splits)

lemma keeps_GetRegistryCredentials: "keeps (=) (GetRegistryCredentials dev rel)"
  unfolding GetRegistryCredentials_def hasOverwriteCredentialsAt_def ReadAndValidateCredentials_def
  by (intro reads.keeps_rules keeps_reads)

lemma keeps_local_GetAddOns: "keeps (=) (local_GetAddOns c)"
proof -
  have "keeps (=) (collectAddOns (local_GetAddOn c) ns)" for ns
    by (induction ns) (simp_all add: reads.keeps_pure reads.keeps_tryM reads.keeps_attemptM keeps_local_GetAddOn)
  then show ?thesis
    unfolding local_GetAddOns_def by (intro reads.keeps_tryM keeps_onFiles keeps_GetManifestsDirectories)
qed

lemma keeps_StopInstalledAddOns:
  "keeps (same files) (StopInstalledAddOns (NewLocalAddOnCatalogue c) (worldStack a))"
  unfolding StopInstalledAddOns_def stopAll_def
  by (intro same.keeps_tryM same.keeps_eachM same.keeps_ignoreM)
    (simp_all add: NewLocalAddOnCatalogue_def worldStack_def keeps_onDocker same_of_reads keeps_local_GetAddOns)

section \<open>The drivers of a start\<close>

lemma driverStart_extends: "extends fs (dfs (driverStart stateDir volDir f fs))"
proof -
  have "keeps extends (osMkdir volDir)" by (cases "volDir = []") (auto simp: keeps_def osMkdir_def extends_def)
  then have "keeps extends (tryM (ignoreM (osMkdir volDir)) (\<lambda>_. ignoreM (osChown volDir)))"
    by (intro extends.keeps_tryM extends.keeps_ignoreM) (auto simp: keeps_def extends.R_refl)
  then show ?thesis by (simp add: keeps_def driverStart_def Let_def)
qed

lemma driverStart_volumes:
  assumes "node fs (joinPath stateDir f) = Some (File (Doc (saveData vs)))"
    and "\<not> faulty fs OpOpen (joinPath stateDir f)" and "wfMap vs"
  shows "drv_volumes (driverStart stateDir volDir f fs) = vs"
proof -
  let ?d = "driverStart stateDir volDir f fs"
  have "saved (?d\<lparr>drv_volumes := vs\<rparr>)" "\<not> faulty (dfs ?d) OpOpen (joinPath stateDir f)"
    using assms(1,2) driverStart_extends [of fs stateDir volDir f]
    by (auto simp: extends_def saved_def driverStart_def Let_def)
  from restart_reads_saved [OF this(1)] this(2) assms(3) show ?thesis
    by (simp add: driverStart_def Let_def)
qed

lemmas newDrivers = newLocalPublicDriver_def newLocalPublicAccessDriver_def

lemma createAndServe_run:
  "tryM (createDriver new) (\<lambda>driver. serveDockerVolumesDriver root driver n) s = (r, s') \<Longrightarrow>
     bootFiles s' = dfs (new (bootFiles s)) \<and> scheduled (boot_daemon s') = scheduled (boot_daemon s) \<and>
     (r = Ok () \<longrightarrow> plugins s' = plugins s @ [(n, new (bootFiles s))])"
  by (cases root; cases "Atoi (Gid (case root of Ok u \<Rightarrow> u))")
    (auto simp: createDriver_def serveDockerVolumesDriver_def onBootDevice_run onFiles_run tryM_def Let_def)

lemma keeps_drivers:
  assumes "\<And>fs. extends fs (dfs (new fs))"
  shows "keeps bootExtends (tryM (createDriver new) (\<lambda>driver. serveDockerVolumesDriver root driver n) :: (('r, 'd) boot, unit) go)"
    and "keeps bootClosed (tryM (createDriver new) (\<lambda>driver. serveDockerVolumesDriver root driver n) :: (('r, 'd) boot, unit) go)"
proof -
  let ?m = "tryM (createDriver new) (\<lambda>driver. serveDockerVolumesDriver root driver n) :: (('r, 'd) boot, unit) go"
  have "bootFiles (snd (?m s)) = dfs (new (bootFiles s)) \<and> scheduled (boot_daemon (snd (?m s))) = scheduled (boot_daemon s)"
    for s
    using createAndServe_run [of new root n s "fst (?m s)" "snd (?m s)"] by simp
  then show "keeps bootExtends ?m" "keeps bootClosed ?m"
    using assms by (simp_all add: keeps_def bootExtends_def bootClosed_def staysClosed_def)
qed

section \<open>Reaching the server\<close>

lemma closed_watcher: "keeps staysClosed dial \<Longrightarrow> keeps staysClosed (StartSWUpdateWatcher api f dial [])"
proof -
  assume dial: "keeps staysClosed dial"
  have "keeps staysClosed (connectLoop k e dial)" for k e
  proof (induction k arbitrary: e)
    case 0
    then show ?case by (auto intro: closed.keeps_pure split: option.splits)
  next
    case (Suc k)
    then show ?case
      by (simp, intro closed.keeps_tryM closed.keeps_attemptM dial) (auto intro: closed.keeps_pure split: sum.splits)
  qed
  then show ?thesis
    by (simp add: StartSWUpdateWatcher_def watcher_Connect_def closed.keeps_tryM closed.keeps_pure)
qed

lemma closed_fileServerOn: "keeps staysClosed (InstallAllDropInAddOns api (fileServerOn d cfg p ss rp iam val sys))"
  by (simp add: fileServerOn_def Let_def closed_InstallAllDropInAddOns)

lemmas startDrivers_defs =
  CreateAndServelocalPublicAccessVolumesDriver_def CreateAndServeLocalPublicVolumesDriver_def

lemma keeps_startDrivers:
  fixes cfg :: startConfig
  shows "keeps bootExtends (CreateAndServelocalPublicAccessVolumesDriver cfg root :: (('r, 'd) boot, unit) go)"
    and "keeps bootExtends (CreateAndServeLocalPublicVolumesDriver cfg root :: (('r, 'd) boot, unit) go)"
    and "keeps bootClosed (CreateAndServelocalPublicAccessVolumesDriver cfg root :: (('r, 'd) boot, unit) go)"
    and "keeps bootClosed (CreateAndServeLocalPublicVolumesDriver cfg root :: (('r, 'd) boot, unit) go)"
  unfolding startDrivers_defs newDrivers by (intro keeps_drivers driverStart_extends)+

text \<open>
  C16. However a start of the daemon ends, it leaves no transaction open that it did not find open: the server
  that is registered at its end can serve the first request.
\<close>

theorem start_leaves_no_transaction_open:
  assumes "Run cfg p s = (r, s')" and "\<not> IsTransactionOpen (scheduled (boot_daemon s))"
  shows "\<not> IsTransactionOpen (scheduled (boot_daemon s'))"
proof -
  have "keeps bootClosed (Run cfg p)"
    unfolding Run_def Let_def installAllDropInAddOnsInPersistenceFolder_def createFileServer_def
    by (intro bootClosed.keeps_tryM keeps_fatalOnError bootClosed.step_relation_axioms bootClosed.keeps_pure
        bootClosed_device keeps_startDrivers bootClosed_onBoot closed.keeps_ignoreM closed_fileServerOn closed_watcher
        closed_onDevice)
  from keeps_run [OF this assms(1)] assms(2) show ?thesis by (simp add: bootClosed_def staysClosed_def)
qed

section \<open>Volumes survive a start\<close>

lemma tryM_Ok_keeps:
  assumes "tryM m k s = (Ok y, t)" and "keeps R m"
  obtains x s' where "R s s'" and "k x s' = (Ok y, t)"
proof -
  obtain x s' where "m s = (Ok x, s')" "k x s' = (Ok y, t)" using assms(1) by (rule tryM_OkE)
  then show thesis using that keeps_run [OF assms(2)] by blast
qed

text \<open>What happens before the drivers are created: files are only added, no plugin is served.\<close>

definition bootQuiet :: "('r, 'd) boot \<Rightarrow> ('r, 'd) boot \<Rightarrow> bool" where
  "bootQuiet s s' \<longleftrightarrow> bootExtends s s' \<and> plugins s' = plugins s"

interpretation bootQuiet: step_relation bootQuiet
  by unfold_locales (auto simp: bootQuiet_def intro: bootExtends.R_refl bootExtends.R_trans)

lemma bootQuiet_reads: "keeps (same files) m \<Longrightarrow> keeps bootQuiet (onBootDevice m)"
  using bootExtends_reads [of m] samePlugins_onBoot(2) [of m] by (simp add: keeps_def bootQuiet_def same_def)

lemma quiet_credentials: "keeps bootQuiet (fatalOnError t (onBootDevice (onFiles (GetRegistryCredentials dev rel))))"
  by (intro keeps_fatalOnError bootQuiet.step_relation_axioms bootQuiet_reads same_of_reads keeps_onFiles
      keeps_GetRegistryCredentials)

lemma quiet_pure: "keeps bootQuiet (fatalOnError t (liftR r))"
  by (intro keeps_fatalOnError bootQuiet.step_relation_axioms bootQuiet.keeps_pure)

lemmas keptPlugins = samePlugins_onBoot [THEN keeps_run, unfolded same_def]

lemma Run_drivers:
  assumes "Run cfg p s = (Ok srv, s')"
  obtains s1 s2 s3 where "bootQuiet s s1"
    and "CreateAndServelocalPublicAccessVolumesDriver cfg (pf_LookupRoot p) s1 = (Ok (), s2)"
    and "CreateAndServeLocalPublicVolumesDriver cfg (pf_LookupRoot p) s2 = (Ok (), s3)" and "plugins s' = plugins s3"
proof -
  note quiet = keeps_run [OF quiet_credentials] keeps_run [OF quiet_pure] keeps_run [OF bootQuiet.keeps_pure(4)]
    keeps_run [OF bootQuiet_reads [OF keeps_StopInstalledAddOns]]
  show thesis
    using assms unfolding Run_def Let_def
  proof (elim tryM_OkE, goal_cases)
    case (1 c s1 reg s2 cli s3 u s4 val s5 admin s6 u1 s7 u2 s8)
    have "bootQuiet s s6"
      using quiet(1) [OF 1(1)] quiet(2) [OF 1(2)] quiet(3) [OF 1(3)] quiet(4) [OF 1(4)] quiet(3) [OF 1(5)] quiet(3) [OF 1(6)]
      by (blast intro: bootQuiet.R_trans)
    moreover have "plugins s' = plugins s8"
      using 1(14) keptPlugins(2) [OF 1(9)] keptPlugins(2) [OF 1(10)] keptPlugins(1) [OF 1(11)] keptPlugins(1) [OF 1(12)]
        keptPlugins(1) [OF 1(13)] by simp
    ultimately show ?case using that [of s6 s7 s8] 1(7,8) by simp
  qed
qed

definition savedVolumes :: "startConfig \<Rightarrow> FS \<Rightarrow> string \<Rightarrow> string gomap \<Rightarrow> bool" where
  "savedVolumes cfg fs name vs \<longleftrightarrow>
     (let f = joinPath (cfg_StateDirectory cfg) (name @ ''.json'')
      in node fs f = Some (File (Doc (saveData vs))) \<and> \<not> faulty fs OpOpen f \<and> wfMap vs)"

lemma savedVolumes_extends: "savedVolumes cfg fs n vs \<Longrightarrow> extends fs fs' \<Longrightarrow> savedVolumes cfg fs' n vs"
  by (auto simp: savedVolumes_def extends_def Let_def)

lemma driver_reads_saved:
  "savedVolumes cfg fs n vs \<Longrightarrow> drv_volumes (driverStart (cfg_StateDirectory cfg) volDir (n @ ''.json'') fs) = vs"
  by (auto simp: savedVolumes_def Let_def intro: driverStart_volumes)

text \<open>
  C18. The volumes survive a restart of the daemon: when a start reaches the server, both volume plugins are
  served, and each with exactly the volumes its state file held before the start.
\<close>

theorem volumes_survive_a_start:
  assumes "Run cfg p s = (Ok srv, s')"
    and "savedVolumes cfg (bootFiles s) LocalPublicVolumeAccessDriverName access"
    and "savedVolumes cfg (bootFiles s) LocalPublicVolumeDriverName public"
  shows "\<exists>d1 d2. plugins s' = plugins s @ [(LocalPublicVolumeAccessDriverName, d1), (LocalPublicVolumeDriverName, d2)]
    \<and> drv_volumes d1 = access \<and> drv_volumes d2 = public"
proof -
  obtain s1 s2 s3 where q: "bootQuiet s s1"
    and a: "CreateAndServelocalPublicAccessVolumesDriver cfg (pf_LookupRoot p) s1 = (Ok (), s2)"
    and b: "CreateAndServeLocalPublicVolumesDriver cfg (pf_LookupRoot p) s2 = (Ok (), s3)" and e: "plugins s' = plugins s3"
    using assms(1) by (rule Run_drivers)
  have 1: "extends (bootFiles s) (bootFiles s1)" using q by (simp add: bootQuiet_def bootExtends_def)
  have 2: "extends (bootFiles s1) (bootFiles s2)"
    using keeps_run [OF keeps_startDrivers(1) a] by (simp add: bootExtends_def)
  have "drv_volumes (newLocalPublicAccessDriver (cfg_StateDirectory cfg) (cfg_PublicVolumes cfg) (bootFiles s1)) = access"
    unfolding newDrivers using savedVolumes_extends [OF assms(2) 1] by (rule driver_reads_saved)
  moreover have "drv_volumes (newLocalPublicDriver (cfg_StateDirectory cfg) (cfg_PublicVolumes cfg) (bootFiles s2)) = public"
    unfolding newDrivers using savedVolumes_extends [OF assms(3) extends.R_trans [OF 1 2]] by (rule driver_reads_saved)
  ultimately show ?thesis
    using createAndServe_run [OF a [unfolded startDrivers_defs]] createAndServe_run [OF b [unfolded startDrivers_defs]] e q
    by (simp add: bootQuiet_def)
qed

section \<open>A start that is refused\<close>

text \<open>\<open>m\<close> fails at \<open>s\<close>, and leaves a state that is related to \<open>s0\<close>.\<close>

definition failsWithin :: "('s \<Rightarrow> 's \<Rightarrow> bool) \<Rightarrow> 's \<Rightarrow> ('s, 'a) go \<Rightarrow> 's \<Rightarrow> bool" where
  "failsWithin R s0 m s \<longleftrightarrow> \<not> is_ok (fst (m s)) \<and> R s0 (snd (m s))"

lemma failsWithin_later:
  assumes "step_relation R" and "R s0 s" and "keeps R m" and "\<And>x s'. R s0 s' \<Longrightarrow> failsWithin R s0 (k x) s'"
  shows "failsWithin R s0 (tryM m k) s"
proof -
  obtain r s' where m: "m s = (r, s')" by fastforce
  have "R s0 s'" using assms(2) keeps_run [OF assms(3) m] by (rule step_relation.R_trans [OF assms(1)])
  then show ?thesis using m assms(4) by (cases r) (auto simp: failsWithin_def tryM_def)
qed

lemma failsWithin_here: "failsWithin R s0 m s \<Longrightarrow> failsWithin R s0 (tryM m k) s"
  by (cases "m s"; cases "fst (m s)") (auto simp: failsWithin_def tryM_def)

text \<open>
  C17. An installation whose release file names a version this daemon cannot migrate, a newer one for instance,
  is refused: the start fails before an add-on is started or a package installed, and every file that was there
  is as it was.
\<close>

theorem unknown_release_is_refused:
  assumes "node (bootFiles s) (cfg_StateDirectory cfg @ [releaseFilename]) = Some (File (marshalRelease v))"
    and "\<not> faulty (bootFiles s) OpOpen (cfg_StateDirectory cfg @ [releaseFilename])"
    and "v \<notin> {currentVersion, ''0.3.2'', ''0.4.0'', ''0.5.0'', ''0.5.1'', ''0.5.2''}"
    and "Run cfg p s = (r, s')"
  shows "\<not> is_ok r \<and> extends (bootFiles s) (bootFiles s')"
proof -
  have mig: "failsWithin bootExtends s (onBootDevice (migrateInstalledAddOns cfg p ss rp)) t" if "bootExtends s t" for ss rp t
  proof -
    have "node (bootFiles t) (cfg_StateDirectory cfg @ [releaseFilename]) = Some (File (marshalRelease v))"
      "\<not> faulty (bootFiles t) OpOpen (cfg_StateDirectory cfg @ [releaseFilename])"
      using that assms(1,2) by (auto simp: bootExtends_def extends_def)
    from osReadFile_file [OF this] that assms(3) show ?thesis
      by (simp add: failsWithin_def onBootDevice_run migrateInstalledAddOns_def migrator_Migrate_def NewInstallAddOnMigrator_def
          getVersion_def release_segment onFiles_run wrapErr_def attemptM_def tryM_def release_roundtrip migrationSteps_def
          bootExtends_def)
  qed
  have "failsWithin bootExtends s (Run cfg p) s"
    unfolding Run_def Let_def
    by (intro failsWithin_later failsWithin_here mig bootExtends.step_relation_axioms bootExtends.R_refl keeps_fatalOnError
        bootExtends.keeps_pure bootExtends_reads same_of_reads keeps_onFiles keeps_GetRegistryCredentials
        keeps_StopInstalledAddOns keeps_startDrivers)
  then show ?thesis using assms(4) by (simp add: failsWithin_def bootExtends_def)
qed

section \<open>Every installed add-on is started\<close>

definition noPanic :: "('s, 'a) go \<Rightarrow> bool" where
  "noPanic m \<longleftrightarrow> (\<forall>s t. fst (m s) \<noteq> Panic t)"

lemma ignoreM_noPanic: "noPanic m \<Longrightarrow> ignoreM m s = (Ok (), snd (m s))"
  by (cases "m s") (auto simp: noPanic_def intro!: ignoreM_run dest: spec [of _ s])

lemma startAll_run:
  "(\<And>n. noPanic (StartupStackNonBlocking ss n)) \<Longrightarrow>
     startAll ss addOns w = (Ok (), fold (\<lambda>a u. snd (StartupStackNonBlocking ss (ca_Name a) u)) addOns w)"
  by (induction addOns arbitrary: w) (simp_all add: startAll_def tryM_def ignoreM_noPanic)

lemma prepare_run:
  assumes "\<And>n. noPanic (ListAllStackContainers ss n)" and "\<And>cs. noPanic (Reconnect conn cs)"
  shows "\<exists>w'. prepareAddOnsBeforeStart ss conn addOns w = (Ok (), w')"
proof (induction addOns arbitrary: w)
  case Nil
  then show ?case by simp
next
  case (Cons a addOns)
  have "noPanic (tryM (ListAllStackContainers ss n) (Reconnect conn))" for n
    using assms by (auto simp: noPanic_def tryM_def split: prod.splits res.splits) (metis fst_conv)+
  then show ?case using Cons by (simp add: tryM_def ignoreM_noPanic)
qed

text \<open>
  Once the bridge network is there the start of the add-ons cannot fail, and every installed add-on is asked
  to start, in the order of the catalogue: neither a stack that cannot be started nor one whose containers cannot be
  reconnected keeps the others from it.
\<close>

theorem every_installed_addon_is_started:
  assumes "GetAddOns cat w = (Ok addOns, w1)" and "Initialize conn w1 = (Ok (), w2)"
    and "\<And>n. noPanic (ListAllStackContainers ss n)" and "\<And>cs. noPanic (Reconnect conn cs)"
    and "\<And>n. noPanic (StartupStackNonBlocking ss n)"
  shows "\<exists>w3. StartInstalledAddOns cat ss conn w
    = (Ok (), fold (\<lambda>a u. snd (StartupStackNonBlocking ss (ca_Name a) u)) addOns w3)"
proof -
  obtain w3 where "prepareAddOnsBeforeStart ss conn addOns w2 = (Ok (), w3)" using prepare_run [OF assms(3,4)] by blast
  then show ?thesis using assms(1,2) startAll_run [OF assms(5)] by (auto simp: StartInstalledAddOns_def tryM_def)
qed

section \<open>A start with nothing to do\<close>

text \<open>
  On a device that runs the current version and has neither an add-on nor a package to install, the server is
  reached, and no file changes.
\<close>

lemma quiet_drivers:
  assumes "node (bootFiles s) (cfg_PublicVolumes cfg) = Some Dir" and "root = Ok u" and "Atoi (Gid u) = Some g"
  shows "\<exists>ps. CreateAndServelocalPublicAccessVolumesDriver cfg root s = (Ok (), s\<lparr>plugins := plugins s @ ps\<rparr>)"
    and "\<exists>ps. CreateAndServeLocalPublicVolumesDriver cfg root s = (Ok (), s\<lparr>plugins := plugins s @ ps\<rparr>)"
proof -
  have "ignoreM (osMkdir (cfg_PublicVolumes cfg)) (bootFiles s) = (Ok (), bootFiles s)"
    by (simp add: osMkdir_def assms(1) ignoreM_run)
  moreover have "snd (ignoreM (osChown d) fs) = fs" for d fs by simp
  ultimately have "dfs (driverStart sd (cfg_PublicVolumes cfg) f (bootFiles s)) = bootFiles s" for sd f
    by (simp add: driverStart_def Let_def tryM_def)
  then show "\<exists>ps. CreateAndServelocalPublicAccessVolumesDriver cfg root s = (Ok (), s\<lparr>plugins := plugins s @ ps\<rparr>)"
    "\<exists>ps. CreateAndServeLocalPublicVolumesDriver cfg root s = (Ok (), s\<lparr>plugins := plugins s @ ps\<rparr>)"
    using assms(2,3)
    by (auto simp: startDrivers_defs newDrivers createDriver_def serveDockerVolumesDriver_def onBootDevice_run onFiles_run
        tryM_def Let_def)
qed

lemma quiet_stop:
  "GetManifestsDirectories (lc_Root c) (files w) = (Ok [], files w) \<Longrightarrow>
     StopInstalledAddOns (NewLocalAddOnCatalogue c) a w = (Ok (), w)"
  by (simp add: StopInstalledAddOns_def NewLocalAddOnCatalogue_def local_GetAddOns_def stopAll_def tryM_def onFiles_run)

lemma quiet_starter:
  assumes "GetManifestsDirectories (lc_Root c) (files w) = (Ok [], files w)"
    and "bridge_Initialize net \<lparr>newInitializedInternalBridgeId = [], bridge_docker = bridge_docker (docker w)\<rparr> = (Ok (), b)"
  shows "startAllInstalledAddOns (NewLocalAddOnCatalogue c) a net w = (Ok (), w\<lparr>docker := b\<rparr>)"
proof -
  have "(docker w)\<lparr>newInitializedInternalBridgeId := []\<rparr>
      = \<lparr>newInitializedInternalBridgeId = [], bridge_docker = bridge_docker (docker w)\<rparr>" by simp
  then have "bridge_Initialize net ((docker w)\<lparr>newInitializedInternalBridgeId := []\<rparr>) = (Ok (), b)"
    using assms(2) by (simp only:)
  then show ?thesis
    using assms(1)
    by (simp add: startAllInstalledAddOns_def StartInstalledAddOns_def startAll_def NewLocalAddOnCatalogue_def local_GetAddOns_def
        tryM_def onFiles_run onDocker_run worldConnector_def NewInternalBridgeNetworkConnector_def)
qed

lemma quiet_dropIns:
  "getDirectoriesIn d (files (daemon_world s)) = (Ok [], files (daemon_world s)) \<Longrightarrow>
     InstallAllDropInAddOns api (fileServerOn d cfg p ss rp iam val sys) s = (Ok (), s)"
  by (simp add: InstallAllDropInAddOns_def fileServerOn_def NewFileServerWithTransactionSchedular_def NewDropInAddOnRegistry_def
      dropIn_Repositories_def onDevice_run onFiles_run tryM_def Let_def)

lemma quiet_migration:
  "osReadFile (cfg_StateDirectory cfg @ [releaseFilename]) (files w) = (Ok (marshalRelease currentVersion), files w) \<Longrightarrow>
     migrateInstalledAddOns cfg p ss rp w = (Ok (), w)"
  by (simp add: migrateInstalledAddOns_def migrator_Migrate_def NewInstallAddOnMigrator_def getVersion_def release_segment
      onFiles_run wrapErr_def attemptM_def tryM_def release_roundtrip)

lemma quiet_start:
  assumes "GetRegistryCredentials (cfg_DevCredentialsRoot cfg) (cfg_RelCredentialsRoot cfg) (bootFiles s) = (Ok cr, bootFiles s)"
    and "pf_NewRegistry p (cred_ServerAddress cr) = Ok mk" and "NewDockerCli p = Ok cli" and "pf_NewValidator p = Ok val"
    and "pf_LookupRoot p = Ok u" and "Atoi (Gid u) = Some g" and "node (bootFiles s) (cfg_PublicVolumes cfg) = Some Dir"
    and "GetManifestsDirectories (cfg_AssetsInstall cfg) (bootFiles s) = (Ok [], bootFiles s)"
    and "osReadFile (cfg_StateDirectory cfg @ [releaseFilename]) (bootFiles s) = (Ok (marshalRelease currentVersion), bootFiles s)"
    and "bridge_Initialize (dc_network cli) \<lparr>newInitializedInternalBridgeId = [],
      bridge_docker = bridge_docker (docker (daemon_world (boot_daemon s)))\<rparr> = (Ok (), b)"
    and "getDirectoriesIn (cfg_PersistenceDropIn cfg) (bootFiles s) = (Ok [], bootFiles s)"
    and "getDirectoriesIn (cfg_CacheDropIn cfg) (bootFiles s) = (Ok [], bootFiles s)"
    and "\<And>w. pf_dialSwupdate p w = (Ok (), w)"
  shows "\<exists>srv s'. Run cfg p s = (Ok srv, s') \<and> bootFiles s' = bootFiles s"
proof -
  obtain ps where a: "CreateAndServelocalPublicAccessVolumesDriver cfg (Ok u) s = (Ok (), s\<lparr>plugins := plugins s @ ps\<rparr>)"
    using quiet_drivers(1) [OF assms(7) refl assms(6)] by blast
  obtain ps' where b: "CreateAndServeLocalPublicVolumesDriver cfg (Ok u) (s\<lparr>plugins := plugins s @ ps\<rparr>)
      = (Ok (), s\<lparr>plugins := (plugins s @ ps) @ ps'\<rparr>)"
    using quiet_drivers(2) [of "s\<lparr>plugins := plugins s @ ps\<rparr>" cfg "Ok u" u g] assms(6,7) by auto
  have cred: "fatalOnError t (onBootDevice (onFiles (GetRegistryCredentials (cfg_DevCredentialsRoot cfg) (cfg_RelCredentialsRoot cfg)))) s
      = (Ok cr, s)" for t
    by (simp add: fatalOnError_def attemptM_def tryM_def onBootDevice_run onFiles_run assms(1))
  have reg: "fatalOnError t (liftR (InitializeDeviceRegistry (pf_NewRegistry p) cr)) s = (Ok (mk \<lparr>co_Username = cred_Username cr,
      co_Password = cred_Password cr, PlainHTTP = IsInsecureServer cr\<rparr>), s)" for t
    by (simp add: fatalOnError_def attemptM_def tryM_def InitializeDeviceRegistry_def assms(2))
  have watch: "StartSWUpdateWatcher api f (onDevice (pf_dialSwupdate p)) [] d = (Ok (), d)" for api f d
    by (simp add: StartSWUpdateWatcher_def watcher_Connect_def connectionAttempts_def eval_nat_numeral attemptM_def tryM_def
        onDevice_run assms(13))
  show ?thesis
    unfolding Run_def Let_def
    by (simp add: cred reg assms(3-6) a b onBootDevice_run onBoot_run quiet_stop quiet_migration quiet_starter quiet_dropIns installedCatalogue_def assms(8-12)
        uOSSystem_def uOSSystem_LookupAdminUser_def installAllDropInAddOnsInPersistenceFolder_def createFileServer_def
        ignoreM_run watch tryM_def)
qed

section \<open>The default directories\<close>

lemma default_directories:
  "cfg_AssetsInstall (startConfigFrom (\<lambda>_. None) a os) = [''var'', ''lib'', ''uc-aom'']"
  "cfg_PublicVolumes (startConfigFrom (\<lambda>_. None) a os) = [''var'', ''lib'', ''uc-aom'', ''volumes-public'']"
proof -
  have "toPath ''/var/lib/uc-aom'' = [''var'', ''lib'', ''uc-aom'']"
    "toPath (showPath (joinPath (toPath ''/var/lib/uc-aom'') ''volumes-public'')) = [''var'', ''lib'', ''uc-aom'', ''volumes-public'']"
    by code_simp+
  then show "cfg_AssetsInstall (startConfigFrom (\<lambda>_. None) a os) = [''var'', ''lib'', ''uc-aom'']"
    "cfg_PublicVolumes (startConfigFrom (\<lambda>_. None) a os) = [''var'', ''lib'', ''uc-aom'', ''volumes-public'']"
    by (simp_all add: startConfigFrom_def GetEnv_def Let_def)
qed

lemma children_below_iff: "q \<in> set (below fs p) \<longleftrightarrow> strict_prefix p q \<and> map_of (nodes fs) q \<noteq> None"
  by (auto simp: below_def map_of_eq_None_iff)

text \<open>
  By default the public volumes lie inside the directory that is searched for installed add-ons: a file
  with the name of a manifest that an add-on puts into its public volume is listed as an installation.
\<close>

theorem public_volumes_are_searched:
  assumes "cfg = startConfigFrom (\<lambda>_. None) architecture os"
    and "prefix (cfg_PublicVolumes cfg) q" and "last q = UcImageManifestFilename" and "node fs q = Some (File c)"
    and "\<not> Contains (showPath q) DROP_IN_FOLDER_NAME"
    and "node fs (cfg_AssetsInstall cfg) = Some Dir"
    and "\<forall>p. prefix (cfg_AssetsInstall cfg) p \<longrightarrow> \<not> faulty fs OpOpen p"
  shows "\<exists>repositories. GetManifestsDirectories (cfg_AssetsInstall cfg) fs = (Ok repositories, fs)
    \<and> relDir (cfg_AssetsInstall cfg) q \<in> set repositories"
proof -
  let ?r = "cfg_AssetsInstall cfg"
  have r: "?r = [''var'', ''lib'', ''uc-aom'']" using assms(1) default_directories by simp
  have v: "cfg_PublicVolumes cfg = [''var'', ''lib'', ''uc-aom'', ''volumes-public'']" using assms(1) default_directories by simp
  have sp: "strict_prefix ?r q" using assms(2) unfolding r v by (auto simp: prefix_def strict_prefix_def)
  have "q \<noteq> []" using sp by auto
  then have "map_of (nodes fs) q = Some (File c)" using assms(4) by (simp add: node_def split: if_splits)
  then have m: "(q, File c) \<in> set (map (\<lambda>p. (p, the (node fs p))) (?r # below fs ?r))"
    using sp assms(4) by (auto simp: children_below_iff image_iff intro!: bexI [of _ q])
  have "isManifestEntry (q, File c)" using assms(3,5) \<open>q \<noteq> []\<close> by (simp add: isManifestEntry_def)
  then have "relDir ?r q \<in> set (map (\<lambda>(p, _). relDir ?r p)
      (filter isManifestEntry (map (\<lambda>p. (p, the (node fs p))) (?r # below fs ?r))))"
    using m by (force simp del: list.map)
  moreover have "osWalk ?r fs = (Ok (map (\<lambda>p. (p, the (node fs p))) (?r # below fs ?r)), fs)"
    using osWalk_readable(2) [of fs ?r] assms(6,7) by simp
  ultimately show ?thesis by (simp add: GetManifestsDirectories_def tryM_def del: list.map)
qed

section \<open>A device to start\<close>

definition sampleStart :: startConfig where
  "sampleStart =
     \<lparr>cfg_CacheDropIn = [''cache'', ''drop-in''], cfg_PersistenceDropIn = [''state'', ''drop-in''],
      cfg_AssetsInstall = [''inst''], cfg_AssetsTmp = [''tmp''], cfg_StateDirectory = [''state''],
      cfg_PublicVolumes = [''state'', ''public''], cfg_DevCredentialsRoot = [''dev''], cfg_RelCredentialsRoot = [''rel''],
      cfg_SitesAvailable = [''sites-available''], cfg_SitesEnabled = [''sites-enabled''],
      cfg_RoutesMapAvailable = [''routes-available''], cfg_RoutesMapEnabled = [''routes-enabled''],
      cfg_IamPermissions = [''iam''], cfg_AssetsLocalUrl = ''/add-ons/assets'', cfg_AssetsRemoteUrl = ''/add-ons/assets-remote'',
      cfg_IamUrl = ''http://127.0.0.1:49155'', cfg_IamServiceUcAom = ''uc-aom'', cfg_IamServiceUcAuth = ''uc-auth'',
      cfg_IamEndpoint = ''/v1/data/service/authz'', cfg_PortainerHost = ''portainer-service:9000'',
      cfg_PortainerEnvFile = [''portainer.env''], cfg_Architecture = ''arm'', cfg_OS = ''linux'', cfg_AdminUid = ''1000'',
      cfg_AdminGid = ''1000'', cfg_NoAuthOpt = True\<rparr>"

definition miniNetwork :: "miniDocker NetworkClient" where
  "miniNetwork =
     \<lparr>net_Inspect = (\<lambda>_. fail (ErrorString networkNotFoundText)), net_ContainerStop = (\<lambda>_. ret ()), net_Remove = (\<lambda>_. ret ()),
      net_Create = (\<lambda>_ _. ret ''1f''), net_Connect = (\<lambda>_ _ _. ret ()), net_ContainerNetworks = (\<lambda>_. ret None)\<rparr>"

definition startPlatform :: "(unit, mapStore, miniDocker, sampleRequest, nat list) platform" where
  "startPlatform =
     \<lparr>pf_NewRegistry = (\<lambda>_. Ok (\<lambda>_. \<lparr>rr_Repositories = ret [], rr_Tags = (\<lambda>_. ret []),
        rr_Repository = (\<lambda>_. fail (ErrorString ''not found''))\<rparr>)), pf_packages = sampleMigrateRepository,
      pf_NewDockerCli = Ok \<lparr>dc_client = miniClient, dc_network = miniNetwork, dc_compose = miniCompose, dc_lib = miniLib\<rparr>,
      pf_InitializeCli = Ok (), pf_LookupRoot = Ok \<lparr>Uid = ''0'', Gid = ''0''\<rparr>, pf_NewValidator = Ok (\<lambda>_. None),
      pf_reload = (\<lambda>_. JobResult ''done''), pf_sshCheck = ExitCode 1, pf_statfs = Ok \<lparr>Bavail = 1000, Bsize = 4096\<rparr>,
      pf_hostPlatform = Ok ''ucm'', pf_httpDo = (\<lambda>_ _. Err (ErrorString ''refused'')), pf_untar = (\<lambda>_. Ok []),
      pf_overflow = (\<lambda>_. 0), pf_sha1 = (\<lambda>_. Ok ''0123456789''), pf_tempName = (\<lambda>_. [''tmp'', ''1-manifest'']),
      pf_openapi = sampleRuntime, pf_newTransport = (\<lambda>_ _ _ _. fail (ErrorString ''connection refused'')),
      pf_session = \<lparr>ParseUnverified = (\<lambda>_. Ok None), timeNow = (\<lambda>_. 0), BearerToken = (\<lambda>_. ret ())\<rparr>,
      pf_render = (\<lambda>_. []), pf_cacheDirectory = [''cache''],
      pf_volumeTempName = (\<lambda>n _. [''cache'', n]), pf_DirCopy = copyTree, pf_dialSwupdate = ret (),
      pf_versions = dotted_version_api\<rparr>"

definition bootDevice :: "(path \<times> node) list \<Rightarrow> ((unit, mapStore) facade, miniDocker) boot" where
  "bootDevice ns =
     \<lparr>boot_daemon = \<lparr>scheduled = None, daemon_world =
        \<lparr>files = \<lparr>nodes = map (\<lambda>d. ([d], Dir)) [''inst'', ''tmp'', ''state'', ''cache'', ''rel'', ''iam''] @
            [([''cache'', ''drop-in''], Dir), ([''state'', ''drop-in''], Dir), ([''state'', ''public''], Dir),
             ([''rel'', ''registrycredentials.json''], File (Doc (JObj [(''serveraddress'', JStr ''registry'')])))] @ ns,
            faulty = (\<lambda>_ _. False)\<rparr>,
         images = [], remote = \<lparr>fc_source = (), registryFascade = []\<rparr>, docker = \<lparr>newInitializedInternalBridgeId = [], bridge_docker = \<lparr>mini_images = [], mini_volumes = []\<rparr>\<rparr>\<rparr>\<rparr>,
      plugins = []\<rparr>"

definition bootFilesSaved :: "(path \<times> node) list" where
  "bootFilesSaved =
     [([''state'', ''local-public-access.json''], File (Doc (saveData (Some [(''logs'', ''/state/public'')])))),
      ([''state'', ''local-public.json''], File (Doc (saveData (Some [(''data'', ''/state/public/data'')])))),
      ([''state'', ''release.json''], File (marshalRelease currentVersion))]"

lemma keeps_getDirectoriesIn: "keeps (=) (getDirectoriesIn d)"
  unfolding getDirectoriesIn_def by (intro reads.keeps_rules keeps_reads)

lemma sampleStart_run:
  "\<exists>srv s'. Run sampleStart startPlatform (bootDevice bootFilesSaved) = (Ok srv, s')"
proof -
  let ?s = "bootDevice bootFilesSaved"
  have c: "fst (GetRegistryCredentials (cfg_DevCredentialsRoot sampleStart) (cfg_RelCredentialsRoot sampleStart) (bootFiles ?s))
      = Ok \<lparr>cred_Username = [], cred_Password = [], cred_ServerAddress = ''registry''\<rparr>" by code_simp
  have m: "fst (GetManifestsDirectories (cfg_AssetsInstall sampleStart) (bootFiles ?s)) = Ok []" by code_simp
  have r: "fst (osReadFile (cfg_StateDirectory sampleStart @ [releaseFilename]) (bootFiles ?s)) = Ok (marshalRelease currentVersion)"
    by code_simp
  have d: "fst (getDirectoriesIn (cfg_PersistenceDropIn sampleStart) (bootFiles ?s)) = Ok []"
    "fst (getDirectoriesIn (cfg_CacheDropIn sampleStart) (bootFiles ?s)) = Ok []" by code_simp+
  have v: "node (bootFiles ?s) (cfg_PublicVolumes sampleStart) = Some Dir" by code_simp
  have g: "Atoi (Gid \<lparr>Uid = ''0'', Gid = ''0''\<rparr>) = Some 0" by code_simp
  have b: "bridge_Initialize miniNetwork \<lparr>newInitializedInternalBridgeId = [],
      bridge_docker = bridge_docker (docker (daemon_world (boot_daemon ?s)))\<rparr>
      = (Ok (), \<lparr>newInitializedInternalBridgeId = ''1f'', bridge_docker = \<lparr>mini_images = [], mini_volumes = []\<rparr>\<rparr>)" by code_simp
  show ?thesis
    using quiet_start [of sampleStart ?s _ startPlatform]
      keeps_reads_run [OF keeps_GetRegistryCredentials c] keeps_reads_run [OF keeps_GetManifestsDirectories m]
      keeps_reads_run [OF keeps_reads(2) r] keeps_reads_run [OF keeps_getDirectoriesIn d(1)]
      keeps_reads_run [OF keeps_getDirectoriesIn d(2)] v g b
    by (fastforce simp: startPlatform_def NewDockerCli_def)
qed

theorem start_leaves_no_transaction_open_witness:
  "\<not> IsTransactionOpen (scheduled (boot_daemon (snd (Run sampleStart startPlatform (bootDevice [])))))"
proof -
  have "\<not> IsTransactionOpen (scheduled (boot_daemon (bootDevice [])))" by (simp add: bootDevice_def IsTransactionOpen_def)
  from start_leaves_no_transaction_open [OF _ this] show ?thesis by (metis prod.collapse)
qed

theorem volumes_survive_a_start_witness:
  "map (\<lambda>(n, d). (n, drv_volumes d)) (plugins (snd (Run sampleStart startPlatform (bootDevice bootFilesSaved))))
     = [(''local-public-access'', Some [(''logs'', ''/state/public'')]), (''local-public'', Some [(''data'', ''/state/public/data'')])]"
proof -
  obtain srv s' where run: "Run sampleStart startPlatform (bootDevice bootFilesSaved) = (Ok srv, s')"
    using sampleStart_run by blast
  have a: "savedVolumes sampleStart (bootFiles (bootDevice bootFilesSaved)) LocalPublicVolumeAccessDriverName
      (Some [(''logs'', ''/state/public'')])" by code_simp
  have b: "savedVolumes sampleStart (bootFiles (bootDevice bootFilesSaved)) LocalPublicVolumeDriverName
      (Some [(''data'', ''/state/public/data'')])" by code_simp
  have "plugins (bootDevice bootFilesSaved) = []" by (simp add: bootDevice_def)
  then show ?thesis
    using volumes_survive_a_start [OF run a b] run
    by (auto simp: LocalPublicVolumeAccessDriverName_def LocalPublicVolumeDriverName_def)
qed

theorem unknown_release_is_refused_witness:
  "\<not> is_ok (fst (Run sampleStart startPlatform (bootDevice [([''state'', releaseFilename], File (marshalRelease ''9.0.0''))])))"
proof -
  let ?s = "bootDevice [([''state'', releaseFilename], File (marshalRelease ''9.0.0''))]"
  have n: "node (bootFiles ?s) (cfg_StateDirectory sampleStart @ [releaseFilename]) = Some (File (marshalRelease ''9.0.0''))"
    by (simp add: bootDevice_def sampleStart_def node_def releaseFilename_def)
  have f: "\<not> faulty (bootFiles ?s) OpOpen (cfg_StateDirectory sampleStart @ [releaseFilename])" by (simp add: bootDevice_def)
  have v: "''9.0.0'' \<notin> {currentVersion, ''0.3.2'', ''0.4.0'', ''0.5.0'', ''0.5.1'', ''0.5.2''}" by code_simp
  obtain r s' where run: "Run sampleStart startPlatform ?s = (r, s')" by fastforce
  from unknown_release_is_refused [OF n f v run] run show ?thesis by simp
qed

text \<open>A stack service that only notes which stacks it was asked to start, and refuses one of them.\<close>

definition notingStack :: "string list StackServiceAPI" where
  "notingStack =
     \<lparr>CreateStackWithDockerCompose = (\<lambda>_ _. ret ()), CreateStackWithoutStartWithDockerCompose = (\<lambda>_ _. ret ()),
      ListAllStackContainers = (\<lambda>_. fail (ErrorString ''no daemon'')), DeleteAddOnStack = (\<lambda>_. ret ()),
      DeleteDockerImages = (\<lambda>_. ret ()), ImportDockerImage = (\<lambda>_. ret ()), RemoveUnusedVolumes = (\<lambda>_ _. ret ()),
      InspectContainer = (\<lambda>_. fail (ErrorString ''no daemon'')),
      StartupStackNonBlocking = (\<lambda>n w. (if n = ''broken'' then Err (ErrorString ''no image'') else Ok (), n # w)),
      StopStack = (\<lambda>_. ret ()), VolumeInspect = (\<lambda>_. fail (ErrorString ''no daemon''))\<rparr>"

definition notingCatalogue :: "string list \<Rightarrow> string list LocalAddOnCatalogue" where
  "notingCatalogue ns =
     \<lparr>PullAddOn = (\<lambda>_ _. fail ErrorAddOnNotFound), lcat_DeleteAddOn = (\<lambda>_. ret ()), lcat_GetAddOn = (\<lambda>_. fail ErrorAddOnNotFound),
      GetAddOns = ret (map (\<lambda>n. \<lparr>ca_Name = n, ca_Version = ''1'', ca_Manifest = sampleRoot\<rparr>) ns),
      FetchManifest = (\<lambda>_ _. fail ErrorAddOnNotFound)\<rparr>"

theorem every_installed_addon_is_started_witness:
  "\<exists>w. StartInstalledAddOns (notingCatalogue [''a'', ''broken'', ''b'']) notingStack
      \<lparr>Initialize = ret (), IsConnected = (\<lambda>_. True), Reconnect = (\<lambda>_. ret ())\<rparr> [] = (Ok (), ''b'' # ''broken'' # ''a'' # w)"
  using every_installed_addon_is_started [of "notingCatalogue [''a'', ''broken'', ''b'']" "[]" _ "[]"
      "\<lparr>Initialize = ret (), IsConnected = (\<lambda>_. True), Reconnect = (\<lambda>_. ret ())\<rparr>" "[]" notingStack]
  by (simp add: notingCatalogue_def notingStack_def noPanic_def)

theorem public_volumes_are_searched_witness:
  "''volumes-public/app_data'' \<in> set (case fst (GetManifestsDirectories (cfg_AssetsInstall (startConfigFrom (\<lambda>_. None) ''arm'' ''linux''))
     \<lparr>nodes = [([''var'', ''lib'', ''uc-aom''], Dir),
        ([''var'', ''lib'', ''uc-aom'', ''volumes-public'', ''app_data'', UcImageManifestFilename], File (Text ''{}''))],
      faulty = (\<lambda>_ _. False)\<rparr>) of Ok ns \<Rightarrow> ns)"
proof -
  let ?q = "[''var'', ''lib'', ''uc-aom'', ''volumes-public'', ''app_data'', UcImageManifestFilename]"
  let ?fs = "\<lparr>nodes = [([''var'', ''lib'', ''uc-aom''], Dir), (?q, File (Text ''{}''))], faulty = (\<lambda>_ _. False)\<rparr>"
  have n: "node ?fs ?q = Some (File (Text ''{}''))" and d: "\<not> Contains (showPath ?q) DROP_IN_FOLDER_NAME"
    and r: "relDir [''var'', ''lib'', ''uc-aom''] ?q = ''volumes-public/app_data''" by code_simp+
  show ?thesis
    using public_volumes_are_searched [OF refl _ _ n d, of "''arm''" "''linux''"] r
    by (auto simp: default_directories node_def)
qed

end
