(* ===== verification/Update.thy ===== *)
theory Update
  imports Service
begin

text \<open>
  What a failed update or configuration leaves behind (\<^verbatim>\<open>internal/aom/service/replace_transaction.go\<close>). The rollback
  hooks undo an installation; neither action restores what it has deleted before.
\<close>

section \<open>Configuring\<close>

lemma GetAddOn_docker: "fst (local_GetAddOn c n (w\<lparr>docker := d\<rparr>)) = fst (local_GetAddOn c n w)"
  by (auto simp: local_GetAddOn_def tryM_def attemptM_def onFiles_run split: prod.splits res.splits goerror.splits)

lemma onWorld_docker: "onWorld (onDocker k) st =
    (fst (k (docker (st_world st))), st\<lparr>st_world := (st_world st)\<lparr>docker := snd (k (docker (st_world st)))\<rparr>\<rparr>)"
  by (simp add: onWorld_run onDocker_run)

text \<open>
  C10. A failed configuration. The old stack is deleted before the new one is created; when that fails, the rollback
  deletes the stack of the new one and the volumes of the add-on nobody uses then. The add-on stays in the
  catalogue, without a stack and without its data.
\<close>

theorem failed_configuration_loses_stack_and_volumes:
  assumes "svc_localCatalogue s = NewLocalAddOnCatalogue c" and "svc_stackService s = worldStack a"
    and "\<not> isCodesys n" and "fst (local_GetAddOn c n w) = Ok addOn"
    and "assignSettings settings (ca_Manifest addOn) = Ok m" and "deployable s m = Ok dockerCompose"
    and "DeleteAddOnStack a n (docker w) = (Ok (), d1)" and "CreateStackWithDockerCompose a n dockerCompose d1 = (Err e, d2)"
    and "DeleteAddOnStack a n d2 = (r3, d3)" and "ended r3"
    and "RemoveUnusedVolumes a n (GetVolumeNames (Environments m)) d3 = (r4, d4)" and "ended r4"
  shows "\<exists>st st'. ReplaceAddOnRoutine s n (ca_Version addOn) settings \<lparr>st_tx = BeginTx, st_world = w\<rparr> = (Err e, st)
    \<and> rollback st = (Ok (), st') \<and> st_world st' = w\<lparr>docker := d4\<rparr>
    \<and> fst (lcat_GetAddOn (svc_localCatalogue s) n (st_world st')) = Ok addOn"
proof -
  let ?t0 = "\<lparr>st_tx = BeginTx, st_world = w\<rparr>"
  have nm: "ca_Name addOn = n" using local_GetAddOn_OkD(2) [OF assms(4)] .
  have get: "onWorld (lcat_GetAddOn (svc_localCatalogue s) n) ?t0 = (Ok addOn, ?t0)"
    using assms(1,4) local_GetAddOn_state [of c n w] by (simp add: onWorld_run NewLocalAddOnCatalogue_def)
  let ?t1 = "BeginTx\<lparr>affected := Some \<lparr>aff_Name = n, aff_Title = Title (ca_Manifest addOn), aff_Operation = Configuring\<rparr>\<rparr>"
  have ctx: "onTx (setAddOnContext n (Title (ca_Manifest addOn)) Configuring) ?t0 = (Ok (), \<lparr>st_tx = ?t1, st_world = w\<rparr>)"
    by (simp add: onTx_run setAddOnContext_def modifyM_def BeginTx_def IsDone_def)
  let ?h = "stackHook s (addOn\<lparr>ca_Manifest := m\<rparr>)"
  let ?st = "\<lparr>st_tx = ?t1\<lparr>rollbackHooks := [?h]\<rparr>, st_world = w\<lparr>docker := d2\<rparr>\<rparr>"
  have conf: "configureAction s addOn settings \<lparr>st_tx = ?t1, st_world = w\<rparr> = (Err e, ?st)"
    using assms(2,5-8)
    by (simp add: configureAction_def tryM_def nm worldStack_def onWorld_docker subscribe_hook_def onTx_run
        SubscribeRollbackHook_def modifyM_def BeginTx_def liftR_def)
  have run: "ReplaceAddOnRoutine s n (ca_Version addOn) settings ?t0 = (Err e, ?st)"
    using assms(3) by (simp add: ReplaceAddOnRoutine_def tryM_def get nm ctx conf)
  have "onDocker (DeleteAddOnStack a n) (w\<lparr>docker := d2\<rparr>) = (r3, w\<lparr>docker := d3\<rparr>)" using assms(9) by (simp add: onDocker_run)
  moreover have "onDocker (RemoveUnusedVolumes a n (GetVolumeNames (Environments m))) (w\<lparr>docker := d3\<rparr>) = (r4, w\<lparr>docker := d4\<rparr>)"
    using assms(11) by (simp add: onDocker_run)
  ultimately have hook: "?h (w\<lparr>docker := d2\<rparr>) = (Ok (), w\<lparr>docker := d4\<rparr>)"
    using assms(2,10,12) nm by (simp add: stackHook_def worldStack_def removeUnusedVolumes_def tryM_def ignoreM_ended)
  have "ignoreM ?h (w\<lparr>docker := d2\<rparr>) = (Ok (), w\<lparr>docker := d4\<rparr>)" by (rule ignoreM_ended, rule hook) (simp add: ended_def)
  then have "\<exists>st'. rollback ?st = (Ok (), st') \<and> st_world st' = w\<lparr>docker := d4\<rparr>"
    by (simp add: rollback_def BeginTx_def tryM_def onWorld_run modifyM_def tx_close_def)
  then show ?thesis
    using run assms(1,4) by (auto simp: NewLocalAddOnCatalogue_def GetAddOn_docker)
qed

text \<open>An add-on with a volume, on a device whose Docker daemon cannot create the stack again.\<close>

definition manifestWithVolume :: json where
  "manifestWithVolume =
     JObj [(''manifestVersion'', JStr ''0.2''), (''version'', JStr ''1.0.0-1''), (''title'', JStr ''App''), (''logo'', JStr ''logo.png''),
       (''services'', JObj [(''app'', JObj [(''type'', JStr ''docker-compose''), (''config'', JObj [(''image'', JStr ''app:1'')])])]),
       (''environments'', JObj [(''e'', JObj [(''type'', JStr ''docker-compose''),
          (''config'', JObj [(''volumes'', JObj [(''data'', JObj [])])])])])]"

definition brokenStack :: "miniDocker StackServiceAPI" where
  "brokenStack = (stackAPI miniStack)\<lparr>CreateStackWithDockerCompose := (\<lambda>_ _. fail (ErrorString ''no space left on device''))\<rparr>"

definition serviceWithBrokenStack :: "(unit, miniDocker) AomService" where
  "serviceWithBrokenStack = sampleService\<lparr>svc_stackService := worldStack brokenStack\<rparr>"

definition deviceWithVolume :: "(unit, miniDocker) world" where
  "deviceWithVolume =
     (deviceWorld [([''inst'', ''app''], Dir), ([''inst'', ''app'', UcImageManifestFilename], File (Doc manifestWithVolume))])
       \<lparr>docker := \<lparr>mini_images = [''app:1''], mini_volumes = [(''app_data'', False), (''other_data'', False)]\<rparr>\<rparr>"

theorem failed_configuration_loses_stack_and_volumes_witness:
  "\<exists>st st'. ReplaceAddOnRoutine serviceWithBrokenStack ''app'' ''1.0.0-1'' [] \<lparr>st_tx = BeginTx, st_world = deviceWithVolume\<rparr>
        = (Err (ErrorString ''no space left on device''), st)
     \<and> rollback st = (Ok (), st') \<and> mini_volumes (docker (st_world st')) = [(''other_data'', False)]
     \<and> is_ok (fst (lcat_GetAddOn (svc_localCatalogue serviceWithBrokenStack) ''app'' (st_world st')))"
proof -
  let ?d = "docker deviceWithVolume"
  have c: "svc_localCatalogue serviceWithBrokenStack = NewLocalAddOnCatalogue sampleCatalogue"
    "svc_stackService serviceWithBrokenStack = worldStack brokenStack"
    by (simp_all add: serviceWithBrokenStack_def sampleService_def)
  have i: "\<not> isCodesys ''app''" by code_simp
  have g: "case fst (local_GetAddOn sampleCatalogue ''app'' deviceWithVolume) of
      Ok addOn \<Rightarrow> ca_Version addOn = ''1.0.0-1'' \<and> GetVolumeNames (Environments (ca_Manifest addOn)) = [''data'']
        \<and> is_ok (deployable serviceWithBrokenStack (ca_Manifest addOn))
    | _ \<Rightarrow> False" by code_simp
  then obtain addOn dockerCompose where a: "fst (local_GetAddOn sampleCatalogue ''app'' deviceWithVolume) = Ok addOn"
    "ca_Version addOn = ''1.0.0-1''" "GetVolumeNames (Environments (ca_Manifest addOn)) = [''data'']"
    "deployable serviceWithBrokenStack (ca_Manifest addOn) = Ok dockerCompose"
    by (auto split: res.splits) (metis is_ok.elims(2))
  have s: "assignSettings [] (ca_Manifest addOn) = Ok (ca_Manifest addOn)" by (simp add: assignSettings_def)
  have del: "DeleteAddOnStack brokenStack ''app'' d = (Ok (), d)" for d
    by (simp add: brokenStack_def stackAPI_def ss_DeleteAddOnStack_def miniStack_def NewStackService_def miniCompose_def ret_def)
  have cr: "CreateStackWithDockerCompose brokenStack ''app'' y d = (Err (ErrorString ''no space left on device''), d)" for y d
    by (simp add: brokenStack_def fail_def)
  let ?d4 = "?d\<lparr>mini_volumes := [(''other_data'', False)]\<rparr>"
  have vol: "RemoveUnusedVolumes brokenStack ''app'' (GetVolumeNames (Environments (ca_Manifest addOn))) ?d = (Ok (), ?d4)"
    unfolding a(3) by code_simp
  have e: "ended (Ok ())" by (simp add: ended_def)
  from failed_configuration_loses_stack_and_volumes [OF c i a(1) s a(4) del cr del e vol e] a(2)
  show ?thesis by auto
qed

section \<open>Updating\<close>

text \<open>What an update does before it deletes anything: the checks, and the settings to keep.\<close>

definition updateChecks ::
  "('r, 'd) AomService \<Rightarrow> CatalogueAddOn \<Rightarrow> string \<Rightarrow> Setting list \<Rightarrow> (('r, 'd) world, Setting list) go" where
  "updateChecks s addOn version settings =
     tryM (FetchManifest (svc_localCatalogue s) (ca_Name addOn) version) (\<lambda>futureManifest.
     tryM (liftR (ManifestVersionValidator_Validate (ManifestVersion futureManifest))) (\<lambda>_.
     tryM (liftR (checkCapabilities (svc_hostPlatform s) (svc_system s) futureManifest)) (\<lambda>_.
     updateSettings s (ca_Name addOn) futureManifest settings)))"

lemma updateAction_checks:
  "updateAction s addOn version settings =
     tryM (onWorld (updateChecks s addOn version settings)) (\<lambda>settings.
     tryM (onWorld (deleteAddOnExceptVolumes s addOn)) (\<lambda>_.
     tryM (CreateAddOnRoutine s (ca_Name addOn) version settings) (\<lambda>_.
     onWorld (removeUnusedVolumes s addOn))))"
  unfolding updateAction_def updateChecks_def
  by (rule ext) (auto simp: tryM_def onWorld_run liftR_def split: prod.splits res.splits)

lemma refusal_not_Ok [simp]: "refusal r \<noteq> Ok u" "Ok u \<noteq> refusal r"
  by (cases r; simp)+

lemma deleted_is_gone:
  assumes "svc_localCatalogue s = NewLocalAddOnCatalogue c" and "deleteAddOnExceptVolumes s addOn w = (Ok (), w')"
  shows "fst (local_GetAddOn c (ca_Name addOn) w') \<noteq> Ok a"
proof -
  from assms obtain w1 where "lcat_DeleteAddOn (NewLocalAddOnCatalogue c) (ca_Name addOn) w1 = (Ok (), w')"
    by (auto simp: deleteAddOnExceptVolumes_def deleteAddOnResources_def elim!: tryM_OkE)
  from installed.delete_gone [OF this] show ?thesis by (simp add: NewLocalAddOnCatalogue_def)
qed

text \<open>The update after its checks: either only the deletion has run, or the hook of the installation comes first.\<close>

lemma update_after_checks:
  assumes cat: "svc_localCatalogue s = NewLocalAddOnCatalogue c" and st0: "rollbackHooks (st_tx st0) = []"
    and run: "tryM (onWorld (deleteAddOnExceptVolumes s addOn)) (\<lambda>_.
      tryM (CreateAddOnRoutine s (ca_Name addOn) version settings) (\<lambda>_. onWorld (removeUnusedVolumes s addOn))) st0 = (Err e, st)"
  shows "(rollbackHooks (st_tx st) = [] \<and> deleteAddOnExceptVolumes s addOn (st_world st0) = (Err e, st_world st))
    \<or> (\<exists>w2. deleteAddOnExceptVolumes s addOn (st_world st0) = (Ok (), w2)
        \<and> (rollbackHooks (st_tx st) = [] \<and> st_world st = w2
           \<or> (\<exists>hs. rollbackHooks (st_tx st) = ignoreM (lcat_DeleteAddOn (svc_localCatalogue s) (ca_Name addOn)) # hs)))"
proof -
  obtain r1 w2 where del: "deleteAddOnExceptVolumes s addOn (st_world st0) = (r1, w2)" by (cases "deleteAddOnExceptVolumes s addOn (st_world st0)")
  show ?thesis
  proof (cases r1)
    case (Ok u)
    let ?st2 = "st0\<lparr>st_world := w2\<rparr>"
    obtain r st3 where cr: "CreateAddOnRoutine s (ca_Name addOn) version settings ?st2 = (r, st3)"
      by (cases "CreateAddOnRoutine s (ca_Name addOn) version settings ?st2")
    have tail: "(case r of Ok _ \<Rightarrow> onWorld (removeUnusedVolumes s addOn) st3 | Err e \<Rightarrow> (Err e, st3) | Panic p \<Rightarrow> (Panic p, st3)) = (Err e, st)"
      using run del cr Ok by (cases r) (simp_all add: tryM_def onWorld_run)
    have "rollbackHooks (st_tx st) = rollbackHooks (st_tx st3)" "r \<noteq> Ok () \<Longrightarrow> st = st3"
      using tail by (auto simp: onWorld_run split: res.splits)
    then show ?thesis
      using CreateAddOnRoutine_hooks [OF cat cr] st0 del Ok tail by (auto split: res.splits)
  qed (use run del st0 in \<open>auto simp: tryM_def onWorld_run\<close>)
qed

text \<open>The routine, from its checks on.\<close>

lemma ReplaceAddOnRoutine_update:
  assumes "svc_localCatalogue s = NewLocalAddOnCatalogue c" and "fst (local_GetAddOn c n w) = Ok addOn"
    and "ca_Version addOn \<noteq> version" and "\<not> isCodesys n"
  obtains t1 where "rollbackHooks t1 = []" and "ReplaceAddOnRoutine s n version settings \<lparr>st_tx = BeginTx, st_world = w\<rparr> =
    tryM (onWorld (updateChecks s addOn version settings)) (\<lambda>settings.
    tryM (onWorld (deleteAddOnExceptVolumes s addOn)) (\<lambda>_.
    tryM (CreateAddOnRoutine s (ca_Name addOn) version settings) (\<lambda>_. onWorld (removeUnusedVolumes s addOn))))
    \<lparr>st_tx = t1, st_world = w\<rparr>"
proof -
  let ?t0 = "\<lparr>st_tx = BeginTx, st_world = w\<rparr>"
  have get: "onWorld (lcat_GetAddOn (svc_localCatalogue s) n) ?t0 = (Ok addOn, ?t0)"
    using assms(1,2) local_GetAddOn_state [of c n w] by (simp add: onWorld_run NewLocalAddOnCatalogue_def)
  obtain t1 where ctx: "onTx (setAddOnContext n (Title (ca_Manifest addOn)) Updating) ?t0 = (Ok (), \<lparr>st_tx = t1, st_world = w\<rparr>)"
    and t1: "rollbackHooks t1 = []" by (simp add: onTx_run setAddOnContext_def modifyM_def BeginTx_def)
  show thesis
    using that [OF t1] assms(3,4) local_GetAddOn_OkD(2) [OF assms(2)]
    unfolding updateAction_checks [symmetric] by (simp add: ReplaceAddOnRoutine_def tryM_def get ctx)
qed

text \<open>When the hook of the installation is the first, the rollback ends with the deletion of the directory.\<close>

lemma rollback_leaves_none:
  assumes "svc_localCatalogue s = NewLocalAddOnCatalogue c" and "rollback st = (Ok (), st')"
    and "rollbackHooks (st_tx st) = ignoreM (lcat_DeleteAddOn (svc_localCatalogue s) n) # hs"
  shows "(\<forall>a. fst (lcat_GetAddOn (svc_localCatalogue s) n (st_world st')) \<noteq> Ok a)
    \<or> (\<exists>w3 err. lcat_DeleteAddOn (svc_localCatalogue s) n w3 = (Err err, st_world st'))"
proof -
  let ?del = "lcat_DeleteAddOn (svc_localCatalogue s) n"
  obtain w3 where d: "?del w3 = (fst (?del w3), st_world st')" and ends: "ended (fst (?del w3))"
    using rollback_ends_with [OF assms(3,2)] .
  show ?thesis
  proof (cases "fst (?del w3)")
    case (Ok u)
    then show ?thesis using d assms(1) installed.delete_gone [of c n w3 "st_world st'"] by simp
  next
    case (Err err)
    then show ?thesis using d by metis
  qed (use ends in \<open>simp add: ended_def\<close>)
qed

text \<open>
  C9. The three ways a failed update ends, after the rollback. The checks failed: they alone have run, and nothing is
  undone. The deletion of the installed version failed half-way: that is how the device stays. Or the deletion
  succeeded: then the old version does not come back, and unless the deletion of its directory fails in the end
  no version of the add-on is installed.
\<close>

theorem failed_update_does_not_restore:
  assumes "svc_localCatalogue s = NewLocalAddOnCatalogue c" and "fst (local_GetAddOn c n w) = Ok addOn"
    and "ca_Version addOn \<noteq> version"
    and "ReplaceAddOnRoutine s n version settings \<lparr>st_tx = BeginTx, st_world = w\<rparr> = (Err e, st)"
    and "rollback st = (Ok (), st')" and "\<not> isCodesys n"
  shows "updateChecks s addOn version settings w = (Err e, st_world st')
    \<or> (\<exists>settings' w1. updateChecks s addOn version settings w = (Ok settings', w1)
        \<and> (deleteAddOnExceptVolumes s addOn w1 = (Err e, st_world st')
           \<or> (\<exists>w2. deleteAddOnExceptVolumes s addOn w1 = (Ok (), w2)
               \<and> ((\<forall>a. fst (lcat_GetAddOn (svc_localCatalogue s) n (st_world st')) \<noteq> Ok a)
                  \<or> (\<exists>w3 err. lcat_DeleteAddOn (svc_localCatalogue s) n w3 = (Err err, st_world st'))))))"
proof -
  have nm: "ca_Name addOn = n" using local_GetAddOn_OkD(2) [OF assms(2)] .
  from ReplaceAddOnRoutine_update [OF assms(1-3,6)] assms(4) obtain t1 where t1: "rollbackHooks t1 = []"
    and run: "tryM (onWorld (updateChecks s addOn version settings)) (\<lambda>settings.
      tryM (onWorld (deleteAddOnExceptVolumes s addOn)) (\<lambda>_.
      tryM (CreateAddOnRoutine s (ca_Name addOn) version settings) (\<lambda>_. onWorld (removeUnusedVolumes s addOn))))
      \<lparr>st_tx = t1, st_world = w\<rparr> = (Err e, st)" by metis
  obtain r w1 where chk: "updateChecks s addOn version settings w = (r, w1)" by (cases "updateChecks s addOn version settings w")
  show ?thesis
  proof (cases r)
    case (Ok settings')
    let ?st0 = "\<lparr>st_tx = t1, st_world = w1\<rparr>"
    have after: "tryM (onWorld (deleteAddOnExceptVolumes s addOn)) (\<lambda>_.
        tryM (CreateAddOnRoutine s (ca_Name addOn) version settings') (\<lambda>_. onWorld (removeUnusedVolumes s addOn))) ?st0 = (Err e, st)"
      using run by (simp add: tryM_def [of "onWorld (updateChecks s addOn version settings)"] onWorld_run chk Ok)
    from t1 have "rollbackHooks (st_tx ?st0) = []" by simp
    from update_after_checks [OF assms(1) this after] consider
        (deleting) "rollbackHooks (st_tx st) = []" "deleteAddOnExceptVolumes s addOn w1 = (Err e, st_world st)"
      | (refused) "deleteAddOnExceptVolumes s addOn w1 = (Ok (), st_world st)" "rollbackHooks (st_tx st) = []"
      | (begun) w2 hs where "deleteAddOnExceptVolumes s addOn w1 = (Ok (), w2)"
          "rollbackHooks (st_tx st) = ignoreM (lcat_DeleteAddOn (svc_localCatalogue s) n) # hs"
      using nm by auto
    then show ?thesis
    proof cases
      case deleting
      then show ?thesis using rollback_nothing [OF _ assms(5)] chk Ok by simp
    next
      case refused
      then show ?thesis
        using rollback_nothing [OF _ assms(5)] deleted_is_gone [OF assms(1)] chk Ok nm assms(1)
        by (simp add: NewLocalAddOnCatalogue_def) metis
    next
      case begun
      then show ?thesis using rollback_leaves_none [OF assms(1,5) begun(2)] chk Ok by blast
    qed
  qed (use run chk rollback_nothing [OF _ assms(5)] t1 in \<open>auto simp: tryM_def onWorld_run\<close>)
qed

text \<open>A registry whose manifest names the device's platform, on a device whose free space cannot be read.\<close>

definition platformManifest :: json where
  "platformManifest =
     JObj [(''manifestVersion'', JStr ''0.2''), (''version'', JStr ''1.0.0-1''), (''title'', JStr ''App''), (''logo'', JStr ''logo.png''),
       (''platform'', JArr [JStr ''ucm'']),
       (''services'', JObj [(''app'', JObj [(''type'', JStr ''docker-compose''), (''config'', JObj [(''image'', JStr ''app:1'')])])])]"

definition platformRegistry :: "('r, 'd) world AddOnRegistry" where
  "platformRegistry = manifestRegistry\<lparr>Pull := (\<lambda>_ _ p.
     tryM (Action p (ManifestReader (sampleLayerContent\<lparr>mlc_Manifest := Doc platformManifest\<rparr>)) UcImageLayerMediaType) (\<lambda>_.
     ret 2500))\<rparr>"

definition platformCatalogue :: "('r, 'd) localAddOnCatalogue" where
  "platformCatalogue = sampleCatalogue\<lparr>lc_registry := platformRegistry\<rparr>"

definition platformService :: "(unit, miniDocker) AomService" where
  "platformService = sampleService\<lparr>svc_localCatalogue := NewLocalAddOnCatalogue platformCatalogue\<rparr>"

theorem failed_update_does_not_restore_witness:
  "\<exists>addOn st st' w1 w2. fst (local_GetAddOn platformCatalogue ''app'' deviceWithApp) = Ok addOn
     \<and> ReplaceAddOnRoutine platformService ''app'' ''1.0.0-2'' [] \<lparr>st_tx = BeginTx, st_world = deviceWithApp\<rparr>
         = (Err (ErrorString ''statfs''), st) \<and> rollback st = (Ok (), st')
     \<and> deleteAddOnExceptVolumes platformService addOn w1 = (Ok (), w2)
     \<and> \<not> is_ok (fst (lcat_GetAddOn (svc_localCatalogue platformService) ''app'' (st_world st')))"
proof -
  let ?run = "ReplaceAddOnRoutine platformService ''app'' ''1.0.0-2'' [] \<lparr>st_tx = BeginTx, st_world = deviceWithApp\<rparr>"
  have c: "svc_localCatalogue platformService = NewLocalAddOnCatalogue platformCatalogue" by (simp add: platformService_def)
  have g: "case fst (local_GetAddOn platformCatalogue ''app'' deviceWithApp) of
      Ok addOn \<Rightarrow> ca_Version addOn \<noteq> ''1.0.0-2'' \<and> (case updateChecks platformService addOn ''1.0.0-2'' [] deviceWithApp of
          (Ok _, w1) \<Rightarrow> is_ok (fst (deleteAddOnExceptVolumes platformService addOn w1)) | _ \<Rightarrow> False)
    | _ \<Rightarrow> False" by code_simp
  then obtain addOn where a: "fst (local_GetAddOn platformCatalogue ''app'' deviceWithApp) = Ok addOn" "ca_Version addOn \<noteq> ''1.0.0-2''"
    and g': "case updateChecks platformService addOn ''1.0.0-2'' [] deviceWithApp of
        (Ok _, w1) \<Rightarrow> is_ok (fst (deleteAddOnExceptVolumes platformService addOn w1)) | _ \<Rightarrow> False"
    by (cases "fst (local_GetAddOn platformCatalogue ''app'' deviceWithApp)") simp_all
  from g' obtain s1 w1 where w1: "updateChecks platformService addOn ''1.0.0-2'' [] deviceWithApp = (Ok s1, w1)"
    "is_ok (fst (deleteAddOnExceptVolumes platformService addOn w1))"
    by (cases "updateChecks platformService addOn ''1.0.0-2'' [] deviceWithApp";
        cases "fst (updateChecks platformService addOn ''1.0.0-2'' [] deviceWithApp)") simp_all
  have "\<not> isCodesys ''app'' \<and> (case ?run of (r, st) \<Rightarrow> r = Err (ErrorString ''statfs'') \<and> (case rollback st of (r', st') \<Rightarrow>
      r' = Ok () \<and> \<not> is_ok (fst (lcat_GetAddOn (svc_localCatalogue platformService) ''app'' (st_world st')))))" by code_simp
  then obtain st st' where i: "\<not> isCodesys ''app''" and run: "?run = (Err (ErrorString ''statfs''), st)" and rb: "rollback st = (Ok (), st')"
    and gone: "\<not> is_ok (fst (lcat_GetAddOn (svc_localCatalogue platformService) ''app'' (st_world st')))"
    by (auto split: prod.splits)
  from failed_update_does_not_restore [OF c a run rb i] w1
  obtain w2 where "deleteAddOnExceptVolumes platformService addOn w1 = (Ok (), w2)" by auto
  then show ?thesis using a run rb gone by blast
qed

end
