(* ===== verification/Watcher.thy ===== *)
theory Watcher
  imports FileServer
begin

unbundle bit_operations_syntax

text \<open>
  \<^verbatim>\<open>internal/aom/fileserver/swupdate_watcher.go\<close> and the goroutine of \<^verbatim>\<open>StartSWUpdateWatcher\<close>: the progress messages of
  \<^verbatim>\<open>swupdate\<close>, byte by byte, and the two goroutines that read and handle them as a step relation. Its runs are
  those of the loop \<open>watchLoop\<close> of \<open>FileServer\<close>, whatever the interleaving.
\<close>

section \<open>Progress messages\<close>

datatype RecoveryStatus =
  ST_IDLE | ST_START | ST_RUN | ST_SUCCESS | ST_FAILURE | ST_DOWNLOAD | ST_DONE | ST_SUBPROCESS | ST_PROGRESS

fun recoveryNumber :: "RecoveryStatus \<Rightarrow> nat" where
  "recoveryNumber ST_IDLE = 0"
| "recoveryNumber ST_START = 1"
| "recoveryNumber ST_RUN = 2"
| "recoveryNumber ST_SUCCESS = 3"
| "recoveryNumber ST_FAILURE = 4"
| "recoveryNumber ST_DOWNLOAD = 5"
| "recoveryNumber ST_DONE = 6"
| "recoveryNumber ST_SUBPROCESS = 7"
| "recoveryNumber ST_PROGRESS = 8"

record ProgressMsg =
  pm_Magic :: "32 word"
  pm_Status :: "64 word"
  pm_DwlPercent :: "32 word"
  pm_DwlBytes :: "64 word"
  pm_NSteps :: "32 word"
  pm_CurStep :: "32 word"
  pm_CurPercentage :: "32 word"
  pm_CurImage :: "8 word list"
  pm_HndName :: "8 word list"
  pm_Source :: "64 word"
  pm_InfoLen :: "32 word"
  pm_Info :: "8 word list"

text \<open>Little-endian numbers of any width.\<close>

fun leWord :: "8 word list \<Rightarrow> 'a::len word" where
  "leWord [] = 0"
| "leWord (b # bs) = ucast b OR push_bit 8 (leWord bs)"

fun leBytes :: "nat \<Rightarrow> 'a::len word \<Rightarrow> 8 word list" where
  "leBytes 0 w = []"
| "leBytes (Suc n) w = ucast w # leBytes n (drop_bit 8 w)"

definition field :: "8 word list \<Rightarrow> nat \<Rightarrow> nat \<Rightarrow> 8 word list" where
  "field buf offset n = take n (drop offset buf)"

text \<open>\<^verbatim>\<open>binary.Read\<close> takes the fields one behind the other, without padding.\<close>

definition progressMsgSize :: nat where
  "progressMsgSize = 2416"

definition readProgressMsg :: "8 word list \<Rightarrow> ProgressMsg res" where
  "readProgressMsg buf =
     (if length buf < progressMsgSize then Err (ErrorString ''unexpected EOF'')
      else Ok
        \<lparr>pm_Magic = leWord (field buf 0 4), pm_Status = leWord (field buf 4 8), pm_DwlPercent = leWord (field buf 12 4),
         pm_DwlBytes = leWord (field buf 16 8), pm_NSteps = leWord (field buf 24 4), pm_CurStep = leWord (field buf 28 4),
         pm_CurPercentage = leWord (field buf 32 4), pm_CurImage = field buf 36 256, pm_HndName = field buf 292 64,
         pm_Source = leWord (field buf 356 8), pm_InfoLen = leWord (field buf 364 4), pm_Info = field buf 368 2048\<rparr>)"

definition writeProgressMsg :: "ProgressMsg \<Rightarrow> 8 word list" where
  "writeProgressMsg m =
     concat [leBytes 4 (pm_Magic m), leBytes 8 (pm_Status m), leBytes 4 (pm_DwlPercent m), leBytes 8 (pm_DwlBytes m),
       leBytes 4 (pm_NSteps m), leBytes 4 (pm_CurStep m), leBytes 4 (pm_CurPercentage m), pm_CurImage m, pm_HndName m,
       leBytes 8 (pm_Source m), leBytes 4 (pm_InfoLen m), pm_Info m]"

lemma length_leBytes [simp]: "length (leBytes n w) = n"
  by (induction n arbitrary: w) auto

lemma leWord_leBytes: "(leWord (leBytes n (w :: 'a::len word)) :: 'b::len word) = ucast (take_bit (8 * n) w)"
proof (induction n arbitrary: w)
  case (Suc n)
  show ?case
    by (rule bit_eqI) (auto simp: Suc bit_simps less_diff_conv2 dest: bit_imp_le_length)
qed simp

lemma leWord_append: "leWord (xs @ ys) = leWord xs OR push_bit (8 * length xs) (leWord ys)"
  by (induction xs) (simp_all add: push_bit_or or.assoc add.commute)

lemma leWord_bytes [simp]:
  "(leWord (leBytes 4 (w :: 32 word)) :: 32 word) = w" "(leWord (leBytes 8 (v :: 64 word)) :: 64 word) = v"
  by (simp_all add: leWord_leBytes take_bit_word_eq_self)

lemma littleEndian_leWord: "littleEndian bs = leWord bs"
proof (induction bs)
  case (Cons b bs)
  have "push_bit 8 (littleEndian bs) + ucast b = push_bit 8 (littleEndian bs) OR (ucast b :: 64 word)"
    by (rule disjunctive_add_eq_or) (rule bit_eqI, auto simp: bit_simps dest: bit_imp_le_length)
  then show ?case
    using Cons by (simp add: littleEndian_def push_bit_eq_mult or.commute)
qed (simp add: littleEndian_def)

lemma field_append:
  "n \<le> length xs \<Longrightarrow> field (xs @ ys) 0 n = take n xs" "length xs \<le> i \<Longrightarrow> field (xs @ ys) i n = field ys (i - length xs) n"
  by (simp_all add: field_def)

lemma readProgressMsg_writeProgressMsg:
  assumes "length (pm_CurImage m) = 256" "length (pm_HndName m) = 64" "length (pm_Info m) = 2048"
  shows "length (writeProgressMsg m) = progressMsgSize \<and> readProgressMsg (writeProgressMsg m) = Ok m
    \<and> messageStatus (writeProgressMsg m) = pm_Status m"
proof -
  note l = assms
  have "length (writeProgressMsg m) = progressMsgSize" by (simp add: writeProgressMsg_def l progressMsgSize_def)
  moreover have "readProgressMsg (writeProgressMsg m) = Ok m"
    by (simp add: readProgressMsg_def calculation, simp add: writeProgressMsg_def field_def l)
  moreover have "messageStatus (writeProgressMsg m) = pm_Status m"
    by (simp add: messageStatus_def littleEndian_leWord writeProgressMsg_def)
  ultimately show ?thesis by blast
qed

lemma uint_two_halves:
  fixes a b :: "32 word"
  shows "uint (ucast a + push_bit 32 (ucast b) :: 64 word) = uint a + 2 ^ 32 * uint b"
proof -
  have "uint a < 2 ^ 32" "uint b < 2 ^ 32" "0 \<le> uint a" "0 \<le> uint b"
    using uint_bounded [of a] uint_bounded [of b] by simp_all
  then have "(uint a + 2 ^ 32 * uint b) mod 2 ^ 64 = uint a + 2 ^ 32 * uint b" by (intro mod_pos_pos_trivial) auto
  moreover have "uint (ucast a :: 64 word) = uint a" "uint (ucast b :: 64 word) = uint b"
    using calculation uint_bounded [of a] uint_bounded [of b]
    by (simp_all add: unsigned_ucast_eq take_bit_int_eq_self_iff)
  ultimately show ?thesis
    by (simp add: push_bit_eq_mult uint_word_ariths mod_simps mult.commute)
qed

text \<open>
  C31. When is a message taken for a success? A message that was written with the fields of \<^verbatim>\<open>ProgressMsg\<close> is read
  back as it was, in exactly the bytes of the buffer, and counts as a success if its status is \<^verbatim>\<open>SUCCESS\<close>. The
  progress interface the source refers to has 32-bit numbers for magic, status and percentage, one behind the
  other: of such a message the status is taken together with the percentage of the download behind it, so a
  success counts only while that percentage is zero.
\<close>

theorem success_needs_zero_percentage:
  "(length (pm_CurImage m) = 256 \<and> length (pm_HndName m) = 64 \<and> length (pm_Info m) = 2048 \<longrightarrow>
      length (writeProgressMsg m) = progressMsgSize \<and> readProgressMsg (writeProgressMsg m) = Ok m \<and>
      (messageStatus (writeProgressMsg m) = SUCCESS \<longleftrightarrow> unat (pm_Status m) = recoveryNumber ST_SUCCESS))
    \<and> (field buf 4 8 = leBytes 4 (status :: 32 word) @ leBytes 4 (percent :: 32 word) \<longrightarrow>
      uint (messageStatus buf) = uint status + 2 ^ 32 * uint percent \<and>
      (messageStatus buf = SUCCESS \<longleftrightarrow> unat status = recoveryNumber ST_SUCCESS \<and> percent = 0))"
proof (intro conjI [OF impI impI], goal_cases)
  case 1
  then show ?case
    using readProgressMsg_writeProgressMsg [of m] by (simp add: SUCCESS_def word_unat_eq_iff)
next
  case 2
  then have "messageStatus buf = ucast status OR push_bit 32 (ucast percent)"
    by (simp add: messageStatus_def field_def littleEndian_leWord leWord_append leWord_leBytes take_bit_word_eq_self)
  also have "\<dots> = ucast status + push_bit 32 (ucast percent)"
    by (rule disjunctive_add_eq_or [symmetric]) (rule bit_eqI, auto simp: bit_simps dest: bit_imp_le_length)
  finally have u: "uint (messageStatus buf) = uint status + 2 ^ 32 * uint percent"
    using uint_two_halves [of status percent] by simp
  have small: "x + 2 ^ 32 * y = 3 \<longleftrightarrow> x = 3 \<and> y = 0" if "0 \<le> x" "0 \<le> y" for x y :: int
    using that by (cases "y = 0") auto
  have "messageStatus buf = SUCCESS \<longleftrightarrow> uint (messageStatus buf) = 3"
    by (simp add: SUCCESS_def word_uint_eq_iff)
  also have "\<dots> \<longleftrightarrow> uint status = 3 \<and> uint percent = 0" unfolding u
    using small [of "uint status" "uint percent"] by simp
  also have "\<dots> \<longleftrightarrow> unat status = recoveryNumber ST_SUCCESS \<and> percent = 0"
    unfolding uint_nat unat_0_iff [symmetric] recoveryNumber.simps of_nat_eq_0_iff by linarith
  finally show ?case using u by blast
qed

definition sampleMessage :: ProgressMsg where
  "sampleMessage =
     \<lparr>pm_Magic = 0x1234, pm_Status = 3, pm_DwlPercent = 0, pm_DwlBytes = 7, pm_NSteps = 1, pm_CurStep = 1, pm_CurPercentage = 100,
      pm_CurImage = replicate 256 0, pm_HndName = replicate 64 0, pm_Source = 4, pm_InfoLen = 0, pm_Info = replicate 2048 0\<rparr>"

theorem success_needs_zero_percentage_witness:
  "messageStatus (writeProgressMsg sampleMessage) = SUCCESS
     \<and> messageStatus ([1, 0, 0, 0] @ leBytes 4 (3 :: 32 word) @ leBytes 4 (100 :: 32 word)) \<noteq> SUCCESS"
proof -
  have f: "field ([1, 0, 0, 0] @ leBytes 4 (3 :: 32 word) @ leBytes 4 (100 :: 32 word)) 4 8
      = leBytes 4 (3 :: 32 word) @ leBytes 4 (100 :: 32 word)"
    by (simp add: field_def)
  have l: "length (pm_CurImage sampleMessage) = 256 \<and> length (pm_HndName sampleMessage) = 64 \<and> length (pm_Info sampleMessage) = 2048"
    and st: "unat (pm_Status sampleMessage) = recoveryNumber ST_SUCCESS" by (simp_all add: sampleMessage_def)
  note p = success_needs_zero_percentage [of sampleMessage "[1, 0, 0, 0] @ leBytes 4 (3 :: 32 word) @ leBytes 4 (100 :: 32 word)" 3 100]
  from mp [OF conjunct1 [OF p] l] st mp [OF conjunct2 [OF p] f] show ?thesis by simp
qed

section \<open>Two goroutines\<close>

text \<open>
  The listener reads from the connection that is in \<^verbatim>\<open>u.conn\<close> when it calls \<^verbatim>\<open>Read\<close>, sends an error first and then
  a message, and starts over. Both channels are unbuffered: a send is handed over when the watcher is at its
  \<^verbatim>\<open>select\<close>. What a read yields is open: an error or not, and any bytes.
\<close>

datatype listenerPc =
    L_Loop
  | L_Reading nat
  | L_SendError "8 word list" nat
  | L_SendStatus "8 word list"

datatype watcherPc = W_Select | W_Installing | W_Reconnecting | W_Returned | W_Panicked

text \<open>The caller of \<^verbatim>\<open>StopSWUpdateWatcher\<close> sends on an unbuffered channel too.\<close>

datatype stopperPc = P_Before | P_Sending | P_Returned

text \<open>Connections are numbered; \<open>ws_events\<close> and \<open>ws_broken\<close> record what the watcher received and which reads failed.\<close>

record 'w watchSystem =
  ws_listener :: listenerPc
  ws_watcher :: watcherPc
  ws_stopper :: stopperPc
  ws_conn :: nat
  ws_daemon :: "'w Daemon"
  ws_events :: "watchEvent list"
  ws_broken :: "nat list"

definition afterRead :: "8 word list \<Rightarrow> nat \<Rightarrow> listenerPc" where
  "afterRead buf mLen = (if mLen > 0 then L_SendStatus buf else L_Loop)"

text \<open>
  The steps of the listener: with the number of the connection in \<^verbatim>\<open>u.conn\<close>, the connections whose read has failed in
  the step, and what it hands over to the watcher, if anything.
\<close>

inductive ListenOnStatus :: "nat \<Rightarrow> listenerPc \<Rightarrow> nat list \<Rightarrow> watchEvent option \<Rightarrow> listenerPc \<Rightarrow> bool" where
  read_call: "ListenOnStatus conn L_Loop [] None (L_Reading conn)"
| read_bytes: "ListenOnStatus conn (L_Reading c) [] None (afterRead buf mLen)"
| read_error: "ListenOnStatus conn (L_Reading c) [c] None (L_SendError buf mLen)"
| send_error: "ListenOnStatus conn (L_SendError buf mLen) [] (Some ReadError) (afterRead buf mLen)"
| send_status: "ListenOnStatus conn (L_SendStatus buf) [] (Some (StatusMessage buf)) L_Loop"

inductive_simps ListenOnStatus_simps [simp]:
  "ListenOnStatus conn L_Loop broken e l" "ListenOnStatus conn (L_Reading c) broken e l"
  "ListenOnStatus conn (L_SendError buf mLen) broken e l" "ListenOnStatus conn (L_SendStatus buf) broken e l"

text \<open>The case of the \<^verbatim>\<open>select\<close> for what the listener hands over.\<close>

definition selected :: "watchEvent \<Rightarrow> watcherPc" where
  "selected e =
     (case e of
        StatusMessage buf \<Rightarrow> if messageStatus buf = SUCCESS then W_Installing else W_Select
      | ReadError \<Rightarrow> W_Reconnecting
      | StopRequest \<Rightarrow> W_Returned)"

definition afterCall :: "'a res \<Rightarrow> watcherPc \<Rightarrow> watcherPc \<Rightarrow> watcherPc" where
  "afterCall r ok err = (case r of Ok _ \<Rightarrow> ok | Err _ \<Rightarrow> err | Panic _ \<Rightarrow> W_Panicked)"

inductive watchStep ::
  "'v version_api \<Rightarrow> 'w FileServer \<Rightarrow> ('w Daemon, unit) go \<Rightarrow> 'w watchSystem \<Rightarrow> 'w watchSystem \<Rightarrow> bool"
  for api :: "'v version_api" and s :: "'w FileServer" and dial :: "('w Daemon, unit) go" where
  listen: "ListenOnStatus (ws_conn x) (ws_listener x) broken None l \<Longrightarrow>
    watchStep api s dial x (x\<lparr>ws_listener := l, ws_broken := ws_broken x @ broken\<rparr>)"
| hand_over: "ListenOnStatus (ws_conn x) (ws_listener x) broken (Some e) l \<Longrightarrow> ws_watcher x = W_Select \<Longrightarrow>
    watchStep api s dial x (x\<lparr>ws_listener := l, ws_watcher := selected e, ws_events := ws_events x @ [e]\<rparr>)"
| install: "ws_watcher x = W_Installing \<Longrightarrow> ignoreM (InstallAllDropInAddOns api s) (ws_daemon x) = (r, d) \<Longrightarrow>
    watchStep api s dial x (x\<lparr>ws_watcher := afterCall r W_Select W_Select, ws_daemon := d\<rparr>)"
| reconnect: "ws_watcher x = W_Reconnecting \<Longrightarrow> watcher_Connect dial (ws_daemon x) = (r, d) \<Longrightarrow>
    watchStep api s dial x
      (x\<lparr>ws_watcher := afterCall r W_Select W_Returned, ws_daemon := d,
         ws_conn := (if is_ok r then Suc (ws_conn x) else ws_conn x)\<rparr>)"
| StopSWUpdateWatcher: "ws_stopper x = P_Before \<Longrightarrow> watchStep api s dial x (x\<lparr>ws_stopper := P_Sending\<rparr>)"
| hand_stop: "ws_stopper x = P_Sending \<Longrightarrow> ws_watcher x = W_Select \<Longrightarrow>
    watchStep api s dial x (x\<lparr>ws_stopper := P_Returned, ws_watcher := selected StopRequest, ws_events := ws_events x @ [StopRequest]\<rparr>)"

inductive_cases watchStepE: "watchStep api s dial x y"

definition watchStart :: "'w Daemon \<Rightarrow> 'w watchSystem" where
  "watchStart d =
     \<lparr>ws_listener = L_Loop, ws_watcher = W_Select, ws_stopper = P_Before, ws_conn = 0, ws_daemon = d, ws_events = [], ws_broken = []\<rparr>"

definition watchReachable ::
  "'v version_api \<Rightarrow> 'w FileServer \<Rightarrow> ('w Daemon, unit) go \<Rightarrow> 'w Daemon \<Rightarrow> 'w watchSystem \<Rightarrow> bool" where
  "watchReachable api s dial d x \<longleftrightarrow> (watchStep api s dial)\<^sup>*\<^sup>* (watchStart d) x"

text \<open>What the sequential loop has still to do in a state of the two goroutines.\<close>

definition remaining ::
  "'v version_api \<Rightarrow> 'w FileServer \<Rightarrow> ('w Daemon, unit) go \<Rightarrow> watcherPc \<Rightarrow> watchEvent list \<Rightarrow> ('w Daemon, unit) go" where
  "remaining api s dial pc es =
     (case pc of
        W_Select \<Rightarrow> watchLoop api s dial es
      | W_Installing \<Rightarrow> tryM (ignoreM (InstallAllDropInAddOns api s)) (\<lambda>_. watchLoop api s dial es)
      | W_Reconnecting \<Rightarrow>
          tryM (attemptM (watcher_Connect dial)) (\<lambda>r. case r of Inl _ \<Rightarrow> ret () | Inr _ \<Rightarrow> watchLoop api s dial es)
      | _ \<Rightarrow> ret ())"

definition followsLoop ::
  "'v version_api \<Rightarrow> 'w FileServer \<Rightarrow> ('w Daemon, unit) go \<Rightarrow> 'w Daemon \<Rightarrow> 'w watchSystem \<Rightarrow> bool" where
  "followsLoop api s dial d x \<longleftrightarrow>
     (\<forall>rest. if ws_watcher x = W_Panicked
        then \<exists>t. watchLoop api s dial (ws_events x @ rest) d = (Panic t, ws_daemon x)
        else watchLoop api s dial (ws_events x @ rest) d = remaining api s dial (ws_watcher x) rest (ws_daemon x))"

lemma followsLoop_event:
  assumes "followsLoop api s dial d x" and "ws_watcher x = W_Select" and "ws_events y = ws_events x @ [e]"
    and "ws_daemon y = ws_daemon x" and "ws_watcher y \<noteq> W_Panicked"
    and "\<And>rest. watchLoop api s dial (e # rest) = remaining api s dial (ws_watcher y) rest"
  shows "followsLoop api s dial d y"
  using assms by (simp add: followsLoop_def remaining_def)

lemma ignoreM_result: "fst (ignoreM m s) \<noteq> Err e"
  by (simp add: ignoreM_def tryM_def attemptM_def split: prod.splits res.splits)

lemma followsLoop_step:
  "watchStep api s dial x y \<Longrightarrow> followsLoop api s dial d x \<Longrightarrow> followsLoop api s dial d y"
proof (induction rule: watchStep.induct)
  case (hand_over x broken e l)
  have "selected e \<noteq> W_Panicked" by (simp add: selected_def split: watchEvent.splits)
  then show ?case
    by (intro followsLoop_event [OF hand_over.prems hand_over.hyps(2), where e = e])
      (auto simp: remaining_def selected_def fun_eq_iff split: watchEvent.splits)
next
  case (hand_stop x)
  show ?case
    by (rule followsLoop_event [OF hand_stop.prems hand_stop.hyps(2), where e = StopRequest]) (simp_all add: remaining_def selected_def fun_eq_iff)
next
  case (install x r d')
  have l: "watchLoop api s dial (ws_events x @ rest) d = tryM (ignoreM (InstallAllDropInAddOns api s))
      (\<lambda>_. watchLoop api s dial rest) (ws_daemon x)" for rest
    using install.prems install.hyps(1) by (simp add: followsLoop_def remaining_def)
  have noErr: "r \<noteq> Err e" for e using install.hyps(2) ignoreM_result [of "InstallAllDropInAddOns api s" "ws_daemon x"] by simp
  then show ?case
  proof (cases r)
    case (Ok u)
    show ?thesis
      unfolding followsLoop_def remaining_def using install.hyps(2) by (simp add: Ok afterCall_def l tryM_run(1))
  next
    case (Panic t)
    show ?thesis
      unfolding followsLoop_def using install.hyps(2) by (simp add: Panic afterCall_def l tryM_run(3))
  qed (use noErr in blast)
next
  case (reconnect x r d')
  have l: "watchLoop api s dial (ws_events x @ rest) d = tryM (attemptM (watcher_Connect dial))
      (\<lambda>r. case r of Inl _ \<Rightarrow> ret () | Inr _ \<Rightarrow> watchLoop api s dial rest) (ws_daemon x)" for rest
    using reconnect.prems reconnect.hyps(1) by (simp add: followsLoop_def remaining_def)
  show ?case
    by (cases r) (simp_all add: followsLoop_def remaining_def afterCall_def l tryM_def attemptM_def reconnect.hyps(2) ret_def)
qed (simp_all add: followsLoop_def)

lemma followsLoop_reachable:
  assumes "watchReachable api s dial d x"
  shows "followsLoop api s dial d x"
  using assms unfolding watchReachable_def
proof (induction rule: rtranclp_induct)
  case base
  show ?case by (simp add: followsLoop_def watchStart_def remaining_def)
next
  case (step y z)
  show ?case by (rule followsLoop_step [OF step.hyps(2) step.IH])
qed

text \<open>
  C29. Whatever the interleaving of the listener, the watcher and a caller that stops it: between two events the
  daemon is as the sequential loop leaves it after the events the watcher has received so far, and when the
  watcher has returned the loop has ended with the daemon as it is, whatever events would follow.
\<close>

theorem watcher_follows_its_loop:
  assumes "watchReachable api s dial d x"
  shows "(ws_watcher x = W_Select \<longrightarrow> watchLoop api s dial (ws_events x) d = (Ok (), ws_daemon x))
    \<and> (ws_watcher x = W_Returned \<longrightarrow> (\<forall>rest. watchLoop api s dial (ws_events x @ rest) d = (Ok (), ws_daemon x)))
    \<and> (ws_watcher x = W_Panicked \<longrightarrow> (\<exists>t. watchLoop api s dial (ws_events x) d = (Panic t, ws_daemon x)))"
proof -
  note f = followsLoop_reachable [OF assms, unfolded followsLoop_def]
  from spec [OF f, of "[]"] f show ?thesis by (auto simp: remaining_def ret_def split: if_splits)
qed

definition hasGivenUp :: "watcherPc \<Rightarrow> bool" where
  "hasGivenUp pc \<longleftrightarrow> pc \<in> {W_Returned, W_Panicked}"

definition hopelessStop :: "'w watchSystem \<Rightarrow> bool" where
  "hopelessStop x \<longleftrightarrow> hasGivenUp (ws_watcher x) \<and> ws_stopper x \<noteq> P_Returned"

lemma hopelessStop_step: "watchStep api s dial x y \<Longrightarrow> hopelessStop x \<Longrightarrow> hopelessStop y"
  by (induction rule: watchStep.induct) (auto simp: hopelessStop_def hasGivenUp_def)

lemma hopelessStop_steps: "(watchStep api s dial)\<^sup>*\<^sup>* x y \<Longrightarrow> hopelessStop x \<Longrightarrow> hopelessStop y"
  by (induction rule: rtranclp_induct) (auto intro: hopelessStop_step)

lemma one_step: "R x y \<Longrightarrow> P y \<Longrightarrow> \<exists>y. R\<^sup>*\<^sup>* x y \<and> P y"
  by blast

lemma stop_at_select:
  assumes "ws_stopper x = P_Sending" and "ws_watcher x = W_Select \<or> hasGivenUp (ws_watcher x)"
  shows "\<exists>y. (watchStep api s dial)\<^sup>*\<^sup>* x y \<and> (ws_stopper y = P_Returned \<or> hasGivenUp (ws_watcher y))"
proof (cases "ws_watcher x = W_Select")
  case True
  from watchStep.hand_stop [OF assms(1) True, of api s dial] show ?thesis by (rule one_step) simp
qed (use assms(2) in auto)

text \<open>
  C30. Stopping the watcher. Once the watcher has given up, because it could not reconnect, a caller that has not
  been answered yet never will be: \<^verbatim>\<open>StopSWUpdateWatcher\<close> sends to nobody. As long as the watcher has not given up,
  a caller can still be answered, unless the watcher gives up over the installation or the reconnection it is at.
\<close>

theorem stop_hangs_after_giving_up:
  "(hopelessStop x \<and> (watchStep api s dial)\<^sup>*\<^sup>* x y \<longrightarrow> ws_stopper y \<noteq> P_Returned)
    \<and> (ws_stopper z = P_Sending \<longrightarrow>
        (\<exists>y. (watchStep api s dial)\<^sup>*\<^sup>* z y \<and> (ws_stopper y = P_Returned \<or> hasGivenUp (ws_watcher y))))"
proof (intro conjI impI, goal_cases)
  case 1
  then show ?case using hopelessStop_steps [of api s dial x y] by (simp add: hopelessStop_def)
next
  case 2
  have "\<exists>z'. (watchStep api s dial)\<^sup>*\<^sup>* z z' \<and> ws_stopper z' = P_Sending \<and> (ws_watcher z' = W_Select \<or> hasGivenUp (ws_watcher z'))"
  proof (cases "ws_watcher z")
    case W_Installing
    obtain r d where "ignoreM (InstallAllDropInAddOns api s) (ws_daemon z) = (r, d)" by force
    from watchStep.install [OF W_Installing this, of dial] show ?thesis
      by (rule one_step) (use 2 in \<open>auto simp: afterCall_def hasGivenUp_def split: res.splits\<close>)
  next
    case W_Reconnecting
    obtain r d where "watcher_Connect dial (ws_daemon z) = (r, d)" by force
    from watchStep.reconnect [OF W_Reconnecting this, of api s] show ?thesis
      by (rule one_step) (use 2 in \<open>auto simp: afterCall_def hasGivenUp_def split: res.splits\<close>)
  qed (use 2 in \<open>auto simp: hasGivenUp_def\<close>)
  then obtain z' where z': "(watchStep api s dial)\<^sup>*\<^sup>* z z'" "ws_stopper z' = P_Sending"
    "ws_watcher z' = W_Select \<or> hasGivenUp (ws_watcher z')" by blast
  from stop_at_select [OF z'(2,3)] z'(1) show ?case by (meson rtranclp_trans)
qed

text \<open>
  The listener starts its next read before the watcher has replaced the connection, so it may fail on the lost
  connection a second time: the watcher then drops the fresh connection for another one, and the listener is
  left reading the one the watcher has dropped.
\<close>

lemma lost_connection_is_dialled_twice:
  assumes "\<And>d. \<exists>d'. watcher_Connect dial d = (Ok (), d')"
  shows "\<exists>x. watchReachable api s dial d x \<and> ws_broken x = [0, 0] \<and> ws_conn x = 2 \<and> ws_listener x = L_Reading 1"
proof -
  obtain d1 where d1: "watcher_Connect dial d = (Ok (), d1)" using assms by blast
  obtain d2 where d2: "watcher_Connect dial d1 = (Ok (), d2)" using assms by blast
  let ?x = "watchStart d"
  let ?x1 = "?x\<lparr>ws_listener := L_Reading 0\<rparr>"
  let ?x2 = "?x1\<lparr>ws_listener := L_SendError [] 0, ws_broken := [0]\<rparr>"
  let ?x3 = "?x2\<lparr>ws_listener := L_Loop, ws_watcher := W_Reconnecting, ws_events := [ReadError]\<rparr>"
  let ?x4 = "?x3\<lparr>ws_listener := L_Reading 0\<rparr>"
  let ?x5 = "?x4\<lparr>ws_watcher := W_Select, ws_daemon := d1, ws_conn := 1\<rparr>"
  let ?x6 = "?x5\<lparr>ws_listener := L_SendError [] 0, ws_broken := [0, 0]\<rparr>"
  let ?x7 = "?x6\<lparr>ws_listener := L_Loop, ws_watcher := W_Reconnecting, ws_events := [ReadError, ReadError]\<rparr>"
  let ?x8 = "?x7\<lparr>ws_listener := L_Reading 1\<rparr>"
  let ?x9 = "?x8\<lparr>ws_watcher := W_Select, ws_daemon := d2, ws_conn := 2\<rparr>"
  have "watchStep api s dial ?x ?x1" using watchStep.listen [of ?x "[]" "L_Reading (ws_conn ?x)" api s dial] by (simp add: watchStart_def)
  moreover have "watchStep api s dial ?x1 ?x2" using watchStep.listen [of ?x1 "[0]" "L_SendError [] 0" api s dial] by (simp add: watchStart_def)
  moreover have "watchStep api s dial ?x2 ?x3"
    using watchStep.hand_over [of ?x2 "[]" ReadError L_Loop api s dial] by (simp add: watchStart_def afterRead_def selected_def)
  moreover have "watchStep api s dial ?x3 ?x4" using watchStep.listen [of ?x3 "[]" "L_Reading (ws_conn ?x3)" api s dial] by (simp add: watchStart_def)
  moreover have "watchStep api s dial ?x4 ?x5"
    using watchStep.reconnect [of ?x4 dial "Ok ()" d1 api s] d1 by (simp add: watchStart_def afterCall_def)
  moreover have "watchStep api s dial ?x5 ?x6" using watchStep.listen [of ?x5 "[0]" "L_SendError [] 0" api s dial] by (simp add: watchStart_def)
  moreover have "watchStep api s dial ?x6 ?x7"
    using watchStep.hand_over [of ?x6 "[]" ReadError L_Loop api s dial] by (simp add: watchStart_def afterRead_def selected_def)
  moreover have "watchStep api s dial ?x7 ?x8" using watchStep.listen [of ?x7 "[]" "L_Reading (ws_conn ?x7)" api s dial] by (simp add: watchStart_def)
  moreover have "watchStep api s dial ?x8 ?x9"
    using watchStep.reconnect [of ?x8 dial "Ok ()" d2 api s] d2 by (simp add: watchStart_def afterCall_def numeral_2_eq_2)
  ultimately have "watchReachable api s dial d ?x9"
    unfolding watchReachable_def by (meson converse_rtranclp_into_rtranclp rtranclp.rtrancl_refl)
  then show ?thesis by (intro exI [of _ ?x9]) (simp add: watchStart_def)
qed

text \<open>A watcher that has received a success and lost its connection for good, on a daemon that cannot reconnect.\<close>

definition noSocket :: "('s, unit) go" where
  "noSocket = fail (ErrorString ''connect: no such file or directory'')"

definition strandedWatcher :: "'w Daemon \<Rightarrow> 'w watchSystem" where
  "strandedWatcher d =
     \<lparr>ws_listener = L_Reading 0, ws_watcher = W_Returned, ws_stopper = P_Before, ws_conn = 0, ws_daemon = d, ws_events = [ReadError],
      ws_broken = [0]\<rparr>"

lemma no_reconnection: "watcher_Connect noSocket d = (Err (ErrorString ''connect: no such file or directory''), d)"
  by (simp add: watcher_Connect_def connectionAttempts_def noSocket_def tryM_def attemptM_def eval_nat_numeral)

lemma stranded_reachable: "watchReachable api s noSocket d (strandedWatcher d)"
proof -
  let ?x = "watchStart d"
  let ?x1 = "?x\<lparr>ws_listener := L_Reading 0\<rparr>"
  let ?x2 = "?x1\<lparr>ws_listener := L_SendError [] 0, ws_broken := [0]\<rparr>"
  let ?x3 = "?x2\<lparr>ws_listener := L_Loop, ws_watcher := W_Reconnecting, ws_events := [ReadError]\<rparr>"
  let ?x4 = "?x3\<lparr>ws_watcher := W_Returned\<rparr>"
  have "watchStep api s noSocket ?x ?x1" using watchStep.listen [of ?x "[]" "L_Reading (ws_conn ?x)" api s noSocket] by (simp add: watchStart_def)
  moreover have "watchStep api s noSocket ?x1 ?x2"
    using watchStep.listen [of ?x1 "[0]" "L_SendError [] 0" api s noSocket] by (simp add: watchStart_def)
  moreover have "watchStep api s noSocket ?x2 ?x3"
    using watchStep.hand_over [of ?x2 "[]" ReadError L_Loop api s noSocket] by (simp add: watchStart_def afterRead_def selected_def)
  moreover have "watchStep api s noSocket ?x3 ?x4"
    using watchStep.reconnect [of ?x3 noSocket _ d api s] no_reconnection [of d] by (simp add: watchStart_def afterCall_def)
  moreover have "watchStep api s noSocket ?x4 (strandedWatcher d)"
    using watchStep.listen [of ?x4 "[]" "L_Reading (ws_conn ?x4)" api s noSocket] by (simp add: watchStart_def strandedWatcher_def)
  ultimately show ?thesis
    unfolding watchReachable_def by (meson converse_rtranclp_into_rtranclp rtranclp.rtrancl_refl)
qed

theorem watcher_follows_its_loop_witness:
  "watchLoop dotted_version_api sampleFileServer noSocket [ReadError, StatusMessage (writeProgressMsg sampleMessage)] (sampleDaemon (deviceWorld []))
     = (Ok (), sampleDaemon (deviceWorld []))"
  using watcher_follows_its_loop [OF stranded_reachable [of dotted_version_api sampleFileServer "sampleDaemon (deviceWorld [])"]]
  by (simp add: strandedWatcher_def del: watchLoop.simps)

theorem stop_hangs_after_giving_up_witness:
  "\<not> (\<exists>y. (watchStep dotted_version_api sampleFileServer noSocket)\<^sup>*\<^sup>* (strandedWatcher (sampleDaemon (deviceWorld []))) y
       \<and> ws_stopper y = P_Returned)
     \<and> (\<exists>y. (watchStep dotted_version_api sampleFileServer noSocket)\<^sup>*\<^sup>*
           (watchStart (sampleDaemon (deviceWorld []))\<lparr>ws_stopper := P_Sending\<rparr>) y
       \<and> (ws_stopper y = P_Returned \<or> hasGivenUp (ws_watcher y)))"
proof -
  let ?d = "sampleDaemon (deviceWorld [])"
  have "hopelessStop (strandedWatcher ?d)" by (simp add: hopelessStop_def hasGivenUp_def strandedWatcher_def)
  moreover have "ws_stopper (watchStart ?d\<lparr>ws_stopper := P_Sending\<rparr>) = P_Sending" by simp
  ultimately show ?thesis
    using stop_hangs_after_giving_up [where api = dotted_version_api and s = sampleFileServer and dial = noSocket and
        x = "strandedWatcher ?d" and z = "watchStart ?d\<lparr>ws_stopper := P_Sending\<rparr>"] by blast
qed

end
