(* ===== verification/Spec2Isabelle.thy ===== *)
theory Spec2Isabelle
  imports CommandLine Containerd DBus HeartBeat IndexBuilder Isolation MigratingRegistry Startup Update Watcher
begin

text \<open>
  A verification development for \<^verbatim>\<open>uc-aom\<close>, the add-on manager of u-control devices. All file names below are
  relative to \<^verbatim>\<open>src/internal\<close>.

  \<^bold>\<open>The program.\<close> The daemon \<^verbatim>\<open>uc-aomd\<close> (\<^verbatim>\<open>aom\<close>) installs, updates, configures and deletes add-ons. An add-on is
  a package in an OCI registry or in a drop-in folder: a manifest with a logo, and Docker images. Its parts call
  each other from the top down: the gRPC server and the file server open a transaction and call the routines of
  the service; the service pulls the add-on through a catalogue, which pulls it through a registry, and creates
  the stack, the routes and the permission; a rollback undoes what was created. At its start the daemon stops the
  add-ons, migrates the installation and the stacks of older versions, creates the bridge network and starts
  the add-ons. The packager \<^verbatim>\<open>uc-aop\<close> (\<^verbatim>\<open>aop\<close>) makes packages and publishes, pulls and exports them. \<^verbatim>\<open>pkg\<close> holds what
  both share: manifests, versions, the graph of a package.

  \<^bold>\<open>How code is modelled.\<close> A Go function that can fail is a function of type \<open>('s, 'a) go\<close>: a state goes in, a result
  (\<open>Ok\<close>, \<open>Err\<close> with the error value, \<open>Panic\<close>) and the new state come out. \<open>tryM\<close> is the test of an error and
  the early return, \<open>deferM\<close> the deferred call, \<open>attemptM\<close> a call whose error is inspected, \<open>ignoreM\<close> one whose error
  is dropped, \<open>eachM\<close> a loop that returns at the first error, \<open>onPart\<close> a call on one part of the state. Structs are
  records, maps are association lists with \<open>None\<close> for nil, \<^verbatim>\<open>int64\<close> and \<^verbatim>\<open>uint64\<close> are 64 bit words. The interfaces of the
  program are records of functions, as they are passed in the code; what a theorem needs of one that is
  implemented outside the repository is a named hypothesis, and its witness instantiates it.

  \<^bold>\<open>The theories.\<close>

  \<^item> \<open>Prelude\<close>: results, errors, the vocabulary above, strings, maps, sorting; \<open>keeps R m\<close>, which says that \<open>R\<close>
    relates the state before \<open>m\<close> to the state after it, and the locale \<open>step_relation\<close> with its rules. Every frame
    property of a component is an interpretation of that locale (\<open>onlyIn\<close>: only these paths change; \<open>untouched\<close>: one file stays; \<open>grows\<close>: a
    store only grows; \<open>workOnly\<close>: a directory of one's own; \<open>reads\<close>: nothing changes).
  \<^item> \<open>Version\<close> (\<^verbatim>\<open>pkg/manifest/version.go\<close>): the parts of an add-on version and the order of versions; sorting.
  \<^item> \<open>Manifest\<close>, \<open>Migration\<close> (\<^verbatim>\<open>pkg/manifest\<close>, \<^verbatim>\<open>aom/manifest/settings.go\<close>): the manifest, its JSON form, validation and the
    migration from version 0.1 to 0.2; round trip, when the migration succeeds and what it changes.
  \<^item> \<open>FileSystem\<close>: an explicit store of files, links and directories, the calls of \<^verbatim>\<open>os\<close> and \<^verbatim>\<open>path/filepath\<close> on it,
    \<^verbatim>\<open>aom/utils/file.go\<close> and the closures of \<^verbatim>\<open>aom/cmd/aom.go\<close>.
  \<^item> \<open>Routes\<close>, \<open>Iam\<close>, \<open>Compose\<close>, \<open>Capabilities\<close>, \<open>VolumeDriver\<close> (\<^verbatim>\<open>aom/routes\<close>, \<^verbatim>\<open>aom/iam\<close>, \<^verbatim>\<open>aom/yaml\<close>, \<^verbatim>\<open>aom/system\<close> and the checks
    of \<^verbatim>\<open>aom/service\<close>, the volume drivers of \<^verbatim>\<open>aom/docker\<close>): the resources of an add-on; creation undone by deletion, what
    the generated files contain, when a check passes, the drivers as a set of names under every history.
  \<^item> \<open>Registry\<close>, \<open>Catalogue\<close> (\<^verbatim>\<open>aom/registry\<close>, \<^verbatim>\<open>aom/catalogue\<close>, \<^verbatim>\<open>aom/manifest\<close>): drop-in and remote registries, the processing of
    layers, installed and available add-ons.
  \<^item> \<open>GraphBuilder\<close>, \<open>PackageMigration\<close> (\<^verbatim>\<open>pkg/oras-wrapper\<close>, \<^verbatim>\<open>aom/registry/oras_addon_migrate_repository.go\<close>): building the graph
    of a package in a content store; the view that serves packages of the first format as packages of format 1.0.
  \<^item> \<open>MigratingRegistry\<close> (\<^verbatim>\<open>aom/registry/oras_addon_registry.go\<close>): the registry the daemon pulls from, with the map that keeps
    one view per repository as long as the process runs. Its state is the remote registry and that map; the step
    relations say what may happen to them, and a tag once looked at stays pinned.
  \<^item> \<open>Docker\<close>, \<open>Network\<close> (\<^verbatim>\<open>aom/docker/stack_service.go\<close>, \<^verbatim>\<open>aom/status\<close>, \<^verbatim>\<open>aom/env\<close>, \<^verbatim>\<open>aom/network\<close>): stacks on the Docker
    daemon, their status and environment; the bridge network.
  \<^item> \<open>Transaction\<close> (\<^verbatim>\<open>aom/service/transaction.go\<close>, \<^verbatim>\<open>transaction_scheduler.go\<close>): the sequential functions the routines use,
    and an inductive step relation of owner and goroutine with the invariants that hold under every interleaving.
  \<^item> \<open>Service\<close>, \<open>Server\<close>, \<open>FileServer\<close> (\<^verbatim>\<open>aom/service\<close>, \<^verbatim>\<open>aom/server\<close>, \<^verbatim>\<open>aom/fileserver\<close>): the routines with their rollback hooks,
    the gRPC handlers, the installation of drop-in packages. The theorems follow an installation through all of them:
    what fails is rolled back, what commits is complete, nobody without permission changes anything.
  \<^item> \<open>Update\<close> (\<^verbatim>\<open>aom/service/replace_transaction.go\<close>): what a failed update and a failed configuration leave behind after the
    rollback.
  \<^item> \<open>Isolation\<close>: a routine never touches the manifest of another add-on, whatever the package contains; what the unchecked
    name of a request deletes.
  \<^item> \<open>Watcher\<close> (\<^verbatim>\<open>aom/fileserver/swupdate_watcher.go\<close>): the messages of \<^verbatim>\<open>swupdate\<close> byte by byte; listener, watcher and the
    caller that stops it as a step relation, which follows the sequential loop of \<open>FileServer\<close>.
  \<^item> \<open>HeartBeat\<close> (\<^verbatim>\<open>aom/utils/utils.go\<close>, \<^verbatim>\<open>cli\<close>): an operation that runs while signs of life are sent, as a step relation
    with its outcomes; the stream of the listing and the client that reads it.
  \<^item> \<open>DBus\<close> (\<^verbatim>\<open>aom/dbus\<close>): the connections nginx is reloaded through, of a device and of a development build.
  \<^item> \<open>PortainerApi\<close>, \<open>Portainer\<close> (\<^verbatim>\<open>aom/docker/v0_1/portainer\<close>): the generated client, from the parameters of a call to the
    request and from the response to the result or its error text, over the transport of \<^verbatim>\<open>go-openapi\<close>; the
    connection, the token that is renewed, and the deletion of a stack, reported only when Portainer confirms it.
  \<^item> \<open>StackMigration\<close>, \<open>Migrate\<close> (\<^verbatim>\<open>aom/docker/v0_1\<close>, \<^verbatim>\<open>aom/docker/migrate.go\<close>, \<^verbatim>\<open>aom/migrate\<close>): the migration of an
    installation; no data of a volume is lost whatever step fails, and a migration is done once.
  \<^item> \<open>Startup\<close> (\<^verbatim>\<open>aom/cmd/aom.go\<close>, the constructors and default directories): the daemon from its configuration to the
    server it registers; which add-ons are started, which volumes are served, when a start is refused.
  \<^item> \<open>Archive\<close>, \<open>Packager\<close>, \<open>PackageReader\<close>, \<open>PackageDelivery\<close>, \<open>IndexBuilder\<close> (\<^verbatim>\<open>aop\<close>): archives, the commands push, pull and
    export, the way of a package from the packager to the device, and the builder the packager had before
    (\<^verbatim>\<open>aop/packager/oras_graph_builder.go\<close>), whose packages a device refuses.
  \<^item> \<open>Containerd\<close>, \<open>CommandLine\<close> (\<^verbatim>\<open>aop/registry\<close>, \<^verbatim>\<open>aop/cmd\<close>): the adapters that give \<^verbatim>\<open>containerd\<close> the images of a registry;
    the commands with their flags, and a call without a command.

  \<^bold>\<open>Bounds and fuel.\<close> Symbolic links are followed 40 times, the limit of the Linux kernel; beyond it the call fails as it
  does there. The loops of the program end by themselves and are structural recursions, except three: retries and
  the requests for the status of Portainer are bounded by a constant of the code, and removing a platform name
  from a path shortens the text. The migration of a package tells at most 256 Docker images apart, because the
  code writes their index into one byte; the theorem has this bound as a hypothesis.

  \<^bold>\<open>Parameters.\<close> Third-party code and what lies outside the process: \<^verbatim>\<open>hashicorp/go-version\<close>, the JSON schema validator, the
  packages \<^verbatim>\<open>oras\<close>, \<^verbatim>\<open>containerd\<close> and Docker's client, compose service and directory copy, the
  transport of \<^verbatim>\<open>go-openapi\<close>, the parser of JSON text and of session tokens, HTTP, systemd, D-Bus, \<^verbatim>\<open>cobra\<close>, the command \<^verbatim>\<open>docker\<close> and the \<^verbatim>\<open>swupdate\<close> socket, hash functions, clocks, the names \<^verbatim>\<open>os.MkdirTemp\<close> invents, and
  the formats tar, gzip, cpio and YAML, of which the model has the entries or the value. What Docker does to the file
  system of the device is outside the modelled store; the copy of volume data is a call on it.

  \<^bold>\<open>Not modelled.\<close> Of Portainer's generated client the setters and constructors that nothing calls and the checks of its
  models, which the calls do not run; mocks and test helpers; the generated code of gRPC; how \<^verbatim>\<open>cobra\<close> finds commands and prints help. File modes and owners, log
  messages, and the heart beats of the handlers that change something are left out. Handlers run one at a time; what
  runs beside them in the code is the goroutine of a transaction, which the step relation of \<open>Transaction\<close> has, the
  goroutines of the file server (\<open>Watcher\<close>) and those of an operation with heart beats (\<open>HeartBeat\<close>).
\<close>

end
